(* ===== verification/Prelude.thy ===== *)
theory Prelude
  imports
    Complex_Main
    "HOL-Library.Multiset"
    "HOL-Library.List_Lexorder"
    "HOL-Library.Char_ord"
    "HOL-Library.Product_Lexorder"
    "HOL-Library.Sublist"
begin

text \<open>
  What every component of the model shares.

  \<^item> Values: \<open>num\<close> (the exact rational that stands for a Python float or Decimal),
    \<open>py_str\<close> (a string), \<open>exn\<close> (an exception) and \<open>'a result\<close> (a value or the exception that
    was raised instead).
  \<^item> Strings: the methods of \<open>str\<close> the source calls (\<open>strip\<close>, \<open>upper\<close>, \<open>lower\<close>, \<open>join\<close>,
    \<open>in\<close>), and the decimal rendering of integers in f-strings.
  \<^item> Tables: the reading of a pandas frame or of a SQL table as a list of rows, with the
    relational operations the source applies to them (distinct keys keeping the first row, left
    join, grouping by sorted key) and their laws.
\<close>

named_theorems row_simps \<open>lookup and update laws of rows kept in lists\<close>

section \<open>Values and exceptions\<close>

type_synonym num = rat
type_synonym py_str = string

text \<open>
  An exception the source raises. An \<open>ECLException\<close> keeps its machine-readable code and its HTTP
  status; the prose detail is not modelled. The other constructors are the Python or library
  exceptions that surface as an internal error.
\<close>

datatype exn =
    ECLException (exn_code: py_str) (exn_status: int)
  | ValueError py_str
  | KeyError py_str
  | NameError py_str
  | IndexError py_str
  | TypeError py_str
  | MultipleResultsFound
  | NoResultFound
  | IntegrityError py_str
  | StorageError
  | ConnectionError

type_synonym 'a result = "exn + 'a"

section \<open>Strings\<close>

definition py_isspace :: "char \<Rightarrow> bool" where
  "py_isspace c \<longleftrightarrow> of_char c \<in> {9, 10, 11, 12, 13, 28, 29, 30, 31, 32 :: nat}"

definition py_strip :: "py_str \<Rightarrow> py_str" where
  "py_strip s = rev (dropWhile py_isspace (rev (dropWhile py_isspace s)))"

definition upper_char :: "char \<Rightarrow> char" where
  "upper_char c = (let n = of_char c :: nat in if 97 \<le> n \<and> n \<le> 122 then char_of (n - 32) else c)"

definition lower_char :: "char \<Rightarrow> char" where
  "lower_char c = (let n = of_char c :: nat in if 65 \<le> n \<and> n \<le> 90 then char_of (n + 32) else c)"

definition py_upper :: "py_str \<Rightarrow> py_str" where
  "py_upper = map upper_char"

definition py_lower :: "py_str \<Rightarrow> py_str" where
  "py_lower = map lower_char"

fun py_join :: "py_str \<Rightarrow> py_str list \<Rightarrow> py_str" where
  "py_join sep [] = []"
| "py_join sep [x] = x"
| "py_join sep (x # y # zs) = x @ sep @ py_join sep (y # zs)"

definition digit_char :: "nat \<Rightarrow> char" where
  "digit_char d = char_of (48 + d)"

fun show_nat :: "nat \<Rightarrow> py_str" where
  "show_nat n = (if n < 10 then [digit_char n] else show_nat (n div 10) @ [digit_char (n mod 10)])"

declare show_nat.simps [simp del]

definition show_int :: "int \<Rightarrow> py_str" where
  "show_int i = (if i < 0 then ''-'' @ show_nat (nat (- i)) else show_nat (nat i))"

lemma dropWhile_rev_dropWhile_hd:
  "dropWhile P (rev (dropWhile P (rev (dropWhile P s)))) = rev (dropWhile P (rev (dropWhile P s)))"
proof (cases "rev (dropWhile P (rev (dropWhile P s)))")
  case Nil
  then show ?thesis by (metis dropWhile.simps(1))
next
  case (Cons c cs)
  obtain us where us: "rev (dropWhile P s) = us @ dropWhile P (rev (dropWhile P s))"
    by (metis takeWhile_dropWhile_id)
  have "dropWhile P s = rev (dropWhile P (rev (dropWhile P s))) @ rev us"
    using arg_cong [OF us, of rev] by simp
  then have "dropWhile P s = c # cs @ rev us" using Cons by simp
  then have "\<not> P c" by (metis dropWhile_eq_Cons_conv)
  with Cons show ?thesis by simp
qed

lemma py_strip_idem [simp]: "py_strip (py_strip s) = py_strip s"
  unfolding py_strip_def
  by (subst dropWhile_rev_dropWhile_hd) simp

section \<open>Tables as lists of rows\<close>

text \<open>\<open>sorted(set(keys))\<close>: the distinct keys in increasing order.\<close>

definition sorted_unique :: "'k::linorder list \<Rightarrow> 'k list" where
  "sorted_unique ks = sort (remdups ks)"

lemma set_sorted_unique [simp]: "set (sorted_unique ks) = set ks"
  by (simp add: sorted_unique_def)

lemma sorted_sorted_unique [simp]: "sorted (sorted_unique ks)"
  by (simp add: sorted_unique_def)

lemma distinct_sorted_unique [simp]: "distinct (sorted_unique ks)"
  by (simp add: sorted_unique_def)

lemma sorted_unique_Nil [simp]: "sorted_unique [] = []"
  by (simp add: sorted_unique_def)

text \<open>\<open>drop_duplicates(subset=key, keep="first")\<close>.\<close>

fun drop_duplicates :: "('a \<Rightarrow> 'k) \<Rightarrow> 'a list \<Rightarrow> 'a list" where
  "drop_duplicates k [] = []"
| "drop_duplicates k (x # xs) = x # drop_duplicates k (filter (\<lambda>y. k y \<noteq> k x) xs)"

lemma set_drop_duplicates_subset: "set (drop_duplicates k xs) \<subseteq> set xs"
  by (induction k xs rule: drop_duplicates.induct) auto

lemma keys_drop_duplicates [simp]: "k ` set (drop_duplicates k xs) = k ` set xs"
proof (induction k xs rule: drop_duplicates.induct)
  case (2 k x xs)
  have "k ` set (filter (\<lambda>y. k y \<noteq> k x) xs) = k ` set xs - {k x}" by auto
  with 2 show ?case by auto
qed simp

lemma distinct_keys_drop_duplicates [simp]: "distinct (map k (drop_duplicates k xs))"
proof (induction k xs rule: drop_duplicates.induct)
  case (2 k x xs)
  have "k x \<notin> k ` set (drop_duplicates k (filter (\<lambda>y. k y \<noteq> k x) xs))"
    using set_drop_duplicates_subset [of k "filter (\<lambda>y. k y \<noteq> k x) xs"] by auto
  with 2 show ?case by simp
qed simp

lemma drop_duplicates_distinct: "distinct (map k xs) \<Longrightarrow> drop_duplicates k xs = xs"
proof (induction k xs rule: drop_duplicates.induct)
  case (2 k x xs)
  from "2.prems" have "k x \<notin> k ` set xs" by simp
  then have "\<forall>y \<in> set xs. k y \<noteq> k x" by (metis imageI)
  then have "filter (\<lambda>y. k y \<noteq> k x) xs = xs" by (simp add: filter_id_conv)
  with 2 show ?case by simp
qed simp

text \<open>
  A left join: every left row once per matching right row, in the right rows' order, and once
  with no partner when nothing matches.
\<close>

definition left_matches :: "('l \<Rightarrow> 'k) \<Rightarrow> ('r \<Rightarrow> 'k) \<Rightarrow> 'r list \<Rightarrow> 'l \<Rightarrow> ('l \<times> 'r option) list" where
  "left_matches lk rk rs l =
     (case filter (\<lambda>r. rk r = lk l) rs of
        [] \<Rightarrow> [(l, None)]
      | ms \<Rightarrow> map (\<lambda>r. (l, Some r)) ms)"

definition left_merge ::
    "('l \<Rightarrow> 'k) \<Rightarrow> ('r \<Rightarrow> 'k) \<Rightarrow> 'l list \<Rightarrow> 'r list \<Rightarrow> ('l \<times> 'r option) list" where
  "left_merge lk rk ls rs = concat (map (left_matches lk rk rs) ls)"

lemma left_merge_Nil [simp]: "left_merge lk rk [] rs = []"
  by (simp add: left_merge_def)

lemma left_matches_not_Nil [simp]: "left_matches lk rk rs l \<noteq> []"
  by (simp add: left_matches_def split: list.splits)

lemma left_merge_eq_Nil [simp]: "left_merge lk rk ls rs = [] \<longleftrightarrow> ls = []"
  by (cases ls) (auto simp: left_merge_def)

lemma left_matchesD:
  assumes "(l', m) \<in> set (left_matches lk rk rs l)"
  shows "l' = l" and "m = Some r \<Longrightarrow> r \<in> set rs \<and> rk r = lk l"
    and "m = None \<Longrightarrow> \<forall>r \<in> set rs. rk r \<noteq> lk l"
proof -
  consider (none) "filter (\<lambda>r. rk r = lk l) rs = []" "l' = l" "m = None"
    | (some) r0 where "r0 \<in> set (filter (\<lambda>r. rk r = lk l) rs)" "l' = l" "m = Some r0"
    using assms by (cases "filter (\<lambda>r. rk r = lk l) rs") (auto simp: left_matches_def)
  note cs = this
  show "l' = l" using cs by cases auto
  show "r \<in> set rs \<and> rk r = lk l" if "m = Some r" using cs that by cases auto
  show "\<forall>r \<in> set rs. rk r \<noteq> lk l" if "m = None" using cs that by cases (auto simp: filter_empty_conv)
qed

lemma left_mergeD:
  assumes "(l, m) \<in> set (left_merge lk rk ls rs)"
  shows "l \<in> set ls" and "m = Some r \<Longrightarrow> r \<in> set rs \<and> rk r = lk l"
    and "m = None \<Longrightarrow> \<forall>r \<in> set rs. rk r \<noteq> lk l"
proof -
  from assms obtain l0 where l0: "l0 \<in> set ls" "(l, m) \<in> set (left_matches lk rk rs l0)"
    by (auto simp: left_merge_def)
  note D = left_matchesD [OF l0(2)]
  show "l \<in> set ls" using D(1) l0(1) by simp
  show "r \<in> set rs \<and> rk r = lk l" if "m = Some r" using D(1,2) that by auto
  show "\<forall>r \<in> set rs. rk r \<noteq> lk l" if "m = None" using D(1,3) that by auto
qed

lemma fst_left_merge_set: "fst ` set (left_merge lk rk ls rs) = set ls"
proof -
  have *: "fst ` set (left_matches lk rk rs l) = {l}" for l
    using left_matchesD(1) [of _ _ lk rk rs l] left_matches_not_Nil [of lk rk rs l]
    by (cases "left_matches lk rk rs l") (force simp: image_iff)+
  have "fst ` set (left_merge lk rk ls rs) = (\<Union>l \<in> set ls. fst ` set (left_matches lk rk rs l))"
    by (auto simp: left_merge_def image_iff)
  with * show ?thesis by auto
qed

text \<open>With distinct right keys a left join keeps the left rows one for one.\<close>

lemma left_matches_unique:
  assumes "distinct (map rk rs)"
  shows "left_matches lk rk rs l = [(l, find (\<lambda>r. rk r = lk l) rs)]"
  using assms
proof (induction rs)
  case (Cons r rs)
  have "filter (\<lambda>x. rk x = lk l) rs = []" if "rk r = lk l"
    using Cons.prems that by (force simp: filter_empty_conv)
  then show ?case using Cons by (auto simp: left_matches_def)
qed (simp add: left_matches_def)

lemma left_merge_unique:
  assumes "distinct (map rk rs)"
  shows "left_merge lk rk ls rs = map (\<lambda>l. (l, find (\<lambda>r. rk r = lk l) rs)) ls"
  by (induction ls) (auto simp: left_merge_def left_matches_unique [OF assms])

text \<open>\<open>groupby(key, sort=True)\<close>: one group per distinct key, keys increasing, rows in order.\<close>

definition group_rows :: "('a \<Rightarrow> 'k) \<Rightarrow> 'k \<Rightarrow> 'a list \<Rightarrow> 'a list" where
  "group_rows k v xs = filter (\<lambda>x. k x = v) xs"

definition groups :: "('a \<Rightarrow> 'k::linorder) \<Rightarrow> 'a list \<Rightarrow> ('k \<times> 'a list) list" where
  "groups k xs = map (\<lambda>v. (v, group_rows k v xs)) (sorted_unique (map k xs))"

lemma groups_Nil [simp]: "groups k [] = []"
  by (simp add: groups_def)

lemma set_group_rows [simp]: "set (group_rows k v xs) = {x \<in> set xs. k x = v}"
  by (simp add: group_rows_def)

lemma groups_not_Nil: "(v, g) \<in> set (groups k xs) \<Longrightarrow> g \<noteq> []"
  by (auto simp: groups_def group_rows_def filter_empty_conv)

text \<open>Summing per group and then over the groups is summing over the rows.\<close>

lemma sum_list_filter_partition:
  assumes "distinct vs" "k ` set xs \<subseteq> set vs"
  shows "(\<Sum>v\<leftarrow>vs. \<Sum>x\<leftarrow>filter (\<lambda>x. k x = v) xs. f x) = (\<Sum>x\<leftarrow>xs. (f x :: 'c::comm_monoid_add))"
  using assms(2)
proof (induction xs)
  case Nil
  show ?case by (induction vs) auto
next
  case (Cons x xs)
  have "(\<Sum>v\<leftarrow>vs. \<Sum>y\<leftarrow>filter (\<lambda>y. k y = v) (x # xs). f y)
      = (\<Sum>v\<leftarrow>vs. (if k x = v then f x else 0) + (\<Sum>y\<leftarrow>filter (\<lambda>y. k y = v) xs. f y))"
    by (rule arg_cong [where f = sum_list], rule map_cong) auto
  also have "\<dots> = (\<Sum>v\<leftarrow>vs. if k x = v then f x else 0) + (\<Sum>v\<leftarrow>vs. \<Sum>y\<leftarrow>filter (\<lambda>y. k y = v) xs. f y)"
    by (simp add: sum_list_addf)
  also have "(\<Sum>v\<leftarrow>vs. if k x = v then f x else 0) = f x"
    using assms(1) Cons.prems by (simp add: sum_list_distinct_conv_sum_set)
  finally show ?case using Cons by simp
qed

lemma sum_groups:
  "(\<Sum>(v, g)\<leftarrow>groups k xs. \<Sum>x\<leftarrow>g. f x) = (\<Sum>x\<leftarrow>xs. (f x :: 'c::comm_monoid_add))"
proof -
  have "(\<Sum>(v, g)\<leftarrow>groups k xs. \<Sum>x\<leftarrow>g. f x)
      = (\<Sum>v\<leftarrow>sorted_unique (map k xs). \<Sum>x\<leftarrow>filter (\<lambda>x. k x = v) xs. f x)"
    by (simp add: groups_def group_rows_def comp_def)
  also have "\<dots> = (\<Sum>x\<leftarrow>xs. f x)"
    by (rule sum_list_filter_partition) auto
  finally show ?thesis .
qed

text \<open>Bounds on sums of lists.\<close>

lemma sum_list_nonneg_map:
  "(\<And>x. x \<in> set xs \<Longrightarrow> (0::'a::ordered_comm_monoid_add) \<le> f x) \<Longrightarrow> 0 \<le> (\<Sum>x\<leftarrow>xs. f x)"
  by (rule sum_list_nonneg) auto

lemma sum_list_nonneg_ge_member:
  "(\<And>y. y \<in> set xs \<Longrightarrow> (0::num) \<le> f y) \<Longrightarrow> x \<in> set xs \<Longrightarrow> f x \<le> (\<Sum>y\<leftarrow>xs. f y)"
proof (induction xs)
  case (Cons y ys)
  then have "0 \<le> (\<Sum>z\<leftarrow>ys. f z)" by (intro sum_list_nonneg_map) simp
  with Cons show ?case by (auto intro: add_increasing)
qed simp

text \<open>
  A table laid out group after group: the groups are recovered, in order, by their key. The list
  \<open>ks\<close> holds the keys and \<open>h k\<close> the rows of group \<open>k\<close>.
\<close>

lemma filter_concat_blocks:
  assumes "distinct ks" "\<And>k x. k \<in> set ks \<Longrightarrow> x \<in> set (h k) \<Longrightarrow> g x = k" "k \<in> set ks"
  shows "group_rows g k (concat (map h ks)) = h k"
  using assms
proof (induction ks)
  case (Cons k' ks)
  have rest: "group_rows g k (concat (map h ks)) = []" if "k \<notin> set ks"
    using that Cons.prems(2) by (auto simp: group_rows_def filter_empty_conv)
  have head: "group_rows g k (h k') = (if k = k' then h k' else [])"
    using Cons.prems(2) [of k'] by (auto simp: group_rows_def filter_empty_conv filter_id_conv)
  show ?case
  proof (cases "k = k'")
    case True
    with Cons.prems(1) rest head show ?thesis by (simp add: group_rows_def)
  next
    case False
    with Cons head have "group_rows g k (concat (map h ks)) = h k" by auto
    with False head show ?thesis by (simp add: group_rows_def)
  qed
qed simp

lemma filter_keys_blocks:
  assumes "k' \<notin> set ks" "\<And>k x. k \<in> set ks \<Longrightarrow> x \<in> set (h k) \<Longrightarrow> g x = k"
  shows "filter (\<lambda>y. y \<noteq> k') (map g (concat (map h ks))) = map g (concat (map h ks))"
  using assms by (auto simp: filter_id_conv)

lemma drop_duplicates_block:
  assumes "\<And>x. x \<in> set xs \<Longrightarrow> g x = k" "xs \<noteq> []" "filter (\<lambda>y. y \<noteq> k) ys = ys"
  shows "drop_duplicates id (map g xs @ ys) = k # drop_duplicates id ys"
proof (cases xs)
  case (Cons x xs')
  have "filter (\<lambda>y. y \<noteq> k) (map g xs') = []"
    using assms(1) Cons by (auto simp: filter_empty_conv)
  then show ?thesis using assms Cons by simp
qed (use assms in simp)

lemma drop_duplicates_blocks:
  assumes "distinct ks" "\<And>k x. k \<in> set ks \<Longrightarrow> x \<in> set (h k) \<Longrightarrow> g x = k"
    "\<And>k. k \<in> set ks \<Longrightarrow> h k \<noteq> []"
  shows "drop_duplicates id (map g (concat (map h ks))) = ks"
  using assms
proof (induction ks)
  case (Cons k ks)
  have "filter (\<lambda>y. y \<noteq> k) (map g (concat (map h ks))) = map g (concat (map h ks))"
    using Cons.prems by (intro filter_keys_blocks) auto
  then have "drop_duplicates id (map g (h k) @ map g (concat (map h ks)))
      = k # drop_duplicates id (map g (concat (map h ks)))"
    using Cons.prems by (intro drop_duplicates_block) auto
  with Cons show ?case by (simp add: id_def)
qed simp

lemma zip_concat_blocks:
  assumes "\<And>k. k \<in> set ks \<Longrightarrow> length (f k) = length (g k)"
  shows "zip (concat (map f ks)) (concat (map g ks)) = concat (map (\<lambda>k. zip (f k) (g k)) ks)"
  using assms by (induction ks) auto

text \<open>The lexicographic product of strictly increasing lists is strictly increasing.\<close>

lemma strict_sorted_product:
  assumes "sorted_wrt (<) xs" "sorted_wrt (<) ys"
  shows "sorted_wrt (<) (List.product xs (ys :: 'b::linorder list) :: ('a::linorder \<times> 'b) list)"
  using assms by (induction xs) (auto simp: sorted_wrt_append sorted_wrt_map less_prod_def)

text \<open>A list with the same rows and strictly increasing keys is the sorted one.\<close>

lemma sort_key_strictly_sorted:
  assumes "set xs = set ys" "length xs = length ys" "sorted_wrt (<) (map f ys)"
  shows "sort_key f xs = ys"
proof (rule map_sorted_distinct_set_unique [where f = f])
  have ys: "sorted (map f ys)" "distinct (map f ys)"
    using assms(3) by (simp_all add: strict_sorted_iff)
  have "card (set (map f xs)) = card (set (map f ys))" using assms(1) by simp
  also have "\<dots> = length (map f xs)" using distinct_card [OF ys(2)] assms(2) by simp
  finally have dx: "distinct (map f xs)" by (rule card_distinct)
  show "inj_on f (set (sort_key f xs) \<union> set ys)"
    using ys(2) assms(1) by (simp add: distinct_map)
  show "distinct (map f (sort_key f xs))" using dx by (simp add: distinct_map)
  show "sorted (map f ys)" "distinct (map f ys)" by (fact ys)+
qed (use assms in simp_all)

lemma product_blocks:
  "concat (map (\<lambda>k. map (\<lambda>m. (fst k, snd k, m)) ms) (List.product as bs))
   = List.product as (List.product bs ms)"
proof (induction as)
  case (Cons a as)
  have "concat (map (\<lambda>b. map (\<lambda>m. (a, b, m)) ms) bs) = map (Pair a) (List.product bs ms)"
    by (induction bs) auto
  with Cons show ?case by (simp add: comp_def)
qed simp

text \<open>A key that is unique in a table selects one row.\<close>

lemma filter_name_unique:
  assumes "distinct (map f xs)" "x \<in> set xs"
  shows "filter (\<lambda>y. f y = f x) xs = [x]"
  using assms
proof (induction xs)
  case (Cons a xs)
  show ?case
  proof (cases "x = a")
    case True
    then have "\<forall>y \<in> set xs. f y \<noteq> f x" using Cons.prems(1) by (metis distinct.simps(2) image_eqI list.set_map list.simps(9))
    with True show ?thesis by (auto simp: filter_empty_conv)
  next
    case False
    then have "f a \<noteq> f x" using Cons.prems by (metis distinct.simps(2) image_eqI list.set_map list.simps(9) set_ConsD)
    with False Cons show ?thesis by auto
  qed
qed simp

lemma mset_groups: "mset (concat (map snd (groups k xs))) = mset xs"
proof -
  have "mset (concat (map snd (groups k xs)))
      = (\<Sum>v\<leftarrow>sorted_unique (map k xs). \<Sum>x\<leftarrow>filter (\<lambda>x. k x = v) xs. {#x#})"
    by (simp add: mset_concat groups_def group_rows_def comp_def)
  also have "\<dots> = (\<Sum>x\<leftarrow>xs. {#x#})" by (rule sum_list_filter_partition) auto
  finally show ?thesis by simp
qed

lemma groupsD: "(v, g) \<in> set (groups k xs) \<Longrightarrow> g = group_rows k v xs \<and> v \<in> k ` set xs"
  by (auto simp: groups_def)

lemma find_SomeD: "find P xs = Some x \<Longrightarrow> x \<in> set xs \<and> P x"
  by (induction xs) (auto split: if_splits)

lemma find_NoneD: "find P xs = None \<Longrightarrow> x \<in> set xs \<Longrightarrow> \<not> P x"
  by (induction xs) (auto split: if_splits)

lemma map_pair_zip: "map (\<lambda>x. (f x, g x)) xs = zip (map f xs) (map g xs)"
  by (induction xs) auto

lemma sorted_unique_cong: "set xs = set ys \<Longrightarrow> sorted_unique xs = sorted_unique ys"
  by (rule sorted_distinct_set_unique) simp_all

end
