(* ===== verification/Calendar.thy ===== *)
theory Calendar
  imports Prelude
begin

text \<open>
  Calendar dates as the engines use them: the day part of a pandas timestamp, ordered
  lexicographically, and the two operations the source applies to it. \<open>months_between\<close> is the
  helper of \<^verbatim>\<open>app/engine/ead_engine.py\<close>. \<open>pd.DateOffset(months=k)\<close> belongs to pandas: it is a
  parameter of the definitions that use it, and \<open>date_offset_law\<close> states its documented meaning
  (shift the month by \<open>k\<close>, keep the day, clip it to the length of the month reached).
\<close>

datatype date = Date (yr: int) (mo: int) (dy: int)

instantiation date :: linorder
begin

definition less_eq_date :: "date \<Rightarrow> date \<Rightarrow> bool" where
  "less_eq_date a b \<longleftrightarrow> (yr a, mo a, dy a) \<le> (yr b, mo b, dy b)"

definition less_date :: "date \<Rightarrow> date \<Rightarrow> bool" where
  "less_date a b \<longleftrightarrow> (yr a, mo a, dy a) < (yr b, mo b, dy b)"

instance
  by standard (auto simp: less_eq_date_def less_date_def date.expand)

end

definition is_leap :: "int \<Rightarrow> bool" where
  "is_leap y \<longleftrightarrow> 4 dvd y \<and> (\<not> 100 dvd y \<or> 400 dvd y)"

definition days_in_month :: "int \<Rightarrow> int \<Rightarrow> int" where
  "days_in_month y m =
     (if m = 2 then (if is_leap y then 29 else 28)
      else if m \<in> {4, 6, 9, 11} then 30 else 31)"

definition valid_date :: "date \<Rightarrow> bool" where
  "valid_date d \<longleftrightarrow> 1 \<le> mo d \<and> mo d \<le> 12 \<and> 1 \<le> dy d \<and> dy d \<le> days_in_month (yr d) (mo d)"

text \<open>Months since year 0; January of year \<open>y\<close> has index \<open>12 * y\<close>.\<close>

definition month_index :: "date \<Rightarrow> int" where
  "month_index d = 12 * yr d + (mo d - 1)"

definition shift_months :: "date \<Rightarrow> int \<Rightarrow> date" where
  "shift_months d k =
     (let i = month_index d + k; y = i div 12; m = i mod 12 + 1
      in Date y m (min (dy d) (days_in_month y m)))"

definition date_offset_law :: "(date \<Rightarrow> int \<Rightarrow> date) \<Rightarrow> bool" where
  "date_offset_law off \<longleftrightarrow> (\<forall>d k. off d k = shift_months d k)"

definition months_between :: "date \<Rightarrow> date \<Rightarrow> int" where
  "months_between start end = (yr end - yr start) * 12 + (mo end - mo start)"

lemma date_offset_law_shift [simp]: "date_offset_law shift_months"
  by (simp add: date_offset_law_def)

lemma months_between_index: "months_between a b = month_index b - month_index a"
  by (simp add: months_between_def month_index_def)

lemma month_index_shift [simp]: "month_index (shift_months d k) = month_index d + k"
  by (simp add: shift_months_def month_index_def Let_def)

lemma mo_shift_bounds: "1 \<le> mo (shift_months d k)" "mo (shift_months d k) \<le> 12"
  by (simp_all add: shift_months_def Let_def)

lemma days_in_month_bounds: "28 \<le> days_in_month y m" "days_in_month y m \<le> 31"
  by (auto simp: days_in_month_def)

lemma dy_shift_bounds: "1 \<le> dy d \<Longrightarrow> 1 \<le> dy (shift_months d k)" "dy (shift_months d k) \<le> dy d"
  using days_in_month_bounds(1) by (auto simp: shift_months_def Let_def min_le_iff_disj
      intro: order_trans [of 1 28])

lemma valid_shift: "valid_date d \<Longrightarrow> valid_date (shift_months d k)"
  using mo_shift_bounds [of d k] dy_shift_bounds(1) [of d k]
  by (auto simp: valid_date_def shift_months_def Let_def)

text \<open>The order on dates is the order on months first, for dates with a month between 1 and 12.\<close>

lemma less_of_month_index:
  assumes "1 \<le> mo a" "mo a \<le> 12" "1 \<le> mo b" "mo b \<le> 12" "month_index a < month_index b"
  shows "a < b"
proof -
  have "12 * yr a + mo a < 12 * yr b + mo b" using assms(5) by (simp add: month_index_def)
  with assms(1-4) have "yr a < yr b \<or> (yr a = yr b \<and> mo a < mo b)" by arith
  then show ?thesis by (auto simp: less_date_def less_prod_def less_eq_prod_def)
qed

lemma le_same_month:
  "1 \<le> mo a \<Longrightarrow> mo a \<le> 12 \<Longrightarrow> 1 \<le> mo b \<Longrightarrow> mo b \<le> 12 \<Longrightarrow> month_index a = month_index b \<Longrightarrow>
   a \<le> b \<longleftrightarrow> dy a \<le> dy b"
proof -
  assume b: "1 \<le> mo a" "mo a \<le> 12" "1 \<le> mo b" "mo b \<le> 12" and i: "month_index a = month_index b"
  then have "yr a = yr b \<and> mo a = mo b" by (auto simp: month_index_def) arith+
  then show "a \<le> b \<longleftrightarrow> dy a \<le> dy b" by (auto simp: less_eq_date_def less_eq_prod_def)
qed

lemma le_of_month_index:
  assumes "1 \<le> mo a" "mo a \<le> 12" "1 \<le> mo b" "mo b \<le> 12" "a \<le> b"
  shows "month_index a \<le> month_index b"
proof (rule ccontr)
  assume "\<not> month_index a \<le> month_index b"
  then have "b < a" using assms(1-4) by (intro less_of_month_index) auto
  with \<open>a \<le> b\<close> show False by simp
qed

lemma shift_months_to:
  assumes "1 \<le> mo a" "mo a \<le> 12" "month_index b + k = month_index a"
  shows "shift_months b k = Date (yr a) (mo a) (min (dy b) (days_in_month (yr a) (mo a)))"
proof -
  have "month_index a div 12 = yr a" "month_index a mod 12 = mo a - 1"
    using assms(1,2) by (simp_all add: month_index_def div_pos_pos_trivial mod_pos_pos_trivial)
  with assms(3) show ?thesis by (simp add: shift_months_def Let_def)
qed

end
