(* ===== verification/PdEngine.thy ===== *)
theory PdEngine
  imports Calendar
begin

text \<open>
  The probability-of-default engine, \<^verbatim>\<open>app/engine/pd_engine.py\<close>.

  A PD input row is the record \<open>pd_row\<close>: the columns the pipeline reads, after the reporting
  month column has been resolved and parsed. A missing cell is \<open>None\<close>. The 3x3 matrices of numpy
  are the datatype \<open>mat3\<close>; \<open>numpy.linalg.matrix_power\<close> and \<open>pd.DateOffset\<close> are the parameters
  \<open>mp\<close> and \<open>off\<close>, with \<open>matrix_power_law\<close> and \<open>date_offset_law\<close> for their documented meaning.
  Floats are exact rationals.

  The lemmas show that the normalised matrix is substochastic with an absorbing default stage,
  that its powers stay so, that the cumulative default probability never decreases, and from
  there the bounds and the survival identity of the marginal probabilities.
\<close>

section \<open>Columns and matrices\<close>

definition STAGES :: "py_str list" where
  "STAGES = [''Stage 1'', ''Stage 2'', ''Stage 3'']"

definition OFFBOOKS :: py_str where
  "OFFBOOKS = ''Offbooks''"

definition NEXT_STAGES :: "py_str list" where
  "NEXT_STAGES = STAGES @ [OFFBOOKS]"

definition MAX_PD_MONTH :: nat where
  "MAX_PD_MONTH = 299"

definition DENOM_EPS :: num where
  "DENOM_EPS = 1 / 10 ^ 15"

definition PD_REPORTING_ALIASES :: "py_str list" where
  "PD_REPORTING_ALIASES = [''Reporting Month'', ''Reporting Month (\"As At\")'', ''As At'']"

definition pd_resolve_reporting_month :: "py_str list \<Rightarrow> py_str" where
  "pd_resolve_reporting_month columns =
     (case filter (\<lambda>name. name \<in> set columns) PD_REPORTING_ALIASES of
        name # _ \<Rightarrow> name
      | [] \<Rightarrow> ''Reporting Month'')"

datatype vec3 = Vec3 (v0: num) (v1: num) (v2: num)

datatype mat3 = Mat3 (m0: vec3) (m1: vec3) (m2: vec3)

definition vec_sum :: "vec3 \<Rightarrow> num" where
  "vec_sum v = v0 v + v1 v + v2 v"

definition vec_list :: "vec3 \<Rightarrow> num list" where
  "vec_list v = [v0 v, v1 v, v2 v]"

definition mat_rows :: "mat3 \<Rightarrow> vec3 list" where
  "mat_rows M = [m0 M, m1 M, m2 M]"

definition vec_zero :: vec3 where
  "vec_zero = Vec3 0 0 0"

definition mat_zero :: mat3 where
  "mat_zero = Mat3 vec_zero vec_zero vec_zero"

definition vec_add :: "vec3 \<Rightarrow> vec3 \<Rightarrow> vec3" where
  "vec_add a b = Vec3 (v0 a + v0 b) (v1 a + v1 b) (v2 a + v2 b)"

definition mat_add :: "mat3 \<Rightarrow> mat3 \<Rightarrow> mat3" where
  "mat_add A B = Mat3 (vec_add (m0 A) (m0 B)) (vec_add (m1 A) (m1 B)) (vec_add (m2 A) (m2 B))"

definition vec_mat :: "vec3 \<Rightarrow> mat3 \<Rightarrow> vec3" where
  "vec_mat v M = Vec3 (v0 v * v0 (m0 M) + v1 v * v0 (m1 M) + v2 v * v0 (m2 M))
                      (v0 v * v1 (m0 M) + v1 v * v1 (m1 M) + v2 v * v1 (m2 M))
                      (v0 v * v2 (m0 M) + v1 v * v2 (m1 M) + v2 v * v2 (m2 M))"

definition mat_mult :: "mat3 \<Rightarrow> mat3 \<Rightarrow> mat3" where
  "mat_mult A B = Mat3 (vec_mat (m0 A) B) (vec_mat (m1 A) B) (vec_mat (m2 A) B)"

text \<open>What numpy documents of \<open>matrix_power\<close> for a positive exponent: repeated products.\<close>

definition matrix_power_law :: "(mat3 \<Rightarrow> nat \<Rightarrow> mat3) \<Rightarrow> bool" where
  "matrix_power_law mp \<longleftrightarrow>
     (\<forall>M. mp M 1 = M) \<and> (\<forall>M n. mp M (Suc (Suc n)) = mat_mult (mp M (Suc n)) M)"

definition matrix_to_dict :: "mat3 \<Rightarrow> (py_str \<times> num list) list" where
  "matrix_to_dict M = zip STAGES (map vec_list (mat_rows M))"

section \<open>The pipeline\<close>

record pd_row =
  pdr_loan_id :: py_str
  pdr_month :: date
  pdr_staging :: "py_str option"
  pdr_amount :: num
  pdr_segment :: "py_str option"

text \<open>\<open>_build_monthly_matrix\<close>: amounts summed by stage and next stage; the Offbooks column is cut.\<close>

definition pivot_sum :: "(pd_row \<times> py_str) list \<Rightarrow> py_str \<Rightarrow> py_str \<Rightarrow> num" where
  "pivot_sum month_df stage next_stage =
     (\<Sum>(r, n)\<leftarrow>filter (\<lambda>(r, n). pdr_staging r = Some stage \<and> n = next_stage) month_df. pdr_amount r)"

definition build_monthly_matrix :: "(pd_row \<times> py_str) list \<Rightarrow> mat3" where
  "build_monthly_matrix month_df =
     (let row = (\<lambda>stage. Vec3 (pivot_sum month_df stage ''Stage 1'')
                              (pivot_sum month_df stage ''Stage 2'')
                              (pivot_sum month_df stage ''Stage 3''))
      in Mat3 (row ''Stage 1'') (row ''Stage 2'') (row ''Stage 3''))"

definition row_proportion :: "vec3 \<Rightarrow> vec3" where
  "row_proportion v =
     (let row_total = vec_sum v
      in if row_total > 0 then Vec3 (v0 v / row_total) (v1 v / row_total) (v2 v / row_total)
         else vec_zero)"

definition row_proportions :: "mat3 \<Rightarrow> mat3" where
  "row_proportions M = Mat3 (row_proportion (m0 M)) (row_proportion (m1 M)) (row_proportion (m2 M))"

definition normalize_matrix :: "mat3 \<Rightarrow> mat3" where
  "normalize_matrix P = Mat3 (Vec3 (v0 (m0 P)) (v1 (m0 P) + v2 (m0 P)) 0) (m1 P) (Vec3 0 0 1)"

fun marginal_from :: "num \<Rightarrow> num list \<Rightarrow> num list" where
  "marginal_from prev [] = []"
| "marginal_from prev (s # ss) =
     (let denom = 1 - prev
      in (if denom \<le> DENOM_EPS then 0 else (s - prev) / denom) # marginal_from s ss)"

fun compute_marginal_pd :: "num list \<Rightarrow> num list" where
  "compute_marginal_pd [] = []"
| "compute_marginal_pd (s # ss) = s # marginal_from s ss"

text \<open>Step 1: one row per loan and month, the first one kept, sorted by loan and month.\<close>

definition pd_key :: "pd_row \<Rightarrow> py_str \<times> date" where
  "pd_key r = (pdr_loan_id r, pdr_month r)"

definition pd_dedupe_sort :: "pd_row list \<Rightarrow> pd_row list" where
  "pd_dedupe_sort df = sort_key pd_key (drop_duplicates pd_key df)"

text \<open>Step 2: the staging of the same loan one month later, Offbooks when there is none.\<close>

definition next_lookup :: "(date \<Rightarrow> int \<Rightarrow> date) \<Rightarrow> pd_row list \<Rightarrow> ((py_str \<times> date) \<times> py_str option) list" where
  "next_lookup off working = map (\<lambda>r. ((pdr_loan_id r, off (pdr_month r) (- 1)), pdr_staging r)) working"

definition next_month_staging :: "(date \<Rightarrow> int \<Rightarrow> date) \<Rightarrow> pd_row list \<Rightarrow> (pd_row \<times> py_str) list" where
  "next_month_staging off working =
     map (\<lambda>(r, m). (r, case m of Some (k, Some s) \<Rightarrow> s | _ \<Rightarrow> OFFBOOKS))
       (left_merge pd_key fst working (next_lookup off working))"

definition pd_segments :: "(pd_row \<times> py_str) list \<Rightarrow> py_str list" where
  "pd_segments working = sorted_unique (List.map_filter (\<lambda>(r, n). pdr_segment r) working)"

definition segment_rows :: "(pd_row \<times> py_str) list \<Rightarrow> py_str \<Rightarrow> (pd_row \<times> py_str) list" where
  "segment_rows working segment = filter (\<lambda>(r, n). pdr_segment r = Some segment) working"

text \<open>Steps 3 and 4: one matrix per reporting month, and their sum.\<close>

definition segment_monthly :: "(pd_row \<times> py_str) list \<Rightarrow> (date \<times> mat3) list" where
  "segment_monthly segment_df =
     map (\<lambda>month. (month, build_monthly_matrix (filter (\<lambda>(r, n). pdr_month r = month) segment_df)))
       (sorted_unique (map (\<lambda>(r, n). pdr_month r) segment_df))"

definition segment_aggregate :: "(pd_row \<times> py_str) list \<Rightarrow> mat3" where
  "segment_aggregate segment_df = foldl mat_add mat_zero (map snd (segment_monthly segment_df))"

definition segment_proportions :: "(pd_row \<times> py_str) list \<Rightarrow> mat3" where
  "segment_proportions segment_df = row_proportions (segment_aggregate segment_df)"

definition segment_cure_rate :: "(pd_row \<times> py_str) list \<Rightarrow> num" where
  "segment_cure_rate segment_df =
     (let proportions = segment_proportions segment_df in v0 (m2 proportions) + v1 (m2 proportions))"

definition segment_normalized :: "(pd_row \<times> py_str) list \<Rightarrow> mat3" where
  "segment_normalized segment_df = normalize_matrix (segment_proportions segment_df)"

text \<open>Steps 8 and 9: the powers of the normalised matrix in long form.\<close>

record pd_prob =
  pp_segment :: py_str
  pp_month :: nat
  pp_transition :: py_str
  pp_s1 :: num
  pp_s2 :: num
  pp_s3 :: num

definition prob_row :: "py_str \<Rightarrow> nat \<Rightarrow> py_str \<Rightarrow> vec3 \<Rightarrow> pd_prob" where
  "prob_row segment month transition v =
     \<lparr> pp_segment = segment, pp_month = month, pp_transition = transition,
       pp_s1 = v0 v, pp_s2 = v1 v, pp_s3 = v2 v \<rparr>"

definition segment_probs :: "(mat3 \<Rightarrow> nat \<Rightarrow> mat3) \<Rightarrow> py_str \<Rightarrow> mat3 \<Rightarrow> pd_prob list" where
  "segment_probs mp segment normalized =
     concat (map (\<lambda>month.
        map (\<lambda>(transition, v). prob_row segment month transition v)
          (zip STAGES (mat_rows (mp normalized month))))
       [1 ..< MAX_PD_MONTH + 1])"

definition prob_key :: "pd_prob \<Rightarrow> py_str \<times> py_str \<times> nat" where
  "prob_key p = (pp_segment p, pp_transition p, pp_month p)"

definition prob_group :: "pd_prob \<Rightarrow> py_str \<times> py_str" where
  "prob_group p = (pp_segment p, pp_transition p)"

record pd_out =
  po_segment :: py_str
  po_month :: nat
  po_transition :: py_str
  po_s1 :: num
  po_s2 :: num
  po_s3 :: num
  po_marginal :: num
  po_cure :: num

definition out_row :: "pd_prob \<Rightarrow> num \<Rightarrow> num \<Rightarrow> pd_out" where
  "out_row p marginal cure =
     \<lparr> po_segment = pp_segment p, po_month = pp_month p, po_transition = pp_transition p,
       po_s1 = pp_s1 p, po_s2 = pp_s2 p, po_s3 = pp_s3 p, po_marginal = marginal, po_cure = cure \<rparr>"

text \<open>Step 10: the marginal probabilities, group by group in the order of first appearance.\<close>

definition marginal_column :: "pd_prob list \<Rightarrow> num list" where
  "marginal_column output =
     concat (map (\<lambda>k. compute_marginal_pd (map pp_s3 (group_rows prob_group k output)))
       (drop_duplicates id (map prob_group output)))"

record pd_intermediates =
  im_monthly :: "(py_str \<times> (date \<times> (py_str \<times> num list) list) list) list"
  im_aggregate :: "(py_str \<times> (py_str \<times> num list) list) list"
  im_proportion :: "(py_str \<times> (py_str \<times> num list) list) list"
  im_normalized :: "(py_str \<times> (py_str \<times> num list) list) list"

definition pd_working :: "(date \<Rightarrow> int \<Rightarrow> date) \<Rightarrow> pd_row list \<Rightarrow> (pd_row \<times> py_str) list" where
  "pd_working off df = next_month_staging off (pd_dedupe_sort df)"

definition per_segment :: "((pd_row \<times> py_str) list \<Rightarrow> 'a) \<Rightarrow> (pd_row \<times> py_str) list \<Rightarrow> (py_str \<times> 'a) list" where
  "per_segment f working = map (\<lambda>segment. (segment, f (segment_rows working segment))) (pd_segments working)"

definition pd_cure_rates :: "(pd_row \<times> py_str) list \<Rightarrow> (py_str \<times> num) list" where
  "pd_cure_rates working = per_segment segment_cure_rate working"

definition pd_prob_rows :: "(mat3 \<Rightarrow> nat \<Rightarrow> mat3) \<Rightarrow> (pd_row \<times> py_str) list \<Rightarrow> pd_prob list" where
  "pd_prob_rows mp working =
     concat (map (\<lambda>segment. segment_probs mp segment (segment_normalized (segment_rows working segment)))
       (pd_segments working))"

definition pd_output :: "(mat3 \<Rightarrow> nat \<Rightarrow> mat3) \<Rightarrow> (pd_row \<times> py_str) list \<Rightarrow> pd_out list" where
  "pd_output mp working =
     (let output = sort_key prob_key (pd_prob_rows mp working)
      in map (\<lambda>(p, marginal). out_row p marginal (the (map_of (pd_cure_rates working) (pp_segment p))))
           (zip output (marginal_column output)))"

definition pd_intermediate :: "(pd_row \<times> py_str) list \<Rightarrow> pd_intermediates" where
  "pd_intermediate working =
     \<lparr> im_monthly =
         per_segment (\<lambda>df. map (\<lambda>(month, M). (month, matrix_to_dict M)) (segment_monthly df)) working,
       im_aggregate = per_segment (\<lambda>df. matrix_to_dict (segment_aggregate df)) working,
       im_proportion = per_segment (\<lambda>df. matrix_to_dict (segment_proportions df)) working,
       im_normalized = per_segment (\<lambda>df. matrix_to_dict (segment_normalized df)) working \<rparr>"

definition compute_pd ::
    "(date \<Rightarrow> int \<Rightarrow> date) \<Rightarrow> (mat3 \<Rightarrow> nat \<Rightarrow> mat3) \<Rightarrow> pd_row list \<Rightarrow>
     pd_out list \<times> (py_str \<times> num) list \<times> pd_intermediates" where
  "compute_pd off mp df =
     (let working = pd_working off df
      in (pd_output mp working, pd_cure_rates working, pd_intermediate working))"

section \<open>Substochastic rows and the absorbing default stage\<close>

definition sub_row :: "vec3 \<Rightarrow> bool" where
  "sub_row v \<longleftrightarrow> 0 \<le> v0 v \<and> 0 \<le> v1 v \<and> 0 \<le> v2 v \<and> vec_sum v \<le> 1"

definition nonneg_row :: "vec3 \<Rightarrow> bool" where
  "nonneg_row v \<longleftrightarrow> 0 \<le> v0 v \<and> 0 \<le> v1 v \<and> 0 \<le> v2 v"

definition nonneg_mat :: "mat3 \<Rightarrow> bool" where
  "nonneg_mat M \<longleftrightarrow> nonneg_row (m0 M) \<and> nonneg_row (m1 M) \<and> nonneg_row (m2 M)"

definition default_chain :: "mat3 \<Rightarrow> bool" where
  "default_chain M \<longleftrightarrow> sub_row (m0 M) \<and> sub_row (m1 M) \<and> m2 M = Vec3 0 0 1"

lemmas row_defs = sub_row_def nonneg_row_def nonneg_mat_def vec_sum_def

lemma sub_row_row_proportion:
  assumes "nonneg_row v"
  shows "sub_row (row_proportion v)"
proof (cases "vec_sum v > 0")
  case True
  have "v0 v / vec_sum v + v1 v / vec_sum v + v2 v / vec_sum v = 1"
    using True by (simp add: vec_sum_def flip: add_divide_distrib)
  with True assms show ?thesis
    by (simp add: row_proportion_def sub_row_def nonneg_row_def vec_sum_def [of "Vec3 _ _ _"] Let_def)
next
  case False
  then show ?thesis by (simp add: row_proportion_def row_defs vec_zero_def)
qed

lemma default_chain_normalize:
  assumes "nonneg_mat M"
  shows "default_chain (normalize_matrix (row_proportions M))"
proof -
  have "sub_row (row_proportion (m0 M))" "sub_row (row_proportion (m1 M))"
    using assms by (auto simp: nonneg_mat_def intro: sub_row_row_proportion)
  then show ?thesis
    by (auto simp: default_chain_def normalize_matrix_def row_proportions_def sub_row_def vec_sum_def)
qed

lemma sub_row_vec_mat:
  assumes "sub_row v" "default_chain M"
  shows "sub_row (vec_mat v M)" and "v2 v \<le> v2 (vec_mat v M)"
proof -
  have v: "0 \<le> v0 v" "0 \<le> v1 v" "0 \<le> v2 v" "v0 v + v1 v + v2 v \<le> 1"
    using assms(1) by (auto simp: row_defs)
  have M: "0 \<le> v0 (m0 M)" "0 \<le> v1 (m0 M)" "0 \<le> v2 (m0 M)" "0 \<le> v0 (m1 M)" "0 \<le> v1 (m1 M)" "0 \<le> v2 (m1 M)"
    "v0 (m0 M) + v1 (m0 M) + v2 (m0 M) \<le> 1" "v0 (m1 M) + v1 (m1 M) + v2 (m1 M) \<le> 1" "m2 M = Vec3 0 0 1"
    using assms(2) by (auto simp: default_chain_def row_defs)
  have "vec_sum (vec_mat v M) = v0 v * (v0 (m0 M) + v1 (m0 M) + v2 (m0 M))
      + v1 v * (v0 (m1 M) + v1 (m1 M) + v2 (m1 M)) + v2 v"
    using M(9) by (simp add: vec_sum_def vec_mat_def algebra_simps)
  also have "\<dots> \<le> v0 v * 1 + v1 v * 1 + v2 v"
    using v M(7,8) by (intro add_mono mult_left_mono) auto
  finally have "vec_sum (vec_mat v M) \<le> 1" using v(4) by simp
  then show "sub_row (vec_mat v M)" using v M by (simp add: sub_row_def vec_mat_def)
  show "v2 v \<le> v2 (vec_mat v M)" using v M by (simp add: vec_mat_def)
qed

lemma default_chain_mult:
  "default_chain A \<Longrightarrow> default_chain B \<Longrightarrow> default_chain (mat_mult A B)"
  using sub_row_vec_mat(1) [of _ B]
  by (auto simp: default_chain_def mat_mult_def vec_mat_def)

lemma default_chain_power:
  assumes "matrix_power_law mp" "default_chain M" "1 \<le> n"
  shows "default_chain (mp M n)"
proof -
  have "default_chain (mp M (Suc k))" for k
    using assms(1,2) by (induction k) (auto simp: matrix_power_law_def intro: default_chain_mult)
  with \<open>1 \<le> n\<close> show ?thesis by (cases n) auto
qed

definition stage_row :: "py_str \<Rightarrow> mat3 \<Rightarrow> vec3" where
  "stage_row t M = (if t = ''Stage 1'' then m0 M else if t = ''Stage 2'' then m1 M else m2 M)"

lemma sub_row_stage_row: "default_chain M \<Longrightarrow> sub_row (stage_row t M)"
  by (auto simp: default_chain_def stage_row_def row_defs)

lemma sub_row_power:
  assumes "matrix_power_law mp" "default_chain M"
  shows "sub_row (stage_row t (mp M (Suc i)))"
  using sub_row_stage_row [OF default_chain_power [OF assms, of "Suc i"]] by simp

lemma default_prob_mono:
  assumes "matrix_power_law mp" "default_chain M" "1 \<le> n"
  shows "v2 (stage_row t (mp M n)) \<le> v2 (stage_row t (mp M (Suc n)))"
proof -
  obtain k where n: "n = Suc k" using assms(3) by (cases n) auto
  have "mp M (Suc n) = mat_mult (mp M n) M" using assms(1) n by (simp add: matrix_power_law_def)
  then have "stage_row t (mp M (Suc n)) = vec_mat (stage_row t (mp M n)) M"
    by (simp add: stage_row_def mat_mult_def)
  with sub_row_vec_mat(2) [OF sub_row_stage_row [OF default_chain_power [OF assms]] assms(2)]
  show ?thesis by simp
qed

section \<open>Marginal probabilities\<close>

lemma length_marginal_from [simp]: "length (marginal_from p ss) = length ss"
  by (induction p ss rule: marginal_from.induct) (simp_all add: Let_def)

lemma length_compute_marginal_pd [simp]: "length (compute_marginal_pd ss) = length ss"
  by (cases ss) simp_all

lemma compute_marginal_pd_0: "0 < length ss \<Longrightarrow> compute_marginal_pd ss ! 0 = ss ! 0"
  by (cases ss) simp_all

lemma marginal_from_nth:
  "i < length ss \<Longrightarrow> marginal_from p ss ! i =
     (let prev = (p # ss) ! i in if 1 - prev \<le> DENOM_EPS then 0 else (ss ! i - prev) / (1 - prev))"
proof (induction p ss arbitrary: i rule: marginal_from.induct)
  case (2 prev s ss)
  then show ?case by (cases i) (auto simp: Let_def)
qed simp

lemma compute_marginal_pd_Suc:
  assumes "Suc i < length ss"
  shows "compute_marginal_pd ss ! Suc i =
    (if 1 - ss ! i \<le> DENOM_EPS then 0 else (ss ! Suc i - ss ! i) / (1 - ss ! i))"
  using assms by (cases ss) (auto simp: marginal_from_nth Let_def)

lemma DENOM_EPS_pos: "0 < DENOM_EPS"
  by (simp add: DENOM_EPS_def)

lemma marginal_bounds:
  assumes "\<And>j. j < length ss \<Longrightarrow> 0 \<le> ss ! j \<and> ss ! j \<le> 1"
    and "\<And>j. Suc j < length ss \<Longrightarrow> ss ! j \<le> ss ! Suc j" and "i < length ss"
  shows "0 \<le> compute_marginal_pd ss ! i \<and> compute_marginal_pd ss ! i \<le> 1"
proof (cases i)
  case 0
  with assms(1) [of 0] assms(3) show ?thesis by (auto simp: compute_marginal_pd_0)
next
  case (Suc j)
  with assms(3) have j: "Suc j < length ss" by simp
  then have "0 \<le> ss ! Suc j - ss ! j" "ss ! Suc j \<le> 1"
    using assms(1) [of "Suc j"] assms(2) [of j] by auto
  moreover have "0 < 1 - ss ! j" if "\<not> 1 - ss ! j \<le> DENOM_EPS"
    using that DENOM_EPS_pos by linarith
  ultimately show ?thesis unfolding Suc compute_marginal_pd_Suc [OF j]
    by (auto simp: pos_divide_le_eq)
qed

text \<open>
  Surviving every month up to \<open>n\<close> is not having defaulted by \<open>n\<close>: the marginal probabilities
  multiply back to the cumulative one, as long as the survival probability stays above the
  engine's threshold.
\<close>

lemma survival_product:
  assumes "n < length ss" "\<And>j. j < n \<Longrightarrow> DENOM_EPS < 1 - ss ! j"
  shows "(\<Prod>i\<le>n. 1 - compute_marginal_pd ss ! i) = 1 - ss ! n"
  using assms
proof (induction n)
  case 0
  then show ?case by (simp add: compute_marginal_pd_0)
next
  case (Suc n)
  have "\<not> 1 - ss ! n \<le> DENOM_EPS" using Suc.prems(2) [of n] by simp
  then have "compute_marginal_pd ss ! Suc n = (ss ! Suc n - ss ! n) / (1 - ss ! n)"
    using compute_marginal_pd_Suc [OF Suc.prems(1)] by simp
  moreover have "1 - ss ! n \<noteq> 0" using Suc.prems(2) [of n] DENOM_EPS_pos by auto
  ultimately have "(1 - ss ! n) * (1 - compute_marginal_pd ss ! Suc n) = 1 - ss ! Suc n"
    by (simp add: field_simps)
  with Suc show ?case by simp
qed

text \<open>
  Where a curve crosses the threshold the engine writes zero marginals from then on, so the product
  stays at the survival probability of the first month beyond the threshold.
\<close>

definition saturation :: "num list \<Rightarrow> nat" where
  "saturation ss = length (takeWhile (\<lambda>s. DENOM_EPS < 1 - s) ss)"

lemma saturation_below: "j < saturation ss \<Longrightarrow> DENOM_EPS < 1 - ss ! j"
  unfolding saturation_def by (metis nth_mem set_takeWhileD takeWhile_nth)

lemma saturation_at: "saturation ss < length ss \<Longrightarrow> 1 - ss ! saturation ss \<le> DENOM_EPS"
  unfolding saturation_def using nth_length_takeWhile [of "\<lambda>s. DENOM_EPS < 1 - s" ss] by (simp add: not_less)

lemma ascending_nth:
  assumes "\<And>j. Suc j < length ss \<Longrightarrow> (ss :: num list) ! j \<le> ss ! Suc j" "i \<le> j" "j < length ss"
  shows "ss ! i \<le> ss ! j"
  using assms(2,3)
proof (induction j rule: dec_induct)
  case (step n)
  then show ?case using assms(1) [of n] by simp
qed simp

lemma survival_product_saturated:
  assumes "\<And>j. Suc j < length ss \<Longrightarrow> ss ! j \<le> ss ! Suc j" "n < length ss"
  shows "(\<Prod>i\<le>n. 1 - compute_marginal_pd ss ! i) = 1 - ss ! min n (saturation ss)"
proof (cases "n \<le> saturation ss")
  case True
  then show ?thesis using assms(2) by (simp add: survival_product saturation_below)
next
  case False
  then have m: "saturation ss \<le> n" by simp
  from m assms(2) have "(\<Prod>i\<le>n. 1 - compute_marginal_pd ss ! i) = 1 - ss ! saturation ss"
  proof (induction n rule: dec_induct)
    case base
    then show ?case by (simp add: survival_product saturation_below)
  next
    case (step k)
    have k: "saturation ss < length ss" "k < length ss" "Suc k < length ss" using step.hyps step.prems by auto
    have "ss ! saturation ss \<le> ss ! k" by (rule ascending_nth [OF assms(1) step.hyps(1) k(2)])
    with saturation_at [OF k(1)] have "1 - ss ! k \<le> DENOM_EPS" by linarith
    then have "compute_marginal_pd ss ! Suc k = 0" by (simp add: compute_marginal_pd_Suc [OF k(3)])
    with step.IH [OF k(2)] show ?case by simp
  qed
  moreover have "min n (saturation ss) = saturation ss" using m by (rule min.absorb2)
  ultimately show ?thesis by simp
qed

lemma survival_product_error:
  assumes up: "\<And>j. Suc j < length ss \<Longrightarrow> ss ! j \<le> ss ! Suc j" and n: "n < length ss" and "ss ! n \<le> 1"
  shows "0 \<le> (\<Prod>i\<le>n. 1 - compute_marginal_pd ss ! i) - (1 - ss ! n)"
    and "(\<Prod>i\<le>n. 1 - compute_marginal_pd ss ! i) - (1 - ss ! n) \<le> DENOM_EPS"
proof -
  let ?m = "min n (saturation ss)"
  have le: "ss ! ?m \<le> ss ! n" by (rule ascending_nth [OF up _ n]) simp_all
  have "1 - ss ! ?m \<le> DENOM_EPS \<or> ?m = n"
  proof (cases "saturation ss < n")
    case True
    then have "?m = saturation ss" by (simp add: min_def)
    then show ?thesis using saturation_at [of ss] True n by simp
  qed (simp add: min_def)
  then have "ss ! n - ss ! ?m \<le> DENOM_EPS" using assms(3) DENOM_EPS_pos by (elim disjE) auto
  with le show "0 \<le> (\<Prod>i\<le>n. 1 - compute_marginal_pd ss ! i) - (1 - ss ! n)"
      "(\<Prod>i\<le>n. 1 - compute_marginal_pd ss ! i) - (1 - ss ! n) \<le> DENOM_EPS"
    by (simp_all add: survival_product_saturated [OF up n])
qed

section \<open>The layout of the long-form table\<close>

definition pd_months :: "nat list" where
  "pd_months = [1 ..< MAX_PD_MONTH + 1]"

definition normal_of :: "(pd_row \<times> py_str) list \<Rightarrow> py_str \<Rightarrow> mat3" where
  "normal_of working segment = segment_normalized (segment_rows working segment)"

definition curve_row :: "(mat3 \<Rightarrow> nat \<Rightarrow> mat3) \<Rightarrow> (pd_row \<times> py_str) list \<Rightarrow> py_str \<times> py_str \<Rightarrow> nat \<Rightarrow> pd_prob" where
  "curve_row mp working k month =
     prob_row (fst k) month (snd k) (stage_row (snd k) (mp (normal_of working (fst k)) month))"

text \<open>The default curve of a segment and a starting stage: its cumulative probabilities by month.\<close>

definition curve :: "(mat3 \<Rightarrow> nat \<Rightarrow> mat3) \<Rightarrow> (pd_row \<times> py_str) list \<Rightarrow> py_str \<times> py_str \<Rightarrow> num list" where
  "curve mp working k = map (\<lambda>month. pp_s3 (curve_row mp working k month)) pd_months"

definition curve_keys :: "(pd_row \<times> py_str) list \<Rightarrow> (py_str \<times> py_str) list" where
  "curve_keys working = List.product (pd_segments working) STAGES"

lemma STAGES_sorted: "sorted_wrt (<) STAGES"
  by code_simp

lemma months_sorted: "sorted_wrt (<) pd_months"
  by (simp add: pd_months_def del: upt_Suc)

lemma pd_segments_sorted: "sorted_wrt (<) (pd_segments working)"
  by (simp add: pd_segments_def strict_sorted_iff)

lemma length_pd_months [simp]: "length pd_months = 299"
  by (simp add: pd_months_def MAX_PD_MONTH_def)

lemma nth_pd_months: "i < 299 \<Longrightarrow> pd_months ! i = Suc i"
  by (simp add: pd_months_def MAX_PD_MONTH_def)

lemma distinct_curve_keys [simp]: "distinct (curve_keys working)"
  using strict_sorted_product [OF pd_segments_sorted STAGES_sorted]
  by (simp add: curve_keys_def strict_sorted_iff)

lemma keys_of_curves:
  "map prob_key (concat (map (\<lambda>k. map (curve_row mp working k) pd_months) (curve_keys working)))
   = List.product (pd_segments working) (List.product STAGES pd_months)"
proof -
  have "prob_key (curve_row mp working k m) = (fst k, snd k, m)" for k m
    by (simp add: curve_row_def prob_row_def prob_key_def)
  then show ?thesis
    by (simp add: curve_keys_def map_concat comp_def product_blocks)
qed

lemma set_segment_probs:
  "set (segment_probs mp segment N) =
     (\<lambda>(t, m). prob_row segment m t (stage_row t (mp N m))) ` (set STAGES \<times> set pd_months)"
  unfolding segment_probs_def pd_months_def [symmetric]
  by (auto simp: STAGES_def mat_rows_def stage_row_def image_iff split: prod.splits)

lemma length_segment_probs: "length (segment_probs mp segment N) = 897"
proof -
  have "length (segment_probs mp segment N) = (\<Sum>m\<leftarrow>pd_months. 3)"
    by (simp add: segment_probs_def length_concat comp_def STAGES_def mat_rows_def pd_months_def
        numeral_3_eq_3 del: upt_Suc)
  also have "\<dots> = 897" by (simp add: sum_list_triv)
  finally show ?thesis .
qed

lemma set_pd_prob_rows:
  "set (pd_prob_rows mp working)
   = set (concat (map (\<lambda>k. map (curve_row mp working k) pd_months) (curve_keys working)))"
  by (force simp: pd_prob_rows_def set_segment_probs curve_keys_def curve_row_def normal_of_def)

lemma length_pd_prob_rows:
  "length (pd_prob_rows mp working)
   = length (concat (map (\<lambda>k. map (curve_row mp working k) pd_months) (curve_keys working)))"
  by (simp add: pd_prob_rows_def length_concat comp_def length_segment_probs curve_keys_def
      sum_list_triv STAGES_def)

lemma sorted_prob_rows:
  "sort_key prob_key (pd_prob_rows mp working)
   = concat (map (\<lambda>k. map (curve_row mp working k) pd_months) (curve_keys working))"
proof (rule sort_key_strictly_sorted [OF set_pd_prob_rows length_pd_prob_rows])
  show "sorted_wrt (<) (map prob_key
      (concat (map (\<lambda>k. map (curve_row mp working k) pd_months) (curve_keys working))))"
    unfolding keys_of_curves
    by (intro strict_sorted_product pd_segments_sorted STAGES_sorted months_sorted)
qed

lemma marginal_column_curves:
  "marginal_column (concat (map (\<lambda>k. map (curve_row mp working k) pd_months) (curve_keys working)))
   = concat (map (\<lambda>k. compute_marginal_pd (curve mp working k)) (curve_keys working))"
proof -
  let ?h = "\<lambda>k. map (curve_row mp working k) pd_months"
  have g: "prob_group x = k" if "x \<in> set (?h k)" for k x
    using that by (auto simp: curve_row_def prob_row_def prob_group_def)
  have ne: "pd_months \<noteq> []" using length_pd_months by (metis length_0_conv zero_neq_numeral)
  have keys: "drop_duplicates id (map prob_group (concat (map ?h (curve_keys working)))) = curve_keys working"
    by (rule drop_duplicates_blocks) (auto intro: g simp: ne)
  have rows: "group_rows prob_group k (concat (map ?h (curve_keys working))) = ?h k"
    if "k \<in> set (curve_keys working)" for k
    using that by (intro filter_concat_blocks) (auto intro: g)
  show ?thesis unfolding marginal_column_def keys
    by (rule arg_cong [where f = concat], rule map_cong) (simp_all add: rows curve_def comp_def)
qed

text \<open>The output table, curve by curve.\<close>

definition curve_out :: "(mat3 \<Rightarrow> nat \<Rightarrow> mat3) \<Rightarrow> (pd_row \<times> py_str) list \<Rightarrow> py_str \<times> py_str \<Rightarrow> pd_out list" where
  "curve_out mp working k =
     map (\<lambda>(p, q). out_row p q (segment_cure_rate (segment_rows working (fst k))))
       (zip (map (curve_row mp working k) pd_months) (compute_marginal_pd (curve mp working k)))"

lemma map_of_cure_rates:
  "s \<in> set (pd_segments working) \<Longrightarrow>
   map_of (pd_cure_rates working) s = Some (segment_cure_rate (segment_rows working s))"
  by (simp add: pd_cure_rates_def per_segment_def map_of_map_restrict)

lemma length_curve [simp]: "length (curve mp working k) = 299"
  by (simp add: curve_def)

lemma pd_output_curves: "pd_output mp working = concat (map (curve_out mp working) (curve_keys working))"
proof -
  let ?f = "\<lambda>(p, q). out_row p q (the (map_of (pd_cure_rates working) (pp_segment p)))"
  have z: "zip (sort_key prob_key (pd_prob_rows mp working))
        (marginal_column (sort_key prob_key (pd_prob_rows mp working)))
      = concat (map (\<lambda>k. zip (map (curve_row mp working k) pd_months)
          (compute_marginal_pd (curve mp working k))) (curve_keys working))"
    unfolding sorted_prob_rows marginal_column_curves by (rule zip_concat_blocks) simp
  have c: "map ?f (zip (map (curve_row mp working k) pd_months) (compute_marginal_pd (curve mp working k)))
      = curve_out mp working k" if "k \<in> set (curve_keys working)" for k
  proof -
    have "fst k \<in> set (pd_segments working)" using that by (auto simp: curve_keys_def)
    then show ?thesis unfolding curve_out_def
      by (intro map_cong)
        (auto simp: map_of_cure_rates curve_row_def prob_row_def dest!: set_zip_leftD)
  qed
  show ?thesis unfolding pd_output_def Let_def z map_concat
    by (simp add: comp_def c cong: map_cong)
qed

section \<open>Amounts, matrices and cure rates of a segment\<close>

lemma pd_working_rows: "(r, n) \<in> set (pd_working off df) \<Longrightarrow> r \<in> set df"
  using set_drop_duplicates_subset [of pd_key df]
  by (auto simp: pd_working_def next_month_staging_def pd_dedupe_sort_def dest!: left_mergeD(1))

lemma nonneg_monthly:
  assumes "\<forall>(r, n) \<in> set rows. 0 \<le> pdr_amount r"
  shows "nonneg_mat (build_monthly_matrix rows)"
proof -
  have "0 \<le> pivot_sum rows s t" for s t
    unfolding pivot_sum_def using assms by (intro sum_list_nonneg_map) auto
  then show ?thesis by (simp add: build_monthly_matrix_def nonneg_mat_def nonneg_row_def Let_def)
qed

lemma nonneg_foldl_add:
  "nonneg_mat A \<Longrightarrow> (\<And>M. M \<in> set Ms \<Longrightarrow> nonneg_mat M) \<Longrightarrow> nonneg_mat (foldl mat_add A Ms)"
  by (induction Ms arbitrary: A)
    (auto simp: nonneg_mat_def nonneg_row_def mat_add_def vec_add_def)

lemma nonneg_segment_aggregate:
  assumes "\<forall>(r, n) \<in> set rows. 0 \<le> pdr_amount r"
  shows "nonneg_mat (segment_aggregate rows)"
  unfolding segment_aggregate_def
proof (rule nonneg_foldl_add)
  show "nonneg_mat mat_zero" by (simp add: mat_zero_def vec_zero_def nonneg_mat_def nonneg_row_def)
  show "nonneg_mat M" if "M \<in> set (map snd (segment_monthly rows))" for M
    using that assms by (auto simp: segment_monthly_def intro!: nonneg_monthly)
qed

lemma nonneg_segment_rows:
  assumes "\<forall>r \<in> set df. 0 \<le> pdr_amount r"
  shows "\<forall>(r, n) \<in> set (segment_rows (pd_working off df) s). 0 \<le> pdr_amount r"
  using assms by (auto simp: segment_rows_def dest: pd_working_rows)

lemma default_chain_segment:
  assumes "\<forall>r \<in> set df. 0 \<le> pdr_amount r"
  shows "default_chain (normal_of (pd_working off df) s)"
  unfolding normal_of_def segment_normalized_def segment_proportions_def
  by (intro default_chain_normalize nonneg_segment_aggregate nonneg_segment_rows assms)

lemma cure_rate_bounds:
  assumes "\<forall>(r, n) \<in> set rows. 0 \<le> pdr_amount r"
  shows "0 \<le> segment_cure_rate rows \<and> segment_cure_rate rows \<le> 1"
proof -
  have "nonneg_row (m2 (segment_aggregate rows))"
    using nonneg_segment_aggregate [OF assms] by (simp add: nonneg_mat_def)
  from sub_row_row_proportion [OF this] show ?thesis
    by (simp add: segment_cure_rate_def segment_proportions_def row_proportions_def row_defs)
qed

lemma curve_nth: "i < 299 \<Longrightarrow>
    curve mp working k ! i = v2 (stage_row (snd k) (mp (normal_of working (fst k)) (Suc i)))"
  by (simp add: curve_def nth_pd_months curve_row_def prob_row_def)

lemma curve_monotone_bounded:
  assumes "matrix_power_law mp" "default_chain (normal_of working (fst k))" "i < 299"
  shows "0 \<le> curve mp working k ! i \<and> curve mp working k ! i \<le> 1"
    and "Suc i < 299 \<Longrightarrow> curve mp working k ! i \<le> curve mp working k ! Suc i"
proof -
  have "sub_row (stage_row (snd k) (mp (normal_of working (fst k)) (Suc i)))"
    by (rule sub_row_power [OF assms(1,2)])
  then show "0 \<le> curve mp working k ! i \<and> curve mp working k ! i \<le> 1"
    using assms(3) by (auto simp: curve_nth row_defs)
  show "curve mp working k ! i \<le> curve mp working k ! Suc i" if "Suc i < 299"
    using that default_prob_mono [OF assms(1,2), of "Suc i"] assms(3) by (simp add: curve_nth)
qed

lemma curve_out_nth:
  assumes "i < 299"
  shows "curve_out mp working k ! i =
    out_row (curve_row mp working k (Suc i)) (compute_marginal_pd (curve mp working k) ! i)
      (segment_cure_rate (segment_rows working (fst k)))"
  using assms by (simp add: curve_out_def nth_pd_months)

lemma length_curve_out [simp]: "length (curve_out mp working k) = 299"
  by (simp add: curve_out_def)

lemma pd_output_rowE:
  assumes "row \<in> set (pd_output mp working)"
  obtains k i where "k \<in> set (curve_keys working)" "i < 299" "row = curve_out mp working k ! i"
  using assms by (fastforce simp: pd_output_curves in_set_conv_nth [of row "curve_out mp working _"])

section \<open>Properties of the PD table\<close>

lemma pd_rows_bounds:
  assumes "matrix_power_law mp" "\<forall>r \<in> set df. 0 \<le> pdr_amount r"
    and "row \<in> set (fst (compute_pd off mp df))"
  shows "0 \<le> po_s1 row \<and> 0 \<le> po_s2 row \<and> 0 \<le> po_s3 row \<and> po_s1 row + po_s2 row + po_s3 row \<le> 1
    \<and> 0 \<le> po_marginal row \<and> po_marginal row \<le> 1 \<and> 0 \<le> po_cure row \<and> po_cure row \<le> 1"
proof -
  let ?w = "pd_working off df"
  from assms(3) obtain k i where k: "k \<in> set (curve_keys ?w)" "i < 299" "row = curve_out mp ?w k ! i"
    by (auto simp: compute_pd_def Let_def elim: pd_output_rowE)
  note chain = default_chain_segment [OF assms(2), of off "fst k"]
  have sub: "sub_row (stage_row (snd k) (mp (normal_of ?w (fst k)) (Suc i)))"
    by (rule sub_row_power [OF assms(1) chain])
  have marg: "0 \<le> compute_marginal_pd (curve mp ?w k) ! i \<and> compute_marginal_pd (curve mp ?w k) ! i \<le> 1"
    using curve_monotone_bounded [OF assms(1) chain] k(2) by (intro marginal_bounds) auto
  have cure: "0 \<le> segment_cure_rate (segment_rows ?w (fst k)) \<and> segment_cure_rate (segment_rows ?w (fst k)) \<le> 1"
    by (intro cure_rate_bounds nonneg_segment_rows assms(2))
  show ?thesis using sub marg cure k(2)
    by (simp add: k(3) curve_out_nth out_row_def curve_row_def prob_row_def row_defs)
qed


text \<open>
  C1. Every row of the PD table holds probabilities: for non-negative loan amounts the three stage
  probabilities are non-negative and add up to at most one, and the marginal default probability
  and the cure rate lie between zero and one.
\<close>

theorem compute_pd_probabilities:
  assumes "matrix_power_law mp" "\<forall>r \<in> set df. 0 \<le> pdr_amount r"
    and "row \<in> set (fst (compute_pd off mp df))"
  shows "0 \<le> po_s1 row \<and> 0 \<le> po_s2 row \<and> 0 \<le> po_s3 row \<and> po_s1 row + po_s2 row + po_s3 row \<le> 1
    \<and> 0 \<le> po_marginal row \<and> po_marginal row \<le> 1 \<and> 0 \<le> po_cure row \<and> po_cure row \<le> 1"
  using assms by (rule pd_rows_bounds)

text \<open>The rows of one curve in the table: those of a segment and a starting stage.\<close>

definition pd_curve :: "pd_out list \<Rightarrow> py_str \<Rightarrow> py_str \<Rightarrow> pd_out list" where
  "pd_curve output segment transition =
     filter (\<lambda>r. po_segment r = segment \<and> po_transition r = transition) output"

lemma curve_out_group:
  assumes "r \<in> set (curve_out mp working k)"
  shows "po_segment r = fst k \<and> po_transition r = snd k"
proof -
  obtain i where "i < 299" "r = curve_out mp working k ! i"
    using assms by (auto simp: in_set_conv_nth)
  then show ?thesis by (simp add: curve_out_nth out_row_def curve_row_def prob_row_def)
qed

lemma pd_curve_rows:
  assumes "(s, t) \<in> set (curve_keys working)"
  shows "pd_curve (pd_output mp working) s t = curve_out mp working (s, t)"
proof -
  let ?g = "\<lambda>r. (po_segment r, po_transition r)"
  have "group_rows ?g (s, t) (concat (map (curve_out mp working) (curve_keys working)))
      = curve_out mp working (s, t)"
    by (rule filter_concat_blocks) (use assms in \<open>auto dest: curve_out_group\<close>)
  then show ?thesis by (simp add: pd_curve_def pd_output_curves group_rows_def)
qed

lemma pd_curve_nonempty:
  assumes "i < length (pd_curve (pd_output mp working) s t)"
  shows "(s, t) \<in> set (curve_keys working)"
proof -
  obtain r where "r \<in> set (pd_curve (pd_output mp working) s t)" using assms nth_mem by blast
  then obtain k where "k \<in> set (curve_keys working)" "r \<in> set (curve_out mp working k)"
      "po_segment r = s" "po_transition r = t"
    by (auto simp: pd_curve_def pd_output_curves)
  with curve_out_group [OF this(2)] show ?thesis by (metis prod.collapse)
qed

lemma curve_out_s3: "i < 299 \<Longrightarrow> po_s3 (curve_out mp working k ! i) = curve mp working k ! i"
  by (simp add: curve_out_nth out_row_def curve_def nth_pd_months)

lemma curve_out_marginal:
  "i < 299 \<Longrightarrow> po_marginal (curve_out mp working k ! i) = compute_marginal_pd (curve mp working k) ! i"
  by (simp add: curve_out_nth out_row_def)

lemma compute_pd_curve:
  assumes "rows = pd_curve (fst (compute_pd off mp df)) s t" "n < length rows"
  shows "rows = curve_out mp (pd_working off df) (s, t) \<and> n < 299"
proof -
  have "(s, t) \<in> set (curve_keys (pd_working off df))"
    using assms by (auto simp: compute_pd_def Let_def intro: pd_curve_nonempty)
  from pd_curve_rows [OF this, of mp] have "rows = curve_out mp (pd_working off df) (s, t)"
    using assms(1) by (simp add: compute_pd_def Let_def)
  with assms(2) show ?thesis by simp
qed

text \<open>
  C2. The marginal probabilities of any curve of the table, a Stage 3 or saturated one included,
  multiply back to its cumulative default probability. The product of one minus the marginals up
  to month \<open>n\<close> is the survival probability of that month, or of the first month whose survival
  probability has fallen to the engine's threshold, whichever comes first; it never understates
  survival and overstates it by at most the threshold. It is exact while every earlier month is
  above the threshold.
\<close>

theorem compute_pd_survival:
  assumes "matrix_power_law mp" "\<forall>r \<in> set df. 0 \<le> pdr_amount r"
    and "rows = pd_curve (fst (compute_pd off mp df)) s t" "n < length rows"
  shows "(\<Prod>i\<le>n. 1 - po_marginal (rows ! i))
      = 1 - po_s3 (rows ! min n (length (takeWhile (\<lambda>r. DENOM_EPS < 1 - po_s3 r) rows)))
    \<and> 0 \<le> (\<Prod>i\<le>n. 1 - po_marginal (rows ! i)) - (1 - po_s3 (rows ! n))
    \<and> (\<Prod>i\<le>n. 1 - po_marginal (rows ! i)) - (1 - po_s3 (rows ! n)) \<le> DENOM_EPS
    \<and> ((\<forall>i<n. DENOM_EPS < 1 - po_s3 (rows ! i)) \<longrightarrow>
        (\<Prod>i\<le>n. 1 - po_marginal (rows ! i)) = 1 - po_s3 (rows ! n))"
proof -
  let ?c = "curve mp (pd_working off df) (s, t)"
  have rows: "rows = curve_out mp (pd_working off df) (s, t)" "n < 299"
    using compute_pd_curve [OF assms(3,4)] by simp_all
  have s3: "map po_s3 rows = ?c" by (simp add: rows list_eq_iff_nth_eq curve_out_s3)
  have up: "?c ! j \<le> ?c ! Suc j" if "Suc j < length ?c" for j
    using curve_monotone_bounded(2) [OF assms(1)] default_chain_segment [OF assms(2)] that by simp
  have top: "?c ! n \<le> 1"
    using curve_monotone_bounded(1) [OF assms(1), of "pd_working off df" "(s, t)" n]
      default_chain_segment [OF assms(2)] rows(2) by simp
  have prod: "(\<Prod>i\<le>n. 1 - po_marginal (rows ! i)) = (\<Prod>i\<le>n. 1 - compute_marginal_pd ?c ! i)"
    using rows(2) by (intro prod.cong) (simp_all add: rows(1) curve_out_marginal)
  have at: "po_s3 (rows ! j) = ?c ! j" if "j \<le> n" for j using that rows(2) by (simp add: rows(1) curve_out_s3)
  have sat: "length (takeWhile (\<lambda>r. DENOM_EPS < 1 - po_s3 r) rows) = saturation ?c"
    by (simp add: saturation_def s3 [symmetric] takeWhile_map comp_def)
  show ?thesis
    unfolding prod sat using survival_product_error [OF up, of n] survival_product_saturated [OF up, of n]
      survival_product [of n ?c] top rows(2) by (simp add: at)
qed

text \<open>
  Default is absorbing: along a curve the cumulative default probability never decreases from
  one month to a later one.
\<close>

lemma compute_pd_monotone:
  assumes "matrix_power_law mp" "\<forall>r \<in> set df. 0 \<le> pdr_amount r"
    and "rows = pd_curve (fst (compute_pd off mp df)) s t" "i \<le> j" "j < length rows"
  shows "po_s3 (rows ! i) \<le> po_s3 (rows ! j)"
proof -
  let ?w = "pd_working off df"
  have rows: "rows = curve_out mp ?w (s, t)" using compute_pd_curve [OF assms(3,5)] by simp
  have "curve mp ?w (s, t) ! i \<le> curve mp ?w (s, t) ! j" using \<open>i \<le> j\<close> \<open>j < length rows\<close>
  proof (induction j rule: dec_induct)
    case (step n)
    have "curve mp ?w (s, t) ! n \<le> curve mp ?w (s, t) ! Suc n"
      using curve_monotone_bounded(2) [OF assms(1), of ?w "(s, t)" n] step.prems
        default_chain_segment [OF assms(2), of off s] by (simp add: rows)
    with step show ?case by simp
  qed simp
  then show ?thesis using assms(4,5) by (simp add: rows curve_out_s3)
qed

lemma pd_keys_table:
  "map (\<lambda>r. (po_segment r, po_transition r, po_month r)) (fst (compute_pd off mp df))
   = List.product (pd_segments (pd_working off df)) (List.product STAGES [1 ..< 300])"
proof -
  let ?w = "pd_working off df"
  have row: "map (\<lambda>r. (po_segment r, po_transition r, po_month r)) (curve_out mp ?w k)
      = map prob_key (map (curve_row mp ?w k) pd_months)" for k
    by (rule nth_equalityI)
      (simp_all add: curve_out_nth nth_pd_months out_row_def prob_key_def)
  have "map (\<lambda>r. (po_segment r, po_transition r, po_month r)) (pd_output mp ?w)
      = map prob_key (concat (map (\<lambda>k. map (curve_row mp ?w k) pd_months) (curve_keys ?w)))"
    by (simp add: pd_output_curves map_concat comp_def row [simplified] cong: map_cong)
  also have "\<dots> = List.product (pd_segments ?w) (List.product STAGES pd_months)"
    by (rule keys_of_curves)
  also have "pd_months = [1 ..< 300]" by (simp add: pd_months_def MAX_PD_MONTH_def)
  finally show ?thesis by (simp add: compute_pd_def Let_def)
qed


text \<open>
  The PD table is complete and has no duplicate key: sorted by segment, starting stage and
  month, it has exactly one row for every segment of the input, each of the three stages and each
  of the months 1 to 299.
\<close>

lemma compute_pd_keys:
  "map (\<lambda>r. (po_segment r, po_transition r, po_month r)) (fst (compute_pd off mp df))
   = List.product (pd_segments (pd_working off df)) (List.product STAGES [1 ..< 300])"
  by (rule pd_keys_table)

lemma pd_working_two:
  assumes "date_offset_law off" "pdr_loan_id r1 = pdr_loan_id r2"
    and "valid_date (pdr_month r1)" "valid_date (pdr_month r2)"
    and "month_index (pdr_month r2) = month_index (pdr_month r1) + 1"
  shows "pd_working off [r1, r2] =
    [(r1, if dy (pdr_month r1) = min (dy (pdr_month r2)) (days_in_month (yr (pdr_month r1)) (mo (pdr_month r1)))
          then (case pdr_staging r2 of Some s \<Rightarrow> s | None \<Rightarrow> OFFBOOKS) else OFFBOOKS),
     (r2, OFFBOOKS)]"
proof -
  let ?a = "pdr_month r1" and ?b = "pdr_month r2"
  have v: "1 \<le> mo ?a" "mo ?a \<le> 12" "1 \<le> mo ?b" "mo ?b \<le> 12" using assms(3,4) by (auto simp: valid_date_def)
  have less: "?a < ?b" using v assms(5) by (intro less_of_month_index) auto
  have s: "pd_dedupe_sort [r1, r2] = [r1, r2]"
    using less assms(2) by (auto simp: pd_dedupe_sort_def pd_key_def)
  have off: "off d k = shift_months d k" for d k using assms(1) by (simp add: date_offset_law_def)
  have b: "off ?b (- 1) = Date (yr ?a) (mo ?a) (min (dy ?b) (days_in_month (yr ?a) (mo ?a)))"
    using v assms(5) by (simp add: off shift_months_to)
  have "month_index (off ?a (- 1)) = month_index ?a - 1" by (simp add: off)
  then have a: "off ?a (- 1) \<noteq> ?a" "off ?a (- 1) \<noteq> ?b" using assms(5) by auto
  have "month_index (off ?b (- 1)) = month_index ?a" using assms(5) by (simp add: off)
  then have bb: "off ?b (- 1) \<noteq> ?b" using assms(5) by auto
  have eq: "off ?b (- 1) = ?a \<longleftrightarrow> dy ?a = min (dy ?b) (days_in_month (yr ?a) (mo ?a))"
    unfolding b by (cases ?a) auto
  show ?thesis
    using a bb eq assms(2)
    by (auto simp: pd_working_def s next_month_staging_def next_lookup_def left_merge_def
        left_matches_def pd_key_def split: option.splits)
qed

text \<open>
  A loan reported on the last day of a month and again on the last day of the next month is
  recorded as having left the books whenever the second month is shorter, although its row is
  there: the lookup shifts the later date back by one month, which lands before the month's end.
  Otherwise its next staging is the one of the later row.
\<close>

lemma month_end_transition:
  assumes "date_offset_law off" "pdr_loan_id r1 = pdr_loan_id r2"
    and "valid_date (pdr_month r1)" "valid_date (pdr_month r2)"
    and "month_index (pdr_month r2) = month_index (pdr_month r1) + 1"
    and "dy (pdr_month r1) = days_in_month (yr (pdr_month r1)) (mo (pdr_month r1))"
    and "dy (pdr_month r2) = days_in_month (yr (pdr_month r2)) (mo (pdr_month r2))"
  shows "pd_working off [r1, r2] =
    [(r1, if dy (pdr_month r2) < dy (pdr_month r1) then OFFBOOKS
          else (case pdr_staging r2 of Some s \<Rightarrow> s | None \<Rightarrow> OFFBOOKS)),
     (r2, OFFBOOKS)]"
  unfolding pd_working_two [OF assms(1-5)] using assms(6) by (simp add: min_def)

section \<open>A concrete portfolio\<close>

text \<open>
  The reference instance of \<open>matrix_power\<close> and the frame of \<^verbatim>\<open>tests/test_engine_pd.py\<close>: two retail
  loans reported on 31 January and 29 February 2024.
\<close>

fun mat_pow :: "mat3 \<Rightarrow> nat \<Rightarrow> mat3" where
  "mat_pow M 0 = Mat3 (Vec3 1 0 0) (Vec3 0 1 0) (Vec3 0 0 1)"
| "mat_pow M (Suc 0) = M"
| "mat_pow M (Suc (Suc n)) = mat_mult (mat_pow M (Suc n)) M"

lemma matrix_power_law_mat_pow: "matrix_power_law mat_pow"
  by (simp add: matrix_power_law_def)

definition sample_row :: "py_str \<Rightarrow> date \<Rightarrow> py_str \<Rightarrow> num \<Rightarrow> pd_row" where
  "sample_row loan month stage amount =
     \<lparr> pdr_loan_id = loan, pdr_month = month, pdr_staging = Some stage, pdr_amount = amount,
       pdr_segment = Some ''Retail'' \<rparr>"

definition sample_pd :: "pd_row list" where
  "sample_pd =
     [sample_row ''L1'' (Date 2024 1 31) ''Stage 1'' 100000,
      sample_row ''L1'' (Date 2024 2 29) ''Stage 1'' 95000,
      sample_row ''L2'' (Date 2024 1 31) ''Stage 2'' 50000,
      sample_row ''L2'' (Date 2024 2 29) ''Stage 3'' 48000]"

lemma sample_pd_amounts: "\<forall>r \<in> set sample_pd. 0 \<le> pdr_amount r"
  by (simp add: sample_pd_def sample_row_def)

lemma sample_pd_segments: "pd_segments (pd_working shift_months sample_pd) = [''Retail'']"
  by code_simp

lemma sample_pd_key:
  "t \<in> set STAGES \<Longrightarrow> (''Retail'', t) \<in> set (curve_keys (pd_working shift_months sample_pd))"
  by (simp add: curve_keys_def sample_pd_segments)

lemma sample_pd_curve:
  assumes "t \<in> set STAGES"
  shows "length (pd_curve (fst (compute_pd shift_months mp sample_pd)) ''Retail'' t) = 299"
  using pd_curve_rows [OF sample_pd_key [OF assms], of mp] by (simp add: compute_pd_def Let_def)

lemma sample_pd_first_row:
  "hd (pd_curve (fst (compute_pd shift_months mp sample_pd)) ''Retail'' ''Stage 2'')
   \<in> set (fst (compute_pd shift_months mp sample_pd))"
proof -
  have "pd_curve (fst (compute_pd shift_months mp sample_pd)) ''Retail'' ''Stage 2'' \<noteq> []"
    using sample_pd_curve [of "''Stage 2''" mp] by (auto simp: STAGES_def)
  from hd_in_set [OF this] show ?thesis by (auto simp: pd_curve_def)
qed

theorem compute_pd_probabilities_witness:
  "\<exists>row. row \<in> set (fst (compute_pd shift_months mat_pow sample_pd))
     \<and> po_s1 row + po_s2 row + po_s3 row \<le> 1 \<and> 0 \<le> po_marginal row \<and> po_marginal row \<le> 1"
  using compute_pd_probabilities [OF matrix_power_law_mat_pow sample_pd_amounts
      sample_pd_first_row [of mat_pow]] sample_pd_first_row [of mat_pow] by blast

text \<open>
  A frame whose transitions are counted: of two Stage 2 loans of equal amount one defaults in the
  following month. The Stage 2 curve halves its survival every month; the Stage 3 curve is beyond
  the threshold from its first month.
\<close>

definition moving_pd :: "pd_row list" where
  "moving_pd =
     [sample_row ''L1'' (Date 2024 1 15) ''Stage 2'' 50000,
      sample_row ''L1'' (Date 2024 2 15) ''Stage 2'' 48000,
      sample_row ''L2'' (Date 2024 1 15) ''Stage 2'' 50000,
      sample_row ''L2'' (Date 2024 2 15) ''Stage 3'' 48000]"

lemma moving_pd_matrix:
  "normal_of (pd_working shift_months moving_pd) ''Retail''
   = Mat3 (Vec3 0 0 0) (Vec3 0 (1/2) (1/2)) (Vec3 0 0 1)"
  by code_simp

lemma moving_pd_amounts: "\<forall>r \<in> set moving_pd. 0 \<le> pdr_amount r"
  by (simp add: moving_pd_def sample_row_def)

lemma moving_pd_segments: "pd_segments (pd_working shift_months moving_pd) = [''Retail'']"
  by code_simp

lemma moving_pd_curve:
  assumes "t \<in> set STAGES"
  shows "pd_curve (fst (compute_pd shift_months mp moving_pd)) ''Retail'' t
    = curve_out mp (pd_working shift_months moving_pd) (''Retail'', t)"
  using pd_curve_rows [of "''Retail''" t "pd_working shift_months moving_pd" mp] assms
  by (simp add: compute_pd_def Let_def curve_keys_def moving_pd_segments)

lemma moving_pd_cumulative:
  "map (\<lambda>i. po_s3 (pd_curve (fst (compute_pd shift_months mat_pow moving_pd)) ''Retail'' ''Stage 2'' ! i)) [0, 1, 2]
   = [1/2, 3/4, 7/8]"
  "map (\<lambda>i. po_s3 (pd_curve (fst (compute_pd shift_months mat_pow moving_pd)) ''Retail'' ''Stage 3'' ! i)) [0, 1, 2]
   = [1, 1, 1]"
  by (simp_all add: moving_pd_curve STAGES_def curve_out_s3 curve_nth stage_row_def moving_pd_matrix
      numeral_3_eq_3 mat_mult_def vec_mat_def)

theorem compute_pd_survival_witness:
  "(\<Prod>i\<le>(2::nat). 1 - po_marginal (pd_curve (fst (compute_pd shift_months mat_pow moving_pd)) ''Retail'' ''Stage 2'' ! i))
     = 1/8
   \<and> (\<Prod>i\<le>(2::nat). 1 - po_marginal (pd_curve (fst (compute_pd shift_months mat_pow moving_pd)) ''Retail'' ''Stage 3'' ! i))
     \<le> DENOM_EPS"
proof -
  let ?r = "pd_curve (fst (compute_pd shift_months mat_pow moving_pd)) ''Retail''"
  have len: "(2::nat) < length (?r ''Stage 2'')" "(2::nat) < length (?r ''Stage 3'')"
    by (simp_all add: moving_pd_curve STAGES_def)
  have "\<forall>i<(2::nat). DENOM_EPS < 1 - po_s3 (?r ''Stage 2'' ! i)"
    using moving_pd_cumulative(1) by (auto simp: less_2_cases_iff DENOM_EPS_def)
  with compute_pd_survival [OF matrix_power_law_mat_pow moving_pd_amounts refl len(1)]
    compute_pd_survival [OF matrix_power_law_mat_pow moving_pd_amounts refl len(2)]
  show ?thesis using moving_pd_cumulative by simp
qed

lemma compute_pd_monotone_sample:
  "po_s3 (pd_curve (fst (compute_pd shift_months mat_pow sample_pd)) ''Retail'' ''Stage 2'' ! 11)
   \<le> po_s3 (pd_curve (fst (compute_pd shift_months mat_pow sample_pd)) ''Retail'' ''Stage 2'' ! 23)"
  by (rule compute_pd_monotone [OF matrix_power_law_mat_pow sample_pd_amounts refl])
    (simp_all add: sample_pd_curve STAGES_def)

lemma month_end_transition_witness:
  "pd_working shift_months
     [sample_row ''L2'' (Date 2025 1 31) ''Stage 2'' 50000, sample_row ''L2'' (Date 2025 2 28) ''Stage 3'' 48000]
   = [(sample_row ''L2'' (Date 2025 1 31) ''Stage 2'' 50000, ''Offbooks''),
      (sample_row ''L2'' (Date 2025 2 28) ''Stage 3'' 48000, ''Offbooks'')]
   \<and> pd_working shift_months
     [sample_row ''L2'' (Date 2025 2 28) ''Stage 2'' 50000, sample_row ''L2'' (Date 2025 3 31) ''Stage 3'' 48000]
   = [(sample_row ''L2'' (Date 2025 2 28) ''Stage 2'' 50000, ''Stage 3''),
      (sample_row ''L2'' (Date 2025 3 31) ''Stage 3'' 48000, ''Offbooks'')]"
proof -
  have v: "valid_date (Date 2025 1 31)" "valid_date (Date 2025 2 28)" "valid_date (Date 2025 3 31)"
    by code_simp+
  have d: "days_in_month 2025 1 = 31" "days_in_month 2025 2 = 28" "days_in_month 2025 3 = 31"
    by code_simp+
  show ?thesis
    using month_end_transition [of shift_months "sample_row ''L2'' (Date 2025 1 31) ''Stage 2'' 50000"
        "sample_row ''L2'' (Date 2025 2 28) ''Stage 3'' 48000"]
      month_end_transition [of shift_months "sample_row ''L2'' (Date 2025 2 28) ''Stage 2'' 50000"
        "sample_row ''L2'' (Date 2025 3 31) ''Stage 3'' 48000"] v d
    by (simp add: sample_row_def month_index_def OFFBOOKS_def)
qed

text \<open>
  On the frame of the engine's own unit test every January row is followed by a February row,
  but no transition is counted: the aggregate matrix of the segment is zero and its cure rate is
  zero, because 29 February shifted back by one month is 29 January and not 31 January.
\<close>

lemma unit_test_frame_has_no_transitions:
  "im_aggregate (snd (snd (compute_pd shift_months mp sample_pd)))
     = [(''Retail'', [(''Stage 1'', [0, 0, 0]), (''Stage 2'', [0, 0, 0]), (''Stage 3'', [0, 0, 0])])]
   \<and> fst (snd (compute_pd shift_months mp sample_pd)) = [(''Retail'', 0)]"
proof -
  have "per_segment (\<lambda>df. matrix_to_dict (segment_aggregate df)) (pd_working shift_months sample_pd)
     = [(''Retail'', [(''Stage 1'', [0, 0, 0]), (''Stage 2'', [0, 0, 0]), (''Stage 3'', [0, 0, 0])])]"
    by code_simp
  moreover have "pd_cure_rates (pd_working shift_months sample_pd) = [(''Retail'', 0)]"
    by code_simp
  ultimately show ?thesis by (simp add: compute_pd_def pd_intermediate_def Let_def)
qed

end
