(* ===== verification/LgdEngine.thy ===== *)
theory LgdEngine
  imports Prelude
begin

text \<open>
  The loss-given-default engine, \<^verbatim>\<open>app/engine/lgd_engine.py\<close>, and the collateral configuration the
  compute task hands to it (\<^verbatim>\<open>_load_collateral_config\<close> of \<^verbatim>\<open>app/tasks/compute_tasks.py\<close>).

  An LGD input row is the record \<open>lgd_row\<close>; its collateral columns are a partial map from the
  column name to the amount, undefined where the column is absent or the cell empty. The lemmas
  show that a customer's loans share each collateral in proportions that add up to one, so that a
  pool repeated on every loan of the customer is allocated exactly once, and that discounting
  never adds value.
\<close>

section \<open>Definitions\<close>

definition LGD_ENGINE_EIR_ALIASES :: "py_str list" where
  "LGD_ENGINE_EIR_ALIASES = [''Effective Interest Rate (EIR)'', ''Effective Interest Rate'', ''EIR'']"

definition lgd_engine_resolve_eir :: "py_str list \<Rightarrow> py_str" where
  "lgd_engine_resolve_eir columns =
     (case filter (\<lambda>name. name \<in> set columns) LGD_ENGINE_EIR_ALIASES of
        name # _ \<Rightarrow> name
      | [] \<Rightarrow> ''Effective Interest Rate (EIR)'')"

record lgd_row =
  lr_customer :: py_str
  lr_loan :: py_str
  lr_outstanding :: num
  lr_eir :: num
  lr_collateral :: "py_str \<rightharpoonup> num"

record coll_cfg =
  cc_name :: py_str
  cc_haircut :: num
  cc_ttr :: int

record coll_alloc =
  ca_name :: py_str
  ca_proportional :: num
  ca_discounted :: num

record lgd_out =
  lo_loan :: py_str
  lo_customer :: py_str
  lo_outstanding :: num
  lo_eir :: num
  lo_total :: num
  lo_proportion :: num
  lo_sum :: num
  lo_alloc :: "coll_alloc list"

text \<open>\<open>{item["name"]: item for item in collateral_config}\<close>: a later item replaces an earlier one.\<close>

definition config_by_name :: "coll_cfg list \<Rightarrow> py_str \<rightharpoonup> coll_cfg" where
  "config_by_name cfg = map_of (rev (map (\<lambda>c. (cc_name c, c)) cfg))"

definition collateral_names :: "coll_cfg list \<Rightarrow> py_str list" where
  "collateral_names cfg = sorted_unique (map cc_name cfg)"

text \<open>Step 1: the outstanding amounts of a customer added up.\<close>

definition customer_total :: "lgd_row list \<Rightarrow> py_str \<Rightarrow> num" where
  "customer_total rows customer = (\<Sum>r\<leftarrow>filter (\<lambda>r. lr_customer r = customer) rows. lr_outstanding r)"

text \<open>Step 2: the loan's share of it; a total of zero gives the share zero.\<close>

definition lgd_proportion :: "lgd_row list \<Rightarrow> lgd_row \<Rightarrow> num" where
  "lgd_proportion rows r =
     (let total = customer_total rows (lr_customer r)
      in if total = 0 then 0 else lr_outstanding r / total)"

text \<open>Steps 3 and 4 for one collateral: the loan's share, after haircut and time discount.\<close>

definition collateral_value :: "lgd_row \<Rightarrow> py_str \<Rightarrow> num" where
  "collateral_value r name = (case lr_collateral r name of Some v \<Rightarrow> v | None \<Rightarrow> 0)"

definition discount_factor :: "coll_cfg \<Rightarrow> num \<Rightarrow> num" where
  "discount_factor cfg eir = (1 - cc_haircut cfg) * (1 + eir) powi (- cc_ttr cfg)"

definition allocate :: "num \<Rightarrow> lgd_row \<Rightarrow> coll_cfg \<Rightarrow> coll_alloc" where
  "allocate proportion r cfg =
     (let proportional = proportion * collateral_value r (cc_name cfg)
      in \<lparr> ca_name = cc_name cfg, ca_proportional = proportional,
           ca_discounted = proportional * discount_factor cfg (lr_eir r) \<rparr>)"

definition collateral_items :: "coll_cfg list \<Rightarrow> coll_cfg list" where
  "collateral_items cfg = List.map_filter (config_by_name cfg) (collateral_names cfg)"

definition lgd_compute_row :: "coll_cfg list \<Rightarrow> lgd_row list \<Rightarrow> lgd_row \<Rightarrow> lgd_out" where
  "lgd_compute_row cfg rows r =
     (let proportion = lgd_proportion rows r; allocs = map (allocate proportion r) (collateral_items cfg)
      in \<lparr> lo_loan = lr_loan r, lo_customer = lr_customer r, lo_outstanding = lr_outstanding r,
           lo_eir = lr_eir r, lo_total = customer_total rows (lr_customer r),
           lo_proportion = proportion, lo_sum = foldl (\<lambda>s a. s + ca_discounted a) 0 allocs,
           lo_alloc = allocs \<rparr>)"

definition compute_lgd :: "lgd_row list \<Rightarrow> coll_cfg list \<Rightarrow> lgd_out list" where
  "compute_lgd df cfg =
     (let working = sort_key (\<lambda>r. (lr_customer r, lr_loan r)) df
      in sort_key lo_loan (map (lgd_compute_row cfg working) working))"

text \<open>The configured collateral types of a tenant: the haircut is stored as a percentage.\<close>

record collateral_type =
  ct_id :: py_str
  ct_tenant :: py_str
  ct_name :: py_str
  ct_haircut :: num
  ct_ttr :: int
  ct_created_by :: py_str
  ct_deleted_at :: "int option"

definition load_collateral_config :: "collateral_type list \<Rightarrow> py_str \<Rightarrow> coll_cfg list" where
  "load_collateral_config table tenant =
     map (\<lambda>c. \<lparr> cc_name = ct_name c, cc_haircut = ct_haircut c / 100, cc_ttr = ct_ttr c \<rparr>)
       (filter (\<lambda>c. ct_tenant c = tenant \<and> ct_deleted_at c = None) table)"

section \<open>The shape of the result\<close>

lemma lgd_compute_row_simps [simp]:
  "lo_loan (lgd_compute_row cfg rows r) = lr_loan r"
  "lo_customer (lgd_compute_row cfg rows r) = lr_customer r"
  "lo_outstanding (lgd_compute_row cfg rows r) = lr_outstanding r"
  "lo_eir (lgd_compute_row cfg rows r) = lr_eir r"
  "lo_total (lgd_compute_row cfg rows r) = customer_total rows (lr_customer r)"
  "lo_proportion (lgd_compute_row cfg rows r) = lgd_proportion rows r"
  "lo_alloc (lgd_compute_row cfg rows r) = map (allocate (lgd_proportion rows r) r) (collateral_items cfg)"
  by (simp_all add: lgd_compute_row_def Let_def)

lemma foldl_sum: "foldl (\<lambda>s a. s + f a) z xs = z + (\<Sum>a\<leftarrow>xs. (f a :: num))"
  by (induction xs arbitrary: z) auto

lemma lo_sum_lgd_compute_row [simp]:
  "lo_sum (lgd_compute_row cfg rows r) = (\<Sum>a\<leftarrow>lo_alloc (lgd_compute_row cfg rows r). ca_discounted a)"
  by (simp add: lgd_compute_row_def Let_def foldl_sum)

lemma customer_total_sort [simp]: "customer_total (sort_key f rows) c = customer_total rows c"
proof -
  have "mset (map lr_outstanding (filter (\<lambda>r. lr_customer r = c) (sort_key f rows)))
      = mset (map lr_outstanding (filter (\<lambda>r. lr_customer r = c) rows))"
    by simp
  then show ?thesis unfolding customer_total_def by (metis sum_mset_sum_list)
qed

lemma lgd_compute_row_sort [simp]: "lgd_compute_row cfg (sort_key f rows) = lgd_compute_row cfg rows"
  by (rule ext) (simp add: lgd_compute_row_def lgd_proportion_def)

lemma mset_compute_lgd: "mset (compute_lgd df cfg) = image_mset (lgd_compute_row cfg df) (mset df)"
  by (simp add: compute_lgd_def Let_def)

lemma set_compute_lgd: "set (compute_lgd df cfg) = lgd_compute_row cfg df ` set df"
  using arg_cong [OF mset_compute_lgd, of set_mset] by simp

text \<open>A sum over the output rows of one customer is the sum over the customer's input rows.\<close>

lemma sum_compute_lgd_customer:
  "(\<Sum>o'\<leftarrow>filter (\<lambda>o'. lo_customer o' = c) (compute_lgd df cfg). f o')
   = (\<Sum>r\<leftarrow>filter (\<lambda>r. lr_customer r = c) df. (f (lgd_compute_row cfg df r) :: num))"
proof -
  have "mset (map f (filter (\<lambda>o'. lo_customer o' = c) (compute_lgd df cfg)))
      = mset (map (\<lambda>r. f (lgd_compute_row cfg df r)) (filter (\<lambda>r. lr_customer r = c) df))"
    by (simp add: mset_compute_lgd filter_mset_image_mset image_mset.compositionality comp_def)
  then show ?thesis by (metis sum_mset_sum_list)
qed

lemma sum_lgd_proportion:
  "(\<Sum>r\<leftarrow>filter (\<lambda>r. lr_customer r = c) df. lgd_proportion df r * (v :: num))
   = (if customer_total df c = 0 then 0 else v)"
proof -
  let ?rs = "filter (\<lambda>r. lr_customer r = c) df" and ?t = "customer_total df c"
  have "(\<Sum>r\<leftarrow>?rs. lgd_proportion df r * v) = (\<Sum>r\<leftarrow>?rs. lr_outstanding r * (if ?t = 0 then 0 else v / ?t))"
    by (rule arg_cong [where f = sum_list], rule map_cong) (auto simp: lgd_proportion_def Let_def)
  also have "\<dots> = ?t * (if ?t = 0 then 0 else v / ?t)"
    by (simp add: customer_total_def sum_list_mult_const)
  finally show ?thesis by simp
qed

section \<open>The configured collateral\<close>

lemma config_by_name_None [simp]: "config_by_name cfg n = None \<longleftrightarrow> n \<notin> cc_name ` set cfg"
  by (force simp: config_by_name_def map_of_eq_None_iff)

lemma config_by_name_SomeD:
  "config_by_name cfg n = Some c \<Longrightarrow> c \<in> set cfg \<and> cc_name c = n"
  by (auto simp: config_by_name_def dest: map_of_SomeD)

lemma cc_name_collateral_items: "map cc_name (collateral_items cfg) = collateral_names cfg"
proof -
  have "map cc_name (List.map_filter (config_by_name cfg) ns) = ns" if "set ns \<subseteq> cc_name ` set cfg" for ns
    using that
  proof (induction ns)
    case (Cons n ns)
    then obtain c where "config_by_name cfg n = Some c"
      by (metis config_by_name_None insert_subset list.simps(15) option.exhaust)
    with Cons show ?case by (auto simp: List.map_filter_simps dest: config_by_name_SomeD)
  qed (simp add: List.map_filter_simps)
  then show ?thesis by (simp add: collateral_items_def collateral_names_def)
qed

lemma distinct_collateral_items: "distinct (collateral_items cfg)"
proof -
  have "distinct (map cc_name (collateral_items cfg))"
    by (simp add: cc_name_collateral_items collateral_names_def)
  then show ?thesis by (simp add: distinct_map)
qed

lemma set_collateral_items:
  "c \<in> set (collateral_items cfg) \<longleftrightarrow> config_by_name cfg (cc_name c) = Some c"
proof
  show "config_by_name cfg (cc_name c) = Some c" if "c \<in> set (collateral_items cfg)"
    using that config_by_name_SomeD [of cfg _ c]
    by (auto simp: collateral_items_def List.map_filter_def)
  show "c \<in> set (collateral_items cfg)" if s: "config_by_name cfg (cc_name c) = Some c"
    using s config_by_name_SomeD [OF s]
    by (force simp: collateral_items_def collateral_names_def List.map_filter_def image_iff)
qed

definition alloc_of :: "py_str \<Rightarrow> lgd_out \<Rightarrow> num" where
  "alloc_of n o' = (\<Sum>a\<leftarrow>filter (\<lambda>a. ca_name a = n) (lo_alloc o'). ca_proportional a)"

lemma alloc_of_lgd_compute_row:
  assumes "n \<in> cc_name ` set cfg"
  shows "alloc_of n (lgd_compute_row cfg rows r) = lgd_proportion rows r * collateral_value r n"
proof -
  from assms obtain c where s: "config_by_name cfg n = Some c"
    by (metis config_by_name_None option.exhaust)
  have n: "cc_name c = n" using config_by_name_SomeD [OF s] by simp
  have "c \<in> set (collateral_items cfg)" using s n by (simp add: set_collateral_items)
  then have "filter (\<lambda>y. cc_name y = n) (collateral_items cfg) = [c]"
    using filter_name_unique [of cc_name "collateral_items cfg" c] n
    by (simp add: cc_name_collateral_items collateral_names_def)
  then show ?thesis using n
    by (simp add: alloc_of_def filter_map comp_def allocate_def Let_def)
qed

lemma collateral_items_subset: "set (collateral_items cfg) \<subseteq> set cfg"
  using config_by_name_SomeD by (fastforce simp: set_collateral_items)

section \<open>Bounds\<close>

definition wf_lgd_row :: "lgd_row \<Rightarrow> bool" where
  "wf_lgd_row r \<longleftrightarrow> 0 \<le> lr_outstanding r \<and> 0 \<le> lr_eir r \<and> (\<forall>v \<in> ran (lr_collateral r). 0 \<le> v)"

definition wf_coll_cfg :: "coll_cfg \<Rightarrow> bool" where
  "wf_coll_cfg c \<longleftrightarrow> 0 \<le> cc_haircut c \<and> cc_haircut c \<le> 1 \<and> 0 \<le> cc_ttr c"

lemma discount_factor_bounds:
  assumes "wf_coll_cfg c" "0 \<le> eir"
  shows "0 \<le> discount_factor c eir" "discount_factor c eir \<le> 1"
proof -
  have "1 \<le> (1 + eir) ^ nat (cc_ttr c)" using assms(2) by (simp add: one_le_power)
  then have p: "0 \<le> (1 + eir) powi (- cc_ttr c)" "(1 + eir) powi (- cc_ttr c) \<le> 1"
    using assms by (auto simp: power_int_def wf_coll_cfg_def field_simps)
  show "0 \<le> discount_factor c eir" "discount_factor c eir \<le> 1"
    using assms(1) p by (auto simp: discount_factor_def wf_coll_cfg_def intro!: mult_nonneg_nonneg mult_le_one)
qed

lemma collateral_value_nonneg: "wf_lgd_row r \<Longrightarrow> 0 \<le> collateral_value r n"
  by (auto simp: collateral_value_def wf_lgd_row_def ran_def split: option.splits)

lemma customer_total_ge:
  assumes "\<And>r. r \<in> set df \<Longrightarrow> wf_lgd_row r" "r \<in> set df"
  shows "lr_outstanding r \<le> customer_total df (lr_customer r)"
  unfolding customer_total_def
  by (rule sum_list_nonneg_ge_member) (use assms in \<open>auto simp: wf_lgd_row_def\<close>)

lemma lgd_proportion_bounds:
  assumes "\<And>r. r \<in> set df \<Longrightarrow> wf_lgd_row r" "r \<in> set df"
  shows "0 \<le> lgd_proportion df r" "lgd_proportion df r \<le> 1"
proof -
  have "0 \<le> lr_outstanding r" using assms by (simp add: wf_lgd_row_def)
  with customer_total_ge [OF assms] show "0 \<le> lgd_proportion df r" "lgd_proportion df r \<le> 1"
    by (auto simp: lgd_proportion_def Let_def divide_le_eq zero_le_divide_iff)
qed

lemma allocate_bounds:
  assumes "wf_coll_cfg c" "wf_lgd_row r" "0 \<le> p"
  shows "0 \<le> ca_discounted (allocate p r c)"
    "ca_discounted (allocate p r c) \<le> ca_proportional (allocate p r c)"
    "ca_proportional (allocate p r c) = p * collateral_value r (cc_name c)"
proof -
  have "0 \<le> lr_eir r" using assms(2) by (simp add: wf_lgd_row_def)
  note d = discount_factor_bounds [OF assms(1) this]
  have v: "0 \<le> p * collateral_value r (cc_name c)"
    using assms(2,3) by (simp add: collateral_value_nonneg)
  show "0 \<le> ca_discounted (allocate p r c)"
    "ca_discounted (allocate p r c) \<le> ca_proportional (allocate p r c)"
    "ca_proportional (allocate p r c) = p * collateral_value r (cc_name c)"
    using v d by (auto simp: allocate_def Let_def mult_left_le)
qed

lemma lo_sum_bounds:
  assumes "\<And>r. r \<in> set df \<Longrightarrow> wf_lgd_row r" "\<And>c. c \<in> set cfg \<Longrightarrow> wf_coll_cfg c" "r \<in> set df"
  shows "0 \<le> lo_sum (lgd_compute_row cfg df r)"
    "lo_sum (lgd_compute_row cfg df r)
     \<le> (\<Sum>c\<leftarrow>collateral_items cfg. lgd_proportion df r * collateral_value r (cc_name c))"
proof -
  have wf: "wf_coll_cfg c" if "c \<in> set (collateral_items cfg)" for c
    using that assms(2) collateral_items_subset by auto
  note b = allocate_bounds [OF wf assms(1) [OF assms(3)] lgd_proportion_bounds(1) [OF assms(1,3)]]
  show "0 \<le> lo_sum (lgd_compute_row cfg df r)"
    using b(1) by (auto simp: comp_def intro!: sum_list_nonneg_map)
  show "lo_sum (lgd_compute_row cfg df r)
      \<le> (\<Sum>c\<leftarrow>collateral_items cfg. lgd_proportion df r * collateral_value r (cc_name c))"
    using b(2,3) by (auto simp: comp_def intro!: sum_list_mono)
qed

section \<open>Properties\<close>

text \<open>
  Step 2 splits every customer completely: over the loans of one customer in the result, the
  proportions add up to one, or to zero when the customer owes nothing in total.
\<close>

lemma lgd_proportions_sum:
  "(\<Sum>o'\<leftarrow>filter (\<lambda>o'. lo_customer o' = c) (compute_lgd df cfg). lo_proportion o')
   = (if customer_total df c = 0 then 0 else 1)"
  using sum_lgd_proportion [where v = 1 and df = df and c = c]
  by (simp add: sum_compute_lgd_customer [where f = lo_proportion])

text \<open>
  C3. A collateral pool in a configured column that is repeated on every loan of a customer whose total is not zero is
  allocated to these loans exactly once: the amounts of step 3 add up to the value of the pool.
\<close>

theorem lgd_pool_allocated_once:
  assumes "n \<in> cc_name ` set cfg" "customer_total df c \<noteq> 0"
    "\<forall>r \<in> set df. lr_customer r = c \<longrightarrow> collateral_value r n = v"
  shows "(\<Sum>o'\<leftarrow>filter (\<lambda>o'. lo_customer o' = c) (compute_lgd df cfg). alloc_of n o') = v"
proof -
  have "(\<Sum>o'\<leftarrow>filter (\<lambda>o'. lo_customer o' = c) (compute_lgd df cfg). alloc_of n o')
      = (\<Sum>r\<leftarrow>filter (\<lambda>r. lr_customer r = c) df. lgd_proportion df r * v)"
    unfolding sum_compute_lgd_customer
    by (rule arg_cong [where f = sum_list], rule map_cong)
      (use assms in \<open>auto simp: alloc_of_lgd_compute_row\<close>)
  with assms(2) show ?thesis by (simp add: sum_lgd_proportion)
qed

text \<open>
  C4. With haircuts between zero and one, no negative realisation time, and amounts and rates that
  are not negative, the collateral a loan is credited with lies between zero and its share of the
  configured collateral columns, and the share itself is at most one.
\<close>

theorem lgd_discounted_bounds:
  assumes "\<forall>r \<in> set df. wf_lgd_row r" "\<forall>c \<in> set cfg. wf_coll_cfg c" "o' \<in> set (compute_lgd df cfg)"
  shows "0 \<le> lo_proportion o' \<and> lo_proportion o' \<le> 1 \<and> 0 \<le> lo_sum o'
    \<and> (\<exists>r \<in> set df. lr_loan r = lo_loan o' \<and> lr_customer r = lo_customer o'
         \<and> lo_sum o' \<le> (\<Sum>c\<leftarrow>collateral_items cfg. lo_proportion o' * collateral_value r (cc_name c)))"
proof -
  from assms(3) obtain r where r: "r \<in> set df" "o' = lgd_compute_row cfg df r"
    by (auto simp: set_compute_lgd)
  have wf: "\<And>r. r \<in> set df \<Longrightarrow> wf_lgd_row r" "\<And>c. c \<in> set cfg \<Longrightarrow> wf_coll_cfg c"
    using assms(1,2) by auto
  have p: "0 \<le> lo_proportion o'" "lo_proportion o' \<le> 1" "0 \<le> lo_sum o'"
    using lgd_proportion_bounds [OF wf(1) r(1)] lo_sum_bounds(1) [OF wf r(1)]
    by (simp_all only: r(2) lgd_compute_row_simps)
  have "lo_sum o' \<le> (\<Sum>c\<leftarrow>collateral_items cfg. lo_proportion o' * collateral_value r (cc_name c))"
    using lo_sum_bounds(2) [OF wf r(1)] by (simp only: r(2) lgd_compute_row_simps)
  with p r show ?thesis by auto
qed

text \<open>
  The result has the loans of the input, one row each with its amount and rate, ordered by
  loan identifier; only the order changes.
\<close>

lemma lgd_rows_preserved:
  "sorted (map lo_loan (compute_lgd df cfg))
   \<and> mset (map (\<lambda>o'. (lo_loan o', lo_customer o', lo_outstanding o', lo_eir o')) (compute_lgd df cfg))
     = mset (map (\<lambda>r. (lr_loan r, lr_customer r, lr_outstanding r, lr_eir r)) df)"
proof
  show "sorted (map lo_loan (compute_lgd df cfg))" by (simp add: compute_lgd_def Let_def)
  show "mset (map (\<lambda>o'. (lo_loan o', lo_customer o', lo_outstanding o', lo_eir o')) (compute_lgd df cfg))
     = mset (map (\<lambda>r. (lr_loan r, lr_customer r, lr_outstanding r, lr_eir r)) df)"
    by (simp add: mset_compute_lgd image_mset.compositionality comp_def)
qed

section \<open>Witnesses\<close>

text \<open>Two loans of one customer that share a pool of 800, one loan of another customer.\<close>

definition sample_lgd :: "lgd_row list" where
  "sample_lgd =
     [\<lparr> lr_customer = ''C1'', lr_loan = ''L1'', lr_outstanding = 300, lr_eir = 1 / 10, lr_collateral = [''House'' \<mapsto> 800] \<rparr>,
      \<lparr> lr_customer = ''C2'', lr_loan = ''L3'', lr_outstanding = 50, lr_eir = 0, lr_collateral = Map.empty \<rparr>,
      \<lparr> lr_customer = ''C1'', lr_loan = ''L2'', lr_outstanding = 100, lr_eir = 1 / 5, lr_collateral = [''House'' \<mapsto> 800] \<rparr>]"

definition sample_cfg :: "coll_cfg list" where
  "sample_cfg = load_collateral_config
     [\<lparr> ct_id = ''1'', ct_tenant = ''T'', ct_name = ''House'', ct_haircut = 25, ct_ttr = 2, ct_created_by = ''U'', ct_deleted_at = None \<rparr>,
      \<lparr> ct_id = ''2'', ct_tenant = ''T'', ct_name = ''Car'', ct_haircut = 40, ct_ttr = 1, ct_created_by = ''U'', ct_deleted_at = Some 0 \<rparr>] ''T''"

lemma sample_cfg_eq: "sample_cfg = [\<lparr> cc_name = ''House'', cc_haircut = 1 / 4, cc_ttr = 2 \<rparr>]"
  by (simp add: sample_cfg_def load_collateral_config_def)

lemma sample_lgd_wf: "\<forall>r \<in> set sample_lgd. wf_lgd_row r" "\<forall>c \<in> set sample_cfg. wf_coll_cfg c"
  by (simp_all add: sample_lgd_def sample_cfg_eq wf_lgd_row_def wf_coll_cfg_def)

theorem lgd_pool_allocated_once_witness:
  "(\<Sum>o'\<leftarrow>filter (\<lambda>o'. lo_customer o' = ''C1'') (compute_lgd sample_lgd sample_cfg). alloc_of ''House'' o') = 800"
  by (rule lgd_pool_allocated_once)
    (simp_all add: sample_cfg_eq sample_lgd_def customer_total_def collateral_value_def)

theorem lgd_discounted_bounds_witness:
  "0 \<le> lo_sum (lgd_compute_row sample_cfg sample_lgd (sample_lgd ! 0))
   \<and> lgd_compute_row sample_cfg sample_lgd (sample_lgd ! 0) \<in> set (compute_lgd sample_lgd sample_cfg)"
proof -
  have m: "lgd_compute_row sample_cfg sample_lgd (sample_lgd ! 0) \<in> set (compute_lgd sample_lgd sample_cfg)"
    unfolding set_compute_lgd by (rule imageI) (simp add: sample_lgd_def)
  show ?thesis
    using lgd_discounted_bounds [OF sample_lgd_wf m] m by blast
qed

end
