(* ===== verification/EadEngine.thy ===== *)
theory EadEngine
  imports PdEngine LgdEngine
begin

text \<open>
  The exposure and expected-loss engine, \<^verbatim>\<open>app/engine/ead_engine.py\<close>.

  The definitions follow \<^verbatim>\<open>compute_ead\<close> step by step: frequency, LGD join with its EC-06
  warnings, snapshot expansion per stage, periods, instalments, the balance walk per loan, the PD
  join with its EC-08 failure, and the loss columns. \<^verbatim>\<open>numpy_financial.pmt\<close> and
  \<^verbatim>\<open>pd.DateOffset\<close> are the parameters \<open>pmt\<close> and \<open>off\<close>. The lemmas show the amortisation
  schedule, the effect of the missed-payment rule, the snapshot dates, the bounds of the loss
  columns and the two ways the engine reports missing inputs.
\<close>

section \<open>Instalments and balances\<close>

definition STAGING_ALIASES :: "py_str list" where
  "STAGING_ALIASES = [''Staging'', ''Staging (Stage)'']"

definition EAD_EIR_ALIASES :: "py_str list" where
  "EAD_EIR_ALIASES = [''Effective Interest Rate'', ''Effective Interest Rate (EIR)'', ''EIR'']"

definition FREQ_ALIASES :: "py_str list" where
  "FREQ_ALIASES = [''Repayment Frequency'', ''Payment Frequency'']"

definition LGD_SUM_COL :: py_str where
  "LGD_SUM_COL = ''Sum of Discounted Collaterals per Loan ID''"

definition LGD_SUM_SHORT :: py_str where
  "LGD_SUM_SHORT = ''Sum of Discounted Collaterals''"

definition MISSED_EPS :: num where
  "MISSED_EPS = 1 / 1000000000"

fun resolve_column :: "py_str list \<Rightarrow> py_str list \<Rightarrow> py_str \<Rightarrow> py_str" where
  "resolve_column columns [] dflt = dflt"
| "resolve_column columns (name # names) dflt =
     (if name \<in> set columns then name else resolve_column columns names dflt)"

text \<open>
  \<open>pmt rate periods pv\<close> of numpy-financial: the payment, negative for a positive present value,
  that brings the balance to zero after \<open>periods\<close> payments at the end of each period.
\<close>

type_synonym pmt_fun = "num \<Rightarrow> int \<Rightarrow> num \<Rightarrow> num"

definition pmt_law :: "pmt_fun \<Rightarrow> bool" where
  "pmt_law pmt \<longleftrightarrow>
     (\<forall>rate n pv. 0 < rate \<longrightarrow> 0 < n \<longrightarrow>
        pv * (1 + rate) ^ n + pmt rate (int n) pv * (((1 + rate) ^ n - 1) / rate) = 0)"

definition period_instalment :: "pmt_fun \<Rightarrow> num \<Rightarrow> num \<Rightarrow> int \<Rightarrow> py_str \<Rightarrow> num" where
  "period_instalment pmt outstanding eir remaining_months freq =
     (if freq = ''QTR'' then
        let periods = max 1 (remaining_months div 3); period_rate = eir / 4
        in if period_rate = 0 then outstanding / of_int periods
           else - pmt period_rate periods outstanding
      else if remaining_months \<le> 0 then 0
      else let monthly_rate = eir / 12
           in if monthly_rate = 0 then outstanding / of_int remaining_months
              else - pmt monthly_rate remaining_months outstanding)"

definition payment_month :: "py_str \<Rightarrow> nat \<Rightarrow> bool" where
  "payment_month freq row_idx \<longleftrightarrow> freq \<noteq> ''QTR'' \<or> (row_idx + 1) mod 3 = 0"

definition missed_lookback :: "py_str \<Rightarrow> nat \<Rightarrow> nat list" where
  "missed_lookback freq row_idx =
     (if freq = ''QTR'' then
        let payment_rows = filter (\<lambda>i. (i + 1) mod 3 = 0) [0..<row_idx]
        in drop (length payment_rows - 3) payment_rows
      else [row_idx - 3..<row_idx])"

definition count_missed_periods :: "nat \<Rightarrow> num list \<Rightarrow> num \<Rightarrow> num \<Rightarrow> py_str \<Rightarrow> nat" where
  "count_missed_periods row_idx opening_balances monthly_rate instalment freq =
     (if instalment \<le> 0 then 0
      else min (length (filter (\<lambda>prior_idx.
               opening_balances ! prior_idx * (1 + monthly_rate) + MISSED_EPS < instalment)
             (missed_lookback freq row_idx))) 3)"

definition after_repayment :: "num \<Rightarrow> num \<Rightarrow> py_str \<Rightarrow> nat \<Rightarrow> num \<Rightarrow> num" where
  "after_repayment monthly_rate instalment freq row_idx opening =
     (let effective = if payment_month freq row_idx then instalment else 0;
          after = opening * (1 + monthly_rate) - effective
      in if after < 0 then 0 else after)"

text \<open>
  The loop of \<open>_walk_loan_balances\<close>: \<open>openings\<close> holds the opening balances of the rows done so far
  and \<open>opening\<close> that of the next row; the result is the balance after repayment and after missed
  payments of each remaining row.
\<close>

fun walk_rows :: "num \<Rightarrow> num \<Rightarrow> py_str \<Rightarrow> num list \<Rightarrow> num \<Rightarrow> nat \<Rightarrow> (num \<times> num) list" where
  "walk_rows rate instalment freq openings opening 0 = []"
| "walk_rows rate instalment freq openings opening (Suc n) =
     (let row_idx = length openings;
          openings' = openings @ [opening];
          after = after_repayment rate instalment freq row_idx opening;
          missed = count_missed_periods row_idx openings' rate instalment freq
      in (after, after * (1 + rate) ^ missed) # walk_rows rate instalment freq openings' after n)"

section \<open>Rows\<close>

text \<open>An EAD input row; a missing staging or frequency cell, or an absent frequency column, is None.\<close>

record ead_row =
  er_loan :: py_str
  er_customer :: py_str
  er_segment :: py_str
  er_staging :: "py_str option"
  er_reporting :: date
  er_first_payment :: date
  er_maturity :: date
  er_adj_maturity :: date
  er_outstanding :: num
  er_eir :: num
  er_freq :: "py_str option"

text \<open>The LGD frame: its column names and rows; a cell of a missing column is never read.\<close>

record lgd_in =
  li_loan :: py_str
  li_eir :: "num option"
  li_sum_long :: "num option"
  li_sum_short :: "num option"

record lgd_frame =
  lf_columns :: "py_str list"
  lf_rows :: "lgd_in list"

record lgd_sub =
  ls_loan :: py_str
  ls_eir :: "num option"
  ls_sum :: "num option"

record merged_row =
  mr_row :: ead_row
  mr_freq :: py_str
  mr_eir :: num
  mr_sum :: num

record snapshot =
  sn_row :: merged_row
  sn_date :: date

record walked =
  wk_snap :: snapshot
  wk_period :: int
  wk_instalment :: num
  wk_after_repayment :: num
  wk_after_missed :: num
  wk_discount :: nat

record ead_out =
  eo_loan :: py_str
  eo_customer :: py_str
  eo_segment :: py_str
  eo_staging :: "py_str option"
  eo_date :: date
  eo_period :: int
  eo_discount :: nat
  eo_instalment :: num
  eo_after_repayment :: num
  eo_after_missed :: num
  eo_collateral :: num
  eo_marginal :: num
  eo_cure :: num
  eo_lgw :: num
  eo_lgd :: num
  eo_credit_loss :: num
  eo_discounted :: num

abbreviation sn_ead :: "snapshot \<Rightarrow> ead_row" where
  "sn_ead s \<equiv> mr_row (sn_row s)"

abbreviation sn_loan :: "snapshot \<Rightarrow> py_str" where
  "sn_loan s \<equiv> er_loan (sn_ead s)"

section \<open>The pipeline\<close>

definition norm_freq :: "py_str option \<Rightarrow> py_str" where
  "norm_freq cell =
     (case cell of
        None \<Rightarrow> ''MTH''
      | Some s \<Rightarrow> let f = py_strip (py_upper s) in if f \<in> {''MTH'', ''QTR''} then f else ''MTH'')"

definition lgd_sub_row :: "py_str list \<Rightarrow> lgd_in \<Rightarrow> lgd_sub" where
  "lgd_sub_row columns r =
     \<lparr> ls_loan = li_loan r,
       ls_eir = (if ''EIR'' \<in> set columns then li_eir r else None),
       ls_sum = (if LGD_SUM_COL \<in> set columns then li_sum_long r
                 else if LGD_SUM_SHORT \<in> set columns then li_sum_short r
                 else Some 0) \<rparr>"

definition lgd_subset :: "lgd_frame \<Rightarrow> lgd_sub list" where
  "lgd_subset lgd = drop_duplicates ls_loan (map (lgd_sub_row (lf_columns lgd)) (lf_rows lgd))"

definition merge_lgd :: "ead_row list \<Rightarrow> lgd_frame \<Rightarrow> (ead_row \<times> lgd_sub option) list" where
  "merge_lgd ead lgd = left_merge er_loan ls_loan (sort_key er_loan ead) (lgd_subset lgd)"

definition lgd_missing :: "ead_row \<times> lgd_sub option \<Rightarrow> bool" where
  "lgd_missing m = (Option.bind (snd m) ls_sum = None)"

definition em_dash :: py_str where
  "em_dash = [CHR 0xE2, CHR 0x80, CHR 0x94]"

definition ec06_warning :: "py_str \<Rightarrow> py_str" where
  "ec06_warning loan =
     ''EC-06: Loan '' @ loan @ '' in EAD but not in LGD '' @ em_dash @ '' collateral treated as 0''"

definition ec06_warnings :: "(ead_row \<times> lgd_sub option) list \<Rightarrow> py_str list" where
  "ec06_warnings merged =
     map ec06_warning (sorted_unique (map (er_loan \<circ> fst) (filter lgd_missing merged)))"

definition fill_merged :: "ead_row \<times> lgd_sub option \<Rightarrow> merged_row" where
  "fill_merged m =
     \<lparr> mr_row = fst m, mr_freq = norm_freq (er_freq (fst m)),
       mr_eir = (case Option.bind (snd m) ls_eir of Some e \<Rightarrow> e | None \<Rightarrow> er_eir (fst m)),
       mr_sum = (case Option.bind (snd m) ls_sum of Some v \<Rightarrow> v | None \<Rightarrow> 0) \<rparr>"

definition merged_frame :: "ead_row list \<Rightarrow> lgd_frame \<Rightarrow> merged_row list" where
  "merged_frame ead lgd = map fill_merged (merge_lgd ead lgd)"

definition snap :: "date \<Rightarrow> merged_row \<Rightarrow> snapshot" where
  "snap d m = \<lparr> sn_row = m, sn_date = d \<rparr>"

definition at_stage :: "py_str \<Rightarrow> merged_row list \<Rightarrow> merged_row list" where
  "at_stage stage merged = filter (\<lambda>m. er_staging (mr_row m) = Some stage) merged"

definition clip_maturity :: "snapshot list \<Rightarrow> snapshot list" where
  "clip_maturity snaps = filter (\<lambda>s. sn_date s \<le> er_maturity (sn_ead s)) snaps"

definition expand_single :: "merged_row list \<Rightarrow> snapshot list" where
  "expand_single ms = map (\<lambda>m. snap (er_reporting (mr_row m)) m) ms"

definition expand_stage1 :: "(date \<Rightarrow> int \<Rightarrow> date) \<Rightarrow> merged_row list \<Rightarrow> snapshot list" where
  "expand_stage1 off ms =
     clip_maturity (concat (map (\<lambda>i. map (\<lambda>m. snap (off (er_reporting (mr_row m)) (int i)) m) ms) [0..<13]))"

definition stage2_len :: "merged_row \<Rightarrow> nat" where
  "stage2_len m = nat (max 0 (months_between (er_reporting (mr_row m)) (er_maturity (mr_row m)))) + 1"

definition expand_stage2 :: "(date \<Rightarrow> int \<Rightarrow> date) \<Rightarrow> merged_row list \<Rightarrow> snapshot list" where
  "expand_stage2 off ms =
     clip_maturity (concat (map (\<lambda>m.
       map (\<lambda>i. snap (off (er_reporting (mr_row m)) (int i)) m) [0..<stage2_len m]) ms))"

definition other_stage :: "merged_row list \<Rightarrow> merged_row list" where
  "other_stage merged =
     filter (\<lambda>m. er_staging (mr_row m) \<notin> {Some ''Stage 1'', Some ''Stage 2'', Some ''Stage 3''}) merged"

definition expand_snapshots :: "(date \<Rightarrow> int \<Rightarrow> date) \<Rightarrow> merged_row list \<Rightarrow> snapshot list" where
  "expand_snapshots off merged =
     expand_single (at_stage ''Stage 3'' merged)
     @ expand_stage1 off (at_stage ''Stage 1'' merged)
     @ expand_stage2 off (at_stage ''Stage 2'' merged)
     @ expand_single (other_stage merged)"

definition remaining_months :: "ead_row \<Rightarrow> int" where
  "remaining_months r =
     (let elapsed = months_between (er_first_payment r) (er_reporting r);
          total_term = months_between (er_first_payment r) (er_adj_maturity r)
      in total_term - elapsed)"

definition loan_instalment :: "pmt_fun \<Rightarrow> snapshot \<Rightarrow> num" where
  "loan_instalment pmt s =
     period_instalment pmt (er_outstanding (sn_ead s)) (mr_eir (sn_row s))
       (remaining_months (sn_ead s)) (mr_freq (sn_row s))"

text \<open>Step 4: one instalment per loan, from the first snapshot that carries the identifier.\<close>

definition instalments :: "pmt_fun \<Rightarrow> snapshot list \<Rightarrow> py_str \<rightharpoonup> num" where
  "instalments pmt snaps = map_of (map (\<lambda>s. (sn_loan s, loan_instalment pmt s)) (drop_duplicates sn_loan snaps))"

text \<open>\<open>_walk_loan_balances\<close> on the snapshots of one loan, which all carry the same instalment.\<close>

definition walk_loan_balances :: "num \<Rightarrow> snapshot list \<Rightarrow> walked list" where
  "walk_loan_balances instalment grp =
     (let sorted = sort_key sn_date grp; first = hd sorted;
          balances = walk_rows (mr_eir (sn_row first) / 12) instalment (mr_freq (sn_row first)) []
            (er_outstanding (sn_ead first)) (length sorted)
      in map (\<lambda>(i, s, repaid, missed).
           \<lparr> wk_snap = s, wk_period = months_between (er_first_payment (sn_ead s)) (sn_date s),
             wk_instalment = instalment, wk_after_repayment = repaid, wk_after_missed = missed,
             wk_discount = i \<rparr>)
         (zip [0..<length sorted] (zip sorted balances)))"

definition walk_all :: "pmt_fun \<Rightarrow> snapshot list \<Rightarrow> walked list" where
  "walk_all pmt snaps =
     concat (map (\<lambda>(loan, grp). walk_loan_balances (the (instalments pmt snaps loan)) grp)
       (groups sn_loan snaps))"

abbreviation wk_ead :: "walked \<Rightarrow> ead_row" where
  "wk_ead w \<equiv> sn_ead (wk_snap w)"

text \<open>Step 8: the PD join, and EC-08.\<close>

definition wk_key :: "walked \<Rightarrow> py_str \<times> int \<times> py_str option" where
  "wk_key w = (er_segment (wk_ead w), wk_period w, er_staging (wk_ead w))"

definition pd_lookup_key :: "pd_out \<Rightarrow> py_str \<times> int \<times> py_str option" where
  "pd_lookup_key p = (po_segment p, int (po_month p), Some (po_transition p))"

definition merge_pd :: "walked list \<Rightarrow> pd_out list \<Rightarrow> (walked \<times> pd_out option) list" where
  "merge_pd ws pd_df = left_merge wk_key pd_lookup_key ws pd_df"

definition missing_segs :: "(walked \<times> pd_out option) list \<Rightarrow> py_str list" where
  "missing_segs merged =
     filter (\<lambda>seg. seg \<notin> set (map (er_segment \<circ> wk_ead \<circ> fst) (filter (\<lambda>m. snd m \<noteq> None) merged)))
       (sorted_unique (map (er_segment \<circ> wk_ead \<circ> fst) merged))"

definition ec08_message :: "py_str list \<Rightarrow> py_str" where
  "ec08_message segs =
     ''EC-08: No PD history for segment(s): '' @ py_join '', '' segs @ ''. ''
     @ ''All segments present in the EAD file must have corresponding PD data. ''
     @ ''Add these segments to the PD file and re-run.''"

text \<open>Steps 9 to 11.\<close>

definition compute_lgw :: "num \<Rightarrow> num \<Rightarrow> num" where
  "compute_lgw collateral balance = (if balance \<le> 0 then 0 else max (1 - collateral / balance) 0)"

definition ecl_discount :: "num \<Rightarrow> nat \<Rightarrow> num" where
  "ecl_discount monthly_rate period =
     (if 0 < period then (1 + monthly_rate) powi (- int period) else 1)"

definition loss_row :: "walked \<times> pd_out option \<Rightarrow> ead_out" where
  "loss_row m =
     (let w = fst m; r = wk_ead w; mr = sn_row (wk_snap w);
          marginal = (case snd m of Some p \<Rightarrow> po_marginal p | None \<Rightarrow> 0);
          cure = (case snd m of Some p \<Rightarrow> po_cure p | None \<Rightarrow> 0);
          lgw = compute_lgw (mr_sum mr) (wk_after_missed w);
          lgd = lgw * (1 - cure);
          credit_loss = wk_after_missed w * marginal * lgd
      in \<lparr> eo_loan = er_loan r, eo_customer = er_customer r, eo_segment = er_segment r,
           eo_staging = er_staging r, eo_date = sn_date (wk_snap w), eo_period = wk_period w,
           eo_discount = wk_discount w, eo_instalment = wk_instalment w,
           eo_after_repayment = wk_after_repayment w, eo_after_missed = wk_after_missed w,
           eo_collateral = mr_sum mr, eo_marginal = marginal, eo_cure = cure, eo_lgw = lgw, eo_lgd = lgd,
           eo_credit_loss = credit_loss,
           eo_discounted = credit_loss * ecl_discount (mr_eir mr / 12) (wk_discount w) \<rparr>)"

definition ead_output :: "(walked \<times> pd_out option) list \<Rightarrow> ead_out list" where
  "ead_output merged = sort_key (\<lambda>e. (eo_loan e, eo_date e)) (map loss_row merged)"

definition compute_ead ::
    "(date \<Rightarrow> int \<Rightarrow> date) \<Rightarrow> pmt_fun \<Rightarrow> ead_row list \<Rightarrow> pd_out list \<Rightarrow> lgd_frame \<Rightarrow>
     (ead_out list \<times> py_str list) result" where
  "compute_ead off pmt ead pd_df lgd =
     (let warnings = ec06_warnings (merge_lgd ead lgd);
          snapshots = expand_snapshots off (merged_frame ead lgd)
      in if snapshots = [] then Inr ([], warnings)
         else let merged = merge_pd (walk_all pmt snapshots) pd_df
              in if missing_segs merged \<noteq> [] then Inl (ValueError (ec08_message (missing_segs merged)))
                 else Inr (ead_output merged, warnings))"

section \<open>The balance walk\<close>

lemma length_walk_rows [simp]: "length (walk_rows rate inst freq ops op n) = n"
  by (induction n arbitrary: ops op) (simp_all add: Let_def)

lemma after_repayment_nonneg [simp]: "0 \<le> after_repayment rate inst freq i op"
  by (simp add: after_repayment_def Let_def)

text \<open>
  A payment that the balance does not cover clears the balance: the opening balances that follow it
  are zero.
\<close>

definition cleared :: "num \<Rightarrow> num \<Rightarrow> py_str \<Rightarrow> num list \<Rightarrow> num \<Rightarrow> bool" where
  "cleared rate inst freq ops op \<longleftrightarrow>
     (\<forall>i < length ops. payment_month freq i \<longrightarrow> ops ! i * (1 + rate) < inst \<longrightarrow> op = 0)"

lemma after_repayment_zero: "0 \<le> inst \<Longrightarrow> after_repayment rate inst freq i 0 = 0"
  by (auto simp: after_repayment_def Let_def)

lemma cleared_step:
  assumes "cleared rate inst freq ops op" "0 \<le> inst"
  shows "cleared rate inst freq (ops @ [op]) (after_repayment rate inst freq (length ops) op)"
  unfolding cleared_def
proof (intro allI impI)
  fix i
  assume i: "i < length (ops @ [op])" "payment_month freq i" "(ops @ [op]) ! i * (1 + rate) < inst"
  show "after_repayment rate inst freq (length ops) op = 0"
  proof (cases "i < length ops")
    case True
    then have "op = 0" using assms(1) i(2,3) by (simp add: cleared_def nth_append)
    then show ?thesis using assms(2) by (simp add: after_repayment_zero)
  next
    case False
    then have "i = length ops" using i(1) by simp
    then show ?thesis using i(2,3) by (simp add: after_repayment_def Let_def)
  qed
qed

lemma missed_lookback_payment:
  "i \<in> set (missed_lookback freq k) \<Longrightarrow> i < k \<and> payment_month freq i"
  by (auto simp: missed_lookback_def payment_month_def Let_def split: if_splits dest!: in_set_dropD)

lemma missed_implies_cleared:
  assumes "cleared rate inst freq ops op"
    "0 < count_missed_periods (length ops) (ops @ [op]) rate inst freq"
  shows "op = 0 \<and> 0 < inst"
proof -
  let ?short = "\<lambda>i. (ops @ [op]) ! i * (1 + rate) + MISSED_EPS < inst"
  have "0 < inst" "filter ?short (missed_lookback freq (length ops)) \<noteq> []"
    using assms(2) by (auto simp: count_missed_periods_def split: if_splits)
  then obtain i where "i \<in> set (missed_lookback freq (length ops))" "?short i"
    by (auto simp: filter_empty_conv)
  with missed_lookback_payment [of i freq "length ops"] assms(1) \<open>0 < inst\<close>
  show ?thesis by (force simp: cleared_def nth_append MISSED_EPS_def)
qed

lemma walk_rows_missed:
  assumes "cleared rate inst freq ops op \<or> inst \<le> 0" "p \<in> set (walk_rows rate inst freq ops op n)"
  shows "snd p = fst p"
  using assms
proof (induction n arbitrary: ops op)
  case (Suc n)
  let ?c = "count_missed_periods (length ops) (ops @ [op]) rate inst freq"
  let ?a = "after_repayment rate inst freq (length ops) op"
  have "?a * (1 + rate) ^ ?c = ?a"
  proof (cases "?c = 0")
    case False
    moreover from this have "\<not> inst \<le> 0" by (auto simp: count_missed_periods_def)
    ultimately have "op = 0" "0 < inst" using Suc.prems(1) missed_implies_cleared by blast+
    then show ?thesis by (simp add: after_repayment_zero)
  qed simp
  moreover have "cleared rate inst freq (ops @ [op]) ?a \<or> inst \<le> 0"
    using Suc.prems(1) cleared_step [of rate inst freq ops op] by linarith
  ultimately show ?case using Suc by (auto simp: Let_def)
qed simp

section \<open>Amortisation\<close>

text \<open>The schedule of a monthly loan without the clamp at zero.\<close>

primrec schedule :: "num \<Rightarrow> num \<Rightarrow> num \<Rightarrow> nat \<Rightarrow> num" where
  "schedule rate inst b 0 = b"
| "schedule rate inst b (Suc k) = schedule rate inst b k * (1 + rate) - inst"

lemma schedule_add: "schedule rate inst b (k + m) = schedule rate inst (schedule rate inst b k) m"
  by (induction m) simp_all

lemma schedule_closed:
  "rate \<noteq> 0 \<Longrightarrow> schedule rate inst b k = b * (1 + rate) ^ k - inst * (((1 + rate) ^ k - 1) / rate)"
proof (induction k)
  case (Suc k)
  have "schedule rate inst b (Suc k)
      = (b * (1 + rate) ^ k - inst * (((1 + rate) ^ k - 1) / rate)) * (1 + rate) - inst"
    using Suc by simp
  also have "\<dots> = b * (1 + rate) ^ Suc k - inst * (((1 + rate) ^ Suc k - 1) / rate)"
    using Suc.prems by (simp add: field_simps)
  finally show ?case .
qed simp

lemma schedule_closed_zero: "schedule 0 inst b k = b - of_nat k * inst"
  by (induction k) (simp_all add: algebra_simps)

lemma schedule_zero_end_nonneg:
  assumes "0 \<le> rate" "0 \<le> inst" "schedule rate inst b n = 0" "k \<le> n"
  shows "0 \<le> schedule rate inst b k"
proof (rule ccontr)
  assume neg: "\<not> 0 \<le> schedule rate inst b k"
  have "schedule rate inst b (k + m) < 0" for m
  proof (induction m)
    case (Suc m)
    then have "schedule rate inst b (k + m) * (1 + rate) < 0"
      using assms(1) by (simp add: mult_less_0_iff)
    with assms(2) show ?case by simp
  qed (use neg in simp)
  from this [of "n - k"] assms(3,4) show False by simp
qed

lemma walk_rows_schedule:
  assumes "freq \<noteq> ''QTR''" "0 \<le> rate" "0 \<le> inst" "schedule rate inst b n = 0" "k < len"
  shows "fst (walk_rows rate inst freq ops b len ! k) = (if k < n then schedule rate inst b (Suc k) else 0)"
  using assms(4,5)
proof (induction len arbitrary: ops b n k)
  case (Suc len)
  let ?a = "after_repayment rate inst freq (length ops) b"
  have a: "?a = (if b * (1 + rate) - inst < 0 then 0 else b * (1 + rate) - inst)"
    using assms(1) by (simp add: after_repayment_def payment_month_def Let_def)
  show ?case
  proof (cases n)
    case 0
    then have "b = 0" using Suc.prems(1) by simp
    then have "?a = 0" using assms(3) by (simp add: after_repayment_zero)
    with Suc.IH [of ?a 0 "k - 1" "ops @ [b]"] 0 Suc.prems(2) show ?thesis
      by (cases k) (simp_all add: Let_def)
  next
    case (Suc n')
    have s: "schedule rate inst b (Suc j) = schedule rate inst (b * (1 + rate) - inst) j" for j
      using schedule_add [of rate inst b 1 j] by simp
    have "0 \<le> schedule rate inst b (Suc 0)"
      by (rule schedule_zero_end_nonneg [OF assms(2,3) Suc.prems(1)]) (use Suc in simp)
    then have a': "?a = b * (1 + rate) - inst" using a by simp
    have "schedule rate inst ?a n' = 0" using Suc.prems(1) Suc s [of n'] a' by simp
    from Suc.IH [OF this, of "k - 1" "ops @ [b]"] Suc.prems(2) show ?thesis
      using a' s Suc by (cases k) (simp_all add: Let_def)
  qed
qed simp

lemma period_instalment_monthly:
  assumes "pmt_law pmt" "0 \<le> pv" "0 \<le> eir" "0 < n" "freq \<noteq> ''QTR''"
  defines "inst \<equiv> period_instalment pmt pv eir (int n) freq"
  shows "0 \<le> inst" "schedule (eir / 12) inst pv n = 0"
proof -
  consider (zero) "eir = 0" | (pos) "0 < eir" using assms(3) by linarith
  then have "0 \<le> inst \<and> schedule (eir / 12) inst pv n = 0"
  proof cases
    case zero
    then have "inst = pv / of_nat n" using assms(4,5) by (simp add: inst_def period_instalment_def)
    then show ?thesis using zero assms(2,4) by (simp add: schedule_closed_zero)
  next
    case pos
    let ?r = "eir / 12"
    have inst: "inst = - pmt ?r (int n) pv"
      using pos assms(4,5) by (simp add: inst_def period_instalment_def Let_def)
    have law: "pv * (1 + ?r) ^ n - inst * (((1 + ?r) ^ n - 1) / ?r) = 0"
    proof -
      have "0 < ?r" using pos by simp
      with assms(1,4) have "pv * (1 + ?r) ^ n + pmt ?r (int n) pv * (((1 + ?r) ^ n - 1) / ?r) = 0"
        unfolding pmt_law_def by blast
      then show ?thesis by (simp only: inst mult_minus_left diff_minus_eq_add)
    qed
    have g: "0 < ((1 + ?r) ^ n - 1) / ?r" using pos assms(4) by (simp add: one_less_power)
    have "inst = pv * (1 + ?r) ^ n / (((1 + ?r) ^ n - 1) / ?r)"
      using law g by (metis eq_divide_eq eq_iff_diff_eq_0 less_irrefl)
    then have "0 \<le> inst"
      by (simp only:) (use g pos assms(2) in \<open>intro divide_nonneg_nonneg mult_nonneg_nonneg; simp\<close>)
    moreover have "schedule ?r inst pv n = 0" using law pos by (simp add: schedule_closed)
    ultimately show ?thesis by simp
  qed
  then show "0 \<le> inst" "schedule (eir / 12) inst pv n = 0" by auto
qed

section \<open>The walk per loan\<close>

lemma length_walk_loan_balances [simp]: "length (walk_loan_balances inst grp) = length grp"
  by (simp add: walk_loan_balances_def Let_def)

definition loan_walk :: "num \<Rightarrow> snapshot list \<Rightarrow> (num \<times> num) list" where
  "loan_walk inst grp =
     (let first = hd (sort_key sn_date grp)
      in walk_rows (mr_eir (sn_row first) / 12) inst (mr_freq (sn_row first)) []
           (er_outstanding (sn_ead first)) (length grp))"

lemma length_loan_walk [simp]: "length (loan_walk inst grp) = length grp"
  by (simp add: loan_walk_def Let_def)

lemma walk_loan_balances_nth:
  assumes "i < length grp"
  shows "walk_loan_balances inst grp ! i =
    (let s = sort_key sn_date grp ! i
     in \<lparr> wk_snap = s, wk_period = months_between (er_first_payment (sn_ead s)) (sn_date s),
          wk_instalment = inst, wk_after_repayment = fst (loan_walk inst grp ! i),
          wk_after_missed = snd (loan_walk inst grp ! i), wk_discount = i \<rparr>)"
  using assms by (simp add: walk_loan_balances_def loan_walk_def Let_def case_prod_beta)

lemma loan_walk_missed: "p \<in> set (loan_walk inst grp) \<Longrightarrow> snd p = fst p"
  unfolding loan_walk_def Let_def by (erule walk_rows_missed [rotated]) (simp add: cleared_def)

lemma loan_walk_nonneg: "p \<in> set (loan_walk inst grp) \<Longrightarrow> 0 \<le> fst p"
proof -
  have "0 \<le> fst p" if "p \<in> set (walk_rows rate inst' freq ops op n)" for rate inst' freq ops op n
    using that by (induction n arbitrary: ops op) (auto simp: Let_def)
  then show "p \<in> set (loan_walk inst grp) \<Longrightarrow> 0 \<le> fst p" by (auto simp: loan_walk_def Let_def)
qed

lemma map_wk_snap: "map wk_snap (walk_loan_balances inst grp) = sort_key sn_date grp"
  by (rule nth_equalityI) (simp_all add: walk_loan_balances_nth Let_def)

lemma mset_walk_all: "mset (map wk_snap (walk_all pmt snaps)) = mset snaps"
proof -
  have "map wk_snap (walk_all pmt snaps)
      = concat (map (\<lambda>p. sort_key sn_date (snd p)) (groups sn_loan snaps))"
    by (simp add: walk_all_def map_concat comp_def case_prod_beta map_wk_snap)
  also have "mset \<dots> = mset (concat (map snd (groups sn_loan snaps)))"
    by (simp add: mset_concat comp_def)
  finally show ?thesis by (simp add: mset_groups)
qed

text \<open>A row of the walk: the loan's snapshots, its instalment, and its position in date order.\<close>

lemma walk_allE:
  assumes "w \<in> set (walk_all pmt snaps)"
  obtains i grp inst where "grp = group_rows sn_loan (sn_loan (wk_snap w)) snaps" "i < length grp"
    "inst = the (instalments pmt snaps (sn_loan (wk_snap w)))" "w = walk_loan_balances inst grp ! i"
    "wk_snap w \<in> set snaps"
proof -
  from assms obtain loan grp where g: "(loan, grp) \<in> set (groups sn_loan snaps)"
      "w \<in> set (walk_loan_balances (the (instalments pmt snaps loan)) grp)"
    by (auto simp: walk_all_def)
  then obtain i where i: "i < length grp" "w = walk_loan_balances (the (instalments pmt snaps loan)) grp ! i"
    by (metis in_set_conv_nth length_walk_loan_balances)
  have grp: "grp = group_rows sn_loan loan snaps" using groupsD [OF g(1)] by simp
  have "wk_snap ` set (walk_loan_balances (the (instalments pmt snaps loan)) grp) = set grp"
    using arg_cong [OF map_wk_snap, of set] by simp
  then have "wk_snap w \<in> set grp" using g(2) by blast
  then have l: "sn_loan (wk_snap w) = loan" "wk_snap w \<in> set snaps" using grp by auto
  show thesis by (rule that [of grp i]) (use i grp l in simp_all)
qed

lemma walk_all_balances:
  assumes "w \<in> set (walk_all pmt snaps)"
  shows "wk_after_missed w = wk_after_repayment w \<and> 0 \<le> wk_after_repayment w"
  using assms
proof (rule walk_allE)
  fix i grp inst
  assume i: "i < length grp" and w: "w = walk_loan_balances inst grp ! i"
  have "loan_walk inst grp ! i \<in> set (loan_walk inst grp)" using i by (intro nth_mem) simp
  from loan_walk_missed [OF this] loan_walk_nonneg [OF this] i
  show ?thesis by (simp add: w walk_loan_balances_nth Let_def)
qed

section \<open>Snapshots\<close>

lemma merge_lgd_eq:
  "merge_lgd ead lgd = map (\<lambda>r. (r, find (\<lambda>x. ls_loan x = er_loan r) (lgd_subset lgd))) (sort_key er_loan ead)"
  unfolding merge_lgd_def by (rule left_merge_unique) (simp add: lgd_subset_def)

lemma map_mr_row_merged [simp]: "map mr_row (merged_frame ead lgd) = sort_key er_loan ead"
  by (simp add: merged_frame_def merge_lgd_eq fill_merged_def comp_def)

lemma mr_row_merged: "m \<in> set (merged_frame ead lgd) \<Longrightarrow> mr_row m \<in> set ead"
  using map_mr_row_merged [of ead lgd] by (metis image_eqI list.set_map set_sort)

text \<open>Which snapshots a merged row gives.\<close>

definition snapshot_dates :: "(date \<Rightarrow> int \<Rightarrow> date) \<Rightarrow> ead_row \<Rightarrow> date list" where
  "snapshot_dates off r =
     (if er_staging r = Some ''Stage 1'' then
        filter (\<lambda>d. d \<le> er_maturity r) (map (\<lambda>i. off (er_reporting r) (int i)) [0..<13])
      else if er_staging r = Some ''Stage 2'' then
        filter (\<lambda>d. d \<le> er_maturity r) (map (\<lambda>i. off (er_reporting r) (int i))
          [0..<nat (max 0 (months_between (er_reporting r) (er_maturity r))) + 1])
      else [er_reporting r])"

lemma snap_simps [simp]: "sn_row (snap d m) = m" "sn_date (snap d m) = d"
  by (simp_all add: snap_def)

lemma expand_snapshotsD:
  assumes "s \<in> set (expand_snapshots off merged)"
  shows "sn_row s \<in> set merged" "sn_date s \<in> set (snapshot_dates off (sn_ead s))"
  using assms
  by (auto simp: expand_snapshots_def expand_single_def expand_stage1_def expand_stage2_def
      clip_maturity_def at_stage_def other_stage_def snapshot_dates_def stage2_len_def)

text \<open>A filter for one row keeps only the block of this row.\<close>

lemma concat_select:
  assumes "distinct xs" "\<And>x y. x \<in> set xs \<Longrightarrow> y \<in> set (h x) \<Longrightarrow> g y = x" "x \<in> set xs"
  shows "filter (\<lambda>y. g y = x) (concat (map h xs)) = h x"
  using filter_concat_blocks [of xs h g x] assms by (simp add: group_rows_def)

lemma filter_stage1:
  assumes "distinct ms" "m \<in> set ms"
  shows "filter (\<lambda>s. sn_row s = m) (expand_stage1 off ms)
    = map (\<lambda>d. snap d m) (filter (\<lambda>d. d \<le> er_maturity (mr_row m)) (map (\<lambda>i. off (er_reporting (mr_row m)) (int i)) [0..<13]))"
proof -
  have one: "filter (\<lambda>s. sn_row s = m) (map (\<lambda>m. snap (f m) m) ms) = [snap (f m) m]" for f
    using assms by (induction ms) (auto simp: filter_empty_conv)
  have "filter (\<lambda>s. sn_row s = m) (concat (map (\<lambda>i. map (\<lambda>m. snap (off (er_reporting (mr_row m)) (int i)) m) ms) is))
     = map (\<lambda>i. snap (off (er_reporting (mr_row m)) (int i)) m) is" for "is"
    by (induction "is") (simp_all add: one)
  then show ?thesis
    unfolding expand_stage1_def clip_maturity_def filter_filter
    by (simp only: conj_commute [of "_ \<le> _"] filter_filter [symmetric]) (simp only: filter_map comp_def snap_simps map_map)
qed

lemma filter_stage2:
  assumes "distinct ms" "m \<in> set ms"
  shows "filter (\<lambda>s. sn_row s = m) (expand_stage2 off ms)
    = map (\<lambda>d. snap d m) (filter (\<lambda>d. d \<le> er_maturity (mr_row m)) (map (\<lambda>i. off (er_reporting (mr_row m)) (int i)) [0..<stage2_len m]))"
proof -
  have "filter (\<lambda>s. sn_row s = m) (concat (map (\<lambda>m. map (\<lambda>i. snap (off (er_reporting (mr_row m)) (int i)) m) [0..<stage2_len m]) ms))
     = map (\<lambda>i. snap (off (er_reporting (mr_row m)) (int i)) m) [0..<stage2_len m]"
    by (rule concat_select [OF assms(1) _ assms(2)]) auto
  then show ?thesis
    unfolding expand_stage2_def clip_maturity_def filter_filter
    by (simp only: conj_commute [of "_ \<le> _"] filter_filter [symmetric]) (simp only: filter_map comp_def snap_simps map_map)
qed

lemma filter_single:
  assumes "distinct ms"
  shows "filter (\<lambda>s. sn_row s = m) (expand_single ms)
    = (if m \<in> set ms then [snap (er_reporting (mr_row m)) m] else [])"
  using assms by (induction ms) (auto simp: expand_single_def)

lemma filter_stage_absent:
  assumes "m \<notin> set ms"
  shows "filter (\<lambda>s. sn_row s = m) (expand_stage1 off ms) = []"
    "filter (\<lambda>s. sn_row s = m) (expand_stage2 off ms) = []"
  using assms by (auto simp: filter_empty_conv expand_stage1_def expand_stage2_def clip_maturity_def)

lemma snapshots_of_row:
  assumes "distinct merged" "m \<in> set merged"
  shows "filter (\<lambda>s. sn_row s = m) (expand_snapshots off merged)
    = map (\<lambda>d. snap d m) (snapshot_dates off (mr_row m))"
proof -
  have d: "distinct (at_stage st merged)" "distinct (other_stage merged)" for st
    using assms(1) by (simp_all add: at_stage_def other_stage_def)
  have i: "m \<in> set (at_stage st merged) \<longleftrightarrow> er_staging (mr_row m) = Some st"
    "m \<in> set (other_stage merged) \<longleftrightarrow> er_staging (mr_row m) \<notin> {Some ''Stage 1'', Some ''Stage 2'', Some ''Stage 3''}" for st
    using assms(2) by (simp_all add: at_stage_def other_stage_def)
  have s1: "filter (\<lambda>s. sn_row s = m) (expand_stage1 off (at_stage ''Stage 1'' merged))
      = (if er_staging (mr_row m) = Some ''Stage 1'' then map (\<lambda>d. snap d m) (snapshot_dates off (mr_row m)) else [])"
    using filter_stage1 [OF d(1) [of "''Stage 1''"], of m off] i(1) filter_stage_absent(1)
    by (simp add: snapshot_dates_def)
  have s2: "filter (\<lambda>s. sn_row s = m) (expand_stage2 off (at_stage ''Stage 2'' merged))
      = (if er_staging (mr_row m) = Some ''Stage 2'' then map (\<lambda>d. snap d m) (snapshot_dates off (mr_row m)) else [])"
    using filter_stage2 [OF d(1) [of "''Stage 2''"], of m off] i(1) filter_stage_absent(2)
    by (simp add: snapshot_dates_def stage2_len_def)
  show ?thesis
    by (simp add: expand_snapshots_def s1 s2 filter_single d i) (auto simp: snapshot_dates_def)
qed

text \<open>With distinct loan identifiers a loan is one merged row.\<close>

lemma distinct_merged:
  assumes "distinct (map er_loan ead)"
  shows "distinct (map (\<lambda>m. er_loan (mr_row m)) (merged_frame ead lgd))"
proof -
  have "map (\<lambda>m. er_loan (mr_row m)) (merged_frame ead lgd) = map er_loan (sort_key er_loan ead)"
    by (simp add: map_mr_row_merged [symmetric, of ead lgd] comp_def del: map_mr_row_merged)
  moreover have "distinct (map er_loan (sort_key er_loan ead))"
    using assms by (simp add: distinct_map)
  ultimately show ?thesis by simp
qed

lemma merged_same_loan:
  assumes "distinct (map er_loan ead)" "m \<in> set (merged_frame ead lgd)" "m' \<in> set (merged_frame ead lgd)"
    "er_loan (mr_row m) = er_loan (mr_row m')"
  shows "m = m'"
  using distinct_merged [OF assms(1), of lgd] assms(2-4) by (auto simp: distinct_map inj_on_def)

lemma snapshots_of_loan:
  assumes "distinct (map er_loan ead)" "m \<in> set (merged_frame ead lgd)"
  shows "group_rows sn_loan (er_loan (mr_row m)) (expand_snapshots off (merged_frame ead lgd))
    = map (\<lambda>d. snap d m) (snapshot_dates off (mr_row m))"
proof -
  have "filter (\<lambda>s. sn_loan s = er_loan (mr_row m)) (expand_snapshots off (merged_frame ead lgd))
      = filter (\<lambda>s. sn_row s = m) (expand_snapshots off (merged_frame ead lgd))"
  proof (rule filter_cong)
    fix s assume "s \<in> set (expand_snapshots off (merged_frame ead lgd))"
    from merged_same_loan [OF assms(1) expand_snapshotsD(1) [OF this] assms(2)]
    show "sn_loan s = er_loan (mr_row m) \<longleftrightarrow> sn_row s = m" by auto
  qed simp
  moreover have "distinct (merged_frame ead lgd)" using distinct_merged [OF assms(1)] distinct_map by blast
  ultimately show ?thesis using assms(2) by (simp add: group_rows_def snapshots_of_row)
qed

section \<open>The result\<close>

lemma compute_ead_Inr:
  assumes "compute_ead off pmt ead pd_df lgd = Inr (out, ws)"
  defines "snaps \<equiv> expand_snapshots off (merged_frame ead lgd)"
  shows "out = ead_output (merge_pd (walk_all pmt snaps) pd_df)" "ws = ec06_warnings (merge_lgd ead lgd)"
proof -
  have "out = [] \<and> ead_output (merge_pd (walk_all pmt snaps) pd_df) = []" if "snaps = []"
    using assms(1) that unfolding snaps_def
    by (simp add: compute_ead_def walk_all_def merge_pd_def ead_output_def)
  with assms(1) show "out = ead_output (merge_pd (walk_all pmt snaps) pd_df)"
    "ws = ec06_warnings (merge_lgd ead lgd)"
    unfolding snaps_def by (auto simp: compute_ead_def Let_def split: if_splits)
qed

lemma compute_ead_rowE:
  assumes "compute_ead off pmt ead pd_df lgd = Inr (out, ws)" "e \<in> set out"
  obtains w p where "w \<in> set (walk_all pmt (expand_snapshots off (merged_frame ead lgd)))"
    "e = loss_row (w, p)" "\<And>q. p = Some q \<Longrightarrow> q \<in> set pd_df \<and> pd_lookup_key q = wk_key w"
    "wk_snap w \<in> set (expand_snapshots off (merged_frame ead lgd))"
proof -
  let ?snaps = "expand_snapshots off (merged_frame ead lgd)"
  have "set out = loss_row ` set (merge_pd (walk_all pmt ?snaps) pd_df)"
    using compute_ead_Inr(1) [OF assms(1)] by (simp add: ead_output_def)
  with assms(2) obtain w p where wp: "(w, p) \<in> set (merge_pd (walk_all pmt ?snaps) pd_df)" "e = loss_row (w, p)"
    by auto
  note D = left_mergeD [OF wp(1) [unfolded merge_pd_def]]
  show thesis
  proof (rule that [OF D(1) wp(2)])
    show "q \<in> set pd_df \<and> pd_lookup_key q = wk_key w" if "p = Some q" for q using D(2) that by auto
    show "wk_snap w \<in> set ?snaps" using D(1) by (rule walk_allE)
  qed
qed

section \<open>Rates, collateral and the loss columns\<close>

definition wf_lgd_frame :: "lgd_frame \<Rightarrow> bool" where
  "wf_lgd_frame lgd \<longleftrightarrow>
     (\<forall>x \<in> set (lf_rows lgd). pred_option (\<lambda>v. 0 \<le> v) (li_eir x)
        \<and> pred_option (\<lambda>v. 0 \<le> v) (li_sum_long x) \<and> pred_option (\<lambda>v. 0 \<le> v) (li_sum_short x))"

definition wf_pd_table :: "pd_out list \<Rightarrow> bool" where
  "wf_pd_table pd_df \<longleftrightarrow>
     (\<forall>q \<in> set pd_df. 0 \<le> po_marginal q \<and> po_marginal q \<le> 1 \<and> 0 \<le> po_cure q \<and> po_cure q \<le> 1)"

lemma lgd_subsetD:
  assumes "x \<in> set (lgd_subset lgd)"
  obtains y where "y \<in> set (lf_rows lgd)" "x = lgd_sub_row (lf_columns lgd) y"
proof -
  have "x \<in> set (map (lgd_sub_row (lf_columns lgd)) (lf_rows lgd))"
    by (rule subsetD [OF set_drop_duplicates_subset]) (use assms in \<open>simp only: lgd_subset_def\<close>)
  with that show thesis by auto
qed

lemma lgd_sub_row_nonneg:
  assumes "wf_lgd_frame lgd" "y \<in> set (lf_rows lgd)"
  shows "ls_eir (lgd_sub_row cols y) = Some v \<Longrightarrow> 0 \<le> v" "ls_sum (lgd_sub_row cols y) = Some v \<Longrightarrow> 0 \<le> v"
proof -
  have y: "pred_option (\<lambda>v. 0 \<le> v) (li_eir y)" "pred_option (\<lambda>v. 0 \<le> v) (li_sum_long y)"
      "pred_option (\<lambda>v. 0 \<le> v) (li_sum_short y)"
    using assms by (auto simp: wf_lgd_frame_def)
  show "ls_eir (lgd_sub_row cols y) = Some v \<Longrightarrow> 0 \<le> v" "ls_sum (lgd_sub_row cols y) = Some v \<Longrightarrow> 0 \<le> v"
    using y by (simp_all add: lgd_sub_row_def split: if_splits)
qed

lemma merged_frame_nonneg:
  assumes "wf_lgd_frame lgd" "\<forall>r \<in> set ead. 0 \<le> er_eir r" "m \<in> set (merged_frame ead lgd)"
  shows "0 \<le> mr_eir m" "0 \<le> mr_sum m"
proof -
  from assms(3) obtain r where r: "r \<in> set ead"
      "m = fill_merged (r, find (\<lambda>x. ls_loan x = er_loan r) (lgd_subset lgd))"
    by (auto simp: merged_frame_def merge_lgd_eq)
  have x: "(ls_eir x = Some v \<longrightarrow> 0 \<le> v) \<and> (ls_sum x = Some v \<longrightarrow> 0 \<le> v)" if "x \<in> set (lgd_subset lgd)" for x v
    using that by (rule lgd_subsetD) (use lgd_sub_row_nonneg [OF assms(1)] in blast)
  have "0 \<le> er_eir r" using assms(2) r(1) by simp
  then show "0 \<le> mr_eir m" "0 \<le> mr_sum m"
    using x unfolding r(2) by (auto simp: fill_merged_def split: option.splits Option.bind_splits dest!: find_SomeD)
qed

lemma compute_lgw_bounds:
  assumes "0 \<le> c" "0 \<le> b"
  shows "0 \<le> compute_lgw c b" "compute_lgw c b \<le> 1" "b * compute_lgw c b = max (b - c) 0"
proof -
  consider (zero) "b = 0" | (le) "0 < b" "c \<le> b" | (gt) "0 < b" "b < c" using assms(2) by linarith
  then have "0 \<le> compute_lgw c b \<and> compute_lgw c b \<le> 1 \<and> b * compute_lgw c b = max (b - c) 0"
  proof cases
    case zero
    then show ?thesis using assms(1) by (simp add: compute_lgw_def)
  next
    case le
    then have "compute_lgw c b = 1 - c / b" by (simp add: compute_lgw_def)
    with le assms(1) show ?thesis by (simp add: right_diff_distrib)
  next
    case gt
    then have "compute_lgw c b = 0" by (simp add: compute_lgw_def less_divide_eq)
    with gt show ?thesis by simp
  qed
  then show "0 \<le> compute_lgw c b" "compute_lgw c b \<le> 1" "b * compute_lgw c b = max (b - c) 0" by auto
qed

lemma ecl_discount_bounds: "0 \<le> r \<Longrightarrow> 0 < ecl_discount r n \<and> ecl_discount r n \<le> 1"
  using one_le_power [of "1 + r" n]
  by (auto simp: ecl_discount_def power_int_minus field_simps)

lemma loss_row_simps [simp]:
  "eo_loan (loss_row (w, p)) = sn_loan (wk_snap w)" "eo_date (loss_row (w, p)) = sn_date (wk_snap w)"
  "eo_segment (loss_row (w, p)) = er_segment (wk_ead w)" "eo_discount (loss_row (w, p)) = wk_discount w"
  "eo_after_repayment (loss_row (w, p)) = wk_after_repayment w"
  "eo_after_missed (loss_row (w, p)) = wk_after_missed w" "eo_instalment (loss_row (w, p)) = wk_instalment w"
  "eo_collateral (loss_row (w, p)) = mr_sum (sn_row (wk_snap w))"
  by (simp_all add: loss_row_def Let_def)

lemma loss_row_bounds:
  assumes "0 \<le> wk_after_missed w" "0 \<le> mr_eir (sn_row (wk_snap w))" "0 \<le> mr_sum (sn_row (wk_snap w))"
    "\<And>q. p = Some q \<Longrightarrow> 0 \<le> po_marginal q \<and> po_marginal q \<le> 1 \<and> 0 \<le> po_cure q \<and> po_cure q \<le> 1"
  defines "e \<equiv> loss_row (w, p)"
  shows "0 \<le> eo_lgw e" "eo_lgw e \<le> 1" "0 \<le> eo_lgd e" "eo_lgd e \<le> eo_lgw e"
    "0 \<le> eo_discounted e" "eo_discounted e \<le> eo_credit_loss e"
    "eo_credit_loss e \<le> max (eo_after_missed e - eo_collateral e) 0"
proof -
  define marg where "marg = (case p of Some q \<Rightarrow> po_marginal q | None \<Rightarrow> 0)"
  define cure where "cure = (case p of Some q \<Rightarrow> po_cure q | None \<Rightarrow> 0)"
  have pr: "0 \<le> marg" "marg \<le> 1" "0 \<le> cure" "cure \<le> 1"
    using assms(4) by (auto simp: marg_def cure_def split: option.splits)
  let ?b = "wk_after_missed w" and ?c = "mr_sum (sn_row (wk_snap w))"
  let ?l = "compute_lgw ?c ?b" and ?d = "ecl_discount (mr_eir (sn_row (wk_snap w)) / 12) (wk_discount w)"
  note l = compute_lgw_bounds [OF assms(3,1)]
  have e: "eo_lgw e = ?l" "eo_lgd e = ?l * (1 - cure)" "eo_credit_loss e = ?b * marg * (?l * (1 - cure))"
    "eo_discounted e = ?b * marg * (?l * (1 - cure)) * ?d"
    by (simp_all add: e_def loss_row_def Let_def marg_def cure_def)
  have d: "0 < ?d" "?d \<le> 1" using ecl_discount_bounds [of "mr_eir (sn_row (wk_snap w)) / 12"] assms(2) by auto
  have cl: "0 \<le> ?b * marg * (?l * (1 - cure))" using pr l(1) assms(1) by simp
  have "marg * (1 - cure) \<le> 1" using pr by (intro mult_le_one) auto
  then have "(?b * ?l) * (marg * (1 - cure)) \<le> ?b * ?l"
    by (rule mult_left_le) (use l(1) assms(1) in simp)
  then show "eo_credit_loss e \<le> max (eo_after_missed e - eo_collateral e) 0"
    using l(3) unfolding e by (simp add: e_def mult_ac)
  show "0 \<le> eo_lgw e" "eo_lgw e \<le> 1" "0 \<le> eo_lgd e" "eo_lgd e \<le> eo_lgw e"
    unfolding e using l(1,2) pr by (simp_all add: mult_left_le)
  show "0 \<le> eo_discounted e" "eo_discounted e \<le> eo_credit_loss e"
    unfolding e using cl d by (simp_all add: mult_left_le)
qed

section \<open>The rows of one loan\<close>

lemma wk_discount_walk: "map wk_discount (walk_loan_balances inst grp) = [0..<length grp]"
  by (rule nth_equalityI) (simp_all add: walk_loan_balances_nth Let_def)

lemma wk_snap_group:
  assumes "w \<in> set (walk_loan_balances inst (group_rows sn_loan loan snaps))"
  shows "sn_loan (wk_snap w) = loan"
proof -
  have "wk_snap ` set (walk_loan_balances inst (group_rows sn_loan loan snaps)) = set (group_rows sn_loan loan snaps)"
    using arg_cong [OF map_wk_snap, of set] by simp
  with assms show ?thesis by auto
qed

lemma walk_all_of_loan:
  "filter (\<lambda>w. sn_loan (wk_snap w) = loan) (walk_all pmt snaps)
   = walk_loan_balances (the (instalments pmt snaps loan)) (group_rows sn_loan loan snaps)"
proof (cases "loan \<in> set (map sn_loan snaps)")
  case True
  have "walk_all pmt snaps = concat (map (\<lambda>v. walk_loan_balances (the (instalments pmt snaps v)) (group_rows sn_loan v snaps))
      (sorted_unique (map sn_loan snaps)))"
    by (simp add: walk_all_def groups_def comp_def)
  moreover have "filter (\<lambda>w. sn_loan (wk_snap w) = loan) \<dots>
      = walk_loan_balances (the (instalments pmt snaps loan)) (group_rows sn_loan loan snaps)"
    by (rule concat_select) (use True wk_snap_group in auto)
  ultimately show ?thesis by simp
next
  case False
  then have "group_rows sn_loan loan snaps = []" by (auto simp: group_rows_def filter_empty_conv)
  moreover have "filter (\<lambda>w. sn_loan (wk_snap w) = loan) (walk_all pmt snaps) = []"
    using False by (auto simp: filter_empty_conv elim: walk_allE)
  ultimately show ?thesis by (simp add: walk_loan_balances_def)
qed

lemma output_of_loan:
  assumes "distinct (map pd_lookup_key pd_df)"
  shows "filter (\<lambda>e. eo_loan e = loan) (ead_output (merge_pd (walk_all pmt snaps) pd_df))
    = map (\<lambda>w. loss_row (w, find (\<lambda>q. pd_lookup_key q = wk_key w) pd_df))
        (walk_loan_balances (the (instalments pmt snaps loan)) (group_rows sn_loan loan snaps))"
proof -
  let ?L = "\<lambda>w. loss_row (w, find (\<lambda>q. pd_lookup_key q = wk_key w) pd_df)"
  let ?ws = "walk_loan_balances (the (instalments pmt snaps loan)) (group_rows sn_loan loan snaps)"
  have "filter (\<lambda>e. eo_loan e = loan) (ead_output (merge_pd (walk_all pmt snaps) pd_df))
      = sort_key (\<lambda>e. (eo_loan e, eo_date e)) (map ?L (filter (\<lambda>w. sn_loan (wk_snap w) = loan) (walk_all pmt snaps)))"
    by (simp add: ead_output_def merge_pd_def left_merge_unique [OF assms] filter_sort filter_map comp_def)
  also have "\<dots> = map ?L ?ws" unfolding walk_all_of_loan
  proof (rule sort_key_id_if_sorted)
    have "map (\<lambda>w. sn_date (wk_snap w)) ?ws = map sn_date (sort_key sn_date (group_rows sn_loan loan snaps))"
      by (simp add: map_wk_snap [symmetric, of _ "the (instalments pmt snaps loan)"])
    then have "sorted (map (\<lambda>w. sn_date (wk_snap w)) ?ws)" by simp
    then have "sorted (map (\<lambda>w. (loan, sn_date (wk_snap w))) ?ws)" by (simp add: sorted_map less_eq_prod_def)
    moreover have "map (\<lambda>e. (eo_loan e, eo_date e)) (map ?L ?ws) = map (\<lambda>w. (loan, sn_date (wk_snap w))) ?ws"
      using wk_snap_group by auto
    ultimately show "sorted (map (\<lambda>e. (eo_loan e, eo_date e)) (map ?L ?ws))" by (simp only:)
  qed
  finally show ?thesis .
qed

text \<open>How many monthly dates from \<open>rep\<close> on are not after \<open>mat\<close>.\<close>

definition horizon :: "date \<Rightarrow> date \<Rightarrow> nat" where
  "horizon rep mat =
     (let months = months_between rep mat
      in if months < 0 then 0
         else nat months + (if min (dy rep) (days_in_month (yr mat) (mo mat)) \<le> dy mat then 1 else 0))"

lemma shift_le_iff_horizon:
  assumes "valid_date rep" "valid_date mat"
  shows "shift_months rep (int i) \<le> mat \<longleftrightarrow> i < horizon rep mat"
proof -
  let ?d = "shift_months rep (int i)"
  have b: "1 \<le> mo mat" "mo mat \<le> 12" using assms(2) by (simp_all add: valid_date_def)
  note m = mo_shift_bounds [of rep "int i"]
  consider (lt) "int i < months_between rep mat" | (eq) "int i = months_between rep mat"
    | (gt) "months_between rep mat < int i" by linarith
  then show ?thesis
  proof cases
    case lt
    then have "?d < mat" using m b by (intro less_of_month_index) (simp_all add: months_between_index)
    with lt show ?thesis by (auto simp: horizon_def Let_def)
  next
    case eq
    then have i: "month_index rep + int i = month_index mat" by (simp add: months_between_index)
    have "?d = Date (yr mat) (mo mat) (min (dy rep) (days_in_month (yr mat) (mo mat)))"
      by (rule shift_months_to [OF b i])
    then have "?d \<le> mat \<longleftrightarrow> min (dy rep) (days_in_month (yr mat) (mo mat)) \<le> dy mat"
      by (simp add: less_eq_date_def less_eq_prod_def)
    with eq show ?thesis by (auto simp: horizon_def Let_def simp flip: eq)
  next
    case gt
    then have "mat < ?d" using m b by (intro less_of_month_index) (simp_all add: months_between_index)
    with gt show ?thesis by (auto simp: horizon_def Let_def)
  qed
qed

definition snapshot_count :: "ead_row \<Rightarrow> nat" where
  "snapshot_count r =
     (if er_staging r = Some ''Stage 1'' then min 13 (horizon (er_reporting r) (er_maturity r))
      else if er_staging r = Some ''Stage 2'' then horizon (er_reporting r) (er_maturity r)
      else 1)"

lemma filter_less_upt: "filter (\<lambda>i. i < h) [0..<n] = [0..<min n h]"
proof (induction n)
  case (Suc n)
  then show ?case by (cases "n < h") (auto simp: min_def not_less le_Suc_eq)
qed simp

lemma horizon_le_stage2: "horizon rep mat \<le> nat (max 0 (months_between rep mat)) + 1"
  by (simp add: horizon_def Let_def)

lemma shift_months_0: "valid_date d \<Longrightarrow> shift_months d 0 = d"
  using shift_months_to [of d d 0] by (simp add: valid_date_def)

lemma snapshot_dates_count:
  assumes "date_offset_law off" "valid_date (er_reporting r)" "valid_date (er_maturity r)"
  shows "snapshot_dates off r = map (\<lambda>i. shift_months (er_reporting r) (int i)) [0..<snapshot_count r]"
proof -
  have off: "off d k = shift_months d k" for d k using assms(1) by (simp add: date_offset_law_def)
  have m: "min (Suc (nat (max 0 (months_between (er_reporting r) (er_maturity r))))) (horizon (er_reporting r) (er_maturity r))
      = horizon (er_reporting r) (er_maturity r)"
    using horizon_le_stage2 [of "er_reporting r" "er_maturity r"] by simp
  have f: "filter (\<lambda>d. d \<le> er_maturity r) (map (\<lambda>i. shift_months (er_reporting r) (int i)) [0..<n])
      = map (\<lambda>i. shift_months (er_reporting r) (int i)) [0..<min n (horizon (er_reporting r) (er_maturity r))]" for n
    by (simp add: filter_map comp_def shift_le_iff_horizon [OF assms(2,3)] filter_less_upt)
  show ?thesis
    by (simp add: snapshot_dates_def snapshot_count_def off f m del: upt_Suc) (simp add: shift_months_0 [OF assms(2)])
qed

lemma sorted_snapshot_dates:
  "sorted (map (\<lambda>i. shift_months d (int i)) [0..<n])"
  unfolding sorted_map
  by (rule sorted_wrt_mono_rel [of _ "(<)"])
    (auto intro!: less_imp_le less_of_month_index mo_shift_bounds)

section \<open>Properties\<close>

lemma instalments_of_loan:
  assumes "distinct (map er_loan ead)" "m \<in> set (merged_frame ead lgd)"
    "group_rows sn_loan (er_loan (mr_row m)) (expand_snapshots off (merged_frame ead lgd)) \<noteq> []"
  defines "snaps \<equiv> expand_snapshots off (merged_frame ead lgd)"
  shows "instalments pmt snaps (er_loan (mr_row m))
    = Some (period_instalment pmt (er_outstanding (mr_row m)) (mr_eir m) (remaining_months (mr_row m)) (mr_freq m))"
proof -
  let ?D = "drop_duplicates sn_loan snaps" and ?l = "er_loan (mr_row m)"
  have "?l \<in> sn_loan ` set snaps" using assms(3) unfolding snaps_def
    by (auto simp: group_rows_def filter_empty_conv intro: rev_image_eqI)
  then have "?l \<in> sn_loan ` set ?D" by simp
  then obtain s where "?l = sn_loan s" "s \<in> set ?D" by (rule imageE)
  then have s: "s \<in> set ?D" "sn_loan s = ?l" by simp_all
  have "s \<in> set snaps" by (rule subsetD [OF set_drop_duplicates_subset s(1)])
  then have "sn_row s \<in> set (merged_frame ead lgd)" unfolding snaps_def by (rule expand_snapshotsD(1))
  then have sm: "sn_row s = m" using s(2) by (intro merged_same_loan [OF assms(1) _ assms(2)]) auto
  have "map_of (map (\<lambda>s. (sn_loan s, loan_instalment pmt s)) ?D) (sn_loan s) = Some (loan_instalment pmt s)"
    by (rule map_of_is_SomeI) (use s(1) in \<open>simp_all add: comp_def\<close>)
  then show ?thesis using s(2) sm by (simp add: instalments_def loan_instalment_def)
qed

text \<open>The annuity formula for the schedule that ends at zero.\<close>

definition annuity_balance :: "num \<Rightarrow> num \<Rightarrow> nat \<Rightarrow> nat \<Rightarrow> num" where
  "annuity_balance pv eir n k =
     (if eir = 0 then pv * (of_nat n - of_nat k) / of_nat n
      else pv * ((1 + eir / 12) ^ n - (1 + eir / 12) ^ k) / ((1 + eir / 12) ^ n - 1))"

lemma schedule_annuity:
  assumes "schedule (eir / 12) inst pv n = 0" "0 \<le> eir" "0 < n"
  shows "schedule (eir / 12) inst pv k = annuity_balance pv eir n k"
proof (cases "eir = 0")
  case True
  then have "inst = pv / of_nat n" using assms(1,3) by (simp add: schedule_closed_zero field_simps)
  then show ?thesis using True assms(3) by (simp add: schedule_closed_zero annuity_balance_def field_simps)
next
  case False
  let ?r = "eir / 12" and ?q = "1 + eir / 12"
  have "1 < ?q" using assms(2) False by simp
  from one_less_power [OF this assms(3)] have q: "?q ^ n - 1 \<noteq> 0" by linarith
  define c where "c = inst / ?r"
  have closed: "schedule ?r inst pv j = pv * ?q ^ j - c * (?q ^ j - 1)" for j
    using False by (simp add: schedule_closed c_def)
  have law: "pv * ?q ^ n = c * (?q ^ n - 1)" using assms(1) by (simp add: closed)
  have "schedule ?r inst pv k * (?q ^ n - 1) = pv * ?q ^ k * (?q ^ n - 1) - (c * (?q ^ n - 1)) * (?q ^ k - 1)"
    unfolding closed by (simp add: algebra_simps)
  also have "\<dots> = pv * (?q ^ n - ?q ^ k)" unfolding law [symmetric] by (simp add: algebra_simps)
  finally show ?thesis using q False by (simp add: annuity_balance_def eq_divide_eq)
qed

text \<open>The interest rate the engine uses for a loan: that of the LGD frame where it has one.\<close>

definition effective_eir :: "lgd_frame \<Rightarrow> ead_row \<Rightarrow> num" where
  "effective_eir lgd r =
     (case Option.bind (find (\<lambda>x. ls_loan x = er_loan r) (lgd_subset lgd)) ls_eir of
        Some e \<Rightarrow> e | None \<Rightarrow> er_eir r)"

lemma merged_of_row:
  assumes "r \<in> set ead"
  obtains m where "m \<in> set (merged_frame ead lgd)" "mr_row m = r" "mr_eir m = effective_eir lgd r"
    "mr_freq m = norm_freq (er_freq r)"
    "mr_sum m = (case Option.bind (find (\<lambda>x. ls_loan x = er_loan r) (lgd_subset lgd)) ls_sum of Some v \<Rightarrow> v | None \<Rightarrow> 0)"
proof (rule that [of "fill_merged (r, find (\<lambda>x. ls_loan x = er_loan r) (lgd_subset lgd))"])
  show "fill_merged (r, find (\<lambda>x. ls_loan x = er_loan r) (lgd_subset lgd)) \<in> set (merged_frame ead lgd)"
    using assms by (simp add: merged_frame_def merge_lgd_eq)
qed (simp_all add: fill_merged_def effective_eir_def split: option.split)

lemma all_same_row_hd:
  assumes "ds \<noteq> []" shows "sn_row (hd (sort_key sn_date (map (\<lambda>d. snap d m) ds))) = m"
proof -
  have "sort_key sn_date (map (\<lambda>d. snap d m) ds) \<noteq> []"
    using assms by (metis length_0_conv length_map length_sort)
  then have "hd (sort_key sn_date (map (\<lambda>d. snap d m) ds)) \<in> set (sort_key sn_date (map (\<lambda>d. snap d m) ds))"
    by (rule hd_in_set)
  then show ?thesis by auto
qed

text \<open>
  C5. The balances of a monthly loan follow the annuity schedule of its remaining term: after the
  row with discount period \<open>i\<close> the balance is that of the schedule after \<open>i + 1\<close> payments, and it is
  zero from the last payment on.
\<close>

theorem ead_amortisation:
  assumes "pmt_law pmt" "distinct (map er_loan ead)" "r \<in> set ead" "norm_freq (er_freq r) = ''MTH''"
    and "0 \<le> er_outstanding r" "0 \<le> effective_eir lgd r" "0 < remaining_months r"
    and "compute_ead off pmt ead pd_df lgd = Inr (out, ws)" "e \<in> set out" "eo_loan e = er_loan r"
  shows "eo_after_repayment e =
    (if int (eo_discount e) < remaining_months r
     then annuity_balance (er_outstanding r) (effective_eir lgd r) (nat (remaining_months r)) (eo_discount e + 1)
     else 0)"
proof -
  let ?snaps = "expand_snapshots off (merged_frame ead lgd)" and ?n = "nat (remaining_months r)"
  obtain m where m: "m \<in> set (merged_frame ead lgd)" "mr_row m = r" "mr_eir m = effective_eir lgd r"
    "mr_freq m = norm_freq (er_freq r)" by (rule merged_of_row [OF assms(3)])
  from assms(8,9) obtain w p where w: "w \<in> set (walk_all pmt ?snaps)" "e = loss_row (w, p)"
    by (rule compute_ead_rowE)
  have loan: "sn_loan (wk_snap w) = er_loan r" using assms(10) w(2) by simp
  let ?grp = "group_rows sn_loan (er_loan r) ?snaps"
  from w(1) obtain i grp inst where g: "grp = group_rows sn_loan (sn_loan (wk_snap w)) ?snaps" "i < length grp"
      "inst = the (instalments pmt ?snaps (sn_loan (wk_snap w)))" "w = walk_loan_balances inst grp ! i"
    by (rule walk_allE)
  have i: "i < length ?grp" "w = walk_loan_balances (the (instalments pmt ?snaps (er_loan r))) ?grp ! i"
    using g(2,4) unfolding g(1,3) loan .
  have grp: "?grp = map (\<lambda>d. snap d m) (snapshot_dates off r)"
    using snapshots_of_loan [OF assms(2) m(1)] m(2) by simp
  have ne: "snapshot_dates off r \<noteq> []" using i(1) grp by auto
  let ?inst = "period_instalment pmt (er_outstanding r) (effective_eir lgd r) (int ?n) ''MTH''"
  have inst: "instalments pmt ?snaps (er_loan r) = Some ?inst"
  proof -
    have "group_rows sn_loan (er_loan (mr_row m)) ?snaps \<noteq> []" using ne grp m(2) by simp
    from instalments_of_loan [OF assms(2) m(1) this, of pmt] show ?thesis using m assms(4,7) by simp
  qed
  note P = period_instalment_monthly [OF assms(1,5,6), of ?n "''MTH''"]
  have bal: "fst (loan_walk ?inst ?grp ! i)
      = (if i < ?n then schedule (effective_eir lgd r / 12) ?inst (er_outstanding r) (Suc i) else 0)"
    unfolding loan_walk_def Let_def grp all_same_row_hd [OF ne]
    by (simp only: m(2-4) assms(4), rule walk_rows_schedule)
      (use P assms(6,7) i(1) grp in simp_all)
  have "eo_after_repayment e = fst (loan_walk ?inst ?grp ! i)" "eo_discount e = i"
    using i w(2) by (simp_all add: inst walk_loan_balances_nth Let_def)
  moreover have "i < ?n \<longleftrightarrow> int i < remaining_months r" by linarith
  moreover have "schedule (effective_eir lgd r / 12) ?inst (er_outstanding r) (Suc i)
      = annuity_balance (er_outstanding r) (effective_eir lgd r) ?n (Suc i)"
    by (rule schedule_annuity) (use P(2) assms(6,7) in simp_all)
  ultimately show ?thesis using bal by (simp only: Suc_eq_plus1)
qed

text \<open>
  C6. The missed-payment uplift never changes a balance: a payment that the balance does not cover
  clears the loan, so the balance after missed payments is the balance after repayment on every row
  of every result, and neither is negative.
\<close>

theorem missed_payments_never_change_balance:
  assumes "compute_ead off pmt ead pd_df lgd = Inr (out, ws)" "e \<in> set out"
  shows "eo_after_missed e = eo_after_repayment e \<and> 0 \<le> eo_after_repayment e"
  using assms
proof (rule compute_ead_rowE)
  fix w p assume "w \<in> set (walk_all pmt (expand_snapshots off (merged_frame ead lgd)))" "e = loss_row (w, p)"
  then show ?thesis using walk_all_balances by simp
qed

text \<open>
  C7. The loss columns stay in their ranges: for rates and collateral that are not negative and a
  PD table of probabilities, LGW and LGD lie between zero and one, the discounted loss lies between
  zero and the credit loss, and the credit loss is at most the part of the balance that the
  collateral does not cover.
\<close>

theorem ead_loss_bounds:
  assumes "wf_lgd_frame lgd" "wf_pd_table pd_df" "\<forall>r \<in> set ead. 0 \<le> er_eir r"
    and "compute_ead off pmt ead pd_df lgd = Inr (out, ws)" "e \<in> set out"
  shows "0 \<le> eo_lgw e \<and> eo_lgw e \<le> 1 \<and> 0 \<le> eo_lgd e \<and> eo_lgd e \<le> eo_lgw e
    \<and> 0 \<le> eo_discounted e \<and> eo_discounted e \<le> eo_credit_loss e
    \<and> eo_credit_loss e \<le> max (eo_after_missed e - eo_collateral e) 0"
  using assms(4,5)
proof (rule compute_ead_rowE)
  fix w p
  assume w: "w \<in> set (walk_all pmt (expand_snapshots off (merged_frame ead lgd)))" "e = loss_row (w, p)"
    "\<And>q. p = Some q \<Longrightarrow> q \<in> set pd_df \<and> pd_lookup_key q = wk_key w"
    "wk_snap w \<in> set (expand_snapshots off (merged_frame ead lgd))"
  note m = merged_frame_nonneg [OF assms(1,3) expand_snapshotsD(1) [OF w(4)]]
  have b: "0 \<le> wk_after_missed w" using walk_all_balances [OF w(1)] by simp
  have pr: "0 \<le> po_marginal q \<and> po_marginal q \<le> 1 \<and> 0 \<le> po_cure q \<and> po_cure q \<le> 1" if "p = Some q" for q
    using w(3) [OF that] assms(2) by (simp add: wf_pd_table_def)
  show ?thesis unfolding w(2) using loss_row_bounds [OF b m pr] by (intro conjI)
qed

text \<open>
  C8. Each loan gets exactly its monthly snapshots: with valid dates and unique keys, the rows of a
  loan are the reporting date shifted by 0, 1, 2, ... months, numbered by the discount period, and
  their number is at most thirteen up to maturity in Stage 1, all months up to maturity in Stage 2
  and one otherwise.
\<close>

theorem ead_snapshot_schedule:
  assumes "date_offset_law off" "distinct (map er_loan ead)" "distinct (map pd_lookup_key pd_df)"
    and "r \<in> set ead" "valid_date (er_reporting r)" "valid_date (er_maturity r)"
    and "compute_ead off pmt ead pd_df lgd = Inr (out, ws)"
  shows "map (\<lambda>e. (eo_discount e, eo_date e)) (filter (\<lambda>e. eo_loan e = er_loan r) out)
    = map (\<lambda>i. (i, shift_months (er_reporting r) (int i))) [0..<snapshot_count r]"
proof -
  let ?snaps = "expand_snapshots off (merged_frame ead lgd)"
  obtain m where m: "m \<in> set (merged_frame ead lgd)" "mr_row m = r" by (rule merged_of_row [OF assms(4)])
  let ?grp = "group_rows sn_loan (er_loan r) ?snaps"
  let ?ws = "walk_loan_balances (the (instalments pmt ?snaps (er_loan r))) ?grp"
  have grp: "?grp = map (\<lambda>i. snap (shift_months (er_reporting r) (int i)) m) [0..<snapshot_count r]"
    using snapshots_of_loan [OF assms(2) m(1), of off] m(2) snapshot_dates_count [OF assms(1,5,6)] by simp
  have "sorted (map sn_date ?grp)" using sorted_snapshot_dates by (simp add: grp comp_def)
  then have "map wk_snap ?ws = ?grp" by (simp add: map_wk_snap sort_key_id_if_sorted)
  then have "map (\<lambda>w. sn_date (wk_snap w)) ?ws = map sn_date ?grp"
    by (simp flip: map_map [of sn_date wk_snap, unfolded comp_def])
  then have "map (\<lambda>w. (wk_discount w, sn_date (wk_snap w))) ?ws = zip [0..<length ?grp] (map sn_date ?grp)"
    by (simp only: map_pair_zip wk_discount_walk)
  also have "\<dots> = map (\<lambda>i. (i, shift_months (er_reporting r) (int i))) [0..<snapshot_count r]"
    by (rule nth_equalityI) (simp_all add: grp)
  finally show ?thesis
    unfolding compute_ead_Inr(1) [OF assms(7)] output_of_loan [OF assms(3)] by (simp add: comp_def)
qed

section \<open>Missing inputs\<close>

definition snap_key :: "snapshot \<Rightarrow> py_str \<times> int \<times> py_str option" where
  "snap_key s =
     (er_segment (sn_ead s), months_between (er_first_payment (sn_ead s)) (sn_date s), er_staging (sn_ead s))"

lemma wk_key_walk:
  assumes "w \<in> set (walk_all pmt snaps)"
  shows "wk_key w = snap_key (wk_snap w)"
  using assms
proof (rule walk_allE)
  fix i grp inst assume "i < length grp" "w = walk_loan_balances inst grp ! i"
  then show ?thesis by (simp add: walk_loan_balances_nth wk_key_def snap_key_def Let_def)
qed

lemma wk_snap_walk_all: "wk_snap ` set (walk_all pmt snaps) = set snaps"
  using arg_cong [OF mset_walk_all, of set_mset] by simp

lemma missing_segs_walk:
  "seg \<in> set (missing_segs (merge_pd (walk_all pmt snaps) pd_df)) \<longleftrightarrow>
   seg \<in> (\<lambda>s. er_segment (sn_ead s)) ` set snaps
   \<and> (\<forall>s \<in> set snaps. er_segment (sn_ead s) = seg \<longrightarrow> snap_key s \<notin> pd_lookup_key ` set pd_df)"
proof -
  let ?M = "merge_pd (walk_all pmt snaps) pd_df" and ?W = "walk_all pmt snaps"
  have all: "(\<lambda>m. er_segment (wk_ead (fst m))) ` set ?M = (\<lambda>s. er_segment (sn_ead s)) ` set snaps"
  proof -
    have "(\<lambda>m. er_segment (wk_ead (fst m))) ` set ?M = (\<lambda>s. er_segment (sn_ead s)) ` (wk_snap ` (fst ` set ?M))"
      by (simp only: image_image)
    then show ?thesis unfolding merge_pd_def fst_left_merge_set wk_snap_walk_all .
  qed
  have hit: "(\<exists>m \<in> set ?M. snd m \<noteq> None \<and> er_segment (wk_ead (fst m)) = seg)
      \<longleftrightarrow> (\<exists>s \<in> set snaps. er_segment (sn_ead s) = seg \<and> snap_key s \<in> pd_lookup_key ` set pd_df)" (is "?L \<longleftrightarrow> ?R")
  proof
    assume ?L
    then obtain w q where wq: "(w, Some q) \<in> set ?M" "er_segment (wk_ead w) = seg" by auto
    note D = left_mergeD [OF wq(1) [unfolded merge_pd_def]]
    have "wk_snap w \<in> set snaps" using imageI [OF D(1), of wk_snap] by (simp only: wk_snap_walk_all)
    moreover have "snap_key (wk_snap w) \<in> pd_lookup_key ` set pd_df"
    proof -
      have "pd_lookup_key q = snap_key (wk_snap w)" "q \<in> set pd_df"
        using D(2) [OF refl] wk_key_walk [OF D(1)] by auto
      then show ?thesis by (intro image_eqI [of _ _ q]) simp_all
    qed
    ultimately show ?R using wq(2) by blast
  next
    assume ?R
    then obtain s where s: "s \<in> set snaps" "er_segment (sn_ead s) = seg" "snap_key s \<in> pd_lookup_key ` set pd_df" by auto
    from s(1) have "s \<in> wk_snap ` set ?W" by (simp only: wk_snap_walk_all)
    then obtain w where "s = wk_snap w" "w \<in> set ?W" by (rule imageE)
    then have w: "w \<in> set ?W" "wk_snap w = s" by simp_all
    from w(1) have "w \<in> fst ` set ?M" unfolding merge_pd_def fst_left_merge_set .
    then obtain p where p: "(w, p) \<in> set ?M" by auto
    have "p \<noteq> None"
    proof
      assume "p = None"
      from left_mergeD(3) [OF p [unfolded merge_pd_def] this] s(3) show False
        unfolding wk_key_walk [OF w(1)] w(2) by auto
    qed
    then show ?L using p s(2) w(2) by (intro bexI [of _ "(w, p)"]) simp_all
  qed
  have "seg \<in> set (missing_segs ?M) \<longleftrightarrow> seg \<in> (\<lambda>m. er_segment (wk_ead (fst m))) ` set ?M
      \<and> \<not> (\<exists>m \<in> set ?M. snd m \<noteq> None \<and> er_segment (wk_ead (fst m)) = seg)"
    by (auto simp: missing_segs_def image_iff) (metis option.distinct(1))
  then show ?thesis unfolding all hit by blast
qed

text \<open>
  C9. EC-08 is raised exactly when some segment with a snapshot has no snapshot at all that the PD
  table covers; in every other case the engine returns a table.
\<close>

theorem ec08_exactly_uncovered_segment:
  defines "key \<equiv> \<lambda>s. (er_segment (sn_ead s), months_between (er_first_payment (sn_ead s)) (sn_date s), er_staging (sn_ead s))"
  shows "(case compute_ead off pmt ead pd_df lgd of Inl e \<Rightarrow> \<exists>msg. e = ValueError msg | Inr _ \<Rightarrow> False)
    \<longleftrightarrow> (\<exists>s \<in> set (expand_snapshots off (merged_frame ead lgd)).
           \<forall>s' \<in> set (expand_snapshots off (merged_frame ead lgd)).
             er_segment (sn_ead s') = er_segment (sn_ead s) \<longrightarrow> key s' \<notin> pd_lookup_key ` set pd_df)"
proof -
  let ?S = "expand_snapshots off (merged_frame ead lgd)"
  have "(case compute_ead off pmt ead pd_df lgd of Inl e \<Rightarrow> \<exists>msg. e = ValueError msg | Inr _ \<Rightarrow> False)
    \<longleftrightarrow> (\<exists>seg. seg \<in> set (missing_segs (merge_pd (walk_all pmt ?S) pd_df)))"
  proof (cases "?S = []")
    case True
    then show ?thesis by (simp add: compute_ead_def walk_all_def merge_pd_def missing_segs_def)
  next
    case False
    then show ?thesis
      by (cases "missing_segs (merge_pd (walk_all pmt ?S) pd_df)") (simp_all add: compute_ead_def Let_def, blast)
  qed
  also have "\<dots> \<longleftrightarrow> (\<exists>s \<in> set ?S. \<forall>s' \<in> set ?S.
             er_segment (sn_ead s') = er_segment (sn_ead s) \<longrightarrow> key s' \<notin> pd_lookup_key ` set pd_df)"
    unfolding missing_segs_walk key_def snap_key_def by blast
  finally show ?thesis .
qed

lemma in_lgd_subset_loans: "ls_loan ` set (lgd_subset lgd) = li_loan ` set (lf_rows lgd)"
  by (simp add: lgd_subset_def image_image lgd_sub_row_def)

text \<open>
  EC-06: when every row of the LGD frame carries its collateral sum, the warnings name exactly
  the loans of the EAD file that have no LGD row, each once, and these loans are computed with a
  collateral of zero.
\<close>

lemma ec06_exactly_missing_loans:
  assumes "LGD_SUM_COL \<in> set (lf_columns lgd)" "\<forall>x \<in> set (lf_rows lgd). li_sum_long x \<noteq> None"
    and "compute_ead off pmt ead pd_df lgd = Inr (out, ws)"
  shows "ws = map ec06_warning (sorted_unique (map er_loan (filter (\<lambda>r. er_loan r \<notin> li_loan ` set (lf_rows lgd)) ead)))
    \<and> (\<forall>e \<in> set out. eo_loan e \<notin> li_loan ` set (lf_rows lgd) \<longrightarrow> eo_collateral e = 0)"
proof
  have miss: "lgd_missing (r, find (\<lambda>x. ls_loan x = er_loan r) (lgd_subset lgd))
      \<longleftrightarrow> er_loan r \<notin> li_loan ` set (lf_rows lgd)" for r
  proof (cases "find (\<lambda>x. ls_loan x = er_loan r) (lgd_subset lgd)")
    case None
    have "er_loan r \<notin> ls_loan ` set (lgd_subset lgd)" using find_NoneD [OF None] by fastforce
    then show ?thesis using None in_lgd_subset_loans by (simp add: lgd_missing_def)
  next
    case (Some x)
    have x: "x \<in> set (lgd_subset lgd)" "ls_loan x = er_loan r" using find_SomeD [OF Some] by auto
    from x(1) obtain y where y: "y \<in> set (lf_rows lgd)" "x = lgd_sub_row (lf_columns lgd) y" by (rule lgd_subsetD)
    have "ls_sum x \<noteq> None" using y assms(1,2) by (simp add: lgd_sub_row_def)
    moreover have "er_loan r \<in> li_loan ` set (lf_rows lgd)"
      using x in_lgd_subset_loans by (metis image_eqI)
    ultimately show ?thesis using Some by (simp add: lgd_missing_def)
  qed
  have "set (map (er_loan \<circ> fst) (filter lgd_missing (merge_lgd ead lgd)))
      = set (map er_loan (filter (\<lambda>r. er_loan r \<notin> li_loan ` set (lf_rows lgd)) ead))"
    by (simp add: merge_lgd_eq filter_map comp_def miss)
  then show "ws = map ec06_warning (sorted_unique (map er_loan (filter (\<lambda>r. er_loan r \<notin> li_loan ` set (lf_rows lgd)) ead)))"
    unfolding compute_ead_Inr(2) [OF assms(3)] ec06_warnings_def by (metis sorted_unique_cong)
  show "\<forall>e \<in> set out. eo_loan e \<notin> li_loan ` set (lf_rows lgd) \<longrightarrow> eo_collateral e = 0"
  proof (intro ballI impI)
    fix e assume e: "e \<in> set out" "eo_loan e \<notin> li_loan ` set (lf_rows lgd)"
    from assms(3) e(1) show "eo_collateral e = 0"
    proof (rule compute_ead_rowE)
      fix w p assume w: "e = loss_row (w, p)" "wk_snap w \<in> set (expand_snapshots off (merged_frame ead lgd))"
      from expand_snapshotsD(1) [OF w(2)] obtain r where
        r: "sn_row (wk_snap w) = fill_merged (r, find (\<lambda>x. ls_loan x = er_loan r) (lgd_subset lgd))"
        by (auto simp: merged_frame_def merge_lgd_eq)
      then have "er_loan r = eo_loan e" using w(1) by (simp add: fill_merged_def)
      then have "lgd_missing (r, find (\<lambda>x. ls_loan x = er_loan r) (lgd_subset lgd))" using e(2) unfolding miss by simp
      then show ?thesis using r w(1) by (simp add: fill_merged_def lgd_missing_def)
    qed
  qed
qed

section \<open>Witnesses\<close>

definition pmt_ref :: pmt_fun where
  "pmt_ref rate n pv =
     (if 0 < rate \<and> 0 < n then - (pv * (1 + rate) ^ nat n / (((1 + rate) ^ nat n - 1) / rate)) else 0)"

lemma pmt_law_ref: "pmt_law pmt_ref"
  unfolding pmt_law_def
proof (intro allI impI)
  fix rate pv :: num and n :: nat
  assume r: "0 < rate" "0 < n"
  then have "1 < (1 + rate) ^ n" by (intro one_less_power) simp_all
  then have "((1 + rate) ^ n - 1) / rate \<noteq> 0" using r(1) by simp
  then show "pv * (1 + rate) ^ n + pmt_ref rate (int n) pv * (((1 + rate) ^ n - 1) / rate) = 0"
    using r by (simp only: pmt_ref_def) simp
qed

definition sample_loan :: "py_str \<Rightarrow> py_str \<Rightarrow> ead_row" where
  "sample_loan loan stage =
     \<lparr> er_loan = loan, er_customer = ''C1'', er_segment = ''Retail'', er_staging = Some stage,
       er_reporting = Date 2024 1 31, er_first_payment = Date 2023 10 31, er_maturity = Date 2024 4 30,
       er_adj_maturity = Date 2024 4 30, er_outstanding = 1200, er_eir = 12 / 100, er_freq = Some ''mth '' \<rparr>"

definition sample_ead :: "ead_row list" where
  "sample_ead = [sample_loan ''L2'' ''Stage 2'', sample_loan ''L1'' ''Stage 3'']"

definition sample_pd_table :: "pd_out list" where
  "sample_pd_table =
     [\<lparr> po_segment = ''Retail'', po_month = 4, po_transition = ''Stage 2'', po_s1 = 0, po_s2 = 1 / 2, po_s3 = 1 / 2,
        po_marginal = 1 / 4, po_cure = 1 / 5 \<rparr>]"

definition sample_lgd_frame :: lgd_frame where
  "sample_lgd_frame =
     \<lparr> lf_columns = [''Loan ID'', ''EIR'', LGD_SUM_COL],
       lf_rows = [\<lparr> li_loan = ''L2'', li_eir = Some (12 / 100), li_sum_long = Some 300, li_sum_short = None \<rparr>] \<rparr>"

definition sample_result :: "(ead_out list \<times> py_str list) result" where
  "sample_result = compute_ead shift_months pmt_ref sample_ead sample_pd_table sample_lgd_frame"

lemma sample_result_rows:
  "(case sample_result of Inr (out, ws) \<Rightarrow>
     map (\<lambda>e. (eo_loan e, eo_discount e)) out = [(''L1'', 0), (''L2'', 0), (''L2'', 1), (''L2'', 2), (''L2'', 3)] | Inl _ \<Rightarrow> False)"
  by code_simp

lemma sample_resultE:
  obtains out ws e where "compute_ead shift_months pmt_ref sample_ead sample_pd_table sample_lgd_frame = Inr (out, ws)"
    "e \<in> set out" "eo_loan e = ''L2''" "eo_discount e = 1"
proof -
  obtain out ws where r: "sample_result = Inr (out, ws)"
      "map (\<lambda>e. (eo_loan e, eo_discount e)) out = [(''L1'', 0), (''L2'', 0), (''L2'', 1), (''L2'', 2), (''L2'', 3)]"
    using sample_result_rows by (auto split: sum.splits)
  have "(''L2'', 1) \<in> set (map (\<lambda>e. (eo_loan e, eo_discount e)) out)" unfolding r(2) by simp
  then obtain e where "e \<in> set out" "eo_loan e = ''L2''" "eo_discount e = 1" by auto
  with that r(1) show thesis by (simp add: sample_result_def)
qed

lemma sample_ead_facts:
  "distinct (map er_loan sample_ead)" "sample_loan ''L2'' ''Stage 2'' \<in> set sample_ead"
  "norm_freq (er_freq (sample_loan ''L2'' ''Stage 2'')) = ''MTH''"
  "effective_eir sample_lgd_frame (sample_loan ''L2'' ''Stage 2'') = 12 / 100"
  "remaining_months (sample_loan ''L2'' ''Stage 2'') = 3"
  "\<forall>r \<in> set sample_ead. 0 \<le> er_eir r" "wf_pd_table sample_pd_table" "wf_lgd_frame sample_lgd_frame"
  "distinct (map pd_lookup_key sample_pd_table)"
  "valid_date (er_reporting (sample_loan ''L2'' ''Stage 2''))" "valid_date (er_maturity (sample_loan ''L2'' ''Stage 2''))"
  "snapshot_count (sample_loan ''L2'' ''Stage 2'') = 4"
  "er_loan (sample_loan ''L2'' ''Stage 2'') = ''L2''" "er_outstanding (sample_loan ''L2'' ''Stage 2'') = 1200"
  by (code_simp | simp add: wf_lgd_frame_def sample_lgd_frame_def)+

theorem ead_amortisation_witness:
  "\<exists>out ws e. compute_ead shift_months pmt_ref sample_ead sample_pd_table sample_lgd_frame = Inr (out, ws)
     \<and> e \<in> set out \<and> eo_after_repayment e = annuity_balance 1200 (12 / 100) 3 2"
proof -
  obtain out ws e where e: "compute_ead shift_months pmt_ref sample_ead sample_pd_table sample_lgd_frame = Inr (out, ws)"
    "e \<in> set out" "eo_loan e = ''L2''" "eo_discount e = 1" by (rule sample_resultE)
  have "eo_after_repayment e = annuity_balance 1200 (12 / 100) 3 2"
    using ead_amortisation [OF pmt_law_ref sample_ead_facts(1-3) _ _ _ e(1,2)] e(3)
    unfolding sample_ead_facts(4,5,13,14) e(4) by (simp add: numeral_2_eq_2)
  with e show ?thesis by blast
qed

theorem missed_payments_never_change_balance_witness:
  "\<exists>out ws e. compute_ead shift_months pmt_ref sample_ead sample_pd_table sample_lgd_frame = Inr (out, ws)
     \<and> e \<in> set out \<and> eo_after_missed e = eo_after_repayment e"
proof -
  obtain out ws e where e: "compute_ead shift_months pmt_ref sample_ead sample_pd_table sample_lgd_frame = Inr (out, ws)"
    "e \<in> set out" by (rule sample_resultE)
  from missed_payments_never_change_balance [OF e] e show ?thesis by blast
qed

theorem ead_loss_bounds_witness:
  "\<exists>out ws e. compute_ead shift_months pmt_ref sample_ead sample_pd_table sample_lgd_frame = Inr (out, ws)
     \<and> e \<in> set out \<and> eo_lgw e \<le> 1 \<and> eo_discounted e \<le> eo_credit_loss e"
proof -
  obtain out ws e where e: "compute_ead shift_months pmt_ref sample_ead sample_pd_table sample_lgd_frame = Inr (out, ws)"
    "e \<in> set out" by (rule sample_resultE)
  from ead_loss_bounds [OF sample_ead_facts(8,7,6) e] e show ?thesis by blast
qed

theorem ead_snapshot_schedule_witness:
  "\<exists>out ws. compute_ead shift_months pmt_ref sample_ead sample_pd_table sample_lgd_frame = Inr (out, ws)
     \<and> map (\<lambda>e. (eo_discount e, eo_date e)) (filter (\<lambda>e. eo_loan e = ''L2'') out)
       = [(0, Date 2024 1 31), (1, Date 2024 2 29), (2, Date 2024 3 31), (3, Date 2024 4 30)]"
proof -
  obtain out ws where e: "compute_ead shift_months pmt_ref sample_ead sample_pd_table sample_lgd_frame = Inr (out, ws)"
    by (rule sample_resultE)
  have "map (\<lambda>i. (i, shift_months (er_reporting (sample_loan ''L2'' ''Stage 2'')) (int i)))
      [0..<snapshot_count (sample_loan ''L2'' ''Stage 2'')]
     = [(0, Date 2024 1 31), (1, Date 2024 2 29), (2, Date 2024 3 31), (3, Date 2024 4 30)]" by code_simp
  moreover have "er_loan (sample_loan ''L2'' ''Stage 2'') = ''L2''" by (simp add: sample_loan_def)
  ultimately show ?thesis
    using ead_snapshot_schedule [OF date_offset_law_shift sample_ead_facts(1,9,2,10,11) e] e by auto
qed

theorem ec08_exactly_uncovered_segment_witness:
  "case compute_ead shift_months pmt_ref sample_ead [] sample_lgd_frame of Inl e \<Rightarrow> \<exists>msg. e = ValueError msg | Inr _ \<Rightarrow> False"
proof -
  have "expand_snapshots shift_months (merged_frame sample_ead sample_lgd_frame) \<noteq> []" by code_simp
  then show ?thesis by (subst ec08_exactly_uncovered_segment) (auto simp: neq_Nil_conv)
qed

lemma ec06_exactly_missing_loans_witness:
  "\<exists>out ws. compute_ead shift_months pmt_ref sample_ead sample_pd_table sample_lgd_frame = Inr (out, ws)
     \<and> ws = [ec06_warning ''L1'']"
proof -
  obtain out ws where e: "compute_ead shift_months pmt_ref sample_ead sample_pd_table sample_lgd_frame = Inr (out, ws)"
    by (rule sample_resultE)
  have "sorted_unique (map er_loan (filter (\<lambda>r. er_loan r \<notin> li_loan ` set (lf_rows sample_lgd_frame)) sample_ead)) = [''L1'']"
    by code_simp
  moreover have "LGD_SUM_COL \<in> set (lf_columns sample_lgd_frame)" "\<forall>x \<in> set (lf_rows sample_lgd_frame). li_sum_long x \<noteq> None"
    by code_simp+
  ultimately show ?thesis using ec06_exactly_missing_loans [OF _ _ e] e by auto
qed

end
