(* ===== verification/ResultStore.thy ===== *)
theory ResultStore
  imports EadEngine
begin

text \<open>
  The result tables between the engines: \<^verbatim>\<open>app/engine/bulk_insert.py\<close>, which writes the rows
  of a run in batches, and the loaders and run totals of \<^verbatim>\<open>app/tasks/compute_tasks.py\<close>, which
  read them back for the next stage.

  A table is the list of its rows in insertion order. The column types \<^verbatim>\<open>Numeric(p, s)\<close> round on
  insertion; \<open>rnd s\<close> is that rounding to \<open>s\<close> decimals, a parameter, of which \<open>numeric_law\<close> says that
  it is monotone and keeps integers. \<open>ids k\<close> is the \<open>k\<close>-th identifier the insertion draws. The
  interface \<open>loss_inputs\<close> states what the EAD stage relies on; its interpretation on the stored and
  reloaded output of the PD and LGD engines gives the end-to-end bounds.
\<close>

section \<open>Batches\<close>

definition BATCH_SIZE :: nat where
  "BATCH_SIZE = 5000"

function chunks :: "'a list \<Rightarrow> nat \<Rightarrow> 'a list list" where
  "chunks records n = (if records = [] \<or> n = 0 then [] else take n records # chunks (drop n records) n)"
  by pat_completeness auto
termination by (relation "measure (length \<circ> fst)") auto

declare chunks.simps [simp del]

text \<open>Each batch is sent in turn; the result is the table and the number of rows inserted.\<close>

fun insert_batches :: "'a list list \<Rightarrow> 'a list \<Rightarrow> nat \<Rightarrow> 'a list \<times> nat" where
  "insert_batches [] table inserted = (table, inserted)"
| "insert_batches (batch # batches) table inserted =
     insert_batches batches (table @ batch) (inserted + length batch)"

definition executemany :: "'a list \<Rightarrow> 'a list \<Rightarrow> 'a list \<times> nat" where
  "executemany records table =
     (if records = [] then (table, 0) else insert_batches (chunks records BATCH_SIZE) table 0)"

lemma concat_chunks: "0 < n \<Longrightarrow> concat (chunks xs n) = xs"
proof (induction xs n rule: chunks.induct)
  case (1 records n)
  then show ?case by (subst chunks.simps) auto
qed

lemma chunk_sizes: "0 < n \<Longrightarrow> c \<in> set (chunks xs n) \<Longrightarrow> c \<noteq> [] \<and> length c \<le> n"
proof (induction xs n rule: chunks.induct)
  case (1 records n)
  then show ?case by (subst (asm) (2) chunks.simps) (auto split: if_splits)
qed

lemma insert_batches_eq:
  "insert_batches bs table n = (table @ concat bs, n + length (concat bs))"
  by (induction bs table n rule: insert_batches.induct) auto

lemma executemany_eq: "executemany records table = (table @ records, length records)"
  by (simp add: executemany_def insert_batches_eq concat_chunks BATCH_SIZE_def)

section \<open>Tables\<close>

definition numeric_law :: "(nat \<Rightarrow> num \<Rightarrow> num) \<Rightarrow> bool" where
  "numeric_law rnd \<longleftrightarrow> (\<forall>s x y. x \<le> y \<longrightarrow> rnd s x \<le> rnd s y) \<and> (\<forall>s i. rnd s (of_int i) = of_int i)"

record pd_result =
  pr_id :: py_str
  pr_run :: py_str
  pr_tenant :: py_str
  pr_segment :: py_str
  pr_month :: nat
  pr_transition :: py_str
  pr_s1 :: num
  pr_s2 :: num
  pr_s3 :: num
  pr_marginal :: num
  pr_cure :: num

record lgd_result =
  lgr_id :: py_str
  lgr_run :: py_str
  lgr_tenant :: py_str
  lgr_loan :: py_str
  lgr_customer :: py_str
  lgr_eir :: num
  lgr_sum :: num

record ead_result =
  edr_id :: py_str
  edr_run :: py_str
  edr_tenant :: py_str
  edr_loan :: py_str
  edr_customer :: py_str
  edr_segment :: py_str
  edr_stage :: py_str
  edr_date :: date
  edr_period :: int
  edr_discount :: nat
  edr_instalment :: num
  edr_after_repayment :: num
  edr_after_missed :: num
  edr_marginal :: "num option"
  edr_lgw :: num
  edr_lgd :: num
  edr_credit_loss :: num
  edr_discounted :: num

definition pd_records :: "(nat \<Rightarrow> num \<Rightarrow> num) \<Rightarrow> (nat \<Rightarrow> py_str) \<Rightarrow> py_str \<Rightarrow> py_str \<Rightarrow> pd_out list \<Rightarrow> pd_result list" where
  "pd_records rnd ids run_id tenant_id df =
     map (\<lambda>(i, row). \<lparr> pr_id = ids i, pr_run = run_id, pr_tenant = tenant_id,
          pr_segment = po_segment row, pr_month = po_month row, pr_transition = po_transition row,
          pr_s1 = rnd 8 (po_s1 row), pr_s2 = rnd 8 (po_s2 row), pr_s3 = rnd 8 (po_s3 row),
          pr_marginal = rnd 8 (po_marginal row), pr_cure = rnd 8 (po_cure row) \<rparr>)
       (zip [0..<length df] df)"

definition lgd_records :: "(nat \<Rightarrow> num \<Rightarrow> num) \<Rightarrow> (nat \<Rightarrow> py_str) \<Rightarrow> py_str \<Rightarrow> py_str \<Rightarrow> lgd_out list \<Rightarrow> lgd_result list" where
  "lgd_records rnd ids run_id tenant_id df =
     map (\<lambda>(i, row). \<lparr> lgr_id = ids i, lgr_run = run_id, lgr_tenant = tenant_id,
          lgr_loan = lo_loan row, lgr_customer = lo_customer row,
          lgr_eir = rnd 8 (lo_eir row), lgr_sum = rnd 6 (lo_sum row) \<rparr>)
       (zip [0..<length df] df)"

text \<open>\<open>str\<close> of a missing staging cell is the text of the missing value.\<close>

definition stage_str :: "py_str option \<Rightarrow> py_str" where
  "stage_str s = (case s of Some t \<Rightarrow> t | None \<Rightarrow> ''nan'')"

definition ead_records :: "(nat \<Rightarrow> num \<Rightarrow> num) \<Rightarrow> (nat \<Rightarrow> py_str) \<Rightarrow> py_str \<Rightarrow> py_str \<Rightarrow> ead_out list \<Rightarrow> ead_result list" where
  "ead_records rnd ids run_id tenant_id df =
     map (\<lambda>(i, row). \<lparr> edr_id = ids i, edr_run = run_id, edr_tenant = tenant_id,
          edr_loan = eo_loan row, edr_customer = eo_customer row, edr_segment = eo_segment row,
          edr_stage = stage_str (eo_staging row), edr_date = eo_date row, edr_period = eo_period row,
          edr_discount = eo_discount row, edr_instalment = rnd 6 (eo_instalment row),
          edr_after_repayment = rnd 6 (eo_after_repayment row), edr_after_missed = rnd 6 (eo_after_missed row),
          edr_marginal = Some (rnd 8 (eo_marginal row)), edr_lgw = rnd 8 (eo_lgw row), edr_lgd = rnd 8 (eo_lgd row),
          edr_credit_loss = rnd 6 (eo_credit_loss row), edr_discounted = rnd 6 (eo_discounted row) \<rparr>)
       (zip [0..<length df] df)"

definition bulk_insert_pd_results where
  "bulk_insert_pd_results rnd ids table run_id tenant_id df =
     executemany (pd_records rnd ids run_id tenant_id df) table"

definition bulk_insert_lgd_results where
  "bulk_insert_lgd_results rnd ids table run_id tenant_id df =
     executemany (lgd_records rnd ids run_id tenant_id df) table"

definition bulk_insert_ead_results where
  "bulk_insert_ead_results rnd ids table run_id tenant_id df =
     executemany (ead_records rnd ids run_id tenant_id df) table"

text \<open>
  The transactions of the three stages: PD and LGD delete the rows of the run before they insert,
  EAD only inserts.
\<close>

definition save_pd_results where
  "save_pd_results rnd ids table run_id tenant_id df =
     fst (bulk_insert_pd_results rnd ids (filter (\<lambda>row. pr_run row \<noteq> run_id) table) run_id tenant_id df)"

definition save_lgd_results where
  "save_lgd_results rnd ids table run_id tenant_id df =
     fst (bulk_insert_lgd_results rnd ids (filter (\<lambda>row. lgr_run row \<noteq> run_id) table) run_id tenant_id df)"

definition save_ead_results where
  "save_ead_results rnd ids table run_id tenant_id df =
     fst (bulk_insert_ead_results rnd ids table run_id tenant_id df)"

section \<open>Loading\<close>

definition load_pd_dataframe :: "pd_result list \<Rightarrow> py_str \<Rightarrow> pd_out list" where
  "load_pd_dataframe table run_id =
     map (\<lambda>row. \<lparr> po_segment = pr_segment row, po_month = pr_month row, po_transition = pr_transition row,
          po_s1 = pr_s1 row, po_s2 = pr_s2 row, po_s3 = pr_s3 row,
          po_marginal = pr_marginal row, po_cure = pr_cure row \<rparr>)
       (filter (\<lambda>row. pr_run row = run_id) table)"

definition load_lgd_dataframe :: "lgd_result list \<Rightarrow> py_str \<Rightarrow> lgd_frame" where
  "load_lgd_dataframe table run_id =
     \<lparr> lf_columns = [''Loan ID'', ''Customer ID'', ''EIR'', ''Sum of Discounted Collaterals per Loan ID''],
       lf_rows = map (\<lambda>row. \<lparr> li_loan = lgr_loan row, li_eir = Some (lgr_eir row),
           li_sum_long = Some (lgr_sum row), li_sum_short = None \<rparr>)
         (filter (\<lambda>row. lgr_run row = run_id) table) \<rparr>"

text \<open>The totals of a run: its losses added up, and the largest balance of each loan added up.\<close>

definition list_max :: "num list \<Rightarrow> num" where
  "list_max xs = fold max (tl xs) (hd xs)"

definition compute_run_totals :: "ead_result list \<Rightarrow> py_str \<Rightarrow> num \<times> num \<times> num" where
  "compute_run_totals table run_id =
     (let rows = filter (\<lambda>row. edr_run row = run_id) table;
          total_ecl = (\<Sum>row\<leftarrow>rows. edr_discounted row);
          total_outstanding = (\<Sum>(loan, grp)\<leftarrow>groups edr_loan rows. list_max (map edr_after_missed grp));
          coverage = if 0 < total_outstanding then total_ecl / total_outstanding else 0
      in (total_ecl, total_outstanding, coverage))"

section \<open>What a load returns after an insert\<close>

definition stored_pd :: "(nat \<Rightarrow> num \<Rightarrow> num) \<Rightarrow> pd_out \<Rightarrow> pd_out" where
  "stored_pd rnd r = r \<lparr> po_s1 := rnd 8 (po_s1 r), po_s2 := rnd 8 (po_s2 r), po_s3 := rnd 8 (po_s3 r),
     po_marginal := rnd 8 (po_marginal r), po_cure := rnd 8 (po_cure r) \<rparr>"

definition stored_lgd :: "(nat \<Rightarrow> num \<Rightarrow> num) \<Rightarrow> lgd_out \<Rightarrow> lgd_in" where
  "stored_lgd rnd r = \<lparr> li_loan = lo_loan r, li_eir = Some (rnd 8 (lo_eir r)),
     li_sum_long = Some (rnd 6 (lo_sum r)), li_sum_short = None \<rparr>"

lemma map_zip_snd: "map (\<lambda>(i, x). f x) (zip [0..<length xs] xs) = map f xs"
  by (rule nth_equalityI) simp_all

lemma load_pd_after_insert:
  "load_pd_dataframe (fst (bulk_insert_pd_results rnd ids table run tenant df)) run'
   = load_pd_dataframe table run' @ (if run' = run then map (stored_pd rnd) df else [])"
proof -
  have "filter (\<lambda>row. pr_run row = run') (pd_records rnd ids run tenant df)
      = (if run' = run then pd_records rnd ids run tenant df else [])"
    by (auto simp: pd_records_def filter_id_conv filter_empty_conv)
  moreover have "load_pd_dataframe (pd_records rnd ids run tenant df) run = map (stored_pd rnd) df"
    by (simp add: load_pd_dataframe_def pd_records_def comp_def case_prod_beta filter_True)
      (rule nth_equalityI; simp add: stored_pd_def)
  ultimately show ?thesis
    by (cases "run' = run") (simp_all add: bulk_insert_pd_results_def executemany_eq load_pd_dataframe_def)
qed

lemma load_lgd_after_insert:
  "lf_rows (load_lgd_dataframe (fst (bulk_insert_lgd_results rnd ids table run tenant df)) run')
   = lf_rows (load_lgd_dataframe table run') @ (if run' = run then map (stored_lgd rnd) df else [])"
proof -
  have "filter (\<lambda>row. lgr_run row = run') (lgd_records rnd ids run tenant df)
      = (if run' = run then lgd_records rnd ids run tenant df else [])"
    by (auto simp: lgd_records_def filter_id_conv filter_empty_conv)
  moreover have "lf_rows (load_lgd_dataframe (lgd_records rnd ids run tenant df) run) = map (stored_lgd rnd) df"
    by (simp add: load_lgd_dataframe_def lgd_records_def comp_def case_prod_beta filter_True)
      (rule nth_equalityI; simp add: stored_lgd_def)
  ultimately show ?thesis
    by (cases "run' = run") (simp_all add: bulk_insert_lgd_results_def executemany_eq load_lgd_dataframe_def)
qed

lemma lf_columns_load [simp]:
  "lf_columns (load_lgd_dataframe table run) = [''Loan ID'', ''Customer ID'', ''EIR'', LGD_SUM_COL]"
  by (simp add: load_lgd_dataframe_def LGD_SUM_COL_def)

section \<open>The interface of the EAD stage\<close>

text \<open>
  What \<open>compute_ead\<close> relies on: a PD table of probabilities with unique keys, and an LGD frame of
  non-negative cells that carries its sums. \<open>pd_of\<close> and \<open>lgd_of\<close> are the providers, \<open>pd_ok\<close> and
  \<open>lgd_ok\<close> the inputs they accept.
\<close>

locale loss_inputs =
  fixes pd_of :: "'p \<Rightarrow> pd_out list" and pd_ok :: "'p \<Rightarrow> bool"
    and lgd_of :: "'l \<Rightarrow> lgd_frame" and lgd_ok :: "'l \<Rightarrow> bool"
  assumes pd_range: "pd_ok x \<Longrightarrow> wf_pd_table (pd_of x)"
    and pd_unique: "distinct (map pd_lookup_key (pd_of x))"
    and lgd_range: "lgd_ok y \<Longrightarrow> wf_lgd_frame (lgd_of y)"
    and lgd_sums: "LGD_SUM_COL \<in> set (lf_columns (lgd_of y))" "z \<in> set (lf_rows (lgd_of y)) \<Longrightarrow> li_sum_long z \<noteq> None"
begin

text \<open>One output row per snapshot: neither join multiplies or loses rows.\<close>

lemma one_row_per_snapshot:
  assumes "compute_ead off pmt ead (pd_of x) lgd = Inr (out, ws)"
  shows "length out = length (expand_snapshots off (merged_frame ead lgd))"
proof -
  have "length out = length (walk_all pmt (expand_snapshots off (merged_frame ead lgd)))"
    unfolding compute_ead_Inr(1) [OF assms] ead_output_def merge_pd_def left_merge_unique [OF pd_unique] by simp
  also have "\<dots> = length (expand_snapshots off (merged_frame ead lgd))"
    using arg_cong [OF mset_walk_all, of size] by simp
  finally show ?thesis .
qed

lemma row_losses:
  assumes "pd_ok x" "lgd_ok y" "\<forall>r \<in> set ead. 0 \<le> er_eir r"
    and "compute_ead off pmt ead (pd_of x) (lgd_of y) = Inr (out, ws)" "e \<in> set out"
  shows "0 \<le> eo_discounted e" "eo_discounted e \<le> max (eo_after_repayment e - eo_collateral e) 0"
proof -
  have "0 \<le> eo_discounted e \<and> eo_discounted e \<le> max (eo_after_repayment e - eo_collateral e) 0"
    using assms(4,5)
  proof (rule compute_ead_rowE)
    fix w p
    assume w: "w \<in> set (walk_all pmt (expand_snapshots off (merged_frame ead (lgd_of y))))" "e = loss_row (w, p)"
      "\<And>q. p = Some q \<Longrightarrow> q \<in> set (pd_of x) \<and> pd_lookup_key q = wk_key w"
      "wk_snap w \<in> set (expand_snapshots off (merged_frame ead (lgd_of y)))"
    note m = merged_frame_nonneg [OF lgd_range [OF assms(2)] assms(3) expand_snapshotsD(1) [OF w(4)]]
    note bal = walk_all_balances [OF w(1)]
    have b: "0 \<le> wk_after_missed w" using bal by simp
    have "0 \<le> po_marginal q \<and> po_marginal q \<le> 1 \<and> 0 \<le> po_cure q \<and> po_cure q \<le> 1" if "p = Some q" for q
      using w(3) [OF that] pd_range [OF assms(1)] by (simp add: wf_pd_table_def)
    note L = loss_row_bounds [OF b m this]
    show ?thesis using L(5) order_trans [OF L(6,7)] bal unfolding w(2) by simp
  qed
  then show "0 \<le> eo_discounted e" "eo_discounted e \<le> max (eo_after_repayment e - eo_collateral e) 0" by auto
qed

end

section \<open>The providers\<close>

lemma load_saved_pd:
  "load_pd_dataframe (save_pd_results rnd ids table run tenant df) run' =
     (if run' = run then map (stored_pd rnd) df else load_pd_dataframe table run')"
proof -
  have "load_pd_dataframe (filter (\<lambda>row. pr_run row \<noteq> run) table) run' =
      (if run' = run then [] else load_pd_dataframe table run')"
    by (auto simp: load_pd_dataframe_def filter_empty_conv intro: arg_cong [where f = "map _"] filter_cong)
  then show ?thesis by (simp add: save_pd_results_def load_pd_after_insert)
qed

lemma load_saved_lgd:
  "lf_rows (load_lgd_dataframe (save_lgd_results rnd ids table run tenant df) run') =
     (if run' = run then map (stored_lgd rnd) df else lf_rows (load_lgd_dataframe table run'))"
proof -
  have "lf_rows (load_lgd_dataframe (filter (\<lambda>row. lgr_run row \<noteq> run) table) run') =
      (if run' = run then [] else lf_rows (load_lgd_dataframe table run'))"
    by (auto simp: load_lgd_dataframe_def filter_empty_conv intro: arg_cong [where f = "map _"] filter_cong)
  then show ?thesis by (simp add: save_lgd_results_def load_lgd_after_insert)
qed

lemma numeric_bounds:
  assumes "numeric_law rnd"
  shows "0 \<le> x \<Longrightarrow> 0 \<le> rnd s x" "x \<le> 1 \<Longrightarrow> rnd s x \<le> 1"
proof -
  have *: "rnd s 0 = 0" "rnd s 1 = 1"
    using assms unfolding numeric_law_def by (metis of_int_0, metis of_int_1)
  have mono: "x \<le> y \<Longrightarrow> rnd s x \<le> rnd s y" for x y using assms unfolding numeric_law_def by blast
  show "0 \<le> x \<Longrightarrow> 0 \<le> rnd s x" using mono [of 0 x] * by simp
  show "x \<le> 1 \<Longrightarrow> rnd s x \<le> 1" using mono [of x 1] * by simp
qed

text \<open>The PD engine's table, saved for a run and loaded back.\<close>

record pd_stage_input =
  pi_off :: "date \<Rightarrow> int \<Rightarrow> date"
  pi_power :: "mat3 \<Rightarrow> nat \<Rightarrow> mat3"
  pi_rnd :: "nat \<Rightarrow> num \<Rightarrow> num"
  pi_ids :: "nat \<Rightarrow> py_str"
  pi_table :: "pd_result list"
  pi_run :: py_str
  pi_tenant :: py_str
  pi_df :: "pd_row list"

definition pd_stage_frame :: "pd_stage_input \<Rightarrow> pd_out list" where
  "pd_stage_frame x =
     load_pd_dataframe (save_pd_results (pi_rnd x) (pi_ids x) (pi_table x) (pi_run x) (pi_tenant x)
       (fst (compute_pd (pi_off x) (pi_power x) (pi_df x)))) (pi_run x)"

definition pd_stage_ok :: "pd_stage_input \<Rightarrow> bool" where
  "pd_stage_ok x \<longleftrightarrow> numeric_law (pi_rnd x) \<and> matrix_power_law (pi_power x) \<and> (\<forall>r \<in> set (pi_df x). 0 \<le> pdr_amount r)"

record lgd_stage_input =
  gi_rnd :: "nat \<Rightarrow> num \<Rightarrow> num"
  gi_ids :: "nat \<Rightarrow> py_str"
  gi_table :: "lgd_result list"
  gi_run :: py_str
  gi_tenant :: py_str
  gi_df :: "lgd_row list"
  gi_types :: "collateral_type list"

definition lgd_stage_frame :: "lgd_stage_input \<Rightarrow> lgd_frame" where
  "lgd_stage_frame y =
     load_lgd_dataframe (save_lgd_results (gi_rnd y) (gi_ids y) (gi_table y) (gi_run y) (gi_tenant y)
       (compute_lgd (gi_df y) (load_collateral_config (gi_types y) (gi_tenant y)))) (gi_run y)"

definition lgd_stage_ok :: "lgd_stage_input \<Rightarrow> bool" where
  "lgd_stage_ok y \<longleftrightarrow> numeric_law (gi_rnd y) \<and> (\<forall>r \<in> set (gi_df y). wf_lgd_row r)
     \<and> (\<forall>c \<in> set (gi_types y). 0 \<le> ct_haircut c \<and> ct_haircut c \<le> 100 \<and> 0 \<le> ct_ttr c)"

lemma pd_lookup_key_stored: "pd_lookup_key (stored_pd rnd r) = pd_lookup_key r"
  by (simp add: pd_lookup_key_def stored_pd_def)

lemma distinct_pd_keys: "distinct (map pd_lookup_key (fst (compute_pd off mp df)))"
proof -
  let ?out = "fst (compute_pd off mp df)"
  have "distinct (map (\<lambda>r. (po_segment r, po_transition r, po_month r)) ?out)"
    unfolding pd_keys_table by (intro distinct_product) (simp_all add: STAGES_def pd_segments_def)
  then show ?thesis by (auto simp: distinct_map inj_on_def pd_lookup_key_def)
qed

lemma load_collateral_config_wf:
  assumes "\<forall>c \<in> set types. 0 \<le> ct_haircut c \<and> ct_haircut c \<le> 100 \<and> 0 \<le> ct_ttr c"
  shows "\<forall>c \<in> set (load_collateral_config types tenant). wf_coll_cfg c"
  using assms by (auto simp: load_collateral_config_def wf_coll_cfg_def)

interpretation stage: loss_inputs pd_stage_frame pd_stage_ok lgd_stage_frame lgd_stage_ok
proof
  fix x assume ok: "pd_stage_ok x"
  then have n: "numeric_law (pi_rnd x)" by (simp add: pd_stage_ok_def)
  have "0 \<le> po_marginal r \<and> po_marginal r \<le> 1 \<and> 0 \<le> po_cure r \<and> po_cure r \<le> 1"
    if "r \<in> set (fst (compute_pd (pi_off x) (pi_power x) (pi_df x)))" for r
    using pd_rows_bounds [OF _ _ that] ok by (simp add: pd_stage_ok_def)
  then show "wf_pd_table (pd_stage_frame x)"
    using numeric_bounds [OF n] by (auto simp: wf_pd_table_def pd_stage_frame_def load_saved_pd stored_pd_def)
next
  fix x show "distinct (map pd_lookup_key (pd_stage_frame x))"
    using distinct_pd_keys by (simp add: pd_stage_frame_def load_saved_pd comp_def pd_lookup_key_stored)
next
  fix y assume ok: "lgd_stage_ok y"
  then have n: "numeric_law (gi_rnd y)" by (simp add: lgd_stage_ok_def)
  let ?cfg = "load_collateral_config (gi_types y) (gi_tenant y)"
  have "0 \<le> lo_sum r \<and> 0 \<le> lo_eir r" if "r \<in> set (compute_lgd (gi_df y) ?cfg)" for r
  proof -
    from that obtain q where q: "q \<in> set (gi_df y)" "r = lgd_compute_row ?cfg (gi_df y) q" by (auto simp: set_compute_lgd)
    have wf: "\<And>r. r \<in> set (gi_df y) \<Longrightarrow> wf_lgd_row r" "\<And>c. c \<in> set ?cfg \<Longrightarrow> wf_coll_cfg c"
      using ok load_collateral_config_wf by (auto simp: lgd_stage_ok_def)
    show ?thesis using lo_sum_bounds(1) [OF wf q(1)] wf(1) [OF q(1)]
      by (simp only: q(2) lgd_compute_row_simps wf_lgd_row_def)
  qed
  then show "wf_lgd_frame (lgd_stage_frame y)"
    using numeric_bounds(1) [OF n] by (auto simp: wf_lgd_frame_def lgd_stage_frame_def load_saved_lgd stored_lgd_def)
next
  fix y show "LGD_SUM_COL \<in> set (lf_columns (lgd_stage_frame y))" by (simp add: lgd_stage_frame_def)
next
  fix y z assume "z \<in> set (lf_rows (lgd_stage_frame y))"
  then show "li_sum_long z \<noteq> None" by (auto simp: lgd_stage_frame_def load_saved_lgd stored_lgd_def)
qed

section \<open>Properties\<close>

text \<open>
  C10. From the uploaded PD and LGD rows to the loss table, through both result tables and their
  rounding: if the amounts, rates and collateral are not negative and the configured haircuts are
  percentages, then every row of the loss table has a discounted loss between zero and the part of
  the balance that the collateral does not cover, and there is one row per snapshot.
\<close>

theorem staged_losses_bounded:
  assumes "pd_stage_ok x" "lgd_stage_ok y" "\<forall>r \<in> set ead. 0 \<le> er_eir r"
    and "compute_ead off pmt ead (pd_stage_frame x) (lgd_stage_frame y) = Inr (out, ws)"
  shows "(\<forall>e \<in> set out. 0 \<le> eo_discounted e \<and> eo_discounted e \<le> max (eo_after_repayment e - eo_collateral e) 0)
    \<and> length out = length (expand_snapshots off (merged_frame ead (lgd_stage_frame y)))"
  using stage.row_losses [OF assms] stage.one_row_per_snapshot [OF assms(4)] by blast

text \<open>
  C11. Saving the PD or LGD result of a run replaces what the run had stored: the run loads back its
  last result, rounded to the columns' precision, whatever was there before, and every other run
  loads what it loaded before. A repeated stage therefore changes nothing.
\<close>

theorem saved_results_round_trip:
  "load_pd_dataframe (save_pd_results rnd ids table run tenant df) run = map (stored_pd rnd) df
   \<and> (run' \<noteq> run \<longrightarrow>
       load_pd_dataframe (save_pd_results rnd ids table run tenant df) run' = load_pd_dataframe table run')
   \<and> lf_rows (load_lgd_dataframe (save_lgd_results rnd ids ltable run tenant ldf) run) = map (stored_lgd rnd) ldf
   \<and> (run' \<noteq> run \<longrightarrow>
       lf_rows (load_lgd_dataframe (save_lgd_results rnd ids ltable run tenant ldf) run')
       = lf_rows (load_lgd_dataframe ltable run'))"
  by (simp add: load_saved_pd load_saved_lgd)

text \<open>
  The batches of an insertion partition its records: concatenated they are the records in
  order, none is empty and none has more than 5000 records, and the reported count is their number.
\<close>

lemma batches_partition_records:
  "concat (chunks records BATCH_SIZE) = records
   \<and> list_all (\<lambda>c. c \<noteq> [] \<and> length c \<le> 5000) (chunks records BATCH_SIZE)
   \<and> executemany records table = (table @ records, length records)"
  using chunk_sizes [of BATCH_SIZE _ records]
  by (auto simp: concat_chunks executemany_eq BATCH_SIZE_def list_all_iff)

lemma ead_rows_run:
  "filter (\<lambda>row. edr_run row = run) (ead_records rnd ids run tenant df) = ead_records rnd ids run tenant df"
  by (auto simp: ead_records_def filter_id_conv)

lemma sum_discounted_records:
  "(\<Sum>row\<leftarrow>ead_records rnd ids run tenant df. edr_discounted row) = (\<Sum>e\<leftarrow>df. rnd 6 (eo_discounted e))"
proof -
  have "map edr_discounted (ead_records rnd ids run tenant df) = map (\<lambda>e. rnd 6 (eo_discounted e)) df"
    by (rule nth_equalityI) (simp_all add: ead_records_def)
  then show ?thesis by (simp only:)
qed

text \<open>
  The EAD stage does not replace: when it runs a second time for a run, the stored rows are
  there twice and the total loss of the run is doubled.
\<close>

lemma ead_replay_doubles_total:
  assumes "\<forall>row \<in> set table. edr_run row \<noteq> run"
  shows "fst (compute_run_totals (save_ead_results rnd ids' (save_ead_results rnd ids table run tenant df) run tenant df) run)
    = 2 * fst (compute_run_totals (save_ead_results rnd ids table run tenant df) run)"
proof -
  have "filter (\<lambda>row. edr_run row = run) table = []" using assms by (auto simp: filter_empty_conv)
  then show ?thesis
    by (simp add: compute_run_totals_def save_ead_results_def bulk_insert_ead_results_def executemany_eq
        ead_rows_run sum_discounted_records Let_def)
qed

section \<open>Witnesses\<close>

definition round_id :: "nat \<Rightarrow> num \<Rightarrow> num" where
  "round_id s x = x"

definition sample_pd_stage :: pd_stage_input where
  "sample_pd_stage = \<lparr> pi_off = shift_months, pi_power = mat_pow, pi_rnd = round_id, pi_ids = show_nat,
     pi_table = [], pi_run = ''R1'', pi_tenant = ''T'', pi_df = sample_pd \<rparr>"

definition sample_lgd_stage :: lgd_stage_input where
  "sample_lgd_stage = \<lparr> gi_rnd = round_id, gi_ids = show_nat, gi_table = [], gi_run = ''R1'', gi_tenant = ''T'',
     gi_df = sample_lgd, gi_types = [\<lparr> ct_id = ''1'', ct_tenant = ''T'', ct_name = ''House'', ct_haircut = 25, ct_ttr = 2, ct_created_by = ''U'', ct_deleted_at = None \<rparr>] \<rparr>"

lemma sample_stages_ok: "pd_stage_ok sample_pd_stage" "lgd_stage_ok sample_lgd_stage"
  using sample_pd_amounts sample_lgd_wf(1) matrix_power_law_mat_pow
  by (simp_all add: pd_stage_ok_def lgd_stage_ok_def sample_pd_stage_def sample_lgd_stage_def numeric_law_def round_id_def)

lemma sample_stage_snapshot:
  "expand_snapshots shift_months (merged_frame [sample_loan ''L2'' ''Stage 2''] lgd) \<noteq> []"
proof -
  let ?r = "sample_loan ''L2'' ''Stage 2''"
  obtain m where m: "m \<in> set (merged_frame [?r] lgd)" "mr_row m = ?r"
    using merged_of_row [of ?r "[?r]" lgd] by auto
  have "snapshot_dates shift_months ?r \<noteq> []" by code_simp
  then have "group_rows sn_loan (er_loan (mr_row m)) (expand_snapshots shift_months (merged_frame [?r] lgd)) \<noteq> []"
    using snapshots_of_loan [of "[?r]" m lgd shift_months] m by simp
  then show ?thesis by (auto simp: group_rows_def)
qed

lemma compute_ead_covered:
  assumes "\<forall>s \<in> set (expand_snapshots off (merged_frame ead lgd)). snap_key s \<in> pd_lookup_key ` set pd_df"
  obtains out ws where "compute_ead off pmt ead pd_df lgd = Inr (out, ws)"
proof -
  let ?S = "expand_snapshots off (merged_frame ead lgd)"
  have "seg \<notin> set (missing_segs (merge_pd (walk_all pmt ?S) pd_df))" for seg
    using assms unfolding missing_segs_walk by blast
  then have "missing_segs (merge_pd (walk_all pmt ?S) pd_df) = []" by (metis list.set_intros(1) neq_Nil_conv)
  with that show thesis by (cases "?S = []") (simp_all add: compute_ead_def Let_def)
qed

lemma pd_stage_keys:
  "pd_lookup_key ` set (pd_stage_frame x) =
   (\<lambda>(s, t, m). (s, int m, Some t)) ` (set (pd_segments (pd_working (pi_off x) (pi_df x))) \<times> set STAGES \<times> {1..<300})"
proof -
  let ?out = "fst (compute_pd (pi_off x) (pi_power x) (pi_df x))"
  have "pd_lookup_key ` set (pd_stage_frame x) = pd_lookup_key ` set ?out"
    by (simp add: pd_stage_frame_def load_saved_pd image_image pd_lookup_key_stored)
  also have "\<dots> = (\<lambda>(s, t, m). (s, int m, Some t)) ` set (map (\<lambda>r. (po_segment r, po_transition r, po_month r)) ?out)"
    by (simp add: image_image pd_lookup_key_def)
  also have "set (map (\<lambda>r. (po_segment r, po_transition r, po_month r)) ?out)
      = set (pd_segments (pd_working (pi_off x) (pi_df x))) \<times> set STAGES \<times> {1..<300}"
    unfolding pd_keys_table by simp
  finally show ?thesis .
qed

lemma sample_stage_keys:
  assumes "s \<in> set (expand_snapshots shift_months (merged_frame [sample_loan ''L2'' ''Stage 2''] lgd))"
  shows "snap_key s \<in> pd_lookup_key ` set (pd_stage_frame sample_pd_stage)"
proof -
  let ?r = "sample_loan ''L2'' ''Stage 2''"
  have r: "sn_ead s = ?r" using mr_row_merged [OF expand_snapshotsD(1) [OF assms]] by simp
  have "list_all (\<lambda>d. 1 \<le> months_between (er_first_payment ?r) d \<and> months_between (er_first_payment ?r) d < 300)
      (snapshot_dates shift_months ?r)" by code_simp
  with expand_snapshotsD(2) [OF assms] r have m: "1 \<le> months_between (er_first_payment ?r) (sn_date s)"
      "months_between (er_first_payment ?r) (sn_date s) < 300" by (auto simp: list_all_iff)
  have seg: "pd_segments (pd_working (pi_off sample_pd_stage) (pi_df sample_pd_stage)) = [''Retail'']"
    by (simp add: sample_pd_stage_def sample_pd_segments)
  show ?thesis unfolding pd_stage_keys seg
    by (rule image_eqI [of _ _ "(''Retail'', ''Stage 2'', nat (months_between (er_first_payment ?r) (sn_date s)))"])
      (use m in \<open>simp_all add: snap_key_def r\<close>, simp_all add: sample_loan_def STAGES_def, linarith)
qed

theorem staged_losses_bounded_witness:
  "\<exists>out ws. compute_ead shift_months pmt_ref [sample_loan ''L2'' ''Stage 2''] (pd_stage_frame sample_pd_stage)
        (lgd_stage_frame sample_lgd_stage) = Inr (out, ws)
     \<and> 0 < length out \<and> 0 \<le> eo_discounted (hd out)"
proof -
  let ?ead = "[sample_loan ''L2'' ''Stage 2'']" and ?pd = "pd_stage_frame sample_pd_stage"
  let ?lgd = "lgd_stage_frame sample_lgd_stage"
  obtain out ws where r: "compute_ead shift_months pmt_ref ?ead ?pd ?lgd = Inr (out, ws)"
    by (rule compute_ead_covered) (use sample_stage_keys in blast)
  have "\<forall>r \<in> set ?ead. 0 \<le> er_eir r" by (simp add: sample_loan_def)
  from staged_losses_bounded [OF sample_stages_ok this r] sample_stage_snapshot [of ?lgd]
  have "out \<noteq> []" "\<forall>e \<in> set out. 0 \<le> eo_discounted e" by auto
  then have "0 < length out" "0 \<le> eo_discounted (hd out)" by simp_all
  with r show ?thesis by blast
qed

theorem saved_results_round_trip_witness:
  "load_pd_dataframe (save_pd_results round_id show_nat [] ''R1'' ''T'' sample_pd_table) ''R1'' = map (stored_pd round_id) sample_pd_table
   \<and> load_pd_dataframe (save_pd_results round_id show_nat [] ''R1'' ''T'' sample_pd_table) ''R2'' = []"
proof -
  have "''R2'' \<noteq> ''R1''" by simp
  with saved_results_round_trip [where run = "''R1''" and run' = "''R2''" and rnd = round_id and ids = show_nat
      and table = "[]" and tenant = "''T''" and df = sample_pd_table and ltable = "[]" and ldf = "[]"]
  have "load_pd_dataframe (save_pd_results round_id show_nat [] ''R1'' ''T'' sample_pd_table) ''R1'' = map (stored_pd round_id) sample_pd_table"
    "load_pd_dataframe (save_pd_results round_id show_nat [] ''R1'' ''T'' sample_pd_table) ''R2'' = load_pd_dataframe [] ''R2''"
    by blast+
  then show ?thesis by (simp add: load_pd_dataframe_def)
qed

definition sample_ead_out :: ead_out where
  "sample_ead_out = loss_row (\<lparr> wk_snap = snap (Date 2024 1 31) \<lparr> mr_row = sample_loan ''L2'' ''Stage 2'', mr_freq = ''MTH'', mr_eir = 0, mr_sum = 0 \<rparr>,
     wk_period = 3, wk_instalment = 10, wk_after_repayment = 100, wk_after_missed = 100, wk_discount = 0 \<rparr>, Some (hd sample_pd_table))"

lemma ead_replay_doubles_total_witness:
  "fst (compute_run_totals (save_ead_results round_id show_nat (save_ead_results round_id show_nat [] ''R1'' ''T'' [sample_ead_out]) ''R1'' ''T'' [sample_ead_out]) ''R1'')
   = 2 * fst (compute_run_totals (save_ead_results round_id show_nat [] ''R1'' ''T'' [sample_ead_out]) ''R1'')"
  by (rule ead_replay_doubles_total) simp

end
