(* ===== verification/Database.thy ===== *)
theory Database
  imports ResultStore
begin

text \<open>
  The tables of the service, the operations on them, and the transaction around a request.

  A table is the list of its rows in insertion order; \<open>db\<close> is the record of the tables the model
  uses. A timestamp is the number of seconds since the epoch. Columns that no modelled operation
  reads (the creation and update times of most tables, hashes of client addresses in audit entries, the free-form
  details of audit entries and the device labels of sessions) are left out.

  An operation maps a state to a result and a state (\<open>('s, 'a) op\<close>), built with \<open>bind_op\<close> from reads,
  guards and updates. \<open>with_db\<close> is the dependency \<^verbatim>\<open>get_db\<close> of \<^verbatim>\<open>app/database.py\<close>, which commits
  when the request returns and rolls back when it raises. \<open>keeps I m\<close> says that the operation \<open>m\<close>
  preserves \<open>I\<close>; its rules compose along \<open>bind_op\<close> and lift to sequences of requests.
\<close>

named_theorems op_simps \<open>evaluation of operations\<close>
named_theorems keeps_rules \<open>composition of invariants along operations\<close>

section \<open>Enumerations\<close>

type_synonym timestamp = int

datatype user_role = ADMINISTRATOR | ANALYST | REVIEWER

datatype member_status = MEMBER_ACTIVE | MEMBER_DISABLED

text \<open>The strings of the enumerations whose columns also take strings from a request.\<close>

fun role_value :: "user_role \<Rightarrow> py_str" where
  "role_value ADMINISTRATOR = ''administrator''"
| "role_value ANALYST = ''analyst''"
| "role_value REVIEWER = ''reviewer''"

fun member_status_value :: "member_status \<Rightarrow> py_str" where
  "member_status_value MEMBER_ACTIVE = ''active''"
| "member_status_value MEMBER_DISABLED = ''disabled''"

definition role_values :: "py_str list" where
  "role_values = map role_value [ADMINISTRATOR, ANALYST, REVIEWER]"

datatype tenant_status = TENANT_TRIAL | TENANT_ACTIVE | TENANT_SUSPENDED | TENANT_CLOSING

fun tenant_status_value :: "tenant_status \<Rightarrow> py_str" where
  "tenant_status_value TENANT_TRIAL = ''trial''"
| "tenant_status_value TENANT_ACTIVE = ''active''"
| "tenant_status_value TENANT_SUSPENDED = ''suspended''"
| "tenant_status_value TENANT_CLOSING = ''closing''"

datatype invitation_status = INVITE_PENDING | INVITE_ACCEPTED | INVITE_EXPIRED | INVITE_CANCELLED

datatype run_status = DRAFT | QUEUED | PD_RUNNING | LGD_RUNNING | EAD_RUNNING | COMPLETE | FAILED | DELETED

datatype upload_kind = UPLOAD_PD | UPLOAD_LGD | UPLOAD_EAD

datatype validation_status = VALIDATION_OK | VALIDATION_WARN | VALIDATION_ERROR

datatype stage_status = STAGE_PENDING | STAGE_RUNNING | STAGE_COMPLETE | STAGE_ERROR

text \<open>The keys \<^verbatim>\<open>STAGE_KEYS\<close> of the progress document of a run.\<close>

datatype stage_key = StPD | StLGD | StEAD | StECL

section \<open>Rows\<close>

record backup_code =
  bc_hash :: py_str
  bc_used :: bool

record user =
  u_id :: py_str
  u_email :: py_str
  u_name :: py_str
  u_hashed_password :: py_str
  u_is_active :: bool
  u_is_email_verified :: bool
  u_is_platform_admin :: bool
  u_failed_login_count :: nat
  u_locked_until :: "timestamp option"
  u_last_login_at :: "timestamp option"
  u_totp_secret :: "py_str option"
  u_totp_enabled :: bool
  u_backup_codes :: "backup_code list option"
  u_title :: "py_str option"
  u_avatar :: "py_str option"
  u_deleted_at :: "timestamp option"

record tenant =
  t_id :: py_str
  t_name :: py_str
  t_slug :: py_str
  t_plan :: py_str
  t_status :: py_str
  t_currency :: py_str
  t_cadence :: py_str
  t_timezone :: py_str
  t_onboarded_at :: "timestamp option"
  t_progress :: "py_str option"
  t_region :: "py_str option"
  t_mrr_cents :: int
  t_engine_version_pin :: "py_str option"
  t_created_at :: timestamp
  t_close_requested_at :: "timestamp option"
  t_close_requested_by :: "py_str option"
  t_deleted_at :: "timestamp option"

record membership =
  m_id :: py_str
  m_user :: py_str
  m_tenant :: py_str
  m_role :: py_str
  m_status :: py_str
  m_joined_at :: timestamp

record refresh_token =
  rt_id :: py_str
  rt_user :: py_str
  rt_family :: py_str
  rt_hash :: py_str
  rt_revoked :: bool
  rt_expires_at :: timestamp
  rt_last_used_at :: "timestamp option"

record session =
  ss_id :: py_str
  ss_user :: py_str
  ss_refresh_token :: py_str
  ss_ip_hash :: py_str
  ss_last_active_at :: timestamp

record blacklist_entry =
  bl_jti :: py_str
  bl_user :: py_str
  bl_expires_at :: timestamp
  bl_reason :: py_str

text \<open>A one-time token sent by mail: the rows of \<^verbatim>\<open>password_reset_tokens\<close> (used at) and of
  \<^verbatim>\<open>email_verification_tokens\<close> (verified at).\<close>

record mail_token =
  mt_id :: py_str
  mt_user :: py_str
  mt_hash :: py_str
  mt_expires_at :: timestamp
  mt_used_at :: "timestamp option"

record audit_log =
  al_tenant :: "py_str option"
  al_user :: "py_str option"
  al_event :: py_str
  al_success :: bool
  al_error_code :: "py_str option"

record email_outbox =
  eb_id :: py_str
  eb_task :: py_str
  eb_payload :: "(py_str \<times> py_str) list"
  eb_status :: py_str
  eb_attempts :: nat
  eb_dispatched_at :: "timestamp option"
  eb_last_error :: "py_str option"

record invitation =
  iv_id :: py_str
  iv_email :: py_str
  iv_tenant :: py_str
  iv_invited_by :: py_str
  iv_role :: py_str
  iv_hash :: py_str
  iv_status :: invitation_status
  iv_expires_at :: timestamp
  iv_accepted_at :: "timestamp option"

record segment =
  sm_id :: py_str
  sm_tenant :: py_str
  sm_name :: py_str
  sm_code :: "py_str option"
  sm_is_active :: bool
  sm_created_by :: py_str
  sm_deleted_at :: "timestamp option"

record stage_progress =
  sp_status :: stage_status
  sp_started_at :: "timestamp option"
  sp_finished_at :: "timestamp option"
  sp_elapsed_ms :: "int option"

record run =
  r_id :: py_str
  r_tenant :: py_str
  r_created_by :: py_str
  r_name :: py_str
  r_period :: "py_str option"
  r_status :: run_status
  r_engine_version :: py_str
  r_progress :: "(stage_key \<rightharpoonup> stage_progress) option"
  r_combine_pd :: bool
  r_failure_stage :: "py_str option"
  r_failure_message :: "py_str option"
  r_failure_ref :: "py_str option"
  r_total_ecl :: "num option"
  r_total_outstanding :: "num option"
  r_coverage :: "num option"
  r_warnings :: "py_str list option"
  r_started_at :: "timestamp option"
  r_finished_at :: "timestamp option"
  r_created_at :: timestamp
  r_updated_at :: timestamp
  r_deleted_at :: "timestamp option"
  r_deleted_by :: "py_str option"

record upload =
  up_id :: py_str
  up_run :: py_str
  up_tenant :: py_str
  up_kind :: upload_kind
  up_filename :: py_str
  up_sha256 :: py_str
  up_path :: py_str
  up_size :: nat
  up_sheets :: "nat option"
  up_rows :: "nat option"
  up_status :: "validation_status option"
  up_warnings_accepted :: bool

record output_artifact =
  oa_id :: py_str
  oa_run :: py_str
  oa_tenant :: py_str
  oa_kind :: py_str
  oa_path :: py_str
  oa_sha256 :: py_str
  oa_size :: nat

record notification_prefs =
  np_id :: py_str
  np_user :: py_str
  np_run_completed :: bool
  np_run_failed :: bool
  np_weekly_summary :: bool
  np_member_joined :: bool
  np_product_updates :: bool

record user_notification =
  un_id :: py_str
  un_user :: py_str
  un_tenant :: py_str
  un_kind :: py_str
  un_title :: py_str
  un_body :: py_str
  un_is_read :: bool
  un_read_at :: "timestamp option"

record engine_version =
  en_id :: py_str
  en_version :: py_str
  en_is_current :: bool
  en_release_date :: py_str
  en_changelog :: "py_str list"

record impersonation_session =
  im_id :: py_str
  im_platform_user :: py_str
  im_target_tenant :: py_str
  im_ended_at :: "timestamp option"
  im_is_active :: bool

record db =
  users :: "user list"
  tenants :: "tenant list"
  members :: "membership list"
  refresh_tokens_tbl :: "refresh_token list"
  sessions_tbl :: "session list"
  token_blacklist :: "blacklist_entry list"
  reset_tokens :: "mail_token list"
  verify_tokens :: "mail_token list"
  audit_logs :: "audit_log list"
  outbox :: "email_outbox list"
  invitations :: "invitation list"
  segments_tbl :: "segment list"
  collateral_tbl :: "collateral_type list"
  runs_tbl :: "run list"
  uploads_tbl :: "upload list"
  pd_results_tbl :: "pd_result list"
  lgd_results_tbl :: "lgd_result list"
  ead_results_tbl :: "ead_result list"
  artifacts_tbl :: "output_artifact list"
  prefs_tbl :: "notification_prefs list"
  notifications_tbl :: "user_notification list"
  engine_versions_tbl :: "engine_version list"
  impersonations_tbl :: "impersonation_session list"

definition empty_db :: db where
  "empty_db = \<lparr> users = [], tenants = [], members = [], refresh_tokens_tbl = [], sessions_tbl = [], token_blacklist = [],
     reset_tokens = [], verify_tokens = [], audit_logs = [], outbox = [], invitations = [], segments_tbl = [],
     collateral_tbl = [], runs_tbl = [], uploads_tbl = [], pd_results_tbl = [], lgd_results_tbl = [],
     ead_results_tbl = [], artifacts_tbl = [], prefs_tbl = [], notifications_tbl = [],
     engine_versions_tbl = [], impersonations_tbl = [] \<rparr>"

section \<open>Operations\<close>

type_synonym ('s, 'a) op = "'s \<Rightarrow> 'a result \<times> 's"

definition return_op :: "'a \<Rightarrow> ('s, 'a) op" where
  "return_op x s = (Inr x, s)"

definition raise_op :: "exn \<Rightarrow> ('s, 'a) op" where
  "raise_op e s = (Inl e, s)"

definition bind_op :: "('s, 'a) op \<Rightarrow> ('a \<Rightarrow> ('s, 'b) op) \<Rightarrow> ('s, 'b) op" where
  "bind_op m f s = (case m s of (Inl e, s') \<Rightarrow> (Inl e, s') | (Inr x, s') \<Rightarrow> f x s')"

definition read_op :: "('s \<Rightarrow> 'a result) \<Rightarrow> ('s, 'a) op" where
  "read_op q s = (q s, s)"

definition modify_op :: "('s \<Rightarrow> 's) \<Rightarrow> ('s, unit) op" where
  "modify_op f s = (Inr (), f s)"

text \<open>\<open>if not condition: raise e\<close>.\<close>

definition guard_op :: "bool \<Rightarrow> exn \<Rightarrow> ('s, unit) op" where
  "guard_op b e = (if b then return_op () else raise_op e)"

definition when_op :: "bool \<Rightarrow> ('s, unit) op \<Rightarrow> ('s, unit) op" where
  "when_op b m = (if b then m else return_op ())"

definition with_db :: "('s, 'a) op \<Rightarrow> ('s, 'a) op" where
  "with_db request d = (case request d of (Inr x, d') \<Rightarrow> (Inr x, d') | (Inl e, _) \<Rightarrow> (Inl e, d))"

text \<open>
  An operation on the database and a state outside of it (Redis, the object storage): a rollback
  undoes its effect on the database only.
\<close>

definition with_db_sys :: "('x \<times> db, 'a) op \<Rightarrow> ('x \<times> db, 'a) op" where
  "with_db_sys request s =
     (case request s of (Inr x, s') \<Rightarrow> (Inr x, s') | (Inl e, s') \<Rightarrow> (Inl e, (fst s', snd s)))"

definition lift_db :: "(db, 'a) op \<Rightarrow> ('x \<times> db, 'a) op" where
  "lift_db m s = (case m (snd s) of (r, d) \<Rightarrow> (r, (fst s, d)))"

definition scalar_one_or_none :: "'a list \<Rightarrow> 'a option result" where
  "scalar_one_or_none rows =
     (case rows of [] \<Rightarrow> Inr None | [x] \<Rightarrow> Inr (Some x) | _ \<Rightarrow> Inl MultipleResultsFound)"

definition scalar_one :: "'a list \<Rightarrow> 'a result" where
  "scalar_one rows =
     (case rows of [] \<Rightarrow> Inl NoResultFound | [x] \<Rightarrow> Inr x | _ \<Rightarrow> Inl MultipleResultsFound)"

text \<open>The row a query returns, or the given exception when it returns none.\<close>

definition one_or_raise :: "exn \<Rightarrow> 'a list \<Rightarrow> 'a result" where
  "one_or_raise e rows =
     (case scalar_one_or_none rows of Inl e' \<Rightarrow> Inl e' | Inr None \<Rightarrow> Inl e | Inr (Some x) \<Rightarrow> Inr x)"

definition not_found :: exn where
  "not_found = ECLException ''RESOURCE_NOT_FOUND'' 404"

text \<open>An update of the rows that satisfy a condition.\<close>

definition update_rows :: "('r \<Rightarrow> bool) \<Rightarrow> ('r \<Rightarrow> 'r) \<Rightarrow> 'r list \<Rightarrow> 'r list" where
  "update_rows P f rows = map (\<lambda>r. if P r then f r else r) rows"

definition log_event :: "py_str \<Rightarrow> py_str option \<Rightarrow> py_str option \<Rightarrow> bool \<Rightarrow> py_str option \<Rightarrow> db \<Rightarrow> db" where
  "log_event event user_id tenant_id success error_code d =
     d \<lparr> audit_logs := audit_logs d @ [\<lparr> al_tenant = tenant_id, al_user = user_id, al_event = event,
         al_success = success, al_error_code = error_code \<rparr>] \<rparr>"

definition queue_email_in_outbox :: "py_str \<Rightarrow> py_str \<Rightarrow> (py_str \<times> py_str) list \<Rightarrow> db \<Rightarrow> db" where
  "queue_email_in_outbox new_id task_name payload d =
     d \<lparr> outbox := outbox d @ [\<lparr> eb_id = new_id, eb_task = task_name, eb_payload = payload, eb_status = ''pending'',
         eb_attempts = 0, eb_dispatched_at = None, eb_last_error = None \<rparr>] \<rparr>"

section \<open>Evaluation\<close>

lemma bind_op_return [simp, op_simps]: "bind_op (return_op x) f = f x"
  by (rule ext) (simp add: bind_op_def return_op_def)

lemma bind_op_raise [simp, op_simps]: "bind_op (raise_op e) f = raise_op e"
  by (rule ext) (simp add: bind_op_def raise_op_def)

lemma bind_op_assoc: "bind_op (bind_op m f) g = bind_op m (\<lambda>x. bind_op (f x) g)"
  by (rule ext) (simp add: bind_op_def split: prod.splits sum.splits)

lemma bind_op_modify [op_simps]: "bind_op (modify_op f) g s = g () (f s)"
  by (simp add: bind_op_def modify_op_def)

lemma bind_op_read [op_simps]: "bind_op (read_op q) f s = (case q s of Inl e \<Rightarrow> (Inl e, s) | Inr x \<Rightarrow> f x s)"
  by (simp add: bind_op_def read_op_def split: sum.splits)

lemma bind_op_guard [op_simps]: "bind_op (guard_op b e) f = (if b then f () else raise_op e)"
  by (simp add: guard_op_def)

lemma bind_op_when [op_simps]: "bind_op (when_op b m) f = (if b then bind_op m f else f ())"
  by (simp add: when_op_def)

lemmas op_defs = return_op_def raise_op_def read_op_def modify_op_def

lemma bind_op_Inr:
  "bind_op m f s = (Inr y, s') \<longleftrightarrow> (\<exists>x t. m s = (Inr x, t) \<and> f x t = (Inr y, s'))"
  by (auto simp: bind_op_def split: prod.splits sum.splits)

lemma scalar_one_or_none_simps [simp]:
  "scalar_one_or_none [] = Inr None" "scalar_one_or_none [x] = Inr (Some x)"
  "scalar_one_or_none (x # y # zs) = Inl MultipleResultsFound"
  by (simp_all add: scalar_one_or_none_def)

lemma scalar_one_or_none_cases:
  "scalar_one_or_none rows = Inr None \<longleftrightarrow> rows = []"
  "scalar_one_or_none rows = Inr (Some x) \<longleftrightarrow> rows = [x]"
  "scalar_one_or_none rows = Inl e \<longleftrightarrow> 1 < length rows \<and> e = MultipleResultsFound"
  by (auto simp: scalar_one_or_none_def split: list.splits)

lemma scalar_one_cases: "scalar_one rows = Inr x \<longleftrightarrow> rows = [x]"
  by (auto simp: scalar_one_def split: list.splits)

lemma one_or_raise_simps [simp]:
  "one_or_raise e [] = Inl e" "one_or_raise e [x] = Inr x" "one_or_raise e (x # y # zs) = Inl MultipleResultsFound"
  by (simp_all add: one_or_raise_def)

lemma one_or_raise_Inr [simp]: "one_or_raise e rows = Inr x \<longleftrightarrow> rows = [x]"
  by (auto simp: one_or_raise_def scalar_one_or_none_def split: list.splits)

lemma with_db_Inl: "fst (request d) = Inl e \<Longrightarrow> with_db request d = (Inl e, d)"
  by (cases "request d") (simp add: with_db_def)

lemma with_db_Inr: "fst (request d) = Inr x \<Longrightarrow> with_db request d = request d"
  by (cases "request d") (simp add: with_db_def)

lemma lift_db_Inr: "lift_db m s = (Inr x, s') \<longleftrightarrow> (\<exists>d. m (snd s) = (Inr x, d) \<and> s' = (fst s, d))"
  by (auto simp: lift_db_def split: prod.splits)

lemma lift_db_simps [simp]: "fst (lift_db m s) = fst (m (snd s))" "snd (snd (lift_db m s)) = snd (m (snd s))" "fst (snd (lift_db m s)) = fst s"
  by (simp_all add: lift_db_def split: prod.splits)

lemma with_db_cases:
  assumes "\<And>x d'. m d = (Inr x, d') \<Longrightarrow> I d'" "I d" shows "I (snd (with_db m d))"
  using assms by (auto simp: with_db_def split: prod.splits sum.splits)

lemma with_db_sys_cases:
  assumes "\<And>x rd' d'. m (rd, d) = (Inr x, (rd', d')) \<Longrightarrow> I d'" "I d" shows "I (snd (snd (with_db_sys m (rd, d))))"
proof -
  obtain r rd' d' where "m (rd, d) = (r, (rd', d'))" by (metis prod.exhaust)
  then show ?thesis using assms by (cases r) (auto simp: with_db_sys_def)
qed

section \<open>Updates of rows\<close>

lemma update_rows_simps [simp]:
  "update_rows P f [] = []" "update_rows P f (x # xs) = (if P x then f x else x) # update_rows P f xs"
  "update_rows P f (xs @ ys) = update_rows P f xs @ update_rows P f ys"
  by (simp_all add: update_rows_def)

lemma set_update_rows: "set (update_rows P f rows) = (\<lambda>r. if P r then f r else r) ` set rows"
  by (simp add: update_rows_def)

lemma length_update_rows [simp]: "length (update_rows P f rows) = length rows"
  by (simp add: update_rows_def)

lemma map_update_rows:
  assumes "\<And>r. g (f r) = g r" shows "map g (update_rows P f rows) = map g rows"
  using assms by (simp add: update_rows_def)

lemma filter_update_rows_other:
  assumes "\<And>r. P r \<Longrightarrow> \<not> Q r \<and> \<not> Q (f r)"
  shows "filter Q (update_rows P f rows) = filter Q rows"
  using assms by (induction rows) auto

lemma filter_update_rows_same:
  assumes "\<And>r. P r \<Longrightarrow> Q (f r) = Q r"
  shows "filter Q (update_rows P f rows) = update_rows P f (filter Q rows)"
  using assms by (induction rows) auto

section \<open>Invariants of operations\<close>

definition keeps :: "('s \<Rightarrow> bool) \<Rightarrow> ('s, 'a) op \<Rightarrow> bool" where
  "keeps I m \<longleftrightarrow> (\<forall>s. I s \<longrightarrow> I (snd (m s)))"

lemma keepsD: "keeps I m \<Longrightarrow> I s \<Longrightarrow> I (snd (m s))"
  by (simp add: keeps_def)

lemma keeps_Inr: "keeps I m \<Longrightarrow> m s = (Inr x, s') \<Longrightarrow> I s \<Longrightarrow> I s'"
  by (auto dest: keepsD)

lemma keeps_return [keeps_rules]: "keeps I (return_op x)"
  by (simp add: keeps_def return_op_def)

lemma keeps_raise [keeps_rules]: "keeps I (raise_op e)"
  by (simp add: keeps_def raise_op_def)

lemma keeps_read [keeps_rules]: "keeps I (read_op q)"
  by (simp add: keeps_def read_op_def)

lemma keeps_guard [keeps_rules]: "keeps I (guard_op b e)"
  by (simp add: guard_op_def keeps_return keeps_raise)

lemma keeps_bind [keeps_rules]:
  assumes "keeps I m" and "\<And>x. keeps I (f x)"
  shows "keeps I (bind_op m f)"
  unfolding keeps_def
proof (intro allI impI)
  fix s assume "I s"
  then have "I (snd (m s))" using assms(1) by (rule keepsD [rotated])
  moreover have "I t \<Longrightarrow> I (snd (f x t))" for x t using assms(2) by (rule keepsD)
  ultimately show "I (snd (bind_op m f s))"
    by (cases "m s") (auto simp: bind_op_def split: sum.splits)
qed

lemma keeps_if [keeps_rules]:
  assumes "b \<Longrightarrow> keeps I m" and "\<not> b \<Longrightarrow> keeps I m'"
  shows "keeps I (if b then m else m')"
  using assms by simp

lemma keeps_when [keeps_rules]: "(b \<Longrightarrow> keeps I m) \<Longrightarrow> keeps I (when_op b m)"
  by (simp add: when_op_def keeps_return)

lemma keeps_case_option [keeps_rules]:
  assumes "keeps I m" and "\<And>x. keeps I (f x)"
  shows "keeps I (case z of None \<Rightarrow> m | Some x \<Rightarrow> f x)"
  using assms by (cases z) auto

lemma keeps_modify:
  assumes "\<And>s. I s \<Longrightarrow> I (f s)" shows "keeps I (modify_op f)"
  using assms by (simp add: keeps_def modify_op_def)

text \<open>A read followed by a continuation that may use what the read returned.\<close>

lemma keeps_read_bind:
  assumes "\<And>s x. I s \<Longrightarrow> q s = Inr x \<Longrightarrow> I (snd (f x s))"
  shows "keeps I (bind_op (read_op q) f)"
  using assms by (auto simp: keeps_def op_simps split: sum.splits)

lemma keeps_with_db [keeps_rules]: "keeps I m \<Longrightarrow> keeps I (with_db m)"
  by (auto simp: keeps_def with_db_def split: prod.splits sum.splits)

lemma keeps_lift [keeps_rules]: "keeps I m \<Longrightarrow> keeps (\<lambda>s. I (snd s)) (lift_db m)"
  by (simp add: keeps_def)

lemma keeps_with_db_sys [keeps_rules]: "keeps (\<lambda>s. I (snd s)) m \<Longrightarrow> keeps (\<lambda>s. I (snd s)) (with_db_sys m)"
  by (auto simp: keeps_def with_db_sys_def split: prod.splits sum.splits) (metis snd_conv)

text \<open>Requests one after the other, each in its own transaction.\<close>

definition run_requests :: "('s, 'a) op list \<Rightarrow> 's \<Rightarrow> 's" where
  "run_requests ms s = fold (\<lambda>m s. snd (with_db m s)) ms s"

lemma run_requests_simps [simp]:
  "run_requests [] s = s" "run_requests (m # ms) s = run_requests ms (snd (with_db m s))"
  by (simp_all add: run_requests_def)

lemma run_requests_keeps:
  assumes "\<And>m. m \<in> set ms \<Longrightarrow> keeps I m" and "I s"
  shows "I (run_requests ms s)"
  using assms
proof (induction ms arbitrary: s)
  case (Cons m ms)
  have "keeps I (with_db m)" using Cons.prems(1) by (simp add: keeps_with_db)
  then have "I (snd (with_db m s))" using Cons.prems(2) by (rule keepsD)
  then show ?case using Cons.IH Cons.prems(1) by simp
qed simp

end
