(* ===== verification/Access.thy ===== *)
theory Access
  imports Database
begin

text \<open>
  Authentication of a request and the role gates, \<^verbatim>\<open>app/dependencies.py\<close>, with the token blacklist
  of \<^verbatim>\<open>app/core/cache.py\<close>, the error classes of \<^verbatim>\<open>app/core/exceptions.py\<close>, the password policy of
  \<^verbatim>\<open>app/core/hibp.py\<close> and pagination of \<^verbatim>\<open>app/core/pagination.py\<close>.

  JWT decoding is the parameter \<open>decode\<close>, from the token text to its claims or to the exception
  \<^verbatim>\<open>decode_access_token\<close> raises. Redis is the record \<open>redis\<close>: whether it answers, and the keys it holds.
\<close>

section \<open>Errors\<close>

definition InvalidCredentialsError :: exn where
  "InvalidCredentialsError = ECLException ''INVALID_CREDENTIALS'' 401"

definition AccountDisabledError :: exn where
  "AccountDisabledError = ECLException ''ACCOUNT_DISABLED'' 403"

definition AccountLockedError :: exn where
  "AccountLockedError = ECLException ''ACCOUNT_LOCKED'' 423"

definition EmailTakenError :: exn where
  "EmailTakenError = ECLException ''EMAIL_TAKEN'' 409"

definition InvalidConfirmationError :: exn where
  "InvalidConfirmationError = ECLException ''INVALID_CONFIRMATION'' 400"

definition AlreadySuspendedError :: exn where
  "AlreadySuspendedError = ECLException ''ALREADY_SUSPENDED'' 409"

definition NotSuspendedError :: exn where
  "NotSuspendedError = ECLException ''NOT_SUSPENDED'' 409"

definition LastAdminError :: exn where
  "LastAdminError = ECLException ''LAST_ADMIN'' 409"

text \<open>The HTTP status and code a raised exception becomes.\<close>

definition http_response :: "exn \<Rightarrow> int \<times> py_str" where
  "http_response e = (case e of ECLException code status \<Rightarrow> (status, code) | _ \<Rightarrow> (500, ''INTERNAL_ERROR''))"

section \<open>Redis\<close>

text \<open>A key holds a value until its expiry. A command to a server that does not answer raises.\<close>

record redis =
  rd_available :: bool
  rd_keys :: "(py_str \<times> py_str \<times> timestamp) list"

definition redis_get :: "timestamp \<Rightarrow> py_str \<Rightarrow> redis \<Rightarrow> py_str option result" where
  "redis_get now key redis =
     (if \<not> rd_available redis then Inl ConnectionError
      else Inr (case filter (\<lambda>(k, v, t). k = key \<and> now < t) (rd_keys redis) of [] \<Rightarrow> None | (k, v, t) # _ \<Rightarrow> Some v))"

definition redis_setex :: "timestamp \<Rightarrow> py_str \<Rightarrow> int \<Rightarrow> py_str \<Rightarrow> redis \<Rightarrow> redis result" where
  "redis_setex now key ttl val redis =
     (if \<not> rd_available redis then Inl ConnectionError
      else Inr (redis \<lparr> rd_keys := (key, val, now + ttl) # filter (\<lambda>(k, _). k \<noteq> key) (rd_keys redis) \<rparr>))"

definition redis_delete :: "py_str \<Rightarrow> redis \<Rightarrow> redis result" where
  "redis_delete key redis =
     (if \<not> rd_available redis then Inl ConnectionError
      else Inr (redis \<lparr> rd_keys := filter (\<lambda>(k, _). k \<noteq> key) (rd_keys redis) \<rparr>))"

section \<open>The token blacklist\<close>

text \<open>An operation on Redis and the database.\<close>

type_synonym 'a sys_op = "(redis \<times> db, 'a) op"

definition blacklist_key :: "py_str \<Rightarrow> py_str" where
  "blacklist_key jti = ''blacklist:jti:'' @ jti"

definition blacklist_token :: "timestamp \<Rightarrow> py_str \<Rightarrow> py_str \<Rightarrow> timestamp \<Rightarrow> py_str \<Rightarrow> unit sys_op" where
  "blacklist_token now jti user_id expires_at reason s =
     (let ttl = max 1 (expires_at - now)
      in case redis_setex now (blacklist_key jti) ttl reason (fst s) of
           Inl e \<Rightarrow> (Inl e, s)
         | Inr redis \<Rightarrow> (Inr (), (redis, (snd s) \<lparr> token_blacklist := token_blacklist (snd s)
             @ [\<lparr> bl_jti = jti, bl_user = user_id, bl_expires_at = expires_at, bl_reason = reason \<rparr>] \<rparr>)))"

definition is_token_blacklisted :: "redis \<Rightarrow> py_str \<Rightarrow> timestamp \<Rightarrow> db \<Rightarrow> bool result" where
  "is_token_blacklisted redis jti now d =
     (case redis_get now (blacklist_key jti) redis of
        Inr (Some _) \<Rightarrow> Inr True
      | _ \<Rightarrow>
          case scalar_one_or_none (filter (\<lambda>b. bl_jti b = jti \<and> now < bl_expires_at b) (token_blacklist d)) of
            Inl e \<Rightarrow> Inl e
          | Inr entry \<Rightarrow> Inr (entry \<noteq> None))"

section \<open>Requests\<close>

record claims =
  cl_sub :: py_str
  cl_type :: "py_str option"
  cl_jti :: "py_str option"
  cl_exp :: timestamp
  cl_tenant :: "py_str option"
  cl_role :: "py_str option"

type_synonym decoder = "py_str \<Rightarrow> claims result"

definition get_current_user :: "decoder \<Rightarrow> redis \<Rightarrow> timestamp \<Rightarrow> py_str option \<Rightarrow> db \<Rightarrow> user result" where
  "get_current_user decode redis now creds d =
     (case creds of
        None \<Rightarrow> Inl (ECLException ''TOKEN_INVALID'' 401)
      | Some token \<Rightarrow>
          if token = '''' then Inl (ECLException ''TOKEN_INVALID'' 401)
          else case decode token of
            Inl e \<Rightarrow> Inl e
          | Inr payload \<Rightarrow>
              case (case cl_jti payload of
                      Some jti \<Rightarrow> if jti \<noteq> '''' then is_token_blacklisted redis jti now d else Inr False
                    | None \<Rightarrow> Inr False) of
                Inl e \<Rightarrow> Inl e
              | Inr True \<Rightarrow> Inl (ECLException ''TOKEN_BLACKLISTED'' 401)
              | Inr False \<Rightarrow>
                  if cl_sub payload = '''' then Inl (ECLException ''TOKEN_INVALID'' 401)
                  else case scalar_one_or_none (filter (\<lambda>u. u_id u = cl_sub payload \<and> u_deleted_at u = None) (users d)) of
                    Inl e \<Rightarrow> Inl e
                  | Inr None \<Rightarrow> Inl (ECLException ''ACCOUNT_DISABLED'' 403)
                  | Inr (Some u) \<Rightarrow> if u_is_active u then Inr u else Inl (ECLException ''ACCOUNT_DISABLED'' 403))"

definition synthetic_admin_membership :: "py_str \<Rightarrow> py_str \<Rightarrow> membership" where
  "synthetic_admin_membership user_id tenant_id =
     \<lparr> m_id = ''platform-access'', m_user = user_id, m_tenant = tenant_id, m_role = role_value ADMINISTRATOR,
       m_status = member_status_value MEMBER_ACTIVE, m_joined_at = 0 \<rparr>"

definition require_tenant_member :: "py_str \<Rightarrow> user \<Rightarrow> db \<Rightarrow> membership result" where
  "require_tenant_member tenant_id u d =
     (case scalar_one_or_none (filter (\<lambda>m. m_user m = u_id u \<and> m_tenant m = tenant_id \<and> m_status m = member_status_value MEMBER_ACTIVE) (members d)) of
        Inl e \<Rightarrow> Inl e
      | Inr (Some m) \<Rightarrow> Inr m
      | Inr None \<Rightarrow>
          if u_is_platform_admin u then Inr (synthetic_admin_membership (u_id u) tenant_id)
          else Inl (ECLException ''NOT_TENANT_MEMBER'' 403))"

definition require_tenant_admin :: "py_str \<Rightarrow> user \<Rightarrow> db \<Rightarrow> membership result" where
  "require_tenant_admin tenant_id u d =
     (case require_tenant_member tenant_id u d of
        Inl e \<Rightarrow> Inl e
      | Inr m \<Rightarrow> if m_role m = role_value ADMINISTRATOR then Inr m else Inl (ECLException ''INSUFFICIENT_ROLE'' 403))"

definition require_tenant_analyst_or_admin :: "py_str \<Rightarrow> user \<Rightarrow> db \<Rightarrow> membership result" where
  "require_tenant_analyst_or_admin tenant_id u d =
     (case require_tenant_member tenant_id u d of
        Inl e \<Rightarrow> Inl e
      | Inr m \<Rightarrow> if m_role m \<in> {role_value ADMINISTRATOR, role_value ANALYST} then Inr m else Inl (ECLException ''INSUFFICIENT_ROLE'' 403))"

definition require_platform_admin :: "user \<Rightarrow> user result" where
  "require_platform_admin u =
     (if u_is_platform_admin u then Inr u else Inl (ECLException ''PLATFORM_ADMIN_REQUIRED'' 403))"

text \<open>\<open>str.split(sep)\<close> for a one-character separator, and \<open>str.split()\<close>.\<close>

fun split_on :: "char \<Rightarrow> py_str \<Rightarrow> py_str list" where
  "split_on sep [] = [[]]"
| "split_on sep (c # cs) =
     (case split_on sep cs of
        [] \<Rightarrow> [[c]]
      | w # ws \<Rightarrow> if c = sep then [] # w # ws else (c # w) # ws)"

definition py_words :: "py_str \<Rightarrow> py_str list" where
  "py_words s = filter (\<lambda>w. w \<noteq> []) (split_on CHR '' '' (map (\<lambda>c. if py_isspace c then CHR '' '' else c) s))"

definition get_client_ip :: "bool \<Rightarrow> nat \<Rightarrow> py_str option \<Rightarrow> py_str result" where
  "get_client_ip trust_proxy_headers trusted_proxy_count x_forwarded_for =
     (case x_forwarded_for of
        Some header \<Rightarrow>
          if trust_proxy_headers \<and> header \<noteq> '''' then
            let ips = map py_strip (filter (\<lambda>ip. py_strip ip \<noteq> '''') (split_on CHR '','' header));
                idx = length ips - trusted_proxy_count
            in if ips = [] then Inr ''127.0.0.1''
               else if idx < length ips then Inr (ips ! idx)
               else Inl (IndexError ''list index out of range'')
          else Inr ''127.0.0.1''
      | None \<Rightarrow> Inr ''127.0.0.1'')"

section \<open>Password policy\<close>

definition FORBIDDEN_DEFAULT :: "py_str list" where
  "FORBIDDEN_DEFAULT = [''ecl'', ''platform'']"

definition is_letter :: "char \<Rightarrow> bool" where
  "is_letter c \<longleftrightarrow> (let n = of_char c :: nat in (65 \<le> n \<and> n \<le> 90) \<or> (97 \<le> n \<and> n \<le> 122))"

definition is_digit :: "char \<Rightarrow> bool" where
  "is_digit c \<longleftrightarrow> (let n = of_char c :: nat in 48 \<le> n \<and> n \<le> 57)"

definition forbidden_parts :: "py_str option \<Rightarrow> py_str list" where
  "forbidden_parts name =
     (case name of None \<Rightarrow> [] | Some n \<Rightarrow> map py_lower (filter (\<lambda>p. 2 < length p) (py_words n)))"

definition validate_password_strength :: "py_str \<Rightarrow> py_str option \<Rightarrow> py_str option \<Rightarrow> py_str list" where
  "validate_password_strength password name org_name =
     (if length password < 8 then [''PASSWORD_TOO_SHORT''] else [])
     @ (if \<not> (list_ex is_letter password \<and> list_ex is_digit password) then [''PASSWORD_MISSING_MIX''] else [])
     @ (let forbidden = FORBIDDEN_DEFAULT @ forbidden_parts name @ forbidden_parts org_name;
            pw_lower = py_lower password
        in if list_ex (\<lambda>term. term \<noteq> '''' \<and> 2 < length term \<and> sublist term pw_lower) forbidden
           then [''PASSWORD_CONTAINS_FORBIDDEN''] else [])"

definition validate_password_full :: "(py_str \<Rightarrow> bool) \<Rightarrow> py_str \<Rightarrow> py_str option \<Rightarrow> py_str option \<Rightarrow> py_str list" where
  "validate_password_full pwned password name org_name =
     (let violations = validate_password_strength password name org_name
      in if violations = [] \<and> pwned password then [''PASSWORD_PWNED''] else violations)"

section \<open>Pagination\<close>

record page_meta =
  pm_total :: nat
  pm_page :: nat
  pm_per_page :: nat
  pm_pages :: nat
  pm_has_next :: bool
  pm_has_prev :: bool

definition paginate :: "'a list \<Rightarrow> nat \<Rightarrow> nat \<Rightarrow> 'a list \<times> page_meta" where
  "paginate rows page per_page =
     (let total = length rows; offset = (page - 1) * per_page;
          items = take per_page (drop offset rows);
          pages = max 1 ((total + per_page - 1) div per_page)
      in (items, \<lparr> pm_total = total, pm_page = page, pm_per_page = per_page, pm_pages = pages,
                   pm_has_next = page < pages, pm_has_prev = 1 < page \<rparr>))"

section \<open>Properties\<close>

lemma paginate_items: "fst (paginate rows page k) = take k (drop ((page - 1) * k) rows)"
  by (simp add: paginate_def Let_def)

lemma concat_pages:
  assumes "0 < k"
  shows "concat (map (\<lambda>p. fst (paginate rows p k)) [1..<n + 1]) = take (n * k) rows"
proof (induction n)
  case (Suc n)
  have "concat (map (\<lambda>p. fst (paginate rows p k)) [1..<Suc n + 1])
      = take (n * k) rows @ take k (drop (n * k) rows)"
    using Suc by (simp add: paginate_items)
  also have "\<dots> = take (Suc n * k) rows" by (simp add: take_add [symmetric] add.commute)
  finally show ?case .
qed simp

text \<open>
  The pages of a list partition it: for a positive page size, the items of pages one to the
  reported number of pages are, in order, exactly the rows of the query, and only the last page has
  no successor.
\<close>

lemma pages_partition_rows:
  fixes rows :: "'a list" and per_page :: nat
  assumes "0 < per_page"
  defines "pages \<equiv> pm_pages (snd (paginate rows 1 per_page))"
  shows "concat (map (\<lambda>p. fst (paginate rows p per_page)) [1..<pages + 1]) = rows
    \<and> (pm_has_next (snd (paginate rows page per_page)) \<longleftrightarrow> page < pages)
    \<and> length (fst (paginate rows page per_page)) \<le> per_page"
proof -
  have p: "pages = max 1 ((length rows + per_page - 1) div per_page)"
    by (simp add: pages_def paginate_def Let_def)
  have "length rows \<le> ((length rows + per_page - 1) div per_page) * per_page"
  proof -
    have "length rows + per_page - 1 = ((length rows + per_page - 1) div per_page) * per_page
        + (length rows + per_page - 1) mod per_page" by simp
    moreover have "(length rows + per_page - 1) mod per_page \<le> per_page - 1"
      using assms(1) mod_less_divisor [OF assms(1), of "length rows + per_page - 1"] by linarith
    ultimately show ?thesis using assms(1) by linarith
  qed
  also have "\<dots> \<le> pages * per_page" unfolding p by (intro mult_le_mono1) simp
  finally have "take (pages * per_page) rows = rows" by simp
  then show ?thesis using concat_pages [OF assms(1), of rows pages] p
    by (simp add: paginate_def Let_def)
qed

theorem pages_partition_rows_witness:
  "concat (map (\<lambda>p. fst (paginate [1 :: nat, 2, 3, 4, 5] p 2)) [1..<pm_pages (snd (paginate [1 :: nat, 2, 3, 4, 5] 1 2)) + 1])
   = [1, 2, 3, 4, 5]"
  using pages_partition_rows [of 2 "[1, 2, 3, 4, 5] :: nat list" 1] by simp

end
