(* ===== verification/Catalog.thy ===== *)
theory Catalog
  imports Access
begin

text \<open>
  The catalogues of a workspace: segments (\<^verbatim>\<open>app/modules/segments/service.py\<close>) and collateral types
  (\<^verbatim>\<open>app/modules/collateral/service.py\<close>), with the endpoints of their routers.

  Both keep named rows per workspace, deleted softly. \<open>catalog_step\<close> is what one request may do to
  such a table: nothing, insert rows whose names are free, rename one row to a free name, or retire
  one row. The locale \<open>named_catalog\<close> states that the requests of a service refine \<open>catalog_step\<close> and
  derives that live names stay unique in each workspace, over any sequence of requests; it is
  interpreted by both services.
\<close>

section \<open>The abstract catalogue\<close>

definition live_keys :: "('r \<Rightarrow> 'k) \<Rightarrow> ('r \<Rightarrow> bool) \<Rightarrow> 'r list \<Rightarrow> 'k list" where
  "live_keys key live rows = map key (filter live rows)"

definition unique_live :: "('r \<Rightarrow> 'k) \<Rightarrow> ('r \<Rightarrow> bool) \<Rightarrow> 'r list \<Rightarrow> bool" where
  "unique_live key live rows \<longleftrightarrow> distinct (live_keys key live rows)"

inductive catalog_step :: "('r \<Rightarrow> 'k) \<Rightarrow> ('r \<Rightarrow> bool) \<Rightarrow> 'r list \<Rightarrow> 'r list \<Rightarrow> bool"
  for key :: "'r \<Rightarrow> 'k" and live :: "'r \<Rightarrow> bool" where
  unchanged: "catalog_step key live rows rows"
| insert_rows: "distinct (map key new) \<Longrightarrow> set (map key new) \<inter> set (live_keys key live rows) = {}
    \<Longrightarrow> catalog_step key live rows (rows @ new)"
| rename_row: "live r \<Longrightarrow> key r' = key r \<or> key r' \<notin> set (live_keys key live (us @ vs))
    \<Longrightarrow> catalog_step key live (us @ r # vs) (us @ r' # vs)"
| retire_row: "\<not> live r' \<Longrightarrow> catalog_step key live (us @ r # vs) (us @ r' # vs)"

lemma live_keys_simps [simp]:
  "live_keys key live [] = []"
  "live_keys key live (r # rows) = (if live r then key r # live_keys key live rows else live_keys key live rows)"
  "live_keys key live (xs @ ys) = live_keys key live xs @ live_keys key live ys"
  by (simp_all add: live_keys_def)

lemma live_keys_subset: "set (live_keys key live rows) \<subseteq> set (map key rows)"
  by (auto simp: live_keys_def)

lemma distinct_live_keys: "distinct (map key rows) \<Longrightarrow> distinct (live_keys key live rows)"
  by (simp add: live_keys_def distinct_map_filter)

lemma catalog_step_unique:
  "catalog_step key live rows rows' \<Longrightarrow> unique_live key live rows \<Longrightarrow> unique_live key live rows'"
proof (induction rule: catalog_step.induct)
  case (insert_rows new rows)
  have "set (live_keys key live new) \<subseteq> set (map key new)" by (rule live_keys_subset)
  with insert_rows show ?case by (auto simp: unique_live_def distinct_live_keys)
next
  case (rename_row r r' us vs)
  then show ?case by (cases "live r'") (auto simp: unique_live_def)
qed (auto simp: unique_live_def split: if_splits)

text \<open>An update of the single row a query returns.\<close>

lemma update_single_row:
  assumes "filter P rows = [r]"
  obtains us vs where "rows = us @ r # vs" "\<forall>x \<in> set us \<union> set vs. \<not> P x"
    "\<And>f. update_rows P f rows = us @ f r # vs"
proof -
  obtain us vs where uv: "rows = us @ r # vs" "\<forall>u \<in> set us. \<not> P u" "P r" "filter P vs = []"
    using assms by (auto simp: filter_eq_Cons_iff)
  have none: "update_rows P f xs = xs" if "\<forall>x \<in> set xs. \<not> P x" for f xs
    using that by (induction xs) auto
  have vs: "\<forall>v \<in> set vs. \<not> P v" using uv(4) by (simp add: filter_empty_conv)
  show thesis
    by (rule that [of us vs]) (use uv vs none in auto)
qed

lemma filter_singletonD: "filter P xs = [x] \<Longrightarrow> P x"
  by (auto simp: filter_eq_Cons_iff)

lemma update_rows_twice:
  assumes "\<And>x. P x \<Longrightarrow> P (f x)"
  shows "update_rows P g (update_rows P f xs) = update_rows P (g \<circ> f) xs"
  using assms by (induction xs) auto

lemma update_rows_id [simp]: "update_rows P (\<lambda>x. x) xs = xs"
  by (simp add: update_rows_def)

lemma distinct_if_lower_distinct:
  assumes "length names = card (set (map py_lower names))" shows "distinct names"
proof -
  have "distinct (map py_lower names)" using assms by (metis card_distinct length_map)
  then show ?thesis by (simp add: distinct_map)
qed

lemma distinct_pairs: "distinct (map f xs) \<Longrightarrow> distinct (map (\<lambda>x. (t, f x)) xs)"
  by (auto simp: distinct_map inj_on_def)

text \<open>The three changes of a table, from what a request checked before it.\<close>

lemma appended_rows_step:
  assumes "distinct (map key new)" "\<forall>x \<in> set rows. live x \<longrightarrow> key x \<notin> set (map key new)"
  shows "catalog_step key live rows (rows @ new)"
  using assms by (intro catalog_step.insert_rows) (auto simp: live_keys_def, metis imageI)

lemma patched_row_step:
  assumes one: "filter Q rows = [r]" and "\<And>x. Q x \<Longrightarrow> live x"
    and "key (f r) = key r \<or> (\<forall>x \<in> set rows. live x \<and> \<not> Q x \<longrightarrow> key x \<noteq> key (f r))"
  shows "catalog_step key live rows (update_rows Q f rows)"
proof -
  from one obtain us vs where uv: "rows = us @ r # vs" "\<forall>x \<in> set us \<union> set vs. \<not> Q x"
    "\<And>f. update_rows Q f rows = us @ f r # vs"
    by (rule update_single_row) blast
  have "live r" using assms(2) filter_singletonD [OF one] by blast
  moreover have "key (f r) = key r \<or> key (f r) \<notin> set (live_keys key live (us @ vs))"
    using assms(3) uv(2) by (auto simp: uv(1) live_keys_def)
  ultimately have "catalog_step key live (us @ r # vs) (us @ f r # vs)" by (rule catalog_step.rename_row)
  then show ?thesis by (simp only: uv(3)) (simp only: uv(1))
qed

lemma retired_row_step:
  assumes "filter Q rows = [r]" "\<not> live (f r)"
  shows "catalog_step key live rows (update_rows Q f rows)"
proof -
  from assms(1) obtain us vs where uv: "rows = us @ r # vs" "\<And>f. update_rows Q f rows = us @ f r # vs"
    by (rule update_single_row) blast
  have "catalog_step key live (us @ r # vs) (us @ f r # vs)" using assms(2) by (rule catalog_step.retire_row)
  then show ?thesis by (simp only: uv(2)) (simp only: uv(1))
qed

lemma with_db_step:
  assumes "\<And>x d'. request d = (Inr x, d') \<Longrightarrow> catalog_step key live (rows_of d) (rows_of d')"
  shows "catalog_step key live (rows_of d) (rows_of (snd (with_db request d)))"
  using assms by (auto simp: with_db_def catalog_step.unchanged split: prod.splits sum.splits)

locale named_catalog =
  fixes rows_of :: "db \<Rightarrow> 'r list" and key :: "'r \<Rightarrow> 'k" and live :: "'r \<Rightarrow> bool"
    and request :: "'q \<Rightarrow> (db, 'a) op"
  assumes refines: "catalog_step key live (rows_of d) (rows_of (snd (with_db (request q) d)))"
begin

lemma request_keeps_unique: "unique_live key live (rows_of d) \<Longrightarrow> unique_live key live (rows_of (snd (with_db (request q) d)))"
  using refines by (rule catalog_step_unique)

lemma requests_keep_unique:
  "unique_live key live (rows_of d) \<Longrightarrow> unique_live key live (rows_of (run_requests (map request qs) d))"
  by (induction qs arbitrary: d) (simp_all add: request_keeps_unique)

lemma unique_lookup:
  assumes "unique_live key live (rows_of d)" "r \<in> set (rows_of d)" "r' \<in> set (rows_of d)" "live r" "live r'" "key r = key r'"
  shows "r = r'"
  using assms by (auto simp: unique_live_def live_keys_def distinct_map inj_on_def)

end

section \<open>Segments\<close>

record create_segment_request =
  csr_name :: py_str
  csr_code :: "py_str option"

record update_segment_request =
  usr_name :: "py_str option"
  usr_code :: "py_str option"
  usr_is_active :: "bool option"

record segment_out =
  so_id :: py_str
  so_name :: py_str
  so_code :: "py_str option"
  so_is_active :: bool
  so_runs_count :: nat

text \<open>Truth of an optional string, and \<open>x.strip() if x else None\<close>.\<close>

definition truthy :: "py_str option \<Rightarrow> bool" where
  "truthy x \<longleftrightarrow> x \<noteq> None \<and> x \<noteq> Some ''''"

definition strip_or_none :: "py_str option \<Rightarrow> py_str option" where
  "strip_or_none x = (if truthy x then map_option py_strip x else None)"

text \<open>\<open>x.strip() or None\<close>.\<close>

definition none_if_blank :: "py_str \<Rightarrow> py_str option" where
  "none_if_blank x = (if py_strip x = '''' then None else Some (py_strip x))"

definition runs_count :: "py_str \<Rightarrow> py_str \<Rightarrow> db \<Rightarrow> nat" where
  "runs_count tenant_id segment_name d =
     card (set (List.map_filter
       (\<lambda>r. if r_tenant r = tenant_id \<and> r_status r = COMPLETE
              \<and> list_ex (\<lambda>e. edr_run e = r_id r \<and> edr_segment e = segment_name) (ead_results_tbl d)
            then Some (r_id r) else None) (runs_tbl d)))"

definition segment_to_out :: "segment \<Rightarrow> nat \<Rightarrow> segment_out" where
  "segment_to_out s n = \<lparr> so_id = sm_id s, so_name = sm_name s, so_code = sm_code s, so_is_active = sm_is_active s, so_runs_count = n \<rparr>"

definition segment_live :: "segment \<Rightarrow> bool" where
  "segment_live s \<longleftrightarrow> sm_deleted_at s = None"

definition segment_key :: "segment \<Rightarrow> py_str \<times> py_str" where
  "segment_key s = (sm_tenant s, sm_name s)"

definition excluded :: "py_str option \<Rightarrow> py_str \<Rightarrow> bool" where
  "excluded exclude_id row_id \<longleftrightarrow> truthy exclude_id \<and> exclude_id = Some row_id"

definition check_segment_name_unique :: "py_str \<Rightarrow> py_str \<Rightarrow> py_str option \<Rightarrow> (db, unit) op" where
  "check_segment_name_unique tenant_id name exclude_id =
     bind_op (read_op (\<lambda>d. scalar_one_or_none
       (filter (\<lambda>s. sm_tenant s = tenant_id \<and> sm_name s = py_strip name \<and> sm_deleted_at s = None \<and> \<not> excluded exclude_id (sm_id s))
         (segments_tbl d))))
     (\<lambda>row. guard_op (row = None) (ECLException ''SEGMENT_NAME_TAKEN'' 409))"

definition list_segments :: "py_str \<Rightarrow> (db, segment_out list) op" where
  "list_segments tenant_id =
     read_op (\<lambda>d. Inr (map (\<lambda>s. segment_to_out s (runs_count tenant_id (sm_name s) d))
       (sort_key sm_name (filter (\<lambda>s. sm_tenant s = tenant_id \<and> sm_deleted_at s = None) (segments_tbl d)))))"

definition new_segment :: "py_str \<Rightarrow> py_str \<Rightarrow> py_str \<Rightarrow> create_segment_request \<Rightarrow> segment" where
  "new_segment new_id tenant_id user_id req =
     \<lparr> sm_id = new_id, sm_tenant = tenant_id, sm_name = py_strip (csr_name req), sm_code = strip_or_none (csr_code req),
       sm_is_active = True, sm_created_by = user_id, sm_deleted_at = None \<rparr>"

definition create_segment :: "py_str \<Rightarrow> py_str \<Rightarrow> py_str \<Rightarrow> create_segment_request \<Rightarrow> (db, segment_out) op" where
  "create_segment new_id tenant_id user_id req =
     bind_op (check_segment_name_unique tenant_id (csr_name req) None) (\<lambda>_.
     let s = new_segment new_id tenant_id user_id req in
     bind_op (modify_op (\<lambda>d. d \<lparr> segments_tbl := segments_tbl d @ [s] \<rparr>)) (\<lambda>_.
     return_op (segment_to_out s 0)))"

definition batch_create_segments ::
    "(nat \<Rightarrow> py_str) \<Rightarrow> py_str \<Rightarrow> py_str \<Rightarrow> create_segment_request list \<Rightarrow> (db, segment_out list) op" where
  "batch_create_segments new_ids tenant_id user_id items =
     (let names = map (\<lambda>item. py_strip (csr_name item)) items in
      bind_op (guard_op (length names = card (set (map py_lower names))) (ECLException ''DUPLICATE_NAMES'' 400)) (\<lambda>_.
      bind_op (read_op (\<lambda>d. Inr (map sm_name
        (filter (\<lambda>s. sm_tenant s = tenant_id \<and> sm_name s \<in> set names \<and> sm_deleted_at s = None) (segments_tbl d))))) (\<lambda>taken.
      bind_op (guard_op (taken = []) (ECLException ''SEGMENT_NAME_TAKEN'' 409)) (\<lambda>_.
      let created = map (\<lambda>(i, item). new_segment (new_ids i) tenant_id user_id item) (zip [0..<length items] items) in
      bind_op (modify_op (\<lambda>d. d \<lparr> segments_tbl := segments_tbl d @ created \<rparr>)) (\<lambda>_.
      return_op (map (\<lambda>s. segment_to_out s 0) created))))))"

text \<open>
  The row is patched field by field. The audit entry of a status change names a variable
  \<^verbatim>\<open>segment\<close> that the function does not define.
\<close>

definition segment_query :: "py_str \<Rightarrow> py_str \<Rightarrow> segment \<Rightarrow> bool" where
  "segment_query tenant_id segment_id s \<longleftrightarrow> sm_id s = segment_id \<and> sm_tenant s = tenant_id \<and> sm_deleted_at s = None"

definition find_segment :: "py_str \<Rightarrow> py_str \<Rightarrow> (db, segment) op" where
  "find_segment tenant_id segment_id = read_op (\<lambda>d. one_or_raise not_found (filter (segment_query tenant_id segment_id) (segments_tbl d)))"

definition write_segment :: "py_str \<Rightarrow> py_str \<Rightarrow> (segment \<Rightarrow> segment) \<Rightarrow> (db, unit) op" where
  "write_segment tenant_id segment_id f =
     modify_op (\<lambda>d. d \<lparr> segments_tbl := update_rows (segment_query tenant_id segment_id) f (segments_tbl d) \<rparr>)"

definition update_segment ::
    "py_str \<Rightarrow> py_str \<Rightarrow> update_segment_request \<Rightarrow> py_str option \<Rightarrow> (db, segment_out) op" where
  "update_segment tenant_id segment_id req user_id =
     bind_op (find_segment tenant_id segment_id) (\<lambda>s.
     bind_op (case usr_name req of None \<Rightarrow> return_op ()
        | Some name \<Rightarrow> bind_op (check_segment_name_unique tenant_id name (Some segment_id)) (\<lambda>_.
            write_segment tenant_id segment_id (\<lambda>s. s \<lparr> sm_name := py_strip name \<rparr>))) (\<lambda>_.
     bind_op (case usr_code req of None \<Rightarrow> return_op ()
        | Some code \<Rightarrow> write_segment tenant_id segment_id (\<lambda>s. s \<lparr> sm_code := none_if_blank code \<rparr>)) (\<lambda>_.
     bind_op (case usr_is_active req of None \<Rightarrow> return_op ()
        | Some a \<Rightarrow> bind_op (write_segment tenant_id segment_id (\<lambda>s. s \<lparr> sm_is_active := a \<rparr>)) (\<lambda>_.
            when_op (truthy user_id) (raise_op (NameError ''segment'')))) (\<lambda>_.
     bind_op (find_segment tenant_id segment_id) (\<lambda>s. return_op (segment_to_out s 0))))))"

definition delete_segment :: "timestamp \<Rightarrow> py_str \<Rightarrow> py_str \<Rightarrow> (db, unit) op" where
  "delete_segment now tenant_id segment_id =
     bind_op (find_segment tenant_id segment_id) (\<lambda>s.
     write_segment tenant_id segment_id (\<lambda>s. s \<lparr> sm_deleted_at := Some now \<rparr>))"

datatype segment_request =
    CreateSegment py_str py_str py_str create_segment_request
  | BatchCreateSegments "nat \<Rightarrow> py_str" py_str py_str "create_segment_request list"
  | UpdateSegment py_str py_str update_segment_request py_str
  | DeleteSegment timestamp py_str py_str

fun segment_request_op :: "segment_request \<Rightarrow> (db, unit) op" where
  "segment_request_op (CreateSegment i t u req) = bind_op (create_segment i t u req) (\<lambda>_. return_op ())"
| "segment_request_op (BatchCreateSegments ids t u items) = bind_op (batch_create_segments ids t u items) (\<lambda>_. return_op ())"
| "segment_request_op (UpdateSegment t s req u) = bind_op (update_segment t s req (Some u)) (\<lambda>_. return_op ())"
| "segment_request_op (DeleteSegment now t s) = delete_segment now t s"

section \<open>Segments refine the catalogue\<close>

lemma excluded_None [simp]: "\<not> excluded None x"
  by (simp add: excluded_def truthy_def)

lemma check_segment_name_unique_Inr:
  "check_segment_name_unique t n x d = (Inr u, d') \<longleftrightarrow>
     d' = d \<and> (\<forall>s \<in> set (segments_tbl d). segment_live s \<and> segment_key s = (t, py_strip n) \<longrightarrow> excluded x (sm_id s))"
  by (auto simp: check_segment_name_unique_def bind_op_Inr op_defs guard_op_def scalar_one_or_none_cases
      segment_live_def segment_key_def filter_empty_conv split: if_splits)

lemma create_segment_refines:
  assumes "create_segment i t u req d = (Inr out, d')"
  shows "catalog_step segment_key segment_live (segments_tbl d) (segments_tbl d')"
proof -
  from assms have d': "segments_tbl d' = segments_tbl d @ [new_segment i t u req]"
    and free: "\<forall>s \<in> set (segments_tbl d). segment_live s \<longrightarrow> segment_key s \<noteq> (t, py_strip (csr_name req))"
    by (auto simp: create_segment_def bind_op_Inr check_segment_name_unique_Inr Let_def op_defs)
  show ?thesis unfolding d'
    by (rule appended_rows_step) (use free in \<open>auto simp: segment_key_def new_segment_def\<close>)
qed

lemma keys_new_segments:
  "map segment_key (map (\<lambda>(i, item). new_segment (ids i) t u item) (zip [0..<length items] items))
   = map (\<lambda>item. (t, py_strip (csr_name item))) items"
  by (rule nth_equalityI) (auto simp: segment_key_def new_segment_def)

lemma batch_create_segments_refines:
  assumes "batch_create_segments ids t u items d = (Inr out, d')"
  shows "catalog_step segment_key segment_live (segments_tbl d) (segments_tbl d')"
proof -
  let ?new = "map (\<lambda>(i, item). new_segment (ids i) t u item) (zip [0..<length items] items)"
  let ?names = "map (\<lambda>item. py_strip (csr_name item)) items"
  from assms have d': "segments_tbl d' = segments_tbl d @ ?new"
    and lower: "length ?names = card (set (map py_lower ?names))"
    and free: "filter (\<lambda>s. sm_tenant s = t \<and> sm_name s \<in> set ?names \<and> sm_deleted_at s = None) (segments_tbl d) = []"
    by (auto simp: batch_create_segments_def bind_op_Inr guard_op_def Let_def op_defs image_image split: if_splits)
  show ?thesis unfolding d'
  proof (rule appended_rows_step)
    show "distinct (map segment_key ?new)"
      unfolding keys_new_segments by (rule distinct_pairs [OF distinct_if_lower_distinct [OF lower, unfolded list.map_comp comp_def]])
    show "\<forall>s \<in> set (segments_tbl d). segment_live s \<longrightarrow> segment_key s \<notin> set (map segment_key ?new)"
      unfolding keys_new_segments using free by (auto simp: filter_empty_conv segment_key_def segment_live_def)
  qed
qed

text \<open>The patch a successful update applies to the row.\<close>

definition segment_patch :: "update_segment_request \<Rightarrow> segment \<Rightarrow> segment" where
  "segment_patch req s =
     (let s1 = (case usr_name req of None \<Rightarrow> s | Some n \<Rightarrow> s \<lparr> sm_name := py_strip n \<rparr>);
          s2 = (case usr_code req of None \<Rightarrow> s1 | Some c \<Rightarrow> s1 \<lparr> sm_code := none_if_blank c \<rparr>)
      in case usr_is_active req of None \<Rightarrow> s2 | Some a \<Rightarrow> s2 \<lparr> sm_is_active := a \<rparr>)"

lemma write_segment_eq: "write_segment t i f d = (Inr (), d \<lparr> segments_tbl := update_rows (segment_query t i) f (segments_tbl d) \<rparr>)"
  by (simp add: write_segment_def modify_op_def)

lemma segment_query_patch [simp]:
  "segment_query t i (s \<lparr> sm_name := n \<rparr>) = segment_query t i s"
  "segment_query t i (s \<lparr> sm_code := c \<rparr>) = segment_query t i s"
  "segment_query t i (s \<lparr> sm_is_active := a \<rparr>) = segment_query t i s"
  by (simp_all add: segment_query_def)

lemma update_segment_state:
  assumes "update_segment t i req u d = (Inr out, d')"
  shows "d' = d \<lparr> segments_tbl := update_rows (segment_query t i) (segment_patch req) (segments_tbl d) \<rparr>"
    and "\<exists>s. filter (segment_query t i) (segments_tbl d) = [s]"
    and "usr_name req = Some n \<Longrightarrow>
      \<forall>s \<in> set (segments_tbl d). segment_live s \<and> segment_key s = (t, py_strip n) \<longrightarrow> excluded (Some i) (sm_id s)"
  using assms
  by (auto simp: update_segment_def find_segment_def bind_op_Inr op_defs write_segment_eq check_segment_name_unique_Inr
      update_rows_twice comp_def segment_patch_def [abs_def] when_op_def Let_def split: option.splits if_splits)

lemma segment_patch_simps [simp]:
  "sm_tenant (segment_patch req s) = sm_tenant s" "sm_id (segment_patch req s) = sm_id s"
  "sm_deleted_at (segment_patch req s) = sm_deleted_at s"
  "sm_name (segment_patch req s) = (case usr_name req of None \<Rightarrow> sm_name s | Some n \<Rightarrow> py_strip n)"
  by (simp_all add: segment_patch_def Let_def split: option.splits)

lemma segment_query_live: "segment_query t i s \<Longrightarrow> segment_live s"
  by (simp add: segment_query_def segment_live_def)

lemma update_segment_refines:
  assumes "update_segment t i req u d = (Inr out, d')"
  shows "catalog_step segment_key segment_live (segments_tbl d) (segments_tbl d')"
proof -
  obtain s where s: "filter (segment_query t i) (segments_tbl d) = [s]"
    using update_segment_state(2) [OF assms] by blast
  have qs: "segment_query t i s" using s by (rule filter_singletonD)
  have "segment_key (segment_patch req s) = segment_key s
      \<or> (\<forall>x \<in> set (segments_tbl d). segment_live x \<and> \<not> segment_query t i x \<longrightarrow> segment_key x \<noteq> segment_key (segment_patch req s))"
  proof (cases "usr_name req")
    case (Some n)
    have "\<forall>s \<in> set (segments_tbl d). segment_live s \<and> segment_key s = (t, py_strip n) \<longrightarrow> excluded (Some i) (sm_id s)"
      using Some by (rule update_segment_state(3) [OF assms])
    then show ?thesis using qs Some
      by (auto simp: segment_query_def segment_key_def segment_live_def excluded_def)
  qed (simp add: segment_key_def)
  with s segment_query_live show ?thesis
    unfolding update_segment_state(1) [OF assms] by (simp add: patched_row_step)
qed

lemma delete_segment_refines:
  assumes "delete_segment now t i d = (Inr u, d')"
  shows "catalog_step segment_key segment_live (segments_tbl d) (segments_tbl d')"
proof -
  from assms obtain s where s: "filter (segment_query t i) (segments_tbl d) = [s]"
    and d': "segments_tbl d' = update_rows (segment_query t i) (\<lambda>s. s \<lparr> sm_deleted_at := Some now \<rparr>) (segments_tbl d)"
    by (auto simp: delete_segment_def find_segment_def bind_op_Inr op_defs write_segment_eq)
  show ?thesis unfolding d' using s by (rule retired_row_step) (simp add: segment_live_def)
qed

lemma segment_request_refines:
  "segment_request_op q d = (Inr u, d') \<Longrightarrow> catalog_step segment_key segment_live (segments_tbl d) (segments_tbl d')"
  by (cases q) (auto simp: bind_op_Inr op_defs intro: create_segment_refines batch_create_segments_refines
      update_segment_refines delete_segment_refines)

interpretation segments: named_catalog segments_tbl segment_key segment_live segment_request_op
  by unfold_locales (rule with_db_step, erule segment_request_refines)

section \<open>Collateral types\<close>

record create_collateral_request =
  ccr_name :: py_str
  ccr_haircut :: num
  ccr_ttr :: int

record update_collateral_request =
  ucr_name :: "py_str option"
  ucr_haircut :: "num option"
  ucr_ttr :: "int option"

record collateral_out =
  co_id :: py_str
  co_name :: py_str
  co_haircut :: num
  co_ttr :: int

definition collateral_to_out :: "collateral_type \<Rightarrow> collateral_out" where
  "collateral_to_out c = \<lparr> co_id = ct_id c, co_name = ct_name c, co_haircut = ct_haircut c, co_ttr = ct_ttr c \<rparr>"

definition collateral_live :: "collateral_type \<Rightarrow> bool" where
  "collateral_live c \<longleftrightarrow> ct_deleted_at c = None"

definition collateral_key :: "collateral_type \<Rightarrow> py_str \<times> py_str" where
  "collateral_key c = (ct_tenant c, ct_name c)"

definition check_collateral_name_unique :: "py_str \<Rightarrow> py_str \<Rightarrow> py_str option \<Rightarrow> (db, unit) op" where
  "check_collateral_name_unique tenant_id name exclude_id =
     bind_op (read_op (\<lambda>d. scalar_one_or_none
       (filter (\<lambda>c. ct_tenant c = tenant_id \<and> ct_name c = py_strip name \<and> ct_deleted_at c = None \<and> \<not> excluded exclude_id (ct_id c))
         (collateral_tbl d))))
     (\<lambda>row. guard_op (row = None) (ECLException ''COLLATERAL_NAME_TAKEN'' 409))"

definition list_collateral_types :: "py_str \<Rightarrow> (db, collateral_out list) op" where
  "list_collateral_types tenant_id =
     read_op (\<lambda>d. Inr (map collateral_to_out
       (sort_key ct_name (filter (\<lambda>c. ct_tenant c = tenant_id \<and> ct_deleted_at c = None) (collateral_tbl d)))))"

definition new_collateral :: "py_str \<Rightarrow> py_str \<Rightarrow> py_str \<Rightarrow> create_collateral_request \<Rightarrow> collateral_type" where
  "new_collateral new_id tenant_id user_id req =
     \<lparr> ct_id = new_id, ct_tenant = tenant_id, ct_name = py_strip (ccr_name req), ct_haircut = ccr_haircut req,
       ct_ttr = ccr_ttr req, ct_created_by = user_id, ct_deleted_at = None \<rparr>"

definition create_collateral_type :: "py_str \<Rightarrow> py_str \<Rightarrow> py_str \<Rightarrow> create_collateral_request \<Rightarrow> (db, collateral_out) op" where
  "create_collateral_type new_id tenant_id user_id req =
     bind_op (check_collateral_name_unique tenant_id (ccr_name req) None) (\<lambda>_.
     let c = new_collateral new_id tenant_id user_id req in
     bind_op (modify_op (\<lambda>d. d \<lparr> collateral_tbl := collateral_tbl d @ [c] \<rparr>)) (\<lambda>_.
     return_op (collateral_to_out c)))"

definition batch_create_collateral_types ::
    "(nat \<Rightarrow> py_str) \<Rightarrow> py_str \<Rightarrow> py_str \<Rightarrow> create_collateral_request list \<Rightarrow> (db, collateral_out list) op" where
  "batch_create_collateral_types new_ids tenant_id user_id items =
     (let names = map (\<lambda>item. py_strip (ccr_name item)) items in
      bind_op (guard_op (length names = card (set (map py_lower names))) (ECLException ''DUPLICATE_NAMES'' 400)) (\<lambda>_.
      bind_op (read_op (\<lambda>d. Inr (map ct_name
        (filter (\<lambda>c. ct_tenant c = tenant_id \<and> ct_name c \<in> set names \<and> ct_deleted_at c = None) (collateral_tbl d))))) (\<lambda>taken.
      bind_op (guard_op (taken = []) (ECLException ''COLLATERAL_NAME_TAKEN'' 409)) (\<lambda>_.
      let created = map (\<lambda>(i, item). new_collateral (new_ids i) tenant_id user_id item) (zip [0..<length items] items) in
      bind_op (modify_op (\<lambda>d. d \<lparr> collateral_tbl := collateral_tbl d @ created \<rparr>)) (\<lambda>_.
      return_op (map collateral_to_out created))))))"

definition collateral_query :: "py_str \<Rightarrow> py_str \<Rightarrow> collateral_type \<Rightarrow> bool" where
  "collateral_query tenant_id collateral_id c \<longleftrightarrow> ct_id c = collateral_id \<and> ct_tenant c = tenant_id \<and> ct_deleted_at c = None"

definition find_collateral :: "py_str \<Rightarrow> py_str \<Rightarrow> (db, collateral_type) op" where
  "find_collateral tenant_id collateral_id =
     read_op (\<lambda>d. one_or_raise not_found (filter (collateral_query tenant_id collateral_id) (collateral_tbl d)))"

definition write_collateral :: "py_str \<Rightarrow> py_str \<Rightarrow> (collateral_type \<Rightarrow> collateral_type) \<Rightarrow> (db, unit) op" where
  "write_collateral tenant_id collateral_id f =
     modify_op (\<lambda>d. d \<lparr> collateral_tbl := update_rows (collateral_query tenant_id collateral_id) f (collateral_tbl d) \<rparr>)"

definition update_collateral_type ::
    "py_str \<Rightarrow> py_str \<Rightarrow> update_collateral_request \<Rightarrow> (db, collateral_out) op" where
  "update_collateral_type tenant_id collateral_id req =
     bind_op (find_collateral tenant_id collateral_id) (\<lambda>c.
     bind_op (case ucr_name req of None \<Rightarrow> return_op ()
        | Some name \<Rightarrow> bind_op (check_collateral_name_unique tenant_id name (Some collateral_id)) (\<lambda>_.
            write_collateral tenant_id collateral_id (\<lambda>c. c \<lparr> ct_name := py_strip name \<rparr>))) (\<lambda>_.
     bind_op (case ucr_haircut req of None \<Rightarrow> return_op ()
        | Some h \<Rightarrow> write_collateral tenant_id collateral_id (\<lambda>c. c \<lparr> ct_haircut := h \<rparr>)) (\<lambda>_.
     bind_op (case ucr_ttr req of None \<Rightarrow> return_op ()
        | Some n \<Rightarrow> write_collateral tenant_id collateral_id (\<lambda>c. c \<lparr> ct_ttr := n \<rparr>)) (\<lambda>_.
     bind_op (find_collateral tenant_id collateral_id) (\<lambda>c. return_op (collateral_to_out c))))))"

definition delete_collateral_type :: "timestamp \<Rightarrow> py_str \<Rightarrow> py_str \<Rightarrow> (db, unit) op" where
  "delete_collateral_type now tenant_id collateral_id =
     bind_op (find_collateral tenant_id collateral_id) (\<lambda>c.
     write_collateral tenant_id collateral_id (\<lambda>c. c \<lparr> ct_deleted_at := Some now \<rparr>))"

datatype collateral_request =
    CreateCollateral py_str py_str py_str create_collateral_request
  | BatchCreateCollateral "nat \<Rightarrow> py_str" py_str py_str "create_collateral_request list"
  | UpdateCollateral py_str py_str update_collateral_request
  | DeleteCollateral timestamp py_str py_str

fun collateral_request_op :: "collateral_request \<Rightarrow> (db, unit) op" where
  "collateral_request_op (CreateCollateral i t u req) = bind_op (create_collateral_type i t u req) (\<lambda>_. return_op ())"
| "collateral_request_op (BatchCreateCollateral ids t u items) = bind_op (batch_create_collateral_types ids t u items) (\<lambda>_. return_op ())"
| "collateral_request_op (UpdateCollateral t c req) = bind_op (update_collateral_type t c req) (\<lambda>_. return_op ())"
| "collateral_request_op (DeleteCollateral now t c) = delete_collateral_type now t c"

section \<open>Collateral types refine the catalogue\<close>

lemma check_collateral_name_unique_Inr:
  "check_collateral_name_unique t n x d = (Inr u, d') \<longleftrightarrow>
     d' = d \<and> (\<forall>c \<in> set (collateral_tbl d). collateral_live c \<and> collateral_key c = (t, py_strip n) \<longrightarrow> excluded x (ct_id c))"
  by (auto simp: check_collateral_name_unique_def bind_op_Inr op_defs guard_op_def scalar_one_or_none_cases
      collateral_live_def collateral_key_def filter_empty_conv split: if_splits)

lemma create_collateral_refines:
  assumes "create_collateral_type i t u req d = (Inr out, d')"
  shows "catalog_step collateral_key collateral_live (collateral_tbl d) (collateral_tbl d')"
proof -
  from assms have d': "collateral_tbl d' = collateral_tbl d @ [new_collateral i t u req]"
    and free: "\<forall>c \<in> set (collateral_tbl d). collateral_live c \<longrightarrow> collateral_key c \<noteq> (t, py_strip (ccr_name req))"
    by (auto simp: create_collateral_type_def bind_op_Inr check_collateral_name_unique_Inr Let_def op_defs)
  show ?thesis unfolding d'
    by (rule appended_rows_step) (use free in \<open>auto simp: collateral_key_def new_collateral_def\<close>)
qed

lemma keys_new_collateral:
  "map collateral_key (map (\<lambda>(i, item). new_collateral (ids i) t u item) (zip [0..<length items] items))
   = map (\<lambda>item. (t, py_strip (ccr_name item))) items"
  by (rule nth_equalityI) (auto simp: collateral_key_def new_collateral_def)

lemma batch_create_collateral_refines:
  assumes "batch_create_collateral_types ids t u items d = (Inr out, d')"
  shows "catalog_step collateral_key collateral_live (collateral_tbl d) (collateral_tbl d')"
proof -
  let ?new = "map (\<lambda>(i, item). new_collateral (ids i) t u item) (zip [0..<length items] items)"
  let ?names = "map (\<lambda>item. py_strip (ccr_name item)) items"
  from assms have d': "collateral_tbl d' = collateral_tbl d @ ?new"
    and lower: "length ?names = card (set (map py_lower ?names))"
    and free: "filter (\<lambda>c. ct_tenant c = t \<and> ct_name c \<in> set ?names \<and> ct_deleted_at c = None) (collateral_tbl d) = []"
    by (auto simp: batch_create_collateral_types_def bind_op_Inr guard_op_def Let_def op_defs image_image split: if_splits)
  show ?thesis unfolding d'
  proof (rule appended_rows_step)
    show "distinct (map collateral_key ?new)"
      unfolding keys_new_collateral by (rule distinct_pairs [OF distinct_if_lower_distinct [OF lower, unfolded list.map_comp comp_def]])
    show "\<forall>c \<in> set (collateral_tbl d). collateral_live c \<longrightarrow> collateral_key c \<notin> set (map collateral_key ?new)"
      unfolding keys_new_collateral using free by (auto simp: filter_empty_conv collateral_key_def collateral_live_def)
  qed
qed

definition collateral_patch :: "update_collateral_request \<Rightarrow> collateral_type \<Rightarrow> collateral_type" where
  "collateral_patch req c =
     (let c1 = (case ucr_name req of None \<Rightarrow> c | Some n \<Rightarrow> c \<lparr> ct_name := py_strip n \<rparr>);
          c2 = (case ucr_haircut req of None \<Rightarrow> c1 | Some h \<Rightarrow> c1 \<lparr> ct_haircut := h \<rparr>)
      in case ucr_ttr req of None \<Rightarrow> c2 | Some n \<Rightarrow> c2 \<lparr> ct_ttr := n \<rparr>)"

lemma write_collateral_eq:
  "write_collateral t i f d = (Inr (), d \<lparr> collateral_tbl := update_rows (collateral_query t i) f (collateral_tbl d) \<rparr>)"
  by (simp add: write_collateral_def modify_op_def)

lemma collateral_query_patch [simp]:
  "collateral_query t i (c \<lparr> ct_name := n \<rparr>) = collateral_query t i c"
  "collateral_query t i (c \<lparr> ct_haircut := h \<rparr>) = collateral_query t i c"
  "collateral_query t i (c \<lparr> ct_ttr := k \<rparr>) = collateral_query t i c"
  by (simp_all add: collateral_query_def)

lemma update_collateral_state:
  assumes "update_collateral_type t i req d = (Inr out, d')"
  shows "d' = d \<lparr> collateral_tbl := update_rows (collateral_query t i) (collateral_patch req) (collateral_tbl d) \<rparr>"
    and "\<exists>c. filter (collateral_query t i) (collateral_tbl d) = [c]"
    and "ucr_name req = Some n \<Longrightarrow>
      \<forall>c \<in> set (collateral_tbl d). collateral_live c \<and> collateral_key c = (t, py_strip n) \<longrightarrow> excluded (Some i) (ct_id c)"
  using assms
  by (auto simp: update_collateral_type_def find_collateral_def bind_op_Inr op_defs write_collateral_eq check_collateral_name_unique_Inr
      update_rows_twice comp_def collateral_patch_def [abs_def] Let_def split: option.splits if_splits)

lemma collateral_patch_simps [simp]:
  "ct_tenant (collateral_patch req c) = ct_tenant c" "ct_id (collateral_patch req c) = ct_id c"
  "ct_deleted_at (collateral_patch req c) = ct_deleted_at c"
  "ct_name (collateral_patch req c) = (case ucr_name req of None \<Rightarrow> ct_name c | Some n \<Rightarrow> py_strip n)"
  by (simp_all add: collateral_patch_def Let_def split: option.splits)

lemma collateral_query_live: "collateral_query t i c \<Longrightarrow> collateral_live c"
  by (simp add: collateral_query_def collateral_live_def)

lemma update_collateral_refines:
  assumes "update_collateral_type t i req d = (Inr out, d')"
  shows "catalog_step collateral_key collateral_live (collateral_tbl d) (collateral_tbl d')"
proof -
  obtain c where c: "filter (collateral_query t i) (collateral_tbl d) = [c]"
    using update_collateral_state(2) [OF assms] by blast
  have qc: "collateral_query t i c" using c by (rule filter_singletonD)
  have "collateral_key (collateral_patch req c) = collateral_key c
      \<or> (\<forall>x \<in> set (collateral_tbl d). collateral_live x \<and> \<not> collateral_query t i x \<longrightarrow> collateral_key x \<noteq> collateral_key (collateral_patch req c))"
  proof (cases "ucr_name req")
    case (Some n)
    have "\<forall>c \<in> set (collateral_tbl d). collateral_live c \<and> collateral_key c = (t, py_strip n) \<longrightarrow> excluded (Some i) (ct_id c)"
      using Some by (rule update_collateral_state(3) [OF assms])
    then show ?thesis using qc Some
      by (auto simp: collateral_query_def collateral_key_def collateral_live_def excluded_def)
  qed (simp add: collateral_key_def)
  with c collateral_query_live show ?thesis
    unfolding update_collateral_state(1) [OF assms] by (simp add: patched_row_step)
qed

lemma delete_collateral_refines:
  assumes "delete_collateral_type now t i d = (Inr u, d')"
  shows "catalog_step collateral_key collateral_live (collateral_tbl d) (collateral_tbl d')"
proof -
  from assms obtain c where c: "filter (collateral_query t i) (collateral_tbl d) = [c]"
    and d': "collateral_tbl d' = update_rows (collateral_query t i) (\<lambda>c. c \<lparr> ct_deleted_at := Some now \<rparr>) (collateral_tbl d)"
    by (auto simp: delete_collateral_type_def find_collateral_def bind_op_Inr op_defs write_collateral_eq)
  show ?thesis unfolding d' using c by (rule retired_row_step) (simp add: collateral_live_def)
qed

lemma collateral_request_refines:
  "collateral_request_op q d = (Inr u, d') \<Longrightarrow> catalog_step collateral_key collateral_live (collateral_tbl d) (collateral_tbl d')"
  by (cases q) (auto simp: bind_op_Inr op_defs intro: create_collateral_refines batch_create_collateral_refines
      update_collateral_refines delete_collateral_refines)

interpretation collaterals: named_catalog collateral_tbl collateral_key collateral_live collateral_request_op
  by unfold_locales (rule with_db_step, erule collateral_request_refines)

section \<open>Interleaved requests\<close>

definition catalog_request_op :: "segment_request + collateral_request \<Rightarrow> (db, unit) op" where
  "catalog_request_op q = (case q of Inl s \<Rightarrow> segment_request_op s | Inr c \<Rightarrow> collateral_request_op c)"

definition catalog_unique :: "db \<Rightarrow> bool" where
  "catalog_unique d \<longleftrightarrow> unique_live segment_key segment_live (segments_tbl d)
     \<and> unique_live collateral_key collateral_live (collateral_tbl d)"

lemmas segment_op_defs =
  create_segment_def batch_create_segments_def update_segment_def delete_segment_def
  check_segment_name_unique_def find_segment_def write_segment_def

lemmas collateral_op_defs =
  create_collateral_type_def batch_create_collateral_types_def update_collateral_type_def delete_collateral_type_def
  check_collateral_name_unique_def find_collateral_def write_collateral_def

lemma segment_requests_frame: "keeps (\<lambda>d. collateral_tbl d = cs) (segment_request_op q)"
  by (cases q; simp; unfold segment_op_defs Let_def; intro keeps_rules keeps_modify; simp)

lemma collateral_requests_frame: "keeps (\<lambda>d. segments_tbl d = ss) (collateral_request_op q)"
  by (cases q; simp; unfold collateral_op_defs Let_def; intro keeps_rules keeps_modify; simp)

lemma catalog_request_keeps_unique: "catalog_unique d \<Longrightarrow> catalog_unique (snd (with_db (catalog_request_op q) d))"
proof (cases q)
  case (Inl s)
  assume "catalog_unique d"
  moreover have "collateral_tbl (snd (with_db (segment_request_op s) d)) = collateral_tbl d"
    using keepsD [OF keeps_with_db [OF segment_requests_frame]] by blast
  ultimately show ?thesis
    by (simp add: Inl catalog_unique_def catalog_request_op_def segments.request_keeps_unique)
next
  case (Inr c)
  assume "catalog_unique d"
  moreover have "segments_tbl (snd (with_db (collateral_request_op c) d)) = segments_tbl d"
    using keepsD [OF keeps_with_db [OF collateral_requests_frame]] by blast
  ultimately show ?thesis
    by (simp add: Inr catalog_unique_def catalog_request_op_def collaterals.request_keeps_unique)
qed

section \<open>Properties\<close>

lemma catalog_requests_keep_unique:
  "catalog_unique d \<Longrightarrow> catalog_unique (run_requests (map catalog_request_op qs) d)"
  by (induction qs arbitrary: d) (simp_all add: catalog_request_keeps_unique)

text \<open>
  C15. Names stay unique. From a database in which no workspace has two live segments or two live
  collateral types with the same name, any interleaving of create, batch create, update and delete
  requests on the two catalogues ends in such a database, and each single request changes a table
  only by a step of the abstract catalogue.
\<close>

theorem catalog_names_stay_unique:
  assumes "catalog_unique d"
  shows "catalog_unique (run_requests (map catalog_request_op qs) d)
    \<and> catalog_step segment_key segment_live (segments_tbl d) (segments_tbl (snd (with_db (segment_request_op q) d)))
    \<and> catalog_step collateral_key collateral_live (collateral_tbl d) (collateral_tbl (snd (with_db (collateral_request_op c) d)))"
  using catalog_requests_keep_unique [OF assms] segments.refines collaterals.refines by blast

definition sample_segment :: segment where
  "sample_segment = \<lparr> sm_id = ''S1'', sm_tenant = ''T'', sm_name = ''Retail'', sm_code = None, sm_is_active = True,
     sm_created_by = ''U'', sm_deleted_at = None \<rparr>"

lemma sample_catalog_unique: "catalog_unique (empty_db \<lparr> segments_tbl := [sample_segment] \<rparr>)"
  by (simp add: catalog_unique_def unique_live_def sample_segment_def segment_live_def empty_db_def)

theorem catalog_names_stay_unique_witness:
  "catalog_unique (run_requests (map catalog_request_op
     [Inl (CreateSegment ''S2'' ''T'' ''U'' \<lparr> csr_name = '' Retail '', csr_code = None \<rparr>),
      Inl (DeleteSegment 5 ''T'' ''S1''),
      Inl (CreateSegment ''S3'' ''T'' ''U'' \<lparr> csr_name = ''Retail'', csr_code = None \<rparr>)])
     (empty_db \<lparr> segments_tbl := [sample_segment] \<rparr>))"
  using catalog_names_stay_unique [OF sample_catalog_unique] by blast

text \<open>
  A request of the router that switches a segment on or off always fails: when the segment
  exists and the new name, if one is given, is free, the update raises a NameError, and after the
  rollback the segment keeps its old status.
\<close>

lemma segment_status_change_fails:
  assumes "filter (segment_query tenant_id segment_id) (segments_tbl d) = [s]"
    and "usr_is_active req = Some a" and "user_id \<noteq> ''''"
    and "\<And>n. usr_name req = Some n \<Longrightarrow>
      \<forall>x \<in> set (segments_tbl d). segment_live x \<and> segment_key x = (tenant_id, py_strip n) \<longrightarrow> sm_id x = segment_id"
    and "segment_id \<noteq> ''''"
  shows "with_db (update_segment tenant_id segment_id req (Some user_id)) d = (Inl (NameError ''segment''), d)"
proof (rule with_db_Inl)
  have name_ok: "check_segment_name_unique tenant_id n (Some segment_id) d = (Inr (), d)" if "usr_name req = Some n" for n
    using assms(4) [OF that] assms(5) by (auto simp: check_segment_name_unique_Inr excluded_def truthy_def)
  show "fst (update_segment tenant_id segment_id req (Some user_id) d) = Inl (NameError ''segment'')"
    using assms(1-3) name_ok
    by (auto simp: update_segment_def find_segment_def bind_op_def op_defs write_segment_eq when_op_def truthy_def
        split: option.splits)
qed

lemma segment_status_change_fails_witness:
  "with_db (update_segment ''T'' ''S1'' \<lparr> usr_name = None, usr_code = None, usr_is_active = Some False \<rparr> (Some ''U''))
     (empty_db \<lparr> segments_tbl := [sample_segment] \<rparr>)
   = (Inl (NameError ''segment''), empty_db \<lparr> segments_tbl := [sample_segment] \<rparr>)"
  by (rule segment_status_change_fails [where a = False and s = sample_segment])
    (simp_all add: sample_segment_def segment_query_def)

end
