(* ===== verification/Tenancy.thy ===== *)
theory Tenancy
  imports Catalog
begin

text \<open>
  Workspaces and their members (\<^verbatim>\<open>app/modules/tenants/service.py\<close>), and the endpoints of the
  routers of tenants, segments and collateral types, which put a role gate in front of a service
  call.

  The locale \<open>role_gate\<close> is the contract of the dependencies \<^verbatim>\<open>require_tenant_member\<close>,
  \<^verbatim>\<open>require_tenant_admin\<close> and \<^verbatim>\<open>require_tenant_analyst_or_admin\<close>: what they return is a membership of
  the caller in the workspace with an allowed role. Its lemma says that a gated request changes the
  database only for an authorised caller.
\<close>

section \<open>Gated requests\<close>

record auth_ctx =
  ax_decode :: decoder
  ax_redis :: redis
  ax_now :: timestamp
  ax_creds :: "py_str option"

definition current_user :: "auth_ctx \<Rightarrow> (db, user) op" where
  "current_user ctx = read_op (get_current_user (ax_decode ctx) (ax_redis ctx) (ax_now ctx) (ax_creds ctx))"

definition gated :: "(py_str \<Rightarrow> user \<Rightarrow> db \<Rightarrow> membership result) \<Rightarrow> auth_ctx \<Rightarrow> py_str \<Rightarrow> (user \<Rightarrow> membership \<Rightarrow> (db, 'a) op) \<Rightarrow> (db, 'a) op" where
  "gated gate ctx tenant_id endpoint =
     bind_op (current_user ctx) (\<lambda>u.
     bind_op (read_op (gate tenant_id u)) (\<lambda>m.
     endpoint u m))"

definition authorised :: "py_str set \<Rightarrow> auth_ctx \<Rightarrow> py_str \<Rightarrow> db \<Rightarrow> bool" where
  "authorised roles ctx tenant_id d \<longleftrightarrow>
     (\<exists>u \<in> set (users d). get_current_user (ax_decode ctx) (ax_redis ctx) (ax_now ctx) (ax_creds ctx) d = Inr u
        \<and> u_is_active u \<and> u_deleted_at u = None
        \<and> (u_is_platform_admin u
           \<or> (\<exists>m \<in> set (members d). m_user m = u_id u \<and> m_tenant m = tenant_id \<and> m_status m = member_status_value MEMBER_ACTIVE \<and> m_role m \<in> roles)))"

lemma keeps_gated [keeps_rules]: "(\<And>u m. keeps I (f u m)) \<Longrightarrow> keeps I (gated gate ctx t f)"
  unfolding gated_def current_user_def by (intro keeps_rules)

lemma filter_one_member: "filter P xs = [x] \<Longrightarrow> x \<in> set xs \<and> P x"
  by (auto simp: filter_eq_Cons_iff)

lemma get_current_user_Inr:
  assumes "get_current_user decode redis now creds d = Inr u"
  shows "u \<in> set (users d) \<and> u_is_active u \<and> u_deleted_at u = None"
  using assms
  by (auto simp: get_current_user_def scalar_one_or_none_cases
      split: option.splits sum.splits if_splits bool.splits dest!: filter_one_member)

locale role_gate =
  fixes gate :: "py_str \<Rightarrow> user \<Rightarrow> db \<Rightarrow> membership result" and roles :: "py_str set"
  assumes gate_ok: "gate t u d = Inr m \<Longrightarrow> m_user m = u_id u \<and> m_tenant m = t \<and> m_role m \<in> roles
    \<and> (m \<in> set (members d) \<and> m_status m = member_status_value MEMBER_ACTIVE \<or> u_is_platform_admin u)"
begin

lemma gated_authorised:
  assumes "gated gate ctx t endpoint d = (Inr x, d')"
  shows "authorised roles ctx t d"
proof -
  from assms obtain u m where u: "get_current_user (ax_decode ctx) (ax_redis ctx) (ax_now ctx) (ax_creds ctx) d = Inr u"
    and m: "gate t u d = Inr m"
    by (auto simp: gated_def current_user_def bind_op_Inr read_op_def)
  show ?thesis
    unfolding authorised_def using get_current_user_Inr [OF u] u gate_ok [OF m] by (intro bexI [of _ u]) auto
qed

lemma gated_effect:
  "snd (with_db (gated gate ctx t endpoint) d) \<noteq> d \<Longrightarrow> authorised roles ctx t d"
  by (auto simp: with_db_def split: prod.splits sum.splits intro: gated_authorised)

end

lemma require_tenant_member_ok:
  assumes "require_tenant_member t u d = Inr m"
  shows "m_user m = u_id u \<and> m_tenant m = t \<and> (m \<in> set (members d) \<and> m_status m = member_status_value MEMBER_ACTIVE
    \<or> m_role m = role_value ADMINISTRATOR \<and> u_is_platform_admin u)"
  using assms
  by (auto simp: require_tenant_member_def scalar_one_or_none_cases synthetic_admin_membership_def
      split: option.splits sum.splits if_splits dest!: filter_one_member)

interpretation member_gate: role_gate require_tenant_member UNIV
  by unfold_locales (auto dest: require_tenant_member_ok)

interpretation admin_gate: role_gate require_tenant_admin "{role_value ADMINISTRATOR}"
  by unfold_locales (auto simp: require_tenant_admin_def split: sum.splits if_splits dest: require_tenant_member_ok)

interpretation analyst_gate: role_gate require_tenant_analyst_or_admin "{role_value ADMINISTRATOR, role_value ANALYST}"
  by unfold_locales (auto simp: require_tenant_analyst_or_admin_def split: sum.splits if_splits dest: require_tenant_member_ok)

section \<open>The workspace service\<close>

record tenant_out =
  to_id :: py_str
  to_name :: py_str
  to_slug :: py_str
  to_plan :: py_str
  to_status :: py_str
  to_currency :: py_str
  to_cadence :: py_str
  to_timezone :: py_str
  to_close_requested_at :: "timestamp option"

record update_tenant_request =
  utr_name :: "py_str option"
  utr_currency :: "py_str option"
  utr_cadence :: "py_str option"
  utr_timezone :: "py_str option"

record update_member_request =
  umr_role :: "py_str option"
  umr_status :: "py_str option"

record member_out =
  mo_id :: py_str
  mo_name :: py_str
  mo_email :: py_str
  mo_initials :: py_str
  mo_role :: py_str
  mo_status :: py_str
  mo_last_active_at :: "timestamp option"
  mo_is_you :: bool

definition live_tenant :: "py_str \<Rightarrow> tenant \<Rightarrow> bool" where
  "live_tenant tenant_id t \<longleftrightarrow> t_id t = tenant_id \<and> t_deleted_at t = None"

definition get_tenant :: "py_str \<Rightarrow> (db, tenant_out) op" where
  "get_tenant tenant_id =
     bind_op (read_op (\<lambda>d. one_or_raise not_found (filter (live_tenant tenant_id) (tenants d)))) (\<lambda>t.
     return_op \<lparr> to_id = t_id t, to_name = t_name t, to_slug = t_slug t, to_plan = t_plan t, to_status = t_status t,
       to_currency = t_currency t, to_cadence = t_cadence t, to_timezone = t_timezone t,
       to_close_requested_at = t_close_requested_at t \<rparr>)"

text \<open>The fields of the request that are not empty replace those of the row.\<close>

definition or_keep :: "py_str option \<Rightarrow> py_str \<Rightarrow> py_str" where
  "or_keep x old = (case x of Some v \<Rightarrow> if v = '''' then old else v | None \<Rightarrow> old)"

definition update_tenant :: "py_str \<Rightarrow> update_tenant_request \<Rightarrow> (db, unit) op" where
  "update_tenant tenant_id body =
     bind_op (read_op (\<lambda>d. one_or_raise not_found (filter (\<lambda>t. t_id t = tenant_id) (tenants d)))) (\<lambda>t.
     modify_op (\<lambda>d. d \<lparr> tenants := update_rows (\<lambda>t. t_id t = tenant_id)
       (\<lambda>t. t \<lparr> t_name := or_keep (utr_name body) (t_name t), t_currency := or_keep (utr_currency body) (t_currency t),
              t_cadence := or_keep (utr_cadence body) (t_cadence t), t_timezone := or_keep (utr_timezone body) (t_timezone t) \<rparr>)
       (tenants d) \<rparr>))"

definition member_query :: "py_str \<Rightarrow> py_str \<Rightarrow> membership \<Rightarrow> bool" where
  "member_query tenant_id user_id m \<longleftrightarrow> m_tenant m = tenant_id \<and> m_user m = user_id"

definition active_admin :: "py_str \<Rightarrow> membership \<Rightarrow> bool" where
  "active_admin tenant_id m \<longleftrightarrow> m_tenant m = tenant_id \<and> m_role m = role_value ADMINISTRATOR \<and> m_status m = member_status_value MEMBER_ACTIVE"

definition assert_not_last_admin :: "py_str \<Rightarrow> py_str \<Rightarrow> (db, unit) op" where
  "assert_not_last_admin tenant_id user_id =
     bind_op (read_op (\<lambda>d. scalar_one_or_none (filter (member_query tenant_id user_id) (members d)))) (\<lambda>row.
     case row of None \<Rightarrow> return_op ()
     | Some m \<Rightarrow> if m_role m \<noteq> role_value ADMINISTRATOR then return_op ()
         else bind_op (read_op (\<lambda>d. Inr (length (filter (\<lambda>m. active_admin tenant_id m \<and> m_user m \<noteq> user_id) (members d))))) (\<lambda>admins.
           guard_op (admins \<noteq> 0) LastAdminError))"

definition user_initials :: "py_str \<Rightarrow> py_str" where
  "user_initials name =
     (let parts = py_words name
      in if 2 \<le> length parts then py_upper [hd (hd parts), hd (last parts)]
         else if name \<noteq> '''' then py_upper (take 2 name) else ''??'')"

definition last_active :: "py_str \<Rightarrow> db \<Rightarrow> timestamp option" where
  "last_active user_id d =
     (case map ss_last_active_at (filter (\<lambda>s. ss_user s = user_id) (sessions_tbl d)) of
        [] \<Rightarrow> None | t # ts \<Rightarrow> Some (fold max ts t))"

definition member_rows :: "py_str \<Rightarrow> db \<Rightarrow> (membership \<times> user) list" where
  "member_rows tenant_id d =
     sort_key (\<lambda>(m, u). u_name u)
       (concat (map (\<lambda>m. map (\<lambda>u. (m, u)) (filter (\<lambda>u. u_id u = m_user m \<and> u_deleted_at u = None) (users d)))
         (filter (\<lambda>m. m_tenant m = tenant_id) (members d))))"

definition list_members :: "py_str \<Rightarrow> nat \<Rightarrow> nat \<Rightarrow> py_str \<Rightarrow> (db, member_out list \<times> page_meta) op" where
  "list_members tenant_id page per_page current_user_id =
     read_op (\<lambda>d.
       let total = length (filter (\<lambda>m. m_tenant m = tenant_id) (members d));
           rows = take per_page (drop ((page - 1) * per_page) (member_rows tenant_id d));
           pages = max 1 ((total + per_page - 1) div per_page)
       in Inr (map (\<lambda>(m, u). \<lparr> mo_id = u_id u, mo_name = u_name u, mo_email = u_email u, mo_initials = user_initials (u_name u),
                 mo_role = m_role m, mo_status = m_status m, mo_last_active_at = last_active (m_user m) d,
                 mo_is_you = (u_id u = current_user_id) \<rparr>) rows,
               \<lparr> pm_total = total, pm_page = page, pm_per_page = per_page, pm_pages = pages,
                 pm_has_next = page < pages, pm_has_prev = 1 < page \<rparr>))"

definition update_member :: "py_str \<Rightarrow> py_str \<Rightarrow> update_member_request \<Rightarrow> py_str \<Rightarrow> (db, unit) op" where
  "update_member tenant_id user_id body actor_id =
     bind_op (guard_op (\<not> (user_id = actor_id \<and> umr_status body = Some (member_status_value MEMBER_DISABLED)))
       (ECLException ''VALIDATION_ERROR'' 400)) (\<lambda>_.
     bind_op (read_op (\<lambda>d. one_or_raise not_found (filter (member_query tenant_id user_id) (members d)))) (\<lambda>m.
     let demoting_admin = m_role m = role_value ADMINISTRATOR \<and> umr_role body \<noteq> None \<and> umr_role body \<noteq> Some (role_value ADMINISTRATOR);
         disabling_admin = m_role m = role_value ADMINISTRATOR \<and> umr_status body = Some (member_status_value MEMBER_DISABLED) in
     bind_op (when_op (demoting_admin \<or> disabling_admin) (assert_not_last_admin tenant_id user_id)) (\<lambda>_.
     modify_op (\<lambda>d. d \<lparr> members := update_rows (member_query tenant_id user_id)
       (\<lambda>m. m \<lparr> m_role := or_keep (umr_role body) (m_role m), m_status := or_keep (umr_status body) (m_status m) \<rparr>)
       (members d) \<rparr>))))"

definition remove_member :: "py_str \<Rightarrow> py_str \<Rightarrow> py_str \<Rightarrow> (db, unit) op" where
  "remove_member tenant_id user_id actor_id =
     bind_op (guard_op (user_id \<noteq> actor_id) (ECLException ''VALIDATION_ERROR'' 400)) (\<lambda>_.
     bind_op (read_op (\<lambda>d. one_or_raise not_found (filter (member_query tenant_id user_id) (members d)))) (\<lambda>m.
     bind_op (when_op (m_role m = role_value ADMINISTRATOR) (assert_not_last_admin tenant_id user_id)) (\<lambda>_.
     modify_op (\<lambda>d. d \<lparr> members := filter (\<lambda>m. \<not> member_query tenant_id user_id m) (members d) \<rparr>))))"

definition close_tenant :: "timestamp \<Rightarrow> py_str \<Rightarrow> py_str \<Rightarrow> py_str \<Rightarrow> (db, unit) op" where
  "close_tenant now tenant_id user_id confirmation =
     bind_op (read_op (\<lambda>d. one_or_raise not_found (filter (live_tenant tenant_id) (tenants d)))) (\<lambda>t.
     bind_op (guard_op (py_strip confirmation = ''CLOSE'') InvalidConfirmationError) (\<lambda>_.
     bind_op (guard_op (t_status t \<noteq> tenant_status_value TENANT_CLOSING) AlreadySuspendedError) (\<lambda>_.
     bind_op (modify_op (\<lambda>d. d \<lparr> tenants := update_rows (live_tenant tenant_id)
       (\<lambda>t. t \<lparr> t_close_requested_at := Some now, t_close_requested_by := Some user_id, t_status := tenant_status_value TENANT_CLOSING \<rparr>) (tenants d) \<rparr>)) (\<lambda>_.
     bind_op (modify_op (log_event ''tenant.close_requested'' (Some user_id) (Some tenant_id) True None)) (\<lambda>_.
     modify_op (log_event ''tenant.close_requested'' (Some user_id) None True None))))))"

section \<open>Endpoints\<close>

definition list_segments_endpoint where
  "list_segments_endpoint ctx tenant_id = gated require_tenant_member ctx tenant_id (\<lambda>_ _. list_segments tenant_id)"

definition create_segment_endpoint where
  "create_segment_endpoint ctx new_id tenant_id body =
     gated require_tenant_admin ctx tenant_id (\<lambda>user _. create_segment new_id tenant_id (u_id user) body)"

definition batch_create_segments_endpoint where
  "batch_create_segments_endpoint ctx new_ids tenant_id body =
     gated require_tenant_admin ctx tenant_id (\<lambda>user _. batch_create_segments new_ids tenant_id (u_id user) body)"

definition update_segment_endpoint where
  "update_segment_endpoint ctx tenant_id segment_id body =
     gated require_tenant_admin ctx tenant_id (\<lambda>user _. update_segment tenant_id segment_id body (Some (u_id user)))"

definition delete_segment_endpoint where
  "delete_segment_endpoint ctx tenant_id segment_id =
     gated require_tenant_admin ctx tenant_id (\<lambda>_ _. delete_segment (ax_now ctx) tenant_id segment_id)"

definition list_collateral_types_endpoint where
  "list_collateral_types_endpoint ctx tenant_id = gated require_tenant_member ctx tenant_id (\<lambda>_ _. list_collateral_types tenant_id)"

definition create_collateral_type_endpoint where
  "create_collateral_type_endpoint ctx new_id tenant_id body =
     gated require_tenant_admin ctx tenant_id (\<lambda>user _. create_collateral_type new_id tenant_id (u_id user) body)"

definition batch_create_collateral_types_endpoint where
  "batch_create_collateral_types_endpoint ctx new_ids tenant_id body =
     gated require_tenant_admin ctx tenant_id (\<lambda>user _. batch_create_collateral_types new_ids tenant_id (u_id user) body)"

definition update_collateral_type_endpoint where
  "update_collateral_type_endpoint ctx tenant_id collateral_id body =
     gated require_tenant_admin ctx tenant_id (\<lambda>_ _. update_collateral_type tenant_id collateral_id body)"

definition delete_collateral_type_endpoint where
  "delete_collateral_type_endpoint ctx tenant_id collateral_id =
     gated require_tenant_admin ctx tenant_id (\<lambda>_ _. delete_collateral_type (ax_now ctx) tenant_id collateral_id)"

definition get_tenant_endpoint where
  "get_tenant_endpoint ctx tenant_id = gated require_tenant_member ctx tenant_id (\<lambda>_ _. get_tenant tenant_id)"

definition patch_tenant where
  "patch_tenant ctx tenant_id body = gated require_tenant_admin ctx tenant_id (\<lambda>_ _. update_tenant tenant_id body)"

definition list_members_endpoint where
  "list_members_endpoint ctx tenant_id page per_page =
     gated require_tenant_member ctx tenant_id (\<lambda>user _. list_members tenant_id page per_page (u_id user))"

definition patch_member where
  "patch_member ctx tenant_id user_id body =
     gated require_tenant_admin ctx tenant_id (\<lambda>user _. update_member tenant_id user_id body (u_id user))"

definition delete_member where
  "delete_member ctx tenant_id user_id =
     gated require_tenant_admin ctx tenant_id (\<lambda>user _. remove_member tenant_id user_id (u_id user))"

definition close_tenant_endpoint where
  "close_tenant_endpoint ctx tenant_id confirmation =
     gated require_tenant_admin ctx tenant_id (\<lambda>user _. close_tenant (ax_now ctx) tenant_id (u_id user) confirmation)"

section \<open>Administrators\<close>

definition has_admin :: "py_str \<Rightarrow> db \<Rightarrow> bool" where
  "has_admin tenant_id d \<longleftrightarrow> (\<exists>m \<in> set (members d). active_admin tenant_id m)"

datatype member_request =
    UpdateMember py_str py_str update_member_request py_str
  | RemoveMember py_str py_str py_str

fun member_request_op :: "member_request \<Rightarrow> (db, unit) op" where
  "member_request_op (UpdateMember t u body actor) = update_member t u body actor"
| "member_request_op (RemoveMember t u actor) = remove_member t u actor"

text \<open>A request whose status, if any, is one of the two values of the enumeration.\<close>

fun enum_status :: "member_request \<Rightarrow> bool" where
  "enum_status (UpdateMember t u body actor) =
     (umr_status body \<in> {None, Some (member_status_value MEMBER_ACTIVE), Some (member_status_value MEMBER_DISABLED)})"
| "enum_status (RemoveMember t u actor) = True"

lemma assert_not_last_admin_Inr:
  assumes "filter (member_query t u) (members d) = [m]"
  shows "assert_not_last_admin t u d = (Inr x, d') \<longleftrightarrow>
    d' = d \<and> (m_role m = role_value ADMINISTRATOR \<longrightarrow> (\<exists>a \<in> set (members d). active_admin t a \<and> m_user a \<noteq> u))"
  using assms
  by (auto simp: assert_not_last_admin_def bind_op_Inr op_defs guard_op_def filter_empty_conv split: if_splits)

lemma update_member_Inr:
  "update_member t u body actor d = (Inr x, d') \<longleftrightarrow>
     \<not> (u = actor \<and> umr_status body = Some (member_status_value MEMBER_DISABLED))
     \<and> (\<exists>m. filter (member_query t u) (members d) = [m]
        \<and> (m_role m = role_value ADMINISTRATOR \<and> (umr_role body \<notin> {None, Some (role_value ADMINISTRATOR)}
             \<or> umr_status body = Some (member_status_value MEMBER_DISABLED))
           \<longrightarrow> (\<exists>a \<in> set (members d). active_admin t a \<and> m_user a \<noteq> u)))
     \<and> d' = d \<lparr> members := update_rows (member_query t u)
          (\<lambda>m. m \<lparr> m_role := or_keep (umr_role body) (m_role m), m_status := or_keep (umr_status body) (m_status m) \<rparr>) (members d) \<rparr>"
proof (cases "\<exists>m. filter (member_query t u) (members d) = [m]")
  case True
  then obtain m where m: "filter (member_query t u) (members d) = [m]" by blast
  show ?thesis
    by (auto simp: update_member_def bind_op_Inr op_defs guard_op_def when_op_def Let_def m assert_not_last_admin_Inr [OF m]
        simp del: role_value.simps member_status_value.simps split: if_splits)
next
  case False
  then show ?thesis by (auto simp: update_member_def bind_op_Inr op_defs guard_op_def simp del: role_value.simps member_status_value.simps split: if_splits)
qed

lemma remove_member_Inr:
  "remove_member t u actor d = (Inr x, d') \<longleftrightarrow>
     u \<noteq> actor \<and> (\<exists>m. filter (member_query t u) (members d) = [m]
        \<and> (m_role m = role_value ADMINISTRATOR \<longrightarrow> (\<exists>a \<in> set (members d). active_admin t a \<and> m_user a \<noteq> u)))
     \<and> d' = d \<lparr> members := filter (\<lambda>m. \<not> member_query t u m) (members d) \<rparr>"
proof (cases "\<exists>m. filter (member_query t u) (members d) = [m]")
  case True
  then obtain m where m: "filter (member_query t u) (members d) = [m]" by blast
  show ?thesis
    by (auto simp: remove_member_def bind_op_Inr op_defs guard_op_def when_op_def m assert_not_last_admin_Inr [OF m]
        simp del: role_value.simps member_status_value.simps split: if_splits)
next
  case False
  then show ?thesis by (auto simp: remove_member_def bind_op_Inr op_defs guard_op_def simp del: role_value.simps member_status_value.simps split: if_splits)
qed

text \<open>Another administrator of the workspace survives any change of one member.\<close>

lemma other_admin_survives:
  assumes "a \<in> set (members d)" "active_admin t a" "m_user a \<noteq> u \<or> t \<noteq> t'"
  shows "has_admin t (d \<lparr> members := update_rows (member_query t' u) f (members d) \<rparr>)"
    and "has_admin t (d \<lparr> members := filter (\<lambda>m. \<not> member_query t' u m) (members d) \<rparr>)"
proof -
  have "\<not> member_query t' u a" using assms by (auto simp: member_query_def active_admin_def)
  then show "has_admin t (d \<lparr> members := update_rows (member_query t' u) f (members d) \<rparr>)"
    "has_admin t (d \<lparr> members := filter (\<lambda>m. \<not> member_query t' u m) (members d) \<rparr>)"
    using assms by (auto simp: has_admin_def set_update_rows intro!: bexI [of _ a] image_eqI [of _ _ a])
qed

lemma active_admin_patched:
  assumes "active_admin t m" "umr_role body \<in> {None, Some (role_value ADMINISTRATOR)}"
    "umr_status body \<in> {None, Some '''', Some (member_status_value MEMBER_ACTIVE)}"
  shows "active_admin t (m \<lparr> m_role := or_keep (umr_role body) (m_role m), m_status := or_keep (umr_status body) (m_status m) \<rparr>)"
  using assms by (auto simp: active_admin_def or_keep_def)

text \<open>What a successful update may cost: only an administrator whose status string leaves the enumeration.\<close>

lemma update_member_admin_lost:
  assumes "update_member t' u body actor d = (Inr x, d')" and "has_admin t d" and "\<not> has_admin t d'"
  shows "t' = t \<and> (\<exists>m. filter (member_query t u) (members d) = [m] \<and> active_admin t m)
    \<and> (\<forall>a \<in> set (members d). active_admin t a \<longrightarrow> m_user a = u)
    \<and> umr_role body \<in> {None, Some (role_value ADMINISTRATOR)}
    \<and> umr_status body \<notin> {None, Some '''', Some (member_status_value MEMBER_ACTIVE), Some (member_status_value MEMBER_DISABLED)}"
proof -
  let ?f = "\<lambda>m. m \<lparr> m_role := or_keep (umr_role body) (m_role m), m_status := or_keep (umr_status body) (m_status m) \<rparr>"
  have d': "d' = d \<lparr> members := update_rows (member_query t' u) ?f (members d) \<rparr>"
    using assms(1) by (simp add: update_member_Inr)
  from assms(1) obtain m where m: "filter (member_query t' u) (members d) = [m]"
    and guard: "m_role m = role_value ADMINISTRATOR \<and> (umr_role body \<notin> {None, Some (role_value ADMINISTRATOR)}
        \<or> umr_status body = Some (member_status_value MEMBER_DISABLED))
      \<longrightarrow> (\<exists>a \<in> set (members d). active_admin t' a \<and> m_user a \<noteq> u)"
    unfolding update_member_Inr by blast
  have only: "m_user a = u \<and> t = t'" if "a \<in> set (members d)" "active_admin t a" for a
    using other_admin_survives(1) [OF that] assms(3) unfolding d' by blast
  obtain a where a: "a \<in> set (members d)" "active_admin t a" using assms(2) by (auto simp: has_admin_def)
  have t: "t' = t" using only [OF a] by simp
  have "member_query t u a" using only [OF a] a(2) by (simp add: member_query_def active_admin_def)
  then have "a \<in> set (filter (member_query t' u) (members d))" using a(1) t by simp
  then have am: "a = m" by (simp only: m) simp
  have "umr_role body \<in> {None, Some (role_value ADMINISTRATOR)} \<and> umr_status body \<noteq> Some (member_status_value MEMBER_DISABLED)"
    using guard only a(2) by (auto simp: am t active_admin_def simp del: role_value.simps member_status_value.simps)
  moreover have "\<not> active_admin t (?f m)"
    using assms(3) a(1) \<open>member_query t u a\<close> unfolding d' am t
    by (auto simp: has_admin_def set_update_rows simp del: role_value.simps member_status_value.simps)
  ultimately show ?thesis
    using active_admin_patched [of t m body] a(2) m only am t by blast
qed

lemma member_request_keeps_admin:
  assumes "enum_status q"
  shows "keeps (has_admin t) (with_db (member_request_op q))"
  unfolding keeps_def
proof (intro allI impI)
  fix d assume admin: "has_admin t d"
  have "has_admin t d'" if ok: "member_request_op q d = (Inr x, d')" for x d'
  proof (cases q)
    case (UpdateMember t' u body actor)
    then have "update_member t' u body actor d = (Inr x, d')" using ok by simp
    then show ?thesis
      using update_member_admin_lost [OF _ admin] assms UpdateMember by fastforce
  next
    case (RemoveMember t' u actor)
    then have rm: "remove_member t' u actor d = (Inr x, d')" using ok by simp
    then obtain m where m: "filter (member_query t' u) (members d) = [m]"
      and guard: "m_role m = role_value ADMINISTRATOR \<longrightarrow> (\<exists>a \<in> set (members d). active_admin t' a \<and> m_user a \<noteq> u)"
      and d': "d' = d \<lparr> members := filter (\<lambda>m. \<not> member_query t' u m) (members d) \<rparr>"
      unfolding remove_member_Inr by blast
    obtain a where a: "a \<in> set (members d)" "active_admin t a" using admin by (auto simp: has_admin_def)
    show ?thesis
    proof (cases "m_user a = u \<and> t = t'")
      case True
      then have "a \<in> set (filter (member_query t' u) (members d))"
        using a by (simp add: member_query_def active_admin_def)
      then have "a = m" by (simp only: m) simp
      then obtain b where "b \<in> set (members d)" "active_admin t' b" "m_user b \<noteq> u"
        using guard a(2) unfolding active_admin_def by blast
      then show ?thesis using other_admin_survives(2) True unfolding d' by blast
    next
      case False
      then show ?thesis using other_admin_survives(2) [OF a] unfolding d' by blast
    qed
  qed
  then show "has_admin t (snd (with_db (member_request_op q) d))"
    using admin by (auto simp: with_db_def split: prod.splits sum.splits)
qed

text \<open>
  C16. A workspace keeps an administrator. If every status a request asks for is one of the two
  values of the enumeration, then after any sequence of member updates and removals, of any
  workspaces and by any actors, every workspace that had an active administrator still has one.
\<close>

theorem workspace_keeps_admin:
  assumes "list_all enum_status qs" and "has_admin t d"
  shows "has_admin t (run_requests (map member_request_op qs) d)"
  using assms
proof (induction qs arbitrary: d)
  case (Cons q qs)
  then show ?case using keepsD [OF member_request_keeps_admin] by simp
qed simp

definition two_admins :: db where
  "two_admins = empty_db \<lparr> members :=
     [\<lparr> m_id = ''M1'', m_user = ''A'', m_tenant = ''T'', m_role = ''administrator'', m_status = ''active'', m_joined_at = 0 \<rparr>,
      \<lparr> m_id = ''M2'', m_user = ''B'', m_tenant = ''T'', m_role = ''administrator'', m_status = ''active'', m_joined_at = 1 \<rparr>] \<rparr>"

theorem workspace_keeps_admin_witness:
  "has_admin ''T'' (run_requests (map member_request_op
     [RemoveMember ''T'' ''B'' ''A'', UpdateMember ''T'' ''A'' \<lparr> umr_role = Some ''analyst'', umr_status = None \<rparr> ''B'']) two_admins)"
  by (rule workspace_keeps_admin) (simp_all add: has_admin_def two_admins_def active_admin_def)

text \<open>
  The request body takes any string as status, and the guard looks only for the value disabled.
  An update costs a workspace its last active administrator exactly when it addresses the only
  active administrator with a non-empty status outside the enumeration and keeps the role: then the
  request succeeds and nobody administers the workspace any more.
\<close>

lemma last_admin_lost_iff:
  assumes "has_admin t d"
  shows "\<not> has_admin t (snd (with_db (update_member t u body actor) d)) \<longleftrightarrow>
    (\<exists>m. filter (member_query t u) (members d) = [m] \<and> active_admin t m)
    \<and> (\<forall>a \<in> set (members d). active_admin t a \<longrightarrow> m_user a = u)
    \<and> umr_role body \<in> {None, Some (role_value ADMINISTRATOR)}
    \<and> umr_status body \<notin> {None, Some '''', Some (member_status_value MEMBER_ACTIVE), Some (member_status_value MEMBER_DISABLED)}"
    (is "?lost \<longleftrightarrow> ?cond")
proof
  assume lost: ?lost
  then obtain x d' where "update_member t u body actor d = (Inr x, d')" "\<not> has_admin t d'"
    using assms by (auto simp: with_db_def split: prod.splits sum.splits)
  then show ?cond using update_member_admin_lost [OF _ assms] by blast
next
  let ?f = "\<lambda>m. m \<lparr> m_role := or_keep (umr_role body) (m_role m), m_status := or_keep (umr_status body) (m_status m) \<rparr>"
  assume cond: ?cond
  have ok: "update_member t u body actor d = (Inr (), d \<lparr> members := update_rows (member_query t u) ?f (members d) \<rparr>)"
    unfolding update_member_Inr using cond by blast
  have "\<not> active_admin t (?f m)" for m
    using cond by (auto simp: active_admin_def or_keep_def split: option.splits)
  moreover have "member_query t u m" if "m \<in> set (members d)" "active_admin t m" for m
    using cond that by (auto simp: member_query_def active_admin_def)
  ultimately have "\<not> has_admin t (d \<lparr> members := update_rows (member_query t u) ?f (members d) \<rparr>)"
    by (auto simp: has_admin_def set_update_rows)
  then show ?lost using ok by (simp add: with_db_def)
qed

definition one_admin :: db where
  "one_admin = empty_db \<lparr> members :=
     [\<lparr> m_id = ''M1'', m_user = ''A'', m_tenant = ''T'', m_role = ''administrator'', m_status = ''active'', m_joined_at = 0 \<rparr>] \<rparr>"

lemma last_admin_lost_iff_witness:
  "has_admin ''T'' one_admin
   \<and> \<not> has_admin ''T'' (snd (with_db (update_member ''T'' ''A'' \<lparr> umr_role = None, umr_status = Some ''inactive'' \<rparr> ''A'') one_admin))
   \<and> has_admin ''T'' (snd (with_db (update_member ''T'' ''A'' \<lparr> umr_role = Some ''analyst'', umr_status = Some ''inactive'' \<rparr> ''A'') one_admin))"
proof -
  have a: "has_admin ''T'' one_admin" by (simp add: has_admin_def one_admin_def active_admin_def)
  show ?thesis
    using a last_admin_lost_iff [OF a, of "''A''" "\<lparr> umr_role = None, umr_status = Some ''inactive'' \<rparr>" "''A''"]
      last_admin_lost_iff [OF a, of "''A''" "\<lparr> umr_role = Some ''analyst'', umr_status = Some ''inactive'' \<rparr>" "''A''"]
    by (simp add: one_admin_def active_admin_def member_query_def)
qed

text \<open>
  C17. Only administrators change a workspace. If an endpoint that writes segments, collateral types,
  the workspace or its members changes the database, then its credentials belong to an active
  account that is a platform administrator or an active administrator of that workspace.
\<close>

theorem changes_need_admin:
  assumes "snd (with_db (create_segment_endpoint ctx new_id t cs) d) \<noteq> d
    \<or> snd (with_db (batch_create_segments_endpoint ctx new_ids t css) d) \<noteq> d
    \<or> snd (with_db (update_segment_endpoint ctx t sid us) d) \<noteq> d
    \<or> snd (with_db (delete_segment_endpoint ctx t sid) d) \<noteq> d
    \<or> snd (with_db (create_collateral_type_endpoint ctx new_id t cc) d) \<noteq> d
    \<or> snd (with_db (batch_create_collateral_types_endpoint ctx new_ids t ccs) d) \<noteq> d
    \<or> snd (with_db (update_collateral_type_endpoint ctx t cid uc) d) \<noteq> d
    \<or> snd (with_db (delete_collateral_type_endpoint ctx t cid) d) \<noteq> d
    \<or> snd (with_db (patch_tenant ctx t ut) d) \<noteq> d
    \<or> snd (with_db (patch_member ctx t uid um) d) \<noteq> d
    \<or> snd (with_db (delete_member ctx t uid) d) \<noteq> d
    \<or> snd (with_db (close_tenant_endpoint ctx t confirmation) d) \<noteq> d"
  shows "authorised {role_value ADMINISTRATOR} ctx t d"
  using assms
  unfolding create_segment_endpoint_def batch_create_segments_endpoint_def update_segment_endpoint_def delete_segment_endpoint_def
    create_collateral_type_endpoint_def batch_create_collateral_types_endpoint_def update_collateral_type_endpoint_def
    delete_collateral_type_endpoint_def patch_tenant_def patch_member_def delete_member_def close_tenant_endpoint_def
  by - (elim disjE; erule admin_gate.gated_effect)

definition sample_admin :: user where
  "sample_admin = \<lparr> u_id = ''A'', u_email = ''a@x'', u_name = ''Ann'', u_hashed_password = ''h'', u_is_active = True,
     u_is_email_verified = True, u_is_platform_admin = False, u_failed_login_count = 0, u_locked_until = None,
     u_last_login_at = None, u_totp_secret = None, u_totp_enabled = False, u_backup_codes = None, u_title = None,
     u_avatar = None, u_deleted_at = None \<rparr>"

definition sample_ctx :: auth_ctx where
  "sample_ctx = \<lparr> ax_decode = (\<lambda>_. Inr \<lparr> cl_sub = ''A'', cl_type = None, cl_jti = None, cl_exp = 900, cl_tenant = Some ''T'', cl_role = Some ''administrator'' \<rparr>),
     ax_redis = \<lparr> rd_available = True, rd_keys = [] \<rparr>, ax_now = 10, ax_creds = Some ''token'' \<rparr>"

theorem changes_need_admin_witness:
  "authorised {role_value ADMINISTRATOR} sample_ctx ''T''
     (one_admin \<lparr> users := [sample_admin], segments_tbl := [sample_segment] \<rparr>)"
proof -
  have "snd (with_db (delete_segment_endpoint sample_ctx ''T'' ''S1'') (one_admin \<lparr> users := [sample_admin], segments_tbl := [sample_segment] \<rparr>))
      \<noteq> one_admin \<lparr> users := [sample_admin], segments_tbl := [sample_segment] \<rparr>"
    by (simp add: delete_segment_endpoint_def gated_def current_user_def get_current_user_def require_tenant_admin_def
        require_tenant_member_def sample_ctx_def sample_admin_def one_admin_def sample_segment_def empty_db_def op_simps op_defs
        delete_segment_def find_segment_def write_segment_def segment_query_def with_db_def)
  then show ?thesis using changes_need_admin by blast
qed

end
