(* ===== verification/Validators.thy ===== *)
theory Validators
  imports Calendar
begin

text \<open>
  The shared validation utilities, \<^verbatim>\<open>app/engine/validators/base.py\<close>.

  A frame is its column names and its rows; a row maps a column to its cell, None where the cell is
  missing. How pandas reads a cell (\<^verbatim>\<open>to_numeric\<close>, \<^verbatim>\<open>to_datetime\<close>, \<^verbatim>\<open>float\<close>, \<^verbatim>\<open>astype(str)\<close>, \<^verbatim>\<open>repr\<close>) is the
  parameter record \<open>reader\<close>. A check takes the result so far and returns it with its issues added,
  at most \<open>MAX_ISSUES\<close> in all. The interface \<open>blocking_check\<close> states what the validators rely on: a
  check appends blocking issues for exactly its offending rows, up to the cap. Every check of the
  module is an interpretation of it, and the lemma \<open>valid_iff\<close> proved in it turns a chain of checks
  into the conjunction of their conditions.
\<close>

section \<open>Frames\<close>

datatype cell = CNum num | CStr py_str | CDate date

type_synonym frame_row = "py_str \<Rightarrow> cell option"

record frame =
  fr_columns :: "py_str list"
  fr_rows :: "frame_row list"

record reader =
  to_numeric :: "cell \<Rightarrow> num option"
  to_datetime :: "cell \<Rightarrow> date option"
  to_float :: "cell \<Rightarrow> num option"
  cell_str :: "cell \<Rightarrow> py_str"
  cell_repr :: "cell \<Rightarrow> py_str"

text \<open>The rows with their positions.\<close>

definition indexed :: "frame \<Rightarrow> (nat \<times> frame_row) list" where
  "indexed df = zip [0..<length (fr_rows df)] (fr_rows df)"

lemma snd_indexed [simp]: "snd ` set (indexed df) = set (fr_rows df)"
  by (metis indexed_def list.set_map map_snd_zip length_upt diff_zero)

section \<open>Issues and results\<close>

datatype level = Warn | Block

definition MAX_ISSUES :: nat where
  "MAX_ISSUES = 100"

definition STAGING_VALUES :: "py_str set" where
  "STAGING_VALUES = {''Stage 1'', ''Stage 2'', ''Stage 3''}"

record issue =
  vi_level :: level
  vi_title :: py_str
  vi_location :: py_str
  vi_fix :: py_str
  vi_category :: "py_str option"

record vresult =
  vr_issues :: "issue list"

definition is_valid :: "vresult \<Rightarrow> bool" where
  "is_valid r \<longleftrightarrow> \<not> list_ex (\<lambda>i. vi_level i = Block) (vr_issues r)"

definition has_warnings :: "vresult \<Rightarrow> bool" where
  "has_warnings r \<longleftrightarrow> list_ex (\<lambda>i. vi_level i = Warn) (vr_issues r)"

definition vr_add :: "issue \<Rightarrow> vresult \<Rightarrow> vresult" where
  "vr_add i r = (if MAX_ISSUES \<le> length (vr_issues r) then r else r \<lparr> vr_issues := vr_issues r @ [i] \<rparr>)"

definition block_issue :: "py_str \<Rightarrow> py_str \<Rightarrow> py_str \<Rightarrow> py_str option \<Rightarrow> issue" where
  "block_issue title loc fix_text category =
     \<lparr> vi_level = Block, vi_title = title, vi_location = loc, vi_fix = fix_text, vi_category = category \<rparr>"

definition warn_issue :: "py_str \<Rightarrow> py_str \<Rightarrow> py_str \<Rightarrow> py_str option \<Rightarrow> issue" where
  "warn_issue title loc fix_text category =
     \<lparr> vi_level = Warn, vi_title = title, vi_location = loc, vi_fix = fix_text, vi_category = category \<rparr>"

definition add_block :: "py_str \<Rightarrow> py_str \<Rightarrow> py_str \<Rightarrow> py_str option \<Rightarrow> vresult \<Rightarrow> vresult" where
  "add_block title loc fix_text category = vr_add (block_issue title loc fix_text category)"

definition add_warn :: "py_str \<Rightarrow> py_str \<Rightarrow> py_str \<Rightarrow> py_str option \<Rightarrow> vresult \<Rightarrow> vresult" where
  "add_warn title loc fix_text category = vr_add (warn_issue title loc fix_text category)"

definition remaining_capacity :: "vresult \<Rightarrow> nat" where
  "remaining_capacity r = MAX_ISSUES - length (vr_issues r)"

definition issue_cap_reached :: "vresult \<Rightarrow> bool" where
  "issue_cap_reached r \<longleftrightarrow> MAX_ISSUES \<le> length (vr_issues r)"

definition location :: "py_str \<Rightarrow> nat \<Rightarrow> py_str \<Rightarrow> py_str" where
  "location sheet_name row_number column =
     sheet_name @ '', row '' @ show_nat row_number @ '', column '' @ column"

definition excel_row :: "nat \<Rightarrow> nat" where
  "excel_row index = index + 2"

section \<open>Checks\<close>

definition column_issue :: "py_str \<Rightarrow> py_str \<Rightarrow> py_str \<Rightarrow> issue" where
  "column_issue sheet_name kind_label column =
     block_issue (''Missing required column: '' @ column) (sheet_name @ '', header row'')
       (''Download the official '' @ kind_label @ '' template and copy your data into it, ''
         @ ''or add a column named '' @ [CHR 0x27] @ column @ [CHR 0x27] @ ''.'')
       (Some ''template_format'')"

text \<open>The loop of \<open>check_required_columns\<close> over the missing columns; it returns when the cap is reached.\<close>

fun missing_column_loop :: "py_str \<Rightarrow> py_str \<Rightarrow> py_str list \<Rightarrow> vresult \<Rightarrow> vresult \<times> bool" where
  "missing_column_loop sheet_name kind_label [] r = (r, True)"
| "missing_column_loop sheet_name kind_label (column # missing) r =
     (if remaining_capacity r = 0 then (r, False)
      else missing_column_loop sheet_name kind_label missing (vr_add (column_issue sheet_name kind_label column) r))"

definition check_required_columns :: "frame \<Rightarrow> py_str list \<Rightarrow> py_str \<Rightarrow> py_str \<Rightarrow> vresult \<Rightarrow> vresult \<times> bool" where
  "check_required_columns df required sheet_name kind_label r =
     (let missing = filter (\<lambda>c. c \<notin> set (fr_columns df)) required;
          (r', completed) = missing_column_loop sheet_name kind_label missing r
      in (r', completed \<and> missing = []))"

text \<open>
  The loop the row checks share: one blocking issue for each offending row, as many as the result
  still has room for.
\<close>

definition block_rows :: "('p \<Rightarrow> issue) \<Rightarrow> 'p list \<Rightarrow> vresult \<Rightarrow> vresult" where
  "block_rows mk offending r = fold (\<lambda>p. vr_add (mk p)) (take (remaining_capacity r) offending) r"

definition row_issue :: "py_str \<Rightarrow> py_str \<Rightarrow> py_str \<Rightarrow> (py_str \<Rightarrow> py_str) \<Rightarrow> reader \<Rightarrow> nat \<times> frame_row \<Rightarrow> issue" where
  "row_issue title sheet_name column fix_text cv p =
     block_issue title (location sheet_name (excel_row (fst p)) column)
       (fix_text (case snd p column of Some c \<Rightarrow> cell_repr cv c | None \<Rightarrow> ''nan'')) None"

definition enum_bad :: "reader \<Rightarrow> py_str \<Rightarrow> py_str set \<Rightarrow> frame_row \<Rightarrow> bool" where
  "enum_bad cv column allowed row =
     (case row column of None \<Rightarrow> False | Some c \<Rightarrow> py_strip (cell_str cv c) \<notin> allowed)"

definition check_enum_values ::
    "reader \<Rightarrow> frame \<Rightarrow> py_str \<Rightarrow> py_str set \<Rightarrow> py_str \<Rightarrow> py_str \<Rightarrow> (py_str \<Rightarrow> py_str) \<Rightarrow> vresult \<Rightarrow> vresult" where
  "check_enum_values cv df column allowed sheet_name title fix_text r =
     (if column \<notin> set (fr_columns df) \<or> remaining_capacity r = 0 then r
      else block_rows (row_issue title sheet_name column fix_text cv)
             (filter (\<lambda>p. enum_bad cv column allowed (snd p)) (indexed df)) r)"

definition numeric_bad :: "reader \<Rightarrow> py_str \<Rightarrow> num option \<Rightarrow> num option \<Rightarrow> bool \<Rightarrow> frame_row \<Rightarrow> bool" where
  "numeric_bad cv column min_value max_value allow_missing row =
     (case Option.bind (row column) (to_numeric cv) of
        None \<Rightarrow> \<not> allow_missing \<or> row column \<noteq> None
      | Some v \<Rightarrow> (case min_value of Some lo \<Rightarrow> v < lo | None \<Rightarrow> False)
                \<or> (case max_value of Some hi \<Rightarrow> hi < v | None \<Rightarrow> False))"

definition check_numeric_range ::
    "reader \<Rightarrow> frame \<Rightarrow> py_str \<Rightarrow> py_str \<Rightarrow> num option \<Rightarrow> num option \<Rightarrow> py_str \<Rightarrow> (py_str \<Rightarrow> py_str) \<Rightarrow> bool \<Rightarrow> vresult \<Rightarrow> vresult" where
  "check_numeric_range cv df column sheet_name min_value max_value title fix_text allow_missing r =
     (if column \<notin> set (fr_columns df) \<or> remaining_capacity r = 0 then r
      else block_rows (row_issue title sheet_name column fix_text cv)
             (filter (\<lambda>p. numeric_bad cv column min_value max_value allow_missing (snd p)) (indexed df)) r)"

definition empty_bad :: "reader \<Rightarrow> py_str \<Rightarrow> frame_row \<Rightarrow> bool" where
  "empty_bad cv column row = (case row column of None \<Rightarrow> True | Some c \<Rightarrow> py_strip (cell_str cv c) = '''')"

definition check_non_empty_strings ::
    "reader \<Rightarrow> frame \<Rightarrow> py_str \<Rightarrow> py_str \<Rightarrow> py_str \<Rightarrow> py_str \<Rightarrow> vresult \<Rightarrow> vresult" where
  "check_non_empty_strings cv df column sheet_name title fix_text r =
     (if column \<notin> set (fr_columns df) \<or> remaining_capacity r = 0 then r
      else block_rows (row_issue title sheet_name column (\<lambda>_. fix_text) cv)
             (filter (\<lambda>p. empty_bad cv column (snd p)) (indexed df)) r)"

definition date_bad :: "reader \<Rightarrow> py_str \<Rightarrow> frame_row \<Rightarrow> bool" where
  "date_bad cv column row = (case row column of None \<Rightarrow> False | Some c \<Rightarrow> to_datetime cv c = None)"

text \<open>The parsed dates of a column, None when the check was skipped.\<close>

definition parsed_dates :: "reader \<Rightarrow> frame \<Rightarrow> py_str \<Rightarrow> date option list" where
  "parsed_dates cv df column = map (\<lambda>row. Option.bind (row column) (to_datetime cv)) (fr_rows df)"

definition check_valid_dates ::
    "reader \<Rightarrow> frame \<Rightarrow> py_str \<Rightarrow> py_str \<Rightarrow> py_str \<Rightarrow> (py_str \<Rightarrow> py_str) \<Rightarrow> vresult \<Rightarrow> vresult \<times> date option list option" where
  "check_valid_dates cv df column sheet_name title fix_text r =
     (if column \<notin> set (fr_columns df) \<or> remaining_capacity r = 0 then (r, None)
      else (block_rows (row_issue title sheet_name column fix_text cv)
              (filter (\<lambda>p. date_bad cv column (snd p)) (indexed df)) r,
            Some (parsed_dates cv df column)))"

definition row_key :: "py_str list \<Rightarrow> frame_row \<Rightarrow> cell option list" where
  "row_key columns row = map row columns"

definition duplicated :: "py_str list \<Rightarrow> frame \<Rightarrow> nat \<times> frame_row \<Rightarrow> bool" where
  "duplicated columns df p =
     list_ex (\<lambda>q. fst q \<noteq> fst p \<and> row_key columns (snd q) = row_key columns (snd p)) (indexed df)"

definition key_values :: "reader \<Rightarrow> py_str list \<Rightarrow> frame_row \<Rightarrow> py_str" where
  "key_values cv columns row =
     py_join '', '' (map (\<lambda>c. c @ ''='' @ (case row c of Some v \<Rightarrow> cell_repr cv v | None \<Rightarrow> ''nan'')) columns)"

definition check_uniqueness ::
    "reader \<Rightarrow> frame \<Rightarrow> py_str list \<Rightarrow> py_str \<Rightarrow> py_str \<Rightarrow> (py_str \<Rightarrow> py_str) \<Rightarrow> vresult \<Rightarrow> vresult" where
  "check_uniqueness cv df columns sheet_name title fix_text r =
     (if remaining_capacity r = 0 then r
      else if list_ex (\<lambda>c. c \<notin> set (fr_columns df)) columns then r
      else block_rows (\<lambda>p. block_issue title (location sheet_name (excel_row (fst p)) (hd columns))
               (fix_text (key_values cv columns (snd p))) None)
             (filter (duplicated columns df) (indexed df)) r)"

text \<open>One issue per distinct offending value, in the order of their texts.\<close>

definition grouped_values :: "reader \<Rightarrow> frame \<Rightarrow> py_str \<Rightarrow> py_str set \<Rightarrow> cell list" where
  "grouped_values cv df column allowed =
     sort_key (cell_str cv)
       (remdups (List.map_filter (\<lambda>row. if enum_bad cv column allowed row then row column else None) (fr_rows df)))"

definition group_issue :: "reader \<Rightarrow> frame \<Rightarrow> py_str \<Rightarrow> py_str \<Rightarrow> py_str \<Rightarrow> (py_str \<Rightarrow> py_str) \<Rightarrow> cell \<Rightarrow> issue" where
  "group_issue cv df column sheet_name title fix_text c =
     (let count = length (filter (\<lambda>row. row column = Some c) (fr_rows df))
      in block_issue title
           (sheet_name @ '', column '' @ column @ '' ('' @ show_nat count @ '' row'' @ (if count \<noteq> 1 then ''s'' else '''') @ '')'')
           (fix_text (cell_repr cv c)) None)"

fun block_values :: "(cell \<Rightarrow> issue) \<Rightarrow> cell list \<Rightarrow> vresult \<Rightarrow> vresult" where
  "block_values mk [] r = r"
| "block_values mk (c # cs) r = (if remaining_capacity r = 0 then r else block_values mk cs (vr_add (mk c) r))"

definition check_enum_values_grouped ::
    "reader \<Rightarrow> frame \<Rightarrow> py_str \<Rightarrow> py_str set \<Rightarrow> py_str \<Rightarrow> py_str \<Rightarrow> (py_str \<Rightarrow> py_str) \<Rightarrow> vresult \<Rightarrow> vresult" where
  "check_enum_values_grouped cv df column allowed sheet_name title fix_text r =
     (if column \<notin> set (fr_columns df) \<or> remaining_capacity r = 0 then r
      else block_values (group_issue cv df column sheet_name title fix_text) (grouped_values cv df column allowed) r)"

section \<open>The cap\<close>

definition capped :: "vresult \<Rightarrow> bool" where
  "capped r \<longleftrightarrow> length (vr_issues r) \<le> MAX_ISSUES"

definition emit :: "issue list \<Rightarrow> vresult \<Rightarrow> vresult" where
  "emit is r = r \<lparr> vr_issues := vr_issues r @ take (remaining_capacity r) is \<rparr>"

lemma capped_empty [simp]: "capped \<lparr> vr_issues = [] \<rparr>"
  by (simp add: capped_def)

lemma emit_Nil [simp]: "emit [] r = r"
  by (simp add: emit_def)

lemma capped_emit [simp]: "capped r \<Longrightarrow> capped (emit is r)"
  by (simp add: capped_def emit_def remaining_capacity_def)

lemma emit_full: "remaining_capacity r = 0 \<Longrightarrow> emit is r = r"
  by (simp add: emit_def)

lemma vr_add_emit: "capped r \<Longrightarrow> emit is (vr_add i r) = emit (i # is) r"
  by (auto simp: vr_add_def emit_def remaining_capacity_def capped_def not_le take_Cons' Suc_diff_le)

lemma vr_add_capped: "capped r \<Longrightarrow> capped (vr_add i r)"
  by (auto simp: vr_add_def capped_def)

lemma fold_vr_add: "capped r \<Longrightarrow> fold (\<lambda>p. vr_add (mk p)) ps r = emit (map mk ps) r"
proof (induction ps arbitrary: r)
  case (Cons p ps)
  then show ?case using vr_add_emit [of r "map mk ps" "mk p"] vr_add_capped by simp
qed simp

lemma emit_take: "emit (take (remaining_capacity r) is) r = emit is r"
  by (simp add: emit_def)

lemma block_rows_emit: "capped r \<Longrightarrow> block_rows mk ps r = emit (map mk ps) r"
  using emit_take [of r "map mk ps"] by (simp add: block_rows_def fold_vr_add take_map)

lemma block_values_emit: "capped r \<Longrightarrow> block_values mk cs r = emit (map mk cs) r"
proof (induction mk cs r rule: block_values.induct)
  case (2 mk c cs r)
  then show ?case using vr_add_emit [of r "map mk cs" "mk c"] vr_add_capped by (auto simp: emit_full)
qed simp

lemma is_valid_emit:
  assumes "capped r" "\<And>i. i \<in> set is \<Longrightarrow> vi_level i = Block" "list_all (\<lambda>i. vi_level i = Block) (vr_issues r)"
  shows "is_valid (emit is r) \<longleftrightarrow> is_valid r \<and> is = []"
proof (cases "is")
  case (Cons i is')
  show ?thesis
  proof (cases "remaining_capacity r = 0")
    case True
    then have "vr_issues r \<noteq> []" by (auto simp: remaining_capacity_def MAX_ISSUES_def)
    then have "\<not> is_valid r" using assms(3) by (cases "vr_issues r") (simp_all add: is_valid_def)
    with True show ?thesis by (simp add: emit_full)
  next
    case False
    then show ?thesis using Cons assms(2) [of i] by (cases "remaining_capacity r") (auto simp: emit_def is_valid_def)
  qed
qed (simp add: emit_def)

section \<open>The interface of a check\<close>

definition blocking :: "vresult \<Rightarrow> bool" where
  "blocking r \<longleftrightarrow> capped r \<and> list_all (\<lambda>i. vi_level i = Block) (vr_issues r)"

lemma is_valid_empty [simp]: "is_valid \<lparr> vr_issues = [] \<rparr>"
  by (simp add: is_valid_def)

lemma blocking_empty [simp]: "blocking \<lparr> vr_issues = [] \<rparr>"
  by (simp add: blocking_def)

locale blocking_check =
  fixes check :: "'a \<Rightarrow> vresult \<Rightarrow> vresult" and offending :: "'a \<Rightarrow> issue list"
  assumes check_emit: "capped r \<Longrightarrow> check a r = emit (offending a) r"
    and offending_block: "i \<in> set (offending a) \<Longrightarrow> vi_level i = Block"
begin

lemma blocking_kept: "blocking r \<Longrightarrow> blocking (check a r)"
  using offending_block set_take_subset [of "remaining_capacity r" "offending a"]
  by (auto simp: blocking_def check_emit emit_def list_all_iff capped_def remaining_capacity_def)

lemma valid_iff: "blocking r \<Longrightarrow> is_valid (check a r) \<longleftrightarrow> is_valid r \<and> offending a = []"
  by (simp add: blocking_def check_emit is_valid_emit offending_block)

lemma issues_prefix: "capped r \<Longrightarrow> prefix (vr_issues r) (vr_issues (check a r))"
  by (simp add: check_emit emit_def)

end

lemma block_issue_level [simp]: "vi_level (block_issue t l f c) = Block"
  by (simp add: block_issue_def)

lemma row_issue_level [simp]: "vi_level (row_issue t s c f cv p) = Block"
  by (simp add: row_issue_def)

definition enum_offending where
  "enum_offending = (\<lambda>(cv, df, column, allowed, sheet_name, title, fix_text).
     if column \<notin> set (fr_columns df) then []
     else map (row_issue title sheet_name column fix_text cv) (filter (\<lambda>p. enum_bad cv column allowed (snd p)) (indexed df)))"

interpretation enum_check: blocking_check
  "\<lambda>(cv, df, column, allowed, sheet_name, title, fix_text). check_enum_values cv df column allowed sheet_name title fix_text"
  enum_offending
  by unfold_locales
    (auto simp: enum_offending_def check_enum_values_def block_rows_emit emit_full split: if_splits)

definition numeric_offending where
  "numeric_offending = (\<lambda>(cv, df, column, sheet_name, lo, hi, title, fix_text, allow_missing).
     if column \<notin> set (fr_columns df) then []
     else map (row_issue title sheet_name column fix_text cv)
       (filter (\<lambda>p. numeric_bad cv column lo hi allow_missing (snd p)) (indexed df)))"

interpretation numeric_check: blocking_check
  "\<lambda>(cv, df, column, sheet_name, lo, hi, title, fix_text, allow_missing).
     check_numeric_range cv df column sheet_name lo hi title fix_text allow_missing"
  numeric_offending
  by unfold_locales
    (auto simp: numeric_offending_def check_numeric_range_def block_rows_emit emit_full split: if_splits)

definition empty_offending where
  "empty_offending = (\<lambda>(cv, df, column, sheet_name, title, fix_text).
     if column \<notin> set (fr_columns df) then []
     else map (row_issue title sheet_name column (\<lambda>_. fix_text) cv) (filter (\<lambda>p. empty_bad cv column (snd p)) (indexed df)))"

interpretation empty_check: blocking_check
  "\<lambda>(cv, df, column, sheet_name, title, fix_text). check_non_empty_strings cv df column sheet_name title fix_text"
  empty_offending
  by unfold_locales
    (auto simp: empty_offending_def check_non_empty_strings_def block_rows_emit emit_full split: if_splits)

definition date_offending where
  "date_offending = (\<lambda>(cv, df, column, sheet_name, title, fix_text).
     if column \<notin> set (fr_columns df) then []
     else map (row_issue title sheet_name column fix_text cv) (filter (\<lambda>p. date_bad cv column (snd p)) (indexed df)))"

interpretation date_check: blocking_check
  "\<lambda>(cv, df, column, sheet_name, title, fix_text) r. fst (check_valid_dates cv df column sheet_name title fix_text r)"
  date_offending
  by unfold_locales
    (auto simp: date_offending_def check_valid_dates_def block_rows_emit emit_full split: if_splits)

definition unique_offending where
  "unique_offending = (\<lambda>(cv, df, columns, sheet_name, title, fix_text).
     if list_ex (\<lambda>c. c \<notin> set (fr_columns df)) columns then []
     else map (\<lambda>p. block_issue title (location sheet_name (excel_row (fst p)) (hd columns)) (fix_text (key_values cv columns (snd p))) None)
       (filter (duplicated columns df) (indexed df)))"

interpretation unique_check: blocking_check
  "\<lambda>(cv, df, columns, sheet_name, title, fix_text). check_uniqueness cv df columns sheet_name title fix_text"
  unique_offending
  by unfold_locales
    (auto simp: unique_offending_def check_uniqueness_def block_rows_emit emit_full split: if_splits)

definition grouped_offending where
  "grouped_offending = (\<lambda>(cv, df, column, allowed, sheet_name, title, fix_text).
     if column \<notin> set (fr_columns df) then []
     else map (group_issue cv df column sheet_name title fix_text) (grouped_values cv df column allowed))"

interpretation grouped_check: blocking_check
  "\<lambda>(cv, df, column, allowed, sheet_name, title, fix_text). check_enum_values_grouped cv df column allowed sheet_name title fix_text"
  grouped_offending
  by unfold_locales
    (auto simp: grouped_offending_def check_enum_values_grouped_def block_values_emit emit_full group_issue_def Let_def split: if_splits)

definition columns_offending where
  "columns_offending = (\<lambda>(df, required, sheet_name, kind_label).
     map (column_issue sheet_name kind_label) (filter (\<lambda>c. c \<notin> set (fr_columns df)) required))"

lemma missing_column_loop_emit:
  "capped r \<Longrightarrow> fst (missing_column_loop s k ms r) = emit (map (column_issue s k) ms) r"
proof (induction s k ms r rule: missing_column_loop.induct)
  case (2 s k column missing r)
  then show ?case
    using vr_add_emit [of r "map (column_issue s k) missing" "column_issue s k column"] vr_add_capped [of r]
    by (auto simp: emit_full)
qed simp

interpretation columns_check: blocking_check
  "\<lambda>(df, required, sheet_name, kind_label) r. fst (check_required_columns df required sheet_name kind_label r)"
  columns_offending
  by unfold_locales
    (auto simp: columns_offending_def check_required_columns_def Let_def case_prod_beta missing_column_loop_emit column_issue_def)

section \<open>What a valid chain of checks means\<close>

lemma blocking_valid_iff: "blocking r \<Longrightarrow> is_valid r \<longleftrightarrow> vr_issues r = []"
  by (cases "vr_issues r") (auto simp: blocking_def is_valid_def)

lemma valid_capacity: "blocking r \<Longrightarrow> is_valid r \<Longrightarrow> 0 < remaining_capacity r"
  by (simp add: blocking_valid_iff remaining_capacity_def MAX_ISSUES_def)

lemma full_invalid: "blocking r \<Longrightarrow> remaining_capacity r = 0 \<Longrightarrow> \<not> is_valid r"
  using valid_capacity by fastforce

lemma filter_indexed_Nil: "filter (\<lambda>p. P (snd p)) (indexed df) = [] \<longleftrightarrow> (\<forall>row \<in> set (fr_rows df). \<not> P row)"
  by (subst snd_indexed [symmetric]) (simp only: filter_empty_conv ball_simps)

lemma indexed_eq: "p \<in> set (indexed df) \<longleftrightarrow> fst p < length (fr_rows df) \<and> snd p = fr_rows df ! fst p"
proof (cases p)
  case (Pair i row)
  show ?thesis unfolding Pair indexed_def by (auto simp: in_set_zip intro!: exI [of _ i])
qed

lemma duplicated_Nil:
  "filter (duplicated columns df) (indexed df) = [] \<longleftrightarrow> distinct (map (row_key columns) (fr_rows df))"
proof -
  have "filter (duplicated columns df) (indexed df) = [] \<longleftrightarrow>
      (\<forall>i < length (fr_rows df). \<forall>j < length (fr_rows df).
         j \<noteq> i \<longrightarrow> row_key columns (fr_rows df ! j) \<noteq> row_key columns (fr_rows df ! i))"
    unfolding filter_empty_conv duplicated_def list_ex_iff Ball_def Bex_def split_paired_All split_paired_Ex indexed_eq
    by auto
  then show ?thesis by (auto simp: distinct_conv_nth)
qed

lemma grouped_values_Nil:
  "grouped_values cv df column allowed = [] \<longleftrightarrow> (\<forall>row \<in> set (fr_rows df). \<not> enum_bad cv column allowed row)"
proof -
  have "sort_key f xs = [] \<longleftrightarrow> xs = []" for f :: "cell \<Rightarrow> py_str" and xs
    by (metis length_0_conv length_sort)
  then show ?thesis
    by (auto simp: grouped_values_def List.map_filter_def filter_empty_conv enum_bad_def split: option.splits if_splits)
qed

named_theorems check_facts \<open>validity and blocking of each check\<close>

lemma enum_facts [check_facts]:
  assumes "blocking r"
  shows "blocking (check_enum_values cv df c al s t f r)"
    "is_valid (check_enum_values cv df c al s t f r) \<longleftrightarrow>
       is_valid r \<and> (c \<in> set (fr_columns df) \<longrightarrow> (\<forall>row \<in> set (fr_rows df). \<not> enum_bad cv c al row))"
  using enum_check.blocking_kept [OF assms, of "(cv, df, c, al, s, t, f)"]
    enum_check.valid_iff [OF assms, of "(cv, df, c, al, s, t, f)"]
  by (simp_all add: enum_offending_def filter_indexed_Nil)

lemma numeric_facts [check_facts]:
  assumes "blocking r"
  shows "blocking (check_numeric_range cv df c s lo hi t f am r)"
    "is_valid (check_numeric_range cv df c s lo hi t f am r) \<longleftrightarrow>
       is_valid r \<and> (c \<in> set (fr_columns df) \<longrightarrow> (\<forall>row \<in> set (fr_rows df). \<not> numeric_bad cv c lo hi am row))"
  using numeric_check.blocking_kept [OF assms, of "(cv, df, c, s, lo, hi, t, f, am)"]
    numeric_check.valid_iff [OF assms, of "(cv, df, c, s, lo, hi, t, f, am)"]
  by (simp_all add: numeric_offending_def filter_indexed_Nil)

lemma empty_facts [check_facts]:
  assumes "blocking r"
  shows "blocking (check_non_empty_strings cv df c s t f r)"
    "is_valid (check_non_empty_strings cv df c s t f r) \<longleftrightarrow>
       is_valid r \<and> (c \<in> set (fr_columns df) \<longrightarrow> (\<forall>row \<in> set (fr_rows df). \<not> empty_bad cv c row))"
  using empty_check.blocking_kept [OF assms, of "(cv, df, c, s, t, f)"]
    empty_check.valid_iff [OF assms, of "(cv, df, c, s, t, f)"]
  by (simp_all add: empty_offending_def filter_indexed_Nil)

lemma date_facts [check_facts]:
  assumes "blocking r"
  shows "blocking (fst (check_valid_dates cv df c s t f r))"
    "is_valid (fst (check_valid_dates cv df c s t f r)) \<longleftrightarrow>
       is_valid r \<and> (c \<in> set (fr_columns df) \<longrightarrow> (\<forall>row \<in> set (fr_rows df). \<not> date_bad cv c row))"
  using date_check.blocking_kept [OF assms, of "(cv, df, c, s, t, f)"]
    date_check.valid_iff [OF assms, of "(cv, df, c, s, t, f)"]
  by (simp_all add: date_offending_def filter_indexed_Nil)

lemma unique_facts [check_facts]:
  assumes "blocking r"
  shows "blocking (check_uniqueness cv df cs s t f r)"
    "is_valid (check_uniqueness cv df cs s t f r) \<longleftrightarrow>
       is_valid r \<and> (set cs \<subseteq> set (fr_columns df) \<longrightarrow> distinct (map (row_key cs) (fr_rows df)))"
  using unique_check.blocking_kept [OF assms, of "(cv, df, cs, s, t, f)"]
    unique_check.valid_iff [OF assms, of "(cv, df, cs, s, t, f)"]
  by (auto simp: unique_offending_def duplicated_Nil list_ex_iff split: if_splits)

lemma grouped_facts [check_facts]:
  assumes "blocking r"
  shows "blocking (check_enum_values_grouped cv df c al s t f r)"
    "is_valid (check_enum_values_grouped cv df c al s t f r) \<longleftrightarrow>
       is_valid r \<and> (c \<in> set (fr_columns df) \<longrightarrow> (\<forall>row \<in> set (fr_rows df). \<not> enum_bad cv c al row))"
  using grouped_check.blocking_kept [OF assms, of "(cv, df, c, al, s, t, f)"]
    grouped_check.valid_iff [OF assms, of "(cv, df, c, al, s, t, f)"]
  by (simp_all add: grouped_offending_def grouped_values_Nil)

lemma columns_facts [check_facts]:
  assumes "blocking r"
  shows "blocking (fst (check_required_columns df req s k r))"
    "is_valid (fst (check_required_columns df req s k r)) \<longleftrightarrow> is_valid r \<and> set req \<subseteq> set (fr_columns df)"
  using columns_check.blocking_kept [OF assms, of "(df, req, s, k)"]
    columns_check.valid_iff [OF assms, of "(df, req, s, k)"]
  by (auto simp: columns_offending_def filter_empty_conv)

lemma dates_returned:
  assumes "blocking r" "is_valid r" "c \<in> set (fr_columns df)"
  shows "snd (check_valid_dates cv df c s t f r) = Some (parsed_dates cv df c)"
  using valid_capacity [OF assms(1,2)] assms(3) by (simp add: check_valid_dates_def)

end
