(* ===== verification/UploadValidators.thy ===== *)
theory UploadValidators
  imports Validators
begin

text \<open>
  The validators of the three upload kinds and of the files of a run together:
  \<^verbatim>\<open>pd_validator.py\<close>, \<^verbatim>\<open>lgd_validator.py\<close>, \<^verbatim>\<open>ead_validator.py\<close> and \<^verbatim>\<open>cross_file_validator.py\<close> of
  \<^verbatim>\<open>app/engine/validators\<close>. For each the data contract is stated on the cells, and the validator is
  shown to accept exactly the frames that meet it.
\<close>

section \<open>PD uploads\<close>

definition REPORTING_MONTH_ALIASES :: "py_str list" where
  "REPORTING_MONTH_ALIASES = [''Reporting Month'', ''Reporting Month ('' @ [CHR 0x22] @ ''As At'' @ [CHR 0x22] @ '')'', ''As At'']"

definition first_present :: "py_str list \<Rightarrow> py_str list \<Rightarrow> py_str option" where
  "first_present names columns = find (\<lambda>name. name \<in> set columns) names"

definition resolve_reporting_month_column :: "frame \<Rightarrow> py_str option" where
  "resolve_reporting_month_column df = first_present REPORTING_MONTH_ALIASES (fr_columns df)"

definition found :: "py_str \<Rightarrow> py_str \<Rightarrow> py_str \<Rightarrow> py_str" where
  "found before after value = before @ value @ after"

definition staging_fix :: "py_str \<Rightarrow> py_str" where
  "staging_fix = found (''Use exactly one of '' @ [CHR 0x22] @ ''Stage 1'' @ [CHR 0x22] @ '', '' @ [CHR 0x22] @ ''Stage 2''
     @ [CHR 0x22] @ '', or '' @ [CHR 0x22] @ ''Stage 3'' @ [CHR 0x22] @ '' (found '') '').''"

definition pd_required :: "frame \<Rightarrow> py_str list" where
  "pd_required df = [''Loan ID'', ''Staging'', ''Loan Amount'', ''SEGMENT'',
     (case resolve_reporting_month_column df of Some c \<Rightarrow> c | None \<Rightarrow> ''Reporting Month'')]"

definition validate_pd :: "reader \<Rightarrow> frame \<Rightarrow> py_str \<Rightarrow> py_str list \<Rightarrow> vresult" where
  "validate_pd cv df sheet_name allowed_segments =
     (let r0 = fst (check_required_columns df (pd_required df) sheet_name ''PD'' \<lparr> vr_issues = [] \<rparr>)
      in if remaining_capacity r0 = 0 then r0
         else case resolve_reporting_month_column df of
           None \<Rightarrow> r0
         | Some reporting_col \<Rightarrow>
             let r1 = check_non_empty_strings cv df ''Loan ID'' sheet_name ''Loan ID is empty''
                        ''Provide a non-empty Loan ID for every row.'' r0;
                 r2 = check_non_empty_strings cv df ''SEGMENT'' sheet_name ''SEGMENT is empty''
                        ''Provide a non-empty SEGMENT for every row.'' r1;
                 r3 = fst (check_valid_dates cv df reporting_col sheet_name ''Reporting Month is not a valid date''
                        (found ''Use a valid date for Reporting Month (found '' '').'') r2);
                 r4 = check_enum_values cv df ''Staging'' STAGING_VALUES sheet_name ''Invalid Staging value'' staging_fix r3;
                 r5 = check_numeric_range cv df ''Loan Amount'' sheet_name (Some 0) None ''Loan Amount must be non-negative''
                        (found ''Enter a Loan Amount greater than or equal to 0 (found '' '').'') False r4;
                 r6 = (if allowed_segments \<noteq> [] then
                         check_enum_values_grouped cv df ''SEGMENT'' (py_strip ` set allowed_segments) sheet_name
                           ''SEGMENT is not configured for this tenant''
                           (found ''Use a segment from your tenant configuration (found '' '').'') r5
                       else r5)
             in check_uniqueness cv df [''Loan ID'', reporting_col] sheet_name
                  ''Duplicate Loan ID and Reporting Month (EC-10)'' (found ''Remove duplicate rows for '' ''.'') r6)"

section \<open>LGD uploads\<close>

definition LGD_REQUIRED_COLUMNS :: "py_str list" where
  "LGD_REQUIRED_COLUMNS = [''Customer ID'', ''Loan ID'', ''Outstanding Amount'', ''Effective Interest Rate (EIR)'']"

definition LGD_EIR_ALIASES :: "py_str list" where
  "LGD_EIR_ALIASES = [''Effective Interest Rate (EIR)'', ''Effective Interest Rate'', ''EIR'']"

definition lgd_resolve_eir_column :: "frame \<Rightarrow> py_str option" where
  "lgd_resolve_eir_column df = first_present LGD_EIR_ALIASES (fr_columns df)"

definition lgd_required :: "frame \<Rightarrow> py_str list" where
  "lgd_required df = [''Customer ID'', ''Loan ID'', ''Outstanding Amount'',
     (case lgd_resolve_eir_column df of Some c \<Rightarrow> c | None \<Rightarrow> ''Effective Interest Rate (EIR)'')]"

definition lgd_extra_columns :: "frame \<Rightarrow> py_str set \<Rightarrow> py_str list" where
  "lgd_extra_columns df configured =
     filter (\<lambda>c. c \<notin> set LGD_REQUIRED_COLUMNS \<union> set LGD_EIR_ALIASES \<and> c \<notin> configured) (fr_columns df)"

definition extra_column_issue :: "py_str \<Rightarrow> py_str \<Rightarrow> issue" where
  "extra_column_issue sheet_name column =
     block_issue (''Unknown collateral column: '' @ column @ '' (EC-02)'')
       (sheet_name @ '', header row, column '' @ column)
       ''Remove this column or add it to your tenant collateral type configuration.'' None"

fun check_collateral_columns :: "reader \<Rightarrow> frame \<Rightarrow> py_str \<Rightarrow> py_str list \<Rightarrow> vresult \<Rightarrow> vresult" where
  "check_collateral_columns cv df sheet_name [] r = r"
| "check_collateral_columns cv df sheet_name (column # columns) r =
     (if remaining_capacity r = 0 then r
      else check_collateral_columns cv df sheet_name columns
             (check_numeric_range cv df column sheet_name (Some 0) None (column @ '' must be non-negative'')
               (found (''Enter a non-negative value for '' @ column @ '' (found '') '').'') False r))"

definition validate_lgd :: "reader \<Rightarrow> frame \<Rightarrow> py_str \<Rightarrow> py_str list \<Rightarrow> vresult" where
  "validate_lgd cv df sheet_name allowed_collateral_types =
     (let r0 = fst (check_required_columns df (lgd_required df) sheet_name ''LGD'' \<lparr> vr_issues = [] \<rparr>)
      in if remaining_capacity r0 = 0 then r0
         else case lgd_resolve_eir_column df of
           None \<Rightarrow> r0
         | Some eir_col \<Rightarrow>
             let configured = py_strip ` set allowed_collateral_types;
                 r1 = block_rows (extra_column_issue sheet_name) (lgd_extra_columns df configured) r0;
                 r2 = check_non_empty_strings cv df ''Customer ID'' sheet_name ''Customer ID is empty''
                        ''Provide a non-empty Customer ID for every row.'' r1;
                 r3 = check_non_empty_strings cv df ''Loan ID'' sheet_name ''Loan ID is empty''
                        ''Provide a non-empty Loan ID for every row.'' r2;
                 r4 = check_uniqueness cv df [''Loan ID''] sheet_name ''Duplicate Loan ID''
                        (found ''Ensure each Loan ID appears only once (duplicate: '' '').'') r3;
                 r5 = check_numeric_range cv df ''Outstanding Amount'' sheet_name (Some 0) None
                        ''Outstanding Amount must be non-negative''
                        (found ''Enter an Outstanding Amount greater than or equal to 0 (found '' '').'') False r4;
                 r6 = check_numeric_range cv df eir_col sheet_name (Some 0) (Some 1) ''EIR must be between 0 and 1 (EC-05)''
                        (found ''Express EIR as a fraction between 0 and 1, e.g. 0.12 for 12% (found '' '').'') False r5
             in check_collateral_columns cv df sheet_name (filter (\<lambda>c. c \<in> configured) (fr_columns df)) r6)"

section \<open>EAD uploads\<close>

definition DEFAULT_REPAYMENT_FREQUENCIES :: "py_str list" where
  "DEFAULT_REPAYMENT_FREQUENCIES = [''MTH'', ''QTR'']"

definition EADV_STAGING_ALIASES :: "py_str list" where
  "EADV_STAGING_ALIASES = [''Staging'', ''Staging (Stage)'']"

definition EADV_EIR_ALIASES :: "py_str list" where
  "EADV_EIR_ALIASES = [''Effective Interest Rate'', ''Effective Interest Rate (EIR)'', ''EIR'']"

definition ead_required :: "frame \<Rightarrow> py_str list" where
  "ead_required df =
     [''Loan ID'', ''Customer ID'', ''SEGMENT'', ''Reporting Date'', ''Maturity Date'', ''Adjusted Maturity Date'',
      ''First Payment Date'', ''Outstanding Amount'', ''Repayment Frequency'',
      (case first_present EADV_STAGING_ALIASES (fr_columns df) of Some c \<Rightarrow> c | None \<Rightarrow> ''Staging''),
      (case first_present EADV_EIR_ALIASES (fr_columns df) of Some c \<Rightarrow> c | None \<Rightarrow> ''Effective Interest Rate'')]"

definition freq_bad :: "reader \<Rightarrow> py_str set \<Rightarrow> frame_row \<Rightarrow> bool" where
  "freq_bad cv allowed row =
     (case row ''Repayment Frequency'' of None \<Rightarrow> False | Some c \<Rightarrow> py_upper (py_strip (cell_str cv c)) \<notin> allowed)"

definition check_frequency :: "reader \<Rightarrow> frame \<Rightarrow> py_str \<Rightarrow> py_str list \<Rightarrow> vresult \<Rightarrow> vresult" where
  "check_frequency cv df sheet_name frequencies r =
     (if ''Repayment Frequency'' \<in> set (fr_columns df) \<and> 0 < remaining_capacity r then
        block_rows (row_issue ''Unsupported Repayment Frequency (EC-09)'' sheet_name ''Repayment Frequency''
            (found ''Use a supported repayment frequency such as MTH or QTR (found '' '').'') cv)
          (filter (\<lambda>p. freq_bad cv ((\<lambda>f. py_upper (py_strip f)) ` set frequencies) (snd p)) (indexed df)) r
      else r)"

text \<open>
  The three date-order blocks: an issue for every row in which both dates are present and in the
  wrong order, skipped when one of the columns was not parsed.
\<close>

definition check_date_order ::
    "(date \<Rightarrow> date \<Rightarrow> bool) \<Rightarrow> date option list option \<Rightarrow> date option list option \<Rightarrow>
     py_str \<Rightarrow> py_str \<Rightarrow> py_str \<Rightarrow> py_str \<Rightarrow> vresult \<Rightarrow> vresult" where
  "check_date_order wrong first second sheet_name column title fix_text r =
     (case (first, second) of
        (Some as, Some bs) \<Rightarrow>
          if 0 < remaining_capacity r then
            block_rows (\<lambda>i. block_issue title (location sheet_name (excel_row i) column) fix_text None)
              (filter (\<lambda>i. case (as ! i, bs ! i) of (Some a, Some b) \<Rightarrow> wrong a b | _ \<Rightarrow> False) [0..<length as]) r
          else r
      | _ \<Rightarrow> r)"

text \<open>The body of \<open>validate_ead\<close> in three parts: identifiers and dates, cell values, date order.\<close>

record ead_dates =
  ed_reporting :: "date option list option"
  ed_maturity :: "date option list option"
  ed_first_payment :: "date option list option"
  ed_adjusted :: "date option list option"

definition ead_date_checks :: "reader \<Rightarrow> frame \<Rightarrow> py_str \<Rightarrow> vresult \<Rightarrow> vresult \<times> ead_dates" where
  "ead_date_checks cv df sheet_name r0 =
     (let r1 = check_non_empty_strings cv df ''Loan ID'' sheet_name ''Loan ID is empty''
                 ''Provide a non-empty Loan ID for every row.'' r0;
          r2 = check_uniqueness cv df [''Loan ID''] sheet_name ''Duplicate Loan ID''
                 (found ''Ensure each Loan ID appears only once (duplicate: '' '').'') r1;
          (r3, reporting) = check_valid_dates cv df ''Reporting Date'' sheet_name ''Reporting Date is not a valid date''
                 (found ''Use a valid Reporting Date (found '' '').'') r2;
          (r4, maturity) = check_valid_dates cv df ''Maturity Date'' sheet_name ''Maturity Date is not a valid date''
                 (found ''Use a valid Maturity Date (found '' '').'') r3;
          (r5, first_payment) = check_valid_dates cv df ''First Payment Date'' sheet_name ''First Payment Date is not a valid date''
                 (found ''Use a valid First Payment Date (found '' '').'') r4;
          (r6, adjusted) = check_valid_dates cv df ''Adjusted Maturity Date'' sheet_name ''Adjusted Maturity Date is not a valid date''
                 (found ''Use a valid Adjusted Maturity Date (found '' '').'') r5
      in (r6, \<lparr> ed_reporting = reporting, ed_maturity = maturity, ed_first_payment = first_payment, ed_adjusted = adjusted \<rparr>))"

definition ead_value_checks ::
    "reader \<Rightarrow> frame \<Rightarrow> py_str \<Rightarrow> py_str list \<Rightarrow> py_str list \<Rightarrow> py_str \<Rightarrow> py_str \<Rightarrow> vresult \<Rightarrow> vresult" where
  "ead_value_checks cv df sheet_name allowed_segments frequencies staging_col eir_col r6 =
     (let r7 = check_enum_values cv df staging_col STAGING_VALUES sheet_name ''Invalid Staging value'' staging_fix r6;
          r8 = check_numeric_range cv df ''Outstanding Amount'' sheet_name (Some 0) None
                 ''Outstanding Amount must be non-negative''
                 (found ''Enter an Outstanding Amount greater than or equal to 0 (found '' '').'') False r7;
          r9 = check_numeric_range cv df eir_col sheet_name (Some 0) (Some 1) ''EIR must be between 0 and 1 (EC-05)''
                 (found ''Express EIR as a fraction between 0 and 1 (found '' '').'') False r8;
          r10 = (if allowed_segments \<noteq> [] then
                   check_enum_values_grouped cv df ''SEGMENT'' (py_strip ` set allowed_segments) sheet_name
                     ''SEGMENT is not configured for this tenant''
                     (found ''Use a segment from your tenant configuration (found '' '').'') r9
                 else r9)
      in check_frequency cv df sheet_name frequencies r10)"

definition ead_order_checks :: "py_str \<Rightarrow> ead_dates \<Rightarrow> vresult \<Rightarrow> vresult" where
  "ead_order_checks sheet_name dates r11 =
     (let r12 = check_date_order (\<lambda>rep mat. mat < rep) (ed_reporting dates) (ed_maturity dates) sheet_name ''Maturity Date''
                  ''Maturity Date is before Reporting Date (EC-03)'' ''Set Maturity Date on or after Reporting Date.'' r11;
          r13 = check_date_order (\<lambda>rep first. rep < first) (ed_reporting dates) (ed_first_payment dates) sheet_name ''First Payment Date''
                  ''First Payment Date is after Reporting Date (EC-04)'' ''Set First Payment Date on or before Reporting Date.'' r12
      in check_date_order (\<lambda>first adj. adj < first) (ed_first_payment dates) (ed_adjusted dates) sheet_name ''Adjusted Maturity Date''
           ''Adjusted Maturity Date is before First Payment Date'' ''Set Adjusted Maturity Date on or after First Payment Date.'' r13)"

definition ead_frequencies :: "py_str list option \<Rightarrow> py_str list" where
  "ead_frequencies fs = (case fs of Some (f # fs') \<Rightarrow> f # fs' | _ \<Rightarrow> DEFAULT_REPAYMENT_FREQUENCIES)"

definition validate_ead :: "reader \<Rightarrow> frame \<Rightarrow> py_str \<Rightarrow> py_str list \<Rightarrow> py_str list option \<Rightarrow> vresult" where
  "validate_ead cv df sheet_name allowed_segments allowed_frequencies =
     (let frequencies = ead_frequencies allowed_frequencies;
          r0 = fst (check_required_columns df (ead_required df) sheet_name ''EAD'' \<lparr> vr_issues = [] \<rparr>)
      in if remaining_capacity r0 = 0 then r0
         else case (first_present EADV_STAGING_ALIASES (fr_columns df), first_present EADV_EIR_ALIASES (fr_columns df)) of
           (Some staging_col, Some eir_col) \<Rightarrow>
             let (r6, dates) = ead_date_checks cv df sheet_name r0;
                 r11 = ead_value_checks cv df sheet_name allowed_segments frequencies staging_col eir_col r6
             in ead_order_checks sheet_name dates r11
         | _ \<Rightarrow> r0)"

section \<open>Cross-file checks\<close>

definition EIR_TOLERANCE :: num where
  "EIR_TOLERANCE = 1 / 1000000"

definition column_texts :: "reader \<Rightarrow> py_str \<Rightarrow> frame \<Rightarrow> py_str set" where
  "column_texts cv column df =
     (if fr_rows df = [] \<or> column \<notin> set (fr_columns df) then {}
      else {t \<in> set (List.map_filter (\<lambda>row. map_option (\<lambda>c. py_strip (cell_str cv c)) (row column)) (fr_rows df)). t \<noteq> ''''})"

definition loan_ids :: "reader \<Rightarrow> frame \<Rightarrow> py_str set" where
  "loan_ids cv df = column_texts cv ''Loan ID'' df"

definition segments_with_pd :: "reader \<Rightarrow> frame \<Rightarrow> py_str set" where
  "segments_with_pd cv df = column_texts cv ''SEGMENT'' df"

definition ead_segments :: "reader \<Rightarrow> frame \<Rightarrow> py_str set" where
  "ead_segments cv df = column_texts cv ''SEGMENT'' df"

text \<open>
  \<open>_eir_by_loan\<close>: the last row of a loan counts; a missing rate is stored as not-a-number (None),
  an unreadable one is skipped.
\<close>

definition eir_entry :: "reader \<Rightarrow> py_str \<Rightarrow> frame_row \<Rightarrow> (py_str \<times> num option) option" where
  "eir_entry cv col row =
     (let loan_id = py_strip (case row ''Loan ID'' of Some c \<Rightarrow> cell_str cv c | None \<Rightarrow> ''nan'')
      in if loan_id = '''' then None
         else case row col of
           None \<Rightarrow> Some (loan_id, None)
         | Some c \<Rightarrow> (case to_float cv c of None \<Rightarrow> None | Some v \<Rightarrow> Some (loan_id, Some v)))"

definition eir_by_loan :: "reader \<Rightarrow> frame \<Rightarrow> py_str \<rightharpoonup> num option" where
  "eir_by_loan cv df =
     (case first_present LGD_EIR_ALIASES (fr_columns df) of
        None \<Rightarrow> Map.empty
      | Some col \<Rightarrow> (if ''Loan ID'' \<notin> set (fr_columns df) then Map.empty
                     else map_of (rev (List.map_filter (eir_entry cv col) (fr_rows df)))))"

definition eir_mismatch :: "num option option \<Rightarrow> num option option \<Rightarrow> bool" where
  "eir_mismatch a b =
     (case (a, b) of (Some (Some x), Some (Some y)) \<Rightarrow> EIR_TOLERANCE < abs (x - y) | _ \<Rightarrow> False)"

definition sample_of :: "py_str list \<Rightarrow> py_str" where
  "sample_of xs = py_join '', '' (take 5 xs)
     @ (if 5 < length xs then '' (and '' @ show_nat (length xs - 5) @ '' more)'' else '''')"

record cross_file_data =
  cf_pd :: frame
  cf_lgd :: frame
  cf_ead :: frame

definition validate_cross_files :: "reader \<Rightarrow> cross_file_data \<Rightarrow> issue list" where
  "validate_cross_files cv data =
     (let ead_loans = loan_ids cv (cf_ead data); lgd_loans = loan_ids cv (cf_lgd data); pd_loans = loan_ids cv (cf_pd data);
          missing_from_lgd = sorted_list_of_set (ead_loans - lgd_loans);
          r1 = (if missing_from_lgd \<noteq> [] then
                  add_block (show_nat (length missing_from_lgd) @ '' EAD loan(s) missing from LGD file (EC-06)'') ''Cross-file check''
                    (''Every Loan ID in your EAD file must also appear in the LGD file. Missing examples: '' @ sample_of missing_from_lgd @ ''.'')
                    None \<lparr> vr_issues = [] \<rparr>
                else \<lparr> vr_issues = [] \<rparr>);
          missing_from_pd = sorted_list_of_set (ead_loans - pd_loans);
          r2 = (if missing_from_pd \<noteq> [] then
                  add_warn (show_nat (length missing_from_pd) @ '' EAD loan(s) have no PD history'') ''Cross-file check''
                    (''These loans appear in EAD but not in PD: '' @ sample_of missing_from_pd @ ''. Add PD rows for them or remove them from EAD.'')
                    None r1
                else r1);
          missing_segments = sorted_list_of_set (ead_segments cv (cf_ead data) - segments_with_pd cv (cf_pd data));
          r3 = (if missing_segments \<noteq> [] then
                  add_block (''No PD history for segment(s): '' @ py_join '', '' missing_segments @ '' (EC-08)'') ''Cross-file check''
                    (''Every segment in your EAD file must have corresponding PD data. ''
                      @ ''Add these segments to your PD file and re-upload.'') None r2
                else r2);
          lgd_eir = eir_by_loan cv (cf_lgd data); ead_eir = eir_by_loan cv (cf_ead data);
          mismatched = filter (\<lambda>l. eir_mismatch (lgd_eir l) (ead_eir l)) (sorted_list_of_set (ead_loans \<inter> lgd_loans));
          r4 = (if mismatched \<noteq> [] then
                  add_warn (''EIR mismatch between LGD and EAD for '' @ show_nat (length mismatched) @ '' loan(s)'') ''Cross-file check''
                    (''Effective Interest Rate should match between LGD and EAD for the same Loan ID. Affected examples: ''
                      @ sample_of mismatched @ ''. LGD values take precedence at compute time.'') None r3
                else r3)
      in vr_issues r4)"

section \<open>Data contracts\<close>

definition text_ok :: "reader \<Rightarrow> py_str \<Rightarrow> frame_row \<Rightarrow> bool" where
  "text_ok cv col row \<longleftrightarrow> (\<exists>c. row col = Some c \<and> py_strip (cell_str cv c) \<noteq> '''')"

definition number_ok :: "reader \<Rightarrow> py_str \<Rightarrow> num \<Rightarrow> num option \<Rightarrow> frame_row \<Rightarrow> bool" where
  "number_ok cv col lo hi row \<longleftrightarrow>
     (\<exists>c v. row col = Some c \<and> to_numeric cv c = Some v \<and> lo \<le> v \<and> (case hi of Some h \<Rightarrow> v \<le> h | None \<Rightarrow> True))"

definition date_ok :: "reader \<Rightarrow> py_str \<Rightarrow> frame_row \<Rightarrow> bool" where
  "date_ok cv col row \<longleftrightarrow> (\<forall>c. row col = Some c \<longrightarrow> to_datetime cv c \<noteq> None)"

definition one_of :: "reader \<Rightarrow> py_str \<Rightarrow> py_str set \<Rightarrow> frame_row \<Rightarrow> bool" where
  "one_of cv col allowed row \<longleftrightarrow> (\<forall>c. row col = Some c \<longrightarrow> py_strip (cell_str cv c) \<in> allowed)"

text \<open>Two dates in order, when both cells are present.\<close>

definition dates_ordered :: "reader \<Rightarrow> py_str \<Rightarrow> py_str \<Rightarrow> frame_row \<Rightarrow> bool" where
  "dates_ordered cv col col' row \<longleftrightarrow>
     (\<forall>d d'. Option.bind (row col) (to_datetime cv) = Some d \<longrightarrow> Option.bind (row col') (to_datetime cv) = Some d' \<longrightarrow> d \<le> d')"

lemma cell_conditions:
  "\<not> empty_bad cv col row \<longleftrightarrow> text_ok cv col row"
  "\<not> enum_bad cv col allowed row \<longleftrightarrow> one_of cv col allowed row"
  "\<not> date_bad cv col row \<longleftrightarrow> date_ok cv col row"
  "\<not> numeric_bad cv col (Some lo) hi False row \<longleftrightarrow> number_ok cv col lo hi row"
  by (auto simp: empty_bad_def text_ok_def enum_bad_def one_of_def date_bad_def date_ok_def numeric_bad_def number_ok_def
      not_less split: option.splits Option.bind_splits)

definition pd_contract :: "reader \<Rightarrow> frame \<Rightarrow> py_str list \<Rightarrow> bool" where
  "pd_contract cv df allowed \<longleftrightarrow>
     (\<exists>month. resolve_reporting_month_column df = Some month \<and> set (pd_required df) \<subseteq> set (fr_columns df)
        \<and> (\<forall>row \<in> set (fr_rows df). text_ok cv ''Loan ID'' row \<and> text_ok cv ''SEGMENT'' row \<and> date_ok cv month row
             \<and> one_of cv ''Staging'' STAGING_VALUES row \<and> number_ok cv ''Loan Amount'' 0 None row
             \<and> (allowed \<noteq> [] \<longrightarrow> one_of cv ''SEGMENT'' (py_strip ` set allowed) row))
        \<and> distinct (map (row_key [''Loan ID'', month]) (fr_rows df)))"

definition lgd_contract :: "reader \<Rightarrow> frame \<Rightarrow> py_str list \<Rightarrow> bool" where
  "lgd_contract cv df types \<longleftrightarrow>
     (\<exists>eir. lgd_resolve_eir_column df = Some eir \<and> set (lgd_required df) \<subseteq> set (fr_columns df)
        \<and> set (fr_columns df) \<subseteq> set LGD_REQUIRED_COLUMNS \<union> set LGD_EIR_ALIASES \<union> py_strip ` set types
        \<and> (\<forall>row \<in> set (fr_rows df). text_ok cv ''Customer ID'' row \<and> text_ok cv ''Loan ID'' row
             \<and> number_ok cv ''Outstanding Amount'' 0 None row \<and> number_ok cv eir 0 (Some 1) row
             \<and> (\<forall>col \<in> set (fr_columns df) \<inter> py_strip ` set types. number_ok cv col 0 None row))
        \<and> distinct (map (row_key [''Loan ID'']) (fr_rows df)))"

definition freq_ok :: "reader \<Rightarrow> py_str list \<Rightarrow> frame_row \<Rightarrow> bool" where
  "freq_ok cv frequencies row \<longleftrightarrow>
     (\<forall>c. row ''Repayment Frequency'' = Some c \<longrightarrow>
        py_upper (py_strip (cell_str cv c)) \<in> (\<lambda>f. py_upper (py_strip f)) ` set frequencies)"

definition ead_contract :: "reader \<Rightarrow> frame \<Rightarrow> py_str list \<Rightarrow> py_str list \<Rightarrow> bool" where
  "ead_contract cv df allowed frequencies \<longleftrightarrow>
     (\<exists>staging eir. first_present EADV_STAGING_ALIASES (fr_columns df) = Some staging
        \<and> first_present EADV_EIR_ALIASES (fr_columns df) = Some eir \<and> set (ead_required df) \<subseteq> set (fr_columns df)
        \<and> distinct (map (row_key [''Loan ID'']) (fr_rows df))
        \<and> (\<forall>row \<in> set (fr_rows df). text_ok cv ''Loan ID'' row
             \<and> date_ok cv ''Reporting Date'' row \<and> date_ok cv ''Maturity Date'' row
             \<and> date_ok cv ''First Payment Date'' row \<and> date_ok cv ''Adjusted Maturity Date'' row
             \<and> one_of cv staging STAGING_VALUES row \<and> number_ok cv ''Outstanding Amount'' 0 None row
             \<and> number_ok cv eir 0 (Some 1) row \<and> (allowed \<noteq> [] \<longrightarrow> one_of cv ''SEGMENT'' (py_strip ` set allowed) row)
             \<and> freq_ok cv frequencies row \<and> dates_ordered cv ''Reporting Date'' ''Maturity Date'' row
             \<and> dates_ordered cv ''First Payment Date'' ''Reporting Date'' row
             \<and> dates_ordered cv ''First Payment Date'' ''Adjusted Maturity Date'' row))"

section \<open>The remaining checks\<close>

interpretation extra_check: blocking_check
  "\<lambda>(sheet_name, columns). block_rows (extra_column_issue sheet_name) columns"
  "\<lambda>(sheet_name, columns). map (extra_column_issue sheet_name) columns"
  by unfold_locales (auto simp: block_rows_emit extra_column_issue_def)

lemma extra_facts [check_facts]:
  assumes "blocking r"
  shows "blocking (block_rows (extra_column_issue s) cs r)"
    "is_valid (block_rows (extra_column_issue s) cs r) \<longleftrightarrow> is_valid r \<and> cs = []"
  using extra_check.blocking_kept [OF assms, of "(s, cs)"] extra_check.valid_iff [OF assms, of "(s, cs)"] by simp_all

lemma collateral_columns_facts [check_facts]:
  assumes "blocking r"
  shows "blocking (check_collateral_columns cv df s cs r)"
    "is_valid (check_collateral_columns cv df s cs r) \<longleftrightarrow>
       is_valid r \<and> (\<forall>c \<in> set cs. c \<in> set (fr_columns df) \<longrightarrow> (\<forall>row \<in> set (fr_rows df). \<not> numeric_bad cv c (Some 0) None False row))"
proof (atomize (full), use assms in \<open>induction cv df s cs r rule: check_collateral_columns.induct\<close>)
  case (2 cv df s c cs r)
  show ?case
  proof (cases "remaining_capacity r = 0")
    case True
    then show ?thesis using full_invalid [OF "2.prems"] "2.prems" by simp
  next
    case False
    with 2 show ?thesis by (auto simp: numeric_facts)
  qed
qed simp

definition freq_offending where
  "freq_offending = (\<lambda>(cv, df, sheet_name, frequencies).
     if ''Repayment Frequency'' \<in> set (fr_columns df) then
       map (row_issue ''Unsupported Repayment Frequency (EC-09)'' sheet_name ''Repayment Frequency''
            (found ''Use a supported repayment frequency such as MTH or QTR (found '' '').'') cv)
         (filter (\<lambda>p. freq_bad cv ((\<lambda>f. py_upper (py_strip f)) ` set frequencies) (snd p)) (indexed df))
     else [])"

interpretation freq_check: blocking_check
  "\<lambda>(cv, df, sheet_name, frequencies). check_frequency cv df sheet_name frequencies" freq_offending
  by unfold_locales
    (auto simp: freq_offending_def check_frequency_def block_rows_emit emit_full split: if_splits)

lemma not_freq_bad: "\<not> freq_bad cv ((\<lambda>f. py_upper (py_strip f)) ` set fs) row \<longleftrightarrow> freq_ok cv fs row"
  by (simp add: freq_bad_def freq_ok_def split: option.splits)

lemma freq_facts [check_facts]:
  assumes "blocking r"
  shows "blocking (check_frequency cv df s fs r)"
    "is_valid (check_frequency cv df s fs r) \<longleftrightarrow>
       is_valid r \<and> (''Repayment Frequency'' \<in> set (fr_columns df) \<longrightarrow> (\<forall>row \<in> set (fr_rows df). freq_ok cv fs row))"
  using freq_check.blocking_kept [OF assms, of "(cv, df, s, fs)"] freq_check.valid_iff [OF assms, of "(cv, df, s, fs)"]
  by (simp_all add: freq_offending_def filter_indexed_Nil not_freq_bad)

definition order_offending where
  "order_offending = (\<lambda>(wrong, first, second, sheet_name, column, title, fix_text).
     case (first, second) of
        (Some as, Some bs) \<Rightarrow>
          map (\<lambda>i. block_issue title (location sheet_name (excel_row i) column) fix_text None)
            (filter (\<lambda>i. case (as ! i, bs ! i) of (Some a, Some b) \<Rightarrow> wrong a b | _ \<Rightarrow> False) [0..<length as])
      | _ \<Rightarrow> [])"

interpretation order_check: blocking_check
  "\<lambda>(wrong, first, second, sheet_name, column, title, fix_text). check_date_order wrong first second sheet_name column title fix_text"
  order_offending
  by unfold_locales
    (auto simp: order_offending_def check_date_order_def block_rows_emit emit_full split: option.splits)

lemma order_blocking [check_facts]:
  "blocking r \<Longrightarrow> blocking (check_date_order w fs ss s c t f r)"
  using order_check.blocking_kept [of r "(w, fs, ss, s, c, t, f)"] by simp

text \<open>With both columns parsed, the date-order check is a condition on the rows.\<close>

lemma order_valid:
  assumes "blocking r" "is_valid r \<Longrightarrow> fs = Some (parsed_dates cv df c1)" "is_valid r \<Longrightarrow> ss = Some (parsed_dates cv df c2)"
  shows "is_valid (check_date_order w fs ss s c t f r) \<longleftrightarrow> is_valid r
    \<and> (\<forall>row \<in> set (fr_rows df). \<forall>a b. Option.bind (row c1) (to_datetime cv) = Some a \<longrightarrow>
         Option.bind (row c2) (to_datetime cv) = Some b \<longrightarrow> \<not> w a b)"
proof (cases "is_valid r")
  case True
  have "order_offending (w, Some (parsed_dates cv df c1), Some (parsed_dates cv df c2), s, c, t, f) = [] \<longleftrightarrow>
      (\<forall>i < length (fr_rows df). \<forall>a b. Option.bind ((fr_rows df ! i) c1) (to_datetime cv) = Some a \<longrightarrow>
         Option.bind ((fr_rows df ! i) c2) (to_datetime cv) = Some b \<longrightarrow> \<not> w a b)"
    by (simp add: order_offending_def filter_empty_conv parsed_dates_def split: option.split) (simp only: atLeastLessThan_iff le0 simp_thms Ball_def, blast)
  with True assms order_check.valid_iff [OF assms(1), of "(w, fs, ss, s, c, t, f)"] show ?thesis
    by (simp add: all_set_conv_all_nth)
next
  case False
  then show ?thesis using order_check.valid_iff [OF assms(1), of "(w, fs, ss, s, c, t, f)"] by simp
qed

section \<open>Properties\<close>

lemma required_member:
  "first_present names columns = Some c \<Longrightarrow> c \<in> set columns"
  by (auto simp: first_present_def dest: find_SomeD)

lemma validate_pd_blocking: "blocking (validate_pd cv df s allowed)"
  by (simp add: validate_pd_def Let_def check_facts split: option.split)

text \<open>
  C13. The PD validator accepts exactly the frames that meet the PD contract, and it never reports
  more than one hundred issues.
\<close>

theorem validate_pd_iff_contract:
  "(is_valid (validate_pd cv df s allowed) \<longleftrightarrow> pd_contract cv df allowed)
   \<and> length (vr_issues (validate_pd cv df s allowed)) \<le> 100"
proof
  let ?r0 = "fst (check_required_columns df (pd_required df) s ''PD'' \<lparr> vr_issues = [] \<rparr>)"
  have b0: "blocking ?r0" and v0: "is_valid ?r0 \<longleftrightarrow> set (pd_required df) \<subseteq> set (fr_columns df)"
    by (simp_all add: check_facts)
  show "is_valid (validate_pd cv df s allowed) \<longleftrightarrow> pd_contract cv df allowed"
  proof (cases "remaining_capacity ?r0 = 0 \<or> resolve_reporting_month_column df = None")
    case True
    then have "validate_pd cv df s allowed = ?r0" by (auto simp: validate_pd_def Let_def)
    moreover have "\<not> is_valid ?r0"
    proof (cases "remaining_capacity ?r0 = 0")
      case False
      with True have n: "resolve_reporting_month_column df = None" by simp
      then have "''Reporting Month'' \<notin> set (fr_columns df)"
        by (auto simp: resolve_reporting_month_column_def first_present_def REPORTING_MONTH_ALIASES_def split: if_splits)
      then show ?thesis unfolding v0 using n by (simp add: pd_required_def)
    qed (use full_invalid [OF b0] in simp)
    moreover have "\<not> pd_contract cv df allowed" using calculation v0 by (auto simp: pd_contract_def)
    ultimately show ?thesis by simp
  next
    case False
    then obtain m where m: "resolve_reporting_month_column df = Some m" by auto
    have "m \<in> set (fr_columns df)" using m required_member by (simp add: resolve_reporting_month_column_def)
    then show ?thesis using False m b0
      by (cases "set (pd_required df) \<subseteq> set (fr_columns df)")
        (auto simp: validate_pd_def Let_def check_facts v0 cell_conditions pd_contract_def pd_required_def)
  qed
  show "length (vr_issues (validate_pd cv df s allowed)) \<le> 100"
    using validate_pd_blocking [of cv df s allowed] by (simp add: blocking_def capped_def MAX_ISSUES_def)
qed

lemma validate_lgd_blocking: "blocking (validate_lgd cv df s types)"
  by (simp add: validate_lgd_def Let_def check_facts split: option.split)

text \<open>
  The LGD validator accepts exactly the frames that meet the LGD contract, and it never reports
  more than one hundred issues.
\<close>

lemma validate_lgd_iff_contract:
  "(is_valid (validate_lgd cv df s types) \<longleftrightarrow> lgd_contract cv df types)
   \<and> length (vr_issues (validate_lgd cv df s types)) \<le> 100"
proof
  let ?r0 = "fst (check_required_columns df (lgd_required df) s ''LGD'' \<lparr> vr_issues = [] \<rparr>)"
  have b0: "blocking ?r0" and v0: "is_valid ?r0 \<longleftrightarrow> set (lgd_required df) \<subseteq> set (fr_columns df)"
    by (simp_all add: check_facts)
  show "is_valid (validate_lgd cv df s types) \<longleftrightarrow> lgd_contract cv df types"
  proof (cases "remaining_capacity ?r0 = 0 \<or> lgd_resolve_eir_column df = None")
    case True
    then have "validate_lgd cv df s types = ?r0" by (auto simp: validate_lgd_def Let_def)
    moreover have "\<not> is_valid ?r0"
    proof (cases "remaining_capacity ?r0 = 0")
      case False
      with True have n: "lgd_resolve_eir_column df = None" by simp
      then have "''Effective Interest Rate (EIR)'' \<notin> set (fr_columns df)"
        by (auto simp: lgd_resolve_eir_column_def first_present_def LGD_EIR_ALIASES_def split: if_splits)
      then show ?thesis unfolding v0 using n by (simp add: lgd_required_def)
    qed (use full_invalid [OF b0] in simp)
    moreover have "\<not> lgd_contract cv df types" using calculation v0 by (auto simp: lgd_contract_def)
    ultimately show ?thesis by simp
  next
    case False
    then obtain e where e: "lgd_resolve_eir_column df = Some e" by auto
    have m: "e \<in> set (fr_columns df)" using e required_member by (simp add: lgd_resolve_eir_column_def)
    have x: "lgd_extra_columns df (py_strip ` set types) = [] \<longleftrightarrow>
        set (fr_columns df) \<subseteq> set LGD_REQUIRED_COLUMNS \<union> set LGD_EIR_ALIASES \<union> py_strip ` set types"
      by (auto simp: lgd_extra_columns_def filter_empty_conv)
    have "is_valid (validate_lgd cv df s types) \<longleftrightarrow> is_valid ?r0 \<and> lgd_extra_columns df (py_strip ` set types) = []
        \<and> (''Customer ID'' \<in> set (fr_columns df) \<longrightarrow> (\<forall>row \<in> set (fr_rows df). text_ok cv ''Customer ID'' row))
        \<and> (''Loan ID'' \<in> set (fr_columns df) \<longrightarrow> (\<forall>row \<in> set (fr_rows df). text_ok cv ''Loan ID'' row))
        \<and> (set [''Loan ID''] \<subseteq> set (fr_columns df) \<longrightarrow> distinct (map (row_key [''Loan ID'']) (fr_rows df)))
        \<and> (''Outstanding Amount'' \<in> set (fr_columns df) \<longrightarrow> (\<forall>row \<in> set (fr_rows df). number_ok cv ''Outstanding Amount'' 0 None row))
        \<and> (e \<in> set (fr_columns df) \<longrightarrow> (\<forall>row \<in> set (fr_rows df). number_ok cv e 0 (Some 1) row))
        \<and> (\<forall>c \<in> set (filter (\<lambda>c. c \<in> py_strip ` set types) (fr_columns df)). c \<in> set (fr_columns df) \<longrightarrow>
              (\<forall>row \<in> set (fr_rows df). number_ok cv c 0 None row))"
      using False e b0 by (simp only: validate_lgd_def Let_def option.case if_False de_Morgan_disj check_facts cell_conditions conj_assoc)
    with e m x show ?thesis unfolding v0 x lgd_contract_def by (auto simp: lgd_required_def)
  qed
  show "length (vr_issues (validate_lgd cv df s types)) \<le> 100"
    using validate_lgd_blocking [of cv df s types] by (simp add: blocking_def capped_def MAX_ISSUES_def)
qed

lemma ead_date_checks_facts [check_facts]:
  assumes "blocking r"
  shows "blocking (fst (ead_date_checks cv df s r))"
  using assms by (simp add: ead_date_checks_def Let_def case_prod_beta check_facts)

lemma ead_date_checks_valid:
  assumes "blocking r" "{''Loan ID'', ''Reporting Date'', ''Maturity Date'', ''First Payment Date'', ''Adjusted Maturity Date''} \<subseteq> set (fr_columns df)"
  shows "is_valid (fst (ead_date_checks cv df s r)) \<longleftrightarrow> is_valid r \<and> distinct (map (row_key [''Loan ID'']) (fr_rows df))
    \<and> (\<forall>row \<in> set (fr_rows df). text_ok cv ''Loan ID'' row \<and> date_ok cv ''Reporting Date'' row \<and> date_ok cv ''Maturity Date'' row
        \<and> date_ok cv ''First Payment Date'' row \<and> date_ok cv ''Adjusted Maturity Date'' row)"
  using assms by (auto simp: ead_date_checks_def Let_def case_prod_beta check_facts cell_conditions)

lemma ead_dates_parsed:
  assumes "blocking r" "{''Reporting Date'', ''Maturity Date'', ''First Payment Date'', ''Adjusted Maturity Date''} \<subseteq> set (fr_columns df)"
    "is_valid (fst (ead_date_checks cv df s r))"
  shows "snd (ead_date_checks cv df s r) =
    \<lparr> ed_reporting = Some (parsed_dates cv df ''Reporting Date''), ed_maturity = Some (parsed_dates cv df ''Maturity Date''),
      ed_first_payment = Some (parsed_dates cv df ''First Payment Date''), ed_adjusted = Some (parsed_dates cv df ''Adjusted Maturity Date'') \<rparr>"
  using assms by (auto simp: ead_date_checks_def Let_def case_prod_beta check_facts intro!: dates_returned)

lemma ead_value_checks_facts [check_facts]:
  assumes "blocking r"
  shows "blocking (ead_value_checks cv df s al fs st eir r)"
  using assms by (simp add: ead_value_checks_def Let_def check_facts)

lemma ead_value_checks_valid:
  assumes "blocking r" "{''SEGMENT'', ''Outstanding Amount'', ''Repayment Frequency'', st, eir} \<subseteq> set (fr_columns df)"
  shows "is_valid (ead_value_checks cv df s al fs st eir r) \<longleftrightarrow> is_valid r
    \<and> (\<forall>row \<in> set (fr_rows df). one_of cv st STAGING_VALUES row \<and> number_ok cv ''Outstanding Amount'' 0 None row
        \<and> number_ok cv eir 0 (Some 1) row \<and> (al \<noteq> [] \<longrightarrow> one_of cv ''SEGMENT'' (py_strip ` set al) row) \<and> freq_ok cv fs row)"
  using assms by (auto simp: ead_value_checks_def Let_def check_facts cell_conditions)

lemma ead_order_checks_facts [check_facts]: "blocking r \<Longrightarrow> blocking (ead_order_checks s ds r)"
  by (simp add: ead_order_checks_def Let_def check_facts)

lemma order_valid_imp: "blocking r \<Longrightarrow> is_valid (check_date_order w fs ss s c t f r) \<Longrightarrow> is_valid r"
  using order_check.valid_iff [of r "(w, fs, ss, s, c, t, f)"] by simp

text \<open>No check repairs an invalid result.\<close>

lemma ead_chain_invalid:
  assumes "blocking r" "is_valid (ead_order_checks s ds (ead_value_checks cv df s al fs st eir (fst (ead_date_checks cv df s r))))"
  shows "is_valid r"
proof -
  have b: "blocking (ead_value_checks cv df s al fs st eir (fst (ead_date_checks cv df s r)))"
    using assms(1) by (simp add: check_facts)
  have "is_valid (ead_value_checks cv df s al fs st eir (fst (ead_date_checks cv df s r)))"
    using assms(2) unfolding ead_order_checks_def Let_def
    by (intro order_valid_imp [OF b] order_valid_imp [OF order_blocking [OF b]] order_valid_imp [OF order_blocking [OF order_blocking [OF b]]])
  then have "is_valid (fst (ead_date_checks cv df s r))"
    using assms(1) by (simp add: ead_value_checks_def Let_def check_facts split: if_splits)
  then show ?thesis using assms(1) by (simp add: ead_date_checks_def Let_def case_prod_beta check_facts)
qed

lemma ead_order_checks_valid:
  assumes "blocking r" "is_valid r \<Longrightarrow> ds =
    \<lparr> ed_reporting = Some (parsed_dates cv df ''Reporting Date''), ed_maturity = Some (parsed_dates cv df ''Maturity Date''),
      ed_first_payment = Some (parsed_dates cv df ''First Payment Date''), ed_adjusted = Some (parsed_dates cv df ''Adjusted Maturity Date'') \<rparr>"
  shows "is_valid (ead_order_checks s ds r) \<longleftrightarrow> is_valid r
    \<and> (\<forall>row \<in> set (fr_rows df). dates_ordered cv ''Reporting Date'' ''Maturity Date'' row)
    \<and> (\<forall>row \<in> set (fr_rows df). dates_ordered cv ''First Payment Date'' ''Reporting Date'' row)
    \<and> (\<forall>row \<in> set (fr_rows df). dates_ordered cv ''First Payment Date'' ''Adjusted Maturity Date'' row)"
proof -
  define r12 where "r12 = check_date_order (\<lambda>rep mat. mat < rep) (ed_reporting ds) (ed_maturity ds) s ''Maturity Date''
      ''Maturity Date is before Reporting Date (EC-03)'' ''Set Maturity Date on or after Reporting Date.'' r"
  define r13 where "r13 = check_date_order (\<lambda>rep first. rep < first) (ed_reporting ds) (ed_first_payment ds) s ''First Payment Date''
      ''First Payment Date is after Reporting Date (EC-04)'' ''Set First Payment Date on or before Reporting Date.'' r12"
  have b: "blocking r12" "blocking r13" using assms(1) by (simp_all add: r12_def r13_def check_facts)
  have v12: "is_valid r12 \<longleftrightarrow> is_valid r \<and> (\<forall>row \<in> set (fr_rows df). dates_ordered cv ''Reporting Date'' ''Maturity Date'' row)"
    unfolding r12_def by (subst order_valid [OF assms(1)]) (use assms(2) in \<open>auto simp: dates_ordered_def not_less\<close>)
  have v13: "is_valid r13 \<longleftrightarrow> is_valid r12 \<and> (\<forall>row \<in> set (fr_rows df). dates_ordered cv ''First Payment Date'' ''Reporting Date'' row)"
    unfolding r13_def by (subst order_valid [OF b(1)]) (use assms(2) v12 in \<open>auto simp: dates_ordered_def not_less\<close>)
  have "is_valid (ead_order_checks s ds r) \<longleftrightarrow> is_valid r13
      \<and> (\<forall>row \<in> set (fr_rows df). dates_ordered cv ''First Payment Date'' ''Adjusted Maturity Date'' row)"
    unfolding ead_order_checks_def Let_def r12_def [symmetric] r13_def [symmetric]
    by (subst order_valid [OF b(2)]) (use assms(2) v12 v13 in \<open>auto simp: dates_ordered_def not_less\<close>)
  then show ?thesis using v12 v13 by blast
qed

lemma validate_ead_blocking: "blocking (validate_ead cv df s allowed fs)"
  by (simp add: validate_ead_def Let_def case_prod_beta check_facts split: option.split)

text \<open>The result of the check of the columns, from which the rest goes on.\<close>

definition ead_column_check :: "frame \<Rightarrow> py_str \<Rightarrow> vresult" where
  "ead_column_check df s = fst (check_required_columns df (ead_required df) s ''EAD'' \<lparr> vr_issues = [] \<rparr>)"

lemma validate_ead_with_columns:
  assumes "is_valid (ead_column_check df s)"
  shows "is_valid (validate_ead cv df s allowed fs) \<longleftrightarrow> ead_contract cv df allowed (ead_frequencies fs)"
proof -
  let ?r0 = "ead_column_check df s"
  have b0: "blocking ?r0" and v0: "is_valid ?r0 \<longleftrightarrow> set (ead_required df) \<subseteq> set (fr_columns df)"
    by (simp_all add: ead_column_check_def check_facts)
  have req: "set (ead_required df) \<subseteq> set (fr_columns df)" using assms by (simp add: v0)
  have "first_present EADV_STAGING_ALIASES (fr_columns df) \<noteq> None" "first_present EADV_EIR_ALIASES (fr_columns df) \<noteq> None"
    using req by (auto simp: ead_required_def first_present_def EADV_STAGING_ALIASES_def EADV_EIR_ALIASES_def split: if_splits)
  then obtain st eir where c: "first_present EADV_STAGING_ALIASES (fr_columns df) = Some st"
    "first_present EADV_EIR_ALIASES (fr_columns df) = Some eir" by auto
  define p where "p = ead_date_checks cv df s ?r0"
  define r11 where "r11 = ead_value_checks cv df s allowed (ead_frequencies fs) st eir (fst p)"
  have eq: "validate_ead cv df s allowed fs = ead_order_checks s (snd p) r11"
    using valid_capacity [OF b0 assms] by (simp add: validate_ead_def ead_column_check_def Let_def c case_prod_beta p_def r11_def)
  have cols: "set (ead_required df) = {''Loan ID'', ''Customer ID'', ''SEGMENT'', ''Reporting Date'', ''Maturity Date'',
      ''Adjusted Maturity Date'', ''First Payment Date'', ''Outstanding Amount'', ''Repayment Frequency'', st, eir}"
    by (simp add: ead_required_def c)
  have bp: "blocking (fst p)" using b0 by (simp add: p_def check_facts)
  have vp: "is_valid (fst p) \<longleftrightarrow> is_valid ?r0 \<and> distinct (map (row_key [''Loan ID'']) (fr_rows df))
    \<and> (\<forall>row \<in> set (fr_rows df). text_ok cv ''Loan ID'' row \<and> date_ok cv ''Reporting Date'' row \<and> date_ok cv ''Maturity Date'' row
        \<and> date_ok cv ''First Payment Date'' row \<and> date_ok cv ''Adjusted Maturity Date'' row)"
    unfolding p_def by (rule ead_date_checks_valid [OF b0]) (use req in \<open>simp add: cols\<close>)
  have v11: "is_valid r11 \<longleftrightarrow> is_valid (fst p)
    \<and> (\<forall>row \<in> set (fr_rows df). one_of cv st STAGING_VALUES row \<and> number_ok cv ''Outstanding Amount'' 0 None row
      \<and> number_ok cv eir 0 (Some 1) row \<and> (allowed \<noteq> [] \<longrightarrow> one_of cv ''SEGMENT'' (py_strip ` set allowed) row)
      \<and> freq_ok cv (ead_frequencies fs) row)"
    unfolding r11_def by (rule ead_value_checks_valid [OF bp]) (use req in \<open>simp add: cols\<close>)
  have b11: "blocking r11" using bp by (simp add: r11_def check_facts)
  have "snd p = \<lparr> ed_reporting = Some (parsed_dates cv df ''Reporting Date''), ed_maturity = Some (parsed_dates cv df ''Maturity Date''),
    ed_first_payment = Some (parsed_dates cv df ''First Payment Date''), ed_adjusted = Some (parsed_dates cv df ''Adjusted Maturity Date'') \<rparr>"
    if "is_valid r11" unfolding p_def
    by (rule ead_dates_parsed [OF b0]) (use that v11 req in \<open>simp_all add: cols p_def [symmetric]\<close>)
  then have vo: "is_valid (ead_order_checks s (snd p) r11) \<longleftrightarrow> is_valid r11
    \<and> (\<forall>row \<in> set (fr_rows df). dates_ordered cv ''Reporting Date'' ''Maturity Date'' row)
    \<and> (\<forall>row \<in> set (fr_rows df). dates_ordered cv ''First Payment Date'' ''Reporting Date'' row)
    \<and> (\<forall>row \<in> set (fr_rows df). dates_ordered cv ''First Payment Date'' ''Adjusted Maturity Date'' row)"
    by (rule ead_order_checks_valid [OF b11])
  show ?thesis unfolding eq vo v11 vp ead_contract_def c using req assms
    by (simp only: option.inject ex_simps simp_thms) blast
qed

lemma validate_ead_missing_columns:
  assumes "\<not> is_valid (ead_column_check df s)"
  shows "\<not> is_valid (validate_ead cv df s allowed fs) \<and> \<not> ead_contract cv df allowed (ead_frequencies fs)"
proof -
  let ?r0 = "ead_column_check df s"
  have b0: "blocking ?r0" and v0: "is_valid ?r0 \<longleftrightarrow> set (ead_required df) \<subseteq> set (fr_columns df)"
    by (simp_all add: ead_column_check_def check_facts)
  have "validate_ead cv df s allowed fs = ?r0 \<or> \<not> is_valid (validate_ead cv df s allowed fs)"
    using ead_chain_invalid [OF b0] assms unfolding validate_ead_def ead_column_check_def Let_def case_prod_beta
    by (auto split: option.splits)
  with assms have "\<not> is_valid (validate_ead cv df s allowed fs)" by auto
  moreover have "\<not> ead_contract cv df allowed (ead_frequencies fs)" using assms v0 by (auto simp: ead_contract_def)
  ultimately show ?thesis by simp
qed

text \<open>
  C14. The EAD validator accepts exactly the frames that meet the EAD contract, with the date-order
  rules EC-03 and EC-04 included, and it never reports more than one hundred issues.
\<close>

theorem validate_ead_iff_contract:
  "(is_valid (validate_ead cv df s allowed fs) \<longleftrightarrow> ead_contract cv df allowed (ead_frequencies fs))
   \<and> length (vr_issues (validate_ead cv df s allowed fs)) \<le> 100"
proof
  show "is_valid (validate_ead cv df s allowed fs) \<longleftrightarrow> ead_contract cv df allowed (ead_frequencies fs)"
    using validate_ead_with_columns validate_ead_missing_columns by (cases "is_valid (ead_column_check df s)") metis+
  show "length (vr_issues (validate_ead cv df s allowed fs)) \<le> 100"
    using validate_ead_blocking [of cv df s allowed fs] by (simp add: blocking_def capped_def MAX_ISSUES_def)
qed

lemma finite_column_texts [simp]: "finite (column_texts cv col df)"
  by (simp add: column_texts_def)

lemma issues_add:
  "length (vr_issues r) < 100 \<Longrightarrow> vr_issues (add_block t l f c r) = vr_issues r @ [block_issue t l f c]"
  "length (vr_issues r) < 100 \<Longrightarrow> vr_issues (add_warn t l f c r) = vr_issues r @ [warn_issue t l f c]"
  by (simp_all add: add_block_def add_warn_def vr_add_def MAX_ISSUES_def)

lemma warn_issue_level [simp]: "vi_level (warn_issue t l f c) = Warn"
  by (simp add: warn_issue_def)

text \<open>
  Across the files of a run the only blocking conditions are a loan of the EAD file that is
  missing from the LGD file (EC-06) and a segment of the EAD file without PD history (EC-08);
  missing PD history of a loan and differing interest rates only warn.
\<close>

lemma cross_files_block_iff:
  "\<not> list_ex (\<lambda>i. vi_level i = Block) (validate_cross_files cv data) \<longleftrightarrow>
     loan_ids cv (cf_ead data) \<subseteq> loan_ids cv (cf_lgd data)
     \<and> ead_segments cv (cf_ead data) \<subseteq> segments_with_pd cv (cf_pd data)"
proof -
  have e: "sorted_list_of_set (loan_ids cv a - loan_ids cv b) = [] \<longleftrightarrow> loan_ids cv a \<subseteq> loan_ids cv b"
    "sorted_list_of_set (ead_segments cv a - segments_with_pd cv b) = [] \<longleftrightarrow> ead_segments cv a \<subseteq> segments_with_pd cv b" for a b
    by (auto simp: loan_ids_def ead_segments_def segments_with_pd_def sorted_list_of_set_eq_Nil_iff)
  show ?thesis unfolding validate_cross_files_def Let_def
    by (simp add: e issues_add)
qed

section \<open>Witnesses\<close>

text \<open>A reader of cells that are already of the right kind, and one accepted frame of each kind.\<close>

definition plain_reader :: reader where
  "plain_reader = \<lparr> to_numeric = (\<lambda>c. case c of CNum v \<Rightarrow> Some v | _ \<Rightarrow> None),
     to_datetime = (\<lambda>c. case c of CDate d \<Rightarrow> Some d | _ \<Rightarrow> None),
     to_float = (\<lambda>c. case c of CNum v \<Rightarrow> Some v | _ \<Rightarrow> None),
     cell_str = (\<lambda>c. case c of CStr s \<Rightarrow> s | _ \<Rightarrow> ''?''), cell_repr = (\<lambda>_. ''?'') \<rparr>"

definition sample_pd_frame :: frame where
  "sample_pd_frame = \<lparr> fr_columns = [''Loan ID'', ''Staging'', ''Loan Amount'', ''SEGMENT'', ''As At''],
     fr_rows = [[''Loan ID'' \<mapsto> CStr ''L1'', ''Staging'' \<mapsto> CStr ''Stage 1 '', ''Loan Amount'' \<mapsto> CNum 100,
                 ''SEGMENT'' \<mapsto> CStr ''Retail'', ''As At'' \<mapsto> CDate (Date 2024 1 31)]] \<rparr>"

lemma sample_pd_frame_accepted:
  "is_valid (validate_pd plain_reader sample_pd_frame ''Sheet1'' [''Retail''])"
  by code_simp

end
