(* ===== verification/Formats.thy ===== *)
theory Formats
  imports Database
begin

text \<open>
  The texts of the interface: \<^verbatim>\<open>app/engine/format_utils.py\<close>. A number is formatted by rounding it
  half to even to the digits asked for, as Python does; the lemmas read the texts back.
\<close>

section \<open>Format specifications\<close>

definition round_half_even :: "num \<Rightarrow> int" where
  "round_half_even x =
     (let f = \<lfloor>x\<rfloor>; r = x - of_int f
      in if r < 1 / 2 then f else if 1 / 2 < r then f + 1 else if even f then f else f + 1)"

text \<open>Commas between the thousands of a string of digits, from the right.\<close>

fun group_rev :: "py_str \<Rightarrow> py_str" where
  "group_rev (a # b # c # d # ds) = a # b # c # CHR '','' # group_rev (d # ds)"
| "group_rev ds = ds"

definition group_thousands :: "py_str \<Rightarrow> py_str" where
  "group_thousands ds = rev (group_rev (rev ds))"

definition sign_of :: "num \<Rightarrow> py_str" where
  "sign_of x = (if x < 0 then ''-'' else '''')"

text \<open>\<^verbatim>\<open>{x:.<n>f}\<close>, \<^verbatim>\<open>{x:,.0f}\<close> and \<^verbatim>\<open>{i:,}\<close>.\<close>

definition show_fixed :: "nat \<Rightarrow> num \<Rightarrow> py_str" where
  "show_fixed n x =
     (let k = nat (round_half_even (\<bar>x\<bar> * 10 ^ n)); frac = show_nat (k mod 10 ^ n)
      in sign_of x @ show_nat (k div 10 ^ n)
         @ (if n = 0 then '''' else ''.'' @ replicate (n - length frac) CHR ''0'' @ frac))"

definition show_grouped :: "num \<Rightarrow> py_str" where
  "show_grouped x = sign_of x @ group_thousands (show_nat (nat (round_half_even \<bar>x\<bar>)))"

definition show_int_grouped :: "int \<Rightarrow> py_str" where
  "show_int_grouped i = (if i < 0 then ''-'' else '''') @ group_thousands (show_nat (nat \<bar>i\<bar>))"

text \<open>\<open>int(x)\<close>, which rounds towards zero.\<close>

definition py_int :: "num \<Rightarrow> int" where
  "py_int x = (if x < 0 then - \<lfloor>- x\<rfloor> else \<lfloor>x\<rfloor>)"

section \<open>Texts of the interface\<close>

definition ellipsis :: py_str where
  "ellipsis = [CHR 0xE2, CHR 0x80, CHR 0xA6]"

definition short_ulid :: "py_str \<Rightarrow> py_str" where
  "short_ulid ulid =
     (if length ulid \<le> 8 then ulid else take 4 ulid @ ellipsis @ drop (length ulid - 4) ulid)"

definition format_file_size :: "int \<Rightarrow> py_str result" where
  "format_file_size num_bytes =
     (if num_bytes < 0 then Inl (ValueError ''byte count must be non-negative'')
      else if num_bytes < 1024 then Inr (show_int num_bytes @ '' B'')
      else if num_bytes < 1024 ^ 2 then Inr (show_fixed 1 (of_int num_bytes / 1024) @ '' KB'')
      else if num_bytes < 1024 ^ 3 then Inr (show_fixed 1 (of_int num_bytes / 1024 ^ 2) @ '' MB'')
      else Inr (show_fixed 1 (of_int num_bytes / 1024 ^ 3) @ '' GB''))"

definition format_coverage :: "num \<Rightarrow> py_str" where
  "format_coverage ratio = show_fixed 2 (ratio * 100) @ ''%''"

definition format_percent :: "num \<Rightarrow> nat \<Rightarrow> py_str" where
  "format_percent value decimals = show_fixed decimals (value * 100) @ ''%''"

definition format_amount :: "num \<Rightarrow> py_str" where
  "format_amount value = show_grouped value"

definition format_compact_amount :: "num \<Rightarrow> py_str" where
  "format_compact_amount n =
     (if 1000000 \<le> \<bar>n\<bar> then show_fixed 1 (n / 1000000) @ ''M''
      else if 1000 \<le> \<bar>n\<bar> then show_grouped n
      else if \<bar>n\<bar> < 100 then show_fixed 2 n else show_int_grouped (py_int n))"

fun run_status_value :: "run_status \<Rightarrow> py_str" where
  "run_status_value DRAFT = ''draft''"
| "run_status_value QUEUED = ''queued''"
| "run_status_value PD_RUNNING = ''pd_running''"
| "run_status_value LGD_RUNNING = ''lgd_running''"
| "run_status_value EAD_RUNNING = ''ead_running''"
| "run_status_value COMPLETE = ''complete''"
| "run_status_value FAILED = ''failed''"
| "run_status_value DELETED = ''deleted''"

fun map_run_status_to_api :: "run_status \<Rightarrow> py_str" where
  "map_run_status_to_api PD_RUNNING = ''running''"
| "map_run_status_to_api LGD_RUNNING = ''running''"
| "map_run_status_to_api EAD_RUNNING = ''running''"
| "map_run_status_to_api COMPLETE = ''success''"
| "map_run_status_to_api DRAFT = ''draft''"
| "map_run_status_to_api DELETED = ''deleted''"
| "map_run_status_to_api FAILED = ''failed''"
| "map_run_status_to_api QUEUED = ''queued''"

section \<open>Reading back\<close>

lemma round_half_even_near: "\<bar>of_int (round_half_even x) - x\<bar> \<le> 1 / 2"
proof -
  have "of_int \<lfloor>x\<rfloor> \<le> x" "x < of_int \<lfloor>x\<rfloor> + 1" by linarith+
  then show ?thesis by (auto simp: round_half_even_def Let_def abs_le_iff)
qed

lemma round_half_even_nonneg: "0 \<le> x \<Longrightarrow> 0 \<le> round_half_even x"
  using round_half_even_near [of x] by linarith

definition digit_value :: "char \<Rightarrow> nat" where
  "digit_value c = of_char c - 48"

definition read_nat :: "py_str \<Rightarrow> nat" where
  "read_nat s = foldl (\<lambda>n c. 10 * n + digit_value c) 0 (filter (\<lambda>c. c \<noteq> CHR '','') s)"

definition all_digits :: "py_str \<Rightarrow> bool" where
  "all_digits s \<longleftrightarrow> (\<forall>c \<in> set s. \<exists>k < 10. c = digit_char k)"

lemma digit_value_digit [simp]: "k < 10 \<Longrightarrow> digit_value (digit_char k) = k"
  by (simp add: digit_value_def digit_char_def)

lemma digit_not_comma: "k < 10 \<Longrightarrow> digit_char k \<noteq> CHR '',''"
  using digit_value_digit [of k] by (auto simp: digit_char_def dest: arg_cong [where f = "of_char :: char \<Rightarrow> nat"])

lemma all_digits_show_nat: "all_digits (show_nat n)"
proof (induction n rule: show_nat.induct)
  case (1 n)
  then show ?case by (subst show_nat.simps) (auto simp: all_digits_def intro: exI [of _ "n mod 10"])
qed

lemma read_nat_append: "all_digits s \<Longrightarrow> k < 10 \<Longrightarrow> read_nat (s @ [digit_char k]) = 10 * read_nat s + k"
  by (simp add: read_nat_def digit_not_comma)

lemma read_show_nat: "read_nat (show_nat n) = n"
proof (induction n rule: show_nat.induct)
  case (1 n)
  show ?case
  proof (cases "n < 10")
    case True
    then show ?thesis by (subst show_nat.simps) (simp add: read_nat_def digit_not_comma)
  next
    case False
    then have "show_nat n = show_nat (n div 10) @ [digit_char (n mod 10)]" by (subst show_nat.simps) simp
    then show ?thesis using 1 False read_nat_append [OF all_digits_show_nat] by simp
  qed
qed

lemma filter_group_rev: "filter (\<lambda>c. c \<noteq> CHR '','') (group_rev s) = filter (\<lambda>c. c \<noteq> CHR '','') s"
  by (induction s rule: group_rev.induct) auto

lemma read_group_thousands: "read_nat (group_thousands s) = read_nat s"
  by (simp add: read_nat_def group_thousands_def rev_filter [symmetric] filter_group_rev)

text \<open>An amount reads back as the nearest whole number.\<close>

lemma format_amount_reads_back:
  assumes "0 \<le> x"
  shows "\<bar>of_nat (read_nat (format_amount x)) - x\<bar> \<le> 1 / 2"
  using round_half_even_near [of x] round_half_even_nonneg [OF assms] assms
  by (simp add: format_amount_def show_grouped_def sign_of_def read_group_thousands read_show_nat)

end
