(* ===== verification/Runs.thy ===== *)
theory Runs
  imports Tenancy UploadValidators Formats
begin

text \<open>
  Runs and their uploads: \<^verbatim>\<open>app/modules/runs/service.py\<close> without the validation of files (theory
  \<open>RunValidation\<close>), the object storage client \<^verbatim>\<open>app/core/storage.py\<close>, and the endpoints of
  \<^verbatim>\<open>app/modules/runs/router.py\<close>.

  The object storage is a parameter: a state of any type with the operations put, get and delete of
  the S3 client, which may fail; \<open>store_law\<close> states the laws of an object store. An operation works on the pair of
  this state and the database, and the rollback of a request undoes its effect on the database
  only. The other parameters are SHA-256, the ZIP directory and the Excel reader (bytes to named
  frames), the conversion of a time to a text in a time zone, the clock, and the identifiers drawn.
  The audit trail shown with a run is left out, since details of audit entries are not modelled.
\<close>

section \<open>The environment\<close>

type_synonym bytes = "char list"

record 's object_store =
  os_put :: "py_str \<Rightarrow> bytes \<Rightarrow> 's \<Rightarrow> bool \<times> 's"
  os_get :: "py_str \<Rightarrow> 's \<Rightarrow> bytes option"
  os_delete :: "py_str \<Rightarrow> 's \<Rightarrow> bool \<times> 's"

text \<open>A put that succeeds is seen by the next get, a delete removes the object, other keys are not touched.\<close>

definition store_law :: "'s object_store \<Rightarrow> bool" where
  "store_law os \<longleftrightarrow>
     (\<forall>k b s s'. os_put os k b s = (True, s') \<longrightarrow> os_get os k s' = Some b \<and> (\<forall>k'. k' \<noteq> k \<longrightarrow> os_get os k' s' = os_get os k' s))
   \<and> (\<forall>k s s'. os_delete os k s = (True, s') \<longrightarrow> os_get os k s' = None \<and> (\<forall>k'. k' \<noteq> k \<longrightarrow> os_get os k' s' = os_get os k' s))"

record 's run_env =
  re_now :: timestamp
  re_ulid :: "nat \<Rightarrow> py_str"
  re_store :: "'s object_store"
  re_sha256 :: "bytes \<Rightarrow> py_str"
  re_namelist :: "bytes \<Rightarrow> py_str list option"
  re_read_excel :: "bytes \<Rightarrow> (py_str \<times> frame) list result"
  re_reader :: reader
  re_max_upload_bytes :: nat
  re_strftime :: "py_str \<Rightarrow> py_str \<Rightarrow> timestamp \<Rightarrow> py_str result"

type_synonym ('s, 'a) file_op = "('s \<times> db, 'a) op"

section \<open>Object storage\<close>

definition build_storage_path :: "py_str \<Rightarrow> py_str \<Rightarrow> py_str \<Rightarrow> py_str \<Rightarrow> py_str" where
  "build_storage_path tenant_id run_id subfolder filename =
     ''/'' @ tenant_id @ ''/runs/'' @ run_id @ ''/'' @ subfolder @ ''/'' @ filename"

definition normalize_key :: "py_str \<Rightarrow> py_str" where
  "normalize_key key = dropWhile (\<lambda>c. c = CHR ''/'') key"

definition storage_error :: exn where
  "storage_error = ECLException ''STORAGE_UNAVAILABLE'' 503"

definition upload_stream :: "'s run_env \<Rightarrow> py_str \<Rightarrow> bytes \<Rightarrow> ('s, py_str \<times> nat) file_op" where
  "upload_stream e key raw s =
     (case os_put (re_store e) (normalize_key key) raw (fst s) of
        (ok, st) \<Rightarrow> (if ok then Inr (re_sha256 e raw, length raw) else Inl storage_error, (st, snd s)))"

definition download_bytes :: "'s run_env \<Rightarrow> py_str \<Rightarrow> ('s, bytes) file_op" where
  "download_bytes e key =
     read_op (\<lambda>s. case os_get (re_store e) (normalize_key key) (fst s) of None \<Rightarrow> Inl storage_error | Some b \<Rightarrow> Inr b)"

definition delete_object :: "'s run_env \<Rightarrow> py_str \<Rightarrow> ('s, unit) file_op" where
  "delete_object e key s =
     (case os_delete (re_store e) (normalize_key key) (fst s) of
        (ok, st) \<Rightarrow> (if ok then Inr () else Inl storage_error, (st, snd s)))"

section \<open>Queries\<close>

definition get_run_scope_filter :: "user \<Rightarrow> py_str \<Rightarrow> membership option \<Rightarrow> (run \<Rightarrow> bool) result" where
  "get_run_scope_filter u tenant_id membership =
     (if u_is_platform_admin u then Inr (\<lambda>r. r_tenant r = tenant_id)
      else case membership of
        None \<Rightarrow> Inl (ECLException ''NO_MEMBERSHIP'' 403)
      | Some m \<Rightarrow>
          if m_role m \<in> {role_value ADMINISTRATOR, role_value REVIEWER} then Inr (\<lambda>r. r_tenant r = tenant_id)
          else Inr (\<lambda>r. r_tenant r = tenant_id \<and> r_created_by r = u_id u))"

definition run_query :: "py_str \<Rightarrow> py_str \<Rightarrow> run \<Rightarrow> bool" where
  "run_query tenant_id run_id r \<longleftrightarrow> r_id r = run_id \<and> r_tenant r = tenant_id \<and> r_deleted_at r = None"

definition run_not_found :: exn where
  "run_not_found = ECLException ''RUN_NOT_FOUND'' 404"

definition assert_run_visible :: "user \<Rightarrow> py_str \<Rightarrow> membership option \<Rightarrow> py_str \<Rightarrow> (db, run) op" where
  "assert_run_visible u tenant_id membership run_id =
     bind_op (read_op (\<lambda>d. one_or_raise run_not_found (filter (run_query tenant_id run_id) (runs_tbl d)))) (\<lambda>r.
     bind_op (when_op (\<not> u_is_platform_admin u)
       (case membership of
          None \<Rightarrow> raise_op run_not_found
        | Some m \<Rightarrow> when_op (m_role m = role_value ANALYST) (guard_op (r_created_by r = u_id u) run_not_found))) (\<lambda>_.
     return_op r))"

definition get_run_row :: "py_str \<Rightarrow> py_str \<Rightarrow> (db, run) op" where
  "get_run_row tenant_id run_id = read_op (\<lambda>d. one_or_raise not_found (filter (run_query tenant_id run_id) (runs_tbl d)))"

definition get_run_for_update :: "py_str \<Rightarrow> py_str \<Rightarrow> (db, run) op" where
  "get_run_for_update tenant_id run_id = read_op (\<lambda>d. one_or_raise not_found (filter (run_query tenant_id run_id) (runs_tbl d)))"

definition get_tenant_row :: "py_str \<Rightarrow> (db, tenant) op" where
  "get_tenant_row tenant_id = read_op (\<lambda>d. one_or_raise not_found (filter (live_tenant tenant_id) (tenants d)))"

definition get_user_row :: "py_str \<Rightarrow> (db, user) op" where
  "get_user_row user_id = read_op (\<lambda>d. one_or_raise not_found (filter (\<lambda>u. u_id u = user_id) (users d)))"

definition load_uploads :: "py_str \<Rightarrow> db \<Rightarrow> upload list" where
  "load_uploads run_id d = filter (\<lambda>u. up_run u = run_id) (uploads_tbl d)"

text \<open>
  A change of a row through the mapper: the column \<^verbatim>\<open>updated_at\<close> is set when another column changes.
\<close>

definition touch :: "timestamp \<Rightarrow> run \<Rightarrow> run \<Rightarrow> run" where
  "touch now r r' = (if r' = r then r else r' \<lparr> r_updated_at := now \<rparr>)"

definition write_run :: "timestamp \<Rightarrow> py_str \<Rightarrow> py_str \<Rightarrow> (run \<Rightarrow> run) \<Rightarrow> (db, unit) op" where
  "write_run now tenant_id run_id f =
     modify_op (\<lambda>d. d \<lparr> runs_tbl := update_rows (run_query tenant_id run_id) (\<lambda>r. touch now r (f r)) (runs_tbl d) \<rparr>)"

definition clear_run_results :: "py_str \<Rightarrow> py_str \<Rightarrow> (db, unit) op" where
  "clear_run_results run_id tenant_id =
     modify_op (\<lambda>d. d \<lparr>
       pd_results_tbl := filter (\<lambda>x. \<not> (pr_run x = run_id \<and> pr_tenant x = tenant_id)) (pd_results_tbl d),
       lgd_results_tbl := filter (\<lambda>x. \<not> (lgr_run x = run_id \<and> lgr_tenant x = tenant_id)) (lgd_results_tbl d),
       ead_results_tbl := filter (\<lambda>x. \<not> (edr_run x = run_id \<and> edr_tenant x = tenant_id)) (ead_results_tbl d),
       artifacts_tbl := filter (\<lambda>x. \<not> (oa_run x = run_id \<and> oa_tenant x = tenant_id)) (artifacts_tbl d) \<rparr>)"

definition pending_stage :: stage_progress where
  "pending_stage = \<lparr> sp_status = STAGE_PENDING, sp_started_at = None, sp_finished_at = None, sp_elapsed_ms = None \<rparr>"

definition default_engine_progress :: "stage_key \<rightharpoonup> stage_progress" where
  "default_engine_progress = (\<lambda>_. Some pending_stage)"

section \<open>Views\<close>

text \<open>The values of \<open>f\<close> along a list, or the first exception.\<close>

fun collect :: "('a \<Rightarrow> 'b result) \<Rightarrow> 'a list \<Rightarrow> 'b list result" where
  "collect f [] = Inr []"
| "collect f (x # xs) =
     (case f x of Inl e \<Rightarrow> Inl e | Inr y \<Rightarrow> (case collect f xs of Inl e \<Rightarrow> Inl e | Inr ys \<Rightarrow> Inr (y # ys)))"

record run_list_item =
  rl_id :: py_str
  rl_full_id :: py_str
  rl_name :: py_str
  rl_period :: py_str
  rl_created_at :: py_str
  rl_by_initials :: py_str
  rl_by_name :: py_str
  rl_status :: py_str
  rl_ecl_amount :: "num option"
  rl_coverage :: "py_str option"
  rl_currency :: py_str

record engine_progress_out =
  ep_pd :: stage_progress
  ep_lgd :: stage_progress
  ep_ead :: stage_progress
  ep_ecl :: stage_progress

record kpi_out =
  kp_id :: py_str
  kp_label :: py_str
  kp_help_text :: "py_str option"
  kp_value :: py_str
  kp_sub_note :: "py_str option"

record input_file_out =
  if_kind :: upload_kind
  if_name :: py_str
  if_size :: py_str
  if_sheets :: nat
  if_status :: validation_status
  if_warning_count :: "nat option"
  if_hash :: py_str

record engine_info_out =
  ei_version :: py_str
  ei_released_date :: py_str
  ei_pd_method :: py_str
  ei_lgd_method :: py_str
  ei_ead_method :: py_str
  ei_pd_files_combined :: bool
  ei_deterministic :: bool

record failure_details =
  fd_stage :: py_str
  fd_message :: py_str
  fd_ref :: py_str

record run_detail =
  rd_base :: run_list_item
  rd_elapsed :: "py_str option"
  rd_kpis :: "kpi_out list"
  rd_segments :: "(py_str \<times> num) list"
  rd_input_files :: "input_file_out list"
  rd_engine_info :: engine_info_out
  rd_progress :: "engine_progress_out option"
  rd_failure :: "failure_details option"
  rd_deleted_by :: "py_str option"
  rd_deleted_at :: "py_str option"
  rd_accepted_warnings :: "nat option"

definition ENGINE_VERSION :: py_str where
  "ENGINE_VERSION = ''v1.0.0''"

definition format_dt :: "'s run_env \<Rightarrow> timestamp option \<Rightarrow> py_str \<Rightarrow> py_str result" where
  "format_dt e dt tz = (case dt of None \<Rightarrow> Inr '''' | Some t \<Rightarrow> re_strftime e ''%d %b %H:%M'' tz t)"

definition format_date :: "'s run_env \<Rightarrow> timestamp option \<Rightarrow> py_str \<Rightarrow> py_str result" where
  "format_date e dt tz = (case dt of None \<Rightarrow> Inr '''' | Some t \<Rightarrow> re_strftime e ''%d %b %Y'' tz t)"

definition format_elapsed :: "timestamp option \<Rightarrow> timestamp option \<Rightarrow> py_str option" where
  "format_elapsed started finished =
     (case (started, finished) of
        (Some s, Some f) \<Rightarrow>
          let seconds = f - s; minutes = seconds div 60; secs = seconds mod 60
          in if seconds < 60 then Some (show_int seconds @ ''s'')
             else if secs \<noteq> 0 then Some (show_int minutes @ ''m '' @ show_int secs @ ''s'')
             else Some (show_int minutes @ ''m'')
      | _ \<Rightarrow> None)"

definition stage_out :: "stage_progress option \<Rightarrow> stage_progress" where
  "stage_out data = (case data of None \<Rightarrow> pending_stage | Some p \<Rightarrow> p)"

definition engine_progress_out_of :: "(stage_key \<rightharpoonup> stage_progress) option \<Rightarrow> engine_progress_out option" where
  "engine_progress_out_of progress =
     (case progress of
        None \<Rightarrow> None
      | Some p \<Rightarrow> if p StPD = None \<and> p StLGD = None \<and> p StEAD = None \<and> p StECL = None then None
          else Some \<lparr> ep_pd = stage_out (p StPD), ep_lgd = stage_out (p StLGD), ep_ead = stage_out (p StEAD), ep_ecl = stage_out (p StECL) \<rparr>)"

definition build_kpis :: "run \<Rightarrow> nat \<Rightarrow> kpi_out list" where
  "build_kpis r loan_count =
     (if r_status r \<noteq> COMPLETE then
        map (\<lambda>(i, l). \<lparr> kp_id = i, kp_label = l, kp_help_text = None, kp_value = em_dash, kp_sub_note = None \<rparr>)
          [(''total-ecl'', ''Total ECL''), (''coverage'', ''Coverage ratio''), (''outstanding'', ''Total outstanding''), (''loans'', ''Loans analysed'')]
      else
        let total_ecl = (case r_total_ecl r of None \<Rightarrow> 0 | Some x \<Rightarrow> x);
            outstanding = (case r_total_outstanding r of None \<Rightarrow> 0 | Some x \<Rightarrow> x);
            coverage = (case r_coverage r of None \<Rightarrow> em_dash | Some x \<Rightarrow> if x = 0 then em_dash else format_coverage x);
            loans = show_int_grouped (int loan_count) in
        [\<lparr> kp_id = ''total-ecl'', kp_label = ''Total ECL'', kp_help_text = None, kp_value = format_amount total_ecl, kp_sub_note = None \<rparr>,
         \<lparr> kp_id = ''coverage'', kp_label = ''Coverage ratio'', kp_help_text = Some (''ECL '' @ [CHR 0xC3, CHR 0xB7] @ '' total outstanding''),
           kp_value = coverage, kp_sub_note = None \<rparr>,
         \<lparr> kp_id = ''outstanding'', kp_label = ''Total outstanding'', kp_help_text = None, kp_value = format_compact_amount outstanding,
           kp_sub_note = (if loan_count = 0 then None else Some (loans @ '' loans'')) \<rparr>,
         \<lparr> kp_id = ''loans'', kp_label = ''Loans analysed'', kp_help_text = None, kp_value = (if loan_count = 0 then em_dash else loans),
           kp_sub_note = None \<rparr>])"

definition segment_bars :: "py_str \<Rightarrow> py_str \<Rightarrow> db \<Rightarrow> (py_str \<times> num) list" where
  "segment_bars run_id tenant_id d =
     take 6 (sort_key (\<lambda>(name, ecl). - ecl)
       (map (\<lambda>(name, grp). (name, \<Sum>x\<leftarrow>grp. edr_discounted x))
         (groups edr_segment (filter (\<lambda>x. edr_run x = run_id \<and> edr_tenant x = tenant_id) (ead_results_tbl d)))))"

definition engine_info :: "run \<Rightarrow> engine_info_out" where
  "engine_info r =
     \<lparr> ei_version = r_engine_version r, ei_released_date = ''2026-06-01'',
       ei_pd_method = ''Transition matrix with 299 monthly powers, normalized Stage 1/3 rows'',
       ei_lgd_method = ''Proportional collateral allocation with haircut and time discount'',
       ei_ead_method = ''IFRS 9 stage-based snapshot rundown with missed payment compounding'',
       ei_pd_files_combined = r_combine_pd r, ei_deterministic = True \<rparr>"

definition hash_display :: "py_str \<Rightarrow> py_str" where
  "hash_display sha256 = short_ulid sha256"

definition upload_to_input_file :: "upload \<Rightarrow> nat \<Rightarrow> input_file_out result" where
  "upload_to_input_file u warning_count =
     (case format_file_size (int (up_size u)) of
        Inl e \<Rightarrow> Inl e
      | Inr size_text \<Rightarrow> Inr
          \<lparr> if_kind = up_kind u, if_name = up_filename u, if_size = size_text,
            if_sheets = (case up_sheets u of None \<Rightarrow> 1 | Some n \<Rightarrow> if n = 0 then 1 else n),
            if_status = (case up_status u of None \<Rightarrow> VALIDATION_OK | Some s \<Rightarrow> s),
            if_warning_count = (if warning_count = 0 then None else Some warning_count), if_hash = hash_display (up_sha256 u) \<rparr>)"

definition input_files :: "py_str \<Rightarrow> db \<Rightarrow> input_file_out list result" where
  "input_files run_id d =
     collect (\<lambda>u. upload_to_input_file u (if up_status u = Some VALIDATION_WARN then 1 else 0)) (load_uploads run_id d)"

definition run_list_item_of :: "'s run_env \<Rightarrow> run \<Rightarrow> user \<Rightarrow> tenant \<Rightarrow> run_list_item result" where
  "run_list_item_of e r u t =
     (case format_dt e (Some (r_created_at r)) (t_timezone t) of
        Inl x \<Rightarrow> Inl x
      | Inr created \<Rightarrow> Inr
          \<lparr> rl_id = short_ulid (r_id r), rl_full_id = r_id r, rl_name = r_name r,
            rl_period = (if truthy (r_period r) then the (r_period r) else r_name r), rl_created_at = created,
            rl_by_initials = user_initials (u_name u), rl_by_name = u_name u, rl_status = map_run_status_to_api (r_status r),
            rl_ecl_amount = r_total_ecl r,
            rl_coverage = (if r_status r = COMPLETE then map_option format_coverage (r_coverage r) else None),
            rl_currency = t_currency t \<rparr>)"

definition loan_count_of :: "py_str \<Rightarrow> py_str \<Rightarrow> db \<Rightarrow> nat" where
  "loan_count_of run_id tenant_id d =
     card (set (map edr_loan (filter (\<lambda>x. edr_run x = run_id \<and> edr_tenant x = tenant_id) (ead_results_tbl d))))"

definition get_run :: "'s run_env \<Rightarrow> py_str \<Rightarrow> py_str \<Rightarrow> (user \<times> membership option) option \<Rightarrow> (db, run_detail) op" where
  "get_run e tenant_id run_id viewer =
     bind_op (get_tenant_row tenant_id) (\<lambda>t.
     bind_op (case viewer of
         Some (u, membership) \<Rightarrow> assert_run_visible u tenant_id membership run_id
       | None \<Rightarrow> read_op (\<lambda>d. one_or_raise not_found (filter (\<lambda>r. r_id r = run_id \<and> r_tenant r = tenant_id) (runs_tbl d)))) (\<lambda>r.
     bind_op (get_user_row (r_created_by r)) (\<lambda>u.
     bind_op (read_op (\<lambda>_. run_list_item_of e r u t)) (\<lambda>base.
     bind_op (read_op (\<lambda>d. Inr (loan_count_of run_id tenant_id d))) (\<lambda>loan_count.
     bind_op (if truthy (r_deleted_by r) then bind_op (get_user_row (the (r_deleted_by r))) (\<lambda>deleter. return_op (Some (u_name deleter)))
              else return_op None) (\<lambda>deleted_by_name.
     let failure = (if truthy (r_failure_stage r) \<and> truthy (r_failure_message r) then
           Some \<lparr> fd_stage = the (r_failure_stage r), fd_message = the (r_failure_message r),
                  fd_ref = (case r_failure_ref r of None \<Rightarrow> '''' | Some x \<Rightarrow> x) \<rparr> else None) in
     bind_op (read_op (\<lambda>d. Inr (length (filter up_warnings_accepted (load_uploads run_id d))))) (\<lambda>accepted.
     bind_op (read_op (\<lambda>d. Inr (if r_status r = COMPLETE then segment_bars run_id tenant_id d else []))) (\<lambda>bars.
     bind_op (read_op (input_files run_id)) (\<lambda>files.
     bind_op (if r_deleted_at r = None then return_op None
              else bind_op (read_op (\<lambda>_. format_date e (r_deleted_at r) (t_timezone t))) (\<lambda>x. return_op (Some x))) (\<lambda>deleted_at.
     return_op \<lparr> rd_base = base, rd_elapsed = format_elapsed (r_started_at r) (r_finished_at r), rd_kpis = build_kpis r loan_count,
       rd_segments = bars, rd_input_files = files, rd_engine_info = engine_info r, rd_progress = engine_progress_out_of (r_progress r),
       rd_failure = failure, rd_deleted_by = deleted_by_name, rd_deleted_at = deleted_at,
       rd_accepted_warnings = (if accepted = 0 then None else Some accepted) \<rparr>))))))))))"

text \<open>\<open>s.split(c)\<close>.\<close>

fun py_split :: "char \<Rightarrow> py_str \<Rightarrow> py_str list" where
  "py_split c [] = [[]]"
| "py_split c (x # xs) = (if x = c then [] # py_split c xs else case py_split c xs of p # ps \<Rightarrow> (x # p) # ps | [] \<Rightarrow> [[x]])"

text \<open>The operator LIKE with its wildcards and escape character; ILIKE on lower-case texts.\<close>

fun sql_like :: "py_str \<Rightarrow> py_str \<Rightarrow> bool" where
  "sql_like [] s = (s = [])"
| "sql_like (p # ps) [] = (p = CHR ''%'' \<and> sql_like ps [])"
| "sql_like (p # ps) (x # xs) =
     (if p = CHR ''%'' then sql_like ps (x # xs) \<or> sql_like (p # ps) xs
      else if p = CHR ''_'' then sql_like ps xs
      else if p = CHR 0x5C then (case ps of [] \<Rightarrow> False | q # qs \<Rightarrow> q = x \<and> sql_like qs xs)
      else p = x \<and> sql_like ps xs)"

definition sql_ilike :: "py_str \<Rightarrow> py_str \<Rightarrow> bool" where
  "sql_ilike pattern s = sql_like (py_lower pattern) (py_lower s)"

definition status_token :: "py_str \<Rightarrow> py_str list" where
  "status_token token =
     (if token = ''running'' then map run_status_value [PD_RUNNING, LGD_RUNNING, EAD_RUNNING, QUEUED]
      else if token = ''success'' then [run_status_value COMPLETE]
      else if token = ''draft'' then [run_status_value DRAFT]
      else if token = ''failed'' then [run_status_value FAILED]
      else if token = ''queued'' then [run_status_value QUEUED]
      else if token = ''deleted'' then [run_status_value DELETED]
      else [token])"

definition status_matches :: "py_str option \<Rightarrow> run \<Rightarrow> bool" where
  "status_matches status r \<longleftrightarrow>
     (if truthy status \<and> status \<noteq> Some ''all''
      then run_status_value (r_status r) \<in> set (concat (map (\<lambda>token. status_token (py_strip token)) (py_split CHR '','' (the status))))
      else True)"

definition search_matches :: "py_str option \<Rightarrow> run \<Rightarrow> bool" where
  "search_matches search r \<longleftrightarrow>
     (if truthy search
      then let pattern = ''%'' @ py_strip (the search) @ ''%''
           in sql_ilike pattern (r_name r) \<or> (case r_period r of None \<Rightarrow> False | Some p \<Rightarrow> sql_ilike pattern p)
      else True)"

definition run_rows :: "(run \<Rightarrow> bool) \<Rightarrow> py_str option \<Rightarrow> py_str option \<Rightarrow> db \<Rightarrow> (run \<times> user) list" where
  "run_rows scope status search d =
     sort_key (\<lambda>(r, _). - r_created_at r)
       (concat (map (\<lambda>r. map (\<lambda>u. (r, u)) (filter (\<lambda>u. u_id u = r_created_by r) (users d)))
         (filter (\<lambda>r. scope r \<and> r_deleted_at r = None \<and> status_matches status r \<and> search_matches search r) (runs_tbl d))))"

definition list_runs ::
    "'s run_env \<Rightarrow> py_str \<Rightarrow> (user \<times> membership option) option \<Rightarrow> nat \<Rightarrow> nat \<Rightarrow> py_str option \<Rightarrow> py_str option
     \<Rightarrow> (db, run_list_item list \<times> page_meta) op" where
  "list_runs e tenant_id viewer page per_page status search =
     bind_op (get_tenant_row tenant_id) (\<lambda>t.
     bind_op (case viewer of
         Some (u, membership) \<Rightarrow> read_op (\<lambda>_. get_run_scope_filter u tenant_id membership)
       | None \<Rightarrow> return_op (\<lambda>r. r_tenant r = tenant_id)) (\<lambda>scope.
     bind_op (read_op (\<lambda>d. Inr (paginate (run_rows scope status search d) page per_page))) (\<lambda>(rows, meta).
     bind_op (read_op (\<lambda>_. collect (\<lambda>(r, u). run_list_item_of e r u t) rows)) (\<lambda>items.
     return_op (items, meta)))))"

section \<open>Creating and editing runs\<close>

record create_run_request =
  crr_name :: py_str
  crr_reporting_period :: "py_str option"

record update_run_request =
  urr_combine_pd_files :: "bool option"
  urr_name :: "py_str option"
  urr_reporting_period :: "py_str option"

record rerun_request =
  rrq_name :: "py_str option"

definition new_run :: "'s run_env \<Rightarrow> py_str \<Rightarrow> py_str \<Rightarrow> py_str \<Rightarrow> py_str \<Rightarrow> py_str option \<Rightarrow> bool \<Rightarrow> run" where
  "new_run e new_id tenant_id user_id name period combine =
     \<lparr> r_id = new_id, r_tenant = tenant_id, r_created_by = user_id, r_name = name, r_period = period, r_status = DRAFT,
       r_engine_version = ENGINE_VERSION, r_progress = None, r_combine_pd = combine, r_failure_stage = None, r_failure_message = None,
       r_failure_ref = None, r_total_ecl = None, r_total_outstanding = None, r_coverage = None, r_warnings = None,
       r_started_at = None, r_finished_at = None, r_created_at = re_now e, r_updated_at = re_now e, r_deleted_at = None,
       r_deleted_by = None \<rparr>"

definition add_run :: "run \<Rightarrow> (db, unit) op" where
  "add_run r = modify_op (\<lambda>d. d \<lparr> runs_tbl := runs_tbl d @ [r] \<rparr>)"

definition create_run :: "'s run_env \<Rightarrow> py_str \<Rightarrow> py_str \<Rightarrow> create_run_request \<Rightarrow> (db, run_detail) op" where
  "create_run e tenant_id user_id req =
     bind_op (get_tenant_row tenant_id) (\<lambda>_.
     bind_op (get_user_row user_id) (\<lambda>_.
     bind_op (add_run (new_run e (re_ulid e 0) tenant_id user_id (py_strip (crr_name req)) (strip_or_none (crr_reporting_period req)) True)) (\<lambda>_.
     bind_op (modify_op (log_event ''run.created'' (Some user_id) None True None)) (\<lambda>_.
     get_run e tenant_id (re_ulid e 0) None))))"

definition patch_run :: "update_run_request \<Rightarrow> run \<Rightarrow> run" where
  "patch_run req r =
     (let r1 = (case urr_combine_pd_files req of None \<Rightarrow> r | Some b \<Rightarrow> r \<lparr> r_combine_pd := b \<rparr>);
          r2 = (case urr_name req of None \<Rightarrow> r1 | Some n \<Rightarrow> r1 \<lparr> r_name := py_strip n \<rparr>)
      in case urr_reporting_period req of None \<Rightarrow> r2 | Some p \<Rightarrow> r2 \<lparr> r_period := none_if_blank p \<rparr>)"

definition update_run :: "'s run_env \<Rightarrow> py_str \<Rightarrow> py_str \<Rightarrow> update_run_request \<Rightarrow> (db, run_detail) op" where
  "update_run e tenant_id run_id req =
     bind_op (get_run_row tenant_id run_id) (\<lambda>r.
     bind_op (guard_op (r_status r \<in> {DRAFT, QUEUED}) (ECLException ''RUN_NOT_EDITABLE'' 409)) (\<lambda>_.
     bind_op (write_run (re_now e) tenant_id run_id (patch_run req)) (\<lambda>_.
     get_run e tenant_id run_id None)))"

section \<open>Uploads\<close>

fun upload_kind_value :: "upload_kind \<Rightarrow> py_str" where
  "upload_kind_value UPLOAD_PD = ''PD''"
| "upload_kind_value UPLOAD_LGD = ''LGD''"
| "upload_kind_value UPLOAD_EAD = ''EAD''"

definition parse_kind :: "py_str \<Rightarrow> upload_kind option" where
  "parse_kind kind = find (\<lambda>k. upload_kind_value k = kind) [UPLOAD_PD, UPLOAD_LGD, UPLOAD_EAD]"

definition ALLOWED_CONTENT_TYPES :: "py_str set" where
  "ALLOWED_CONTENT_TYPES = {''application/vnd.openxmlformats-officedocument.spreadsheetml.sheet'', ''application/octet-stream'', ''application/vnd.ms-excel''}"

definition assert_upload_safe :: "'s run_env \<Rightarrow> bytes \<Rightarrow> py_str \<Rightarrow> unit result" where
  "assert_upload_safe e content content_type =
     (if content_type \<notin> ALLOWED_CONTENT_TYPES then Inl (ECLException ''UNSUPPORTED_MEDIA_TYPE'' 415)
      else case re_namelist e content of
        None \<Rightarrow> Inl (ECLException ''INVALID_FILE'' 415)
      | Some names \<Rightarrow> if list_ex (\<lambda>name. sublist ''vbaProject'' name) names then Inl (ECLException ''UNSAFE_FILE'' 415) else Inr ())"

definition parse_excel :: "'s run_env \<Rightarrow> bytes \<Rightarrow> ((py_str \<times> frame) list \<times> nat \<times> nat) result" where
  "parse_excel e content =
     (case re_read_excel e content of
        Inl x \<Rightarrow> Inl x
      | Inr sheets \<Rightarrow> Inr (sheets, length sheets, sum_list (map (\<lambda>(_, df). length (fr_rows df)) sheets)))"

definition delete_upload_row :: "upload \<Rightarrow> (db, unit) op" where
  "delete_upload_row u = modify_op (\<lambda>d. d \<lparr> uploads_tbl := filter (\<lambda>x. up_id x \<noteq> up_id u) (uploads_tbl d) \<rparr>)"

fun delete_old_uploads :: "'s run_env \<Rightarrow> upload list \<Rightarrow> ('s, unit) file_op" where
  "delete_old_uploads e [] = return_op ()"
| "delete_old_uploads e (old # olds) =
     bind_op (delete_object e (up_path old)) (\<lambda>_.
     bind_op (lift_db (delete_upload_row old)) (\<lambda>_.
     delete_old_uploads e olds))"

definition safe_name_of :: "py_str \<Rightarrow> py_str" where
  "safe_name_of filename = map (\<lambda>c. if c = CHR ''/'' \<or> c = CHR 0x5C then CHR ''_'' else c) filename"

definition MAX_ROWS_NOTE :: nat where
  "MAX_ROWS_NOTE = 1000000"

definition large_upload_warning :: "py_str \<Rightarrow> nat \<Rightarrow> py_str" where
  "large_upload_warning kind row_count =
     ''EC-12: Upload '' @ [CHR 0x27] @ kind @ [CHR 0x27] @ '' contains '' @ show_int_grouped (int row_count) @ '' rows. ''
     @ ''Compute time may exceed the 30-minute budget. '' @ ''Consider splitting the dataset into batches before running.''"

record upload_request =
  uq_kind :: py_str
  uq_filename :: py_str
  uq_content :: bytes
  uq_content_type :: py_str

definition not_uploadable :: exn where
  "not_uploadable = ECLException ''RUN_NOT_UPLOADABLE'' 409"

definition store_upload ::
    "'s run_env \<Rightarrow> py_str \<Rightarrow> upload_request \<Rightarrow> ('s, py_str \<times> nat \<times> (py_str \<times> frame) list \<times> nat \<times> nat) file_op" where
  "store_upload e storage_path q =
     bind_op (upload_stream e storage_path (uq_content q)) (\<lambda>(sha256, sz).
     bind_op (when_op (re_max_upload_bytes e < sz)
       (bind_op (delete_object e storage_path) (\<lambda>_. raise_op (ECLException ''FILE_TOO_LARGE'' 413)))) (\<lambda>_.
     bind_op (download_bytes e storage_path) (\<lambda>content.
     bind_op (read_op (\<lambda>_. assert_upload_safe e content (uq_content_type q))) (\<lambda>_.
     bind_op (read_op (\<lambda>_. parse_excel e content)) (\<lambda>(sheets, sheet_count, row_count).
     return_op (sha256, sz, sheets, sheet_count, row_count))))))"

definition upload_file :: "'s run_env \<Rightarrow> py_str \<Rightarrow> py_str \<Rightarrow> py_str \<Rightarrow> upload_request \<Rightarrow> ('s, upload) file_op" where
  "upload_file e tenant_id run_id user_id q =
     bind_op (lift_db (get_run_row tenant_id run_id)) (\<lambda>r.
     bind_op (guard_op (r_status r \<in> {DRAFT, FAILED}) not_uploadable) (\<lambda>_.
     case parse_kind (uq_kind q) of
       None \<Rightarrow> raise_op (ECLException ''INVALID_UPLOAD_KIND'' 400)
     | Some kind \<Rightarrow>
         bind_op (lift_db (read_op (\<lambda>d. Inr (filter (\<lambda>u. up_run u = run_id \<and> up_kind u = kind) (uploads_tbl d))))) (\<lambda>existing.
         bind_op (when_op (kind \<noteq> UPLOAD_PD) (delete_old_uploads e existing)) (\<lambda>_.
         let storage_path = build_storage_path tenant_id run_id (py_lower (uq_kind q)) (safe_name_of (uq_filename q)) in
         bind_op (store_upload e storage_path q) (\<lambda>(sha256, sz, _, sheet_count, row_count).
         bind_op (lift_db (when_op (MAX_ROWS_NOTE < row_count)
           (write_run (re_now e) tenant_id run_id (\<lambda>r. r \<lparr> r_warnings :=
              Some ((case r_warnings r of None \<Rightarrow> [] | Some ws \<Rightarrow> ws) @ [large_upload_warning (uq_kind q) row_count]) \<rparr>)))) (\<lambda>_.
         let u = \<lparr> up_id = re_ulid e 0, up_run = run_id, up_tenant = tenant_id, up_kind = kind, up_filename = uq_filename q,
                   up_sha256 = sha256, up_path = storage_path, up_size = sz, up_sheets = Some sheet_count, up_rows = Some row_count,
                   up_status = None, up_warnings_accepted = False \<rparr> in
         bind_op (lift_db (modify_op (\<lambda>d. d \<lparr> uploads_tbl := uploads_tbl d @ [u] \<rparr>))) (\<lambda>_.
         bind_op (lift_db (modify_op (log_event ''run.file_uploaded'' (Some user_id) None True None))) (\<lambda>_.
         return_op u))))))))"

definition delete_upload :: "'s run_env \<Rightarrow> py_str \<Rightarrow> py_str \<Rightarrow> py_str \<Rightarrow> ('s, unit) file_op" where
  "delete_upload e tenant_id run_id upload_id =
     bind_op (lift_db (get_run_row tenant_id run_id)) (\<lambda>r.
     bind_op (guard_op (r_status r \<in> {DRAFT, FAILED}) not_uploadable) (\<lambda>_.
     bind_op (lift_db (read_op (\<lambda>d. one_or_raise not_found (filter (\<lambda>u. up_id u = upload_id \<and> up_run u = run_id) (uploads_tbl d))))) (\<lambda>u.
     bind_op (delete_object e (up_path u)) (\<lambda>_.
     lift_db (delete_upload_row u)))))"

section \<open>Execution\<close>

definition ACTIVE_RUN_STATUSES :: "run_status set" where
  "ACTIVE_RUN_STATUSES = {QUEUED, PD_RUNNING, LGD_RUNNING, EAD_RUNNING}"

definition REQUIRED_KINDS :: "upload_kind set" where
  "REQUIRED_KINDS = {UPLOAD_PD, UPLOAD_LGD, UPLOAD_EAD}"

record execute_out =
  xo_run_id :: py_str
  xo_status :: run_status
  xo_dispatch :: bool

fun check_validated :: "upload list \<Rightarrow> unit result" where
  "check_validated [] = Inr ()"
| "check_validated (u # us) =
     (if up_status u \<notin> {Some VALIDATION_OK, Some VALIDATION_WARN} then Inl (ECLException ''VALIDATION_REQUIRED'' 400)
      else if up_status u = Some VALIDATION_WARN \<and> \<not> up_warnings_accepted u then Inl (ECLException ''WARNINGS_NOT_ACCEPTED'' 400)
      else check_validated us)"

definition queued_run :: "run \<Rightarrow> run" where
  "queued_run r = r \<lparr> r_status := QUEUED, r_progress := Some default_engine_progress, r_failure_stage := None, r_failure_message := None,
     r_failure_ref := None, r_started_at := None, r_finished_at := None, r_total_ecl := None, r_total_outstanding := None, r_coverage := None \<rparr>"

definition execute_run :: "timestamp \<Rightarrow> py_str \<Rightarrow> py_str \<Rightarrow> py_str \<Rightarrow> (db, execute_out) op" where
  "execute_run now tenant_id run_id user_id =
     bind_op (get_run_for_update tenant_id run_id) (\<lambda>r.
     if r_status r \<in> ACTIVE_RUN_STATUSES then return_op \<lparr> xo_run_id = run_id, xo_status = r_status r, xo_dispatch = False \<rparr>
     else
       bind_op (guard_op (r_status r \<in> {DRAFT, FAILED}) (ECLException ''RUN_NOT_EXECUTABLE'' 409)) (\<lambda>_.
       bind_op (read_op (\<lambda>d. Inr (load_uploads run_id d))) (\<lambda>ups.
       bind_op (guard_op (REQUIRED_KINDS \<subseteq> up_kind ` set ups) (ECLException ''MISSING_UPLOADS'' 400)) (\<lambda>_.
       bind_op (read_op (\<lambda>_. check_validated ups)) (\<lambda>_.
       bind_op (when_op (r_status r = FAILED) (clear_run_results run_id tenant_id)) (\<lambda>_.
       bind_op (write_run now tenant_id run_id queued_run) (\<lambda>_.
       bind_op (modify_op (log_event ''run.queued'' (Some user_id) None True None)) (\<lambda>_.
       return_op \<lparr> xo_run_id = run_id, xo_status = QUEUED, xo_dispatch = True \<rparr>))))))))"

definition revert_run_after_dispatch_failure :: "timestamp \<Rightarrow> py_str \<Rightarrow> py_str \<Rightarrow> (db, unit) op" where
  "revert_run_after_dispatch_failure now tenant_id run_id =
     bind_op (get_run_for_update tenant_id run_id) (\<lambda>r.
     when_op (r_status r = QUEUED)
       (write_run now tenant_id run_id
         (\<lambda>r. r \<lparr> r_status := DRAFT, r_progress := Some default_engine_progress, r_started_at := None \<rparr>)))"

section \<open>Deletion and repetition\<close>

definition delete_run :: "timestamp \<Rightarrow> py_str \<Rightarrow> py_str \<Rightarrow> py_str \<Rightarrow> (db, unit) op" where
  "delete_run now tenant_id run_id user_id =
     bind_op (get_run_row tenant_id run_id) (\<lambda>r.
     bind_op (write_run now tenant_id run_id (\<lambda>r. r \<lparr> r_deleted_at := Some now, r_deleted_by := Some user_id, r_status := DELETED \<rparr>)) (\<lambda>_.
     modify_op (log_event ''run.deleted'' (Some user_id) None True None)))"

definition copy_upload :: "'s run_env \<Rightarrow> nat \<Rightarrow> py_str \<Rightarrow> py_str \<Rightarrow> upload \<Rightarrow> upload" where
  "copy_upload e i new_run_id tenant_id src =
     src \<lparr> up_id := re_ulid e i, up_run := new_run_id, up_tenant := tenant_id, up_status := Some VALIDATION_OK, up_warnings_accepted := True \<rparr>"

definition rerun_run :: "'s run_env \<Rightarrow> py_str \<Rightarrow> py_str \<Rightarrow> py_str \<Rightarrow> rerun_request \<Rightarrow> (db, run_detail) op" where
  "rerun_run e tenant_id run_id user_id req =
     bind_op (get_run_row tenant_id run_id) (\<lambda>original.
     bind_op (guard_op (r_status original = COMPLETE) (ECLException ''RUN_NOT_COMPLETED'' 409)) (\<lambda>_.
     bind_op (get_tenant_row tenant_id) (\<lambda>_.
     let new_name = (if truthy (rrq_name req) then py_strip (the (rrq_name req)) else r_name original @ '' (rerun)''); new_id = re_ulid e 0 in
     bind_op (add_run (new_run e new_id tenant_id user_id new_name (r_period original) (r_combine_pd original))) (\<lambda>_.
     bind_op (read_op (\<lambda>d. Inr (load_uploads run_id d))) (\<lambda>source_uploads.
     bind_op (modify_op (\<lambda>d. d \<lparr> uploads_tbl := uploads_tbl d
       @ map (\<lambda>(i, src). copy_upload e (i + 1) new_id tenant_id src) (zip [0..<length source_uploads] source_uploads) \<rparr>)) (\<lambda>_.
     bind_op (modify_op (log_event ''run.rerun_created'' (Some user_id) None True None)) (\<lambda>_.
     get_run e tenant_id new_id None)))))))"

end
