(* ===== verification/RunValidation.thy ===== *)
theory RunValidation
  imports Runs
begin

text \<open>
  The validation of the files of a run: \<^verbatim>\<open>validate_files\<close> of \<^verbatim>\<open>app/modules/runs/service.py\<close> with the
  provisioning of segments and collateral types it does on the way. The files are read from the
  object storage, each is checked by the validator of its kind and all together by the cross-file
  validator; the outcome is stored in the upload rows, which \<open>execute_run\<close> reads. The last section
  relates the two.
\<close>

section \<open>Frames of a workbook\<close>

definition df_empty :: "frame \<Rightarrow> bool" where
  "df_empty df \<longleftrightarrow> fr_rows df = [] \<or> fr_columns df = []"

definition empty_frame :: frame where
  "empty_frame = \<lparr> fr_columns = [], fr_rows = [] \<rparr>"

text \<open>\<^verbatim>\<open>pd.concat\<close>: the columns in order of their first occurrence, missing cells where a frame lacks one.\<close>

definition concat_frames :: "frame list \<Rightarrow> frame" where
  "concat_frames fs =
     \<lparr> fr_columns = rev (remdups (rev (concat (map fr_columns fs)))),
       fr_rows = concat (map (\<lambda>f. map (\<lambda>row c. if c \<in> set (fr_columns f) then row c else None) (fr_rows f)) fs) \<rparr>"

definition combine_sheets :: "(py_str \<times> frame) list \<Rightarrow> frame" where
  "combine_sheets sheets =
     (let frames = filter (\<lambda>df. \<not> df_empty df) (map snd sheets)
      in if frames = [] then empty_frame else concat_frames frames)"

definition extract_segments :: "reader \<Rightarrow> frame list \<Rightarrow> py_str set" where
  "extract_segments cv dfs = (\<Union>df \<in> set dfs. column_texts cv ''SEGMENT'' df)"

definition extract_lgd_collateral_columns :: "frame \<Rightarrow> py_str set" where
  "extract_lgd_collateral_columns df = set (fr_columns df) - (set LGD_REQUIRED_COLUMNS \<union> set LGD_EIR_ALIASES)"

section \<open>Provisioning\<close>

definition COLLATERAL_DEFAULTS :: "(py_str \<times> num \<times> int) list" where
  "COLLATERAL_DEFAULTS =
     [(''real estate'', 15, 18), (''residential property'', 15, 18), (''commercial property'', 20, 24), (''land'', 20, 24),
      (''motor vehicle'', 25, 6), (''vehicle'', 25, 6), (''cash deposit'', 0, 0), (''cash'', 0, 0), (''deposit'', 0, 1),
      (''corporate guarantee'', 20, 12), (''personal guarantee'', 30, 12), (''guarantee'', 25, 12), (''equipment'', 30, 12),
      (''machinery'', 35, 12), (''government bond'', 5, 1), (''bond'', 10, 3), (''stock'', 30, 5), (''shares'', 30, 5),
      (''insurance'', 20, 6), (''inventory'', 50, 6), (''receivables'', 40, 3)]"

definition collateral_default :: "py_str \<Rightarrow> num \<times> int" where
  "collateral_default name = (case map_of COLLATERAL_DEFAULTS (py_lower (py_strip name)) of None \<Rightarrow> (50, 24) | Some x \<Rightarrow> x)"

definition code_char :: "char \<Rightarrow> bool" where
  "code_char c \<longleftrightarrow> (65 \<le> (of_char c :: nat) \<and> of_char c \<le> (90 :: nat)) \<or> (48 \<le> (of_char c :: nat) \<and> of_char c \<le> (57 :: nat)) \<or> c = CHR ''_''"

definition segment_code :: "py_str \<Rightarrow> py_str" where
  "segment_code name = take 20 (map (\<lambda>c. if code_char c then c else CHR ''_'') (py_upper (py_strip name)))"

text \<open>The length limits of the request schemas: 2 to 100 characters for a name, 1 to 50 items.\<close>

definition valid_batch :: "py_str list \<Rightarrow> unit result" where
  "valid_batch names =
     (if 1 \<le> length names \<and> length names \<le> 50 \<and> list_all (\<lambda>n. 2 \<le> length n \<and> length n \<le> 100) names
      then Inr () else Inl (ValueError ''validation error''))"

definition auto_provision_segments :: "(nat \<Rightarrow> py_str) \<Rightarrow> py_str \<Rightarrow> py_str \<Rightarrow> py_str set \<Rightarrow> (db, unit) op" where
  "auto_provision_segments new_ids tenant_id user_id names =
     bind_op (read_op (\<lambda>d. Inr (set (map sm_name (filter (\<lambda>s. sm_tenant s = tenant_id \<and> sm_name s \<in> names) (segments_tbl d)))))) (\<lambda>already_exist.
     let truly_new = sorted_list_of_set (names - already_exist) in
     when_op (truly_new \<noteq> [])
       (bind_op (read_op (\<lambda>_. valid_batch truly_new)) (\<lambda>_.
        bind_op (batch_create_segments new_ids tenant_id user_id (map (\<lambda>n. \<lparr> csr_name = n, csr_code = Some (segment_code n) \<rparr>) truly_new)) (\<lambda>_.
        return_op ()))))"

definition auto_provision_collateral :: "(nat \<Rightarrow> py_str) \<Rightarrow> py_str \<Rightarrow> py_str \<Rightarrow> py_str set \<Rightarrow> (db, unit) op" where
  "auto_provision_collateral new_ids tenant_id user_id names =
     bind_op (read_op (\<lambda>d. Inr (set (map ct_name (filter (\<lambda>c. ct_tenant c = tenant_id \<and> ct_name c \<in> names) (collateral_tbl d)))))) (\<lambda>already_exist.
     let truly_new = sorted_list_of_set (names - already_exist) in
     when_op (truly_new \<noteq> [])
       (bind_op (read_op (\<lambda>_. valid_batch truly_new)) (\<lambda>_.
        bind_op (batch_create_collateral_types new_ids tenant_id user_id
          (map (\<lambda>n. \<lparr> ccr_name = n, ccr_haircut = fst (collateral_default n), ccr_ttr = snd (collateral_default n) \<rparr>) truly_new)) (\<lambda>_.
        return_op ()))))"

text \<open>\<^verbatim>\<open>try ... except Exception\<close>: whether the body returned.\<close>

definition catch_op :: "('s, 'a) op \<Rightarrow> ('s, bool) op" where
  "catch_op m s = (case m s of (Inr _, s') \<Rightarrow> (Inr True, s') | (Inl _, s') \<Rightarrow> (Inr False, s'))"

definition allowed_segments :: "py_str \<Rightarrow> db \<Rightarrow> py_str set" where
  "allowed_segments tenant_id d = set (map sm_name (filter (\<lambda>s. sm_tenant s = tenant_id \<and> sm_deleted_at s = None) (segments_tbl d)))"

definition allowed_collateral :: "py_str \<Rightarrow> db \<Rightarrow> py_str set" where
  "allowed_collateral tenant_id d = set (map ct_name (filter (\<lambda>c. ct_tenant c = tenant_id \<and> ct_deleted_at c = None) (collateral_tbl d)))"

text \<open>The allowed names after provisioning the names that are new.\<close>

definition provision :: "(py_str set \<Rightarrow> (db, unit) op) \<Rightarrow> (db \<Rightarrow> py_str set) \<Rightarrow> py_str set \<Rightarrow> (db, py_str set) op" where
  "provision create allowed_of prescan =
     bind_op (read_op (\<lambda>d. Inr (allowed_of d))) (\<lambda>allowed.
     let fresh = prescan - allowed in
     if fresh = {} then return_op allowed
     else bind_op (catch_op (create fresh)) (\<lambda>ok. return_op (if ok then allowed \<union> fresh else allowed)))"

section \<open>Issues of the files\<close>

definition issue_id :: "'s run_env \<Rightarrow> issue \<Rightarrow> py_str" where
  "issue_id e i = take 12 (re_sha256 e (vi_title i @ '':'' @ vi_location i))"

record tagged_issue =
  ti_kind :: upload_kind
  ti_issue :: issue
  ti_upload_id :: "py_str option"
  ti_filename :: "py_str option"

datatype overall_status = OverallOk | OverallWarn | OverallBlocking

fun overall_value :: "overall_status \<Rightarrow> py_str" where
  "overall_value OverallOk = ''ok''"
| "overall_value OverallWarn = ''warn''"
| "overall_value OverallBlocking = ''blocking''"

record issue_out =
  io_id :: py_str
  io_kind :: upload_kind
  io_issue :: issue
  io_upload_id :: "py_str option"
  io_filename :: "py_str option"

record validation_out =
  vo_status :: overall_status
  vo_summary :: py_str
  vo_sub_summary :: py_str
  vo_issues :: "issue_out list"
  vo_detected_segments :: "py_str list"
  vo_blocking_count :: nat
  vo_warning_count :: nat

definition is_block :: "issue \<Rightarrow> bool" where
  "is_block i \<longleftrightarrow> vi_level i = Block"

definition is_warn :: "issue \<Rightarrow> bool" where
  "is_warn i \<longleftrightarrow> vi_level i = Warn"

definition validation_status_from_issues :: "issue list \<Rightarrow> bool \<Rightarrow> validation_status" where
  "validation_status_from_issues issues warnings_accepted =
     (if list_ex is_block issues then VALIDATION_ERROR
      else if list_ex is_warn issues \<and> \<not> warnings_accepted then VALIDATION_WARN
      else VALIDATION_OK)"

definition issues_to_out :: "'s run_env \<Rightarrow> tagged_issue list \<Rightarrow> issue_out list" where
  "issues_to_out e tagged =
     map (\<lambda>t. \<lparr> io_id = issue_id e (ti_issue t), io_kind = ti_kind t, io_issue = ti_issue t,
                io_upload_id = ti_upload_id t, io_filename = ti_filename t \<rparr>) tagged"

definition middle_dot :: py_str where
  "middle_dot = [CHR 0xC2, CHR 0xB7]"

definition block_count :: "tagged_issue list \<Rightarrow> nat" where
  "block_count tagged = length (filter (\<lambda>t. is_block (ti_issue t)) tagged)"

definition warn_count :: "tagged_issue list \<Rightarrow> nat" where
  "warn_count tagged = length (filter (\<lambda>t. is_warn (ti_issue t)) tagged)"

definition validation_summaries :: "overall_status \<Rightarrow> tagged_issue list \<Rightarrow> py_str list \<Rightarrow> py_str \<times> py_str" where
  "validation_summaries overall tagged detected =
     (let blocking = show_nat (block_count tagged); warning = show_nat (warn_count tagged); n = show_nat (length detected)
      in case overall of
        OverallOk \<Rightarrow> (''All checks passed'',
          (if detected \<noteq> [] then n @ '' segment(s) detected'' else ''No segments detected yet'')
            @ '' '' @ middle_dot @ '' files are ready for computation'')
      | OverallBlocking \<Rightarrow> (''Validation errors found'',
          blocking @ '' blocking error(s) across your uploads''
            @ (if warn_count tagged \<noteq> 0 then '' '' @ middle_dot @ '' '' @ warning @ '' warning(s)'' else '''')
            @ '' '' @ em_dash @ '' fix and re-upload to continue'')
      | OverallWarn \<Rightarrow> (''Validation warnings found'',
          warning @ '' warning(s) to review''
            @ (if detected \<noteq> [] then '' '' @ middle_dot @ '' '' @ n @ '' segment(s) detected'' else '''')))"

text \<open>A downloaded upload: its row, its sheets and the sheets combined.\<close>

record loaded_file =
  lf_upload :: upload
  lf_sheets :: "(py_str \<times> frame) list"
  lf_combined :: frame

fun load_files :: "'s run_env \<Rightarrow> upload list \<Rightarrow> ('s, loaded_file list) file_op" where
  "load_files e [] = return_op []"
| "load_files e (u # us) =
     bind_op (download_bytes e (up_path u)) (\<lambda>content.
     bind_op (read_op (\<lambda>_. parse_excel e content)) (\<lambda>(sheets, _, _).
     bind_op (load_files e us) (\<lambda>rest.
     return_op (\<lparr> lf_upload = u, lf_sheets = sheets, lf_combined = combine_sheets sheets \<rparr> # rest))))"

definition of_kind :: "upload_kind \<Rightarrow> loaded_file list \<Rightarrow> loaded_file list" where
  "of_kind k files = filter (\<lambda>f. up_kind (lf_upload f) = k) files"

definition prescan_segments :: "reader \<Rightarrow> loaded_file list \<Rightarrow> py_str set" where
  "prescan_segments cv files = (\<Union>f \<in> set files. if up_kind (lf_upload f) \<in> {UPLOAD_PD, UPLOAD_EAD}
     then column_texts cv ''SEGMENT'' (lf_combined f) else {})"

definition prescan_collateral :: "loaded_file list \<Rightarrow> py_str set" where
  "prescan_collateral files = (\<Union>f \<in> set (of_kind UPLOAD_LGD files). extract_lgd_collateral_columns (lf_combined f))"

definition validate_sheet :: "reader \<Rightarrow> py_str set \<Rightarrow> py_str set \<Rightarrow> upload_kind \<Rightarrow> py_str \<times> frame \<Rightarrow> vresult" where
  "validate_sheet cv segments collateral k sheet =
     (case k of
        UPLOAD_PD \<Rightarrow> validate_pd cv (snd sheet) (fst sheet) (sorted_list_of_set segments)
      | UPLOAD_LGD \<Rightarrow> validate_lgd cv (snd sheet) (fst sheet) (sorted_list_of_set collateral)
      | UPLOAD_EAD \<Rightarrow> validate_ead cv (snd sheet) (fst sheet) (sorted_list_of_set segments) None)"

definition file_results :: "reader \<Rightarrow> py_str set \<Rightarrow> py_str set \<Rightarrow> loaded_file \<Rightarrow> vresult list" where
  "file_results cv segments collateral f = map (validate_sheet cv segments collateral (up_kind (lf_upload f))) (lf_sheets f)"

definition file_issues :: "reader \<Rightarrow> py_str set \<Rightarrow> py_str set \<Rightarrow> loaded_file \<Rightarrow> issue list" where
  "file_issues cv segments collateral f = concat (map vr_issues (file_results cv segments collateral f))"

definition accepts_warnings :: "'s run_env \<Rightarrow> py_str list \<Rightarrow> upload \<Rightarrow> issue list \<Rightarrow> bool" where
  "accepts_warnings e accepted_ids u issues =
     (let warning_ids = set (map (issue_id e) (filter is_warn issues))
      in if accepted_ids = [] then up_warnings_accepted u
         else if warning_ids \<noteq> {} \<and> warning_ids \<subseteq> set accepted_ids then True
         else if \<not> list_ex is_block issues \<and> warning_ids \<inter> set accepted_ids \<noteq> {} then True
         else up_warnings_accepted u)"

definition checked_upload :: "'s run_env \<Rightarrow> py_str list \<Rightarrow> upload \<Rightarrow> issue list \<Rightarrow> upload" where
  "checked_upload e accepted_ids u issues =
     (let accepted = accepts_warnings e accepted_ids u issues
      in u \<lparr> up_warnings_accepted := accepted, up_status := Some (validation_status_from_issues issues accepted) \<rparr>)"

definition tag :: "upload \<Rightarrow> issue \<Rightarrow> tagged_issue" where
  "tag u i = \<lparr> ti_kind = up_kind u, ti_issue = i, ti_upload_id = Some (up_id u), ti_filename = Some (up_filename u) \<rparr>"

text \<open>
  Cross-file issues. The upload an issue is charged to, and the effect on its status.
\<close>

definition charge_ead :: "issue \<Rightarrow> bool" where
  "charge_ead i \<longleftrightarrow> sublist ''EAD'' (vi_title i) \<or> sublist ''EC-08'' (vi_title i) \<or> sublist ''EIR'' (vi_title i)"

definition raise_status :: "issue \<Rightarrow> upload \<Rightarrow> upload" where
  "raise_status i u =
     (if is_block i then u \<lparr> up_status := Some VALIDATION_ERROR \<rparr>
      else if is_warn i \<and> up_status u = Some VALIDATION_OK then u \<lparr> up_status := Some VALIDATION_WARN \<rparr>
      else u)"

definition cross_issues :: "reader \<Rightarrow> loaded_file list \<Rightarrow> loaded_file \<Rightarrow> loaded_file \<Rightarrow> issue list" where
  "cross_issues cv files ead lgd =
     validate_cross_files cv \<lparr> cf_pd = concat_frames (map lf_combined (of_kind UPLOAD_PD files)), cf_lgd = lf_combined lgd, cf_ead = lf_combined ead \<rparr>"

definition summary_issue :: issue where
  "summary_issue = block_issue ''Additional errors were found but not shown'' ''Summary''
     (''Fix the errors above and re-validate. Up to '' @ show_nat MAX_ISSUES @ '' issues are shown per run.'') None"

record check_outcome =
  co_uploads :: "upload list"
  co_issues :: "tagged_issue list"

definition check_files :: "'s run_env \<Rightarrow> py_str set \<Rightarrow> py_str set \<Rightarrow> py_str list \<Rightarrow> loaded_file list \<Rightarrow> check_outcome" where
  "check_files e segments collateral accepted_ids files =
     (let cv = re_reader e;
          issues_of = file_issues cv segments collateral;
          ups = map (\<lambda>f. checked_upload e accepted_ids (lf_upload f) (issues_of f)) files;
          own = concat (map (\<lambda>f. map (tag (lf_upload f)) (issues_of f)) files);
          cap_hit = list_ex (\<lambda>f. list_ex issue_cap_reached (file_results cv segments collateral f)) files;
          eads = of_kind UPLOAD_EAD files; lgds = of_kind UPLOAD_LGD files; pds = of_kind UPLOAD_PD files;
          cross = (if eads \<noteq> [] \<and> lgds \<noteq> [] then cross_issues cv files (last eads) (last lgds) else []);
          target = (\<lambda>i. lf_upload (if charge_ead i then last eads else last lgds));
          tagged = own @ map (\<lambda>i. tag (target i) i) cross;
          summary = (if cap_hit \<and> MAX_ISSUES \<le> length tagged
             then [\<lparr> ti_kind = UPLOAD_PD, ti_issue = summary_issue,
                     ti_upload_id = (case pds of [] \<Rightarrow> None | f # _ \<Rightarrow> Some (up_id (lf_upload f))),
                     ti_filename = (case pds of [] \<Rightarrow> None | f # _ \<Rightarrow> Some (up_filename (lf_upload f))) \<rparr>] else [])
      in \<lparr> co_uploads = fold (\<lambda>i. update_rows (\<lambda>u. up_id u = up_id (target i)) (raise_status i)) cross ups, co_issues = tagged @ summary \<rparr>)"

definition overall_status_of :: "'s run_env \<Rightarrow> py_str list \<Rightarrow> check_outcome \<Rightarrow> overall_status" where
  "overall_status_of e accepted_ids co =
     (if list_ex (\<lambda>t. is_block (ti_issue t)) (co_issues co) then OverallBlocking
      else if list_ex (\<lambda>t. is_warn (ti_issue t)) (co_issues co)
        \<and> filter (\<lambda>t. is_warn (ti_issue t) \<and> issue_id e (ti_issue t) \<notin> set accepted_ids) (co_issues co) \<noteq> []
        \<and> \<not> list_all up_warnings_accepted (co_uploads co) then OverallWarn
      else OverallOk)"

text \<open>The flush of the changed upload rows.\<close>

definition store_uploads :: "upload list \<Rightarrow> (db, unit) op" where
  "store_uploads ups =
     modify_op (\<lambda>d. d \<lparr> uploads_tbl := map (\<lambda>x. case find (\<lambda>u. up_id u = up_id x) ups of None \<Rightarrow> x | Some u \<Rightarrow> u) (uploads_tbl d) \<rparr>)"

definition validate_files :: "'s run_env \<Rightarrow> py_str \<Rightarrow> py_str \<Rightarrow> py_str \<Rightarrow> py_str list \<Rightarrow> ('s, validation_out) file_op" where
  "validate_files e tenant_id run_id user_id accepted_ids =
     bind_op (lift_db (get_run_row tenant_id run_id)) (\<lambda>_.
     bind_op (lift_db (read_op (\<lambda>d. Inr (load_uploads run_id d)))) (\<lambda>ups.
     bind_op (guard_op (ups \<noteq> []) (ECLException ''NO_UPLOADS'' 400)) (\<lambda>_.
     bind_op (guard_op (REQUIRED_KINDS \<subseteq> up_kind ` set ups) (ECLException ''MISSING_UPLOADS'' 400)) (\<lambda>_.
     bind_op (lift_db (modify_op (log_event ''run.validation_triggered'' (Some user_id) None True None))) (\<lambda>_.
     bind_op (load_files e ups) (\<lambda>files.
     bind_op (lift_db (provision (auto_provision_segments (\<lambda>i. re_ulid e (2 * i)) tenant_id user_id) (allowed_segments tenant_id)
       (prescan_segments (re_reader e) files))) (\<lambda>segments.
     bind_op (lift_db (provision (auto_provision_collateral (\<lambda>i. re_ulid e (2 * i + 1)) tenant_id user_id) (allowed_collateral tenant_id)
       (prescan_collateral files))) (\<lambda>collateral.
     let co = check_files e segments collateral accepted_ids files;
         detected = sorted_list_of_set (extract_segments (re_reader e) (map lf_combined (filter (\<lambda>f. up_kind (lf_upload f) \<noteq> UPLOAD_LGD) files)));
         overall = overall_status_of e accepted_ids co;
         summaries = validation_summaries overall (co_issues co) detected in
     bind_op (lift_db (store_uploads (co_uploads co))) (\<lambda>_.
     bind_op (lift_db (modify_op (log_event ''run.validation_completed'' (Some user_id) None True None))) (\<lambda>_.
     return_op \<lparr> vo_status = overall, vo_summary = fst summaries, vo_sub_summary = snd summaries, vo_issues = issues_to_out e (co_issues co),
       vo_detected_segments = detected, vo_blocking_count = block_count (co_issues co), vo_warning_count = warn_count (co_issues co) \<rparr>))))))))))"

section \<open>Endpoints\<close>

text \<open>A gated request on the object storage and the database.\<close>

definition gated_file ::
    "(py_str \<Rightarrow> user \<Rightarrow> db \<Rightarrow> membership result) \<Rightarrow> auth_ctx \<Rightarrow> py_str \<Rightarrow> (user \<Rightarrow> membership \<Rightarrow> ('s, 'a) file_op) \<Rightarrow> ('s, 'a) file_op" where
  "gated_file gate ctx tenant_id endpoint =
     bind_op (lift_db (current_user ctx)) (\<lambda>u.
     bind_op (lift_db (read_op (gate tenant_id u))) (\<lambda>m.
     endpoint u m))"

definition create_run_endpoint where
  "create_run_endpoint e ctx tenant_id body =
     gated require_tenant_analyst_or_admin ctx tenant_id (\<lambda>user _. create_run e tenant_id (u_id user) body)"

definition update_run_endpoint where
  "update_run_endpoint e ctx tenant_id run_id body =
     gated require_tenant_analyst_or_admin ctx tenant_id (\<lambda>_ _. update_run e tenant_id run_id body)"

record upload_form =
  uf_kind :: py_str
  uf_filename :: "py_str option"
  uf_content :: bytes
  uf_content_type :: "py_str option"

definition upload_file_endpoint where
  "upload_file_endpoint e ctx tenant_id run_id form =
     gated_file require_tenant_analyst_or_admin ctx tenant_id (\<lambda>user _. upload_file e tenant_id run_id (u_id user)
       \<lparr> uq_kind = py_upper (uf_kind form), uq_filename = (if truthy (uf_filename form) then the (uf_filename form) else ''upload.xlsx''),
         uq_content = uf_content form,
         uq_content_type = (if truthy (uf_content_type form) then the (uf_content_type form)
                            else ''application/vnd.openxmlformats-officedocument.spreadsheetml.sheet'') \<rparr>)"

definition delete_upload_endpoint where
  "delete_upload_endpoint e ctx tenant_id run_id upload_id =
     gated_file require_tenant_analyst_or_admin ctx tenant_id (\<lambda>_ _. delete_upload e tenant_id run_id upload_id)"

definition validate_files_endpoint where
  "validate_files_endpoint e ctx tenant_id run_id accepted_ids =
     gated_file require_tenant_analyst_or_admin ctx tenant_id (\<lambda>user _. validate_files e tenant_id run_id (u_id user) accepted_ids)"

text \<open>
  The endpoint of execution commits before it hands the run to the task queue; \<open>dispatched\<close> says
  whether the queue took it. A failed dispatch is undone by a second transaction.
\<close>

definition execute_run_endpoint :: "auth_ctx \<Rightarrow> bool \<Rightarrow> py_str \<Rightarrow> py_str \<Rightarrow> (db, execute_out) op" where
  "execute_run_endpoint ctx dispatched tenant_id run_id d =
     (case with_db (gated require_tenant_analyst_or_admin ctx tenant_id (\<lambda>user _. execute_run (ax_now ctx) tenant_id run_id (u_id user))) d of
        (Inl x, d1) \<Rightarrow> (Inl x, d1)
      | (Inr out, d1) \<Rightarrow>
          if xo_dispatch out \<and> \<not> dispatched then
            (case with_db (revert_run_after_dispatch_failure (ax_now ctx) tenant_id run_id) d1 of
               (Inl x, d2) \<Rightarrow> (Inl x, d2)
             | (Inr _, d2) \<Rightarrow> (Inl (ECLException ''COMPUTE_DISPATCH_FAILED'' 503), d2))
          else (Inr out, d1))"

definition get_run_endpoint where
  "get_run_endpoint e ctx tenant_id run_id =
     gated require_tenant_member ctx tenant_id (\<lambda>user m. get_run e tenant_id run_id (Some (user, Some m)))"

definition list_runs_endpoint where
  "list_runs_endpoint e ctx tenant_id page per_page status search =
     gated require_tenant_member ctx tenant_id (\<lambda>user m. list_runs e tenant_id (Some (user, Some m)) page per_page status search)"

definition rerun_run_endpoint where
  "rerun_run_endpoint e ctx tenant_id run_id body =
     gated require_tenant_analyst_or_admin ctx tenant_id (\<lambda>user _. rerun_run e tenant_id run_id (u_id user) body)"

definition delete_run_endpoint where
  "delete_run_endpoint ctx tenant_id run_id =
     gated require_tenant_admin ctx tenant_id (\<lambda>user _. delete_run (ax_now ctx) tenant_id run_id (u_id user))"

end
