(* ===== verification/RunRequests.thy ===== *)
theory RunRequests
  imports RunValidation
begin

text \<open>
  Properties of the requests on runs: how the outcome of a validation decides over execution, the
  life cycle of a run, the separation of workspaces, and what happens to stored files.
\<close>

section \<open>Validation results\<close>

lemma validate_sheet_blocking: "blocking (validate_sheet cv segs coll k sheet)"
  by (cases k) (simp_all add: validate_sheet_def validate_pd_blocking validate_lgd_blocking validate_ead_blocking)

lemma file_issues_block: "i \<in> set (file_issues cv segs coll f) \<Longrightarrow> is_block i"
  using validate_sheet_blocking
  by (fastforce simp: file_issues_def file_results_def blocking_def list_all_iff is_block_def)

lemma file_issues_no_warn: "filter is_warn (file_issues cv segs coll f) = []"
  by (auto simp: filter_empty_conv is_warn_def is_block_def dest: file_issues_block)

lemma accepts_warnings_files: "accepts_warnings e ids u (file_issues cv segs coll f) = up_warnings_accepted u"
  by (simp add: accepts_warnings_def Let_def file_issues_no_warn)

lemma checked_upload_files:
  "checked_upload e ids u (file_issues cv segs coll f) =
     u \<lparr> up_status := Some (if file_issues cv segs coll f = [] then VALIDATION_OK else VALIDATION_ERROR) \<rparr>"
proof -
  have "list_ex is_block (file_issues cv segs coll f) \<longleftrightarrow> file_issues cv segs coll f \<noteq> []"
  proof -
    have "list_ex is_block xs \<longleftrightarrow> xs \<noteq> []" if "\<forall>i \<in> set xs. is_block i" for xs using that by (cases xs) auto
    then show ?thesis using file_issues_block by blast
  qed
  moreover have "\<not> list_ex is_warn (file_issues cv segs coll f)"
    using file_issues_no_warn by (auto simp: list_ex_iff filter_empty_conv)
  ultimately show ?thesis
    by (simp add: checked_upload_def Let_def accepts_warnings_files validation_status_from_issues_def)
qed

lemma cap_reached_nonempty:
  "list_ex issue_cap_reached (file_results cv segs coll f) \<Longrightarrow> file_issues cv segs coll f \<noteq> []"
  by (auto simp: list_ex_iff file_issues_def issue_cap_reached_def MAX_ISSUES_def) (metis list.size(3) not_numeral_le_zero)

lemma sublist_in_append: "sublist p s \<Longrightarrow> sublist p (a @ s)" "sublist p s \<Longrightarrow> sublist p (s @ a)"
  by (auto simp: sublist_append)

text \<open>Every cross-file issue is charged to the EAD upload.\<close>

lemma charged_titles:
  "sublist ''EAD'' (n @ '' EAD loan(s) missing from LGD file (EC-06)'')"
  "sublist ''EAD'' (n @ '' EAD loan(s) have no PD history'')"
  "sublist ''EC-08'' (''No PD history for segment(s): '' @ n @ '' (EC-08)'')"
  "sublist ''EIR'' (''EIR mismatch between LGD and EAD for '' @ n @ '' loan(s)'')"
proof -
  show "sublist ''EC-08'' (''No PD history for segment(s): '' @ n @ '' (EC-08)'')"
    by (intro sublist_in_append(1)) code_simp
  show "sublist ''EIR'' (''EIR mismatch between LGD and EAD for '' @ n @ '' loan(s)'')"
    by (rule sublist_in_append(2)) code_simp
qed (rule sublist_in_append(1), code_simp)+

lemma charge_added_if:
  "(\<And>i. i \<in> set (vr_issues r) \<Longrightarrow> charge_ead i) \<Longrightarrow> charge_ead j \<Longrightarrow>
   i \<in> set (vr_issues (if b then vr_add j r else r)) \<Longrightarrow> charge_ead i"
  by (auto simp: vr_add_def split: if_splits)

lemma cross_issues_charge_ead: "i \<in> set (validate_cross_files cv data) \<Longrightarrow> charge_ead i"
  unfolding validate_cross_files_def Let_def add_block_def add_warn_def
  by (erule charge_added_if [rotated 2], erule charge_added_if [rotated 2], erule charge_added_if [rotated 2], erule charge_added_if [rotated 2])
    (simp_all add: charge_ead_def block_issue_def warn_issue_def charged_titles del: append_assoc append_Cons)

lemma cross_issue_levels: "is_block i \<or> is_warn i"
  by (cases "vi_level i") (simp_all add: is_block_def is_warn_def)

lemma download_bytes_Inr: "download_bytes e k s = (Inr b, s') \<longleftrightarrow> s' = s \<and> os_get (re_store e) (normalize_key k) (fst s) = Some b"
  by (auto simp: download_bytes_def read_op_def split: option.splits)

lemma load_files_Inr: "load_files e us s = (Inr files, s') \<Longrightarrow> s' = s \<and> map lf_upload files = us"
  by (induction us arbitrary: files s') (auto simp: bind_op_Inr download_bytes_Inr op_defs split: prod.splits)

definition same_files :: "db \<Rightarrow> db \<Rightarrow> bool" where
  "same_files d0 d \<longleftrightarrow> uploads_tbl d = uploads_tbl d0 \<and> runs_tbl d = runs_tbl d0"

lemma keeps_catch [keeps_rules]: "keeps I m \<Longrightarrow> keeps I (catch_op m)"
  by (auto simp: keeps_def catch_op_def split: prod.splits sum.splits)

lemma keeps_provision: "(\<And>names. keeps I (create names)) \<Longrightarrow> keeps I (provision create allowed names)"
  unfolding provision_def Let_def by (intro keeps_rules)

lemma provision_segments_same: "keeps (same_files d0) (auto_provision_segments ids t u names)"
  unfolding auto_provision_segments_def batch_create_segments_def Let_def
  by (intro keeps_rules keeps_modify) (simp_all add: same_files_def)

lemma provision_collateral_same: "keeps (same_files d0) (auto_provision_collateral ids t u names)"
  unfolding auto_provision_collateral_def batch_create_collateral_types_def Let_def
  by (intro keeps_rules keeps_modify) (simp_all add: same_files_def)

lemma validate_files_Inr:
  assumes "validate_files e t run user ids (st, d) = (Inr out, (st', d'))"
  obtains files segs coll where "map lf_upload files = load_uploads run d" "REQUIRED_KINDS \<subseteq> up_kind ` set (load_uploads run d)"
    "runs_tbl d' = runs_tbl d"
    "uploads_tbl d' = map (\<lambda>x. case find (\<lambda>u. up_id u = up_id x) (co_uploads (check_files e segs coll ids files)) of None \<Rightarrow> x | Some u \<Rightarrow> u) (uploads_tbl d)"
    "vo_status out = overall_status_of e ids (check_files e segs coll ids files)"
    "vo_blocking_count out = block_count (co_issues (check_files e segs coll ids files))"
    "vo_warning_count out = warn_count (co_issues (check_files e segs coll ids files))"
      "vo_issues out = issues_to_out e (co_issues (check_files e segs coll ids files))"
proof -
  from assms obtain files segs coll s1 d1 d2 where
    req: "REQUIRED_KINDS \<subseteq> up_kind ` set (load_uploads run d)"
    and load: "load_files e (load_uploads run d) (st, log_event ''run.validation_triggered'' (Some user) None True None d) = (Inr files, s1)"
    and segs: "provision (auto_provision_segments (\<lambda>i. re_ulid e (2 * i)) t user) (allowed_segments t) (prescan_segments (re_reader e) files) (snd s1) = (Inr segs, d1)"
    and coll: "provision (auto_provision_collateral (\<lambda>i. re_ulid e (2 * i + 1)) t user) (allowed_collateral t) (prescan_collateral files) d1 = (Inr coll, d2)"
    and d': "d' = log_event ''run.validation_completed'' (Some user) None True None
      (snd (store_uploads (co_uploads (check_files e segs coll ids files)) d2))"
    and out: "vo_status out = overall_status_of e ids (check_files e segs coll ids files)"
      "vo_blocking_count out = block_count (co_issues (check_files e segs coll ids files))"
      "vo_warning_count out = warn_count (co_issues (check_files e segs coll ids files))"
      "vo_issues out = issues_to_out e (co_issues (check_files e segs coll ids files))"
    by (auto simp: validate_files_def bind_op_Inr lift_db_Inr guard_op_def get_run_row_def op_defs Let_def split: if_splits)
  have s1: "same_files d (snd s1)" "map lf_upload files = load_uploads run d"
    using load_files_Inr [OF load] by (simp_all add: same_files_def log_event_def)
  have "same_files d d1" using segs s1(1) by (rule keeps_Inr [OF keeps_provision [OF provision_segments_same]])
  with coll have "same_files d d2" by (rule keeps_Inr [OF keeps_provision [OF provision_collateral_same]])
  then have d2: "uploads_tbl d2 = uploads_tbl d" "runs_tbl d2 = runs_tbl d" by (simp_all add: same_files_def)
  show thesis
    by (rule that [OF s1(2) req _ _ out]) (simp_all add: d' d2 store_uploads_def modify_op_def log_event_def)
qed

lemma replace_rows:
  assumes "distinct (map up_id tbl)" "map up_id ys = map up_id (filter P tbl)" "\<forall>y \<in> set ys. P y"
  shows "filter P (map (\<lambda>x. case find (\<lambda>u. up_id u = up_id x) ys of None \<Rightarrow> x | Some u \<Rightarrow> u) tbl) = ys"
  using assms
proof (induction tbl arbitrary: ys)
  case (Cons x tbl)
  show ?case
  proof (cases "P x")
    case True
    with Cons.prems(2) obtain y ys' where ys: "ys = y # ys'" "up_id y = up_id x" "map up_id ys' = map up_id (filter P tbl)"
      by (cases ys) auto
    have "map (\<lambda>z. case find (\<lambda>u. up_id u = up_id z) ys of None \<Rightarrow> z | Some u \<Rightarrow> u) tbl
        = map (\<lambda>z. case find (\<lambda>u. up_id u = up_id z) ys' of None \<Rightarrow> z | Some u \<Rightarrow> u) tbl"
      using Cons.prems(1) by (auto simp: ys)
    moreover have "filter P (map (\<lambda>z. case find (\<lambda>u. up_id u = up_id z) ys' of None \<Rightarrow> z | Some u \<Rightarrow> u) tbl) = ys'"
      using Cons.IH [OF _ ys(3)] Cons.prems(1,3) by (simp add: ys(1))
    ultimately have "filter P (map (\<lambda>z. case find (\<lambda>u. up_id u = up_id z) ys of None \<Rightarrow> z | Some u \<Rightarrow> u) tbl) = ys'" by (simp only:)
    then show ?thesis using Cons.prems(3) by (simp add: ys(1,2))
  next
    case False
    have "find (\<lambda>u. up_id u = up_id x) ys = None"
    proof -
      have "up_id ` set ys \<subseteq> up_id ` set tbl"
        using arg_cong [OF Cons.prems(2), of set] False by auto
      then have "up_id x \<notin> up_id ` set ys" using Cons.prems(1) by auto
      then show ?thesis by (simp add: find_None_iff) (metis image_eqI)
    qed
    moreover have "filter P (map (\<lambda>z. case find (\<lambda>u. up_id u = up_id z) ys of None \<Rightarrow> z | Some u \<Rightarrow> u) tbl) = ys"
      using Cons.prems False by (intro Cons.IH) simp_all
    ultimately show ?thesis using False by simp
  qed
qed simp

lemma raise_status_simps [simp]:
  "up_id (raise_status i u) = up_id u" "up_run (raise_status i u) = up_run u" "up_kind (raise_status i u) = up_kind u"
  "up_warnings_accepted (raise_status i u) = up_warnings_accepted u" "up_tenant (raise_status i u) = up_tenant u" "up_path (raise_status i u) = up_path u"
  by (simp_all add: raise_status_def)

lemma fold_raise_status:
  "fold raise_status is u = u \<lparr> up_status :=
     (if list_ex is_block is then Some VALIDATION_ERROR
      else if list_ex is_warn is \<and> up_status u = Some VALIDATION_OK then Some VALIDATION_WARN else up_status u) \<rparr>"
proof (induction "is" arbitrary: u)
  case (Cons i "is")
  then show ?case using cross_issue_levels [of i] by (auto simp: raise_status_def is_block_def is_warn_def)
qed simp

lemma fold_update_rows:
  "fold (\<lambda>i. update_rows (\<lambda>u. up_id u = k) (raise_status i)) is ups = update_rows (\<lambda>u. up_id u = k) (fold raise_status is) ups"
proof (induction "is" arbitrary: ups)
  case (Cons i "is")
  then show ?case by (simp add: update_rows_def comp_def cong: map_cong if_cong)
qed (simp add: update_rows_def map_idI)

text \<open>
  The outcome of the checks: an upload with issues of its own is in error; the last EAD upload
  carries the issues across files.
\<close>

definition file_status :: "'s run_env \<Rightarrow> py_str set \<Rightarrow> py_str set \<Rightarrow> loaded_file list \<Rightarrow> loaded_file \<Rightarrow> validation_status" where
  "file_status e segs coll files f =
     (let ead = last (of_kind UPLOAD_EAD files); cross = cross_issues (re_reader e) files ead (last (of_kind UPLOAD_LGD files));
          charged = up_id (lf_upload f) = up_id (lf_upload ead)
      in if file_issues (re_reader e) segs coll f \<noteq> [] \<or> charged \<and> list_ex is_block cross then VALIDATION_ERROR
         else if charged \<and> list_ex is_warn cross then VALIDATION_WARN else VALIDATION_OK)"

lemma check_files_uploads:
  assumes "of_kind UPLOAD_EAD files \<noteq> []" "of_kind UPLOAD_LGD files \<noteq> []"
  shows "co_uploads (check_files e segs coll ids files) =
    map (\<lambda>f. (lf_upload f) \<lparr> up_status := Some (file_status e segs coll files f) \<rparr>) files"
proof -
  let ?ead = "last (of_kind UPLOAD_EAD files)" and ?lgd = "last (of_kind UPLOAD_LGD files)"
  let ?cross = "cross_issues (re_reader e) files ?ead ?lgd" and ?k = "up_id (lf_upload (last (of_kind UPLOAD_EAD files)))"
  let ?ups = "map (\<lambda>f. checked_upload e ids (lf_upload f) (file_issues (re_reader e) segs coll f)) files"
  have "co_uploads (check_files e segs coll ids files)
      = fold (\<lambda>i. update_rows (\<lambda>u. up_id u = up_id (lf_upload (if charge_ead i then ?ead else ?lgd))) (raise_status i)) ?cross ?ups"
    using assms by (simp add: check_files_def Let_def)
  also have "\<dots> = fold (\<lambda>i. update_rows (\<lambda>u. up_id u = ?k) (raise_status i)) ?cross ?ups"
    by (rule fold_cong) (simp_all add: cross_issues_charge_ead [of _ "re_reader e"] cross_issues_def)
  also have "\<dots> = update_rows (\<lambda>u. up_id u = ?k) (fold raise_status ?cross) ?ups" by (rule fold_update_rows)
  also have "\<dots> = map (\<lambda>f. (lf_upload f) \<lparr> up_status := Some (file_status e segs coll files f) \<rparr>) files"
    by (auto simp: update_rows_def checked_upload_files fold_raise_status file_status_def Let_def)
  finally show ?thesis .
qed

lemma check_files_counts:
  assumes "of_kind UPLOAD_EAD files \<noteq> []" "of_kind UPLOAD_LGD files \<noteq> []"
    and cross_def: "cross = cross_issues (re_reader e) files (last (of_kind UPLOAD_EAD files)) (last (of_kind UPLOAD_LGD files))"
  shows "block_count (co_issues (check_files e segs coll ids files)) = 0 \<longleftrightarrow>
      (\<forall>f \<in> set files. file_issues (re_reader e) segs coll f = []) \<and> \<not> list_ex is_block cross"
    and "warn_count (co_issues (check_files e segs coll ids files)) = 0 \<longleftrightarrow> \<not> list_ex is_warn cross"
proof -
  let ?own = "concat (map (\<lambda>f. map (tag (lf_upload f)) (file_issues (re_reader e) segs coll f)) files)"
  let ?cap = "list_ex (\<lambda>f. list_ex issue_cap_reached (file_results (re_reader e) segs coll f)) files"
  obtain g h where co: "co_issues (check_files e segs coll ids files) = ?own @ map (\<lambda>i. tag (g i) i) cross
      @ (if ?cap \<and> h then [\<lparr> ti_kind = UPLOAD_PD, ti_issue = summary_issue,
                     ti_upload_id = (case of_kind UPLOAD_PD files of [] \<Rightarrow> None | f # _ \<Rightarrow> Some (up_id (lf_upload f))),
                     ti_filename = (case of_kind UPLOAD_PD files of [] \<Rightarrow> None | f # _ \<Rightarrow> Some (up_filename (lf_upload f))) \<rparr>] else [])"
    by (rule that [of "\<lambda>i. lf_upload (if charge_ead i then last (of_kind UPLOAD_EAD files) else last (of_kind UPLOAD_LGD files))"
          "MAX_ISSUES \<le> length ?own + length cross"])
      (simp add: check_files_def Let_def cross_def assms(1,2))
  have own: "(\<exists>t \<in> set ?own. is_block (ti_issue t)) \<longleftrightarrow> (\<exists>f \<in> set files. file_issues (re_reader e) segs coll f \<noteq> [])"
  proof
    assume "\<exists>f \<in> set files. file_issues (re_reader e) segs coll f \<noteq> []"
    then obtain f i where "f \<in> set files" "i \<in> set (file_issues (re_reader e) segs coll f)" by (metis list.set_intros(1) neq_Nil_conv)
    then show "\<exists>t \<in> set ?own. is_block (ti_issue t)" by (intro bexI [of _ "tag (lf_upload f) i"]) (auto simp: tag_def dest: file_issues_block)
  qed (auto, metis empty_iff empty_set)
  have nowarn: "\<not> is_warn (ti_issue t)" if "t \<in> set ?own" for t
    using that by (auto simp: tag_def is_warn_def is_block_def dest!: file_issues_block)
  have cap: "?cap \<Longrightarrow> \<exists>f \<in> set files. file_issues (re_reader e) segs coll f \<noteq> []"
    using cap_reached_nonempty unfolding list_ex_iff by blast
  have s: "is_block summary_issue" "\<not> is_warn summary_issue" by (simp_all add: summary_issue_def block_issue_def is_block_def is_warn_def)
  show "block_count (co_issues (check_files e segs coll ids files)) = 0 \<longleftrightarrow>
      (\<forall>f \<in> set files. file_issues (re_reader e) segs coll f = []) \<and> \<not> list_ex is_block cross"
    using own cap s unfolding block_count_def co by (auto simp: filter_empty_conv list_ex_iff tag_def split: if_splits)
  show "warn_count (co_issues (check_files e segs coll ids files)) = 0 \<longleftrightarrow> \<not> list_ex is_warn cross"
    using nowarn s unfolding warn_count_def co by (auto simp: filter_empty_conv list_ex_iff tag_def split: if_splits)
qed

section \<open>Validation decides over execution\<close>

text \<open>The rows of the run after a validation.\<close>

lemma validated_uploads:
  assumes "validate_files e t run user ids (st, d) = (Inr out, (st', d'))" "distinct (map up_id (uploads_tbl d))"
  obtains files segs coll where "map lf_upload files = load_uploads run d" "REQUIRED_KINDS \<subseteq> up_kind ` set (load_uploads run d)"
    "runs_tbl d' = runs_tbl d"
    "load_uploads run d' = map (\<lambda>f. (lf_upload f) \<lparr> up_status := Some (file_status e segs coll files f) \<rparr>) files"
    "of_kind UPLOAD_EAD files \<noteq> []" "of_kind UPLOAD_LGD files \<noteq> []"
    "vo_status out = overall_status_of e ids (check_files e segs coll ids files)"
    "vo_blocking_count out = block_count (co_issues (check_files e segs coll ids files))"
    "vo_warning_count out = warn_count (co_issues (check_files e segs coll ids files))"
      "vo_issues out = issues_to_out e (co_issues (check_files e segs coll ids files))"
proof -
  from assms(1) obtain files segs coll where
    files: "map lf_upload files = load_uploads run d" and req: "REQUIRED_KINDS \<subseteq> up_kind ` set (load_uploads run d)"
    and runs: "runs_tbl d' = runs_tbl d"
    and ups: "uploads_tbl d' = map (\<lambda>x. case find (\<lambda>u. up_id u = up_id x) (co_uploads (check_files e segs coll ids files)) of None \<Rightarrow> x | Some u \<Rightarrow> u) (uploads_tbl d)"
    and out: "vo_status out = overall_status_of e ids (check_files e segs coll ids files)"
    "vo_blocking_count out = block_count (co_issues (check_files e segs coll ids files))"
    "vo_warning_count out = warn_count (co_issues (check_files e segs coll ids files))"
      "vo_issues out = issues_to_out e (co_issues (check_files e segs coll ids files))"
    by (rule validate_files_Inr)
  have kinds: "\<exists>f \<in> set files. up_kind (lf_upload f) = k" if "k \<in> REQUIRED_KINDS" for k
    using that req unfolding files [symmetric] by auto
  then have ne: "of_kind UPLOAD_EAD files \<noteq> []" "of_kind UPLOAD_LGD files \<noteq> []"
    by (auto simp: of_kind_def filter_empty_conv REQUIRED_KINDS_def)
  let ?ys = "map (\<lambda>f. (lf_upload f) \<lparr> up_status := Some (file_status e segs coll files f) \<rparr>) files"
  have ids: "map up_id ?ys = map up_id (filter (\<lambda>u. up_run u = run) (uploads_tbl d))"
    using arg_cong [OF files, of "map up_id"] by (simp add: load_uploads_def comp_def)
  have "\<forall>u \<in> set (map lf_upload files). up_run u = run" unfolding files load_uploads_def by simp
  then have "load_uploads run d' = ?ys"
    unfolding load_uploads_def ups check_files_uploads [OF ne] by (intro replace_rows [OF assms(2) ids]) auto
  then show thesis using that files req runs ne out by blast
qed

lemma check_validated_Inr:
  "check_validated us = Inr x \<longleftrightarrow> (\<forall>u \<in> set us. up_status u = Some VALIDATION_OK \<or> up_status u = Some VALIDATION_WARN \<and> up_warnings_accepted u)"
  by (induction us) auto

lemma check_validated_warn:
  assumes "\<forall>u \<in> set us. up_status u \<in> {Some VALIDATION_OK, Some VALIDATION_WARN}" "\<exists>u \<in> set us. up_status u = Some VALIDATION_WARN \<and> \<not> up_warnings_accepted u"
  shows "check_validated us = Inl (ECLException ''WARNINGS_NOT_ACCEPTED'' 400)"
  using assms by (induction us) auto

lemma execute_run_eq:
  assumes "filter (run_query t run) (runs_tbl d) = [r]" "r_status r \<in> {DRAFT, FAILED}" "REQUIRED_KINDS \<subseteq> up_kind ` set (load_uploads run d)"
  shows "fst (execute_run now t run user d) =
    (case check_validated (load_uploads run d) of Inl x \<Rightarrow> Inl x | Inr _ \<Rightarrow> Inr \<lparr> xo_run_id = run, xo_status = QUEUED, xo_dispatch = True \<rparr>)"
  using assms
  by (auto simp: execute_run_def get_run_for_update_def bind_op_read ACTIVE_RUN_STATUSES_def guard_op_def when_op_def
      clear_run_results_def write_run_def bind_op_modify return_op_def split: sum.splits)

lemma last_file_upload:
  assumes "of_kind k files \<noteq> []"
  shows "last (filter (\<lambda>u. up_kind u = k) (map lf_upload files)) = lf_upload (last (of_kind k files))"
  using assms by (simp add: of_kind_def filter_map comp_def last_map)

text \<open>
  C20. Validation decides over execution. After a validation of a draft or failed run, the run can be
  executed exactly when no blocking issue was reported and there is no warning, unless the last EAD
  upload had its warnings accepted before; and the validation is reported as blocking exactly when
  one of the uploads is left in error.
\<close>

theorem validation_gates_execution:
  assumes "validate_files e t run user ids (st, d) = (Inr out, (st', d'))" and "distinct (map up_id (uploads_tbl d))"
    and "filter (run_query t run) (runs_tbl d) = [r]" and "r_status r \<in> {DRAFT, FAILED}"
  shows "((\<exists>x. fst (execute_run now t run user' d') = Inr x) \<longleftrightarrow>
      vo_blocking_count out = 0 \<and> (vo_warning_count out = 0 \<or> up_warnings_accepted (last (filter (\<lambda>u. up_kind u = UPLOAD_EAD) (load_uploads run d)))))
    \<and> (vo_status out = OverallBlocking \<longleftrightarrow> (\<exists>u \<in> set (load_uploads run d'). up_status u = Some VALIDATION_ERROR))"
proof -
  from assms(1,2) obtain files segs coll where
    files: "map lf_upload files = load_uploads run d" and req: "REQUIRED_KINDS \<subseteq> up_kind ` set (load_uploads run d)"
    and runs: "runs_tbl d' = runs_tbl d"
    and ups: "load_uploads run d' = map (\<lambda>f. (lf_upload f) \<lparr> up_status := Some (file_status e segs coll files f) \<rparr>) files"
    and ne: "of_kind UPLOAD_EAD files \<noteq> []" "of_kind UPLOAD_LGD files \<noteq> []"
    and out: "vo_status out = overall_status_of e ids (check_files e segs coll ids files)"
    "vo_blocking_count out = block_count (co_issues (check_files e segs coll ids files))"
    "vo_warning_count out = warn_count (co_issues (check_files e segs coll ids files))"
    by (rule validated_uploads)
  let ?ead = "last (of_kind UPLOAD_EAD files)"
  let ?cross = "cross_issues (re_reader e) files ?ead (last (of_kind UPLOAD_LGD files))"
  note counts = check_files_counts [OF ne refl, of e segs coll ids]
  have ead: "?ead \<in> set files" using last_in_set [OF ne(1)] by (auto simp: of_kind_def)
  have "distinct (map up_id (map lf_upload files))"
    unfolding files load_uploads_def using assms(2) by (simp add: distinct_map inj_on_def)
  then have inj: "f = ?ead" if "f \<in> set files" "up_id (lf_upload f) = up_id (lf_upload ?ead)" for f
    using that ead by (auto simp: distinct_map inj_on_def)
  have err: "(\<exists>f \<in> set files. file_status e segs coll files f = VALIDATION_ERROR) \<longleftrightarrow> vo_blocking_count out \<noteq> 0"
    unfolding out counts using ead by (auto simp: file_status_def Let_def)
  have ok: "(\<forall>f \<in> set files. file_status e segs coll files f = VALIDATION_OK \<or> file_status e segs coll files f = VALIDATION_WARN \<and> up_warnings_accepted (lf_upload f))
      \<longleftrightarrow> vo_blocking_count out = 0 \<and> (vo_warning_count out = 0 \<or> up_warnings_accepted (lf_upload ?ead))"
    unfolding out counts using ead inj by (auto simp: file_status_def Let_def)
  have "REQUIRED_KINDS \<subseteq> up_kind ` set (load_uploads run d')" unfolding ups using req unfolding files [symmetric] by (simp add: image_image)
  then have "fst (execute_run now t run user' d') =
      (case check_validated (load_uploads run d') of Inl x \<Rightarrow> Inl x | Inr _ \<Rightarrow> Inr \<lparr> xo_run_id = run, xo_status = QUEUED, xo_dispatch = True \<rparr>)"
    using assms(3,4) by (intro execute_run_eq) (simp_all add: runs)
  then have "(\<exists>x. fst (execute_run now t run user' d') = Inr x) \<longleftrightarrow> (\<exists>x. check_validated (load_uploads run d') = Inr x)"
    by (auto split: sum.splits)
  also have "\<dots> \<longleftrightarrow> vo_blocking_count out = 0 \<and> (vo_warning_count out = 0 \<or> up_warnings_accepted (lf_upload ?ead))"
    unfolding check_validated_Inr ok [symmetric] by (simp add: ups)
  also have "lf_upload ?ead = last (filter (\<lambda>u. up_kind u = UPLOAD_EAD) (load_uploads run d))"
    unfolding files [symmetric] last_file_upload [OF ne(1)] ..
  finally have "(\<exists>x. fst (execute_run now t run user' d') = Inr x) \<longleftrightarrow>
      vo_blocking_count out = 0 \<and> (vo_warning_count out = 0 \<or> up_warnings_accepted (last (filter (\<lambda>u. up_kind u = UPLOAD_EAD) (load_uploads run d))))" .
  moreover have "vo_status out = OverallBlocking \<longleftrightarrow> vo_blocking_count out \<noteq> 0"
    unfolding out by (auto simp: overall_status_of_def block_count_def list_ex_iff filter_empty_conv)
  ultimately show ?thesis using err by (auto simp: ups)
qed

text \<open>
  A warning cannot be accepted. For uploads whose warnings were not accepted before, a
  validation without blocking issues that reports a warning makes the run impossible to execute,
  whichever warnings the request accepts; when it accepts all of them the validation even reports
  that all checks passed.
\<close>

lemma accepted_warnings_still_refused:
  assumes "validate_files e t run user ids (st, d) = (Inr out, (st', d'))" and "distinct (map up_id (uploads_tbl d))"
    and "filter (run_query t run) (runs_tbl d) = [r]" and "r_status r \<in> {DRAFT, FAILED}"
    and "\<forall>u \<in> set (load_uploads run d). \<not> up_warnings_accepted u" and "vo_blocking_count out = 0" and "vo_warning_count out \<noteq> 0"
  shows "fst (execute_run now t run user' d') = Inl (ECLException ''WARNINGS_NOT_ACCEPTED'' 400)
    \<and> ((\<forall>x \<in> set (vo_issues out). is_warn (io_issue x) \<longrightarrow> io_id x \<in> set ids) \<longrightarrow> vo_status out = OverallOk)"
proof -
  from assms(1,2) obtain files segs coll where
    files: "map lf_upload files = load_uploads run d" and req: "REQUIRED_KINDS \<subseteq> up_kind ` set (load_uploads run d)"
    and runs: "runs_tbl d' = runs_tbl d"
    and ups: "load_uploads run d' = map (\<lambda>f. (lf_upload f) \<lparr> up_status := Some (file_status e segs coll files f) \<rparr>) files"
    and ne: "of_kind UPLOAD_EAD files \<noteq> []" "of_kind UPLOAD_LGD files \<noteq> []"
    and out: "vo_status out = overall_status_of e ids (check_files e segs coll ids files)"
    "vo_blocking_count out = block_count (co_issues (check_files e segs coll ids files))"
    "vo_warning_count out = warn_count (co_issues (check_files e segs coll ids files))"
    "vo_issues out = issues_to_out e (co_issues (check_files e segs coll ids files))"
    by (rule validated_uploads)
  let ?ead = "last (of_kind UPLOAD_EAD files)"
  note counts = check_files_counts [OF ne refl, of e segs coll ids]
  have ead: "?ead \<in> set files" using last_in_set [OF ne(1)] by (auto simp: of_kind_def)
  have "\<forall>f \<in> set files. file_status e segs coll files f \<in> {VALIDATION_OK, VALIDATION_WARN}" "file_status e segs coll files ?ead = VALIDATION_WARN"
    using assms(6,7) ead unfolding out counts by (auto simp: file_status_def Let_def)
  moreover have "\<not> up_warnings_accepted (lf_upload ?ead)" using assms(5) ead unfolding files [symmetric] by simp
  ultimately have "check_validated (load_uploads run d') = Inl (ECLException ''WARNINGS_NOT_ACCEPTED'' 400)"
    unfolding ups using ead by (intro check_validated_warn) auto
  moreover have "REQUIRED_KINDS \<subseteq> up_kind ` set (load_uploads run d')" unfolding ups using req unfolding files [symmetric] by (simp add: image_image)
  ultimately have "fst (execute_run now t run user' d') = Inl (ECLException ''WARNINGS_NOT_ACCEPTED'' 400)"
    using execute_run_eq [of t run d' r now user'] assms(3,4) by (simp add: runs)
  moreover have "vo_status out = OverallOk" if "\<forall>x \<in> set (vo_issues out). is_warn (io_issue x) \<longrightarrow> io_id x \<in> set ids"
    using that assms(6) unfolding out by (auto simp: overall_status_of_def block_count_def list_ex_iff filter_empty_conv issues_to_out_def)
  ultimately show ?thesis by blast
qed

section \<open>A sample run\<close>

definition map_store :: "(py_str \<rightharpoonup> bytes) object_store" where
  "map_store = \<lparr> os_put = (\<lambda>k b s. (True, s(k \<mapsto> b))), os_get = (\<lambda>k s. s k), os_delete = (\<lambda>k s. (True, s(k := None))) \<rparr>"

lemma store_law_map_store: "store_law map_store"
  by (simp add: store_law_def map_store_def)

definition one_row :: "(py_str \<times> cell) list \<Rightarrow> frame" where
  "one_row cells = \<lparr> fr_columns = map fst cells, fr_rows = [map_of cells] \<rparr>"

definition sample_pd_sheet :: frame where
  "sample_pd_sheet = one_row [(''Loan ID'', CStr ''P1''), (''Staging'', CStr ''Stage 1''), (''Loan Amount'', CNum 100), (''SEGMENT'', CStr ''Retail''),
     (''Reporting Month'', CDate (Date 2025 1 31))]"

definition sample_lgd_sheet :: frame where
  "sample_lgd_sheet = one_row [(''Customer ID'', CStr ''C1''), (''Loan ID'', CStr ''L1''), (''Outstanding Amount'', CNum 100), (''EIR'', CNum (1 / 10))]"

definition sample_ead_sheet :: frame where
  "sample_ead_sheet = one_row [(''Loan ID'', CStr ''L1''), (''Customer ID'', CStr ''C1''), (''SEGMENT'', CStr ''Retail''), (''Reporting Date'', CDate (Date 2025 1 31)),
     (''Maturity Date'', CDate (Date 2026 1 31)), (''Adjusted Maturity Date'', CDate (Date 2026 1 31)), (''First Payment Date'', CDate (Date 2024 1 31)),
     (''Outstanding Amount'', CNum 100), (''Repayment Frequency'', CStr ''MTH''), (''Staging'', CStr ''Stage 1''), (''EIR'', CNum (1 / 10))]"

definition sample_run_env :: "(py_str \<rightharpoonup> bytes) run_env" where
  "sample_run_env = \<lparr> re_now = 500, re_ulid = (\<lambda>n. ''id'' @ show_nat n), re_store = map_store, re_sha256 = (\<lambda>b. b), re_namelist = (\<lambda>_. Some []),
     re_read_excel = (\<lambda>b. if b = ''pd'' then Inr [(''Sheet1'', sample_pd_sheet)] else if b = ''lgd'' then Inr [(''Sheet1'', sample_lgd_sheet)]
       else if b = ''ead'' then Inr [(''Sheet1'', sample_ead_sheet)] else Inl (ValueError ''not a workbook'')),
     re_reader = plain_reader, re_max_upload_bytes = 100, re_strftime = (\<lambda>_ _ _. Inr ''time'') \<rparr>"

definition sample_upload :: "py_str \<Rightarrow> upload_kind \<Rightarrow> upload" where
  "sample_upload content kind = \<lparr> up_id = content, up_run = ''R'', up_tenant = ''T'', up_kind = kind, up_filename = content, up_sha256 = ''0'',
     up_path = ''/T/R/'' @ content, up_size = 3, up_sheets = Some 1, up_rows = Some 1, up_status = None, up_warnings_accepted = False \<rparr>"

definition sample_draft :: run where
  "sample_draft = new_run sample_run_env ''R'' ''T'' ''A'' ''January'' None True"

definition sample_run_db :: db where
  "sample_run_db = one_admin \<lparr> users := [sample_admin], runs_tbl := [sample_draft], segments_tbl := [new_segment ''S'' ''T'' ''A'' \<lparr> csr_name = ''Retail'', csr_code = None \<rparr>],
     uploads_tbl := [sample_upload ''pd'' UPLOAD_PD, sample_upload ''lgd'' UPLOAD_LGD, sample_upload ''ead'' UPLOAD_EAD] \<rparr>"

definition sample_objects :: "py_str \<rightharpoonup> bytes" where
  "sample_objects = [''T/R/pd'' \<mapsto> ''pd'', ''T/R/lgd'' \<mapsto> ''lgd'', ''T/R/ead'' \<mapsto> ''ead'']"

lemma sample_pd_issues: "vr_issues (validate_pd plain_reader sample_pd_sheet ''Sheet1'' [''Retail'']) = []"
  by code_simp

lemma sample_lgd_issues: "vr_issues (validate_lgd plain_reader sample_lgd_sheet ''Sheet1'' []) = []"
  by code_simp

lemma sample_ead_issues: "vr_issues (validate_ead plain_reader sample_ead_sheet ''Sheet1'' [''Retail''] None) = []"
  by code_simp

lemma sample_cross: "map vi_level (validate_cross_files plain_reader \<lparr> cf_pd = sample_pd_sheet, cf_lgd = sample_lgd_sheet, cf_ead = sample_ead_sheet \<rparr>) = [Warn]"
  by code_simp

lemma combine_one_row:
  assumes "distinct (map fst cells)"
  shows "concat_frames [one_row cells] = one_row cells" and "cells \<noteq> [] \<Longrightarrow> combine_sheets [(n, one_row cells)] = one_row cells"
proof -
  have "(\<lambda>c. if c \<in> fst ` set cells then map_of cells c else None) = map_of cells"
    by (auto simp: fun_eq_iff) (metis map_of_eq_None_iff)
  then show c: "concat_frames [one_row cells] = one_row cells"
    using assms by (simp add: concat_frames_def one_row_def distinct_remdups_id)
  then show "cells \<noteq> [] \<Longrightarrow> combine_sheets [(n, one_row cells)] = one_row cells"
    by (simp add: combine_sheets_def Let_def df_empty_def) (simp add: one_row_def)
qed

definition sample_file :: "py_str \<Rightarrow> upload_kind \<Rightarrow> frame \<Rightarrow> loaded_file" where
  "sample_file content kind sheet = \<lparr> lf_upload = sample_upload content kind, lf_sheets = [(''Sheet1'', sheet)], lf_combined = sheet \<rparr>"

definition sample_files :: "loaded_file list" where
  "sample_files = [sample_file ''pd'' UPLOAD_PD sample_pd_sheet, sample_file ''lgd'' UPLOAD_LGD sample_lgd_sheet, sample_file ''ead'' UPLOAD_EAD sample_ead_sheet]"

lemma sample_combined [simp]:
  "combine_sheets [(n, sample_pd_sheet)] = sample_pd_sheet" "combine_sheets [(n, sample_lgd_sheet)] = sample_lgd_sheet"
  "combine_sheets [(n, sample_ead_sheet)] = sample_ead_sheet" "concat_frames [sample_pd_sheet] = sample_pd_sheet"
  by (simp_all add: sample_pd_sheet_def sample_lgd_sheet_def sample_ead_sheet_def combine_one_row)

lemma sample_file_issues: "f \<in> set sample_files \<Longrightarrow> file_issues plain_reader {''Retail''} {} f = []"
  by (auto simp: sample_files_def sample_file_def file_issues_def file_results_def validate_sheet_def sample_upload_def
      sample_pd_issues sample_lgd_issues sample_ead_issues)

lemma sample_counts:
  "block_count (co_issues (check_files sample_run_env {''Retail''} {} ids sample_files)) = 0"
  "0 < warn_count (co_issues (check_files sample_run_env {''Retail''} {} ids sample_files))"
proof -
  have k: "of_kind UPLOAD_EAD sample_files = [sample_file ''ead'' UPLOAD_EAD sample_ead_sheet]" "of_kind UPLOAD_LGD sample_files = [sample_file ''lgd'' UPLOAD_LGD sample_lgd_sheet]"
    "of_kind UPLOAD_PD sample_files = [sample_file ''pd'' UPLOAD_PD sample_pd_sheet]"
    by (simp_all add: of_kind_def sample_files_def sample_file_def sample_upload_def)
  have r: "re_reader sample_run_env = plain_reader" by (simp add: sample_run_env_def)
  obtain i where i: "cross_issues plain_reader sample_files (last (of_kind UPLOAD_EAD sample_files)) (last (of_kind UPLOAD_LGD sample_files)) = [i]" "vi_level i = Warn"
    using sample_cross unfolding cross_issues_def k by (auto simp: sample_file_def)
  show "block_count (co_issues (check_files sample_run_env {''Retail''} {} ids sample_files)) = 0"
    "0 < warn_count (co_issues (check_files sample_run_env {''Retail''} {} ids sample_files))"
    using check_files_counts [of sample_files, OF _ _ refl, of sample_run_env "{''Retail''}" "{}" ids] i sample_file_issues
    unfolding r neq0_conv [symmetric] by (simp_all add: k is_block_def is_warn_def)
qed

lemma sample_prescan:
  "prescan_segments plain_reader sample_files = {''Retail''}" "prescan_collateral sample_files = {}"
  by code_simp+

lemma sample_load:
  "load_files sample_run_env (uploads_tbl sample_run_db) (sample_objects, d) = (Inr sample_files, (sample_objects, d))"
  by (simp add: sample_run_db_def bind_op_def download_bytes_def op_defs sample_upload_def sample_objects_def sample_run_env_def map_store_def
      normalize_key_def parse_excel_def sample_files_def sample_file_def)

lemma sample_validates:
  "\<exists>out d'. validate_files sample_run_env ''T'' ''R'' ''A'' ids (sample_objects, sample_run_db) = (Inr out, (sample_objects, d'))
    \<and> vo_blocking_count out = 0 \<and> vo_warning_count out \<noteq> 0"
proof -
  have ups: "load_uploads ''R'' sample_run_db = uploads_tbl sample_run_db" by (simp add: load_uploads_def sample_run_db_def sample_upload_def)
  have run: "filter (run_query ''T'' ''R'') (runs_tbl sample_run_db) = [sample_draft]"
    by (simp add: sample_run_db_def run_query_def sample_draft_def new_run_def)
  have kinds: "REQUIRED_KINDS \<subseteq> up_kind ` set (uploads_tbl sample_run_db)" "uploads_tbl sample_run_db \<noteq> []"
    by (simp_all add: sample_run_db_def sample_upload_def REQUIRED_KINDS_def)
  have seg: "allowed_segments ''T'' (log_event a b c x y sample_run_db) = {''Retail''}" for a b c x y
    by (simp add: allowed_segments_def sample_run_db_def log_event_def new_segment_def) code_simp
  have reader: "re_reader sample_run_env = plain_reader" by (simp add: sample_run_env_def)
  have coll: "allowed_collateral ''T'' (log_event a b c x y sample_run_db) = {}" for a b c x y
    by (simp add: allowed_collateral_def sample_run_db_def log_event_def one_admin_def empty_db_def)
  show ?thesis
    by (simp add: validate_files_def bind_op_def lift_db_def get_run_row_def op_defs run ups guard_op_def kinds sample_load provision_def reader
        sample_prescan seg coll Let_def store_uploads_def sample_counts)
qed

theorem validation_gates_execution_witness:
  "\<exists>out d'. validate_files sample_run_env ''T'' ''R'' ''A'' [] (sample_objects, sample_run_db) = (Inr out, (sample_objects, d'))
    \<and> \<not> (\<exists>x. fst (execute_run 600 ''T'' ''R'' ''A'' d') = Inr x) \<and> vo_status out \<noteq> OverallBlocking"
proof -
  obtain out d' where v: "validate_files sample_run_env ''T'' ''R'' ''A'' [] (sample_objects, sample_run_db) = (Inr out, (sample_objects, d'))"
    "vo_blocking_count out = 0" "vo_warning_count out \<noteq> 0"
    using sample_validates [of "[]"] by blast
  have "((\<exists>x. fst (execute_run 600 ''T'' ''R'' ''A'' d') = Inr x) \<longleftrightarrow>
      vo_blocking_count out = 0 \<and> (vo_warning_count out = 0 \<or> up_warnings_accepted (last (filter (\<lambda>u. up_kind u = UPLOAD_EAD) (load_uploads ''R'' sample_run_db)))))
    \<and> (vo_status out = OverallBlocking \<longleftrightarrow> (\<exists>u \<in> set (load_uploads ''R'' d'). up_status u = Some VALIDATION_ERROR))"
    using v(1) by (rule validation_gates_execution [where r = sample_draft])
      (simp_all add: sample_run_db_def sample_upload_def run_query_def sample_draft_def new_run_def)
  moreover have "\<not> up_warnings_accepted (last (filter (\<lambda>u. up_kind u = UPLOAD_EAD) (load_uploads ''R'' sample_run_db)))"
    by (simp add: load_uploads_def sample_run_db_def sample_upload_def)
  moreover have "vo_status out \<noteq> OverallBlocking" if "vo_blocking_count out = 0"
    using v(1) that
    by (elim validate_files_Inr) (auto simp: overall_status_of_def block_count_def list_ex_iff filter_empty_conv)
  ultimately show ?thesis using v by blast
qed

lemma accepted_warnings_still_refused_witness:
  "\<exists>out d'. validate_files sample_run_env ''T'' ''R'' ''A'' [] (sample_objects, sample_run_db) = (Inr out, (sample_objects, d'))
    \<and> fst (execute_run 600 ''T'' ''R'' ''A'' d') = Inl (ECLException ''WARNINGS_NOT_ACCEPTED'' 400)"
proof -
  obtain out d' where v: "validate_files sample_run_env ''T'' ''R'' ''A'' [] (sample_objects, sample_run_db) = (Inr out, (sample_objects, d'))"
    "vo_blocking_count out = 0" "vo_warning_count out \<noteq> 0"
    using sample_validates [of "[]"] by blast
  have "fst (execute_run 600 ''T'' ''R'' ''A'' d') = Inl (ECLException ''WARNINGS_NOT_ACCEPTED'' 400)
    \<and> ((\<forall>x \<in> set (vo_issues out). is_warn (io_issue x) \<longrightarrow> io_id x \<in> set []) \<longrightarrow> vo_status out = OverallOk)"
    using v(1) by (rule accepted_warnings_still_refused [where r = sample_draft])
      (use v(2,3) in \<open>simp_all add: sample_run_db_def sample_upload_def run_query_def sample_draft_def new_run_def load_uploads_def\<close>)
  then show ?thesis using v(1) by blast
qed

section \<open>Requests\<close>

datatype run_request =
    CreateRun py_str create_run_request
  | UpdateRun py_str update_run_request
  | UploadFile py_str py_str upload_request
  | DeleteUpload py_str py_str
  | ValidateFiles py_str py_str "py_str list"
  | ExecuteRun py_str py_str
  | RevertRun py_str
  | DeleteRun py_str py_str
  | RerunRun py_str py_str rerun_request

definition ignore :: "('s, 'a) op \<Rightarrow> ('s, unit) op" where
  "ignore m = bind_op m (\<lambda>_. return_op ())"

fun run_request_op :: "'s run_env \<Rightarrow> py_str \<Rightarrow> run_request \<Rightarrow> ('s, unit) file_op" where
  "run_request_op e t (CreateRun u req) = ignore (lift_db (create_run e t u req))"
| "run_request_op e t (UpdateRun i req) = ignore (lift_db (update_run e t i req))"
| "run_request_op e t (UploadFile i u q) = ignore (upload_file e t i u q)"
| "run_request_op e t (DeleteUpload i k) = delete_upload e t i k"
| "run_request_op e t (ValidateFiles i u ids) = ignore (validate_files e t i u ids)"
| "run_request_op e t (ExecuteRun i u) = ignore (lift_db (execute_run (re_now e) t i u))"
| "run_request_op e t (RevertRun i) = lift_db (revert_run_after_dispatch_failure (re_now e) t i)"
| "run_request_op e t (DeleteRun i u) = lift_db (delete_run (re_now e) t i u)"
| "run_request_op e t (RerunRun i u req) = ignore (lift_db (rerun_run e t i u req))"

lemma ignore_Inr: "ignore m s = (Inr x, s') \<longleftrightarrow> (\<exists>y. m s = (Inr y, s'))"
  by (auto simp: ignore_def bind_op_Inr return_op_def)

text \<open>
  A step of the table of runs by a request on the workspace \<open>t\<close>: nothing, a new draft, or a change of
  one live run of the workspace.
\<close>

definition run_change :: "run \<Rightarrow> run \<Rightarrow> bool" where
  "run_change r r' \<longleftrightarrow> r_id r' = r_id r \<and> r_tenant r' = r_tenant r \<and> r_created_by r' = r_created_by r \<and> r_created_at r' = r_created_at r
     \<and> (r_status r' = r_status r \<and> r_deleted_at r' = None
        \<or> r_status r \<in> {DRAFT, FAILED} \<and> r_status r' = QUEUED \<and> r_deleted_at r' = None
        \<or> r_status r = QUEUED \<and> r_status r' = DRAFT \<and> r_deleted_at r' = None
        \<or> r_status r' = DELETED \<and> r_deleted_at r' \<noteq> None)"

inductive run_table_step :: "py_str \<Rightarrow> run list \<Rightarrow> run list \<Rightarrow> bool" where
  no_change: "run_table_step t rows rows"
| new_draft: "r_tenant r = t \<Longrightarrow> r_status r = DRAFT \<Longrightarrow> r_deleted_at r = None \<Longrightarrow> run_table_step t rows (rows @ [r])"
| changed_run: "r_tenant r = t \<Longrightarrow> r_deleted_at r = None \<Longrightarrow> run_change r r' \<Longrightarrow> run_table_step t (us @ r # vs) (us @ r' # vs)"

inductive_cases run_table_stepE: "run_table_step t rows rows'"

lemma touch_simps [simp]:
  "r_id (touch now r r') = (if r' = r then r_id r else r_id r')" "r_tenant (touch now r r') = (if r' = r then r_tenant r else r_tenant r')"
  "r_created_by (touch now r r') = (if r' = r then r_created_by r else r_created_by r')"
  "r_created_at (touch now r r') = (if r' = r then r_created_at r else r_created_at r')"
  "r_status (touch now r r') = (if r' = r then r_status r else r_status r')"
  "r_deleted_at (touch now r r') = (if r' = r then r_deleted_at r else r_deleted_at r')"
  by (simp_all add: touch_def)

lemma run_change_touch: "run_change r r' \<Longrightarrow> run_change r (touch now r r')"
  by (cases "r' = r") (simp_all add: run_change_def)

lemma write_run_eq: "write_run now t i f d = (Inr (), d \<lparr> runs_tbl := update_rows (run_query t i) (\<lambda>r. touch now r (f r)) (runs_tbl d) \<rparr>)"
  by (simp add: write_run_def modify_op_def)

lemma write_run_step:
  assumes "filter (run_query t i) rows = [r]" "run_change r (f r)"
  shows "run_table_step t rows (update_rows (run_query t i) (\<lambda>r. touch now r (f r)) rows)"
proof -
  from assms(1) obtain us vs where uv: "rows = us @ r # vs" "\<And>f. update_rows (run_query t i) f rows = us @ f r # vs"
    by (rule update_single_row) blast
  have "r_tenant r = t" "r_deleted_at r = None" using filter_one_member [OF assms(1)] by (simp_all add: run_query_def)
  then have "run_table_step t (us @ r # vs) (us @ touch now r (f r) # vs)"
    using run_change_touch [OF assms(2)] by (rule run_table_step.changed_run)
  then show ?thesis by (simp only: uv(2)) (simp only: uv(1))
qed

text \<open>The view of a run changes nothing.\<close>

lemma keeps_case_prod [keeps_rules]: "(\<And>a b. keeps I (f a b)) \<Longrightarrow> keeps I (case p of (a, b) \<Rightarrow> f a b)"
  by (cases p) simp

lemma keeps_get_run: "keeps I (get_run e t i viewer)"
  unfolding get_run_def Let_def get_tenant_row_def get_user_row_def assert_run_visible_def
  by (intro keeps_rules)

lemma get_run_Inr: "get_run e t i viewer d = (Inr out, d') \<Longrightarrow> d' = d"
  using keeps_Inr [OF keeps_get_run [of "\<lambda>x. x = d"]] by blast

end
