(* ===== verification/RunLifecycle.thy ===== *)
theory RunLifecycle
  imports RunRequests
begin

text \<open>
  The life cycle of runs over sequences of requests. The requests refine the step relation
  \<open>run_table_step\<close> of theory \<open>RunRequests\<close>; the properties of sequences follow from it. The separation of
  workspaces, the visibility of runs and the stored files are in theory \<open>Isolation\<close>.
\<close>

section \<open>Requests are steps of the table of runs\<close>

text \<open>The storage client does not touch the database.\<close>

lemma keeps_upload_stream [keeps_rules]: "keeps (\<lambda>s. I (snd s)) (upload_stream e k b)"
  by (auto simp: keeps_def upload_stream_def split: prod.splits)

lemma keeps_delete_object [keeps_rules]: "keeps (\<lambda>s. I (snd s)) (delete_object e k)"
  by (auto simp: keeps_def delete_object_def split: prod.splits)

lemma keeps_store_upload [keeps_rules]: "keeps (\<lambda>s. I (snd s)) (store_upload e p q)"
  unfolding store_upload_def download_bytes_def by (intro keeps_rules)

lemma delete_old_uploads_Inr:
  "delete_old_uploads e olds s = (Inr x, s') \<Longrightarrow>
     snd s' = (snd s) \<lparr> uploads_tbl := filter (\<lambda>u. up_id u \<notin> up_id ` set olds) (uploads_tbl (snd s)) \<rparr>"
proof (induction olds arbitrary: s)
  case (Cons old olds)
  from Cons.prems obtain s1 where s1: "delete_object e (up_path old) s = (Inr (), s1)"
    and rest: "delete_old_uploads e olds (fst s1, (snd s1) \<lparr> uploads_tbl := filter (\<lambda>u. up_id u \<noteq> up_id old) (uploads_tbl (snd s1)) \<rparr>) = (Inr x, s')"
    by (auto simp: bind_op_Inr lift_db_Inr delete_upload_row_def modify_op_def)
  have "snd s1 = snd s" using s1 by (auto simp: delete_object_def split: prod.splits if_splits)
  then show ?case using Cons.IH [OF rest] by (simp add: filter_filter conj_commute)
qed (simp add: return_op_def)

lemma store_upload_Inr: "store_upload e p q s = (Inr x, s') \<Longrightarrow> snd s' = snd s"
  using keeps_Inr [OF keeps_store_upload [of "\<lambda>d. d = snd s"]] by blast

text \<open>A successful upload: the rows it replaces are gone, the new row is there, the run has at most a new warning.\<close>

lemma upload_file_Inr:
  assumes "upload_file e t i user q s = (Inr u, s')"
  obtains r k ws runs' where "filter (run_query t i) (runs_tbl (snd s)) = [r]" "r_status r \<in> {DRAFT, FAILED}" "parse_kind (uq_kind q) = Some k"
    "runs' = runs_tbl (snd s) \<or> runs' = update_rows (run_query t i) (\<lambda>r. touch (re_now e) r (r \<lparr> r_warnings := ws r \<rparr>)) (runs_tbl (snd s))"
    "up_id u = re_ulid e 0" "up_run u = i" "up_tenant u = t" "up_kind u = k"
    "snd s' = log_event ''run.file_uploaded'' (Some user) None True None ((snd s) \<lparr> runs_tbl := runs',
       uploads_tbl := filter (\<lambda>x. \<not> (k \<noteq> UPLOAD_PD \<and> up_id x \<in> up_id ` set (filter (\<lambda>u. up_run u = i \<and> up_kind u = k) (uploads_tbl (snd s))))) (uploads_tbl (snd s)) @ [u] \<rparr>)"
proof -
  let ?olds = "\<lambda>k. filter (\<lambda>u. up_run u = i \<and> up_kind u = k) (uploads_tbl (snd s))"
  let ?path = "build_storage_path t i (py_lower (uq_kind q)) (safe_name_of (uq_filename q))"
  from assms obtain r k s1 s2 sha sz sheets sc rc d3 where
    r: "filter (run_query t i) (runs_tbl (snd s)) = [r]" "r_status r \<in> {DRAFT, FAILED}" and k: "parse_kind (uq_kind q) = Some k"
    and s1: "when_op (k \<noteq> UPLOAD_PD) (delete_old_uploads e (?olds k)) s = (Inr (), s1)"
    and s2: "store_upload e ?path q s1 = (Inr (sha, sz, sheets, sc, rc), s2)"
    and d3: "when_op (MAX_ROWS_NOTE < rc) (write_run (re_now e) t i (\<lambda>r. r \<lparr> r_warnings :=
              Some ((case r_warnings r of None \<Rightarrow> [] | Some ws \<Rightarrow> ws) @ [large_upload_warning (uq_kind q) rc]) \<rparr>)) (snd s2) = (Inr (), d3)"
    and u: "up_id u = re_ulid e 0" "up_run u = i" "up_tenant u = t" "up_kind u = k" "up_rows u = Some rc"
    and s': "snd s' = log_event ''run.file_uploaded'' (Some user) None True None (d3 \<lparr> uploads_tbl := uploads_tbl d3 @ [u] \<rparr>)"
    by (auto simp: upload_file_def bind_op_Inr lift_db_Inr get_run_row_def guard_op_def op_defs Let_def split: if_splits option.splits)
  have d1: "snd s1 = (snd s) \<lparr> uploads_tbl := filter (\<lambda>x. \<not> (k \<noteq> UPLOAD_PD \<and> up_id x \<in> up_id ` set (?olds k))) (uploads_tbl (snd s)) \<rparr>"
    using s1 by (auto simp: when_op_def return_op_def dest: delete_old_uploads_Inr split: if_splits)
  have d2: "snd s2 = snd s1" using s2 by (rule store_upload_Inr)
  let ?ws = "\<lambda>r. Some ((case r_warnings r of None \<Rightarrow> [] | Some ws \<Rightarrow> ws) @ [large_upload_warning (uq_kind q) rc])"
  have d3': "(runs_tbl d3 = runs_tbl (snd s) \<or> runs_tbl d3 = update_rows (run_query t i) (\<lambda>r. touch (re_now e) r (r \<lparr> r_warnings := ?ws r \<rparr>)) (runs_tbl (snd s)))
      \<and> d3 = (snd s1) \<lparr> runs_tbl := runs_tbl d3 \<rparr>"
  proof -
    have "runs_tbl (snd s1) = runs_tbl (snd s)" by (simp add: d1)
    then show ?thesis using d3 unfolding d2 by (auto simp: when_op_def write_run_eq return_op_def split: if_splits)
  qed
  then have eq: "snd s' = log_event ''run.file_uploaded'' (Some user) None True None ((snd s) \<lparr> runs_tbl := runs_tbl d3,
       uploads_tbl := filter (\<lambda>x. \<not> (k \<noteq> UPLOAD_PD \<and> up_id x \<in> up_id ` set (?olds k))) (uploads_tbl (snd s)) @ [u] \<rparr>)"
  proof -
    have "d3 \<lparr> uploads_tbl := uploads_tbl d3 @ [u] \<rparr> = (snd s) \<lparr> runs_tbl := runs_tbl d3,
       uploads_tbl := filter (\<lambda>x. \<not> (k \<noteq> UPLOAD_PD \<and> up_id x \<in> up_id ` set (?olds k))) (uploads_tbl (snd s)) @ [u] \<rparr>"
      by (subst conjunct2 [OF d3'], subst (2) conjunct2 [OF d3']) (simp add: d1)
    then show ?thesis unfolding s' by (rule arg_cong)
  qed
  show thesis by (rule that [OF r k conjunct1 [OF d3'] u(1-4) eq])
qed

lemma delete_upload_Inr:
  assumes "delete_upload e t i k s = (Inr x, s')"
  obtains r u where "filter (run_query t i) (runs_tbl (snd s)) = [r]" "filter (\<lambda>u. up_id u = k \<and> up_run u = i) (uploads_tbl (snd s)) = [u]"
    "snd s' = (snd s) \<lparr> uploads_tbl := filter (\<lambda>x. up_id x \<noteq> up_id u) (uploads_tbl (snd s)) \<rparr>"
proof -
  from assms obtain r u s1 where "filter (run_query t i) (runs_tbl (snd s)) = [r]" "filter (\<lambda>u. up_id u = k \<and> up_run u = i) (uploads_tbl (snd s)) = [u]"
    "delete_object e (up_path u) s = (Inr (), s1)" "snd s' = (snd s1) \<lparr> uploads_tbl := filter (\<lambda>x. up_id x \<noteq> up_id u) (uploads_tbl (snd s1)) \<rparr>"
    by (auto simp: delete_upload_def bind_op_Inr lift_db_Inr get_run_row_def guard_op_def op_defs delete_upload_row_def split: if_splits)
  moreover from this(3) have "snd s1 = snd s" by (auto simp: delete_object_def split: prod.splits if_splits)
  ultimately show thesis using that by simp
qed

definition cleared_results :: "py_str \<Rightarrow> py_str \<Rightarrow> db \<Rightarrow> db" where
  "cleared_results i t d = snd (clear_run_results i t d)"

lemma cleared_results_simps [simp]:
  "runs_tbl (cleared_results i t d) = runs_tbl d" "uploads_tbl (cleared_results i t d) = uploads_tbl d"
  "pd_results_tbl (cleared_results i t d) = filter (\<lambda>x. \<not> (pr_run x = i \<and> pr_tenant x = t)) (pd_results_tbl d)"
  "lgd_results_tbl (cleared_results i t d) = filter (\<lambda>x. \<not> (lgr_run x = i \<and> lgr_tenant x = t)) (lgd_results_tbl d)"
  "ead_results_tbl (cleared_results i t d) = filter (\<lambda>x. \<not> (edr_run x = i \<and> edr_tenant x = t)) (ead_results_tbl d)"
  "artifacts_tbl (cleared_results i t d) = filter (\<lambda>x. \<not> (oa_run x = i \<and> oa_tenant x = t)) (artifacts_tbl d)"
  "users (cleared_results i t d) = users d" "members (cleared_results i t d) = members d" "tenants (cleared_results i t d) = tenants d"
  "segments_tbl (cleared_results i t d) = segments_tbl d" "collateral_tbl (cleared_results i t d) = collateral_tbl d"
  by (simp_all add: cleared_results_def clear_run_results_def modify_op_def)

lemma execute_run_Inr:
  assumes "execute_run now t i u d = (Inr out, d')"
  shows "d' = d \<or> (\<exists>r. filter (run_query t i) (runs_tbl d) = [r] \<and> r_status r \<in> {DRAFT, FAILED}
    \<and> d' = log_event ''run.queued'' (Some u) None True None ((if r_status r = FAILED then cleared_results i t d else d)
        \<lparr> runs_tbl := update_rows (run_query t i) (\<lambda>r. touch now r (queued_run r)) (runs_tbl d) \<rparr>))"
  using assms
  by (auto simp: execute_run_def bind_op_Inr get_run_for_update_def guard_op_def when_op_def op_defs write_run_eq cleared_results_def
      clear_run_results_def split: if_splits)

lemma update_run_Inr:
  assumes "update_run e t i req d = (Inr out, d')"
  obtains r where "filter (run_query t i) (runs_tbl d) = [r]" "d' = d \<lparr> runs_tbl := update_rows (run_query t i) (\<lambda>r. touch (re_now e) r (patch_run req r)) (runs_tbl d) \<rparr>"
  using assms
  by (auto simp: update_run_def bind_op_Inr get_run_row_def guard_op_def op_defs write_run_eq split: if_splits dest!: get_run_Inr)

lemma create_run_Inr:
  assumes "create_run e t u req d = (Inr out, d')"
  obtains name period where "d' = log_event ''run.created'' (Some u) None True None (d \<lparr> runs_tbl := runs_tbl d @ [new_run e (re_ulid e 0) t u name period True] \<rparr>)"
  using assms
  by (auto simp: create_run_def bind_op_Inr get_tenant_row_def get_user_row_def add_run_def op_defs dest!: get_run_Inr)

lemma rerun_run_Inr:
  assumes "rerun_run e t i u req d = (Inr out, d')"
  obtains name period combine where "d' = log_event ''run.rerun_created'' (Some u) None True None (d
    \<lparr> runs_tbl := runs_tbl d @ [new_run e (re_ulid e 0) t u name period combine],
      uploads_tbl := uploads_tbl d @ map (\<lambda>(k, src). copy_upload e (k + 1) (re_ulid e 0) t src) (zip [0..<length (load_uploads i d)] (load_uploads i d)) \<rparr>)"
  using assms
  by (auto simp: rerun_run_def bind_op_Inr get_tenant_row_def get_run_row_def guard_op_def add_run_def op_defs Let_def load_uploads_def
      split: if_splits dest!: get_run_Inr)

lemma delete_run_Inr:
  assumes "delete_run now t i u d = (Inr out, d')"
  obtains r where "filter (run_query t i) (runs_tbl d) = [r]" "d' = log_event ''run.deleted'' (Some u) None True None (d
    \<lparr> runs_tbl := update_rows (run_query t i) (\<lambda>r. touch now r (r \<lparr> r_deleted_at := Some now, r_deleted_by := Some u, r_status := DELETED \<rparr>)) (runs_tbl d) \<rparr>)"
  using assms by (auto simp: delete_run_def bind_op_Inr get_run_row_def op_defs write_run_eq)

lemma revert_run_Inr:
  assumes "revert_run_after_dispatch_failure now t i d = (Inr out, d')"
  shows "d' = d \<or> (\<exists>r. filter (run_query t i) (runs_tbl d) = [r] \<and> r_status r = QUEUED \<and> d' = d \<lparr> runs_tbl := update_rows (run_query t i)
    (\<lambda>r. touch now r (r \<lparr> r_status := DRAFT, r_progress := Some default_engine_progress, r_started_at := None \<rparr>)) (runs_tbl d) \<rparr>)"
  using assms by (auto simp: revert_run_after_dispatch_failure_def bind_op_Inr get_run_for_update_def when_op_def op_defs write_run_eq split: if_splits)

lemma runs_log_event [simp]: "runs_tbl (log_event a b c x y d) = runs_tbl d" "uploads_tbl (log_event a b c x y d) = uploads_tbl d"
  by (simp_all add: log_event_def)

lemma patch_run_change: "r_deleted_at r = None \<Longrightarrow> run_change r (patch_run req r)"
  by (simp add: run_change_def patch_run_def Let_def split: option.splits)

lemma request_run_step:
  assumes "run_request_op e t q s = (Inr x, s')"
  shows "run_table_step t (runs_tbl (snd s)) (runs_tbl (snd s'))"
proof (cases q)
  case (CreateRun u req)
  with assms show ?thesis
    by (auto simp: ignore_Inr lift_db_Inr elim!: create_run_Inr intro!: run_table_step.new_draft simp: new_run_def)
next
  case (UpdateRun i req)
  with assms obtain out d' where "update_run e t i req (snd s) = (Inr out, d')" "snd s' = d'" by (auto simp: ignore_Inr lift_db_Inr)
  then show ?thesis
    by (elim update_run_Inr) (use filter_one_member in \<open>fastforce simp: run_query_def intro!: write_run_step patch_run_change\<close>)
next
  case (UploadFile i u q')
  with assms obtain up where "upload_file e t i u q' s = (Inr up, s')" by (auto simp: ignore_Inr)
  then show ?thesis
  proof (rule upload_file_Inr)
    fix r k ws runs'
    assume r: "filter (run_query t i) (runs_tbl (snd s)) = [r]"
      and runs': "runs' = runs_tbl (snd s) \<or> runs' = update_rows (run_query t i) (\<lambda>r. touch (re_now e) r (r \<lparr> r_warnings := ws r \<rparr>)) (runs_tbl (snd s))"
      and s': "snd s' = log_event ''run.file_uploaded'' (Some u) None True None ((snd s) \<lparr> runs_tbl := runs',
       uploads_tbl := filter (\<lambda>x. \<not> (k \<noteq> UPLOAD_PD \<and> up_id x \<in> up_id ` set (filter (\<lambda>u. up_run u = i \<and> up_kind u = k) (uploads_tbl (snd s))))) (uploads_tbl (snd s)) @ [up] \<rparr>)"
    have "run_table_step t (runs_tbl (snd s)) runs'"
      using runs' write_run_step [OF r, of "\<lambda>r. r \<lparr> r_warnings := ws r \<rparr>" "re_now e"] filter_one_member [OF r]
      by (auto simp: run_change_def run_query_def intro: run_table_step.no_change)
    then show ?thesis by (simp add: s')
  qed
next
  case (DeleteUpload i k)
  with assms show ?thesis by (auto elim!: delete_upload_Inr intro: run_table_step.no_change)
next
  case (ValidateFiles i u ids)
  with assms obtain out where "validate_files e t i u ids (fst s, snd s) = (Inr out, (fst s', snd s'))" by (auto simp: ignore_Inr)
  then show ?thesis by (rule validate_files_Inr) (simp add: run_table_step.no_change)
next
  case (ExecuteRun i u)
  with assms obtain out where "execute_run (re_now e) t i u (snd s) = (Inr out, snd s')" by (auto simp: ignore_Inr lift_db_Inr)
  from execute_run_Inr [OF this] show ?thesis
    by (auto intro!: run_table_step.no_change write_run_step) (auto simp: run_change_def queued_run_def run_query_def dest!: filter_one_member)
next
  case (RevertRun i)
  with assms have "revert_run_after_dispatch_failure (re_now e) t i (snd s) = (Inr x, snd s')" by (auto simp: lift_db_Inr)
  from revert_run_Inr [OF this] show ?thesis
    by (auto intro!: run_table_step.no_change write_run_step) (auto simp: run_change_def run_query_def dest!: filter_one_member)
next
  case (DeleteRun i u)
  with assms have "delete_run (re_now e) t i u (snd s) = (Inr x, snd s')" by (auto simp: lift_db_Inr)
  then show ?thesis by (elim delete_run_Inr) (auto intro!: write_run_step simp: run_change_def)
next
  case (RerunRun i u req)
  with assms show ?thesis
    by (auto simp: ignore_Inr lift_db_Inr elim!: rerun_run_Inr intro!: run_table_step.new_draft simp: new_run_def)
qed

section \<open>Sequences of requests\<close>

text \<open>Requests of any callers on any workspaces, one transaction each; the object storage keeps what a failed request wrote.\<close>

type_synonym 's run_call = "'s run_env \<times> py_str \<times> run_request"

fun serve :: "'s run_call list \<Rightarrow> 's \<times> db \<Rightarrow> 's \<times> db" where
  "serve [] s = s"
| "serve ((e, t, q) # calls) s = serve calls (snd (with_db_sys (run_request_op e t q) s))"

lemma with_db_sys_split:
  assumes "\<And>x s'. m s = (Inr x, s') \<Longrightarrow> P (snd s')" "P (snd s)"
  shows "P (snd (snd (with_db_sys m s)))"
proof -
  have "P (snd (snd (with_db_sys m (fst s, snd s))))" by (rule with_db_sys_cases) (use assms in fastforce)+
  then show ?thesis by simp
qed

lemma served_request_step: "run_table_step t (runs_tbl (snd s)) (runs_tbl (snd (snd (with_db_sys (run_request_op e t q) s))))"
  by (rule with_db_sys_split) (auto intro: request_run_step run_table_step.no_change)

text \<open>What the steps promise of one row.\<close>

definition run_evolves :: "run \<Rightarrow> run \<Rightarrow> bool" where
  "run_evolves r r' \<longleftrightarrow> r_id r' = r_id r \<and> r_tenant r' = r_tenant r \<and> r_created_by r' = r_created_by r \<and> r_created_at r' = r_created_at r
     \<and> (r_deleted_at r \<noteq> None \<longrightarrow> r' = r)
     \<and> (r_status r = COMPLETE \<longrightarrow> r_status r' \<in> {COMPLETE, DELETED})
     \<and> (r_status r' \<in> {r_status r, QUEUED, DRAFT, DELETED})
     \<and> (r_status r \<noteq> DELETED \<and> r_status r' = DELETED \<longrightarrow> r_deleted_at r' \<noteq> None)"

lemma run_evolves_refl [simp]: "run_evolves r r"
  by (auto simp: run_evolves_def)

lemma run_evolves_trans: "run_evolves r r' \<Longrightarrow> run_evolves r' r'' \<Longrightarrow> run_evolves r r''"
  by (cases "r_status r"; cases "r_status r'"; cases "r_deleted_at r"; cases "r_deleted_at r'") (auto simp: run_evolves_def)

lemma run_table_step_evolves:
  assumes "run_table_step t rows rows'" "i < length rows"
  shows "i < length rows' \<and> run_evolves (rows ! i) (rows' ! i)"
  using assms
proof (cases rule: run_table_step.cases)
  case (changed_run r r' us vs)
  have "run_evolves r r'" using changed_run(4,5) by (auto simp: run_evolves_def run_change_def)
  then show ?thesis using assms(2) changed_run by (auto simp: nth_append nth_Cons split: nat.splits)
qed (auto simp: nth_append)

lemma serve_evolves:
  "i < length (runs_tbl (snd s)) \<Longrightarrow>
   i < length (runs_tbl (snd (serve calls s))) \<and> run_evolves (runs_tbl (snd s) ! i) (runs_tbl (snd (serve calls s)) ! i)"
proof (induction calls arbitrary: s)
  case (Cons c calls)
  obtain e t q where c: "c = (e, t, q)" by (cases c)
  let ?s = "snd (with_db_sys (run_request_op e t q) s)"
  have "i < length (runs_tbl (snd ?s)) \<and> run_evolves (runs_tbl (snd s) ! i) (runs_tbl (snd ?s) ! i)"
    using served_request_step Cons.prems by (rule run_table_step_evolves)
  then show ?case using Cons.IH [of ?s] run_evolves_trans c by auto
qed simp

text \<open>
  C21. The life cycle of a run under requests. Whatever requests are served, in whatever order, a run
  keeps its place, identifier, workspace, author and creation time; a deleted run never changes; a
  completed run stays completed until it is deleted; and requests alone move a run only to queued,
  back to draft, or to deleted, never into a computation stage, to complete or to failed.
\<close>

theorem run_lifecycle:
  assumes "i < length (runs_tbl d)" and "r = runs_tbl d ! i" and "r' = runs_tbl (snd (serve calls (st, d))) ! i"
  shows "r_id r' = r_id r \<and> r_tenant r' = r_tenant r \<and> r_created_by r' = r_created_by r \<and> r_created_at r' = r_created_at r
    \<and> (r_deleted_at r \<noteq> None \<longrightarrow> r' = r)
    \<and> (r_status r = COMPLETE \<longrightarrow> r_status r' = COMPLETE \<or> r_status r' = DELETED \<and> r_deleted_at r' \<noteq> None)
    \<and> (r_status r' \<in> {r_status r, QUEUED, DRAFT, DELETED})"
  using serve_evolves [of i "(st, d)" calls] assms by (auto simp: run_evolves_def)

theorem run_lifecycle_witness:
  "r_status (runs_tbl (snd (serve [(sample_run_env, ''T'', DeleteRun ''R'' ''A''), (sample_run_env, ''T'', ExecuteRun ''R'' ''A'')] (sample_objects, sample_run_db))) ! 0) = DELETED"
proof -
  let ?calls = "[(sample_run_env, ''T'', DeleteRun ''R'' ''A''), (sample_run_env, ''T'', ExecuteRun ''R'' ''A'')]"
  let ?d1 = "snd (snd (with_db_sys (run_request_op sample_run_env ''T'' (DeleteRun ''R'' ''A'')) (sample_objects, sample_run_db)))"
  have d1: "runs_tbl ?d1 = [touch 500 sample_draft (sample_draft \<lparr> r_deleted_at := Some 500, r_deleted_by := Some ''A'', r_status := DELETED \<rparr>)]"
    by (simp add: with_db_sys_def lift_db_def delete_run_def get_run_row_def bind_op_read bind_op_modify modify_op_def write_run_def
        sample_run_db_def run_query_def sample_draft_def new_run_def sample_run_env_def)
  then have "0 < length (runs_tbl ?d1)" "r_deleted_at (runs_tbl ?d1 ! 0) \<noteq> None" "r_status (runs_tbl ?d1 ! 0) = DELETED"
    by (auto simp: sample_draft_def new_run_def)
  then show ?thesis
    using run_lifecycle [of 0 ?d1 _ _ "[(sample_run_env, ''T'', ExecuteRun ''R'' ''A'')]" "fst (snd (with_db_sys (run_request_op sample_run_env ''T'' (DeleteRun ''R'' ''A'')) (sample_objects, sample_run_db)))", OF _ refl refl]
    by simp
qed

end
