(* ===== verification/Isolation.thy ===== *)
theory Isolation
  imports RunLifecycle
begin

text \<open>
  Separation of workspaces: a request on the runs of one workspace leaves the rows of the others as
  they were; what a caller may see of the runs is the same for one run and for the list of runs; and what
  the object storage keeps after a rejected upload.
\<close>

section \<open>Rows of other workspaces\<close>

text \<open>The rows of other workspaces, and the tables no request on runs writes.\<close>

definition foreign :: "py_str \<Rightarrow> db \<Rightarrow> db" where
  "foreign t d = empty_db \<lparr> users := users d, tenants := tenants d, members := members d,
     runs_tbl := filter (\<lambda>x. r_tenant x \<noteq> t) (runs_tbl d), uploads_tbl := filter (\<lambda>x. up_tenant x \<noteq> t) (uploads_tbl d),
     segments_tbl := filter (\<lambda>x. sm_tenant x \<noteq> t) (segments_tbl d), collateral_tbl := filter (\<lambda>x. ct_tenant x \<noteq> t) (collateral_tbl d),
     pd_results_tbl := filter (\<lambda>x. pr_tenant x \<noteq> t) (pd_results_tbl d), lgd_results_tbl := filter (\<lambda>x. lgr_tenant x \<noteq> t) (lgd_results_tbl d),
     ead_results_tbl := filter (\<lambda>x. edr_tenant x \<noteq> t) (ead_results_tbl d), artifacts_tbl := filter (\<lambda>x. oa_tenant x \<noteq> t) (artifacts_tbl d) \<rparr>"

text \<open>Upload identifiers are unique, and an upload belongs to the workspace of its run.\<close>

definition wf_files :: "db \<Rightarrow> bool" where
  "wf_files d \<longleftrightarrow> distinct (map up_id (uploads_tbl d))
     \<and> (\<forall>u \<in> set (uploads_tbl d). \<forall>r \<in> set (runs_tbl d). r_id r = up_run u \<longrightarrow> r_tenant r = up_tenant u)"

definition foreign_rest :: "py_str \<Rightarrow> db \<Rightarrow> db" where
  "foreign_rest t d = foreign t (d \<lparr> uploads_tbl := [] \<rparr>)"

lemma foreign_split:
  "foreign_rest t d' = foreign_rest t d \<Longrightarrow> filter (\<lambda>x. up_tenant x \<noteq> t) (uploads_tbl d') = filter (\<lambda>x. up_tenant x \<noteq> t) (uploads_tbl d)
   \<Longrightarrow> foreign t d' = foreign t d"
  by (simp add: foreign_rest_def foreign_def empty_db_def)

lemma foreign_log_event [simp]: "foreign t (log_event a b c x y d) = foreign t d" "foreign_rest t (log_event a b c x y d) = foreign_rest t d"
  by (simp_all add: foreign_rest_def foreign_def log_event_def)

lemma foreign_rest_uploads [simp]: "foreign_rest t (d \<lparr> uploads_tbl := us \<rparr>) = foreign_rest t d"
  by (simp add: foreign_rest_def)

lemma foreign_runs_update:
  assumes "\<And>r. r_tenant (f r) = r_tenant r"
  shows "foreign t (d \<lparr> runs_tbl := update_rows (run_query t i) (\<lambda>r. touch now r (f r)) (runs_tbl d) \<rparr>) = foreign t d"
  using filter_update_rows_other [of "run_query t i" "\<lambda>x. r_tenant x \<noteq> t" "\<lambda>r. touch now r (f r)" "runs_tbl d"]
  by (simp add: foreign_def run_query_def assms)

lemma foreign_rest_runs_update:
  assumes "\<And>r. r_tenant (f r) = r_tenant r"
  shows "foreign_rest t (d \<lparr> runs_tbl := update_rows (run_query t i) (\<lambda>r. touch now r (f r)) (runs_tbl d) \<rparr>) = foreign_rest t d"
  using filter_update_rows_other [of "run_query t i" "\<lambda>x. r_tenant x \<noteq> t" "\<lambda>r. touch now r (f r)" "runs_tbl d"]
  by (simp add: foreign_rest_def foreign_def run_query_def assms)

lemma own_upload_tenant:
  assumes "wf_files d" "filter (run_query t i) (runs_tbl d) = [r]" "u \<in> set (uploads_tbl d)" "up_run u = i"
  shows "up_tenant u = t"
  using assms filter_one_member [OF assms(2)] by (auto simp: wf_files_def run_query_def)

lemma same_id_same_upload:
  assumes "wf_files d" "u \<in> set (uploads_tbl d)" "x \<in> set (uploads_tbl d)" "up_id u = up_id x"
  shows "u = x"
  using assms by (auto simp: wf_files_def distinct_map inj_on_def)

lemma foreign_uploads_removed:
  assumes "wf_files d" "\<forall>u \<in> set olds. u \<in> set (uploads_tbl d) \<and> up_tenant u = t"
  shows "filter (\<lambda>x. up_tenant x \<noteq> t) (filter (\<lambda>x. \<not> (b \<and> up_id x \<in> up_id ` set olds)) (uploads_tbl d)) = filter (\<lambda>x. up_tenant x \<noteq> t) (uploads_tbl d)"
proof -
  have "up_id x \<notin> up_id ` set olds" if "x \<in> set (uploads_tbl d)" "up_tenant x \<noteq> t" for x
    using same_id_same_upload [OF assms(1) _ that(1)] assms(2) that(2) by auto
  then show ?thesis by (auto simp: filter_filter intro!: filter_cong)
qed

lemma filter_map_other:
  assumes "\<And>x. x \<in> set xs \<Longrightarrow> Q x \<Longrightarrow> f x = x" "\<And>x. x \<in> set xs \<Longrightarrow> \<not> Q x \<Longrightarrow> \<not> Q (f x)"
  shows "filter Q (map f xs) = filter Q xs"
  using assms by (induction xs) auto

section \<open>Validation\<close>

lemma new_rows_own:
  "filter (\<lambda>x. sm_tenant x \<noteq> t) (map (\<lambda>(i, item). new_segment (ids i) t u item) ps) = []"
  "filter (\<lambda>x. ct_tenant x \<noteq> t) (map (\<lambda>(i, item). new_collateral (ids i) t u item) qs) = []"
  by (auto simp: filter_empty_conv new_segment_def new_collateral_def)

lemma foreign_rest_append:
  "filter (\<lambda>x. sm_tenant x \<noteq> t) xs = [] \<Longrightarrow> foreign_rest t (d \<lparr> segments_tbl := segments_tbl d @ xs \<rparr>) = foreign_rest t d"
  "filter (\<lambda>x. ct_tenant x \<noteq> t) ys = [] \<Longrightarrow> foreign_rest t (d \<lparr> collateral_tbl := collateral_tbl d @ ys \<rparr>) = foreign_rest t d"
  by (simp_all add: foreign_rest_def foreign_def)

lemmas foreign_rest_new_rows = foreign_rest_append(1) [OF new_rows_own(1)] foreign_rest_append(2) [OF new_rows_own(2)]

lemma keeps_load_files [keeps_rules]: "keeps (\<lambda>s. I (snd s)) (load_files e us)"
  by (induction us) (auto intro!: keeps_rules simp: download_bytes_def)

lemma validate_files_rest: "keeps (\<lambda>s. foreign_rest t (snd s) = foreign_rest t d0) (validate_files e t i u ids)"
proof -
  have seg: "keeps (\<lambda>d. foreign_rest t d = foreign_rest t d0) (auto_provision_segments ids' t u names)" for ids' names
    unfolding auto_provision_segments_def batch_create_segments_def Let_def
    by (intro keeps_rules keeps_modify) (simp only: foreign_rest_new_rows)
  have coll: "keeps (\<lambda>d. foreign_rest t d = foreign_rest t d0) (auto_provision_collateral ids' t u names)" for ids' names
    unfolding auto_provision_collateral_def batch_create_collateral_types_def Let_def
    by (intro keeps_rules keeps_modify) (simp only: foreign_rest_new_rows)
  show ?thesis
    unfolding validate_files_def Let_def get_run_row_def store_uploads_def
    by (intro keeps_rules keeps_lift [where I = "\<lambda>d. foreign_rest t d = foreign_rest t d0"] keeps_provision seg coll keeps_modify
        keeps_load_files [where I = "\<lambda>d. foreign_rest t d = foreign_rest t d0"])
      (simp_all add: foreign_rest_def foreign_def log_event_def)
qed

lemma check_files_keys:
  "map up_id (co_uploads (check_files e segs coll ids files)) = map (\<lambda>f. up_id (lf_upload f)) files"
  "map up_tenant (co_uploads (check_files e segs coll ids files)) = map (\<lambda>f. up_tenant (lf_upload f)) files"
proof -
  have raised: "map up_id (fold (\<lambda>i. update_rows (P i) (raise_status i)) is ups) = map up_id ups
     \<and> map up_tenant (fold (\<lambda>i. update_rows (P i) (raise_status i)) is ups) = map up_tenant ups" for P "is" ups
    by (induction "is" arbitrary: ups) (simp_all add: map_update_rows)
  show "map up_id (co_uploads (check_files e segs coll ids files)) = map (\<lambda>f. up_id (lf_upload f)) files"
    "map up_tenant (co_uploads (check_files e segs coll ids files)) = map (\<lambda>f. up_tenant (lf_upload f)) files"
    unfolding check_files_def Let_def check_outcome.simps raised [THEN conjunct1] raised [THEN conjunct2]
    by (simp_all add: checked_upload_def Let_def)
qed

lemma validate_files_foreign:
  assumes "validate_files e t i u ids (st, d) = (Inr out, (st', d'))" "wf_files d"
  shows "foreign t d' = foreign t d"
proof (rule foreign_split)
  show "foreign_rest t d' = foreign_rest t d"
    using keeps_Inr [OF validate_files_rest [of t d] assms(1)] by simp
  obtain r where r: "filter (run_query t i) (runs_tbl d) = [r]"
    using assms(1) by (auto simp: validate_files_def bind_op_Inr lift_db_Inr get_run_row_def op_defs)
  show "filter (\<lambda>x. up_tenant x \<noteq> t) (uploads_tbl d') = filter (\<lambda>x. up_tenant x \<noteq> t) (uploads_tbl d)"
    using assms(1)
  proof (rule validate_files_Inr)
    fix files segs coll
    let ?co = "co_uploads (check_files e segs coll ids files)"
    assume files: "map lf_upload files = load_uploads i d"
      and d': "uploads_tbl d' = map (\<lambda>x. case find (\<lambda>u. up_id u = up_id x) ?co of None \<Rightarrow> x | Some u \<Rightarrow> u) (uploads_tbl d)"
    have mine: "w \<in> set (uploads_tbl d) \<and> up_tenant w = t" if "w \<in> lf_upload ` set files" for w
      using that own_upload_tenant [OF assms(2) r, of w] files [THEN arg_cong, of set] by (auto simp: load_uploads_def)
    have "set (map up_tenant ?co) \<subseteq> {t}" "set (map up_id ?co) = up_id ` lf_upload ` set files"
      unfolding check_files_keys using mine by auto
    then have co: "up_tenant v = t \<and> (\<exists>w \<in> lf_upload ` set files. up_id v = up_id w)" if "v \<in> set ?co" for v
      using that by (auto simp: image_iff subset_iff set_eq_iff)
    have other: "find (\<lambda>u. up_id u = up_id x) ?co = None" if "x \<in> set (uploads_tbl d)" "up_tenant x \<noteq> t" for x
      unfolding find_None_iff using co mine same_id_same_upload [OF assms(2) _ that(1)] that(2) by metis
    have "up_tenant (case find (\<lambda>u. up_id u = up_id x) ?co of None \<Rightarrow> x | Some u \<Rightarrow> u) = t" if "up_tenant x = t" for x
      using co that by (auto split: option.splits dest!: find_Some_iff [THEN iffD1])
    then show ?thesis unfolding d' using other by (intro filter_map_other) auto
  qed
qed

section \<open>Every request\<close>

lemma foreign_new_run:
  "r_tenant r = t \<Longrightarrow> foreign t (d \<lparr> runs_tbl := runs_tbl d @ [r] \<rparr>) = foreign t d"
  "r_tenant r = t \<Longrightarrow> foreign_rest t (d \<lparr> runs_tbl := runs_tbl d @ [r] \<rparr>) = foreign_rest t d"
  by (simp_all add: foreign_rest_def foreign_def)

lemma new_run_tenant [simp]: "r_tenant (new_run e i t u n p c) = t"
  by (simp add: new_run_def)

lemma filter_drop_own: "filter (\<lambda>x. f x \<noteq> t) (filter (\<lambda>x. \<not> (g x = i \<and> f x = t)) xs) = filter (\<lambda>x. f x \<noteq> t) xs"
  by (induction xs) auto

lemma foreign_cleared: "foreign t (cleared_results i t d) = foreign t d"
  unfolding foreign_def cleared_results_simps filter_drop_own ..

lemma request_foreign:
  assumes "run_request_op e t q s = (Inr x, s')" "wf_files (snd s)"
  shows "foreign t (snd s') = foreign t (snd s)"
proof (cases q)
  case (CreateRun u req)
  with assms show ?thesis by (auto simp: ignore_Inr lift_db_Inr foreign_new_run elim!: create_run_Inr)
next
  case (UpdateRun i req)
  with assms obtain out d' where "update_run e t i req (snd s) = (Inr out, d')" "snd s' = d'" by (auto simp: ignore_Inr lift_db_Inr)
  then show ?thesis by (elim update_run_Inr) (simp add: foreign_runs_update patch_run_def Let_def split: option.splits)
next
  case (UploadFile i u q')
  with assms obtain up where "upload_file e t i u q' s = (Inr up, s')" by (auto simp: ignore_Inr)
  then show ?thesis
  proof (rule upload_file_Inr)
    fix r k ws runs'
    let ?olds = "filter (\<lambda>u. up_run u = i \<and> up_kind u = k) (uploads_tbl (snd s))"
    assume r: "filter (run_query t i) (runs_tbl (snd s)) = [r]" and up: "up_tenant up = t"
      and runs': "runs' = runs_tbl (snd s) \<or> runs' = update_rows (run_query t i) (\<lambda>r. touch (re_now e) r (r \<lparr> r_warnings := ws r \<rparr>)) (runs_tbl (snd s))"
      and s': "snd s' = log_event ''run.file_uploaded'' (Some u) None True None ((snd s) \<lparr> runs_tbl := runs',
       uploads_tbl := filter (\<lambda>x. \<not> (k \<noteq> UPLOAD_PD \<and> up_id x \<in> up_id ` set ?olds)) (uploads_tbl (snd s)) @ [up] \<rparr>)"
    have runs: "foreign_rest t ((snd s) \<lparr> runs_tbl := runs' \<rparr>) = foreign_rest t (snd s)"
      using runs' by (auto simp: foreign_rest_runs_update)
    have "filter (\<lambda>x. up_tenant x \<noteq> t) (uploads_tbl (snd s')) = filter (\<lambda>x. up_tenant x \<noteq> t) (uploads_tbl (snd s))"
      using foreign_uploads_removed [OF assms(2), of ?olds t "k \<noteq> UPLOAD_PD"] own_upload_tenant [OF assms(2) r] up by (simp add: s' del: filter_filter)
    moreover have "foreign_rest t (snd s') = foreign_rest t (snd s)" using runs by (simp add: s')
    ultimately show ?thesis by (rule foreign_split [rotated])
  qed
next
  case (DeleteUpload i k)
  with assms have "delete_upload e t i k s = (Inr x, s')" by simp
  then show ?thesis
  proof (rule delete_upload_Inr)
    fix r u
    assume r: "filter (run_query t i) (runs_tbl (snd s)) = [r]" and u: "filter (\<lambda>u. up_id u = k \<and> up_run u = i) (uploads_tbl (snd s)) = [u]"
      and s': "snd s' = (snd s) \<lparr> uploads_tbl := filter (\<lambda>x. up_id x \<noteq> up_id u) (uploads_tbl (snd s)) \<rparr>"
    have "\<forall>w \<in> set [u]. w \<in> set (uploads_tbl (snd s)) \<and> up_tenant w = t"
      using filter_one_member [OF u] own_upload_tenant [OF assms(2) r] by auto
    from foreign_uploads_removed [OF assms(2) this, of True] show ?thesis
      by (intro foreign_split) (simp_all add: s' del: filter_filter)
  qed
next
  case (ValidateFiles i u ids)
  with assms obtain out where "validate_files e t i u ids (fst s, snd s) = (Inr out, (fst s', snd s'))" by (auto simp: ignore_Inr)
  then show ?thesis using assms(2) by (rule validate_files_foreign)
next
  case (ExecuteRun i u)
  from ExecuteRun assms obtain out where "execute_run (re_now e) t i u (snd s) = (Inr out, snd s')" by (auto simp: ignore_Inr lift_db_Inr)
  from execute_run_Inr [OF this] show ?thesis
    using foreign_runs_update [of queued_run t i "re_now e" "cleared_results i t (snd s)"] foreign_runs_update [of queued_run t i "re_now e" "snd s"] foreign_cleared [of t i "snd s"]
    by (auto simp: queued_run_def)
next
  case (RevertRun i)
  with assms have "revert_run_after_dispatch_failure (re_now e) t i (snd s) = (Inr x, snd s')" by (auto simp: lift_db_Inr)
  from revert_run_Inr [OF this] show ?thesis by (auto simp: foreign_runs_update)
next
  case (DeleteRun i u)
  with assms have "delete_run (re_now e) t i u (snd s) = (Inr x, snd s')" by (auto simp: lift_db_Inr)
  then show ?thesis by (elim delete_run_Inr) (simp add: foreign_runs_update)
next
  case (RerunRun i u req)
  have "filter (\<lambda>x. up_tenant x \<noteq> t) (map (\<lambda>(k, src). copy_upload e (k + 1) n t src) ps) = []" for n ps
    by (auto simp: filter_empty_conv copy_upload_def)
  with RerunRun assms show ?thesis
    by (auto simp: ignore_Inr lift_db_Inr foreign_new_run elim!: rerun_run_Inr intro!: foreign_split)
qed

text \<open>
  C22. Workspaces are separated. A request on the runs of a workspace, whether it succeeds or raises, leaves
  every run, upload, segment, collateral type, result row and artifact of every other workspace, and
  all users, workspaces and members, exactly as they were, in any database where upload identifiers are
  unique and an upload belongs to the workspace of its run.
\<close>

theorem requests_stay_in_workspace:
  assumes "wf_files (snd s)"
  shows "foreign t (snd (snd (with_db_sys (run_request_op e t q) s))) = foreign t (snd s)"
proof -
  obtain st d where s: "s = (st, d)" by fastforce
  show ?thesis
    unfolding s snd_conv
    by (rule with_db_sys_cases [of _ _ _ "\<lambda>d'. foreign t d' = foreign t d"]) (use request_foreign assms in \<open>fastforce simp: s\<close>)+
qed

theorem requests_stay_in_workspace_witness:
  "foreign ''T'' (snd (snd (with_db_sys (run_request_op sample_run_env ''T'' (DeleteUpload ''R'' ''pd'')) (sample_objects, sample_run_db))))
   = foreign ''T'' sample_run_db"
proof -
  have "wf_files sample_run_db" by (simp add: wf_files_def sample_run_db_def sample_upload_def sample_draft_def new_run_def)
  then show ?thesis
    using requests_stay_in_workspace [of "(sample_objects, sample_run_db)" "''T''" sample_run_env "DeleteUpload ''R'' ''pd''"] by simp
qed

section \<open>Rejected uploads\<close>

lemma delete_object_ok:
  assumes "store_law (re_store e)" "\<forall>k s. fst (os_delete (re_store e) k s)"
  obtains st' where "delete_object e k (st, d) = (Inr (), (st', d))" "os_get (re_store e) (normalize_key k) st' = None"
    "\<forall>k'. k' \<noteq> normalize_key k \<longrightarrow> os_get (re_store e) k' st' = os_get (re_store e) k' st"
proof -
  obtain ok st' where del: "os_delete (re_store e) (normalize_key k) st = (ok, st')" by fastforce
  moreover have "ok" using assms(2) del by (metis fst_conv)
  ultimately show thesis using assms(1) that [of st'] by (auto simp: delete_object_def store_law_def)
qed

lemma upload_stream_ok:
  assumes "store_law (re_store e)" "\<forall>k b s. fst (os_put (re_store e) k b s)"
  obtains st' where "upload_stream e k b (st, d) = (Inr (re_sha256 e b, length b), (st', d))" 
    "\<forall>k'. k' \<noteq> normalize_key k \<longrightarrow> os_get (re_store e) k' st' = os_get (re_store e) k' st"
proof -
  obtain ok st' where put: "os_put (re_store e) (normalize_key k) b st = (ok, st')" by fastforce
  moreover have "ok" using assms(2) put by (metis fst_conv)
  ultimately show thesis using assms(1) that [of st'] by (auto simp: upload_stream_def store_law_def)
qed

text \<open>
  C23. A rejected replacement destroys the file it was to replace. When an LGD upload of a draft run is replaced by a
  file that is too large, the request raises and the database is as before, with the row of the old
  upload; but with a working object storage the object that row points to is gone, since it was deleted before the
  new file was checked and the rollback does not reach the storage.
\<close>

theorem rejected_upload_loses_file:
  assumes law: "store_law (re_store e)" and del: "\<forall>k s. fst (os_delete (re_store e) k s)" and put: "\<forall>k b s. fst (os_put (re_store e) k b s)"
    and run: "filter (run_query t i) (runs_tbl d) = [r]" "r_status r \<in> {DRAFT, FAILED}"
    and old: "filter (\<lambda>u. up_run u = i \<and> up_kind u = UPLOAD_LGD) (uploads_tbl d) = [u0]"
    and new: "uq_kind q = ''LGD''" "re_max_upload_bytes e < length (uq_content q)"
  shows "\<exists>st'. with_db_sys (upload_file e t i user q) (st, d) = (Inl (ECLException ''FILE_TOO_LARGE'' 413), (st', d))
     \<and> u0 \<in> set (uploads_tbl d) \<and> os_get (re_store e) (normalize_key (up_path u0)) st' = None"
proof -
  let ?path = "build_storage_path t i (py_lower (uq_kind q)) (safe_name_of (uq_filename q))"
  let ?d1 = "d \<lparr> uploads_tbl := filter (\<lambda>x. up_id x \<noteq> up_id u0) (uploads_tbl d) \<rparr>"
  obtain st1 where st1: "delete_object e (up_path u0) (st, d) = (Inr (), (st1, d))" "os_get (re_store e) (normalize_key (up_path u0)) st1 = None"
    by (rule delete_object_ok [OF law del])
  obtain st2 where st2: "upload_stream e ?path (uq_content q) (st1, ?d1) = (Inr (re_sha256 e (uq_content q), length (uq_content q)), (st2, ?d1))"
    "\<forall>k'. k' \<noteq> normalize_key ?path \<longrightarrow> os_get (re_store e) k' st2 = os_get (re_store e) k' st1"
    by (rule upload_stream_ok [OF law put])
  obtain st3 where st3: "delete_object e ?path (st2, ?d1) = (Inr (), (st3, ?d1))" "os_get (re_store e) (normalize_key ?path) st3 = None"
    "\<forall>k'. k' \<noteq> normalize_key ?path \<longrightarrow> os_get (re_store e) k' st3 = os_get (re_store e) k' st2"
    by (rule delete_object_ok [OF law del])
  have kind: "parse_kind (uq_kind q) = Some UPLOAD_LGD" by (simp add: new parse_kind_def)
  have store: "store_upload e ?path q (st1, ?d1) = (Inl (ECLException ''FILE_TOO_LARGE'' 413), (st3, ?d1))"
    using st2(1) st3(1) new(2) by (simp add: store_upload_def bind_op_def when_op_def raise_op_def)
  have olds: "delete_old_uploads e [u0] (st, d) = (Inr (), (st1, ?d1))"
    using st1(1) by (simp add: bind_op_def lift_db_def delete_upload_row_def op_defs)
  have "upload_file e t i user q (st, d) = (Inl (ECLException ''FILE_TOO_LARGE'' 413), (st3, ?d1))"
    using run old kind olds store
    by (simp add: upload_file_def bind_op_def lift_db_def get_run_row_def guard_op_def when_op_def op_defs Let_def)
  moreover have "os_get (re_store e) (normalize_key (up_path u0)) st3 = None"
    using st1(2) st2(2) st3(2,3) by (cases "normalize_key (up_path u0) = normalize_key ?path") auto
  ultimately show ?thesis using filter_one_member [OF old] by (intro exI [of _ st3]) (auto simp: with_db_sys_def)
qed

theorem rejected_upload_loses_file_witness:
  "\<exists>st'. with_db_sys (upload_file sample_run_env ''T'' ''R'' ''A''
       \<lparr> uq_kind = ''LGD'', uq_filename = ''new'', uq_content = replicate 101 (CHR ''x''), uq_content_type = '''' \<rparr>) (sample_objects, sample_run_db)
       = (Inl (ECLException ''FILE_TOO_LARGE'' 413), (st', sample_run_db))
     \<and> sample_objects ''T/R/lgd'' = Some ''lgd'' \<and> st' ''T/R/lgd'' = None"
proof -
  have run: "filter (run_query ''T'' ''R'') (runs_tbl sample_run_db) = [sample_draft]" "r_status sample_draft \<in> {DRAFT, FAILED}"
    by (simp_all add: sample_run_db_def sample_draft_def new_run_def run_query_def)
  have old: "filter (\<lambda>u. up_run u = ''R'' \<and> up_kind u = UPLOAD_LGD) (uploads_tbl sample_run_db) = [sample_upload ''lgd'' UPLOAD_LGD]"
    by (simp add: sample_run_db_def sample_upload_def)
  have store: "store_law (re_store sample_run_env)" "\<forall>k s. fst (os_delete (re_store sample_run_env) k s)"
    "\<forall>k b s. fst (os_put (re_store sample_run_env) k b s)" "os_get (re_store sample_run_env) k s = s k" for k s
    using store_law_map_store by (simp_all add: sample_run_env_def map_store_def)
  have "normalize_key (up_path (sample_upload ''lgd'' UPLOAD_LGD)) = ''T/R/lgd''" "sample_objects ''T/R/lgd'' = Some ''lgd''"
    "re_max_upload_bytes sample_run_env < 101"
    by (simp_all add: sample_upload_def normalize_key_def sample_objects_def sample_run_env_def)
  then show ?thesis
    using rejected_upload_loses_file [OF store(1-3) run old, of
        "\<lparr> uq_kind = ''LGD'', uq_filename = ''new'', uq_content = replicate 101 (CHR ''x''), uq_content_type = '''' \<rparr>" "''A''" sample_objects]
    unfolding store(4) by auto
qed

end
