(* ===== verification/Auth.thy ===== *)
theory Auth
  imports Tenancy
begin

text \<open>
  Accounts, logins and refresh tokens: \<^verbatim>\<open>app/modules/auth/service.py\<close> with \<^verbatim>\<open>app/modules/auth/utils.py\<close> and
  the token constructors of \<^verbatim>\<open>app/core/security.py\<close>.

  The record \<open>env\<close> is what a request takes from outside: the clock, the identifiers \<^verbatim>\<open>new_ulid\<close> and
  the secrets \<^verbatim>\<open>generate_raw_token\<close> it draws (by the position of the draw in the request), the settings,
  and the third-party functions (argon2, SHA-256, JWT, the breach lookup, TOTP and Fernet) as
  parameters. \<open>jwt_law\<close> is the one law on them the theory uses: a token that has not expired decodes
  to the claims it was made from. Claims that no modelled code reads (email, name, issue time) are left out.
\<close>

section \<open>The environment of a request\<close>

record env =
  ev_now :: timestamp
  ev_ulid :: "nat \<Rightarrow> py_str"
  ev_raw :: "nat \<Rightarrow> py_str"
  ev_hash_password :: "py_str \<Rightarrow> py_str"
  ev_verify :: "py_str \<Rightarrow> py_str \<Rightarrow> bool"
  ev_hash_token :: "py_str \<Rightarrow> py_str"
  ev_hash_ip :: "py_str \<Rightarrow> py_str"
  ev_encode :: "claims \<Rightarrow> py_str"
  ev_decode :: decoder
  ev_pwned :: "py_str \<Rightarrow> bool"
  ev_totp :: "py_str \<Rightarrow> py_str \<Rightarrow> bool"
  ev_decrypt :: "py_str \<Rightarrow> py_str"
  ev_encrypt :: "py_str \<Rightarrow> py_str"
  ev_jwt_keys :: bool
  ev_totp_key :: bool
  ev_refresh_days :: int
  ev_access_minutes :: int
  ev_lockout_1 :: nat
  ev_lockout_2 :: nat
  ev_lockout_3 :: nat
  ev_idle_minutes :: int

definition jwt_law :: "env \<Rightarrow> bool" where
  "jwt_law e \<longleftrightarrow> (\<forall>c. ev_now e < cl_exp c \<longrightarrow> ev_decode e (ev_encode e c) = Inr c \<and> ev_encode e c \<noteq> '''')"

definition internal_error :: exn where
  "internal_error = ECLException ''INTERNAL_ERROR'' 500"

definition create_access_token :: "env \<Rightarrow> nat \<Rightarrow> user \<Rightarrow> membership \<Rightarrow> tenant \<Rightarrow> (db, py_str) op" where
  "create_access_token e k u m t =
     bind_op (guard_op (ev_jwt_keys e) internal_error) (\<lambda>_.
     return_op (ev_encode e \<lparr> cl_sub = u_id u, cl_type = None, cl_jti = Some (ev_ulid e k),
       cl_exp = ev_now e + ev_access_minutes e * 60, cl_tenant = Some (t_id t), cl_role = Some (m_role m) \<rparr>))"

definition create_mfa_challenge_token :: "env \<Rightarrow> nat \<Rightarrow> py_str \<Rightarrow> (db, py_str) op" where
  "create_mfa_challenge_token e k user_id =
     bind_op (guard_op (ev_jwt_keys e) internal_error) (\<lambda>_.
     return_op (ev_encode e \<lparr> cl_sub = user_id, cl_type = Some ''mfa_challenge'', cl_jti = Some (ev_ulid e k),
       cl_exp = ev_now e + 5 * 60, cl_tenant = None, cl_role = None \<rparr>))"

section \<open>Workspace slugs\<close>

text \<open>\<^verbatim>\<open>slugify\<close> on strings whose compatibility decomposition is themselves; other characters are dropped.\<close>

definition is_word_char :: "char \<Rightarrow> bool" where
  "is_word_char c \<longleftrightarrow> is_letter c \<or> is_digit c \<or> c = CHR ''_''"

definition is_slug_sep :: "char \<Rightarrow> bool" where
  "is_slug_sep c \<longleftrightarrow> c = CHR ''-'' \<or> py_isspace c"

fun squeeze_seps :: "bool \<Rightarrow> py_str \<Rightarrow> py_str" where
  "squeeze_seps prev [] = []"
| "squeeze_seps prev (c # cs) =
     (if is_slug_sep c then (if prev then squeeze_seps True cs else CHR ''-'' # squeeze_seps True cs)
      else c # squeeze_seps False cs)"

definition strip_char :: "char \<Rightarrow> py_str \<Rightarrow> py_str" where
  "strip_char x s = rev (dropWhile (\<lambda>c. c = x) (rev (dropWhile (\<lambda>c. c = x) s)))"

definition slugify :: "py_str \<Rightarrow> py_str" where
  "slugify name =
     (let ascii = filter (\<lambda>c. (of_char c :: nat) < 128) name;
          kept = filter (\<lambda>c. is_word_char c \<or> is_slug_sep c) (py_lower ascii);
          slug = strip_char CHR ''-'' (squeeze_seps False kept)
      in if slug = '''' then ''workspace'' else slug)"

definition slug_candidate :: "py_str \<Rightarrow> nat \<Rightarrow> py_str" where
  "slug_candidate slug i = slug @ ''-'' @ show_nat i"

definition unique_slug :: "py_str \<Rightarrow> py_str \<Rightarrow> py_str list \<Rightarrow> py_str" where
  "unique_slug new_id base existing =
     (let slug = slugify base
      in if slug \<notin> set existing then slug
         else case find (\<lambda>c. c \<notin> set existing) (map (slug_candidate slug) [2..<1000]) of
                Some c \<Rightarrow> c
              | None \<Rightarrow> slug @ ''-'' @ py_lower (take 8 new_id))"

section \<open>Sessions\<close>

record user_out =
  uo_id :: py_str
  uo_email :: py_str
  uo_name :: py_str
  uo_role :: py_str
  uo_tenant_id :: py_str
  uo_tenant_name :: py_str
  uo_currency :: py_str
  uo_is_email_verified :: bool
  uo_is_onboarding_complete :: bool
  uo_is_platform_admin :: bool

text \<open>The response of a login, with the refresh cookie it sets: its value and its expiry.\<close>

record auth_response =
  ar_access_token :: py_str
  ar_expires_in :: int
  ar_user :: user_out
  ar_message :: py_str
  ar_cookie :: "py_str \<times> timestamp"

definition refresh_expiry :: "env \<Rightarrow> bool \<Rightarrow> timestamp" where
  "refresh_expiry e remember = ev_now e + (if remember then ev_refresh_days e else 1) * 86400"

definition email_query :: "py_str \<Rightarrow> user \<Rightarrow> bool" where
  "email_query email u \<longleftrightarrow> u_email u = py_lower email \<and> u_deleted_at u = None"

definition get_active_user_by_email :: "py_str \<Rightarrow> (db, user option) op" where
  "get_active_user_by_email email = read_op (\<lambda>d. scalar_one_or_none (filter (email_query email) (users d)))"

definition membership_rows :: "py_str \<Rightarrow> py_str option \<Rightarrow> db \<Rightarrow> (membership \<times> tenant) list" where
  "membership_rows user_id tenant_id d =
     (let rows = concat (map (\<lambda>m. map (\<lambda>t. (m, t)) (filter (\<lambda>t. t_id t = m_tenant m \<and> t_deleted_at t = None) (tenants d)))
                   (filter (\<lambda>m. m_user m = user_id \<and> m_status m = member_status_value MEMBER_ACTIVE) (members d)))
      in if truthy tenant_id then filter (\<lambda>(m, t). Some (m_tenant m) = tenant_id) rows
         else sort_key (\<lambda>(m, t). - m_joined_at m) rows)"

definition get_membership :: "py_str \<Rightarrow> py_str option \<Rightarrow> db \<Rightarrow> (membership \<times> tenant) option" where
  "get_membership user_id tenant_id d =
     (case membership_rows user_id tenant_id d of [] \<Rightarrow> None | row # _ \<Rightarrow> Some row)"

definition membership_or_raise :: "py_str \<Rightarrow> py_str option \<Rightarrow> (db, membership \<times> tenant) op" where
  "membership_or_raise user_id tenant_id =
     read_op (\<lambda>d. case get_membership user_id tenant_id d of
       None \<Rightarrow> Inl (ECLException ''NOT_TENANT_MEMBER'' 403) | Some row \<Rightarrow> Inr row)"

definition user_out_of :: "user \<Rightarrow> membership \<Rightarrow> tenant \<Rightarrow> user_out" where
  "user_out_of u m t =
     \<lparr> uo_id = u_id u, uo_email = u_email u, uo_name = u_name u, uo_role = m_role m, uo_tenant_id = t_id t,
       uo_tenant_name = t_name t, uo_currency = (if t_currency t = '''' then ''USD'' else t_currency t),
       uo_is_email_verified = u_is_email_verified u, uo_is_onboarding_complete = (t_onboarded_at t \<noteq> None),
       uo_is_platform_admin = u_is_platform_admin u \<rparr>"

definition new_refresh_token :: "env \<Rightarrow> py_str \<Rightarrow> py_str \<Rightarrow> py_str \<Rightarrow> py_str \<Rightarrow> timestamp \<Rightarrow> refresh_token" where
  "new_refresh_token e new_id user_id family raw expires =
     \<lparr> rt_id = new_id, rt_user = user_id, rt_family = family, rt_hash = ev_hash_token e raw, rt_revoked = False,
       rt_expires_at = expires, rt_last_used_at = None \<rparr>"

text \<open>The draws of identifiers start at \<open>k\<close>, those of secrets at \<open>j\<close>.\<close>

definition create_session_tokens ::
    "env \<Rightarrow> nat \<Rightarrow> nat \<Rightarrow> user \<Rightarrow> membership \<Rightarrow> tenant \<Rightarrow> bool \<Rightarrow> py_str \<Rightarrow> py_str \<Rightarrow> (db, auth_response) op" where
  "create_session_tokens e k j u m t remember ip message =
     (let family_id = ev_ulid e k; raw_refresh = ev_raw e j; expires = refresh_expiry e remember;
          rt = new_refresh_token e (ev_ulid e (k + 1)) (u_id u) family_id raw_refresh expires in
      bind_op (modify_op (\<lambda>d. d \<lparr> refresh_tokens_tbl := refresh_tokens_tbl d @ [rt] \<rparr>)) (\<lambda>_.
      bind_op (modify_op (\<lambda>d. d \<lparr> sessions_tbl := sessions_tbl d @
        [\<lparr> ss_id = ev_ulid e (k + 2), ss_user = u_id u, ss_refresh_token = rt_id rt, ss_ip_hash = ev_hash_ip e ip,
           ss_last_active_at = ev_now e \<rparr>] \<rparr>)) (\<lambda>_.
      bind_op (create_access_token e (k + 3) u m t) (\<lambda>access.
      return_op \<lparr> ar_access_token = access, ar_expires_in = ev_access_minutes e * 60, ar_user = user_out_of u m t,
        ar_message = message, ar_cookie = (raw_refresh, expires) \<rparr>))))"

section \<open>Lockout\<close>

definition check_lockout :: "env \<Rightarrow> user \<Rightarrow> (db, unit) op" where
  "check_lockout e u =
     guard_op (case u_locked_until u of Some t \<Rightarrow> \<not> ev_now e < t | None \<Rightarrow> True) AccountLockedError"

definition write_user :: "py_str \<Rightarrow> (user \<Rightarrow> user) \<Rightarrow> (db, unit) op" where
  "write_user user_id f = modify_op (\<lambda>d. d \<lparr> users := update_rows (\<lambda>u. u_id u = user_id) f (users d) \<rparr>)"

definition failed_login :: "env \<Rightarrow> user \<Rightarrow> user" where
  "failed_login e u =
     (let n = u_failed_login_count u + 1; u' = u \<lparr> u_failed_login_count := n \<rparr>; now = ev_now e
      in if ev_lockout_3 e \<le> n then u' \<lparr> u_locked_until := Some (now + 24 * 3600) \<rparr>
         else if ev_lockout_2 e \<le> n then u' \<lparr> u_locked_until := Some (now + 3600) \<rparr>
         else if ev_lockout_1 e \<le> n then u' \<lparr> u_locked_until := Some (now + 15 * 60) \<rparr>
         else u')"

definition handle_failed_login :: "env \<Rightarrow> user \<Rightarrow> (db, unit) op" where
  "handle_failed_login e u = write_user (u_id u) (failed_login e)"

section \<open>Registration and login\<close>

record register_request =
  rr_company_name :: py_str
  rr_email :: py_str
  rr_name :: py_str
  rr_password :: py_str

record login_request =
  lr_email :: py_str
  lr_password :: py_str
  lr_remember :: bool

datatype login_response = LoggedIn auth_response | MFAChallenge py_str

definition check_password :: "env \<Rightarrow> py_str \<Rightarrow> py_str option \<Rightarrow> py_str option \<Rightarrow> (db, unit) op" where
  "check_password e password name org_name =
     (case validate_password_full (ev_pwned e) password name org_name of
        [] \<Rightarrow> return_op () | code # _ \<Rightarrow> raise_op (ECLException code 422))"

definition new_user :: "env \<Rightarrow> py_str \<Rightarrow> py_str \<Rightarrow> py_str \<Rightarrow> py_str \<Rightarrow> bool \<Rightarrow> user" where
  "new_user e new_id email name password verified =
     \<lparr> u_id = new_id, u_email = py_lower email, u_name = py_strip name, u_hashed_password = ev_hash_password e password,
       u_is_active = True, u_is_email_verified = verified, u_is_platform_admin = False, u_failed_login_count = 0,
       u_locked_until = None, u_last_login_at = None, u_totp_secret = None, u_totp_enabled = False, u_backup_codes = None,
       u_title = None, u_avatar = None, u_deleted_at = None \<rparr>"

definition new_tenant :: "env \<Rightarrow> py_str \<Rightarrow> py_str \<Rightarrow> py_str \<Rightarrow> tenant" where
  "new_tenant e new_id company_name slug =
     \<lparr> t_id = new_id, t_name = py_strip company_name, t_slug = slug, t_plan = ''trial'', t_status = tenant_status_value TENANT_TRIAL,
       t_currency = ''USD'', t_cadence = ''monthly'', t_timezone = ''UTC'', t_onboarded_at = None, t_progress = None,
       t_region = None, t_mrr_cents = 0, t_engine_version_pin = None, t_created_at = ev_now e,
       t_close_requested_at = None, t_close_requested_by = None, t_deleted_at = None \<rparr>"

definition new_membership :: "env \<Rightarrow> py_str \<Rightarrow> py_str \<Rightarrow> py_str \<Rightarrow> py_str \<Rightarrow> membership" where
  "new_membership e new_id user_id tenant_id role =
     \<lparr> m_id = new_id, m_user = user_id, m_tenant = tenant_id, m_role = role,
       m_status = member_status_value MEMBER_ACTIVE, m_joined_at = ev_now e \<rparr>"

definition new_mail_token :: "env \<Rightarrow> py_str \<Rightarrow> py_str \<Rightarrow> py_str \<Rightarrow> int \<Rightarrow> mail_token" where
  "new_mail_token e new_id user_id raw hours =
     \<lparr> mt_id = new_id, mt_user = user_id, mt_hash = ev_hash_token e raw, mt_expires_at = ev_now e + hours * 3600, mt_used_at = None \<rparr>"

definition register_user :: "env \<Rightarrow> register_request \<Rightarrow> py_str \<Rightarrow> (db, auth_response) op" where
  "register_user e req ip =
     bind_op (check_password e (rr_password req) (Some (rr_name req)) (Some (rr_company_name req))) (\<lambda>_.
     bind_op (get_active_user_by_email (rr_email req)) (\<lambda>existing.
     bind_op (guard_op (existing = None) EmailTakenError) (\<lambda>_.
     bind_op (read_op (\<lambda>d. Inr (map t_slug (filter (\<lambda>t. t_deleted_at t = None) (tenants d))))) (\<lambda>existing_slugs.
     let slug = unique_slug (ev_ulid e 0) (rr_company_name req) existing_slugs;
         u = new_user e (ev_ulid e 1) (rr_email req) (rr_name req) (rr_password req) False;
         t = new_tenant e (ev_ulid e 2) (rr_company_name req) slug;
         m = new_membership e (ev_ulid e 3) (u_id u) (t_id t) (role_value ADMINISTRATOR);
         raw_verify = ev_raw e 0 in
     bind_op (modify_op (\<lambda>d. d \<lparr> users := users d @ [u], tenants := tenants d @ [t], members := members d @ [m],
       verify_tokens := verify_tokens d @ [new_mail_token e (ev_ulid e 4) (u_id u) raw_verify 24] \<rparr>)) (\<lambda>_.
     bind_op (create_session_tokens e 5 1 u m t True ip ''Registration successful'') (\<lambda>resp.
     bind_op (modify_op (log_event ''user.register'' (Some (u_id u)) None True None)) (\<lambda>_.
     bind_op (modify_op (queue_email_in_outbox (ev_ulid e 9) ''send_verification_email''
       [(''user_id'', u_id u), (''raw_token'', raw_verify)])) (\<lambda>_.
     return_op resp))))))))"

definition login_user :: "env \<Rightarrow> login_request \<Rightarrow> py_str \<Rightarrow> (db, login_response) op" where
  "login_user e req ip =
     bind_op (get_active_user_by_email (lr_email req)) (\<lambda>found.
     case found of
       None \<Rightarrow> raise_op InvalidCredentialsError
     | Some u \<Rightarrow>
         if \<not> ev_verify e (lr_password req) (u_hashed_password u) then
           bind_op (check_lockout e u) (\<lambda>_.
           bind_op (handle_failed_login e u) (\<lambda>_.
           bind_op (modify_op (log_event ''auth.login.failed'' (Some (u_id u)) None False (Some ''INVALID_CREDENTIALS''))) (\<lambda>_.
           raise_op InvalidCredentialsError)))
         else
           bind_op (check_lockout e u) (\<lambda>_.
           bind_op (guard_op (u_is_active u) AccountDisabledError) (\<lambda>_.
           bind_op (write_user (u_id u) (\<lambda>u. u \<lparr> u_failed_login_count := 0, u_locked_until := None, u_last_login_at := Some (ev_now e) \<rparr>)) (\<lambda>_.
           bind_op (membership_or_raise (u_id u) None) (\<lambda>(m, t).
           if u_totp_enabled u then
             bind_op (create_mfa_challenge_token e 0 (u_id u)) (\<lambda>challenge. return_op (MFAChallenge challenge))
           else
             bind_op (create_session_tokens e 0 0 u m t (lr_remember req) ip ''Login successful'') (\<lambda>resp.
             bind_op (modify_op (log_event ''auth.login.success'' (Some (u_id u)) None True None)) (\<lambda>_.
             return_op (LoggedIn resp))))))))"

section \<open>The second factor\<close>

fun use_backup_code :: "env \<Rightarrow> py_str \<Rightarrow> backup_code list \<Rightarrow> backup_code list option" where
  "use_backup_code e code [] = None"
| "use_backup_code e code (entry # entries) =
     (if \<not> bc_used entry \<and> ev_verify e code (bc_hash entry) then Some (entry \<lparr> bc_used := True \<rparr> # entries)
      else map_option (\<lambda>es. entry # es) (use_backup_code e code entries))"

definition invalid_challenge :: exn where
  "invalid_challenge = ECLException ''INVALID_CHALLENGE_TOKEN'' 400"

definition decode_challenge :: "env \<Rightarrow> py_str \<Rightarrow> claims result" where
  "decode_challenge e token =
     (case ev_decode e token of
        Inl (ECLException _ _) \<Rightarrow> Inl invalid_challenge
      | Inl x \<Rightarrow> Inl x
      | Inr payload \<Rightarrow> if cl_type payload = Some ''mfa_challenge'' then Inr payload else Inl invalid_challenge)"

definition check_second_factor :: "env \<Rightarrow> user \<Rightarrow> py_str \<Rightarrow> (db, unit) op" where
  "check_second_factor e u code =
     (if length code = 8 then
        (case use_backup_code e code (case u_backup_codes u of None \<Rightarrow> [] | Some es \<Rightarrow> es) of
           None \<Rightarrow>
             bind_op (modify_op (log_event ''mfa.totp.failed'' (Some (u_id u)) None False (Some ''INVALID_RECOVERY_CODE''))) (\<lambda>_.
             raise_op (ECLException ''INVALID_TOTP_CODE'' 400))
         | Some es \<Rightarrow>
             bind_op (write_user (u_id u) (\<lambda>u. u \<lparr> u_backup_codes := Some es \<rparr>)) (\<lambda>_.
             modify_op (log_event ''mfa.recovery_code.used'' (Some (u_id u)) None True None)))
      else
        (case u_totp_secret u of
           None \<Rightarrow> raise_op (ECLException ''TOTP_NOT_ENABLED'' 400)
         | Some secret \<Rightarrow>
             if secret = '''' then raise_op (ECLException ''TOTP_NOT_ENABLED'' 400)
             else if \<not> ev_totp_key e then raise_op internal_error
             else if \<not> ev_totp e (ev_decrypt e secret) code then
               bind_op (modify_op (log_event ''mfa.totp.failed'' (Some (u_id u)) None False (Some ''INVALID_TOTP_CODE''))) (\<lambda>_.
               raise_op (ECLException ''INVALID_TOTP_CODE'' 400))
             else modify_op (log_event ''mfa.totp.verified'' (Some (u_id u)) None True None)))"

definition verify_mfa :: "env \<Rightarrow> py_str \<Rightarrow> py_str \<Rightarrow> py_str \<Rightarrow> auth_response sys_op" where
  "verify_mfa e challenge_token code ip =
     bind_op (read_op (\<lambda>_. decode_challenge e challenge_token)) (\<lambda>payload.
     let jti = (case cl_jti payload of None \<Rightarrow> '''' | Some j \<Rightarrow> j) in
     bind_op (read_op (\<lambda>(redis, d). if jti = '''' then Inr False else is_token_blacklisted redis jti (ev_now e) d)) (\<lambda>used.
     bind_op (guard_op (\<not> used) invalid_challenge) (\<lambda>_.
     bind_op (lift_db (read_op (\<lambda>d. one_or_raise (ECLException ''ACCOUNT_DISABLED'' 403)
       (filter (\<lambda>u. u_id u = cl_sub payload \<and> u_deleted_at u = None) (users d))))) (\<lambda>u.
     bind_op (guard_op (u_is_active u) (ECLException ''ACCOUNT_DISABLED'' 403)) (\<lambda>_.
     bind_op (lift_db (check_second_factor e u code)) (\<lambda>_.
     bind_op (when_op (jti \<noteq> '''') (blacklist_token (ev_now e) jti (u_id u) (cl_exp payload) ''mfa_challenge_used'')) (\<lambda>_.
     bind_op (lift_db (membership_or_raise (u_id u) None)) (\<lambda>(m, t).
     bind_op (lift_db (create_session_tokens e 0 0 u m t False ip ''Login successful'')) (\<lambda>resp.
     bind_op (lift_db (modify_op (log_event ''auth.login.success'' (Some (u_id u)) None True None))) (\<lambda>_.
     return_op resp))))))))))"

section \<open>Refresh tokens\<close>

definition revoke_family :: "py_str \<Rightarrow> (db, unit) op" where
  "revoke_family family_id =
     modify_op (\<lambda>d. d \<lparr> refresh_tokens_tbl :=
       update_rows (\<lambda>rt. rt_family rt = family_id) (\<lambda>rt. rt \<lparr> rt_revoked := True \<rparr>) (refresh_tokens_tbl d) \<rparr>)"

definition refresh_expired :: exn where
  "refresh_expired = ECLException ''REFRESH_EXPIRED'' 401"

definition hash_query :: "env \<Rightarrow> py_str \<Rightarrow> refresh_token \<Rightarrow> bool" where
  "hash_query e raw rt \<longleftrightarrow> rt_hash rt = ev_hash_token e raw"

definition move_session :: "env \<Rightarrow> refresh_token \<Rightarrow> py_str \<Rightarrow> (db, unit) op" where
  "move_session e rt new_rt_id =
     bind_op (read_op (\<lambda>d. scalar_one_or_none (filter (\<lambda>s. ss_refresh_token s = rt_id rt) (sessions_tbl d)))) (\<lambda>found.
     case found of
       None \<Rightarrow> return_op ()
     | Some sess \<Rightarrow>
         bind_op (guard_op (ev_now e - ss_last_active_at sess \<le> ev_idle_minutes e * 60) (ECLException ''IDLE_SESSION_EXPIRED'' 401)) (\<lambda>_.
         modify_op (\<lambda>d. d \<lparr> sessions_tbl := update_rows (\<lambda>s. ss_refresh_token s = rt_id rt)
           (\<lambda>s. s \<lparr> ss_refresh_token := new_rt_id, ss_last_active_at := ev_now e \<rparr>) (sessions_tbl d) \<rparr>)))"

definition refresh_tokens :: "env \<Rightarrow> py_str \<Rightarrow> (db, auth_response) op" where
  "refresh_tokens e raw_refresh =
     bind_op (read_op (\<lambda>d. one_or_raise refresh_expired (filter (hash_query e raw_refresh) (refresh_tokens_tbl d)))) (\<lambda>rt.
     bind_op (when_op (rt_revoked rt)
       (bind_op (revoke_family (rt_family rt)) (\<lambda>_. raise_op (ECLException ''TOKEN_REUSE'' 401)))) (\<lambda>_.
     bind_op (guard_op (\<not> rt_expires_at rt < ev_now e) refresh_expired) (\<lambda>_.
     bind_op (read_op (\<lambda>d. one_or_raise InvalidCredentialsError (filter (\<lambda>u. u_id u = rt_user rt) (users d)))) (\<lambda>u.
     bind_op (guard_op (u_is_active u) InvalidCredentialsError) (\<lambda>_.
     bind_op (membership_or_raise (u_id u) None) (\<lambda>(m, t).
     let new_raw = ev_raw e 0; new_expires = ev_now e + ev_refresh_days e * 86400;
         new_rt = new_refresh_token e (ev_ulid e 0) (u_id u) (rt_family rt) new_raw new_expires in
     bind_op (modify_op (\<lambda>d. d \<lparr> refresh_tokens_tbl :=
       update_rows (hash_query e raw_refresh) (\<lambda>rt. rt \<lparr> rt_revoked := True, rt_last_used_at := Some (ev_now e) \<rparr>) (refresh_tokens_tbl d)
         @ [new_rt] \<rparr>)) (\<lambda>_.
     bind_op (move_session e rt (rt_id new_rt)) (\<lambda>_.
     bind_op (create_access_token e 1 u m t) (\<lambda>access.
     return_op \<lparr> ar_access_token = access, ar_expires_in = ev_access_minutes e * 60, ar_user = user_out_of u m t,
       ar_message = ''Token refreshed'', ar_cookie = (new_raw, new_expires) \<rparr>)))))))))"

section \<open>Logout\<close>

definition revoke_by_hash :: "env \<Rightarrow> py_str \<Rightarrow> (db, unit) op" where
  "revoke_by_hash e raw_refresh =
     bind_op (read_op (\<lambda>d. scalar_one_or_none (filter (hash_query e raw_refresh) (refresh_tokens_tbl d)))) (\<lambda>found.
     case found of
       None \<Rightarrow> return_op ()
     | Some rt \<Rightarrow> modify_op (\<lambda>d. d \<lparr>
         refresh_tokens_tbl := update_rows (hash_query e raw_refresh) (\<lambda>rt. rt \<lparr> rt_revoked := True \<rparr>) (refresh_tokens_tbl d),
         sessions_tbl := filter (\<lambda>s. ss_refresh_token s \<noteq> rt_id rt) (sessions_tbl d) \<rparr>))"

definition logout_user :: "env \<Rightarrow> py_str \<Rightarrow> py_str option \<Rightarrow> unit sys_op" where
  "logout_user e access_token raw_refresh =
     bind_op (case ev_decode e access_token of
         Inl (ECLException _ _) \<Rightarrow> return_op None
       | Inl x \<Rightarrow> raise_op x
       | Inr payload \<Rightarrow>
           let user_id = (if cl_sub payload = '''' then None else Some (cl_sub payload)) in
           bind_op (when_op (truthy (cl_jti payload) \<and> cl_exp payload \<noteq> 0 \<and> user_id \<noteq> None)
             (blacklist_token (ev_now e) (the (cl_jti payload)) (cl_sub payload) (cl_exp payload) ''logout'')) (\<lambda>_.
           return_op user_id)) (\<lambda>user_id.
     bind_op (when_op (truthy raw_refresh) (lift_db (revoke_by_hash e (the raw_refresh)))) (\<lambda>_.
     lift_db (modify_op (log_event ''auth.logout'' user_id None True None))))"

definition revoke_user_tokens :: "py_str \<Rightarrow> (db, unit) op" where
  "revoke_user_tokens user_id =
     modify_op (\<lambda>d. d \<lparr>
       refresh_tokens_tbl := update_rows (\<lambda>rt. rt_user rt = user_id) (\<lambda>rt. rt \<lparr> rt_revoked := True \<rparr>) (refresh_tokens_tbl d),
       sessions_tbl := filter (\<lambda>s. ss_user s \<noteq> user_id) (sessions_tbl d) \<rparr>)"

definition logout_all_user :: "env \<Rightarrow> py_str \<Rightarrow> py_str \<Rightarrow> unit sys_op" where
  "logout_all_user e user_id access_token =
     bind_op (logout_user e access_token None) (\<lambda>_. lift_db (revoke_user_tokens user_id))"

section \<open>Password reset and email verification\<close>

definition forgot_password :: "env \<Rightarrow> py_str \<Rightarrow> py_str \<Rightarrow> (db, unit) op" where
  "forgot_password e email ip =
     bind_op (get_active_user_by_email email) (\<lambda>found.
     case found of
       None \<Rightarrow> return_op ()
     | Some u \<Rightarrow>
         when_op (u_is_active u)
           (bind_op (modify_op (\<lambda>d. d \<lparr> reset_tokens := update_rows (\<lambda>t. mt_user t = u_id u \<and> mt_used_at t = None)
              (\<lambda>t. t \<lparr> mt_used_at := Some (ev_now e) \<rparr>) (reset_tokens d) \<rparr>)) (\<lambda>_.
            bind_op (modify_op (\<lambda>d. d \<lparr> reset_tokens := reset_tokens d @ [new_mail_token e (ev_ulid e 0) (u_id u) (ev_raw e 0) 1] \<rparr>)) (\<lambda>_.
            bind_op (modify_op (log_event ''auth.password_reset.requested'' (Some (u_id u)) None True None)) (\<lambda>_.
            modify_op (queue_email_in_outbox (ev_ulid e 1) ''send_reset_password_email''
              [(''user_id'', u_id u), (''raw_token'', ev_raw e 0), (''ip_address'', ip)]))))))"

definition mail_query :: "env \<Rightarrow> py_str \<Rightarrow> mail_token \<Rightarrow> bool" where
  "mail_query e raw t \<longleftrightarrow> mt_hash t = ev_hash_token e raw"

text \<open>The row of a one-time token that is unused and has not expired.\<close>

definition usable_token :: "env \<Rightarrow> exn \<Rightarrow> py_str \<Rightarrow> mail_token list \<Rightarrow> mail_token result" where
  "usable_token e x raw table =
     (case one_or_raise x (filter (mail_query e raw) table) of
        Inl y \<Rightarrow> Inl y
      | Inr t \<Rightarrow> if mt_used_at t \<noteq> None \<or> mt_expires_at t < ev_now e then Inl x else Inr t)"

definition reset_password :: "env \<Rightarrow> py_str \<Rightarrow> py_str \<Rightarrow> py_str \<Rightarrow> (db, unit) op" where
  "reset_password e token password ip =
     bind_op (read_op (\<lambda>d. usable_token e (ECLException ''INVALID_RESET_TOKEN'' 400) token (reset_tokens d))) (\<lambda>prt.
     bind_op (read_op (\<lambda>d. scalar_one (filter (\<lambda>u. u_id u = mt_user prt) (users d)))) (\<lambda>u.
     bind_op (check_password e password (Some (u_name u)) None) (\<lambda>_.
     bind_op (write_user (u_id u) (\<lambda>u. u \<lparr> u_hashed_password := ev_hash_password e password \<rparr>)) (\<lambda>_.
     bind_op (modify_op (\<lambda>d. d \<lparr> reset_tokens := update_rows (mail_query e token) (\<lambda>t. t \<lparr> mt_used_at := Some (ev_now e) \<rparr>) (reset_tokens d) \<rparr>)) (\<lambda>_.
     bind_op (revoke_user_tokens (u_id u)) (\<lambda>_.
     bind_op (modify_op (log_event ''auth.password_reset.completed'' (Some (u_id u)) None True None)) (\<lambda>_.
     modify_op (queue_email_in_outbox (ev_ulid e 0) ''send_password_changed_email'' [(''user_id'', u_id u), (''ip_address'', ip)]))))))))"

definition verify_email :: "env \<Rightarrow> py_str \<Rightarrow> (db, unit) op" where
  "verify_email e raw_token =
     bind_op (read_op (\<lambda>d. usable_token e (ECLException ''INVALID_VERIFY_TOKEN'' 400) raw_token (verify_tokens d))) (\<lambda>evt.
     bind_op (read_op (\<lambda>d. scalar_one (filter (\<lambda>u. u_id u = mt_user evt) (users d)))) (\<lambda>u.
     bind_op (write_user (u_id u) (\<lambda>u. u \<lparr> u_is_email_verified := True \<rparr>)) (\<lambda>_.
     bind_op (modify_op (\<lambda>d. d \<lparr> verify_tokens := update_rows (mail_query e raw_token) (\<lambda>t. t \<lparr> mt_used_at := Some (ev_now e) \<rparr>) (verify_tokens d) \<rparr>)) (\<lambda>_.
     modify_op (log_event ''user.email_verified'' (Some (u_id u)) None True None)))))"

definition resend_verification_email :: "env \<Rightarrow> py_str \<Rightarrow> (db, unit) op" where
  "resend_verification_email e email =
     bind_op (read_op (\<lambda>d. scalar_one_or_none
       (filter (\<lambda>u. u_email u = email \<and> u_is_active u \<and> u_deleted_at u = None \<and> \<not> u_is_email_verified u) (users d)))) (\<lambda>found.
     case found of
       None \<Rightarrow> return_op ()
     | Some u \<Rightarrow>
         bind_op (modify_op (\<lambda>d. d \<lparr> verify_tokens := update_rows (\<lambda>t. mt_user t = u_id u \<and> mt_used_at t = None)
           (\<lambda>t. t \<lparr> mt_expires_at := ev_now e \<rparr>) (verify_tokens d) \<rparr>)) (\<lambda>_.
         bind_op (modify_op (\<lambda>d. d \<lparr> verify_tokens := verify_tokens d @ [new_mail_token e (ev_ulid e 0) (u_id u) (ev_raw e 0) 24] \<rparr>)) (\<lambda>_.
         modify_op (queue_email_in_outbox (ev_ulid e 1) ''send_verification_email''
           [(''user_id'', u_id u), (''raw_token'', ev_raw e 0)]))))"

section \<open>Switching the workspace\<close>

record switch_tenant_data =
  st_access_token :: py_str
  st_expires_in :: int
  st_tenant_id :: py_str
  st_tenant_name :: py_str
  st_role :: py_str
  st_currency :: py_str
  st_is_onboarding_complete :: bool

definition switch_tenant :: "env \<Rightarrow> user \<Rightarrow> py_str \<Rightarrow> (db, switch_tenant_data) op" where
  "switch_tenant e u tenant_id =
     bind_op (membership_or_raise (u_id u) (Some tenant_id)) (\<lambda>(m, t).
     bind_op (create_access_token e 0 u m t) (\<lambda>access.
     bind_op (modify_op (log_event ''auth.tenant.switched'' (Some (u_id u)) None True None)) (\<lambda>_.
     return_op \<lparr> st_access_token = access, st_expires_in = ev_access_minutes e * 60, st_tenant_id = t_id t,
       st_tenant_name = t_name t, st_role = m_role m, st_currency = (if t_currency t = '''' then ''USD'' else t_currency t),
       st_is_onboarding_complete = (t_onboarded_at t \<noteq> None) \<rparr>)))"

section \<open>Logins\<close>

lemma get_active_user_by_email_Inr:
  "get_active_user_by_email email d = (Inr r, d') \<longleftrightarrow>
     d' = d \<and> (case r of None \<Rightarrow> filter (email_query email) (users d) = [] | Some u \<Rightarrow> filter (email_query email) (users d) = [u])"
  by (auto simp: get_active_user_by_email_def read_op_def scalar_one_or_none_cases split: option.splits)

definition wrong_password :: "env \<Rightarrow> login_request \<Rightarrow> db \<Rightarrow> bool" where
  "wrong_password e req d \<longleftrightarrow>
     (\<forall>u \<in> set (users d). email_query (lr_email req) u \<longrightarrow> \<not> ev_verify e (lr_password req) (u_hashed_password u))"

lemma login_wrong_password_raises:
  assumes "wrong_password e req d"
  shows "\<exists>x. fst (login_user e req ip d) = Inl x"
proof (cases "\<exists>u. filter (email_query (lr_email req)) (users d) = [u]")
  case True
  then obtain u where u: "filter (email_query (lr_email req)) (users d) = [u]" by blast
  have "\<not> ev_verify e (lr_password req) (u_hashed_password u)"
    using assms filter_one_member [OF u] by (simp add: wrong_password_def)
  then show ?thesis
    by (simp add: login_user_def get_active_user_by_email_def bind_op_read u check_lockout_def guard_op_def
        handle_failed_login_def write_user_def bind_op_modify raise_op_def split: option.splits)
next
  case False
  then show ?thesis
    by (auto simp: login_user_def get_active_user_by_email_def bind_op_read raise_op_def scalar_one_or_none_cases
        split: sum.splits option.splits)
qed

text \<open>
  C19. Failed logins leave no trace. However often a wrong password is presented, and for whichever
  accounts, the database afterwards is the one before: the failure counter, the lock and the audit
  entry that the request writes are rolled back with the exception it ends in. The request itself
  does count: before the rollback an unlocked account has its failure recorded.
\<close>

theorem failed_logins_leave_no_trace:
  assumes "\<forall>(e, req, ip) \<in> set attempts. wrong_password e req d"
  shows "run_requests (map (\<lambda>(e, req, ip). login_user e req ip) attempts) d = d
    \<and> (\<forall>(e, req, ip) \<in> set attempts. \<forall>u. filter (email_query (lr_email req)) (users d) = [u] \<and> u_locked_until u = None \<longrightarrow>
         users (snd (login_user e req ip d)) = update_rows (\<lambda>v. u_id v = u_id u) (failed_login e) (users d))"
proof (intro conjI ballI, goal_cases)
  case 1
  show ?case using assms
  proof (induction attempts)
    case (Cons a attempts)
    obtain e req ip where a: "a = (e, req, ip)" by (cases a)
    obtain x where "fst (login_user e req ip d) = Inl x"
      using Cons.prems login_wrong_password_raises [of e req d ip] a by auto
    then have "with_db (login_user e req ip) d = (Inl x, d)" by (rule with_db_Inl)
    then show ?case using Cons a by simp
  qed simp
next
  case (2 a)
  obtain e req ip where a: "a = (e, req, ip)" by (cases a)
  have w: "wrong_password e req d" using assms 2 a by auto
  have "users (snd (login_user e req ip d)) = update_rows (\<lambda>v. u_id v = u_id u) (failed_login e) (users d)"
    if u: "filter (email_query (lr_email req)) (users d) = [u]" and "u_locked_until u = None" for u
  proof -
    have "\<not> ev_verify e (lr_password req) (u_hashed_password u)"
      using w filter_one_member [OF u] by (simp add: wrong_password_def)
    then show ?thesis using that
      by (simp add: login_user_def get_active_user_by_email_def bind_op_read check_lockout_def guard_op_def
          handle_failed_login_def write_user_def bind_op_modify raise_op_def log_event_def)
  qed
  then show ?case using a by simp
qed

definition sample_env :: env where
  "sample_env = \<lparr> ev_now = 100, ev_ulid = (\<lambda>n. ''id'' @ show_nat n), ev_raw = (\<lambda>n. ''raw'' @ show_nat n), ev_hash_password = (\<lambda>p. ''h:'' @ p),
     ev_verify = (\<lambda>p h. h = ''h:'' @ p), ev_hash_token = (\<lambda>r. ''t:'' @ r), ev_hash_ip = (\<lambda>i. i),
     ev_encode = (\<lambda>c. ''j'' @ cl_sub c),
     ev_decode = (\<lambda>t. Inr \<lparr> cl_sub = tl t, cl_type = None, cl_jti = None, cl_exp = 900, cl_tenant = None, cl_role = None \<rparr>),
     ev_pwned = (\<lambda>_. False), ev_totp = (\<lambda>_ _. False), ev_decrypt = (\<lambda>x. x), ev_encrypt = (\<lambda>x. x), ev_jwt_keys = True, ev_totp_key = True, ev_refresh_days = 7,
     ev_access_minutes = 15, ev_lockout_1 = 5, ev_lockout_2 = 10, ev_lockout_3 = 20, ev_idle_minutes = 30 \<rparr>"

definition bad_login :: login_request where
  "bad_login = \<lparr> lr_email = ''a@x'', lr_password = ''guess'', lr_remember = False \<rparr>"

theorem failed_logins_leave_no_trace_witness:
  "run_requests (map (\<lambda>(e, req, ip). login_user e req ip) (replicate 25 (sample_env, bad_login, ''ip''))) (one_admin \<lparr> users := [sample_admin] \<rparr>)
     = one_admin \<lparr> users := [sample_admin] \<rparr>
   \<and> u_failed_login_count (hd (users (snd (login_user sample_env bad_login ''ip'' (one_admin \<lparr> users := [sample_admin] \<rparr>))))) = 1"
proof -
  have w: "\<forall>(e, req, ip) \<in> set (replicate 25 (sample_env, bad_login, ''ip'')). wrong_password e req (one_admin \<lparr> users := [sample_admin] \<rparr>)"
    by (simp add: wrong_password_def sample_env_def bad_login_def sample_admin_def)
  have "filter (email_query (lr_email bad_login)) (users (one_admin \<lparr> users := [sample_admin] \<rparr>)) = [sample_admin]"
    by (simp add: bad_login_def email_query_def sample_admin_def py_lower_def lower_char_def)
  then show ?thesis
    using failed_logins_leave_no_trace [OF w]
    by (simp add: failed_login_def sample_env_def sample_admin_def Let_def)
qed

section \<open>The challenge of the second factor\<close>

definition reset_lockout :: "env \<Rightarrow> user \<Rightarrow> user" where
  "reset_lockout e u = u \<lparr> u_failed_login_count := 0, u_locked_until := None, u_last_login_at := Some (ev_now e) \<rparr>"

lemma is_token_blacklisted_users [simp]:
  "is_token_blacklisted redis jti now (d \<lparr> users := us \<rparr>) = is_token_blacklisted redis jti now d"
  by (simp add: is_token_blacklisted_def cong: sum.case_cong option.case_cong)

lemma login_challenge:
  assumes user: "filter (email_query (lr_email req)) (users d) = [u]" "ev_verify e (lr_password req) (u_hashed_password u)"
    and "u_is_active u" "u_locked_until u = None" "u_totp_enabled u" "ev_jwt_keys e"
    and "get_membership (u_id u) None d = Some row"
  shows "login_user e req ip d =
    (Inr (MFAChallenge (ev_encode e \<lparr> cl_sub = u_id u, cl_type = Some ''mfa_challenge'', cl_jti = Some (ev_ulid e 0),
        cl_exp = ev_now e + 5 * 60, cl_tenant = None, cl_role = None \<rparr>)),
     d \<lparr> users := update_rows (\<lambda>v. u_id v = u_id u) (reset_lockout e) (users d) \<rparr>)"
proof -
  have m: "get_membership i None (d \<lparr> users := us \<rparr>) = get_membership i None d" for i us
    by (simp add: get_membership_def membership_rows_def)
  show ?thesis using assms
    by (cases row) (simp add: login_user_def get_active_user_by_email_def bind_op_read check_lockout_def guard_op_def
        write_user_def bind_op_modify membership_or_raise_def m create_mfa_challenge_token_def reset_lockout_def [abs_def],
        simp add: return_op_def)
qed

text \<open>
  The challenge opens the account. For an account protected by a second factor, the token that
  a login with the right password returns in place of a session is accepted by the authentication
  of every request, as the bearer token of that account, without the second factor: the
  authentication does not look at the type of the token.
\<close>

lemma challenge_token_authenticates:
  assumes "jwt_law e" "ev_jwt_keys e"
    and "filter (email_query (lr_email req)) (users d) = [u]" "ev_verify e (lr_password req) (u_hashed_password u)"
    and "u_is_active u" "u_locked_until u = None" "u_totp_enabled u" "u_id u \<noteq> ''''"
    and "get_membership (u_id u) None d = Some row"
    and "filter (\<lambda>v. u_id v = u_id u \<and> u_deleted_at v = None) (users d) = [u]"
    and "ev_ulid e 0 \<noteq> ''''" "is_token_blacklisted redis (ev_ulid e 0) (ev_now e) d = Inr False"
  shows "\<exists>token d'. login_user e req ip d = (Inr (MFAChallenge token), d')
    \<and> get_current_user (ev_decode e) redis (ev_now e) (Some token) d' = Inr (reset_lockout e u)"
proof -
  let ?c = "\<lparr> cl_sub = u_id u, cl_type = Some ''mfa_challenge'', cl_jti = Some (ev_ulid e 0),
        cl_exp = ev_now e + 5 * 60, cl_tenant = None, cl_role = None \<rparr>"
  let ?d = "d \<lparr> users := update_rows (\<lambda>v. u_id v = u_id u) (reset_lockout e) (users d) \<rparr>"
  have dec: "ev_decode e (ev_encode e ?c) = Inr ?c" "ev_encode e ?c \<noteq> ''''" using assms(1) by (simp_all add: jwt_law_def)
  have bl: "is_token_blacklisted redis (ev_ulid e 0) (ev_now e) ?d = Inr False"
    using assms(12) by simp
  have "filter (\<lambda>v. u_id v = u_id u \<and> u_deleted_at v = None) (users ?d)
      = update_rows (\<lambda>v. u_id v = u_id u) (reset_lockout e) (filter (\<lambda>v. u_id v = u_id u \<and> u_deleted_at v = None) (users d))"
    by (simp add: reset_lockout_def filter_update_rows_same)
  also have "\<dots> = [reset_lockout e u]" using assms(10) by simp
  finally have "get_current_user (ev_decode e) redis (ev_now e) (Some (ev_encode e ?c)) ?d = Inr (reset_lockout e u)"
    using dec bl assms(5,8,11) by (simp add: get_current_user_def reset_lockout_def)
  then show ?thesis
    using login_challenge [OF assms(3-7) assms(2,9)] by blast
qed

text \<open>A token format for the witnesses, with its parser: every field is spelled out behind its length in unary.\<close>

definition enc_str :: "py_str \<Rightarrow> py_str" where
  "enc_str s = replicate (length s) CHR ''1'' @ CHR ''0'' # s"

definition dec_str :: "py_str \<Rightarrow> py_str \<times> py_str" where
  "dec_str t = (let n = length (takeWhile (\<lambda>c. c = CHR ''1'') t); r = drop (n + 1) t in (take n r, drop n r))"

lemma dec_enc_str [simp]: "dec_str (enc_str s @ r) = (s, r)"
proof -
  have "takeWhile (\<lambda>c. c = CHR ''1'') (enc_str s @ r) = replicate (length s) CHR ''1''"
  proof -
    have "takeWhile (\<lambda>c. c = CHR ''1'') (replicate n CHR ''1'' @ CHR ''0'' # xs) = replicate n CHR ''1''" for n xs
      by (induction n) auto
    then show ?thesis by (simp add: enc_str_def)
  qed
  then show ?thesis by (simp add: dec_str_def enc_str_def)
qed

definition enc_opt :: "py_str option \<Rightarrow> py_str" where
  "enc_opt x = (case x of None \<Rightarrow> ''0'' | Some s \<Rightarrow> CHR ''1'' # enc_str s)"

definition dec_opt :: "py_str \<Rightarrow> py_str option \<times> py_str" where
  "dec_opt t = (if hd t = CHR ''0'' then (None, tl t) else case dec_str (tl t) of (s, r) \<Rightarrow> (Some s, r))"

lemma dec_enc_opt [simp]: "dec_opt (enc_opt x @ r) = (x, r)"
  by (simp add: enc_opt_def dec_opt_def split: option.splits)

definition enc_int :: "int \<Rightarrow> py_str" where
  "enc_int i = (if i < 0 then CHR ''0'' else CHR ''1'') # enc_str (replicate (nat \<bar>i\<bar>) CHR ''x'')"

definition dec_int :: "py_str \<Rightarrow> int \<times> py_str" where
  "dec_int t = (case dec_str (tl t) of (s, r) \<Rightarrow> ((if hd t = CHR ''0'' then - int (length s) else int (length s)), r))"

lemma dec_enc_int [simp]: "dec_int (enc_int i @ r) = (i, r)"
  by (simp add: enc_int_def dec_int_def)

definition spell_claims :: "claims \<Rightarrow> py_str" where
  "spell_claims c = enc_str (cl_sub c) @ enc_opt (cl_type c) @ enc_opt (cl_jti c) @ enc_int (cl_exp c) @ enc_opt (cl_tenant c) @ enc_opt (cl_role c)"

definition read_claims :: "py_str \<Rightarrow> claims" where
  "read_claims t0 =
     (let (sub, t1) = dec_str t0; (ty, t2) = dec_opt t1; (jti, t3) = dec_opt t2; (ex, t4) = dec_int t3;
          (ten, t5) = dec_opt t4; (role, _) = dec_opt t5
      in \<lparr> cl_sub = sub, cl_type = ty, cl_jti = jti, cl_exp = ex, cl_tenant = ten, cl_role = role \<rparr>)"

lemma read_spell_claims [simp]: "read_claims (spell_claims c) = c"
  using dec_enc_opt [of "cl_role c" "[]"] by (simp add: read_claims_def spell_claims_def)

definition jwt_env :: env where
  "jwt_env = sample_env \<lparr> ev_encode := spell_claims,
     ev_decode := (\<lambda>t. if cl_exp (read_claims t) \<le> 100 then Inl (ECLException ''TOKEN_EXPIRED'' 401) else Inr (read_claims t)) \<rparr>"

lemma jwt_law_jwt_env: "jwt_law jwt_env"
  by (simp add: jwt_law_def jwt_env_def sample_env_def) (simp add: spell_claims_def enc_str_def)

definition totp_user :: user where
  "totp_user = sample_admin \<lparr> u_totp_enabled := True, u_totp_secret := Some ''secret'', u_hashed_password := ''h:pw'' \<rparr>"

definition sample_tenant :: tenant where
  "sample_tenant = new_tenant sample_env ''T'' ''Bank'' ''bank''"

definition good_login :: login_request where
  "good_login = \<lparr> lr_email = ''a@x'', lr_password = ''pw'', lr_remember = False \<rparr>"

definition no_redis :: redis where
  "no_redis = \<lparr> rd_available = False, rd_keys = [] \<rparr>"

lemma lower_a [simp]: "py_lower ''a@x'' = ''a@x''"
  by (simp add: py_lower_def lower_char_def)

lemma challenge_token_authenticates_witness:
  "\<exists>token d'. login_user jwt_env good_login ''ip'' (one_admin \<lparr> users := [totp_user], tenants := [sample_tenant] \<rparr>) = (Inr (MFAChallenge token), d')
    \<and> get_current_user (ev_decode jwt_env) no_redis (ev_now jwt_env) (Some token) d' = Inr (reset_lockout jwt_env totp_user)"
  by (rule challenge_token_authenticates [OF jwt_law_jwt_env])
    (simp_all add: jwt_env_def sample_env_def totp_user_def sample_admin_def good_login_def email_query_def get_membership_def
      membership_rows_def one_admin_def sample_tenant_def new_tenant_def empty_db_def is_token_blacklisted_def redis_get_def
      no_redis_def truthy_def)

section \<open>Families of refresh tokens\<close>

definition live_token :: "refresh_token \<Rightarrow> bool" where
  "live_token rt \<longleftrightarrow> \<not> rt_revoked rt"

text \<open>At most one token of a family is live.\<close>

definition single_live :: "db \<Rightarrow> bool" where
  "single_live d \<longleftrightarrow> unique_live rt_family live_token (refresh_tokens_tbl d)"

definition fresh_family :: "py_str \<Rightarrow> db \<Rightarrow> bool" where
  "fresh_family f d \<longleftrightarrow> (\<forall>rt \<in> set (refresh_tokens_tbl d). rt_family rt \<noteq> f)"

lemma single_live_revoke:
  "unique_live rt_family live_token rows \<Longrightarrow>
   (\<And>rt. rt_family (f rt) = rt_family rt) \<Longrightarrow> (\<And>rt. \<not> live_token (f rt)) \<Longrightarrow>
   unique_live rt_family live_token (update_rows P f rows)"
proof (induction rows)
  case (Cons r rows)
  have "set (live_keys rt_family live_token (update_rows P f rows)) \<subseteq> set (live_keys rt_family live_token rows)"
    using Cons.prems(3) by (induction rows) (auto simp: live_token_def)
  then show ?case using Cons by (auto simp: unique_live_def split: if_splits)
qed (simp add: unique_live_def)

lemma single_live_append:
  "unique_live rt_family live_token rows \<Longrightarrow> \<forall>rt \<in> set rows. rt_family rt \<noteq> rt_family new \<Longrightarrow>
   unique_live rt_family live_token (rows @ [new])"
  by (auto simp: unique_live_def live_keys_def)

text \<open>Rotation: the live token of the query is revoked and a token of its family added.\<close>

lemma single_live_rotate:
  assumes "unique_live rt_family live_token rows" "filter Q rows = [rt]" "live_token rt" "rt_family new = rt_family rt"
    and "\<And>rt. rt_family (f rt) = rt_family rt" "\<And>rt. \<not> live_token (f rt)"
  shows "unique_live rt_family live_token (update_rows Q f rows @ [new])"
proof -
  from assms(2) obtain us vs where uv: "rows = us @ rt # vs" "\<And>f. update_rows Q f rows = us @ f rt # vs"
    by (rule update_single_row) blast
  show ?thesis using assms(1,3,4,6) by (auto simp: unique_live_def uv(2)) (auto simp: uv(1))
qed

lemma create_session_tokens_Inr:
  assumes "create_session_tokens e k j u m t remember ip msg d = (Inr resp, d')"
  shows "refresh_tokens_tbl d' = refresh_tokens_tbl d
      @ [new_refresh_token e (ev_ulid e (k + 1)) (u_id u) (ev_ulid e k) (ev_raw e j) (refresh_expiry e remember)]"
  using assms by (auto simp: create_session_tokens_def create_access_token_def bind_op_Inr op_defs guard_op_def Let_def
      split: if_splits)

lemma session_tokens_single_live:
  assumes "create_session_tokens e k j u m t remember ip msg d = (Inr resp, d')" "single_live d" "fresh_family (ev_ulid e k) d"
  shows "single_live d'"
  using assms(2,3) unfolding single_live_def create_session_tokens_Inr [OF assms(1)]
  by (intro single_live_append) (simp_all add: fresh_family_def new_refresh_token_def)

lemma single_live_cong: "refresh_tokens_tbl d = refresh_tokens_tbl d' \<Longrightarrow> single_live d = single_live d'"
  by (simp add: single_live_def)

lemma fresh_family_cong: "refresh_tokens_tbl d = refresh_tokens_tbl d' \<Longrightarrow> fresh_family f d = fresh_family f d'"
  by (simp add: fresh_family_def)

lemma log_event_tokens [simp]: "refresh_tokens_tbl (log_event a b c x y d) = refresh_tokens_tbl d"
  by (simp add: log_event_def)

lemma queue_email_tokens [simp]: "refresh_tokens_tbl (queue_email_in_outbox a b c d) = refresh_tokens_tbl d"
  by (simp add: queue_email_in_outbox_def)

lemma session_tokens_append:
  assumes "create_session_tokens e k j u m t remember ip msg d = (Inr resp, d')"
  shows "\<exists>new. refresh_tokens_tbl d' = refresh_tokens_tbl d @ [new] \<and> rt_family new = ev_ulid e k"
  using create_session_tokens_Inr [OF assms] by (simp add: new_refresh_token_def)

lemma appended_single_live:
  assumes "\<exists>new. refresh_tokens_tbl d' = refresh_tokens_tbl d @ [new] \<and> rt_family new = f" "single_live d" "fresh_family f d"
  shows "single_live d'"
  using assms by (auto simp: single_live_def fresh_family_def intro: single_live_append)

lemma get_membership_users [simp]: "get_membership i t (d \<lparr> users := us \<rparr>) = get_membership i t d"
  by (simp add: get_membership_def membership_rows_def)

lemma login_eval:
  assumes "filter (email_query (lr_email req)) (users d) = [u]" "ev_verify e (lr_password req) (u_hashed_password u)"
  shows "login_user e req ip d =
    (if u_locked_until u \<noteq> None \<and> ev_now e < the (u_locked_until u) then (Inl AccountLockedError, d)
     else if \<not> u_is_active u then (Inl AccountDisabledError, d)
     else let d1 = d \<lparr> users := update_rows (\<lambda>v. u_id v = u_id u) (reset_lockout e) (users d) \<rparr>
       in case get_membership (u_id u) None d of
            None \<Rightarrow> (Inl (ECLException ''NOT_TENANT_MEMBER'' 403), d1)
          | Some (m, t) \<Rightarrow>
              if u_totp_enabled u then bind_op (create_mfa_challenge_token e 0 (u_id u)) (\<lambda>challenge. return_op (MFAChallenge challenge)) d1
              else bind_op (create_session_tokens e 0 0 u m t (lr_remember req) ip ''Login successful'') (\<lambda>resp.
                     bind_op (modify_op (log_event ''auth.login.success'' (Some (u_id u)) None True None)) (\<lambda>_.
                     return_op (LoggedIn resp))) d1)"
proof -
  have r: "(\<lambda>u. u \<lparr> u_failed_login_count := 0, u_locked_until := None, u_last_login_at := Some (ev_now e) \<rparr>) = reset_lockout e"
    by (simp add: fun_eq_iff reset_lockout_def)
  show ?thesis using assms
    by (cases "u_locked_until u"; cases "get_membership (u_id u) None d")
      (auto simp: login_user_def get_active_user_by_email_def bind_op_read check_lockout_def guard_op_def
        write_user_def bind_op_modify membership_or_raise_def r Let_def raise_op_def)
qed

lemma login_Inr_found:
  assumes "login_user e req ip d = (Inr r, d')"
  shows "\<exists>u. filter (email_query (lr_email req)) (users d) = [u] \<and> ev_verify e (lr_password req) (u_hashed_password u)"
proof -
  have "\<not> wrong_password e req d" using assms login_wrong_password_raises [of e req d ip] by auto
  then obtain v where v: "v \<in> set (filter (email_query (lr_email req)) (users d))" "ev_verify e (lr_password req) (u_hashed_password v)"
    by (auto simp: wrong_password_def)
  from assms obtain u where u: "filter (email_query (lr_email req)) (users d) = [u]"
    by (auto simp: login_user_def bind_op_Inr get_active_user_by_email_Inr raise_op_def split: option.splits)
  have "v = u" using v(1) by (simp only: u) simp
  then show ?thesis using u v(2) by blast
qed

lemma login_tokens:
  assumes "login_user e req ip d = (Inr r, d')"
  shows "refresh_tokens_tbl d' = refresh_tokens_tbl d
    \<or> (\<exists>new. refresh_tokens_tbl d' = refresh_tokens_tbl d @ [new] \<and> rt_family new = ev_ulid e 0)"
proof -
  obtain u where u: "filter (email_query (lr_email req)) (users d) = [u]" "ev_verify e (lr_password req) (u_hashed_password u)"
    using login_Inr_found [OF assms] by blast
  show ?thesis using assms unfolding login_eval [OF u]
    by (auto simp: Let_def create_mfa_challenge_token_def guard_op_def bind_op_Inr op_defs
        split: if_splits option.splits prod.splits dest!: session_tokens_append)
qed

lemma login_single_live:
  assumes "login_user e req ip d = (Inr r, d')" "single_live d" "fresh_family (ev_ulid e 0) d"
  shows "single_live d'"
  using login_tokens [OF assms(1)] assms(2,3) appended_single_live by (auto simp: single_live_def)

lemma register_tokens:
  assumes "register_user e req ip d = (Inr r, d')"
  shows "\<exists>new. refresh_tokens_tbl d' = refresh_tokens_tbl d @ [new] \<and> rt_family new = ev_ulid e 5"
  using assms
  by (auto simp: register_user_def bind_op_Inr get_active_user_by_email_Inr check_password_def guard_op_def
      op_defs Let_def split: option.splits if_splits list.splits dest!: session_tokens_append)

lemma register_single_live:
  assumes "register_user e req ip d = (Inr r, d')" "single_live d" "fresh_family (ev_ulid e 5) d"
  shows "single_live d'"
  using register_tokens [OF assms(1)] assms(2,3) by (rule appended_single_live)

lemma move_session_tokens: "move_session e rt i d = (Inr x, d') \<Longrightarrow> refresh_tokens_tbl d' = refresh_tokens_tbl d"
  by (auto simp: move_session_def bind_op_Inr op_defs guard_op_def split: option.splits if_splits)

lemma refresh_tokens_Inr:
  assumes "refresh_tokens e raw d = (Inr resp, d')"
  obtains rt where "filter (hash_query e raw) (refresh_tokens_tbl d) = [rt]" "live_token rt" "\<not> rt_expires_at rt < ev_now e"
    "refresh_tokens_tbl d' = update_rows (hash_query e raw) (\<lambda>rt. rt \<lparr> rt_revoked := True, rt_last_used_at := Some (ev_now e) \<rparr>) (refresh_tokens_tbl d)
       @ [new_refresh_token e (ev_ulid e 0) (rt_user rt) (rt_family rt) (ev_raw e 0) (ev_now e + ev_refresh_days e * 86400)]"
    "fst (ar_cookie resp) = ev_raw e 0"
proof -
  from assms obtain rt where "filter (hash_query e raw) (refresh_tokens_tbl d) = [rt]" "live_token rt" "\<not> rt_expires_at rt < ev_now e"
    "refresh_tokens_tbl d' = update_rows (hash_query e raw) (\<lambda>rt. rt \<lparr> rt_revoked := True, rt_last_used_at := Some (ev_now e) \<rparr>) (refresh_tokens_tbl d)
       @ [new_refresh_token e (ev_ulid e 0) (rt_user rt) (rt_family rt) (ev_raw e 0) (ev_now e + ev_refresh_days e * 86400)]"
    "fst (ar_cookie resp) = ev_raw e 0"
    by (auto simp: refresh_tokens_def bind_op_Inr guard_op_def when_op_def op_defs membership_or_raise_def create_access_token_def
        live_token_def Let_def revoke_family_def split: if_splits option.splits dest!: move_session_tokens filter_one_member)
  then show thesis by (rule that)
qed

lemma refresh_single_live:
  assumes "refresh_tokens e raw d = (Inr resp, d')" "single_live d"
  shows "single_live d'"
proof -
  from assms(1) obtain rt where "filter (hash_query e raw) (refresh_tokens_tbl d) = [rt]" "live_token rt"
    and d': "refresh_tokens_tbl d' = update_rows (hash_query e raw) (\<lambda>rt. rt \<lparr> rt_revoked := True, rt_last_used_at := Some (ev_now e) \<rparr>) (refresh_tokens_tbl d)
       @ [new_refresh_token e (ev_ulid e 0) (rt_user rt) (rt_family rt) (ev_raw e 0) (ev_now e + ev_refresh_days e * 86400)]"
    by (rule refresh_tokens_Inr)
  then show ?thesis using assms(2) unfolding single_live_def d'
    by (intro single_live_rotate) (simp_all add: live_token_def new_refresh_token_def)
qed

lemma blacklist_token_tokens:
  "blacklist_token now jti u ex reason s = (Inr x, s') \<Longrightarrow> refresh_tokens_tbl (snd s') = refresh_tokens_tbl (snd s)"
  by (auto simp: blacklist_token_def Let_def split: sum.splits)

lemma check_second_factor_tokens:
  "check_second_factor e u code d = (Inr x, d') \<Longrightarrow> refresh_tokens_tbl d' = refresh_tokens_tbl d"
  by (auto simp: check_second_factor_def bind_op_Inr op_defs write_user_def split: if_splits option.splits)

lemma verify_mfa_tokens:
  assumes "verify_mfa e token code ip (rd, d) = (Inr r, (rd', d'))"
  shows "\<exists>new. refresh_tokens_tbl d' = refresh_tokens_tbl d @ [new] \<and> rt_family new = ev_ulid e 0"
  using assms
  by (auto simp: verify_mfa_def bind_op_Inr Let_def op_defs guard_op_def when_op_def lift_db_Inr membership_or_raise_def
      split: if_splits option.splits dest!: session_tokens_append check_second_factor_tokens blacklist_token_tokens)

lemma revoked_single_live:
  "\<exists>P. refresh_tokens_tbl d' = update_rows P (\<lambda>rt. rt \<lparr> rt_revoked := True \<rparr>) (refresh_tokens_tbl d) \<Longrightarrow> single_live d \<Longrightarrow> single_live d'"
  by (auto simp: single_live_def live_token_def intro!: single_live_revoke)

lemma revoke_none: "\<exists>P. xs = update_rows P f xs"
  by (rule exI [of _ "\<lambda>_. False"]) (simp add: update_rows_def)

lemma revoke_some: "\<exists>P. update_rows Q f xs = update_rows P f xs"
  by (rule exI) (rule refl)

lemma revoke_by_hash_tokens:
  "revoke_by_hash e raw d = (Inr x, d') \<Longrightarrow>
     \<exists>P. refresh_tokens_tbl d' = update_rows P (\<lambda>rt. rt \<lparr> rt_revoked := True \<rparr>) (refresh_tokens_tbl d)"
  by (auto simp: revoke_by_hash_def bind_op_Inr op_defs revoke_none revoke_some split: option.splits)

lemma logout_tokens:
  assumes "logout_user e token raw (rd, d) = (Inr x, (rd', d'))"
  shows "\<exists>P. refresh_tokens_tbl d' = update_rows P (\<lambda>rt. rt \<lparr> rt_revoked := True \<rparr>) (refresh_tokens_tbl d)"
  using assms
  by (auto simp: logout_user_def bind_op_Inr Let_def op_defs when_op_def lift_db_Inr revoke_none
      split: if_splits sum.splits exn.splits dest!: revoke_by_hash_tokens blacklist_token_tokens)

lemma revoke_user_tokens_eq:
  "revoke_user_tokens user_id d = (Inr (), d \<lparr>
     refresh_tokens_tbl := update_rows (\<lambda>rt. rt_user rt = user_id) (\<lambda>rt. rt \<lparr> rt_revoked := True \<rparr>) (refresh_tokens_tbl d),
     sessions_tbl := filter (\<lambda>s. ss_user s \<noteq> user_id) (sessions_tbl d) \<rparr>)"
  by (simp add: revoke_user_tokens_def modify_op_def)

lemma logout_all_single_live:
  assumes "logout_all_user e u token (rd, d) = (Inr x, (rd', d'))" "single_live d"
  shows "single_live d'"
proof -
  from assms(1) obtain d1 where d1: "logout_user e token None (rd, d) = (Inr (), (rd', d1))"
    and d': "refresh_tokens_tbl d' = update_rows (\<lambda>rt. rt_user rt = u) (\<lambda>rt. rt \<lparr> rt_revoked := True \<rparr>) (refresh_tokens_tbl d1)"
    by (auto simp: logout_all_user_def bind_op_Inr lift_db_Inr revoke_user_tokens_eq)
  have "single_live d1" using logout_tokens [OF d1] assms(2) by (rule revoked_single_live)
  then show ?thesis using d' revoked_single_live by blast
qed

lemma check_password_Inr:
  "check_password e password name org d = (Inr x, d') \<longleftrightarrow> d' = d \<and> validate_password_full (ev_pwned e) password name org = []"
  by (cases "validate_password_full (ev_pwned e) password name org") (auto simp: check_password_def op_defs)

lemma reset_password_Inr:
  assumes "reset_password e token password ip d = (Inr x, d')"
  obtains prt u where "filter (mail_query e token) (reset_tokens d) = [prt]" "mt_used_at prt = None" "\<not> mt_expires_at prt < ev_now e"
    "filter (\<lambda>u. u_id u = mt_user prt) (users d) = [u]" "validate_password_full (ev_pwned e) password (Some (u_name u)) None = []"
    "users d' = update_rows (\<lambda>v. u_id v = u_id u) (\<lambda>u. u \<lparr> u_hashed_password := ev_hash_password e password \<rparr>) (users d)"
    "reset_tokens d' = update_rows (mail_query e token) (\<lambda>t. t \<lparr> mt_used_at := Some (ev_now e) \<rparr>) (reset_tokens d)"
    "refresh_tokens_tbl d' = update_rows (\<lambda>rt. rt_user rt = u_id u) (\<lambda>rt. rt \<lparr> rt_revoked := True \<rparr>) (refresh_tokens_tbl d)"
    "sessions_tbl d' = filter (\<lambda>s. ss_user s \<noteq> u_id u) (sessions_tbl d)"
proof -
  from assms obtain prt u where "filter (mail_query e token) (reset_tokens d) = [prt]" "mt_used_at prt = None" "\<not> mt_expires_at prt < ev_now e"
    "filter (\<lambda>u. u_id u = mt_user prt) (users d) = [u]" "validate_password_full (ev_pwned e) password (Some (u_name u)) None = []"
    "users d' = update_rows (\<lambda>v. u_id v = u_id u) (\<lambda>u. u \<lparr> u_hashed_password := ev_hash_password e password \<rparr>) (users d)"
    "reset_tokens d' = update_rows (mail_query e token) (\<lambda>t. t \<lparr> mt_used_at := Some (ev_now e) \<rparr>) (reset_tokens d)"
    "refresh_tokens_tbl d' = update_rows (\<lambda>rt. rt_user rt = u_id u) (\<lambda>rt. rt \<lparr> rt_revoked := True \<rparr>) (refresh_tokens_tbl d)"
    "sessions_tbl d' = filter (\<lambda>s. ss_user s \<noteq> u_id u) (sessions_tbl d)"
    by (auto simp: reset_password_def bind_op_Inr op_defs usable_token_def check_password_Inr write_user_def revoke_user_tokens_eq
        scalar_one_cases log_event_def queue_email_in_outbox_def split: sum.splits if_splits)
  then show thesis by (rule that)
qed

text \<open>The databases that the requests on refresh tokens produce, each committed or rolled back.\<close>

inductive token_history :: "db \<Rightarrow> bool" where
  start: "refresh_tokens_tbl d = [] \<Longrightarrow> token_history d"
| registered: "token_history d \<Longrightarrow> fresh_family (ev_ulid e 5) d \<Longrightarrow> token_history (snd (with_db (register_user e req ip) d))"
| logged_in: "token_history d \<Longrightarrow> fresh_family (ev_ulid e 0) d \<Longrightarrow> token_history (snd (with_db (login_user e req ip) d))"
| second_factor: "token_history d \<Longrightarrow> fresh_family (ev_ulid e 0) d
    \<Longrightarrow> token_history (snd (snd (with_db_sys (verify_mfa e token code ip) (redis, d))))"
| refreshed: "token_history d \<Longrightarrow> token_history (snd (with_db (refresh_tokens e raw) d))"
| logged_out: "token_history d \<Longrightarrow> token_history (snd (snd (with_db_sys (logout_user e token raw_opt) (redis, d))))"
| logged_out_all: "token_history d \<Longrightarrow> token_history (snd (snd (with_db_sys (logout_all_user e u token) (redis, d))))"
| password_reset: "token_history d \<Longrightarrow> token_history (snd (with_db (reset_password e token password ip) d))"

lemma token_history_single_live: "token_history d \<Longrightarrow> single_live d"
proof (induction rule: token_history.induct)
  case (start d)
  then show ?case by (simp add: single_live_def unique_live_def)
next
  case (registered d e req ip)
  then show ?case by (intro with_db_cases [where I = single_live]) (rule register_single_live)
next
  case (logged_in d e req ip)
  then show ?case by (intro with_db_cases [where I = single_live]) (rule login_single_live)
next
  case (second_factor d e token code ip redis)
  then show ?case
    by (intro with_db_sys_cases [where I = single_live]) (rule appended_single_live [OF verify_mfa_tokens])
next
  case (refreshed d e raw)
  then show ?case by (intro with_db_cases [where I = single_live]) (rule refresh_single_live)
next
  case (logged_out d e token raw_opt redis)
  then show ?case
    by (intro with_db_sys_cases [where I = single_live]) (rule revoked_single_live [OF logout_tokens])
next
  case (logged_out_all d e u token redis)
  then show ?case by (intro with_db_sys_cases [where I = single_live]) (rule logout_all_single_live)
next
  case (password_reset d e token password ip)
  have "single_live d'" if "reset_password e token password ip d = (Inr x, d')" for x d'
    using that by (rule reset_password_Inr) (use password_reset.IH revoked_single_live in blast)
  then show ?case using password_reset.IH by (rule with_db_cases)
qed

text \<open>
  C18. Rotation. In every database that registrations, logins, second factors, refreshes, logouts
  and password resets produce, each drawing a new family identifier, every family of refresh tokens
  has at most one token that is not revoked.
\<close>

theorem family_has_one_live_token:
  assumes "token_history d" and "rt \<in> set (refresh_tokens_tbl d)" and "rt' \<in> set (refresh_tokens_tbl d)"
    and "\<not> rt_revoked rt" and "\<not> rt_revoked rt'" and "rt_family rt = rt_family rt'"
  shows "rt = rt'"
  using token_history_single_live [OF assms(1)] assms(2-6)
  by (auto simp: single_live_def unique_live_def live_keys_def live_token_def distinct_map inj_on_def)

definition logged_in_db :: db where
  "logged_in_db = snd (with_db (login_user sample_env good_login ''ip'')
     (one_admin \<lparr> users := [sample_admin \<lparr> u_hashed_password := ''h:pw'' \<rparr>], tenants := [sample_tenant] \<rparr>))"

lemma logged_in_db_history: "token_history logged_in_db"
  unfolding logged_in_db_def
  by (intro token_history.logged_in token_history.start) (simp_all add: one_admin_def empty_db_def fresh_family_def)

lemma sample_draws [simp]: "show_nat 0 = ''0''" "show_nat 1 = ''1''" "show_nat (Suc 0) = ''1''" "show_nat 2 = ''2''" "show_nat 3 = ''3''"
    "show_nat (Suc (Suc 0)) = ''2''" "show_nat (Suc (Suc (Suc 0))) = ''3''"
  by (simp_all add: show_nat.simps digit_char_def) code_simp+

definition sample_token :: refresh_token where
  "sample_token = \<lparr> rt_id = ''id1'', rt_user = ''A'', rt_family = ''id0'', rt_hash = ''t:raw0'', rt_revoked = False,
     rt_expires_at = 86500, rt_last_used_at = None \<rparr>"

lemma logged_in_db_eq:
  "logged_in_db = one_admin \<lparr> users := [reset_lockout sample_env (sample_admin \<lparr> u_hashed_password := ''h:pw'' \<rparr>)], tenants := [sample_tenant],
     refresh_tokens_tbl := [sample_token],
     sessions_tbl := [\<lparr> ss_id = ''id2'', ss_user = ''A'', ss_refresh_token = ''id1'', ss_ip_hash = ''ip'', ss_last_active_at = 100 \<rparr>],
     audit_logs := [\<lparr> al_tenant = None, al_user = Some ''A'', al_event = ''auth.login.success'', al_success = True, al_error_code = None \<rparr>] \<rparr>"
  by (simp add: logged_in_db_def login_user_def with_db_def get_active_user_by_email_def sample_admin_def one_admin_def empty_db_def
      good_login_def email_query_def sample_env_def check_lockout_def guard_op_def write_user_def membership_or_raise_def get_membership_def
      membership_rows_def sample_tenant_def new_tenant_def truthy_def create_session_tokens_def create_access_token_def
      new_refresh_token_def refresh_expiry_def Let_def log_event_def bind_op_def op_defs sample_token_def reset_lockout_def)

lemma logged_in_db_tokens: "refresh_tokens_tbl logged_in_db = [sample_token]"
  by (simp add: logged_in_db_eq)

theorem family_has_one_live_token_witness:
  "hd (refresh_tokens_tbl logged_in_db) = last (refresh_tokens_tbl logged_in_db) \<and> \<not> rt_revoked (hd (refresh_tokens_tbl logged_in_db))"
proof -
  have "hd (refresh_tokens_tbl logged_in_db) = last (refresh_tokens_tbl logged_in_db)"
    by (rule family_has_one_live_token [OF logged_in_db_history]) (simp_all add: logged_in_db_tokens sample_token_def)
  then show ?thesis by (simp add: logged_in_db_tokens sample_token_def)
qed

text \<open>
  Reuse is noticed and then forgotten. After a refresh the old secret is refused as reused, and
  the request revokes the whole family; but it ends in that error, so the revocation is rolled back
  with it: the database is unchanged and the successor token is still live.
\<close>

lemma token_reuse_changes_nothing:
  assumes "refresh_tokens e raw d = (Inr resp, d')" and "ev_hash_token e' raw = ev_hash_token e raw"
    and "\<forall>x \<in> set (refresh_tokens_tbl d). rt_hash x \<noteq> ev_hash_token e (ev_raw e 0)"
  shows "with_db (refresh_tokens e' raw) d' = (Inl (ECLException ''TOKEN_REUSE'' 401), d')
    \<and> (\<exists>rt \<in> set (refresh_tokens_tbl d'). rt_hash rt = ev_hash_token e (fst (ar_cookie resp)) \<and> \<not> rt_revoked rt)
    \<and> (\<forall>rt \<in> set (refresh_tokens_tbl (snd (refresh_tokens e' raw d'))). rt_hash rt = ev_hash_token e (fst (ar_cookie resp)) \<longrightarrow> rt_revoked rt)"
proof -
  from assms(1) obtain rt where rt: "filter (hash_query e raw) (refresh_tokens_tbl d) = [rt]"
    and d': "refresh_tokens_tbl d' = update_rows (hash_query e raw) (\<lambda>rt. rt \<lparr> rt_revoked := True, rt_last_used_at := Some (ev_now e) \<rparr>) (refresh_tokens_tbl d)
       @ [new_refresh_token e (ev_ulid e 0) (rt_user rt) (rt_family rt) (ev_raw e 0) (ev_now e + ev_refresh_days e * 86400)]"
    and cookie: "fst (ar_cookie resp) = ev_raw e 0"
    by (rule refresh_tokens_Inr)
  let ?f = "\<lambda>rt. rt \<lparr> rt_revoked := True, rt_last_used_at := Some (ev_now e) \<rparr>"
  let ?new = "new_refresh_token e (ev_ulid e 0) (rt_user rt) (rt_family rt) (ev_raw e 0) (ev_now e + ev_refresh_days e * 86400)"
  have q: "hash_query e' raw = hash_query e raw" using assms(2) by (simp add: fun_eq_iff hash_query_def)
  have "rt \<in> set (refresh_tokens_tbl d)" "rt_hash rt = ev_hash_token e raw"
    using filter_one_member [OF rt] by (simp_all add: hash_query_def)
  then have new: "\<not> hash_query e raw ?new" using assms(3) by (auto simp: hash_query_def new_refresh_token_def)
  have "filter (hash_query e raw) (refresh_tokens_tbl d') = update_rows (hash_query e raw) ?f (filter (hash_query e raw) (refresh_tokens_tbl d))"
    using new by (simp add: d' filter_update_rows_same hash_query_def)
  then have one: "filter (hash_query e raw) (refresh_tokens_tbl d') = [?f rt]"
    using rt \<open>rt_hash rt = ev_hash_token e raw\<close> by (simp add: hash_query_def)
  have eval: "refresh_tokens e' raw d' = (Inl (ECLException ''TOKEN_REUSE'' 401),
      d' \<lparr> refresh_tokens_tbl := update_rows (\<lambda>x. rt_family x = rt_family rt) (\<lambda>x. x \<lparr> rt_revoked := True \<rparr>) (refresh_tokens_tbl d') \<rparr>)"
    by (simp add: refresh_tokens_def bind_op_read q one when_op_def revoke_family_def bind_op_modify bind_op_assoc)
      (simp add: raise_op_def)
  have "?new \<in> set (refresh_tokens_tbl d')" "\<not> rt_revoked ?new" "rt_hash ?new = ev_hash_token e (fst (ar_cookie resp))"
    by (simp_all add: d' cookie new_refresh_token_def)
  moreover have "rt_family x = rt_family rt" if "x \<in> set (refresh_tokens_tbl d')" "rt_hash x = ev_hash_token e (ev_raw e 0)" for x
    using that assms(3) by (auto simp: d' set_update_rows new_refresh_token_def split: if_splits)
  ultimately show ?thesis
    using with_db_Inl [of "refresh_tokens e' raw" d'] eval by (auto simp: cookie set_update_rows)
qed

definition refresh_env :: env where
  "refresh_env = sample_env \<lparr> ev_now := 200, ev_raw := (\<lambda>n. ''next'' @ show_nat n), ev_ulid := (\<lambda>n. ''new'' @ show_nat n) \<rparr>"

lemma token_reuse_changes_nothing_witness:
  "\<exists>resp d'. refresh_tokens refresh_env ''raw0'' logged_in_db = (Inr resp, d')
     \<and> with_db (refresh_tokens refresh_env ''raw0'') d' = (Inl (ECLException ''TOKEN_REUSE'' 401), d')"
proof -
  have "fst (refresh_tokens refresh_env ''raw0'' logged_in_db) = Inr (projr (fst (refresh_tokens refresh_env ''raw0'' logged_in_db)))"
    by (simp add: refresh_tokens_def bind_op_def op_defs hash_query_def logged_in_db_eq refresh_env_def sample_env_def sample_token_def
        guard_op_def when_op_def one_admin_def empty_db_def reset_lockout_def sample_admin_def membership_or_raise_def get_membership_def
        membership_rows_def truthy_def sample_tenant_def new_tenant_def move_session_def create_access_token_def Let_def)
  then obtain resp d' where r: "refresh_tokens refresh_env ''raw0'' logged_in_db = (Inr resp, d')" by (metis prod.collapse)
  have "\<forall>x \<in> set (refresh_tokens_tbl logged_in_db). rt_hash x \<noteq> ev_hash_token refresh_env (ev_raw refresh_env 0)"
    by (simp add: logged_in_db_tokens refresh_env_def sample_env_def sample_token_def)
  then have "with_db (refresh_tokens refresh_env ''raw0'') d' = (Inl (ECLException ''TOKEN_REUSE'' 401), d')"
    using token_reuse_changes_nothing [OF r refl] by blast
  then show ?thesis using r by blast
qed

end
