(* ===== verification/Results.thy ===== *)
theory Results
  imports RunLifecycle Auth
begin

text \<open>
  The results explorer: \<^verbatim>\<open>app/modules/results/service.py\<close>, the queries on the stored results of completed runs behind
  the dashboard, the portfolio, segment and loan views, and the downloads of workbooks.

  A query groups rows by their keys in ascending order; where the source leaves the order of ties
  to the database, ties keep that order. Averages and sums are exact. Parameters are the storage and the
  time formatting of \<open>run_env\<close>, the ZIP writer, and the presigned address of an object.
\<close>

section \<open>Helpers\<close>

definition stage_num :: "py_str \<Rightarrow> nat" where
  "stage_num stage = (case map_of [(''Stage 1'', 1), (''Stage 2'', 2), (''Stage 3'', 3)] stage of None \<Rightarrow> 1 | Some n \<Rightarrow> n)"

definition stage_color :: "py_str \<Rightarrow> nat" where
  "stage_color stage = the (map_of [(''Stage 1'', 1), (''Stage 2'', 5), (''Stage 3'', 7)] stage)"

text \<open>\<open>round(x, n)\<close>.\<close>

definition py_round :: "nat \<Rightarrow> num \<Rightarrow> num" where
  "py_round n x = of_int (round_half_even (x * 10 ^ n)) / 10 ^ n"

datatype delta_dir = Up | Down | Flat

definition delta_dir_of :: "num option \<Rightarrow> delta_dir option" where
  "delta_dir_of delta =
     (case delta of None \<Rightarrow> None | Some x \<Rightarrow> Some (if 5 / 100 < x then Up else if x < - (5 / 100) then Down else Flat))"

definition pct_delta :: "num \<Rightarrow> num option \<Rightarrow> num option" where
  "pct_delta current previous =
     (case previous of None \<Rightarrow> None | Some p \<Rightarrow> if p = 0 then None else Some (py_round 1 ((current - p) / p * 100)))"

section \<open>Which run\<close>

type_synonym viewer = "(user \<times> membership option) option"

definition scope_of :: "viewer \<Rightarrow> py_str \<Rightarrow> (run \<Rightarrow> bool) result" where
  "scope_of viewer tenant_id =
     (case viewer of Some (u, m) \<Rightarrow> get_run_scope_filter u tenant_id m | None \<Rightarrow> Inr (\<lambda>r. r_tenant r = tenant_id))"

definition completed :: "run \<Rightarrow> bool" where
  "completed r \<longleftrightarrow> r_status r = COMPLETE \<and> r_deleted_at r = None"

text \<open>\<^verbatim>\<open>ORDER BY finished_at DESC NULLS LAST, created_at DESC\<close>; the table is in order of creation.\<close>

definition finish_order :: "run \<Rightarrow> int \<times> int" where
  "finish_order r = (case r_finished_at r of None \<Rightarrow> (1, 0) | Some t \<Rightarrow> (0, - t))"

definition newest_first :: "run list \<Rightarrow> run list" where
  "newest_first rows = sort_key finish_order (rev rows)"

definition latest_completed_run :: "py_str \<Rightarrow> py_str option \<Rightarrow> viewer \<Rightarrow> (db, run) op" where
  "latest_completed_run tenant_id run_id viewer =
     (if truthy run_id then
        bind_op (case viewer of
            Some (u, m) \<Rightarrow> assert_run_visible u tenant_id m (the run_id)
          | None \<Rightarrow> read_op (\<lambda>d. one_or_raise not_found (filter (run_query tenant_id (the run_id)) (runs_tbl d)))) (\<lambda>r.
        bind_op (guard_op (r_status r = COMPLETE) (ECLException ''RUN_NOT_COMPLETE'' 409)) (\<lambda>_.
        return_op r))
      else
        bind_op (read_op (\<lambda>_. scope_of viewer tenant_id)) (\<lambda>scope.
        read_op (\<lambda>d. one_or_raise (ECLException ''NO_COMPLETED_RUNS'' 404)
          (take 1 (newest_first (filter (\<lambda>r. scope r \<and> completed r) (runs_tbl d)))))))"

definition finished_before :: "timestamp \<Rightarrow> run \<Rightarrow> bool" where
  "finished_before t r \<longleftrightarrow> (case r_finished_at r of None \<Rightarrow> False | Some f \<Rightarrow> f < t)"

definition previous_completed_run :: "py_str \<Rightarrow> timestamp option \<Rightarrow> viewer \<Rightarrow> (db, run option) op" where
  "previous_completed_run tenant_id before viewer =
     (case before of
        None \<Rightarrow> return_op None
      | Some t \<Rightarrow>
          bind_op (read_op (\<lambda>_. scope_of viewer tenant_id)) (\<lambda>scope.
          read_op (\<lambda>d. scalar_one_or_none
            (take 1 (sort_key finish_order (filter (\<lambda>r. scope r \<and> completed r \<and> finished_before t r) (runs_tbl d)))))))"

section \<open>Segments\<close>

definition run_losses :: "py_str \<Rightarrow> py_str \<Rightarrow> py_str option \<Rightarrow> db \<Rightarrow> ead_result list" where
  "run_losses run_id tenant_id stage d =
     filter (\<lambda>x. edr_run x = run_id \<and> edr_tenant x = tenant_id \<and> (case stage of None \<Rightarrow> True | Some s \<Rightarrow> edr_stage x = s)) (ead_results_tbl d)"

definition total_loss :: "ead_result list \<Rightarrow> num" where
  "total_loss rows = (\<Sum>x\<leftarrow>rows. edr_discounted x)"

definition apply_min_ecl_filter :: "num option \<Rightarrow> ead_result list \<Rightarrow> ead_result list" where
  "apply_min_ecl_filter min_ecl rows =
     (case min_ecl of None \<Rightarrow> rows
      | Some m \<Rightarrow> filter (\<lambda>x. m \<le> total_loss (filter (\<lambda>y. edr_loan y = edr_loan x) rows)) rows)"

definition largest_balances :: "ead_result list \<Rightarrow> num list" where
  "largest_balances rows = map (\<lambda>(loan, grp). list_max (map edr_after_missed grp)) (groups edr_loan rows)"

text \<open>The rows of a loan at its first period.\<close>

definition first_rows :: "ead_result list \<Rightarrow> ead_result list" where
  "first_rows rows = filter (\<lambda>x. \<forall>y \<in> set rows. edr_loan y = edr_loan x \<longrightarrow> edr_discount x \<le> edr_discount y) rows"

definition stage_count :: "ead_result list \<Rightarrow> py_str \<Rightarrow> nat" where
  "stage_count rows stage = card (edr_loan ` set (filter (\<lambda>x. edr_stage x = stage) (first_rows rows)))"

definition share :: "nat \<Rightarrow> nat \<Rightarrow> num" where
  "share n whole = py_round 1 (of_nat n / of_nat (if whole = 0 then 1 else whole) * 100)"

definition stage_mix :: "ead_result list \<Rightarrow> num \<times> num \<times> num" where
  "stage_mix rows =
     (let whole = sum_list (map (stage_count rows) (sorted_unique (map edr_stage (first_rows rows))))
      in (share (stage_count rows ''Stage 1'') whole, share (stage_count rows ''Stage 2'') whole, share (stage_count rows ''Stage 3'') whole))"

record segment_data =
  sd_name :: py_str
  sd_mix :: "num \<times> num \<times> num"
  sd_ecl :: num
  sd_outstanding :: num
  sd_coverage :: py_str
  sd_loans :: nat
  sd_delta :: num

definition segment_data_of :: "(py_str \<rightharpoonup> num) \<Rightarrow> py_str \<Rightarrow> ead_result list \<Rightarrow> segment_data" where
  "segment_data_of prior name rows =
     (let ecl = total_loss rows; outstanding = sum_list (largest_balances rows)
      in \<lparr> sd_name = name, sd_mix = stage_mix rows, sd_ecl = ecl, sd_outstanding = outstanding,
           sd_coverage = (if outstanding = 0 then ''0.00%'' else format_coverage (ecl / outstanding)), sd_loans = length (groups edr_loan rows),
           sd_delta = (case pct_delta ecl (prior name) of None \<Rightarrow> 0 | Some x \<Rightarrow> x) \<rparr>)"

definition prior_losses :: "py_str option \<Rightarrow> py_str \<Rightarrow> db \<Rightarrow> py_str \<rightharpoonup> num" where
  "prior_losses prior_run tenant_id d =
     (case prior_run of None \<Rightarrow> Map.empty
      | Some p \<Rightarrow> map_of (map (\<lambda>(name, grp). (name, total_loss grp)) (groups edr_segment (run_losses p tenant_id None d))))"

definition segment_aggregates :: "py_str \<Rightarrow> py_str \<Rightarrow> py_str option \<Rightarrow> py_str option \<Rightarrow> num option \<Rightarrow> db \<Rightarrow> segment_data list" where
  "segment_aggregates run_id tenant_id prior_run stage min_ecl d =
     sort_key (\<lambda>s. - sd_ecl s)
       (map (\<lambda>(name, grp). segment_data_of (prior_losses prior_run tenant_id d) name grp)
         (groups edr_segment (apply_min_ecl_filter min_ecl (run_losses run_id tenant_id stage d))))"

section \<open>Loans of a segment\<close>

record loan_row =
  lw_id :: py_str
  lw_customer :: py_str
  lw_stage :: nat
  lw_pd :: num
  lw_lgd :: num
  lw_ead :: int
  lw_ecl :: int

definition average :: "num list \<Rightarrow> num" where
  "average xs = sum_list xs / of_nat (length xs)"

definition pd_12m :: "ead_result list \<Rightarrow> num" where
  "pd_12m rows = (\<Sum>x\<leftarrow>filter (\<lambda>x. edr_discount x \<le> 12) rows. case edr_marginal x of None \<Rightarrow> 0 | Some m \<Rightarrow> m)"

definition loan_groups :: "num option \<Rightarrow> ead_result list \<Rightarrow> ((py_str \<times> py_str) \<times> ead_result list) list" where
  "loan_groups min_ecl rows =
     filter (\<lambda>(k, grp). case min_ecl of None \<Rightarrow> True | Some m \<Rightarrow> m \<le> total_loss grp) (groups (\<lambda>x. (edr_loan x, edr_customer x)) rows)"

text \<open>
  The join with the initial stage: a loan with several rows at its first period is repeated.
\<close>

definition loan_rows_of :: "ead_result list \<Rightarrow> (py_str \<times> py_str) \<times> ead_result list \<Rightarrow> (num \<times> loan_row) list" where
  "loan_rows_of rows g =
     (case g of ((loan, customer), grp) \<Rightarrow>
        let of_loan = filter (\<lambda>x. edr_loan x = loan) rows; ecl = total_loss grp
        in map (\<lambda>first. (ecl, \<lparr> lw_id = loan, lw_customer = customer, lw_stage = stage_num (if edr_stage first = '''' then ''Stage 1'' else edr_stage first),
             lw_pd = py_round 2 (pd_12m of_loan * 100), lw_lgd = py_round 2 (average (map edr_lgd grp) * 100),
             lw_ead = round_half_even (list_max (map edr_after_missed grp)), lw_ecl = round_half_even ecl \<rparr>)) (first_rows of_loan))"

definition loan_rows_for_segment ::
    "py_str \<Rightarrow> py_str \<Rightarrow> py_str \<Rightarrow> nat \<Rightarrow> nat \<Rightarrow> py_str option \<Rightarrow> num option \<Rightarrow> db \<Rightarrow> loan_row list \<times> nat" where
  "loan_rows_for_segment run_id tenant_id segment page per_page stage min_ecl d =
     (let rows = apply_min_ecl_filter min_ecl (filter (\<lambda>x. edr_segment x = segment) (run_losses run_id tenant_id stage d));
          grps = loan_groups min_ecl rows;
          ordered = map snd (sort_key (\<lambda>(ecl, _). - ecl) (concat (map (loan_rows_of rows) grps)))
      in (take per_page (drop ((page - 1) * per_page) ordered), length grps))"

definition pd_matrix :: "py_str \<Rightarrow> py_str \<Rightarrow> py_str \<Rightarrow> db \<Rightarrow> (num \<times> num \<times> num) list" where
  "pd_matrix run_id tenant_id segment d =
     (let rows = sort_key pr_transition
            (filter (\<lambda>x. pr_run x = run_id \<and> pr_tenant x = tenant_id \<and> pr_segment x = segment \<and> pr_month x = 1) (pd_results_tbl d));
          matrix = map (\<lambda>x. (py_round 3 (pr_s1 x), py_round 3 (pr_s2 x), py_round 3 (pr_s3 x))) rows
      in take 3 (matrix @ replicate (3 - length matrix) (0, 0, 0)))"

section \<open>Views\<close>

definition VALID_STAGES :: "py_str set" where
  "VALID_STAGES = {''Stage 1'', ''Stage 2'', ''Stage 3''}"

definition validate_stage :: "py_str option \<Rightarrow> py_str option result" where
  "validate_stage stage =
     (case stage of None \<Rightarrow> Inr None | Some s \<Rightarrow> if s \<in> VALID_STAGES then Inr (Some s) else Inl (ECLException ''INVALID_STAGE'' 400))"

record run_context =
  rc_run_id :: py_str
  rc_period :: py_str
  rc_computed_at :: py_str
  rc_engine_version :: py_str
  rc_currency :: py_str

record portfolio_view =
  pv_context :: run_context
  pv_segments :: "segment_data list"
  pv_ecl :: num
  pv_outstanding :: num
  pv_loans :: nat
  pv_coverage :: py_str

definition period_of :: "run \<Rightarrow> py_str" where
  "period_of r = (if truthy (r_period r) then the (r_period r) else r_name r)"

definition segments_of_view ::
    "py_str \<Rightarrow> py_str option \<Rightarrow> viewer \<Rightarrow> py_str option \<Rightarrow> num option \<Rightarrow> (db, run \<times> segment_data list) op" where
  "segments_of_view tenant_id run_id viewer stage min_ecl =
     bind_op (latest_completed_run tenant_id run_id viewer) (\<lambda>r.
     bind_op (previous_completed_run tenant_id (r_finished_at r) viewer) (\<lambda>previous.
     bind_op (read_op (\<lambda>d. Inr (segment_aggregates (r_id r) tenant_id (map_option r_id previous) stage min_ecl d))) (\<lambda>segments.
     return_op (r, segments))))"

definition portfolio_of :: "tenant \<Rightarrow> run \<Rightarrow> segment_data list \<Rightarrow> py_str \<Rightarrow> portfolio_view" where
  "portfolio_of t r segments computed_at =
     (let ecl = sum_list (map sd_ecl segments); outstanding = sum_list (map sd_outstanding segments)
      in \<lparr> pv_context = \<lparr> rc_run_id = short_ulid (r_id r), rc_period = period_of r, rc_computed_at = computed_at,
             rc_engine_version = r_engine_version r, rc_currency = t_currency t \<rparr>,
           pv_segments = segments, pv_ecl = ecl, pv_outstanding = outstanding, pv_loans = sum_list (map sd_loans segments),
           pv_coverage = format_coverage (if outstanding = 0 then 0 else ecl / outstanding) \<rparr>)"

definition get_portfolio ::
    "'s run_env \<Rightarrow> py_str \<Rightarrow> py_str option \<Rightarrow> viewer \<Rightarrow> py_str option \<Rightarrow> num option \<Rightarrow> (db, portfolio_view) op" where
  "get_portfolio e tenant_id run_id viewer stage min_ecl =
     bind_op (read_op (\<lambda>_. validate_stage stage)) (\<lambda>stage'.
     bind_op (get_tenant_row tenant_id) (\<lambda>t.
     bind_op (segments_of_view tenant_id run_id viewer stage' min_ecl) (\<lambda>(r, segments).
     bind_op (read_op (\<lambda>_. format_date e (r_finished_at r) (t_timezone t))) (\<lambda>computed_at.
     return_op (portfolio_of t r segments computed_at)))))"

record segment_view =
  sv_segment :: segment_data
  sv_matrix :: "(num \<times> num \<times> num) list"
  sv_loans :: "loan_row list"
  sv_meta :: page_meta

definition get_segment ::
    "py_str \<Rightarrow> py_str \<Rightarrow> py_str option \<Rightarrow> py_str option \<Rightarrow> num option \<Rightarrow> nat \<Rightarrow> nat \<Rightarrow> viewer \<Rightarrow> (db, segment_view) op" where
  "get_segment tenant_id segment_name run_id stage min_ecl page per_page viewer =
     bind_op (read_op (\<lambda>_. validate_stage stage)) (\<lambda>stage'.
     bind_op (get_tenant_row tenant_id) (\<lambda>t.
     bind_op (segments_of_view tenant_id run_id viewer stage' min_ecl) (\<lambda>(r, segments).
     case find (\<lambda>s. sd_name s = segment_name) segments of
       None \<Rightarrow> raise_op not_found
     | Some segment \<Rightarrow>
         read_op (\<lambda>d.
           let (loans, n) = loan_rows_for_segment (r_id r) tenant_id segment_name page per_page stage' min_ecl d;
               pages = max 1 ((n + per_page - 1) div per_page) in
           Inr \<lparr> sv_segment = segment, sv_matrix = pd_matrix (r_id r) tenant_id segment_name d, sv_loans = loans,
                 sv_meta = \<lparr> pm_total = n, pm_page = page, pm_per_page = per_page, pm_pages = pages, pm_has_next = page < pages, pm_has_prev = 1 < page \<rparr> \<rparr>))))"

record monthly_rundown =
  mr_month :: nat
  mr_marginal :: num
  mr_cumulative :: num
  mr_ead :: int
  mr_ecl :: int

fun rundown_rows :: "num \<Rightarrow> ead_result list \<Rightarrow> monthly_rundown list" where
  "rundown_rows cumulative [] = []"
| "rundown_rows cumulative (x # xs) =
     (let marginal = (case edr_marginal x of None \<Rightarrow> 0 | Some m \<Rightarrow> m); cumulative' = cumulative + marginal
      in \<lparr> mr_month = edr_discount x, mr_marginal = py_round 2 (marginal * 100), mr_cumulative = py_round 2 (cumulative' * 100),
           mr_ead = round_half_even (edr_after_missed x), mr_ecl = round_half_even (edr_discounted x) \<rparr> # rundown_rows cumulative' xs)"

definition MONTH_ABBREVIATIONS :: "py_str list" where
  "MONTH_ABBREVIATIONS = [''Jan'', ''Feb'', ''Mar'', ''Apr'', ''May'', ''Jun'', ''Jul'', ''Aug'', ''Sep'', ''Oct'', ''Nov'', ''Dec'']"

definition maturity_text :: "ead_result list \<Rightarrow> py_str" where
  "maturity_text rows =
     (let months = show_nat (fold max (map edr_discount rows) 0) @ '' mo''
      in if rows = [] then months
         else MONTH_ABBREVIATIONS ! nat (mo (edr_date (last rows)) - 1) @ '' '' @ show_int (yr (edr_date (last rows))) @ '' '' @ middle_dot @ '' '' @ months)"

record loan_view =
  lv_id :: py_str
  lv_customer :: py_str
  lv_stage :: nat
  lv_pd :: num
  lv_lgd :: num
  lv_ead :: int
  lv_ecl :: int
  lv_segment :: py_str
  lv_outstanding :: int
  lv_collateral :: int
  lv_maturity :: py_str
  lv_rundown :: "monthly_rundown list"

definition max_text :: "py_str list \<Rightarrow> py_str" where
  "max_text xs = fold max (tl xs) (hd xs)"

definition loan_view_of :: "py_str \<Rightarrow> ead_result list \<Rightarrow> lgd_result list \<Rightarrow> loan_view" where
  "loan_view_of loan_id rows lgd =
     (let ordered = sort_key edr_discount rows; stage = edr_stage (hd ordered)
      in \<lparr> lv_id = loan_id, lv_customer = max_text (map edr_customer rows), lv_stage = stage_num (if stage = '''' then ''Stage 1'' else stage),
           lv_pd = py_round 2 (pd_12m rows * 100), lv_lgd = py_round 2 (average (map edr_lgd rows) * 100),
           lv_ead = round_half_even (list_max (map edr_after_missed rows)), lv_ecl = round_half_even (total_loss rows),
           lv_segment = max_text (map edr_segment rows),
           lv_outstanding = round_half_even (list_max (map edr_after_missed rows)), lv_collateral = round_half_even (\<Sum>x\<leftarrow>lgd. lgr_sum x),
           lv_maturity = maturity_text ordered, lv_rundown = rundown_rows 0 ordered \<rparr>)"

definition get_loan :: "py_str \<Rightarrow> py_str \<Rightarrow> py_str option \<Rightarrow> viewer \<Rightarrow> (db, loan_view) op" where
  "get_loan tenant_id loan_id run_id viewer =
     bind_op (get_tenant_row tenant_id) (\<lambda>t.
     bind_op (latest_completed_run tenant_id run_id viewer) (\<lambda>r.
     read_op (\<lambda>d.
       let rows = filter (\<lambda>x. edr_loan x = loan_id) (run_losses (r_id r) tenant_id None d);
           lgd = filter (\<lambda>x. lgr_run x = r_id r \<and> lgr_tenant x = tenant_id \<and> lgr_loan x = loan_id) (lgd_results_tbl d) in
       if rows = [] then Inl not_found else Inr (loan_view_of loan_id rows lgd))))"

section \<open>The dashboard\<close>

record kpi_dashboard =
  kd_id :: py_str
  kd_label :: py_str
  kd_help_text :: "py_str option"
  kd_currency :: "py_str option"
  kd_value :: py_str
  kd_delta :: "num option"
  kd_dir :: "delta_dir option"
  kd_sub_note :: py_str

record stage_slice =
  sl_stage :: py_str
  sl_percent :: num
  sl_color :: nat

record run_summary =
  rs_id :: py_str
  rs_full_id :: py_str
  rs_period :: py_str
  rs_by_initials :: py_str
  rs_by_name :: py_str
  rs_status :: py_str
  rs_ecl :: "num option"
  rs_currency :: py_str

record active_run =
  ac_id :: py_str
  ac_name :: py_str
  ac_status :: py_str
  ac_progress :: num
  ac_stage :: "py_str option"

record dashboard =
  da_kpis :: "kpi_dashboard list"
  da_segments :: "(py_str \<times> num) list"
  da_stages :: "stage_slice list"
  da_trend :: "(py_str \<times> num) list"
  da_runs :: "run_summary list"
  da_active :: "active_run option"

definition empty_dashboard :: dashboard where
  "empty_dashboard = \<lparr> da_kpis = [], da_segments = [], da_stages = [], da_trend = [], da_runs = [], da_active = None \<rparr>"

text \<open>\<open>float(x or 0)\<close>, and \<open>float(x) if x else None\<close>.\<close>

definition or_zero :: "num option \<Rightarrow> num" where
  "or_zero x = (case x of None \<Rightarrow> 0 | Some v \<Rightarrow> v)"

definition nonzero :: "num option \<Rightarrow> num option" where
  "nonzero x = (case x of None \<Rightarrow> None | Some v \<Rightarrow> if v = 0 then None else Some v)"

definition vs_previous :: py_str where
  "vs_previous = ''vs previous run''"

definition dashboard_kpis :: "tenant \<Rightarrow> run \<Rightarrow> run option \<Rightarrow> nat \<Rightarrow> nat option \<Rightarrow> kpi_dashboard list" where
  "dashboard_kpis t latest previous loan_count prev_loans =
     (let total_ecl = or_zero (r_total_ecl latest); coverage = or_zero (r_coverage latest); loans = show_int_grouped (int loan_count);
          ecl_delta = pct_delta total_ecl (Option.bind previous (\<lambda>p. nonzero (r_total_ecl p)));
          coverage_delta = pct_delta (coverage * 100) (Option.bind previous (\<lambda>p. map_option (\<lambda>c. c * 100) (nonzero (r_coverage p))));
          loans_delta = pct_delta (of_nat loan_count) (case prev_loans of None \<Rightarrow> None | Some n \<Rightarrow> nonzero (Some (of_nat n))) in
      [\<lparr> kd_id = ''total-ecl'', kd_label = ''Total ECL'', kd_help_text = None, kd_currency = Some (t_currency t), kd_value = format_amount total_ecl,
         kd_delta = ecl_delta, kd_dir = delta_dir_of ecl_delta, kd_sub_note = vs_previous \<rparr>,
       \<lparr> kd_id = ''coverage-ratio'', kd_label = ''Coverage ratio'', kd_help_text = Some (''ECL '' @ [CHR 0xC3, CHR 0xB7] @ '' total outstanding''),
         kd_currency = None, kd_value = format_coverage coverage, kd_delta = coverage_delta, kd_dir = delta_dir_of coverage_delta, kd_sub_note = vs_previous \<rparr>,
       \<lparr> kd_id = ''total-outstanding'', kd_label = ''Total outstanding'', kd_help_text = None, kd_currency = Some (t_currency t),
         kd_value = format_compact_amount (or_zero (r_total_outstanding latest)), kd_delta = None, kd_dir = Some Flat, kd_sub_note = loans @ '' loans'' \<rparr>,
       \<lparr> kd_id = ''loans-analysed'', kd_label = ''Loans analysed'', kd_help_text = None, kd_currency = None, kd_value = loans,
         kd_delta = loans_delta, kd_dir = delta_dir_of loans_delta, kd_sub_note = vs_previous \<rparr>])"

text \<open>Here rows are counted, not loans.\<close>

definition stage_slices :: "ead_result list \<Rightarrow> stage_slice list" where
  "stage_slices rows =
     (let first = first_rows rows; whole = length first in
      map (\<lambda>stage. \<lparr> sl_stage = stage, sl_percent = share (length (filter (\<lambda>x. edr_stage x = stage) first)) whole, sl_color = stage_color stage \<rparr>)
        [''Stage 1'', ''Stage 2'', ''Stage 3''])"

text \<open>\<^verbatim>\<open>ORDER BY finished_at DESC\<close>, where a missing time comes first.\<close>

definition trend_order :: "run \<Rightarrow> int \<times> int" where
  "trend_order r = (case r_finished_at r of None \<Rightarrow> (0, 0) | Some t \<Rightarrow> (1, - t))"

definition trend_label :: "'s run_env \<Rightarrow> tenant \<Rightarrow> run \<Rightarrow> py_str result" where
  "trend_label e t r =
     (if truthy (r_period r) then Inr (the (r_period r))
      else case format_date e (r_finished_at r) (t_timezone t) of Inl x \<Rightarrow> Inl x | Inr s \<Rightarrow> Inr (take 6 s))"

definition trend_points :: "'s run_env \<Rightarrow> tenant \<Rightarrow> db \<Rightarrow> (py_str \<times> num) list result" where
  "trend_points e t d =
     (let rows = take 12 (sort_key trend_order (filter (\<lambda>r. r_tenant r = t_id t \<and> completed r \<and> r_total_ecl r \<noteq> None) (runs_tbl d)))
      in collect (\<lambda>r. case trend_label e t r of Inl x \<Rightarrow> Inl x | Inr s \<Rightarrow> Inr (s, or_zero (r_total_ecl r))) (rev rows))"

definition recent_runs :: "tenant \<Rightarrow> db \<Rightarrow> run_summary list" where
  "recent_runs t d =
     map (\<lambda>(r, u). \<lparr> rs_id = short_ulid (r_id r), rs_full_id = r_id r, rs_period = period_of r, rs_by_initials = user_initials (u_name u),
         rs_by_name = u_name u, rs_status = map_run_status_to_api (r_status r), rs_ecl = r_total_ecl r, rs_currency = t_currency t \<rparr>)
       (take 10 (concat (map (\<lambda>r. map (Pair r) (filter (\<lambda>u. u_id u = r_created_by r) (users d)))
         (rev (filter (\<lambda>r. r_tenant r = t_id t \<and> r_deleted_at r = None) (runs_tbl d))))))"

definition stage_status_of :: "run \<Rightarrow> stage_key \<Rightarrow> stage_status option" where
  "stage_status_of r k = (case r_progress r of None \<Rightarrow> None | Some p \<Rightarrow> map_option sp_status (p k))"

definition DASHBOARD_STAGES :: "(stage_key \<times> py_str) list" where
  "DASHBOARD_STAGES = [(StPD, ''PD''), (StLGD, ''LGD''), (StEAD, ''EAD''), (StECL, ''ECL'')]"

definition active_run_of :: "run \<Rightarrow> active_run" where
  "active_run_of r =
     \<lparr> ac_id = short_ulid (r_id r), ac_name = r_name r, ac_status = map_run_status_to_api (r_status r),
       ac_progress = of_nat (length (filter (\<lambda>(k, _). stage_status_of r k = Some STAGE_COMPLETE) DASHBOARD_STAGES)) * 25,
       ac_stage = map_option snd (find (\<lambda>(k, _). stage_status_of r k = Some STAGE_RUNNING) DASHBOARD_STAGES) \<rparr>"

definition active_run_in :: "py_str \<Rightarrow> db \<Rightarrow> active_run option" where
  "active_run_in tenant_id d =
     (case sort_key (\<lambda>r. - r_updated_at r) (filter (\<lambda>r. r_tenant r = tenant_id \<and> r_deleted_at r = None
          \<and> r_status r \<in> {QUEUED, PD_RUNNING, LGD_RUNNING, EAD_RUNNING}) (runs_tbl d)) of
        [] \<Rightarrow> None | r # _ \<Rightarrow> Some (active_run_of r))"

definition dashboard_of :: "'s run_env \<Rightarrow> tenant \<Rightarrow> run \<Rightarrow> run option \<Rightarrow> db \<Rightarrow> dashboard result" where
  "dashboard_of e t latest previous d =
     (case trend_points e t d of
        Inl x \<Rightarrow> Inl x
      | Inr trend \<Rightarrow> Inr
          \<lparr> da_kpis = dashboard_kpis t latest previous (loan_count_of (r_id latest) (t_id t) d)
              (map_option (\<lambda>p. loan_count_of (r_id p) (t_id t) d) previous),
            da_segments = map (\<lambda>s. (sd_name s, sd_ecl s)) (take 6 (segment_aggregates (r_id latest) (t_id t) None None None d)),
            da_stages = stage_slices (run_losses (r_id latest) (t_id t) None d), da_trend = trend, da_runs = recent_runs t d,
            da_active = active_run_in (t_id t) d \<rparr>)"

definition get_dashboard :: "'s run_env \<Rightarrow> py_str \<Rightarrow> viewer \<Rightarrow> (db, dashboard) op" where
  "get_dashboard e tenant_id viewer =
     bind_op (get_tenant_row tenant_id) (\<lambda>t d.
       case latest_completed_run tenant_id None viewer d of
         (Inl (ECLException _ _), d') \<Rightarrow> (Inr empty_dashboard, d')
       | (Inl x, d') \<Rightarrow> (Inl x, d')
       | (Inr latest, d') \<Rightarrow>
           bind_op (previous_completed_run tenant_id (r_finished_at latest) viewer) (\<lambda>previous.
             read_op (dashboard_of e t latest previous)) d')"

section \<open>Downloads\<close>

definition ARTIFACT_FILENAMES :: "(py_str \<times> py_str) list" where
  "ARTIFACT_FILENAMES =
     [(''PD_CALCS'', ''PD Calcs.xlsx''), (''LGD'', ''LGD.xlsx''), (''RUNDOWN'', ''Contractual Rundown.xlsx''), (''ECL_SUMMARY'', ''ECL Summary.xlsx'')]"

definition WORKBOOK_BUNDLE_KINDS :: "py_str list" where
  "WORKBOOK_BUNDLE_KINDS = [''PD_CALCS'', ''LGD'', ''RUNDOWN'']"

definition get_output_artifact :: "py_str \<Rightarrow> py_str \<Rightarrow> py_str \<Rightarrow> (db, output_artifact) op" where
  "get_output_artifact tenant_id run_id kind =
     bind_op (read_op (\<lambda>d. one_or_raise not_found (filter (run_query tenant_id run_id) (runs_tbl d)))) (\<lambda>_.
     read_op (\<lambda>d. one_or_raise (ECLException ''ARTIFACT_NOT_FOUND'' 404)
       (filter (\<lambda>a. oa_run a = run_id \<and> oa_tenant a = tenant_id \<and> oa_kind a = kind) (artifacts_tbl d))))"

text \<open>A signed address is what the S3 client returns for a key and a life time in seconds, or nothing when it fails.\<close>

definition presign_download :: "(py_str \<Rightarrow> int \<Rightarrow> py_str option) \<Rightarrow> py_str \<Rightarrow> int \<Rightarrow> py_str result" where
  "presign_download presign key expires_seconds =
     (case presign (normalize_key key) expires_seconds of None \<Rightarrow> Inl storage_error | Some url \<Rightarrow> Inr url)"

definition get_presigned_download ::
    "(py_str \<Rightarrow> int \<Rightarrow> py_str option) \<Rightarrow> timestamp \<Rightarrow> py_str \<Rightarrow> py_str \<Rightarrow> py_str \<Rightarrow> (db, py_str \<times> timestamp) op" where
  "get_presigned_download presign now tenant_id run_id kind =
     bind_op (get_output_artifact tenant_id run_id kind) (\<lambda>artifact.
     bind_op (read_op (\<lambda>_. presign_download presign (oa_path artifact) 900)) (\<lambda>url.
     return_op (url, now + 15 * 60)))"

definition get_artifact_bytes :: "'s run_env \<Rightarrow> py_str \<Rightarrow> py_str \<Rightarrow> py_str \<Rightarrow> ('s, bytes \<times> py_str) file_op" where
  "get_artifact_bytes e tenant_id run_id kind =
     (case map_of ARTIFACT_FILENAMES (py_upper kind) of
        None \<Rightarrow> raise_op (ECLException ''INVALID_ARTIFACT_KIND'' 400)
      | Some filename \<Rightarrow>
          bind_op (lift_db (get_output_artifact tenant_id run_id (py_upper kind))) (\<lambda>artifact.
          bind_op (download_bytes e (oa_path artifact)) (\<lambda>content.
          return_op (content, filename))))"

text \<open>The entries of the ZIP archive, in order.\<close>

fun bundle_entries :: "'s run_env \<Rightarrow> py_str \<Rightarrow> py_str \<Rightarrow> py_str list \<Rightarrow> ('s, (py_str \<times> bytes) list) file_op" where
  "bundle_entries e tenant_id run_id [] = return_op []"
| "bundle_entries e tenant_id run_id (kind # kinds) =
     bind_op (lift_db (get_output_artifact tenant_id run_id kind)) (\<lambda>artifact.
     bind_op (download_bytes e (oa_path artifact)) (\<lambda>content.
     bind_op (bundle_entries e tenant_id run_id kinds) (\<lambda>rest.
     return_op ((the (map_of ARTIFACT_FILENAMES kind), content) # rest))))"

definition build_workbooks_bundle ::
    "((py_str \<times> bytes) list \<Rightarrow> bytes) \<Rightarrow> 's run_env \<Rightarrow> py_str \<Rightarrow> py_str \<Rightarrow> ('s, bytes \<times> py_str) file_op" where
  "build_workbooks_bundle zip_writer e tenant_id run_id =
     bind_op (bundle_entries e tenant_id run_id WORKBOOK_BUNDLE_KINDS) (\<lambda>entries.
     return_op (zip_writer entries, ''ECL_'' @ run_id @ ''_PD_LGD_EAD_workbooks.zip''))"

section \<open>Endpoints\<close>

definition get_dashboard_endpoint where
  "get_dashboard_endpoint e ctx tenant_id =
     gated require_tenant_member ctx tenant_id (\<lambda>user m. get_dashboard e tenant_id (Some (user, Some m)))"

definition get_portfolio_endpoint where
  "get_portfolio_endpoint e ctx tenant_id run_id stage min_ecl =
     gated require_tenant_member ctx tenant_id (\<lambda>user m. get_portfolio e tenant_id run_id (Some (user, Some m)) stage min_ecl)"

definition get_segment_endpoint where
  "get_segment_endpoint ctx tenant_id segment_name run_id stage min_ecl page per_page =
     gated require_tenant_member ctx tenant_id (\<lambda>user m. get_segment tenant_id segment_name run_id stage min_ecl page per_page (Some (user, Some m)))"

definition get_loan_endpoint where
  "get_loan_endpoint ctx tenant_id loan_id run_id =
     gated require_tenant_member ctx tenant_id (\<lambda>user m. get_loan tenant_id loan_id run_id (Some (user, Some m)))"

definition download_artifact_endpoint where
  "download_artifact_endpoint presign ctx tenant_id run_id kind =
     gated require_tenant_member ctx tenant_id (\<lambda>user _. get_presigned_download presign (ax_now ctx) tenant_id run_id (py_upper kind))"

definition download_artifact_file_endpoint where
  "download_artifact_file_endpoint e ctx tenant_id run_id kind =
     gated_file require_tenant_member ctx tenant_id (\<lambda>user _. get_artifact_bytes e tenant_id run_id (py_upper kind))"

definition download_workbooks_bundle_endpoint where
  "download_workbooks_bundle_endpoint zip_writer e ctx tenant_id run_id =
     gated_file require_tenant_member ctx tenant_id (\<lambda>user _. build_workbooks_bundle zip_writer e tenant_id run_id)"

text \<open>The path and file name of a template, given whether a path is a file.\<close>

definition get_template_endpoint where
  "get_template_endpoint is_file ctx tenant_id kind =
     gated require_tenant_member ctx tenant_id (\<lambda>user _.
       let kind_upper = py_upper kind; path = ''static/templates/'' @ kind_upper @ ''.xlsx'' in
       bind_op (guard_op (kind_upper \<in> {''PD'', ''LGD'', ''EAD''}) (ECLException ''INVALID_TEMPLATE_KIND'' 400)) (\<lambda>_.
       bind_op (guard_op (is_file path) (ECLException ''TEMPLATE_NOT_FOUND'' 404)) (\<lambda>_.
       return_op (path, ''ECL_'' @ kind_upper @ ''_template.xlsx''))))"

section \<open>Totals\<close>

lemma sum_segments:
  "(\<Sum>s\<leftarrow>segment_aggregates run tenant prior stage None d. (f s :: 'c::comm_monoid_add))
    = (\<Sum>(name, g)\<leftarrow>groups edr_segment (run_losses run tenant stage d). f (segment_data_of (prior_losses prior tenant d) name g))"
proof -
  have "(\<Sum>x\<leftarrow>sort_key k xs. f x) = (\<Sum>x\<leftarrow>xs. f x)" for k :: "segment_data \<Rightarrow> num" and xs
    by (metis mset_map mset_sort sum_mset_sum_list)
  then show ?thesis by (simp add: segment_aggregates_def apply_min_ecl_filter_def comp_def case_prod_unfold)
qed

lemma segment_data_simps [simp]:
  "sd_ecl (segment_data_of prior name g) = total_loss g" "sd_name (segment_data_of prior name g) = name"
  "sd_outstanding (segment_data_of prior name g) = (\<Sum>(loan, h)\<leftarrow>groups edr_loan g. list_max (map edr_after_missed h))"
  "sd_loans (segment_data_of prior name g) = (\<Sum>(loan, h)\<leftarrow>groups edr_loan g. 1)"
  by (simp_all add: segment_data_of_def Let_def largest_balances_def case_prod_unfold sum_list_triv)

lemma sum_segment_losses:
  "(\<Sum>s\<leftarrow>segment_aggregates run tenant prior stage None d. sd_ecl s) = total_loss (run_losses run tenant stage d)"
  unfolding sum_segments segment_data_simps total_loss_def by (rule sum_groups)

text \<open>A sum over the groups of a list as a sum over its keys.\<close>

lemma sum_over_groups: "(\<Sum>(v, g)\<leftarrow>groups k xs. (f v g :: 'c::comm_monoid_add)) = (\<Sum>v \<in> k ` set xs. f v (filter (\<lambda>x. k x = v) xs))"
  by (simp add: groups_def group_rows_def comp_def sum_list_distinct_conv_sum_set)

text \<open>When the finer key decides the coarser one, grouping twice is grouping once by the finer key.\<close>

lemma sum_nested_groups:
  assumes fine: "\<And>x y. x \<in> set xs \<Longrightarrow> y \<in> set xs \<Longrightarrow> l x = l y \<Longrightarrow> k x = k y"
  shows "(\<Sum>(v, g)\<leftarrow>groups k xs. \<Sum>(w, h)\<leftarrow>groups l g. (f h :: 'c::comm_monoid_add)) = (\<Sum>(w, h)\<leftarrow>groups l xs. f h)"
proof -
  let ?xs = "\<lambda>v. filter (\<lambda>x. k x = v) xs"
  have rows: "filter (\<lambda>x. l x = w) (?xs v) = filter (\<lambda>x. l x = w) xs" if "w \<in> l ` set (?xs v)" for v w
    unfolding filter_filter using that by (intro filter_cong) (auto dest: fine)
  have "(\<Sum>(v, g)\<leftarrow>groups k xs. \<Sum>(w, h)\<leftarrow>groups l g. f h)
      = (\<Sum>v \<in> k ` set xs. \<Sum>w \<in> l ` set (?xs v). f (filter (\<lambda>x. l x = w) xs))"
    unfolding sum_over_groups by (intro sum.cong refl) (use rows in simp)
  also have "\<dots> = (\<Sum>w \<in> (\<Union>v \<in> k ` set xs. l ` set (?xs v)). f (filter (\<lambda>x. l x = w) xs))"
  proof (rule sum.UNION_disjoint [symmetric])
    show "\<forall>i \<in> k ` set xs. \<forall>j \<in> k ` set xs. i \<noteq> j \<longrightarrow> l ` set (?xs i) \<inter> l ` set (?xs j) = {}"
      by (auto dest: fine)
  qed auto
  also have "(\<Union>v \<in> k ` set xs. l ` set (?xs v)) = l ` set xs" by auto
  finally show ?thesis unfolding sum_over_groups .
qed

definition one_segment_per_loan :: "ead_result list \<Rightarrow> bool" where
  "one_segment_per_loan rows \<longleftrightarrow> (\<forall>x \<in> set rows. \<forall>y \<in> set rows. edr_loan x = edr_loan y \<longrightarrow> edr_segment x = edr_segment y)"

lemma sum_segment_outstanding:
  assumes "one_segment_per_loan (run_losses run tenant stage d)"
  shows "(\<Sum>s\<leftarrow>segment_aggregates run tenant prior stage None d. sd_outstanding s)
      = (\<Sum>(loan, g)\<leftarrow>groups edr_loan (run_losses run tenant stage d). list_max (map edr_after_missed g))"
  unfolding sum_segments segment_data_simps
  by (rule sum_nested_groups) (rule assms [unfolded one_segment_per_loan_def, rule_format])

lemma sum_segment_loans:
  assumes "one_segment_per_loan (run_losses run tenant stage d)"
  shows "(\<Sum>s\<leftarrow>segment_aggregates run tenant prior stage None d. sd_loans s) = card (edr_loan ` set (run_losses run tenant stage d))"
proof -
  have "(\<Sum>s\<leftarrow>segment_aggregates run tenant prior stage None d. sd_loans s)
      = (\<Sum>(loan, g)\<leftarrow>groups edr_loan (run_losses run tenant stage d). 1)"
    unfolding sum_segments segment_data_simps
    by (rule sum_nested_groups) (rule assms [unfolded one_segment_per_loan_def, rule_format])
  also have "\<dots> = card (edr_loan ` set (run_losses run tenant stage d))" unfolding sum_over_groups by simp
  finally show ?thesis .
qed

section \<open>Visibility\<close>

text \<open>The runs a viewer may see: an analyst who is not a platform administrator sees own runs only.\<close>

definition visible_to :: "viewer \<Rightarrow> py_str \<Rightarrow> run \<Rightarrow> bool" where
  "visible_to viewer tenant_id r \<longleftrightarrow> r_tenant r = tenant_id \<and>
     (case viewer of
        Some (u, Some m) \<Rightarrow> u_is_platform_admin u \<or> m_role m \<noteq> role_value ANALYST \<or> r_created_by r = u_id u
      | _ \<Rightarrow> True)"

lemma assert_run_visible_Inr:
  "assert_run_visible u tenant_id m run_id d = (Inr r, d') \<Longrightarrow>
   d' = d \<and> r \<in> set (runs_tbl d) \<and> run_query tenant_id run_id r \<and> visible_to (Some (u, m)) tenant_id r"
  by (auto simp: assert_run_visible_def bind_op_Inr op_defs when_op_def guard_op_def visible_to_def run_query_def
      filter_eq_Cons_iff split: option.splits if_splits)

lemma scope_visible: "scope_of viewer tenant_id = Inr scope \<Longrightarrow> scope r \<Longrightarrow> visible_to viewer tenant_id r"
  by (auto simp: scope_of_def get_run_scope_filter_def visible_to_def split: option.splits if_splits)

lemma set_take_one: "take (Suc 0) xs = [x] \<Longrightarrow> x \<in> set xs"
  by (cases xs) auto

lemma latest_completed_run_Inr:
  assumes "latest_completed_run tenant_id run_id viewer d = (Inr r, d')"
  shows "d' = d" "r \<in> set (runs_tbl d)" "completed r" "visible_to viewer tenant_id r" "truthy run_id \<Longrightarrow> r_id r = the run_id"
proof -
  have "d' = d \<and> r \<in> set (runs_tbl d) \<and> completed r \<and> visible_to viewer tenant_id r \<and> (truthy run_id \<longrightarrow> r_id r = the run_id)"
  proof (cases "truthy run_id")
    case True
    show ?thesis
    proof (cases viewer)
      case None
      then show ?thesis using assms True
        by (auto simp: latest_completed_run_def bind_op_Inr op_defs guard_op_def run_query_def completed_def visible_to_def
            filter_eq_Cons_iff split: if_splits)
    next
      case (Some v)
      then show ?thesis using assms True
        by (cases v) (auto simp: latest_completed_run_def bind_op_Inr op_defs guard_op_def completed_def run_query_def
            split: if_splits dest!: assert_run_visible_Inr)
    qed
  next
    case False
    then show ?thesis using assms
      by (auto simp: latest_completed_run_def bind_op_Inr op_defs newest_first_def dest!: set_take_one dest: scope_visible)
  qed
  then show "d' = d" "r \<in> set (runs_tbl d)" "completed r" "visible_to viewer tenant_id r" "truthy run_id \<Longrightarrow> r_id r = the run_id"
    by simp_all
qed

lemma previous_completed_run_same: "previous_completed_run tenant_id before viewer d = (Inr p, d') \<Longrightarrow> d' = d"
  by (auto simp: previous_completed_run_def bind_op_Inr op_defs split: option.splits)

lemma segments_of_view_Inr:
  assumes "segments_of_view tenant_id run_id viewer stage min_ecl d = (Inr (r, segments), d')"
  obtains prior where "latest_completed_run tenant_id run_id viewer d = (Inr r, d)" "d' = d"
    "segments = segment_aggregates (r_id r) tenant_id prior stage min_ecl d"
  using assms latest_completed_run_Inr(1) [of tenant_id run_id viewer d]
  by (auto simp: segments_of_view_def bind_op_Inr op_defs dest!: previous_completed_run_same)

lemma list_max_nonneg: "xs \<noteq> [] \<Longrightarrow> \<forall>x \<in> set xs. 0 \<le> x \<Longrightarrow> 0 \<le> list_max xs"
proof -
  have "0 \<le> fold max ys y" if "0 \<le> y" for ys and y :: num using that
    by (induction ys arbitrary: y) auto
  then show "xs \<noteq> [] \<Longrightarrow> \<forall>x \<in> set xs. 0 \<le> x \<Longrightarrow> 0 \<le> list_max xs" by (cases xs) (simp_all add: list_max_def)
qed

lemma outstanding_nonneg:
  assumes "\<forall>x \<in> set rows. 0 \<le> edr_after_missed x"
  shows "0 \<le> (\<Sum>(loan, g)\<leftarrow>groups edr_loan rows. list_max (map edr_after_missed g))"
  using assms by (intro sum_list_nonneg) (fastforce dest: groupsD groups_not_Nil simp: group_rows_def intro!: list_max_nonneg)

lemma get_portfolio_Inr:
  assumes "get_portfolio e tenant_id run_id viewer stage min_ecl d = (Inr v, d')"
  obtains r prior where "latest_completed_run tenant_id run_id viewer d = (Inr r, d)" "d' = d"
    "rc_run_id (pv_context v) = short_ulid (r_id r)" "pv_segments v = segment_aggregates (r_id r) tenant_id prior stage min_ecl d"
    "pv_ecl v = sum_list (map sd_ecl (pv_segments v))" "pv_outstanding v = sum_list (map sd_outstanding (pv_segments v))"
    "pv_loans v = sum_list (map sd_loans (pv_segments v))"
    "pv_coverage v = format_coverage (if pv_outstanding v = 0 then 0 else pv_ecl v / pv_outstanding v)"
proof -
  from assms obtain r segments t computed_at where
    view: "segments_of_view tenant_id run_id viewer stage min_ecl d = (Inr (r, segments), d')"
    and v: "v = portfolio_of t r segments computed_at"
    unfolding get_portfolio_def
    by (auto simp: bind_op_Inr op_defs get_tenant_row_def validate_stage_def split: option.splits if_splits)
  from view obtain prior where "latest_completed_run tenant_id run_id viewer d = (Inr r, d)" "d' = d"
    "segments = segment_aggregates (r_id r) tenant_id prior stage min_ecl d" by (rule segments_of_view_Inr)
  then show thesis by (intro that [of r prior]) (simp_all add: v portfolio_of_def Let_def)
qed

section \<open>Properties\<close>

text \<open>
  An unfiltered portfolio view reads the stored losses of one completed run, the one asked for if any, which the
  viewer may see, and its totals over the segments are those that \<open>compute_run_totals\<close> finds in the rows of this run.
  This holds when no loan of the run lies in two segments, rows carry the workspace of their run, and balances are not
  negative. The view changes nothing. Theory \<open>Reports\<close> joins this to what the compute task stored.
\<close>

lemma portfolio_totals:
  assumes view: "get_portfolio e tenant_id run_id viewer None None d = (Inr v, d')"
    and rows: "\<And>r. r \<in> set (runs_tbl d) \<Longrightarrow> r_tenant r = tenant_id \<Longrightarrow> truthy run_id \<longrightarrow> r_id r = the run_id \<Longrightarrow>
      one_segment_per_loan (filter (\<lambda>x. edr_run x = r_id r) (ead_results_tbl d))
      \<and> (\<forall>x \<in> set (ead_results_tbl d). edr_run x = r_id r \<longrightarrow> edr_tenant x = tenant_id \<and> 0 \<le> edr_after_missed x)"
  obtains r coverage where "d' = d" "r \<in> set (runs_tbl d)" "completed r" "visible_to viewer tenant_id r" "truthy run_id \<longrightarrow> r_id r = the run_id"
    "rc_run_id (pv_context v) = short_ulid (r_id r)"
    "compute_run_totals (ead_results_tbl d) (r_id r) = (pv_ecl v, pv_outstanding v, coverage)" "pv_coverage v = format_coverage coverage"
    "pv_loans v = loan_count_of (r_id r) tenant_id d"
proof -
  from view obtain r prior where latest: "latest_completed_run tenant_id run_id viewer d = (Inr r, d)" and d': "d' = d"
    and v: "rc_run_id (pv_context v) = short_ulid (r_id r)" "pv_segments v = segment_aggregates (r_id r) tenant_id prior None None d"
      "pv_ecl v = sum_list (map sd_ecl (pv_segments v))" "pv_outstanding v = sum_list (map sd_outstanding (pv_segments v))"
      "pv_loans v = sum_list (map sd_loans (pv_segments v))"
      "pv_coverage v = format_coverage (if pv_outstanding v = 0 then 0 else pv_ecl v / pv_outstanding v)"
    by (rule get_portfolio_Inr)
  note r = latest_completed_run_Inr(2-5) [OF latest]
  have own: "one_segment_per_loan (filter (\<lambda>x. edr_run x = r_id r) (ead_results_tbl d))"
      "\<forall>x \<in> set (ead_results_tbl d). edr_run x = r_id r \<longrightarrow> edr_tenant x = tenant_id \<and> 0 \<le> edr_after_missed x"
    using rows [OF r(1)] r(3,4) by (auto simp: visible_to_def)
  let ?rows = "filter (\<lambda>x. edr_run x = r_id r) (ead_results_tbl d)"
  have losses: "run_losses (r_id r) tenant_id None d = ?rows"
    unfolding run_losses_def using own(2) by (intro filter_cong) auto
  have one: "one_segment_per_loan (run_losses (r_id r) tenant_id None d)" using own(1) by (simp add: losses)
  have ecl: "pv_ecl v = total_loss ?rows" unfolding v(2,3) sum_segment_losses losses ..
  have out: "pv_outstanding v = (\<Sum>(loan, g)\<leftarrow>groups edr_loan ?rows. list_max (map edr_after_missed g))"
    unfolding v(2,4) sum_segment_outstanding [OF one] losses ..
  have loans: "pv_loans v = loan_count_of (r_id r) tenant_id d"
    unfolding v(2,5) sum_segment_loans [OF one] by (simp add: loan_count_of_def run_losses_def)
  have "0 \<le> pv_outstanding v" unfolding out using own(2) by (intro outstanding_nonneg) simp
  then have "compute_run_totals (ead_results_tbl d) (r_id r)
      = (pv_ecl v, pv_outstanding v, if pv_outstanding v = 0 then 0 else pv_ecl v / pv_outstanding v)"
    unfolding compute_run_totals_def Let_def ecl out total_loss_def by simp
  then show thesis using d' r v(1,6) loans by (intro that) auto
qed

lemma get_output_artifact_Inr:
  assumes "filter (run_query tenant_id run_id) (runs_tbl d) = [r]"
    and "filter (\<lambda>a. oa_run a = run_id \<and> oa_tenant a = tenant_id \<and> oa_kind a = kind) (artifacts_tbl d) = [a]"
  shows "get_output_artifact tenant_id run_id kind d = (Inr a, d)"
  using assms by (simp add: get_output_artifact_def op_simps op_defs)

lemma hidden_run_refused:
  assumes "filter (run_query tenant_id run_id) (runs_tbl d) = [r]" "\<not> visible_to (Some (u, Some m)) tenant_id r" "run_id \<noteq> []"
  shows "latest_completed_run tenant_id (Some run_id) (Some (u, Some m)) d = (Inl run_not_found, d)"
proof -
  have "run_query tenant_id run_id r" using assms(1) by (metis filter_eq_ConsD)
  then have "assert_run_visible u tenant_id (Some m) run_id d = (Inl run_not_found, d)"
    using assms(1,2) by (auto simp: assert_run_visible_def op_simps op_defs when_op_def guard_op_def visible_to_def run_query_def bind_op_def)
  then show ?thesis using assms(3) by (simp add: latest_completed_run_def truthy_def bind_op_def)
qed

text \<open>
  The views of results are refused for a run that its viewer may not see, but a download is not: an analyst who asks for the
  portfolio or a loan of another member's run is told that there is no such run, and gets the workbooks of this run from the download
  service, which any member may call. The other views change nothing.
\<close>

lemma downloads_ignore_visibility:
  assumes tenant: "filter (live_tenant tenant_id) (tenants d) = [t]"
    and run: "filter (run_query tenant_id run_id) (runs_tbl d) = [r]" "run_id \<noteq> ''''"
    and hidden: "\<not> visible_to (Some (u, Some m)) tenant_id r"
    and artifact: "filter (\<lambda>a. oa_run a = run_id \<and> oa_tenant a = tenant_id \<and> oa_kind a = py_upper kind) (artifacts_tbl d) = [a]"
    and stored: "map_of ARTIFACT_FILENAMES (py_upper kind) = Some filename" "os_get (re_store e) (normalize_key (oa_path a)) st = Some content"
  shows "get_portfolio e tenant_id (Some run_id) (Some (u, Some m)) None min_ecl d = (Inl run_not_found, d)
    \<and> get_loan tenant_id loan_id (Some run_id) (Some (u, Some m)) d = (Inl run_not_found, d)
    \<and> get_artifact_bytes e tenant_id run_id kind (st, d) = (Inr (content, filename), (st, d))"
proof -
  note latest = hidden_run_refused [OF run(1) hidden run(2)]
  have t: "get_tenant_row tenant_id d = (Inr t, d)" using tenant by (simp add: get_tenant_row_def read_op_def)
  have "get_portfolio e tenant_id (Some run_id) (Some (u, Some m)) None min_ecl d = (Inl run_not_found, d)"
    by (simp add: get_portfolio_def segments_of_view_def validate_stage_def bind_op_def read_op_def t latest)
  moreover have "get_loan tenant_id loan_id (Some run_id) (Some (u, Some m)) d = (Inl run_not_found, d)"
    by (simp add: get_loan_def bind_op_def t latest)
  moreover have "get_artifact_bytes e tenant_id run_id kind (st, d) = (Inr (content, filename), (st, d))"
    using get_output_artifact_Inr [OF run(1) artifact] stored
    by (simp add: get_artifact_bytes_def bind_op_def lift_db_def download_bytes_def op_defs)
  ultimately show ?thesis by blast
qed

section \<open>Witnesses\<close>

definition sample_loss :: "py_str \<Rightarrow> nat \<Rightarrow> num \<Rightarrow> num \<Rightarrow> ead_result" where
  "sample_loss loan n balance loss = \<lparr> edr_id = loan @ show_nat n, edr_run = ''R'', edr_tenant = ''T'', edr_loan = loan, edr_customer = ''C'',
     edr_segment = ''Retail'', edr_stage = ''Stage 2'', edr_date = Date 2024 1 31, edr_period = 0, edr_discount = n, edr_instalment = 10,
     edr_after_repayment = balance, edr_after_missed = balance, edr_marginal = Some (1 / 100), edr_lgw = 1, edr_lgd = 1 / 2,
     edr_credit_loss = loss, edr_discounted = loss \<rparr>"

definition sample_computed :: run where
  "sample_computed = sample_draft \<lparr> r_status := COMPLETE, r_finished_at := Some 900, r_period := Some ''2024-01'' \<rparr>"

definition sample_artifact :: output_artifact where
  "sample_artifact = \<lparr> oa_id = ''O'', oa_run = ''R'', oa_tenant = ''T'', oa_kind = ''LGD'', oa_path = ''/T/R/lgd'', oa_sha256 = ''0'', oa_size = 3 \<rparr>"

definition sample_results_db :: db where
  "sample_results_db = sample_run_db \<lparr> tenants := [sample_tenant], runs_tbl := [sample_computed], artifacts_tbl := [sample_artifact],
     ead_results_tbl := [sample_loss ''L1'' 0 100 3, sample_loss ''L1'' 1 50 1, sample_loss ''L2'' 0 200 6] \<rparr>"

lemmas sample_results = sample_results_db_def sample_computed_def sample_artifact_def sample_draft_def new_run_def sample_loss_def

text \<open>Loans of 100 and 200 with losses of 4 and 6.\<close>

lemma sample_portfolio:
  "(case get_portfolio sample_run_env ''T'' None None None None sample_results_db of
      (Inr v, d) \<Rightarrow> pv_ecl v = 10 \<and> pv_outstanding v = 300 \<and> pv_loans v = 2 | _ \<Rightarrow> False)"
  by code_simp

definition other_analyst :: "user \<times> membership" where
  "other_analyst = (sample_admin \<lparr> u_id := ''B'' \<rparr>,
     \<lparr> m_id = ''M'', m_user = ''B'', m_tenant = ''T'', m_role = role_value ANALYST, m_status = ''active'', m_joined_at = 0 \<rparr>)"

lemma py_upper_lgd: "py_upper ''lgd'' = ''LGD''"
  by code_simp

lemma downloads_ignore_visibility_witness:
  "get_portfolio sample_run_env ''T'' (Some ''R'') (Some (fst other_analyst, Some (snd other_analyst))) None None sample_results_db
     = (Inl run_not_found, sample_results_db)
   \<and> get_artifact_bytes sample_run_env ''T'' ''R'' ''lgd'' (sample_objects, sample_results_db) = (Inr (''lgd'', ''LGD.xlsx''), (sample_objects, sample_results_db))"
  by (rule conjE [OF downloads_ignore_visibility [of "''T''" sample_results_db sample_tenant "''R''" sample_computed
        "fst other_analyst" "snd other_analyst" "''lgd''" sample_artifact "''LGD.xlsx''" sample_run_env sample_objects "''lgd''" None]])
    (auto simp: sample_results sample_tenant_def new_tenant_def live_tenant_def run_query_def visible_to_def other_analyst_def role_value.simps sample_admin_def
      ARTIFACT_FILENAMES_def py_upper_lgd sample_run_env_def map_store_def normalize_key_def sample_objects_def)

end
