(* ===== verification/Sessions.thy ===== *)
theory Sessions
  imports Auth Results
begin

text \<open>
  The own account: \<^verbatim>\<open>app/modules/sessions/service.py\<close> and \<^verbatim>\<open>app/modules/sessions/router.py\<close>, with the profile,
  the avatar, the password, the list of sessions and their revocation, and the enrolment of a second factor.

  The requests take the \<open>env\<close> of theory \<open>Auth\<close>; the avatar is kept in the object storage of theory \<open>Runs\<close>. Parameters are
  the descriptive columns of a session, which no other code reads, the provisioning address and the QR image of a
  secret, and the order in which the database returns rows of a query without one.
\<close>

section \<open>Profile\<close>

definition plural :: "int \<Rightarrow> py_str" where
  "plural n = (if 1 < n then ''s'' else '''')"

definition relative_time :: "timestamp \<Rightarrow> timestamp \<Rightarrow> py_str" where
  "relative_time now dt =
     (let seconds = now - dt in
      if seconds < 60 then ''just now''
      else if seconds < 3600 then show_int (seconds div 60) @ '' minute'' @ plural (seconds div 60) @ '' ago''
      else if seconds < 86400 then show_int (seconds div 3600) @ '' hour'' @ plural (seconds div 3600) @ '' ago''
      else if seconds < 172800 then ''yesterday''
      else show_int (seconds div 86400) @ '' days ago'')"

definition device_label :: "py_str option \<Rightarrow> py_str" where
  "device_label device_type =
     (case map_of [(''laptop'', ''desktop''), (''phone'', ''phone''), (''tablet'', ''tablet'')] (case device_type of None \<Rightarrow> '''' | Some t \<Rightarrow> t) of
        None \<Rightarrow> ''desktop'' | Some l \<Rightarrow> l)"

type_synonym presigner = "py_str \<Rightarrow> int \<Rightarrow> py_str option"

definition avatar_url :: "presigner \<Rightarrow> user \<Rightarrow> py_str option result" where
  "avatar_url presign u =
     (if truthy (u_avatar u) then (case presign_download presign (the (u_avatar u)) 3600 of Inl x \<Rightarrow> Inl x | Inr url \<Rightarrow> Inr (Some url))
      else Inr None)"

record membership_out =
  mb_tenant_id :: py_str
  mb_tenant_name :: py_str
  mb_role :: py_str
  mb_status :: py_str
  mb_currency :: py_str

record user_profile =
  up_user_id :: py_str
  up_name :: py_str
  up_email :: py_str
  up_role :: py_str
  up_tenant_id :: py_str
  up_tenant_name :: py_str
  up_email_verified :: bool
  up_initials :: py_str
  up_title :: "py_str option"
  up_totp_enabled :: bool
  up_avatar_url :: "py_str option"

definition own_memberships :: "py_str \<Rightarrow> db \<Rightarrow> (membership \<times> tenant) list" where
  "own_memberships user_id d =
     concat (map (\<lambda>m. map (Pair m) (filter (\<lambda>t. t_id t = m_tenant m \<and> t_deleted_at t = None) (tenants d)))
       (filter (\<lambda>m. m_user m = user_id) (members d)))"

definition membership_out_of :: "membership \<times> tenant \<Rightarrow> membership_out" where
  "membership_out_of row = (case row of (m, t) \<Rightarrow>
     \<lparr> mb_tenant_id = t_id t, mb_tenant_name = t_name t, mb_role = m_role m, mb_status = m_status m,
       mb_currency = (if t_currency t = '''' then ''USD'' else t_currency t) \<rparr>)"

text \<open>The workspace shown as the active one: its id, name and the role in it; the last match of the loop.\<close>

definition active_workspace :: "py_str option \<Rightarrow> (membership \<times> tenant) list \<Rightarrow> py_str \<times> py_str \<times> py_str" where
  "active_workspace tenant_id rows =
     (let start = (if truthy tenant_id then the tenant_id else '''', '''', '''');
          found = fold (\<lambda>(m, t) acc. if Some (t_id t) = tenant_id \<or> \<not> truthy tenant_id \<and> m_status m = ''active''
                                     then (t_id t, t_name t, m_role m) else acc) rows start
      in if fst found = '''' then (case rows of [] \<Rightarrow> found | (m, t) # _ \<Rightarrow> (t_id t, t_name t, m_role m)) else found)"

definition get_me :: "presigner \<Rightarrow> user \<Rightarrow> py_str option \<Rightarrow> (db, user_profile \<times> membership_out list) op" where
  "get_me presign u tenant_id =
     bind_op (read_op (\<lambda>d. Inr (own_memberships (u_id u) d))) (\<lambda>rows.
     bind_op (read_op (\<lambda>_. avatar_url presign u)) (\<lambda>url.
     case active_workspace tenant_id rows of (tid, tname, role) \<Rightarrow>
       return_op (\<lparr> up_user_id = u_id u, up_name = u_name u, up_email = u_email u, up_role = role, up_tenant_id = tid, up_tenant_name = tname,
           up_email_verified = u_is_email_verified u, up_initials = user_initials (u_name u), up_title = u_title u,
           up_totp_enabled = u_totp_enabled u, up_avatar_url = url \<rparr>, map membership_out_of rows)))"

record profile_request =
  pq_name :: "py_str option"
  pq_title :: "py_str option"

definition update_profile :: "user \<Rightarrow> profile_request \<Rightarrow> (db, unit) op" where
  "update_profile u req =
     bind_op (when_op (truthy (pq_name req)) (write_user (u_id u) (\<lambda>u. u \<lparr> u_name := py_strip (the (pq_name req)) \<rparr>))) (\<lambda>_.
     case pq_title req of
       None \<Rightarrow> return_op ()
     | Some title \<Rightarrow> write_user (u_id u) (\<lambda>u. u \<lparr> u_title := (if py_strip title = '''' then None else Some (py_strip title)) \<rparr>))"

section \<open>Avatar\<close>

definition unsupported_media_type :: exn where
  "unsupported_media_type = ECLException ''UNSUPPORTED_MEDIA_TYPE'' 415"

definition file_too_large :: exn where
  "file_too_large = ECLException ''FILE_TOO_LARGE'' 413"

text \<open>\<open>try: m except Exception: pass\<close>: only what it did outside of the database is kept.\<close>

definition ignore_failure :: "('s, unit) file_op \<Rightarrow> ('s, unit) file_op" where
  "ignore_failure m s = (Inr (), snd (m s))"

definition avatar_path :: "py_str \<Rightarrow> py_str \<Rightarrow> py_str" where
  "avatar_path user_id content_type = ''users/'' @ user_id @ ''/avatar'' @ (if content_type = ''image/png'' then ''.png'' else ''.jpg'')"

definition upload_avatar :: "'s run_env \<Rightarrow> presigner \<Rightarrow> user \<Rightarrow> bytes \<Rightarrow> py_str \<Rightarrow> ('s, py_str) file_op" where
  "upload_avatar e presign u content content_type =
     bind_op (guard_op (content_type \<in> {''image/png'', ''image/jpeg''}) unsupported_media_type) (\<lambda>_.
     bind_op (guard_op (\<not> 2 * 1024 * 1024 < length content) file_too_large) (\<lambda>_.
     let path = avatar_path (u_id u) content_type in
     bind_op (when_op (truthy (u_avatar u) \<and> u_avatar u \<noteq> Some path) (ignore_failure (delete_object e (the (u_avatar u))))) (\<lambda>_.
     bind_op (upload_stream e path content) (\<lambda>_.
     bind_op (lift_db (write_user (u_id u) (\<lambda>u. u \<lparr> u_avatar := Some path \<rparr>))) (\<lambda>_.
     read_op (\<lambda>_. presign_download presign path 3600))))))"

definition delete_avatar :: "'s run_env \<Rightarrow> user \<Rightarrow> ('s, unit) file_op" where
  "delete_avatar e u =
     (if truthy (u_avatar u) then
        bind_op (ignore_failure (delete_object e (the (u_avatar u)))) (\<lambda>_.
        lift_db (write_user (u_id u) (\<lambda>u. u \<lparr> u_avatar := None \<rparr>)))
      else return_op ())"

section \<open>Sessions\<close>

definition resolve_current_rt_id :: "env \<Rightarrow> py_str option \<Rightarrow> (db, py_str option) op" where
  "resolve_current_rt_id e raw_refresh =
     (if truthy raw_refresh then
        read_op (\<lambda>d. scalar_one_or_none (map rt_id (filter (\<lambda>rt. hash_query e (the raw_refresh) rt \<and> \<not> rt_revoked rt) (refresh_tokens_tbl d))))
      else return_op None)"

definition resolve_current_session_id :: "py_str \<Rightarrow> py_str option \<Rightarrow> (db, py_str option) op" where
  "resolve_current_session_id user_id current_rt_id =
     (if truthy current_rt_id then
        read_op (\<lambda>d. scalar_one_or_none (map ss_id (filter (\<lambda>s. ss_user s = user_id \<and> Some (ss_refresh_token s) = current_rt_id) (sessions_tbl d))))
      else return_op None)"

text \<open>The live tokens of a user, in the order \<open>order\<close> of the database.\<close>

definition user_live :: "py_str \<Rightarrow> refresh_token \<Rightarrow> bool" where
  "user_live user_id rt \<longleftrightarrow> rt_user rt = user_id \<and> \<not> rt_revoked rt"

definition change_password ::
    "env \<Rightarrow> (refresh_token list \<Rightarrow> refresh_token list) \<Rightarrow> user \<Rightarrow> py_str \<Rightarrow> py_str \<Rightarrow> (db, unit) op" where
  "change_password e order u current_password new_password =
     bind_op (guard_op (ev_verify e current_password (u_hashed_password u)) (ECLException ''INVALID_CREDENTIALS'' 401)) (\<lambda>_.
     bind_op (check_password e new_password (Some (u_name u)) None) (\<lambda>_.
     bind_op (write_user (u_id u) (\<lambda>u. u \<lparr> u_hashed_password := ev_hash_password e new_password \<rparr>)) (\<lambda>_.
     bind_op (read_op (\<lambda>d. Inr (order (filter (user_live (u_id u)) (refresh_tokens_tbl d))))) (\<lambda>tokens.
     bind_op (when_op (1 < length tokens) (modify_op (\<lambda>d. d \<lparr> refresh_tokens_tbl :=
       update_rows (\<lambda>rt. rt_id rt \<in> rt_id ` set (tl tokens)) (\<lambda>rt. rt \<lparr> rt_revoked := True \<rparr>) (refresh_tokens_tbl d) \<rparr>))) (\<lambda>_.
     modify_op (log_event ''auth.password.changed'' (Some (u_id u)) None True None))))))"

record session_columns =
  sc_device_name :: "py_str option"
  sc_browser :: "py_str option"
  sc_country :: "py_str option"
  sc_device_type :: "py_str option"
  sc_created_at :: py_str

record session_out =
  sn_id :: py_str
  sn_title :: py_str
  sn_description :: py_str
  sn_device :: py_str
  sn_current :: bool
  sn_created_at :: py_str

definition or_else :: "py_str option \<Rightarrow> py_str \<Rightarrow> py_str" where
  "or_else x y = (if truthy x then the x else y)"

definition session_out_of :: "timestamp \<Rightarrow> (session \<Rightarrow> session_columns) \<Rightarrow> py_str option \<Rightarrow> session \<Rightarrow> session_out" where
  "session_out_of now columns current_rt_id s =
     (let dot = '' '' @ middle_dot @ '' ''; c = columns s in
      \<lparr> sn_id = ss_id s, sn_title = or_else (sc_device_name c) ''Unknown Device'' @ dot @ or_else (sc_browser c) ''Unknown Browser'',
        sn_description = or_else (sc_country c) ''Unknown location'' @ dot @ relative_time now (ss_last_active_at s),
        sn_device = device_label (sc_device_type c), sn_current = (truthy current_rt_id \<and> Some (ss_refresh_token s) = current_rt_id),
        sn_created_at = sc_created_at c \<rparr>)"

definition list_sessions :: "timestamp \<Rightarrow> (session \<Rightarrow> session_columns) \<Rightarrow> py_str \<Rightarrow> py_str option \<Rightarrow> db \<Rightarrow> session_out list" where
  "list_sessions now columns user_id current_rt_id d =
     map (session_out_of now columns current_rt_id) (sort_key (\<lambda>s. - ss_last_active_at s) (filter (\<lambda>s. ss_user s = user_id) (sessions_tbl d)))"

definition revoke_tokens :: "(py_str \<Rightarrow> bool) \<Rightarrow> (db, unit) op" where
  "revoke_tokens P = modify_op (\<lambda>d. d \<lparr> refresh_tokens_tbl := update_rows (\<lambda>rt. P (rt_id rt)) (\<lambda>rt. rt \<lparr> rt_revoked := True \<rparr>) (refresh_tokens_tbl d) \<rparr>)"

definition revoke_session :: "py_str \<Rightarrow> py_str \<Rightarrow> py_str option \<Rightarrow> (db, unit) op" where
  "revoke_session user_id session_id current_session_id =
     bind_op (guard_op (Some session_id \<noteq> current_session_id) (ECLException ''VALIDATION_ERROR'' 400)) (\<lambda>_.
     bind_op (read_op (\<lambda>d. one_or_raise not_found (filter (\<lambda>s. ss_id s = session_id \<and> ss_user s = user_id) (sessions_tbl d)))) (\<lambda>sess.
     bind_op (read_op (\<lambda>d. scalar_one_or_none (filter (\<lambda>rt. rt_id rt = ss_refresh_token sess) (refresh_tokens_tbl d)))) (\<lambda>rt.
     bind_op (when_op (rt \<noteq> None) (revoke_tokens (\<lambda>i. i = ss_refresh_token sess))) (\<lambda>_.
     bind_op (modify_op (\<lambda>d. d \<lparr> sessions_tbl := filter (\<lambda>s. ss_id s \<noteq> session_id) (sessions_tbl d) \<rparr>)) (\<lambda>_.
     modify_op (log_event ''session.revoked'' (Some user_id) None True None))))))"

definition revoke_other_sessions :: "py_str \<Rightarrow> py_str option \<Rightarrow> (db, nat) op" where
  "revoke_other_sessions user_id current_session_id =
     bind_op (read_op (\<lambda>d. Inr (filter (\<lambda>s. ss_user s = user_id \<and> Some (ss_id s) \<noteq> current_session_id) (sessions_tbl d)))) (\<lambda>others.
     if others = [] then return_op 0
     else
       bind_op (revoke_tokens (\<lambda>i. i \<in> ss_refresh_token ` set others)) (\<lambda>_.
       bind_op (modify_op (\<lambda>d. d \<lparr> sessions_tbl := filter (\<lambda>s. ss_id s \<notin> ss_id ` set others) (sessions_tbl d) \<rparr>)) (\<lambda>_.
       bind_op (modify_op (log_event ''session.all_revoked'' (Some user_id) None True None)) (\<lambda>_.
       return_op (length others)))))"

section \<open>Second factor\<close>

definition pending_key :: "py_str \<Rightarrow> py_str" where
  "pending_key user_id = ''totp:pending:'' @ user_id"

text \<open>A command to Redis inside a request.\<close>

definition redis_op :: "(redis \<Rightarrow> redis result) \<Rightarrow> unit sys_op" where
  "redis_op f s = (case f (fst s) of Inl x \<Rightarrow> (Inl x, s) | Inr r \<Rightarrow> (Inr (), (r, snd s)))"

record totp_enroll =
  te_uri :: py_str
  te_image :: py_str
  te_secret :: py_str

definition enroll_totp_start :: "env \<Rightarrow> (py_str \<Rightarrow> py_str \<Rightarrow> py_str) \<Rightarrow> (py_str \<Rightarrow> py_str) \<Rightarrow> user \<Rightarrow> totp_enroll sys_op" where
  "enroll_totp_start e provisioning_uri qr_image u =
     (let secret = ev_raw e 0; uri = provisioning_uri secret (u_email u) in
      bind_op (redis_op (redis_setex (ev_now e) (pending_key (u_id u)) 300 secret)) (\<lambda>_.
      return_op \<lparr> te_uri = uri, te_image = ''data:image/png;base64,'' @ qr_image uri, te_secret = secret \<rparr>))"

definition generate_backup_codes :: "env \<Rightarrow> py_str list \<times> backup_code list" where
  "generate_backup_codes e =
     (let codes = map (\<lambda>i. py_upper (ev_raw e i)) [0..<8]
      in (codes, map (\<lambda>c. \<lparr> bc_hash = ev_hash_password e c, bc_used = False \<rparr>) codes))"

definition enroll_totp_confirm :: "env \<Rightarrow> user \<Rightarrow> py_str \<Rightarrow> (py_str list) sys_op" where
  "enroll_totp_confirm e u code =
     bind_op (read_op (\<lambda>s. redis_get (ev_now e) (pending_key (u_id u)) (fst s))) (\<lambda>raw.
     bind_op (guard_op (truthy raw) (ECLException ''TOTP_ENROLLMENT_EXPIRED'' 400)) (\<lambda>_.
     bind_op (guard_op (ev_totp e (the raw) code) (ECLException ''TOTP_INVALID_CODE'' 400)) (\<lambda>_.
     bind_op (guard_op (ev_totp_key e) internal_error) (\<lambda>_.
     case generate_backup_codes e of (plaintext_codes, hashed_codes) \<Rightarrow>
     bind_op (lift_db (write_user (u_id u) (\<lambda>u. u \<lparr> u_totp_secret := Some (ev_encrypt e (the raw)), u_totp_enabled := True,
       u_backup_codes := Some hashed_codes \<rparr>))) (\<lambda>_.
     bind_op (redis_op (redis_delete (pending_key (u_id u)))) (\<lambda>_.
     bind_op (lift_db (modify_op (log_event ''mfa.totp.enrolled'' (Some (u_id u)) None True None))) (\<lambda>_.
     return_op plaintext_codes)))))))"

definition disable_totp :: "env \<Rightarrow> user \<Rightarrow> py_str \<Rightarrow> (db, unit) op" where
  "disable_totp e u code =
     bind_op (guard_op (u_totp_enabled u \<and> truthy (u_totp_secret u)) (ECLException ''TOTP_NOT_ENABLED'' 400)) (\<lambda>_.
     bind_op (guard_op (ev_totp_key e) internal_error) (\<lambda>_.
     bind_op (guard_op (ev_totp e (ev_decrypt e (the (u_totp_secret u))) code) (ECLException ''TOTP_INVALID_CODE'' 400)) (\<lambda>_.
     bind_op (write_user (u_id u) (\<lambda>u. u \<lparr> u_totp_secret := None, u_totp_enabled := False, u_backup_codes := None \<rparr>)) (\<lambda>_.
     modify_op (log_event ''mfa.totp.disabled'' (Some (u_id u)) None True None)))))"

section \<open>Endpoints\<close>

text \<open>An endpoint for the authenticated user, on the database alone or with another state.\<close>

definition for_user :: "auth_ctx \<Rightarrow> (user \<Rightarrow> (db, 'a) op) \<Rightarrow> (db, 'a) op" where
  "for_user ctx f = bind_op (current_user ctx) f"

definition for_user_sys :: "auth_ctx \<Rightarrow> (user \<Rightarrow> ('x \<times> db, 'a) op) \<Rightarrow> ('x \<times> db, 'a) op" where
  "for_user_sys ctx f = bind_op (lift_db (current_user ctx)) f"

text \<open>The session of the refresh cookie.\<close>

definition current_session :: "env \<Rightarrow> py_str option \<Rightarrow> user \<Rightarrow> (db, py_str option) op" where
  "current_session e cookie u =
     bind_op (resolve_current_rt_id e cookie) (\<lambda>rt. resolve_current_session_id (u_id u) rt)"

definition get_me_endpoint where
  "get_me_endpoint presign ctx =
     for_user ctx (\<lambda>u. bind_op (read_op (\<lambda>_. ax_decode ctx (case ax_creds ctx of None \<Rightarrow> '''' | Some t \<Rightarrow> t))) (\<lambda>payload.
       get_me presign u (cl_tenant payload)))"

definition patch_me where
  "patch_me ctx body = for_user ctx (\<lambda>u. update_profile u body)"

definition patch_password where
  "patch_password e order ctx current_password new_password = for_user ctx (\<lambda>u. change_password e order u current_password new_password)"

definition upload_avatar_endpoint where
  "upload_avatar_endpoint e presign ctx content content_type =
     for_user_sys ctx (\<lambda>u. upload_avatar e presign u content (case content_type of None \<Rightarrow> '''' | Some t \<Rightarrow> t))"

definition delete_avatar_endpoint where
  "delete_avatar_endpoint e ctx = for_user_sys ctx (delete_avatar e)"

definition get_sessions where
  "get_sessions e columns ctx cookie =
     for_user ctx (\<lambda>u. bind_op (resolve_current_rt_id e cookie) (\<lambda>rt. read_op (\<lambda>d. Inr (list_sessions (ev_now e) columns (u_id u) rt d))))"

definition delete_session where
  "delete_session e ctx cookie session_id =
     for_user ctx (\<lambda>u. bind_op (current_session e cookie u) (\<lambda>s. revoke_session (u_id u) session_id s))"

definition delete_other_sessions where
  "delete_other_sessions e ctx cookie =
     for_user ctx (\<lambda>u. bind_op (current_session e cookie u) (\<lambda>s. bind_op (revoke_other_sessions (u_id u) s) (\<lambda>n.
       return_op (show_nat n @ '' other sessions revoked.''))))"

definition enroll_totp_start_endpoint where
  "enroll_totp_start_endpoint e provisioning_uri qr_image ctx = for_user_sys ctx (enroll_totp_start e provisioning_uri qr_image)"

definition enroll_totp_confirm_endpoint where
  "enroll_totp_confirm_endpoint e ctx code = for_user_sys ctx (\<lambda>u. enroll_totp_confirm e u code)"

definition disable_totp_endpoint where
  "disable_totp_endpoint e ctx code = for_user ctx (\<lambda>u. disable_totp e u code)"

section \<open>Properties\<close>

text \<open>The order in which rows come back is a rearrangement of the rows.\<close>

definition order_law :: "(refresh_token list \<Rightarrow> refresh_token list) \<Rightarrow> bool" where
  "order_law order \<longleftrightarrow> (\<forall>rows. mset (order rows) = mset rows)"

lemma tl_short: "\<not> Suc 0 < length xs \<Longrightarrow> tl xs = []"
  by (cases xs) auto

lemma update_rows_none: "update_rows (\<lambda>_. False) f rows = rows"
  by (simp add: update_rows_def)

lemma change_password_Inr:
  assumes "change_password e order u old new d = (Inr (), d')"
  shows "sessions_tbl d' = sessions_tbl d" "users d' = update_rows (\<lambda>v. u_id v = u_id u) (\<lambda>v. v \<lparr> u_hashed_password := ev_hash_password e new \<rparr>) (users d)"
    "refresh_tokens_tbl d' = update_rows (\<lambda>rt. rt_id rt \<in> rt_id ` set (tl (order (filter (user_live (u_id u)) (refresh_tokens_tbl d)))))
      (\<lambda>rt. rt \<lparr> rt_revoked := True \<rparr>) (refresh_tokens_tbl d)"
  using assms
  by (auto simp: change_password_def check_password_def bind_op_Inr op_defs guard_op_def when_op_def write_user_def log_event_def tl_short
      update_rows_none split: list.splits if_splits)

lemma mset_at_most_one: "mset ys = mset (if b then [] else [x]) \<Longrightarrow> ys = (if b then [] else [x])"
  by (auto split: if_splits)

lemma live_after_revoking:
  assumes "mset xs = mset (filter (user_live uid) rows)" "distinct (map rt_id rows)"
  shows "filter (user_live uid) (update_rows (\<lambda>rt. rt_id rt \<in> rt_id ` set (tl xs)) (\<lambda>rt. rt \<lparr> rt_revoked := True \<rparr>) rows)
    = (if xs = [] then [] else [hd xs])"
proof -
  let ?P = "\<lambda>rt. rt_id rt \<notin> rt_id ` set (tl xs)"
  have *: "filter (user_live uid) (update_rows (\<lambda>rt. rt_id rt \<in> rt_id ` set (tl xs)) (\<lambda>rt. rt \<lparr> rt_revoked := True \<rparr>) rows)
      = filter ?P (filter (user_live uid) rows)"
    by (induction rows) (auto simp: user_live_def)
  have "distinct (map rt_id (filter (user_live uid) rows))" using assms(2) by (rule distinct_map_filter)
  moreover have "mset (map rt_id xs) = mset (map rt_id (filter (user_live uid) rows))" using assms(1) by simp
  ultimately have "distinct (map rt_id xs)" by (metis mset_eq_imp_distinct_iff)
  then have "filter ?P xs = (if xs = [] then [] else [hd xs])" by (cases xs) (auto simp: filter_empty_conv)
  moreover have "mset (filter ?P (filter (user_live uid) rows)) = filter_mset ?P (mset xs)" by (simp only: mset_filter assms(1))
  ultimately have "mset (filter ?P (filter (user_live uid) rows)) = mset (if xs = [] then [] else [hd xs])"
    by (simp only: mset_filter [symmetric])
  then show ?thesis unfolding * by (rule mset_at_most_one)
qed

text \<open>
  C31. A password change leaves one login of the user alive, whichever the database lists first, which need not be the one of the
  caller: of the live refresh tokens exactly this one stays live, all sessions stay, and the new password is set.
\<close>

theorem password_change_keeps_one_login:
  assumes "change_password e order u old new d = (Inr (), d')" "order_law order" "distinct (map rt_id (refresh_tokens_tbl d))"
  defines "live \<equiv> filter (user_live (u_id u)) (refresh_tokens_tbl d)"
  shows "filter (user_live (u_id u)) (refresh_tokens_tbl d') = (if live = [] then [] else [hd (order live)])
    \<and> (live \<noteq> [] \<longrightarrow> hd (order live) \<in> set live)
    \<and> sessions_tbl d' = sessions_tbl d
    \<and> (\<forall>v \<in> set (users d'). u_id v = u_id u \<longrightarrow> u_hashed_password v = ev_hash_password e new)"
proof -
  have order: "mset (order live) = mset live" using assms(2) by (simp add: order_law_def)
  then have empty: "order live = [] \<longleftrightarrow> live = []" and set: "set (order live) = set live"
    by (metis mset_zero_iff, metis set_mset_mset)
  have "filter (user_live (u_id u)) (refresh_tokens_tbl d') = (if order live = [] then [] else [hd (order live)])"
    unfolding change_password_Inr(3) [OF assms(1)] live_def [symmetric]
    by (rule live_after_revoking [OF order [unfolded live_def] assms(3), folded live_def])
  moreover have "hd (order live) \<in> set live" if "live \<noteq> []" using that empty set hd_in_set by blast
  ultimately show ?thesis using change_password_Inr(1,2) [OF assms(1)] empty by (auto simp: set_update_rows)
qed

text \<open>The key is configured, and Fernet decrypts what it encrypted.\<close>

definition fernet_law :: "env \<Rightarrow> bool" where
  "fernet_law e \<longleftrightarrow> ev_totp_key e \<and> (\<forall>x. ev_decrypt e (ev_encrypt e x) = x \<and> ev_encrypt e x \<noteq> [])"

lemma redis_get_after_setex:
  "redis_setex now k ttl v r = Inr r' \<Longrightarrow> now' < now + ttl \<Longrightarrow> redis_get now' k r' = Inr (Some v) \<and> rd_available r'"
  by (auto simp: redis_setex_def redis_get_def split: if_splits)

lemma redis_get_after_delete:
  assumes "rd_available r"
  obtains r' where "redis_delete k r = Inr r'" "redis_get now k r' = Inr None"
proof (rule that)
  let ?r = "r \<lparr> rd_keys := filter (\<lambda>(k', _). k' \<noteq> k) (rd_keys r) \<rparr>"
  show "redis_delete k r = Inr ?r" using assms by (simp add: redis_delete_def)
  have "filter (\<lambda>(k', v, t). k' = k \<and> now < t) (rd_keys ?r) = []" by (auto simp: filter_empty_conv)
  then show "redis_get now k ?r = Inr None" using assms by (simp add: redis_get_def)
qed

lemma enroll_totp_start_Inr:
  "enroll_totp_start e uri qr u (r, d) = (Inr te, (r1, d1)) \<Longrightarrow>
     d1 = d \<and> redis_setex (ev_now e) (pending_key (u_id u)) 300 (te_secret te) r = Inr r1"
  by (auto simp: enroll_totp_start_def Let_def bind_op_Inr op_defs redis_op_def split: sum.splits)

text \<open>
  C32. The enrolment of a second factor goes through to its use, when the encryption key is configured. After an enrolment was started, a code of its secret
  presented within five minutes confirms it: the account then requires a second factor, its stored secret decrypts to the one shown to
  the user, so that exactly the codes of this secret switch the factor off again, and the enrolment
  cannot be confirmed a second time.
\<close>

theorem totp_enrolment_round_trip:
  assumes start: "enroll_totp_start e uri qr u (r, d) = (Inr te, (r1, d1))"
    and row: "filter (\<lambda>v. u_id v = u_id u) (users d) = [u]"
    and now: "ev_now e \<le> ev_now e2" "ev_now e2 < ev_now e + 300" and secret: "te_secret te \<noteq> []"
    and code: "ev_totp e2 (te_secret te) code" and fernet: "fernet_law e2"
  shows "\<exists>codes r2 d2 u2. enroll_totp_confirm e2 u code (r1, d1) = (Inr codes, (r2, d2)) \<and> length codes = 8
    \<and> filter (\<lambda>v. u_id v = u_id u) (users d2) = [u2] \<and> u_totp_enabled u2
    \<and> (\<forall>code'. (\<exists>d3. disable_totp e2 u2 code' d2 = (Inr (), d3)) = ev_totp e2 (te_secret te) code')
    \<and> (\<forall>code'. fst (enroll_totp_confirm e2 u2 code' (r2, d2)) = Inl (ECLException ''TOTP_ENROLLMENT_EXPIRED'' 400))"
proof -
  let ?k = "pending_key (u_id u)" and ?s = "te_secret te"
  from enroll_totp_start_Inr [OF start] have set: "redis_setex (ev_now e) ?k 300 ?s r = Inr r1" and d1: "d1 = d" by simp_all
  then have get: "redis_get (ev_now e2) ?k r1 = Inr (Some ?s)" "rd_available r1"
    using redis_get_after_setex [OF set now(2)] by simp_all
  from get(2) obtain r2 where del: "redis_delete ?k r1 = Inr r2" "redis_get (ev_now e2) ?k r2 = Inr None"
    by (rule redis_get_after_delete)
  let ?f = "\<lambda>v. v \<lparr> u_totp_secret := Some (ev_encrypt e2 ?s), u_totp_enabled := True, u_backup_codes := Some (snd (generate_backup_codes e2)) \<rparr>"
  let ?d2 = "log_event ''mfa.totp.enrolled'' (Some (u_id u)) None True None (d \<lparr> users := update_rows (\<lambda>v. u_id v = u_id u) ?f (users d) \<rparr>)"
  have confirm: "enroll_totp_confirm e2 u code (r1, d1) = (Inr (fst (generate_backup_codes e2)), (r2, ?d2))"
    using get(1) secret code del(1) fernet [unfolded fernet_law_def]
    by (simp add: enroll_totp_confirm_def op_simps op_defs truthy_def case_prod_beta bind_op_def lift_db_def write_user_def redis_op_def d1)
  have "filter (\<lambda>v. u_id v = u_id u) (users ?d2) = [?f u]"
    using row by (simp add: log_event_def filter_update_rows_same)
  moreover have "length (fst (generate_backup_codes e2)) = 8" by (simp add: generate_backup_codes_def Let_def)
  moreover have "(\<exists>d3. disable_totp e2 (?f u) code' ?d2 = (Inr (), d3)) \<longleftrightarrow> ev_totp e2 ?s code'" for code'
    using fernet by (auto simp: disable_totp_def op_simps op_defs truthy_def fernet_law_def write_user_def)
  moreover have "fst (enroll_totp_confirm e2 (?f u) code' (r2, ?d2)) = Inl (ECLException ''TOTP_ENROLLMENT_EXPIRED'' 400)" for code'
    using del(2) by (simp add: enroll_totp_confirm_def op_simps op_defs truthy_def)
  ultimately show ?thesis using confirm
    by (intro exI [of _ "fst (generate_backup_codes e2)"] exI [of _ r2] exI [of _ ?d2] exI [of _ "?f u"] conjI allI) simp_all
qed

text \<open>Without the key no second factor is confirmed, switched off or checked: the request ends in an internal error and leaves no trace.\<close>

lemma second_factor_needs_key:
  assumes "\<not> ev_totp_key e"
  shows "fst (enroll_totp_confirm e u code s) \<noteq> Inr codes" "fst (disable_totp e u code d) \<noteq> Inr ()"
    "snd (with_db (disable_totp e u code) d) = d"
proof -
  show "fst (enroll_totp_confirm e u code s) \<noteq> Inr codes"
  proof
    assume "fst (enroll_totp_confirm e u code s) = Inr codes"
    then obtain s' where "enroll_totp_confirm e u code s = (Inr codes, s')" by (cases "enroll_totp_confirm e u code s") auto
    then show False using assms by (auto simp: enroll_totp_confirm_def bind_op_Inr op_defs guard_op_def split: if_splits)
  qed
  show "fst (disable_totp e u code d) \<noteq> Inr ()" "snd (with_db (disable_totp e u code) d) = d"
    using assms by (auto simp: disable_totp_def with_db_def op_simps op_defs guard_op_def bind_op_def)
qed

section \<open>Witnesses\<close>

definition sample_live_token :: "py_str \<Rightarrow> refresh_token" where
  "sample_live_token i = \<lparr> rt_id = i, rt_user = ''A'', rt_family = i, rt_hash = i, rt_revoked = False, rt_expires_at = 900, rt_last_used_at = None \<rparr>"

definition sample_account :: user where
  "sample_account = sample_admin \<lparr> u_hashed_password := ''h:old'' \<rparr>"

definition sample_account_db :: db where
  "sample_account_db = one_admin \<lparr> users := [sample_account], refresh_tokens_tbl := [sample_live_token ''1'', sample_live_token ''2''] \<rparr>"

text \<open>The database lists the later login first, and the first login is signed out.\<close>

theorem password_change_keeps_one_login_witness:
  "\<exists>d. change_password sample_env rev sample_account ''old'' ''swordfish9'' sample_account_db = (Inr (), d)
    \<and> filter (user_live ''A'') (refresh_tokens_tbl d) = [sample_live_token ''2'']"
proof -
  have "(case change_password sample_env rev sample_account ''old'' ''swordfish9'' sample_account_db of (Inr u, d) \<Rightarrow> True | _ \<Rightarrow> False)" by code_simp
  then obtain d where d: "change_password sample_env rev sample_account ''old'' ''swordfish9'' sample_account_db = (Inr (), d)"
    by (auto split: prod.splits sum.splits)
  have "filter (user_live ''A'') (refresh_tokens_tbl d) = [sample_live_token ''2'']"
    using password_change_keeps_one_login [OF d]
    by (simp add: order_law_def sample_account_db_def sample_account_def sample_admin_def sample_live_token_def user_live_def)
  with d show ?thesis by blast
qed

definition totp_env :: env where
  "totp_env = sample_env \<lparr> ev_totp := (\<lambda>secret code. code = secret), ev_encrypt := (\<lambda>x. CHR ''x'' # x), ev_decrypt := tl \<rparr>"

definition working_redis :: redis where
  "working_redis = \<lparr> rd_available = True, rd_keys = [] \<rparr>"

theorem totp_enrolment_round_trip_witness:
  "\<exists>te r1 codes r2 d2 u2. enroll_totp_start totp_env (\<lambda>_ _. []) (\<lambda>_. []) sample_account (working_redis, sample_account_db) = (Inr te, (r1, sample_account_db))
    \<and> enroll_totp_confirm totp_env sample_account ''raw0'' (r1, sample_account_db) = (Inr codes, (r2, d2))
    \<and> (\<exists>d3. disable_totp totp_env u2 ''raw0'' d2 = (Inr (), d3))"
proof -
  have "(case enroll_totp_start totp_env (\<lambda>_ _. []) (\<lambda>_. []) sample_account (working_redis, sample_account_db) of
      (Inr te, s) \<Rightarrow> te_secret te = ''raw0'' | _ \<Rightarrow> False)" by code_simp
  then obtain te r1 d1 where e: "enroll_totp_start totp_env (\<lambda>_ _. []) (\<lambda>_. []) sample_account (working_redis, sample_account_db) = (Inr te, (r1, d1))"
      "te_secret te = ''raw0''"
    by (auto split: prod.splits sum.splits)
  then have te: "enroll_totp_start totp_env (\<lambda>_ _. []) (\<lambda>_. []) sample_account (working_redis, sample_account_db) = (Inr te, (r1, sample_account_db))"
      "te_secret te = ''raw0''"
    using enroll_totp_start_Inr [OF e(1)] by simp_all
  have f: "fernet_law totp_env" by (simp add: fernet_law_def totp_env_def sample_env_def)
  have row: "filter (\<lambda>v. u_id v = u_id sample_account) (users sample_account_db) = [sample_account]"
    by (simp add: sample_account_db_def)
  have code: "ev_totp totp_env (te_secret te) ''raw0''" "te_secret te \<noteq> []" using te(2) by (simp_all add: totp_env_def)
  have now: "ev_now totp_env \<le> ev_now totp_env" "ev_now totp_env < ev_now totp_env + 300" by simp_all
  from totp_enrolment_round_trip [OF te(1) row now code(2,1) f] obtain codes r2 d2 u2 where
    c: "enroll_totp_confirm totp_env sample_account ''raw0'' (r1, sample_account_db) = (Inr codes, (r2, d2))"
      "\<forall>code'. (\<exists>d3. disable_totp totp_env u2 code' d2 = (Inr (), d3)) = ev_totp totp_env (te_secret te) code'"
    by (elim exE conjE) (rule that)
  then have "\<exists>d3. disable_totp totp_env u2 ''raw0'' d2 = (Inr (), d3)" using code(1) by blast
  with te(1) c(1) show ?thesis by blast
qed

end
