(* ===== verification/Platform.thy ===== *)
theory Platform
  imports Sessions
begin

text \<open>
  The console of the platform operator: \<^verbatim>\<open>app/modules/platform/service.py\<close> and
  \<^verbatim>\<open>app/modules/platform/router.py\<close>, with the workspaces, the users, impersonation, the engine versions
  and the overview. The health page of the same service is in theory \<open>Health\<close>.

  Days and months are those of the timestamp in UTC, the time zone of the server process. The columns of an
  audit entry which no code but the listings reads are the parameter \<open>columns\<close>, by the position of the entry in
  the append-only log. The validation of a response model belongs to pydantic and is a parameter
  with the law \<open>str_dict_law\<close>. The lemmas say who may use the console, what suspension and promotion of an
  engine version change, and that the status column keeps the values of its enumeration unless a patch writes another.
\<close>

section \<open>Days of a timestamp\<close>

definition day_of :: "timestamp \<Rightarrow> int" where
  "day_of t = t div 86400"

text \<open>The proleptic Gregorian date of a day number, counted in eras of 400 years from the first of March.\<close>

definition day_of_era_year :: "int \<Rightarrow> int" where
  "day_of_era_year doe =
     (let yoe = (doe - doe div 1460 + doe div 36524 - doe div 146096) div 365
      in doe - (365 * yoe + yoe div 4 - yoe div 100))"

definition year_of_era :: "int \<Rightarrow> int" where
  "year_of_era doe = (doe - doe div 1460 + doe div 36524 - doe div 146096) div 365"

definition month_slot :: "int \<Rightarrow> int" where
  "month_slot doy = (5 * doy + 2) div 153"

definition date_of_day :: "int \<Rightarrow> date" where
  "date_of_day n =
     (let z = n + 719468; era = z div 146097; doe = z mod 146097; doy = day_of_era_year doe; mp = month_slot doy;
          m = if mp < 10 then mp + 3 else mp - 9
      in Date (year_of_era doe + era * 400 + (if m \<le> 2 then 1 else 0)) m (doy - (153 * mp + 2) div 5 + 1))"

definition first_of_month :: "timestamp \<Rightarrow> timestamp" where
  "first_of_month now = (day_of now - (dy (date_of_day (day_of now)) - 1)) * 86400"

definition pad2 :: "int \<Rightarrow> py_str" where
  "pad2 n = (if n < 10 then CHR ''0'' # show_int n else show_int n)"

definition isoformat :: "int \<Rightarrow> py_str" where
  "isoformat n = (let d = date_of_day n in show_int (yr d) @ ''-'' @ pad2 (mo d) @ ''-'' @ pad2 (dy d))"

definition month_names :: "py_str list" where
  "month_names = [''Jan'', ''Feb'', ''Mar'', ''Apr'', ''May'', ''Jun'', ''Jul'', ''Aug'', ''Sep'', ''Oct'', ''Nov'', ''Dec'']"

text \<open>\<^verbatim>\<open>strftime("%b %d, %Y")\<close>.\<close>

definition long_date :: "timestamp \<Rightarrow> py_str" where
  "long_date t = (let d = date_of_day (day_of t) in month_names ! nat (mo d - 1) @ '' '' @ pad2 (dy d) @ '', '' @ show_int (yr d))"

section \<open>Workspaces\<close>

definition get_tenant_or_404 :: "py_str \<Rightarrow> (db, tenant) op" where
  "get_tenant_or_404 tenant_id = read_op (\<lambda>d. one_or_raise not_found (filter (live_tenant tenant_id) (tenants d)))"

definition finished_since :: "timestamp \<Rightarrow> run \<Rightarrow> bool" where
  "finished_since t r \<longleftrightarrow> (case r_finished_at r of None \<Rightarrow> False | Some f \<Rightarrow> t \<le> f)"

definition tenant_runs_this_month :: "timestamp \<Rightarrow> py_str \<Rightarrow> db \<Rightarrow> nat" where
  "tenant_runs_this_month now tenant_id d =
     length (filter (\<lambda>r. r_tenant r = tenant_id \<and> finished_since (first_of_month now) r \<and> r_deleted_at r = None) (runs_tbl d))"

record platform_tenant_out =
  pto_id :: py_str
  pto_name :: py_str
  pto_slug :: py_str
  pto_plan :: py_str
  pto_status :: py_str
  pto_created_at :: timestamp
  pto_mrr :: num
  pto_region :: "py_str option"
  pto_runs_count :: nat

definition platform_tenant_out_of :: "timestamp \<Rightarrow> db \<Rightarrow> tenant \<Rightarrow> platform_tenant_out" where
  "platform_tenant_out_of now d t =
     \<lparr> pto_id = t_id t, pto_name = t_name t, pto_slug = t_slug t, pto_plan = t_plan t, pto_status = t_status t,
       pto_created_at = t_created_at t, pto_mrr = of_int (t_mrr_cents t) / 100, pto_region = t_region t,
       pto_runs_count = tenant_runs_this_month now (t_id t) d \<rparr>"

definition list_platform_tenants :: "timestamp \<Rightarrow> nat \<Rightarrow> nat \<Rightarrow> py_str option \<Rightarrow> db \<Rightarrow> platform_tenant_out list \<times> page_meta" where
  "list_platform_tenants now page per_page status_filter d =
     (let q = sort_key (\<lambda>t. - t_created_at t) (filter (\<lambda>t. t_deleted_at t = None \<and> (truthy status_filter \<longrightarrow> Some (t_status t) = status_filter)) (tenants d))
      in case paginate q page per_page of (rows, meta) \<Rightarrow> (map (platform_tenant_out_of now d) rows, meta))"

record create_tenant_request =
  ctr_name :: py_str
  ctr_admin_email :: py_str
  ctr_admin_name :: py_str
  ctr_plan :: py_str
  ctr_region :: "py_str option"
  ctr_start_trial :: bool

definition provisioned_tenant :: "env \<Rightarrow> create_tenant_request \<Rightarrow> py_str \<Rightarrow> tenant" where
  "provisioned_tenant e body slug =
     (new_tenant e (ev_ulid e 1) (ctr_name body) slug) \<lparr> t_name := ctr_name body, t_plan := ctr_plan body,
       t_status := tenant_status_value (if ctr_start_trial body then TENANT_TRIAL else TENANT_ACTIVE), t_region := ctr_region body \<rparr>"

definition provisioned_user :: "env \<Rightarrow> create_tenant_request \<Rightarrow> user" where
  "provisioned_user e body =
     (new_user e (ev_ulid e 2) (ctr_admin_email body) (ctr_admin_name body) ''ChangeMe123!'' False) \<lparr> u_name := ctr_admin_name body \<rparr>"

definition create_platform_tenant :: "env \<Rightarrow> create_tenant_request \<Rightarrow> py_str \<Rightarrow> (db, py_str \<times> py_str) op" where
  "create_platform_tenant e body actor_user_id =
     bind_op (read_op (\<lambda>d. Inr (unique_slug (ev_ulid e 0) (ctr_name body) (map t_slug (tenants d))))) (\<lambda>slug.
     let t = provisioned_tenant e body slug; u = provisioned_user e body;
         m = new_membership e (ev_ulid e 3) (u_id u) (t_id t) (role_value ADMINISTRATOR) in
     bind_op (read_op (\<lambda>d. Inr (list_ex (\<lambda>v. u_email v = u_email u \<and> u_deleted_at v = None) (users d)))) (\<lambda>taken.
     bind_op (guard_op (\<not> taken) (IntegrityError ''users_email_active_idx'')) (\<lambda>_.
     bind_op (modify_op (\<lambda>d. d \<lparr> tenants := tenants d @ [t], users := users d @ [u], members := members d @ [m] \<rparr>)) (\<lambda>_.
     bind_op (modify_op (log_event ''platform.tenant.provisioned'' (Some actor_user_id) None True None)) (\<lambda>_.
     return_op (t_id t, u_id u))))))"

text \<open>An update of the row a service function has loaded.\<close>

definition write_workspace :: "py_str \<Rightarrow> (tenant \<Rightarrow> tenant) \<Rightarrow> (db, unit) op" where
  "write_workspace tenant_id f = modify_op (\<lambda>d. d \<lparr> tenants := update_rows (live_tenant tenant_id) f (tenants d) \<rparr>)"

record patch_tenant_request =
  ptr_name :: "py_str option"
  ptr_plan :: "py_str option"
  ptr_status :: "py_str option"

definition patch_platform_tenant :: "py_str \<Rightarrow> patch_tenant_request \<Rightarrow> (db, unit) op" where
  "patch_platform_tenant tenant_id body =
     bind_op (get_tenant_or_404 tenant_id) (\<lambda>_.
     write_workspace tenant_id (\<lambda>t. t \<lparr> t_name := or_keep (ptr_name body) (t_name t), t_plan := or_keep (ptr_plan body) (t_plan t),
       t_status := or_keep (ptr_status body) (t_status t) \<rparr>))"

definition suspend_tenant :: "py_str \<Rightarrow> py_str \<Rightarrow> (db, unit) op" where
  "suspend_tenant tenant_id actor_user_id =
     bind_op (get_tenant_or_404 tenant_id) (\<lambda>t.
     bind_op (guard_op (t_status t \<noteq> tenant_status_value TENANT_SUSPENDED) AlreadySuspendedError) (\<lambda>_.
     bind_op (write_workspace tenant_id (\<lambda>t. t \<lparr> t_status := tenant_status_value TENANT_SUSPENDED \<rparr>)) (\<lambda>_.
     modify_op (log_event ''platform.tenant.suspended'' (Some actor_user_id) None True None))))"

definition reactivate_tenant :: "py_str \<Rightarrow> py_str \<Rightarrow> (db, unit) op" where
  "reactivate_tenant tenant_id actor_user_id =
     bind_op (get_tenant_or_404 tenant_id) (\<lambda>t.
     bind_op (guard_op (t_status t = tenant_status_value TENANT_SUSPENDED) NotSuspendedError) (\<lambda>_.
     bind_op (write_workspace tenant_id (\<lambda>t. t \<lparr> t_status := tenant_status_value TENANT_ACTIVE \<rparr>)) (\<lambda>_.
     modify_op (log_event ''platform.tenant.reactivated'' (Some actor_user_id) None True None))))"

definition extend_trial :: "py_str \<Rightarrow> py_str \<Rightarrow> int \<Rightarrow> (db, unit) op" where
  "extend_trial tenant_id actor_user_id days =
     bind_op (guard_op (1 \<le> days \<and> days \<le> 90) (ECLException ''INVALID_DAYS'' 400)) (\<lambda>_.
     bind_op (get_tenant_or_404 tenant_id) (\<lambda>_.
     modify_op (log_event ''platform.tenant.trial_extended'' (Some actor_user_id) None True None)))"

section \<open>Users\<close>

record platform_user_out =
  puo_id :: py_str
  puo_name :: py_str
  puo_email :: py_str
  puo_is_active :: bool
  puo_is_platform_admin :: bool
  puo_last_login_at :: "timestamp option"
  puo_tenant_name :: "py_str option"
  puo_role :: "py_str option"
  puo_last_active_at :: "timestamp option"

text \<open>The membership a user joined last, with its workspace.\<close>

definition latest_membership :: "py_str \<Rightarrow> db \<Rightarrow> (membership \<times> tenant) option" where
  "latest_membership user_id d =
     (case sort_key (\<lambda>(m, t). - m_joined_at m) (concat (map (\<lambda>m. map (Pair m) (filter (\<lambda>t. t_id t = m_tenant m) (tenants d)))
         (filter (\<lambda>m. m_user m = user_id \<and> m_status m = member_status_value MEMBER_ACTIVE) (members d)))) of
        [] \<Rightarrow> None | row # _ \<Rightarrow> Some row)"

definition platform_user_out_of :: "db \<Rightarrow> user \<Rightarrow> platform_user_out" where
  "platform_user_out_of d u =
     (let row = latest_membership (u_id u) d in
      \<lparr> puo_id = u_id u, puo_name = u_name u, puo_email = u_email u, puo_is_active = u_is_active u,
        puo_is_platform_admin = u_is_platform_admin u, puo_last_login_at = u_last_login_at u,
        puo_tenant_name = map_option (\<lambda>(m, t). t_name t) row, puo_role = map_option (\<lambda>(m, t). m_role m) row,
        puo_last_active_at = last_active (u_id u) d \<rparr>)"

definition list_platform_users :: "nat \<Rightarrow> nat \<Rightarrow> db \<Rightarrow> platform_user_out list \<times> page_meta" where
  "list_platform_users page per_page d =
     (case paginate (rev (filter (\<lambda>u. u_deleted_at u = None) (users d))) page per_page of
        (rows, meta) \<Rightarrow> (map (platform_user_out_of d) rows, meta))"

definition patch_platform_user :: "py_str \<Rightarrow> bool option \<Rightarrow> (db, unit) op" where
  "patch_platform_user user_id is_active =
     bind_op (read_op (\<lambda>d. one_or_raise not_found (filter (\<lambda>u. u_id u = user_id) (users d)))) (\<lambda>_.
     case is_active of None \<Rightarrow> return_op () | Some b \<Rightarrow> write_user user_id (\<lambda>u. u \<lparr> u_is_active := b \<rparr>))"

section \<open>Impersonation\<close>

definition active_for :: "py_str \<Rightarrow> impersonation_session \<Rightarrow> bool" where
  "active_for platform_user_id s \<longleftrightarrow> im_platform_user s = platform_user_id \<and> im_is_active s"

definition end_session :: "timestamp \<Rightarrow> impersonation_session \<Rightarrow> impersonation_session" where
  "end_session now s = s \<lparr> im_is_active := False, im_ended_at := Some now \<rparr>"

definition start_impersonation :: "env \<Rightarrow> py_str \<Rightarrow> py_str \<Rightarrow> (db, impersonation_session) op" where
  "start_impersonation e platform_user_id target_tenant_id =
     bind_op (get_tenant_or_404 target_tenant_id) (\<lambda>_.
     let imp = \<lparr> im_id = ev_ulid e 0, im_platform_user = platform_user_id, im_target_tenant = target_tenant_id,
                 im_ended_at = None, im_is_active = True \<rparr> in
     bind_op (modify_op (\<lambda>d. d \<lparr> impersonations_tbl :=
       update_rows (active_for platform_user_id) (end_session (ev_now e)) (impersonations_tbl d) @ [imp] \<rparr>)) (\<lambda>_.
     bind_op (modify_op (log_event ''platform.impersonation.started'' (Some platform_user_id) None True None)) (\<lambda>_.
     return_op imp)))"

definition end_impersonation :: "env \<Rightarrow> py_str \<Rightarrow> py_str \<Rightarrow> (db, unit) op" where
  "end_impersonation e platform_user_id target_tenant_id =
     (let P = (\<lambda>s. active_for platform_user_id s \<and> im_target_tenant s = target_tenant_id) in
      bind_op (read_op (\<lambda>d. scalar_one_or_none (filter P (impersonations_tbl d)))) (\<lambda>imp.
      bind_op (when_op (imp \<noteq> None) (modify_op (\<lambda>d. d \<lparr> impersonations_tbl := update_rows P (end_session (ev_now e)) (impersonations_tbl d) \<rparr>))) (\<lambda>_.
      modify_op (log_event ''platform.impersonation.ended'' (Some platform_user_id) None True None))))"

section \<open>Engine versions\<close>

record engine_version_out =
  evo_version :: engine_version
  evo_tenants_pinned :: nat

definition list_engine_versions :: "db \<Rightarrow> engine_version_out list \<times> nat" where
  "list_engine_versions d =
     (let out = map (\<lambda>v. \<lparr> evo_version = v, evo_tenants_pinned =
                  length (filter (\<lambda>t. t_engine_version_pin t = Some (en_version v) \<and> t_deleted_at t = None) (tenants d)) \<rparr>)
                (rev (engine_versions_tbl d))
      in (out, length out))"

definition set_current :: "py_str \<Rightarrow> bool \<Rightarrow> (db, unit) op" where
  "set_current version_id b =
     modify_op (\<lambda>d. d \<lparr> engine_versions_tbl := update_rows (\<lambda>v. en_id v = version_id) (\<lambda>v. v \<lparr> en_is_current := b \<rparr>) (engine_versions_tbl d) \<rparr>)"

definition promote_engine_version :: "py_str \<Rightarrow> py_str \<Rightarrow> (db, unit) op" where
  "promote_engine_version version actor_user_id =
     bind_op (read_op (\<lambda>d. one_or_raise (ECLException ''ENGINE_VERSION_NOT_FOUND'' 404)
       (filter (\<lambda>v. en_version v = version) (engine_versions_tbl d)))) (\<lambda>target.
     bind_op (read_op (\<lambda>d. scalar_one_or_none (filter en_is_current (engine_versions_tbl d)))) (\<lambda>old_current.
     bind_op (case old_current of None \<Rightarrow> return_op () | Some old \<Rightarrow> when_op (en_id old \<noteq> en_id target) (set_current (en_id old) False)) (\<lambda>_.
     bind_op (set_current (en_id target) True) (\<lambda>_.
     modify_op (log_event ''platform.engine.promoted'' (Some actor_user_id) None True None)))))"

section \<open>Overview\<close>

record audit_columns =
  ac_id :: py_str
  ac_details :: "py_str option"
  ac_ip_hash :: "py_str option"
  ac_created_at :: timestamp

text \<open>The entries of the audit log with their other columns, the newest first.\<close>

definition audit_rows :: "(nat \<Rightarrow> audit_columns) \<Rightarrow> db \<Rightarrow> (audit_log \<times> audit_columns) list" where
  "audit_rows columns d =
     sort_key (\<lambda>(a, c). - ac_created_at c) (map (\<lambda>(i, a). (a, columns i)) (enumerate 0 (audit_logs d)))"

record platform_kpis =
  pk_total :: nat
  pk_active :: nat
  pk_trial :: nat
  pk_suspended :: nat
  pk_runs_this_month :: nat
  pk_runs_today :: nat
  pk_mrr_usd :: num

record platform_overview =
  pv_kpis :: platform_kpis
  pv_uptime :: py_str
  pv_trend :: "(py_str \<times> nat) list"
  pv_trial :: nat
  pv_starter :: nat
  pv_growth :: nat
  pv_enterprise :: nat
  pv_recent_audit :: "(audit_log \<times> audit_columns) list"

definition live_tenants :: "db \<Rightarrow> tenant list" where
  "live_tenants d = filter (\<lambda>t. t_deleted_at t = None) (tenants d)"

definition count_status :: "db \<Rightarrow> tenant_status \<Rightarrow> nat" where
  "count_status d s = length (filter (\<lambda>t. t_status t = tenant_status_value s) (live_tenants d))"

definition count_plan :: "db \<Rightarrow> py_str \<Rightarrow> nat" where
  "count_plan d plan = length (filter (\<lambda>t. t_plan t = plan) (live_tenants d))"

definition tenant_kpis :: "timestamp \<Rightarrow> db \<Rightarrow> platform_kpis" where
  "tenant_kpis now d =
     \<lparr> pk_total = length (live_tenants d), pk_active = count_status d TENANT_ACTIVE, pk_trial = count_status d TENANT_TRIAL,
       pk_suspended = count_status d TENANT_SUSPENDED,
       pk_runs_this_month = length (filter (\<lambda>r. first_of_month now \<le> r_created_at r \<and> r_deleted_at r = None) (runs_tbl d)),
       pk_runs_today = length (filter (\<lambda>r. day_of (r_created_at r) = day_of now \<and> r_deleted_at r = None) (runs_tbl d)),
       pk_mrr_usd = of_int (sum_list (map t_mrr_cents (live_tenants d))) / 100 \<rparr>"

text \<open>The days on which runs completed in the last fourteen days, and the points shown: one for each of the
  fourteen days up to today.\<close>

definition completed_days :: "timestamp \<Rightarrow> db \<Rightarrow> int list" where
  "completed_days now d =
     map (\<lambda>r. day_of (the (r_finished_at r)))
       (filter (\<lambda>r. r_status r = COMPLETE \<and> finished_since (now - 14 * 86400) r \<and> r_deleted_at r = None) (runs_tbl d))"

definition trend_14d :: "timestamp \<Rightarrow> db \<Rightarrow> (py_str \<times> nat) list" where
  "trend_14d now d =
     map (\<lambda>i. let day = day_of now - int i in (isoformat day, length (filter (\<lambda>x. x = day) (completed_days now d)))) (rev [0..<14])"

definition get_platform_overview :: "(nat \<Rightarrow> audit_columns) \<Rightarrow> timestamp \<Rightarrow> db \<Rightarrow> platform_overview" where
  "get_platform_overview columns now d =
     \<lparr> pv_kpis = tenant_kpis now d, pv_uptime = ''99.98%'', pv_trend = trend_14d now d, pv_trial = count_plan d ''trial'',
       pv_starter = count_plan d ''starter'', pv_growth = count_plan d ''growth'', pv_enterprise = count_plan d ''enterprise'',
       pv_recent_audit = take 4 (audit_rows columns d) \<rparr>"

section \<open>Detail of a workspace\<close>

record admin_summary =
  as_id :: py_str
  as_name :: py_str
  as_email :: py_str
  as_initials :: py_str

record tenant_detail =
  td_tenant :: tenant
  td_mark :: py_str
  td_users_count :: nat
  td_runs_this_month :: nat
  td_mrr :: num
  td_admins :: "admin_summary list"
  td_status_note :: py_str

text \<open>The end of the last completed run; a database sorts an empty column first in descending order.\<close>

definition last_run :: "py_str \<Rightarrow> db \<Rightarrow> timestamp option" where
  "last_run tenant_id d =
     (let ends = map r_finished_at (filter (\<lambda>r. r_tenant r = tenant_id \<and> r_status r = COMPLETE \<and> r_deleted_at r = None) (runs_tbl d))
      in if None \<in> set ends then None else case map the ends of [] \<Rightarrow> None | t # ts \<Rightarrow> Some (fold max ts t))"

definition closed_on :: "tenant \<Rightarrow> py_str" where
  "closed_on t = (case t_close_requested_at t of None \<Rightarrow> ''unknown date'' | Some c \<Rightarrow> long_date c)"

definition status_note :: "timestamp \<Rightarrow> db \<Rightarrow> tenant \<Rightarrow> py_str" where
  "status_note now d t =
     (if t_status t = tenant_status_value TENANT_TRIAL then
        ''Trial ends in '' @ show_int (max 0 (14 - (day_of now - day_of (t_created_at t)))) @ '' days.''
      else if t_status t = tenant_status_value TENANT_ACTIVE then
        ''Healthy. Last run '' @ (case last_run (t_id t) d of None \<Rightarrow> ''never'' | Some f \<Rightarrow> relative_time now f) @ ''.''
      else if t_status t = tenant_status_value TENANT_SUSPENDED then ''Suspended on '' @ closed_on t @ ''. Data retained per policy.''
      else if t_status t = tenant_status_value TENANT_CLOSING then ''Closure requested on '' @ closed_on t @ ''.''
      else ''Status: '' @ t_status t @ ''.'')"

text \<open>The administrators of a workspace in the order \<open>order\<close> of the database, at most five.\<close>

definition tenant_admins :: "((membership \<times> user) list \<Rightarrow> (membership \<times> user) list) \<Rightarrow> py_str \<Rightarrow> db \<Rightarrow> admin_summary list" where
  "tenant_admins order tenant_id d =
     map (\<lambda>(_, u). \<lparr> as_id = u_id u, as_name = u_name u, as_email = u_email u, as_initials = user_initials (u_name u) \<rparr>)
       (take 5 (order (concat (map (\<lambda>m. map (Pair m) (filter (\<lambda>u. u_id u = m_user m) (users d)))
         (filter (active_admin tenant_id) (members d))))))"

definition get_tenant_detail :: "((membership \<times> user) list \<Rightarrow> (membership \<times> user) list) \<Rightarrow> timestamp \<Rightarrow> py_str \<Rightarrow> (db, tenant_detail) op" where
  "get_tenant_detail order now tenant_id =
     bind_op (get_tenant_or_404 tenant_id) (\<lambda>t.
     read_op (\<lambda>d. Inr \<lparr> td_tenant = t, td_mark = (if t_name t = '''' then ''?'' else py_upper [hd (t_name t)]),
       td_users_count = length (filter (\<lambda>m. m_tenant m = tenant_id \<and> m_status m = member_status_value MEMBER_ACTIVE) (members d)),
       td_runs_this_month = tenant_runs_this_month now tenant_id d, td_mrr = of_int (t_mrr_cents t) / 100,
       td_admins = tenant_admins order tenant_id d, td_status_note = status_note now d t \<rparr>))"

section \<open>Endpoints\<close>

text \<open>The dependency \<^verbatim>\<open>PlatformAdmin\<close> in front of a service call.\<close>

definition platform_gated :: "auth_ctx \<Rightarrow> (user \<Rightarrow> (db, 'a) op) \<Rightarrow> (db, 'a) op" where
  "platform_gated ctx f = for_user ctx (\<lambda>u. bind_op (read_op (\<lambda>_. require_platform_admin u)) f)"

definition platform_overview_endpoint where
  "platform_overview_endpoint columns ctx = platform_gated ctx (\<lambda>_. read_op (\<lambda>d. Inr (get_platform_overview columns (ax_now ctx) d)))"

definition list_platform_tenants_endpoint where
  "list_platform_tenants_endpoint ctx page per_page status_filter =
     platform_gated ctx (\<lambda>_. read_op (\<lambda>d. Inr (list_platform_tenants (ax_now ctx) page per_page status_filter d)))"

definition create_platform_tenant_endpoint where
  "create_platform_tenant_endpoint e ctx body = platform_gated ctx (\<lambda>admin. create_platform_tenant e body (u_id admin))"

definition get_tenant_detail_endpoint where
  "get_tenant_detail_endpoint order ctx tenant_id = platform_gated ctx (\<lambda>_. get_tenant_detail order (ax_now ctx) tenant_id)"

definition patch_platform_tenant_endpoint where
  "patch_platform_tenant_endpoint ctx tenant_id body = platform_gated ctx (\<lambda>_. patch_platform_tenant tenant_id body)"

definition suspend_tenant_endpoint where
  "suspend_tenant_endpoint ctx tenant_id = platform_gated ctx (\<lambda>admin. suspend_tenant tenant_id (u_id admin))"

definition reactivate_tenant_endpoint where
  "reactivate_tenant_endpoint ctx tenant_id = platform_gated ctx (\<lambda>admin. reactivate_tenant tenant_id (u_id admin))"

definition extend_trial_endpoint where
  "extend_trial_endpoint ctx tenant_id days = platform_gated ctx (\<lambda>admin. extend_trial tenant_id (u_id admin) days)"

text \<open>
  The response of the impersonation endpoint is a dictionary from strings to strings, validated by pydantic; the
  entries passed to it are strings and the lifetime of the token, an integer.
\<close>

datatype json_scalar = JString py_str | JInteger int

type_synonym str_dict_validator = "(py_str \<times> json_scalar) list \<Rightarrow> (py_str \<times> py_str) list result"

definition start_impersonation_endpoint :: "env \<Rightarrow> str_dict_validator \<Rightarrow> auth_ctx \<Rightarrow> py_str \<Rightarrow> (db, (py_str \<times> py_str) list) op" where
  "start_impersonation_endpoint e validate ctx tenant_id =
     platform_gated ctx (\<lambda>admin.
     bind_op (start_impersonation e (u_id admin) tenant_id) (\<lambda>imp.
     bind_op (read_op (\<lambda>d. scalar_one (filter (\<lambda>t. t_id t = tenant_id) (tenants d)))) (\<lambda>t.
     bind_op (guard_op (ev_jwt_keys e) internal_error) (\<lambda>_.
     let access = ev_encode e \<lparr> cl_sub = u_id admin, cl_type = None, cl_jti = Some (ev_ulid e 1),
           cl_exp = ev_now e + ev_access_minutes e * 60, cl_tenant = Some tenant_id, cl_role = Some (role_value ADMINISTRATOR) \<rparr> in
     read_op (\<lambda>_. validate [(''impersonation_id'', JString (im_id imp)), (''access_token'', JString access),
       (''tenant_id'', JString tenant_id), (''tenant_name'', JString (t_name t)), (''expires_in'', JInteger (ev_access_minutes e * 60))])))))"

definition end_impersonation_endpoint where
  "end_impersonation_endpoint e ctx tenant_id = platform_gated ctx (\<lambda>admin. end_impersonation e (u_id admin) tenant_id)"

definition list_platform_users_endpoint where
  "list_platform_users_endpoint ctx page per_page = platform_gated ctx (\<lambda>_. read_op (\<lambda>d. Inr (list_platform_users page per_page d)))"

definition patch_platform_user_endpoint where
  "patch_platform_user_endpoint ctx user_id is_active = platform_gated ctx (\<lambda>_. patch_platform_user user_id is_active)"

definition list_engine_versions_endpoint where
  "list_engine_versions_endpoint ctx = platform_gated ctx (\<lambda>_. read_op (\<lambda>d. Inr (list_engine_versions d)))"

definition promote_engine_version_endpoint where
  "promote_engine_version_endpoint ctx version = platform_gated ctx (\<lambda>admin. promote_engine_version version (u_id admin))"

section \<open>Requests\<close>

datatype platform_request =
    CreateTenant create_tenant_request
  | PatchTenant py_str patch_tenant_request
  | SuspendTenant py_str
  | ReactivateTenant py_str
  | ExtendTrial py_str int
  | StartImpersonation py_str
  | EndImpersonation py_str
  | PatchUser py_str "bool option"
  | PromoteEngine py_str

definition ignore_result :: "('s, 'a) op \<Rightarrow> ('s, unit) op" where
  "ignore_result m = bind_op m (\<lambda>_. return_op ())"

fun platform_request_op :: "env \<Rightarrow> str_dict_validator \<Rightarrow> auth_ctx \<Rightarrow> platform_request \<Rightarrow> (db, unit) op" where
  "platform_request_op e v ctx (CreateTenant body) = ignore_result (create_platform_tenant_endpoint e ctx body)"
| "platform_request_op e v ctx (PatchTenant t body) = patch_platform_tenant_endpoint ctx t body"
| "platform_request_op e v ctx (SuspendTenant t) = suspend_tenant_endpoint ctx t"
| "platform_request_op e v ctx (ReactivateTenant t) = reactivate_tenant_endpoint ctx t"
| "platform_request_op e v ctx (ExtendTrial t days) = extend_trial_endpoint ctx t days"
| "platform_request_op e v ctx (StartImpersonation t) = ignore_result (start_impersonation_endpoint e v ctx t)"
| "platform_request_op e v ctx (EndImpersonation t) = end_impersonation_endpoint e ctx t"
| "platform_request_op e v ctx (PatchUser u b) = patch_platform_user_endpoint ctx u b"
| "platform_request_op e v ctx (PromoteEngine ver) = promote_engine_version_endpoint ctx ver"

lemmas platform_endpoint_defs =
  create_platform_tenant_endpoint_def patch_platform_tenant_endpoint_def suspend_tenant_endpoint_def
  reactivate_tenant_endpoint_def extend_trial_endpoint_def start_impersonation_endpoint_def
  end_impersonation_endpoint_def patch_platform_user_endpoint_def promote_engine_version_endpoint_def

lemma ignore_result_Inr: "ignore_result m s = (Inr (), s') \<longleftrightarrow> (\<exists>x. m s = (Inr x, s'))"
  by (auto simp: ignore_result_def bind_op_Inr op_defs)

lemma platform_gated_Inr:
  "platform_gated ctx f d = (Inr x, d') \<longleftrightarrow>
     (\<exists>u. get_current_user (ax_decode ctx) (ax_redis ctx) (ax_now ctx) (ax_creds ctx) d = Inr u \<and> u_is_platform_admin u
        \<and> f u d = (Inr x, d'))"
  by (auto simp: platform_gated_def for_user_def current_user_def bind_op_Inr op_defs require_platform_admin_def split: if_splits)

text \<open>Whoever changes anything through the console is a live and active platform administrator.\<close>

lemma platform_requests_need_platform_admin:
  assumes "snd (with_db (platform_request_op e v ctx req) d) \<noteq> d"
  shows "\<exists>u \<in> set (users d). get_current_user (ax_decode ctx) (ax_redis ctx) (ax_now ctx) (ax_creds ctx) d = Inr u
    \<and> u_is_active u \<and> u_deleted_at u = None \<and> u_is_platform_admin u"
proof -
  obtain d' where "platform_request_op e v ctx req d = (Inr (), d')"
    using assms by (cases "platform_request_op e v ctx req d") (auto simp: with_db_def split: sum.splits)
  then obtain u where "get_current_user (ax_decode ctx) (ax_redis ctx) (ax_now ctx) (ax_creds ctx) d = Inr u" "u_is_platform_admin u"
    by (cases req) (auto simp: platform_endpoint_defs platform_gated_Inr ignore_result_Inr)
  then show ?thesis using get_current_user_Inr by (intro bexI [of _ u]) auto
qed

lemma keeps_platform_gated [keeps_rules]: "(\<And>u. keeps I (f u)) \<Longrightarrow> keeps I (platform_gated ctx f)"
  unfolding platform_gated_def for_user_def current_user_def by (intro keeps_rules)

lemma keeps_ignore_result [keeps_rules]: "keeps I m \<Longrightarrow> keeps I (ignore_result m)"
  unfolding ignore_result_def by (intro keeps_rules)

section \<open>The engine version in use\<close>

definition engine_current :: "db \<Rightarrow> engine_version list" where
  "engine_current d = filter en_is_current (engine_versions_tbl d)"

text \<open>The keys of the table.\<close>

definition wf_engine_versions :: "db \<Rightarrow> bool" where
  "wf_engine_versions d \<longleftrightarrow> distinct (map en_id (engine_versions_tbl d)) \<and> distinct (map en_version (engine_versions_tbl d))"

lemma filter_distinct_key:
  assumes "distinct (map k xs)" "x \<in> set xs" shows "filter (\<lambda>y. k y = k x) xs = [x]"
proof -
  have "filter (\<lambda>y. k y = k x) xs = filter (\<lambda>y. y = x) xs"
    using assms by (intro filter_cong) (auto simp: distinct_map inj_on_def)
  also have "\<dots> = [x]"
    using assms by (induction xs) (auto simp: filter_empty_conv)
  finally show ?thesis .
qed

definition promoted :: "engine_version \<Rightarrow> engine_version option \<Rightarrow> engine_version list \<Rightarrow> engine_version list" where
  "promoted target old rows =
     update_rows (\<lambda>v. en_id v = en_id target) (\<lambda>v. v \<lparr> en_is_current := True \<rparr>)
       (case old of None \<Rightarrow> rows
        | Some v \<Rightarrow> if en_id v = en_id target then rows else update_rows (\<lambda>w. en_id w = en_id v) (\<lambda>w. w \<lparr> en_is_current := False \<rparr>) rows)"

lemma promote_engine_version_eq:
  assumes "filter (\<lambda>v. en_version v = version) (engine_versions_tbl d) = [target]" "scalar_one_or_none (engine_current d) = Inr old"
  shows "promote_engine_version version actor d =
    (Inr (), log_event ''platform.engine.promoted'' (Some actor) None True None
       (d \<lparr> engine_versions_tbl := promoted target old (engine_versions_tbl d) \<rparr>))"
proof (cases old)
  case None
  then show ?thesis using assms
    by (simp add: promote_engine_version_def set_current_def engine_current_def promoted_def op_simps modify_op_def)
next
  case (Some v)
  then show ?thesis using assms
    by (cases "en_id v = en_id target")
      (simp_all add: promote_engine_version_def set_current_def engine_current_def promoted_def op_simps modify_op_def)
qed

lemma promote_engine_version_ok:
  assumes "promote_engine_version version actor d = (Inr (), d')"
  obtains target old where "filter (\<lambda>v. en_version v = version) (engine_versions_tbl d) = [target]"
    "scalar_one_or_none (engine_current d) = Inr old"
  using assms
  by (cases "scalar_one_or_none (engine_current d)")
    (auto simp: promote_engine_version_def bind_op_read engine_current_def split: sum.splits)

lemma promoted_keys [simp]:
  "map en_id (promoted target old rows) = map en_id rows" "map en_version (promoted target old rows) = map en_version rows"
  by (simp_all add: promoted_def map_update_rows split: option.split)

lemma promoted_current:
  assumes "distinct (map en_id rows)" "target \<in> set rows" "scalar_one_or_none (filter en_is_current rows) = Inr old"
  shows "filter en_is_current (promoted target old rows) = [target \<lparr> en_is_current := True \<rparr>]"
proof -
  have same: "v = target" if "v \<in> set rows" "en_id v = en_id target" for v
    using assms(1,2) that by (auto simp: distinct_map inj_on_def)
  have only: "Some v = old" if "v \<in> set rows" "en_is_current v" for v
    using assms(3) that by (auto simp: scalar_one_or_none_def filter_eq_Cons_iff filter_empty_conv split: list.splits)
  define g where "g v = (if en_id v = en_id target then v \<lparr> en_is_current := True \<rparr>
    else case old of None \<Rightarrow> v | Some w \<Rightarrow> if en_id v = en_id w then v \<lparr> en_is_current := False \<rparr> else v)" for v :: engine_version
  have "promoted target old rows = map g rows"
    by (cases old) (auto simp: promoted_def update_rows_def g_def)
  moreover have "en_is_current (g v) \<longleftrightarrow> v = target" if "v \<in> set rows" for v
    using same [OF that] only [OF that] by (cases "en_id v = en_id target") (auto simp: g_def split: option.split)
  then have "filter (en_is_current \<circ> g) rows = filter (\<lambda>v. v = target) rows" by (auto intro!: filter_cong)
  moreover have "filter (\<lambda>v. v = target) rows = [target]"
    using filter_distinct_key [OF assms(1,2)] same assms(2) by (metis (mono_tags, lifting) filter_cong)
  ultimately show ?thesis by (simp add: filter_map g_def)
qed

text \<open>
  The engine version in use. Versions have distinct identifiers and distinct numbers and at most one of
  them is in use. A successful promotion of a version leaves exactly that version in use, changes no other
  column of the table and adds one entry to the audit log; a promotion of a number the table does not hold
  is refused with 404 and changes nothing. No promotion changes the workspaces or the runs.
\<close>

lemma promotion_leaves_one_current:
  assumes "wf_engine_versions d" "length (engine_current d) \<le> 1"
  shows "if version \<in> en_version ` set (engine_versions_tbl d)
    then (\<exists>d' v. with_db (promote_engine_version version actor) d = (Inr (), d') \<and> engine_current d' = [v] \<and> en_version v = version
      \<and> wf_engine_versions d' \<and> map en_version (engine_versions_tbl d') = map en_version (engine_versions_tbl d)
      \<and> length (audit_logs d') = length (audit_logs d) + 1 \<and> tenants d' = tenants d \<and> runs_tbl d' = runs_tbl d)
    else with_db (promote_engine_version version actor) d = (Inl (ECLException ''ENGINE_VERSION_NOT_FOUND'' 404), d)"
proof (cases "version \<in> en_version ` set (engine_versions_tbl d)")
  case True
  then obtain target where t: "target \<in> set (engine_versions_tbl d)" "en_version target = version" by auto
  then have "filter (\<lambda>v. en_version v = version) (engine_versions_tbl d) = [target]"
    using assms(1) filter_distinct_key [of en_version "engine_versions_tbl d" target] by (simp add: wf_engine_versions_def)
  moreover obtain old where old: "scalar_one_or_none (engine_current d) = Inr old"
    using assms(2) by (cases "scalar_one_or_none (engine_current d)") (auto simp: scalar_one_or_none_cases)
  ultimately show ?thesis
    using True t promoted_current [OF _ t(1) old [unfolded engine_current_def]] assms(1)
    by (simp add: promote_engine_version_eq with_db_def engine_current_def log_event_def wf_engine_versions_def)
next
  case False
  then have "filter (\<lambda>v. en_version v = version) (engine_versions_tbl d) = []" by (auto simp: filter_empty_conv)
  then show ?thesis using False by (simp add: promote_engine_version_def bind_op_read with_db_def)
qed

definition sample_versions :: db where
  "sample_versions = empty_db \<lparr> engine_versions_tbl :=
     [\<lparr> en_id = ''e1'', en_version = ''v1.0.0'', en_is_current = True, en_release_date = ''2024-01-01'', en_changelog = [] \<rparr>,
      \<lparr> en_id = ''e2'', en_version = ''v2.0.0'', en_is_current = False, en_release_date = ''2025-01-01'', en_changelog = [] \<rparr>] \<rparr>"

lemma promotion_leaves_one_current_witness:
  "\<exists>d' v. with_db (promote_engine_version ''v2.0.0'' ''op'') sample_versions = (Inr (), d') \<and> engine_current d' = [v]
     \<and> en_version v = ''v2.0.0''"
  using promotion_leaves_one_current [of sample_versions "''v2.0.0''" "''op''"]
  by (auto simp: sample_versions_def wf_engine_versions_def engine_current_def)

section \<open>Status-blind operations\<close>

text \<open>
  Two operations are related when, from related states, they end in related states with the same exception or with
  related results. The rules follow the operators; the relation \<open>same_but_status\<close> keeps all that logins and role
  gates may look at, except for the status of the workspaces.
\<close>

definition related :: "('s \<Rightarrow> 's \<Rightarrow> bool) \<Rightarrow> ('a \<Rightarrow> 'b \<Rightarrow> bool) \<Rightarrow> ('s, 'a) op \<Rightarrow> ('s, 'b) op \<Rightarrow> bool" where
  "related R V m m' \<longleftrightarrow> (\<forall>s s'. R s s' \<longrightarrow> R (snd (m s)) (snd (m' s')) \<and> rel_sum (=) V (fst (m s)) (fst (m' s')))"

named_theorems related_rules \<open>composition of related operations\<close>

lemma relatedD: "related R V m m' \<Longrightarrow> R s s' \<Longrightarrow> rel_sum (=) V (fst (m s)) (fst (m' s'))"
  by (simp add: related_def)

lemma related_return [related_rules]: "V x y \<Longrightarrow> related R V (return_op x) (return_op y)"
  by (simp add: related_def return_op_def)

lemma related_raise [related_rules]: "related R V (raise_op x) (raise_op x)"
  by (simp add: related_def raise_op_def)

lemma related_guard [related_rules]: "related R (=) (guard_op b x) (guard_op b x)"
  by (simp add: guard_op_def related_return related_raise)

lemma related_read [related_rules]:
  "(\<And>s s'. R s s' \<Longrightarrow> rel_sum (=) V (q s) (q' s')) \<Longrightarrow> related R V (read_op q) (read_op q')"
  by (simp add: related_def read_op_def)

lemma related_modify [related_rules]:
  "(\<And>s s'. R s s' \<Longrightarrow> R (f s) (f' s')) \<Longrightarrow> related R (=) (modify_op f) (modify_op f')"
  by (simp add: related_def modify_op_def)

lemma related_if [related_rules]:
  "(b \<Longrightarrow> related R V m m') \<Longrightarrow> (\<not> b \<Longrightarrow> related R V n n') \<Longrightarrow> related R V (if b then m else n) (if b then m' else n')"
  by simp

lemma related_option [related_rules]:
  "related R V m m' \<Longrightarrow> (\<And>x. related R V (f x) (f' x)) \<Longrightarrow>
   related R V (case z of None \<Rightarrow> m | Some x \<Rightarrow> f x) (case z of None \<Rightarrow> m' | Some x \<Rightarrow> f' x)"
  by (simp split: option.split)

lemma related_bind [related_rules]:
  assumes "related R V m m'" "\<And>x x'. V x x' \<Longrightarrow> related R W (f x) (f' x')"
  shows "related R W (bind_op m f) (bind_op m' f')"
  unfolding related_def
proof (intro allI impI)
  fix s s' assume "R s s'"
  then have 1: "R (snd (m s)) (snd (m' s'))" and 2: "rel_sum (=) V (fst (m s)) (fst (m' s'))"
    using assms(1) by (auto simp: related_def)
  obtain r t where m: "m s = (r, t)" by (cases "m s")
  obtain r' t' where m': "m' s' = (r', t')" by (cases "m' s'")
  show "R (snd (bind_op m f s)) (snd (bind_op m' f' s')) \<and> rel_sum (=) W (fst (bind_op m f s)) (fst (bind_op m' f' s'))"
    using 1 2 assms(2) unfolding m m' bind_op_def related_def by (cases r; cases r') auto
qed

definition same_but_status :: "(tenant \<Rightarrow> bool) \<Rightarrow> py_str \<Rightarrow> db \<Rightarrow> db \<Rightarrow> bool" where
  "same_but_status P s d d' \<longleftrightarrow>
     users d' = users d \<and> members d' = members d \<and> refresh_tokens_tbl d' = refresh_tokens_tbl d \<and> sessions_tbl d' = sessions_tbl d
     \<and> token_blacklist d' = token_blacklist d \<and> tenants d' = update_rows P (\<lambda>t. t \<lparr> t_status := s \<rparr>) (tenants d)"

definition same_row :: "tenant \<Rightarrow> tenant \<Rightarrow> bool" where
  "same_row t t' \<longleftrightarrow> (\<exists>s. t' = t \<lparr> t_status := s \<rparr>)"

definition same_pair :: "membership \<times> tenant \<Rightarrow> membership \<times> tenant \<Rightarrow> bool" where
  "same_pair p p' \<longleftrightarrow> fst p' = fst p \<and> same_row (snd p) (snd p')"

lemma same_row_refl: "same_row t t" "same_row t (t \<lparr> t_status := s \<rparr>)"
  unfolding same_row_def by (metis tenant.surjective tenant.update_convs(5)) blast

lemma same_row_fields:
  assumes "same_row t t'"
  shows "t_id t' = t_id t" "t_name t' = t_name t" "t_currency t' = t_currency t" "t_onboarded_at t' = t_onboarded_at t"
    "t_deleted_at t' = t_deleted_at t"
  using assms by (auto simp: same_row_def)

lemma same_but_status_rows: "same_but_status P s d d' \<Longrightarrow> list_all2 same_row (tenants d) (tenants d')"
  by (auto simp: same_but_status_def update_rows_def list_all2_map2 list.rel_refl same_row_refl)

lemma list_all2_filter:
  "list_all2 V xs ys \<Longrightarrow> (\<And>x y. V x y \<Longrightarrow> P x = Q y) \<Longrightarrow> list_all2 V (filter P xs) (filter Q ys)"
  by (induction rule: list_all2_induct) auto

lemma list_all2_concat_map: "(\<And>x. x \<in> set xs \<Longrightarrow> list_all2 V (f x) (g x)) \<Longrightarrow> list_all2 V (concat (map f xs)) (concat (map g xs))"
  by (induction xs) (auto intro: list_all2_appendI)

lemma list_all2_insort_key:
  assumes "list_all2 V xs ys" "V x y" "\<And>x y. V x y \<Longrightarrow> f x = g y"
  shows "list_all2 V (insort_key f x xs) (insort_key g y ys)"
  using assms(1)
proof (induction rule: list_all2_induct)
  case (Cons a as b bs)
  then show ?case using assms(3) [OF assms(2)] assms(3) [OF Cons(1)] assms(2) by auto
qed (use assms(2) in simp)

lemma list_all2_sort_key:
  assumes "list_all2 V xs ys" "\<And>x y. V x y \<Longrightarrow> f x = g y"
  shows "list_all2 V (sort_key f xs) (sort_key g ys)"
  using assms(1) by (induction rule: list_all2_induct) (auto intro: list_all2_insort_key [OF _ _ assms(2)])

lemma membership_rows_blind:
  assumes "same_but_status P s d d'"
  shows "list_all2 same_pair (membership_rows u t d) (membership_rows u t d')"
proof -
  have eq: "members d' = members d" using assms by (simp add: same_but_status_def)
  have base: "list_all2 same_pair
      (concat (map (\<lambda>m. map (\<lambda>t. (m, t)) (filter (\<lambda>t. t_id t = m_tenant m \<and> t_deleted_at t = None) (tenants d))) ms))
      (concat (map (\<lambda>m. map (\<lambda>t. (m, t)) (filter (\<lambda>t. t_id t = m_tenant m \<and> t_deleted_at t = None) (tenants d'))) ms))" for ms
    by (rule list_all2_concat_map)
      (auto simp: list_all2_map1 list_all2_map2 same_pair_def same_row_fields
        intro!: list_all2_mono [OF list_all2_filter [OF same_but_status_rows [OF assms]]])
  show ?thesis
    unfolding membership_rows_def Let_def eq
    using list_all2_filter [OF base, of "\<lambda>(m, x). Some (m_tenant m) = t" "\<lambda>(m, x). Some (m_tenant m) = t"]
      list_all2_sort_key [OF base, of "\<lambda>(m, t). - m_joined_at m" "\<lambda>(m, t). - m_joined_at m"]
    by (auto simp: same_pair_def split_beta)
qed

lemma related_membership_or_raise [related_rules]:
  "related (same_but_status P s) same_pair (membership_or_raise u t) (membership_or_raise u t)"
  unfolding membership_or_raise_def get_membership_def
proof (rule related_read)
  fix d d' assume "same_but_status P s d d'"
  from membership_rows_blind [OF this, of u t]
  show "rel_sum (=) same_pair
     (case case membership_rows u t d of [] \<Rightarrow> None | row # _ \<Rightarrow> Some row of
        None \<Rightarrow> Inl (ECLException ''NOT_TENANT_MEMBER'' 403) | Some row \<Rightarrow> Inr row)
     (case case membership_rows u t d' of [] \<Rightarrow> None | row # _ \<Rightarrow> Some row of
        None \<Rightarrow> Inl (ECLException ''NOT_TENANT_MEMBER'' 403) | Some row \<Rightarrow> Inr row)"
    by (cases "membership_rows u t d"; cases "membership_rows u t d'") auto
qed

lemma related_create_session_tokens [related_rules]:
  assumes "same_row t t'"
  shows "related (same_but_status P s) (=) (create_session_tokens e k j u m t r ip msg) (create_session_tokens e k j u m t' r ip msg)"
  using same_row_fields [OF assms]
  by (auto simp: related_def create_session_tokens_def create_access_token_def user_out_of_def Let_def guard_op_def op_defs bind_op_def
      same_but_status_def)

lemma related_log_event [related_rules]:
  "related (same_but_status P s) (=) (modify_op (log_event a b c x y)) (modify_op (log_event a b c x y))"
  by (rule related_modify) (simp add: same_but_status_def log_event_def)

lemma related_write_user [related_rules]:
  "related (same_but_status P s) (=) (write_user i f) (write_user i f)"
  unfolding write_user_def by (rule related_modify) (simp add: same_but_status_def)

lemma rel_sum_refl: "rel_sum (=) (=) r r"
  by (cases r) auto

lemma related_login_user:
  "related (same_but_status P s) (=) (login_user e req ip) (login_user e req ip)"
  unfolding login_user_def get_active_user_by_email_def check_lockout_def handle_failed_login_def create_mfa_challenge_token_def
  by (rule related_bind [where V = "(=)"], rule related_read, simp add: same_but_status_def rel_sum_refl)
    (auto simp: same_pair_def split: option.split
      intro!: related_rules related_bind [where V = "(=)"] related_bind [OF related_membership_or_raise] same_row_refl)

lemma same_but_status_gates:
  assumes "same_but_status P s d d'"
  shows "get_current_user dec rd now c d' = get_current_user dec rd now c d"
    "require_tenant_member t u d' = require_tenant_member t u d"
    "require_tenant_admin t u d' = require_tenant_admin t u d"
    "require_tenant_analyst_or_admin t u d' = require_tenant_analyst_or_admin t u d"
proof -
  have eq: "users d' = users d" "members d' = members d" "token_blacklist d' = token_blacklist d"
    using assms by (simp_all add: same_but_status_def)
  show "require_tenant_member t u d' = require_tenant_member t u d" by (simp add: require_tenant_member_def eq)
  then show "require_tenant_admin t u d' = require_tenant_admin t u d"
    "require_tenant_analyst_or_admin t u d' = require_tenant_analyst_or_admin t u d"
    by (simp_all add: require_tenant_admin_def require_tenant_analyst_or_admin_def)
  show "get_current_user dec rd now c d' = get_current_user dec rd now c d"
    unfolding get_current_user_def is_token_blacklisted_def eq by (rule refl)
qed

lemma suspend_tenant_Inr:
  "suspend_tenant t actor d = (Inr (), d') \<longleftrightarrow>
     (\<exists>row. filter (live_tenant t) (tenants d) = [row] \<and> t_status row \<noteq> ''suspended'')
     \<and> d' = log_event ''platform.tenant.suspended'' (Some actor) None True None
          (d \<lparr> tenants := update_rows (live_tenant t) (\<lambda>t. t \<lparr> t_status := ''suspended'' \<rparr>) (tenants d) \<rparr>)"
  by (auto simp: suspend_tenant_def get_tenant_or_404_def write_workspace_def bind_op_Inr op_defs guard_op_def split: if_splits)

lemma suspension_facts:
  assumes "suspend_tenant t actor d = (Inr (), d')"
  shows "(\<forall>row \<in> set (tenants d'). live_tenant t row \<longrightarrow> t_status row = ''suspended'')"
    and "fst (suspend_tenant t actor d') = Inl AlreadySuspendedError"
    and "fst (login_user e req ip d') = fst (login_user e req ip d)"
    and "get_current_user decode redis now creds d' = get_current_user decode redis now creds d"
    and "require_tenant_member w u d' = require_tenant_member w u d"
    and "require_tenant_analyst_or_admin w u d' = require_tenant_analyst_or_admin w u d"
    and "require_tenant_admin w u d' = require_tenant_admin w u d"
proof -
  obtain row where row: "filter (live_tenant t) (tenants d) = [row]"
    and d': "d' = log_event ''platform.tenant.suspended'' (Some actor) None True None
          (d \<lparr> tenants := update_rows (live_tenant t) (\<lambda>t. t \<lparr> t_status := ''suspended'' \<rparr>) (tenants d) \<rparr>)"
    using assms by (auto simp: suspend_tenant_Inr)
  have same: "same_but_status (live_tenant t) ''suspended'' d d'"
    by (simp add: d' same_but_status_def log_event_def)
  have tenants: "tenants d' = update_rows (live_tenant t) (\<lambda>t. t \<lparr> t_status := ''suspended'' \<rparr>) (tenants d)"
    by (simp add: d' log_event_def)
  have live: "live_tenant t (x \<lparr> t_status := s \<rparr>) = live_tenant t x" for x :: tenant and s by (simp add: live_tenant_def)
  show "\<forall>row \<in> set (tenants d'). live_tenant t row \<longrightarrow> t_status row = ''suspended''"
    by (auto simp: tenants set_update_rows live)
  have "filter (live_tenant t) (tenants d') = [row \<lparr> t_status := ''suspended'' \<rparr>]"
    using row filter_one_member [OF row] by (simp add: tenants filter_update_rows_same live)
  then show "fst (suspend_tenant t actor d') = Inl AlreadySuspendedError"
    by (simp add: suspend_tenant_def get_tenant_or_404_def bind_op_read guard_op_def raise_op_def)
  from relatedD [OF related_login_user, OF same, of e req ip]
  show "fst (login_user e req ip d') = fst (login_user e req ip d)" by (simp add: sum.rel_eq)
  show "get_current_user decode redis now creds d' = get_current_user decode redis now creds d"
    "require_tenant_member w u d' = require_tenant_member w u d"
    "require_tenant_analyst_or_admin w u d' = require_tenant_analyst_or_admin w u d"
    "require_tenant_admin w u d' = require_tenant_admin w u d"
    by (rule same_but_status_gates [OF same])+
qed

lemma update_only_member:
  assumes "filter P rows = [row]"
  obtains pre post where "rows = pre @ row # post" "P row" "list_all (\<lambda>x. \<not> P x) (pre @ post)"
    "update_rows P f rows = pre @ f row # post"
proof -
  obtain pre post where r: "rows = pre @ row # post" "\<forall>x \<in> set pre. \<not> P x" "P row" "filter P post = []"
    using assms by (fastforce simp: filter_eq_Cons_iff)
  then have "update_rows P f pre = pre" "update_rows P f post = post"
    by (auto simp: update_rows_def filter_empty_conv intro!: map_idI)
  with r show thesis by (intro that [of pre post]) (auto simp: list_all_iff filter_empty_conv)
qed

lemma suspension_frame:
  assumes "suspend_tenant t actor d = (Inr (), d')"
  shows "\<exists>pre row post. tenants d = pre @ row # post \<and> live_tenant t row \<and> t_status row \<noteq> ''suspended''
    \<and> list_all (\<lambda>x. \<not> live_tenant t x) (pre @ post)
    \<and> d' = d \<lparr> tenants := pre @ row \<lparr> t_status := ''suspended'' \<rparr> # post,
               audit_logs := audit_logs d @ [\<lparr> al_tenant = None, al_user = Some actor, al_event = ''platform.tenant.suspended'',
                 al_success = True, al_error_code = None \<rparr>] \<rparr>"
proof -
  obtain row where row: "filter (live_tenant t) (tenants d) = [row]" "t_status row \<noteq> ''suspended''"
    and d': "d' = log_event ''platform.tenant.suspended'' (Some actor) None True None
          (d \<lparr> tenants := update_rows (live_tenant t) (\<lambda>t. t \<lparr> t_status := ''suspended'' \<rparr>) (tenants d) \<rparr>)"
    using assms by (auto simp: suspend_tenant_Inr)
  obtain pre post where "tenants d = pre @ row # post" "live_tenant t row" "list_all (\<lambda>x. \<not> live_tenant t x) (pre @ post)"
      "update_rows (live_tenant t) (\<lambda>t. t \<lparr> t_status := ''suspended'' \<rparr>) (tenants d) = pre @ row \<lparr> t_status := ''suspended'' \<rparr> # post"
    using update_only_member [OF row(1)] by metis
  with row(2) show ?thesis
    by (intro exI [of _ pre] exI [of _ row] exI [of _ post]) (simp add: d' log_event_def)
qed

text \<open>
  C34. Suspension and access. A workspace that was not suspended can be suspended once; a second request is
  refused with 409 until it is reactivated. The suspension writes the status column of the one live workspace of
  that id and appends one audit entry; every other workspace, and every other table of the database, is as it was.
  Nothing that decides about access changes: every login gives the same answer as before, every token
  authenticates the same user, and the three role gates let the same members in with the same role. The
  members of a suspended workspace work on as before.
\<close>

theorem suspension_changes_no_access:
  assumes "suspend_tenant t actor d = (Inr (), d')"
  shows "(\<exists>pre row post. tenants d = pre @ row # post \<and> live_tenant t row \<and> t_status row \<noteq> ''suspended''
      \<and> list_all (\<lambda>x. \<not> live_tenant t x) (pre @ post)
      \<and> d' = d \<lparr> tenants := pre @ row \<lparr> t_status := ''suspended'' \<rparr> # post,
                 audit_logs := audit_logs d @ [\<lparr> al_tenant = None, al_user = Some actor, al_event = ''platform.tenant.suspended'',
                   al_success = True, al_error_code = None \<rparr>] \<rparr>)
    \<and> (\<forall>row \<in> set (tenants d'). live_tenant t row \<longrightarrow> t_status row = ''suspended'')
    \<and> fst (suspend_tenant t actor d') = Inl AlreadySuspendedError
    \<and> fst (login_user e req ip d') = fst (login_user e req ip d)
    \<and> get_current_user decode redis now creds d' = get_current_user decode redis now creds d
    \<and> require_tenant_member w u d' = require_tenant_member w u d
    \<and> require_tenant_analyst_or_admin w u d' = require_tenant_analyst_or_admin w u d
    \<and> require_tenant_admin w u d' = require_tenant_admin w u d"
  by (intro conjI suspension_frame [OF assms] suspension_facts [OF assms])

definition operator_user :: user where
  "operator_user = sample_admin \<lparr> u_hashed_password := ''h:pw'', u_is_platform_admin := True \<rparr>"

definition sample_console :: db where
  "sample_console = one_admin \<lparr> users := [operator_user], tenants := [sample_tenant] \<rparr>"

lemma console_tenant:
  "filter (live_tenant ''T'') (tenants sample_console) = [sample_tenant]" "filter (\<lambda>t. t_id t = ''T'') (tenants sample_console) = [sample_tenant]"
  by (simp_all add: sample_console_def live_tenant_def sample_tenant_def new_tenant_def)

lemma console_user:
  "get_current_user (ax_decode sample_ctx) (ax_redis sample_ctx) (ax_now sample_ctx) (ax_creds sample_ctx) sample_console = Inr operator_user"
  by (simp add: get_current_user_def sample_ctx_def sample_console_def operator_user_def sample_admin_def)

theorem suspension_changes_no_access_witness:
  "\<exists>d'. suspend_tenant ''T'' ''A'' sample_console = (Inr (), d') \<and> map t_status (tenants d') = [''suspended'']
     \<and> fst (login_user sample_env good_login ''ip'' d') = fst (login_user sample_env good_login ''ip'' sample_console)"
proof -
  have live: "live_tenant ''T'' sample_tenant" by (simp add: live_tenant_def sample_tenant_def new_tenant_def)
  have "t_status sample_tenant \<noteq> ''suspended''" by (simp add: sample_tenant_def new_tenant_def)
  then obtain d' where d': "suspend_tenant ''T'' ''A'' sample_console = (Inr (), d')"
    using console_tenant(1) unfolding suspend_tenant_Inr by blast
  have "tenants d' = update_rows (live_tenant ''T'') (\<lambda>t. t \<lparr> t_status := ''suspended'' \<rparr>) [sample_tenant]"
    using d' [unfolded suspend_tenant_Inr, THEN conjunct2] by (simp add: log_event_def sample_console_def)
  then have status: "map t_status (tenants d') = [''suspended'']" using live by simp
  show ?thesis by (intro exI [of _ d'] conjI d' status suspension_changes_no_access [OF d', THEN conjunct2, THEN conjunct2, THEN conjunct2, THEN conjunct1])
qed

section \<open>Impersonation\<close>

text \<open>The law on the validation of the response: a dictionary of strings does not take an integer.\<close>

definition str_dict_law :: "str_dict_validator \<Rightarrow> bool" where
  "str_dict_law v \<longleftrightarrow> (\<forall>kvs k i. (k, JInteger i) \<in> set kvs \<longrightarrow> (\<exists>x. v kvs = Inl x))"

lemma start_impersonation_endpoint_fails:
  assumes "str_dict_law v"
  shows "\<exists>x. with_db (start_impersonation_endpoint e v ctx t) d = (Inl x, d)"
proof -
  have "start_impersonation_endpoint e v ctx t d \<noteq> (Inr r, d')" for r d'
  proof
    assume "start_impersonation_endpoint e v ctx t d = (Inr r, d')"
    then obtain kvs where "v kvs = Inr r" "(''expires_in'', JInteger (ev_access_minutes e * 60)) \<in> set kvs"
      by (auto simp: start_impersonation_endpoint_def platform_gated_Inr bind_op_Inr op_defs Let_def)
    then show False using assms unfolding str_dict_law_def by fastforce
  qed
  then show ?thesis
    by (cases "start_impersonation_endpoint e v ctx t d"; cases "fst (start_impersonation_endpoint e v ctx t d)") (auto simp: with_db_def)
qed

lemma run_requests_invariant:
  assumes "\<And>m s. m \<in> set ms \<Longrightarrow> I s \<Longrightarrow> I (snd (with_db m s))" "I s"
  shows "I (run_requests ms s)"
  using assms by (induction ms arbitrary: s) auto

lemma no_impersonation_kept:
  assumes "str_dict_law v" "impersonations_tbl d = []"
  shows "impersonations_tbl (snd (with_db (platform_request_op e v ctx req) d)) = []"
proof (cases "\<exists>t. req = StartImpersonation t")
  case True
  then obtain t where "req = StartImpersonation t" by blast
  moreover have "fst (ignore_result (start_impersonation_endpoint e v ctx t) d) \<noteq> Inr ()"
    using start_impersonation_endpoint_fails [OF assms(1), of e ctx t d]
    by (auto simp: ignore_result_def bind_op_def with_db_def split: prod.splits sum.splits)
  ultimately show ?thesis using assms(2)
    by (cases "platform_request_op e v ctx req d") (auto simp: with_db_def split: sum.split)
next
  case False
  then have "keeps (\<lambda>d. impersonations_tbl d = []) (platform_request_op e v ctx req)"
    by (cases req)
      (auto simp: platform_endpoint_defs create_platform_tenant_def patch_platform_tenant_def suspend_tenant_def reactivate_tenant_def
        extend_trial_def end_impersonation_def patch_platform_user_def promote_engine_version_def set_current_def get_tenant_or_404_def
        write_workspace_def write_user_def log_event_def Let_def intro!: keeps_rules keeps_modify)
  then show ?thesis using assms(2) by (rule keepsD [OF keeps_with_db])
qed

lemma impersonation_facts:
  assumes "str_dict_law v" "impersonations_tbl d = []"
  shows "impersonations_tbl (run_requests (map (\<lambda>(e, ctx, req). platform_request_op e v ctx req) reqs) d) = []"
    and "\<exists>x. with_db (start_impersonation_endpoint e v ctx t) d = (Inl x, d)"
    and "filter (live_tenant t) (tenants d) = [row] \<Longrightarrow>
      \<exists>imp d'. start_impersonation e (u_id u) t d = (Inr imp, d') \<and> impersonations_tbl d' = [imp] \<and> im_is_active imp"
    and "get_current_user (ax_decode ctx) (ax_redis ctx) (ax_now ctx) (ax_creds ctx) d = Inr u \<Longrightarrow> u_is_platform_admin u \<Longrightarrow>
      end_impersonation_endpoint e ctx t d = (Inr (), log_event ''platform.impersonation.ended'' (Some (u_id u)) None True None d)"
proof -
  show "impersonations_tbl (run_requests (map (\<lambda>(e, ctx, req). platform_request_op e v ctx req) reqs) d) = []"
    using no_impersonation_kept [OF assms(1)] assms(2)
    by (intro run_requests_invariant [where I = "\<lambda>d. impersonations_tbl d = []"]) auto
  show "\<exists>x. with_db (start_impersonation_endpoint e v ctx t) d = (Inl x, d)"
    by (rule start_impersonation_endpoint_fails [OF assms(1)])
  show "filter (live_tenant t) (tenants d) = [row] \<Longrightarrow>
      \<exists>imp d'. start_impersonation e (u_id u) t d = (Inr imp, d') \<and> impersonations_tbl d' = [imp] \<and> im_is_active imp"
    using assms(2)
    by (simp add: start_impersonation_def get_tenant_or_404_def bind_op_read op_simps Let_def return_op_def log_event_def update_rows_def)
  show "get_current_user (ax_decode ctx) (ax_redis ctx) (ax_now ctx) (ax_creds ctx) d = Inr u \<Longrightarrow> u_is_platform_admin u \<Longrightarrow>
      end_impersonation_endpoint e ctx t d = (Inr (), log_event ''platform.impersonation.ended'' (Some (u_id u)) None True None d)"
    using assms(2)
    by (simp add: end_impersonation_endpoint_def platform_gated_def for_user_def current_user_def require_platform_admin_def
        end_impersonation_def Let_def op_simps modify_op_def)
qed

text \<open>
  Impersonation. The response of the endpoint that starts an impersonation puts an integer into a dictionary of
  strings, which its validation refuses. For every caller and every workspace the request fails after its work is done
  and is rolled back, so through any sequence of console requests no impersonation is ever recorded, although
  the service call itself succeeds on a live workspace and opens a session. Ending an impersonation that never
  was, even in a workspace that does not exist, succeeds and is entered into the audit log.
\<close>

lemma impersonation_never_recorded:
  assumes "str_dict_law v" "impersonations_tbl d = []"
  shows "impersonations_tbl (run_requests (map (\<lambda>(e, ctx, req). platform_request_op e v ctx req) reqs) d) = []
    \<and> (\<exists>x. with_db (start_impersonation_endpoint e v ctx t) d = (Inl x, d))
    \<and> (filter (live_tenant t) (tenants d) = [row] \<longrightarrow>
      (\<exists>imp d'. start_impersonation e (u_id u) t d = (Inr imp, d') \<and> impersonations_tbl d' = [imp] \<and> im_is_active imp))
    \<and> (get_current_user (ax_decode ctx) (ax_redis ctx) (ax_now ctx) (ax_creds ctx) d = Inr u \<and> u_is_platform_admin u \<longrightarrow>
      end_impersonation_endpoint e ctx t d = (Inr (), log_event ''platform.impersonation.ended'' (Some (u_id u)) None True None d))"
  using impersonation_facts [OF assms] by blast

text \<open>A validator that takes strings only.\<close>

definition strings_only :: str_dict_validator where
  "strings_only kvs =
     (if list_all (\<lambda>(k, x). \<exists>s. x = JString s) kvs then Inr (map (\<lambda>(k, x). (k, case x of JString s \<Rightarrow> s | JInteger i \<Rightarrow> show_int i)) kvs)
      else Inl (ValueError ''Input should be a valid string''))"

lemma impersonation_never_recorded_witness:
  "(\<exists>x. with_db (start_impersonation_endpoint sample_env strings_only sample_ctx ''T'') sample_console = (Inl x, sample_console))
   \<and> (\<exists>imp d'. start_impersonation sample_env ''A'' ''T'' sample_console = (Inr imp, d') \<and> impersonations_tbl d' = [imp])
   \<and> impersonations_tbl (run_requests (map (\<lambda>(e, ctx, req). platform_request_op e strings_only ctx req)
       [(sample_env, sample_ctx, StartImpersonation ''T''), (sample_env, sample_ctx, EndImpersonation ''T'')]) sample_console) = []"
proof -
  have law: "str_dict_law strings_only" by (force simp: str_dict_law_def strings_only_def list_all_iff)
  have none: "impersonations_tbl sample_console = []" by (simp add: sample_console_def one_admin_def empty_db_def)
  have id: "u_id operator_user = ''A''" by (simp add: operator_user_def sample_admin_def)
  show ?thesis
    using impersonation_never_recorded [OF law none, of "[(sample_env, sample_ctx, StartImpersonation ''T''), (sample_env, sample_ctx, EndImpersonation ''T'')]"
        sample_env sample_ctx "''T''" sample_tenant operator_user] console_tenant(1) id by auto
qed

section \<open>The status of a workspace\<close>

definition tenant_status_values :: "py_str set" where
  "tenant_status_values = {tenant_status_value TENANT_TRIAL, tenant_status_value TENANT_ACTIVE,
     tenant_status_value TENANT_SUSPENDED, tenant_status_value TENANT_CLOSING}"

definition statuses_typed :: "db \<Rightarrow> bool" where
  "statuses_typed d \<longleftrightarrow> (\<forall>t \<in> set (tenants d). t_status t \<in> tenant_status_values)"

text \<open>The requests that write rows of the table of workspaces.\<close>

datatype workspace_write =
    Console env str_dict_validator auth_ctx platform_request
  | CloseWorkspace auth_ctx py_str py_str
  | EditWorkspace auth_ctx py_str update_tenant_request
  | Register env register_request py_str

fun workspace_write_op :: "workspace_write \<Rightarrow> (db, unit) op" where
  "workspace_write_op (Console e v ctx req) = platform_request_op e v ctx req"
| "workspace_write_op (CloseWorkspace ctx t confirmation) = close_tenant_endpoint ctx t confirmation"
| "workspace_write_op (EditWorkspace ctx t body) = patch_tenant ctx t body"
| "workspace_write_op (Register e req ip) = ignore_result (register_user e req ip)"

text \<open>A patch that leaves the status or writes a value of the enumeration.\<close>

fun status_in_enum :: "workspace_write \<Rightarrow> bool" where
  "status_in_enum (Console e v ctx (PatchTenant t body)) \<longleftrightarrow> ptr_status body \<in> {None, Some ''''} \<union> Some ` tenant_status_values"
| "status_in_enum _ \<longleftrightarrow> True"

lemma typed_values [simp]: "tenant_status_value s \<in> tenant_status_values"
  by (cases s) (simp_all add: tenant_status_values_def del: tenant_status_value.simps)

lemma statuses_typed_rules:
  "statuses_typed d \<Longrightarrow> (\<And>t. t_status t \<in> tenant_status_values \<Longrightarrow> t_status (f t) \<in> tenant_status_values) \<Longrightarrow>
     statuses_typed (d \<lparr> tenants := update_rows P f (tenants d) \<rparr>)"
  "statuses_typed (log_event a b c x y d) = statuses_typed d"
  "statuses_typed (queue_email_in_outbox i n p d) = statuses_typed d"
  by (auto simp: statuses_typed_def set_update_rows log_event_def queue_email_in_outbox_def)

lemma keeps_statuses_update:
  "(\<And>t. t_status t \<in> tenant_status_values \<Longrightarrow> t_status (f t) \<in> tenant_status_values) \<Longrightarrow>
     keeps statuses_typed (modify_op (\<lambda>d. d \<lparr> tenants := update_rows P f (tenants d) \<rparr>))"
  by (intro keeps_modify statuses_typed_rules)

lemma keeps_statuses_write_workspace [keeps_rules]:
  "(\<And>t. t_status t \<in> tenant_status_values \<Longrightarrow> t_status (f t) \<in> tenant_status_values) \<Longrightarrow> keeps statuses_typed (write_workspace i f)"
  unfolding write_workspace_def by (rule keeps_statuses_update)

lemma keeps_statuses_log_event [keeps_rules]: "keeps statuses_typed (modify_op (log_event a b c x y))"
  by (intro keeps_modify) (simp add: statuses_typed_rules)

lemma keeps_get_tenant_or_404 [keeps_rules]: "keeps I (get_tenant_or_404 t)"
  unfolding get_tenant_or_404_def by (rule keeps_read)

lemma keeps_statuses_console:
  assumes "status_in_enum (Console e v ctx req)"
  shows "keeps statuses_typed (platform_request_op e v ctx req)"
proof (cases req)
  case (CreateTenant body)
  then show ?thesis
    by (auto simp: platform_endpoint_defs create_platform_tenant_def Let_def statuses_typed_def provisioned_tenant_def
        simp del: tenant_status_value.simps intro!: keeps_rules keeps_modify)
next
  case (PatchTenant t body)
  have "or_keep (ptr_status body) x \<in> tenant_status_values" if "x \<in> tenant_status_values" for x
    using assms that PatchTenant by (auto simp: or_keep_def)
  then show ?thesis
    unfolding PatchTenant platform_request_op.simps platform_endpoint_defs patch_platform_tenant_def by (intro keeps_rules) simp
next
  case (StartImpersonation t)
  then show ?thesis
    by (auto simp: platform_endpoint_defs start_impersonation_def Let_def statuses_typed_def intro!: keeps_rules keeps_modify)
qed (auto simp: platform_endpoint_defs suspend_tenant_def reactivate_tenant_def extend_trial_def end_impersonation_def Let_def
    patch_platform_user_def write_user_def promote_engine_version_def set_current_def statuses_typed_def
    simp del: tenant_status_value.simps intro!: keeps_rules keeps_modify)

lemma keeps_statuses_write:
  assumes "status_in_enum w" shows "keeps statuses_typed (workspace_write_op w)"
proof (cases w)
  case (Console e v ctx req)
  then show ?thesis using assms keeps_statuses_console by simp
next
  case (CloseWorkspace ctx t c)
  then show ?thesis
    by (auto simp: close_tenant_endpoint_def close_tenant_def simp del: tenant_status_value.simps
        intro!: keeps_rules keeps_statuses_update)
next
  case (EditWorkspace ctx t body)
  then show ?thesis
    by (auto simp: patch_tenant_def update_tenant_def intro!: keeps_rules keeps_statuses_update)
next
  case (Register e req ip)
  have "keeps statuses_typed (register_user e req ip)"
    unfolding register_user_def check_password_def get_active_user_by_email_def create_session_tokens_def create_access_token_def Let_def
    by (auto simp: statuses_typed_def new_tenant_def queue_email_in_outbox_def simp del: tenant_status_value.simps
        intro!: keeps_rules keeps_modify split: list.split)
  then show ?thesis using Register by (auto intro!: keeps_rules)
qed

lemma patch_platform_tenant_Inr:
  assumes "filter (live_tenant t) (tenants d) = [row]" "statuses_typed d" "ptr_status body = Some s" "s \<noteq> []"
  shows "fst (patch_platform_tenant t body d) = Inr ()"
    and "statuses_typed (snd (patch_platform_tenant t body d)) \<longleftrightarrow> s \<in> tenant_status_values"
proof -
  define f where "f t = t \<lparr> t_name := or_keep (ptr_name body) (t_name t), t_plan := or_keep (ptr_plan body) (t_plan t), t_status := s \<rparr>"
    for t :: tenant
  have run: "patch_platform_tenant t body d = (Inr (), d \<lparr> tenants := update_rows (live_tenant t) f (tenants d) \<rparr>)"
    using assms(1,3,4)
    by (simp add: f_def [abs_def]) (simp add: patch_platform_tenant_def get_tenant_or_404_def write_workspace_def bind_op_read modify_op_def or_keep_def)
  show "fst (patch_platform_tenant t body d) = Inr ()" by (simp add: run)
  show "statuses_typed (snd (patch_platform_tenant t body d)) \<longleftrightarrow> s \<in> tenant_status_values"
  proof
    have "f row \<in> set (update_rows (live_tenant t) f (tenants d))"
      using filter_one_member [OF assms(1)] by (force simp: set_update_rows)
    then show "s \<in> tenant_status_values" if "statuses_typed (snd (patch_platform_tenant t body d))"
      using that by (auto simp: run statuses_typed_def f_def)
    show "statuses_typed (snd (patch_platform_tenant t body d))" if "s \<in> tenant_status_values"
      using that assms(2) by (auto simp: run statuses_typed_def set_update_rows f_def)
  qed
qed

lemma workspace_status_facts:
  assumes "statuses_typed d"
  shows "\<forall>w \<in> set ws. status_in_enum w \<Longrightarrow> statuses_typed (run_requests (map workspace_write_op ws) d)"
    and "filter (live_tenant t) (tenants d) = [row] \<Longrightarrow> ptr_status body = Some s \<Longrightarrow> s \<noteq> [] \<Longrightarrow>
      fst (patch_platform_tenant t body d) = Inr () \<and> (statuses_typed (snd (patch_platform_tenant t body d)) \<longleftrightarrow> s \<in> tenant_status_values)"
proof -
  show "statuses_typed (run_requests (map workspace_write_op ws) d)" if "\<forall>w \<in> set ws. status_in_enum w"
    using that keeps_statuses_write assms by (intro run_requests_keeps [where I = statuses_typed]) auto
  show "fst (patch_platform_tenant t body d) = Inr () \<and> (statuses_typed (snd (patch_platform_tenant t body d)) \<longleftrightarrow> s \<in> tenant_status_values)"
    if "filter (live_tenant t) (tenants d) = [row]" "ptr_status body = Some s" "s \<noteq> []"
    using patch_platform_tenant_Inr [OF that(1) assms that(2,3)] by blast
qed

text \<open>
  C35. The status column of the workspaces. Its type is a string; registration, the console, the settings of a
  workspace and its closing keep it within the four values of the enumeration, through any sequence of such requests
  in which no patch of the console writes another text. The patch itself does not check: it succeeds with
  every text, and the column stays typed exactly when the text is a value of the enumeration.
\<close>

theorem workspace_status_typed:
  assumes "statuses_typed d"
  shows "((\<forall>w \<in> set ws. status_in_enum w) \<longrightarrow> statuses_typed (run_requests (map workspace_write_op ws) d))
    \<and> (filter (live_tenant t) (tenants d) = [row] \<and> ptr_status body = Some s \<and> s \<noteq> [] \<longrightarrow>
      fst (patch_platform_tenant t body d) = Inr () \<and> (statuses_typed (snd (patch_platform_tenant t body d)) \<longleftrightarrow> s \<in> tenant_status_values))"
  using workspace_status_facts [OF assms] by blast

definition frozen_patch :: patch_tenant_request where
  "frozen_patch = \<lparr> ptr_name = None, ptr_plan = None, ptr_status = Some ''frozen'' \<rparr>"

theorem workspace_status_typed_witness:
  "statuses_typed (run_requests (map workspace_write_op [Console sample_env strings_only sample_ctx (SuspendTenant ''T''),
       CloseWorkspace sample_ctx ''T'' ''CLOSE'']) sample_console)
   \<and> fst (patch_platform_tenant ''T'' frozen_patch sample_console) = Inr ()
   \<and> \<not> statuses_typed (snd (patch_platform_tenant ''T'' frozen_patch sample_console))"
proof -
  have typed: "statuses_typed sample_console"
    by (simp add: statuses_typed_def sample_console_def sample_tenant_def new_tenant_def tenant_status_values_def)
  have "''frozen'' \<notin> tenant_status_values" by (simp add: tenant_status_values_def)
  then show ?thesis
    using workspace_status_typed [OF typed, of "[Console sample_env strings_only sample_ctx (SuspendTenant ''T''), CloseWorkspace sample_ctx ''T'' ''CLOSE'']"
        "''T''" sample_tenant frozen_patch "''frozen''"] console_tenant(1)
    by (simp add: frozen_patch_def)
qed

section \<open>Days and trials\<close>

lemma first_day: "1 \<le> dy (date_of_day n)"
proof -
  have "(153 * ((5 * k + 2) div 153) + 2) div 5 \<le> k" for k :: int
  proof -
    have "153 * ((5 * k + 2) div 153) + 2 \<le> 5 * k + 4"
      using mult_div_mod_eq [of 153 "5 * k + 2"] pos_mod_sign [of 153 "5 * k + 2"] by linarith
    then have "(153 * ((5 * k + 2) div 153) + 2) div 5 \<le> (5 * k + 4) div 5" by (rule zdiv_mono1) simp
    also have "\<dots> = k" by simp
    finally show ?thesis .
  qed
  from this [of "day_of_era_year ((n + 719468) mod 146097)"] show ?thesis
    by (simp add: date_of_day_def month_slot_def Let_def)
qed

lemma first_of_month_le: "first_of_month now \<le> now"
proof -
  have "first_of_month now \<le> day_of now * 86400"
    using first_day [of "day_of now"] by (simp add: first_of_month_def)
  also have "\<dots> \<le> now" by (simp add: day_of_def)
  finally show ?thesis .
qed

lemma date_of_day_samples:
  "isoformat 0 = ''1970-01-01''" "isoformat 19782 = ''2024-02-29''" "isoformat 20088 = ''2024-12-31''" "isoformat 11016 = ''2000-02-29''"
  by code_simp+

text \<open>The trend has one point for each of the last fourteen days, in order, the last one for today.\<close>

lemma trend_points_series:
  "map fst (trend_14d now d) = map (\<lambda>i. isoformat (day_of now - int i)) (rev [0..<14])"
  "length (trend_14d now d) = 14" "fst (last (trend_14d now d)) = isoformat (day_of now)"
  by (simp_all add: trend_14d_def Let_def comp_def upt_rec)

text \<open>An extension of the trial changes nothing but the audit log: the days shown as left stay the same.\<close>

lemma extend_trial_changes_nothing:
  assumes "extend_trial t actor days d = (Inr (), d')"
  shows "d' = log_event ''platform.tenant.trial_extended'' (Some actor) None True None d \<and> status_note now d' row = status_note now d row"
  using assms
  by (auto simp: extend_trial_def get_tenant_or_404_def bind_op_Inr op_defs guard_op_def status_note_def last_run_def log_event_def split: if_splits)

text \<open>The counters of the overview: trial, active and suspended workspaces and those being closed make up all of them
  when the statuses are typed.\<close>

lemma overview_counts:
  assumes "statuses_typed d"
  shows "pk_total (tenant_kpis now d) = pk_trial (tenant_kpis now d) + pk_active (tenant_kpis now d) + pk_suspended (tenant_kpis now d)
    + count_status d TENANT_CLOSING"
proof -
  have "length xs = length (filter (\<lambda>t. t_status t = ''trial'') xs) + length (filter (\<lambda>t. t_status t = ''active'') xs)
      + length (filter (\<lambda>t. t_status t = ''suspended'') xs) + length (filter (\<lambda>t. t_status t = ''closing'') xs)"
    if "\<forall>t \<in> set xs. t_status t \<in> tenant_status_values" for xs :: "tenant list"
    using that by (induction xs) (auto simp: tenant_status_values_def)
  from this [of "live_tenants d"] assms show ?thesis
    by (simp add: tenant_kpis_def count_status_def live_tenants_def statuses_typed_def)
qed

end
