(* ===== verification/Health.thy ===== *)
theory Health
  imports Platform
begin

text \<open>
  What the service reports about itself: the probes \<^verbatim>\<open>/health\<close> and \<^verbatim>\<open>/ready\<close> of \<^verbatim>\<open>app/main.py\<close>, the health page of the
  console in \<^verbatim>\<open>app/modules/platform/service.py\<close>, and the listings and the export of the audit log in
  \<^verbatim>\<open>app/modules/audit/router.py\<close> and \<^verbatim>\<open>app/modules/tenants/router.py\<close>.

  What a probe of another system answers (the database, Redis, the object storage, the mail server, the workers) is a
  parameter: the exception it raises, or its answer. The JSON text of the health page in Redis is the parameter
  \<open>codec\<close>, with the round-trip law \<open>codec_law\<close>; the rows of the CSV export are written by the parameter \<open>csv_row\<close>.
\<close>

section \<open>The health endpoint\<close>

record probes =
  pb_text :: "exn \<Rightarrow> py_str"
  pb_db :: "exn option"
  pb_redis :: "exn option"
  pb_storage :: "exn option"
  pb_workers :: "exn + bool"
  pb_queue :: "exn + nat"
  pb_smtp :: py_str
  pb_version :: py_str

record health_out =
  ho_status :: py_str
  ho_db :: py_str
  ho_redis :: py_str
  ho_storage :: py_str
  ho_smtp :: py_str
  ho_celery_worker :: py_str
  ho_queue_depth :: nat
  ho_outbox_pending :: nat
  ho_dead_letters :: nat
  ho_version :: py_str

definition error_text :: "probes \<Rightarrow> exn \<Rightarrow> py_str" where
  "error_text p x = ''error: '' @ pb_text p x"

definition count_outbox :: "probes \<Rightarrow> py_str \<Rightarrow> db \<Rightarrow> nat" where
  "count_outbox p status d = (if pb_db p = None then length (filter (\<lambda>row. eb_status row = status) (outbox d)) else 0)"

definition health :: "probes \<Rightarrow> db \<Rightarrow> health_out" where
  "health p d =
     (let db_ok = (if pb_db p = None then ''ok'' else ''error'');
          redis_ok = (if pb_redis p = None then ''ok'' else ''error'');
          storage_ok = (case pb_storage p of None \<Rightarrow> ''ok'' | Some x \<Rightarrow> error_text p x);
          celery_worker = (case pb_workers p of Inr pong \<Rightarrow> if pong then ''ok'' else ''no_workers'' | Inl x \<Rightarrow> error_text p x);
          queue_depth = (case pb_queue p of Inr n \<Rightarrow> n | Inl _ \<Rightarrow> 0);
          dead_letters = count_outbox p ''dead_letter'' d;
          is_degraded = (redis_ok \<noteq> ''ok'' \<or> storage_ok \<noteq> ''ok'' \<or> celery_worker \<notin> {''ok'', ''no_workers''} \<or> 0 < dead_letters)
      in \<lparr> ho_status = (if is_degraded then ''degraded'' else ''ok''), ho_db = db_ok, ho_redis = redis_ok, ho_storage = storage_ok,
           ho_smtp = pb_smtp p, ho_celery_worker = celery_worker, ho_queue_depth = queue_depth,
           ho_outbox_pending = count_outbox p ''pending'' d, ho_dead_letters = dead_letters, ho_version = pb_version p \<rparr>)"

text \<open>The status of the answer and its text.\<close>

definition ready :: "probes \<Rightarrow> int \<times> py_str" where
  "ready p = (if pb_db p = None then (200, ''ready'') else (503, ''not_ready''))"

section \<open>The health page of the console\<close>

record service_status =
  sv_name :: py_str
  sv_state :: py_str
  sv_value :: py_str

record system_health =
  sh_services :: "service_status list"
  sh_running :: nat
  sh_queued :: nat
  sh_avg_wait_seconds :: nat
  sh_overall_state :: py_str
  sh_recent_errors :: "(audit_log \<times> audit_columns) list"

text \<open>The workers' answer: running and queued tasks, and the number of workers; a timeout raises.\<close>

record system_probes =
  sp_workers :: "exn + nat \<times> nat \<times> nat"
  sp_bucket :: "exn option"
  sp_smtp :: "exn option"

definition service :: "py_str \<Rightarrow> py_str \<Rightarrow> py_str \<Rightarrow> service_status" where
  "service name state val = \<lparr> sv_name = name, sv_state = state, sv_value = val \<rparr>"

definition worker_service :: "exn + nat \<times> nat \<times> nat \<Rightarrow> service_status" where
  "worker_service answer =
     (case answer of
        Inr (running, queued, workers) \<Rightarrow>
          service ''Engine Workers'' (if 0 < workers then ''ok'' else ''warn'')
            (show_nat running @ '' running / '' @ show_nat workers @ '' worker'' @ (if workers \<noteq> 1 then ''s'' else ''''))
      | Inl _ \<Rightarrow> service ''Engine Workers'' ''warn'' ''unreachable'')"

text \<open>The statuses the code writes to the audit log.\<close>

definition audit_status :: "audit_log \<Rightarrow> py_str" where
  "audit_status a = (if al_success a then ''success'' else ''failure'')"

definition measured_health :: "system_probes \<Rightarrow> (nat \<Rightarrow> audit_columns) \<Rightarrow> db \<Rightarrow> system_health" where
  "measured_health p columns d =
     (let services =
            [service ''API Gateway'' ''ok'' ''operational'', worker_service (sp_workers p),
             (case sp_bucket p of None \<Rightarrow> service ''Object Storage'' ''ok'' ''available'' | Some _ \<Rightarrow> service ''Object Storage'' ''down'' ''unreachable''),
             (case sp_smtp p of None \<Rightarrow> service ''Email Delivery'' ''ok'' ''operational'' | Some _ \<Rightarrow> service ''Email Delivery'' ''warn'' ''SMTP unreachable'')];
          (running, queued, workers) = (case sp_workers p of Inr x \<Rightarrow> x | Inl _ \<Rightarrow> (0, 0, 0))
      in \<lparr> sh_services = services, sh_running = running, sh_queued = queued, sh_avg_wait_seconds = queued * 60,
           sh_overall_state = (if list_ex (\<lambda>s. sv_state s \<in> {''warn'', ''down''}) services then ''degraded'' else ''ok''),
           sh_recent_errors = take 5 (filter (\<lambda>(a, c). audit_status a = ''error'') (audit_rows columns d)) \<rparr>)"

record health_codec =
  hc_dump :: "system_health \<Rightarrow> py_str"
  hc_validate :: "py_str \<Rightarrow> system_health result"

definition health_key :: py_str where
  "health_key = ''platform:health:v1''"

definition get_system_health :: "timestamp \<Rightarrow> health_codec \<Rightarrow> system_probes \<Rightarrow> (nat \<Rightarrow> audit_columns) \<Rightarrow> system_health sys_op" where
  "get_system_health now codec p columns =
     bind_op (read_op (\<lambda>s. redis_get now health_key (fst s))) (\<lambda>cached.
     if truthy cached then read_op (\<lambda>_. hc_validate codec (the cached))
     else
       bind_op (read_op (\<lambda>s. Inr (measured_health p columns (snd s)))) (\<lambda>result.
       bind_op (redis_op (redis_setex now health_key 30 (hc_dump codec result))) (\<lambda>_.
       return_op result)))"

definition system_health_endpoint where
  "system_health_endpoint codec p columns ctx =
     for_user_sys ctx (\<lambda>u. bind_op (read_op (\<lambda>_. require_platform_admin u)) (\<lambda>_. get_system_health (ax_now ctx) codec p columns))"

section \<open>The audit log\<close>

record audit_filter =
  af_user :: "py_str option"
  af_event :: "py_str option"
  af_start :: "timestamp option"
  af_end :: "timestamp option"

definition apply_audit_filters :: "audit_filter \<Rightarrow> audit_log \<times> audit_columns \<Rightarrow> bool" where
  "apply_audit_filters f row \<longleftrightarrow> (case row of (a, c) \<Rightarrow>
     (truthy (af_user f) \<longrightarrow> al_user a = af_user f) \<and> (truthy (af_event f) \<longrightarrow> Some (al_event a) = af_event f)
     \<and> (case af_start f of None \<Rightarrow> True | Some t \<Rightarrow> t \<le> ac_created_at c)
     \<and> (case af_end f of None \<Rightarrow> True | Some t \<Rightarrow> ac_created_at c \<le> t))"

definition CSV_CAP :: nat where
  "CSV_CAP = 50000"

definition csv_header :: "py_str list" where
  "csv_header = [''timestamp'', ''event_type'', ''status'', ''user_id'', ''ip_address_hash'', ''tenant_id'', ''details'']"

definition or_blank :: "py_str option \<Rightarrow> py_str" where
  "or_blank x = (case x of None \<Rightarrow> '''' | Some s \<Rightarrow> s)"

definition csv_fields :: "(timestamp \<Rightarrow> py_str) \<Rightarrow> audit_log \<times> audit_columns \<Rightarrow> py_str list" where
  "csv_fields stamp row = (case row of (a, c) \<Rightarrow>
     [stamp (ac_created_at c), al_event a, audit_status a, or_blank (al_user a), or_blank (ac_ip_hash c), or_blank (al_tenant a), or_blank (ac_details c)])"

text \<open>The rows of an export: those of one workspace, or all of them.\<close>

definition export_rows :: "(nat \<Rightarrow> audit_columns) \<Rightarrow> py_str option \<Rightarrow> audit_filter \<Rightarrow> db \<Rightarrow> (audit_log \<times> audit_columns) list" where
  "export_rows columns tenant_id f d =
     take CSV_CAP (filter (\<lambda>row. (truthy tenant_id \<longrightarrow> al_tenant (fst row) = tenant_id) \<and> apply_audit_filters f row) (audit_rows columns d))"

definition audit_log_csv :: "(py_str list \<Rightarrow> py_str) \<Rightarrow> (timestamp \<Rightarrow> py_str) \<Rightarrow> (nat \<Rightarrow> audit_columns) \<Rightarrow> py_str option \<Rightarrow> audit_filter \<Rightarrow> db \<Rightarrow> py_str list" where
  "audit_log_csv csv_row stamp columns tenant_id f d =
     (let rows = export_rows columns tenant_id f d
      in csv_row csv_header # map (csv_row \<circ> csv_fields stamp) rows
         @ (if CSV_CAP \<le> length rows then [''# Export capped at 50,000 rows. Use date filters to narrow the range.'' @ [CHR 0x0A]] else []))"

definition list_audit_logs :: "(nat \<Rightarrow> audit_columns) \<Rightarrow> audit_filter \<Rightarrow> nat \<Rightarrow> nat \<Rightarrow> db \<Rightarrow> (audit_log \<times> audit_columns) list" where
  "list_audit_logs columns f page per_page d =
     take per_page (drop ((page - 1) * per_page) (filter (apply_audit_filters f) (audit_rows columns d)))"

definition list_tenant_audit_logs where
  "list_tenant_audit_logs columns ctx tenant_id f page per_page =
     gated require_tenant_admin ctx tenant_id (\<lambda>_ _. read_op (\<lambda>d. Inr (take per_page (drop ((page - 1) * per_page)
       (filter (apply_audit_filters f) (filter (\<lambda>row. al_tenant (fst row) = Some tenant_id) (audit_rows columns d)))))))"

definition export_tenant_audit_logs where
  "export_tenant_audit_logs csv_row stamp columns ctx tenant_id f =
     gated require_tenant_admin ctx tenant_id (\<lambda>_ _. read_op (\<lambda>d. Inr (audit_log_csv csv_row stamp columns (Some tenant_id) f d)))"

section \<open>Properties\<close>

text \<open>
  The status of the health endpoint leaves out the database and the mail server: it is ``degraded'' exactly when Redis, the
  storage or the query of the workers fails, or an email is among the dead letters, which are not counted
  while the database is down. Readiness depends on the database only.
\<close>

lemma health_status:
  assumes "\<And>x. error_text p x \<notin> {''ok'', ''no_workers''}"
  shows "ho_status (health p d) = ''ok'' \<longleftrightarrow> pb_redis p = None \<and> pb_storage p = None \<and> (\<exists>pong. pb_workers p = Inr pong)
    \<and> (pb_db p = None \<longrightarrow> (\<forall>row \<in> set (outbox d). eb_status row \<noteq> ''dead_letter''))"
  using assms
  by (cases "pb_storage p"; cases "pb_workers p") (auto simp: health_def count_outbox_def Let_def filter_empty_conv)

lemma health_ok_without_database:
  "pb_redis p = None \<Longrightarrow> pb_storage p = None \<Longrightarrow> pb_workers p = Inr pong \<Longrightarrow> pb_db p = Some x \<Longrightarrow>
   ho_status (health p d) = ''ok'' \<and> ho_db (health p d) = ''error'' \<and> fst (ready p) = 503"
  by (simp add: health_def ready_def count_outbox_def Let_def)

text \<open>No entry has the status the page of the console looks for: its list of recent errors is always empty.\<close>

lemma recent_errors_empty: "sh_recent_errors (measured_health p columns d) = []"
  by (simp add: measured_health_def Let_def audit_status_def filter_empty_conv split: prod.split)

definition codec_law :: "health_codec \<Rightarrow> bool" where
  "codec_law c \<longleftrightarrow> (\<forall>h. hc_validate c (hc_dump c h) = Inr h \<and> hc_dump c h \<noteq> '''')"

text \<open>The page is measured once in thirty seconds; in between, the measured page is shown again, whatever the probes say;
  without Redis there is no page at all.\<close>

lemma system_health_cached:
  assumes "codec_law c" "redis_get now health_key rd = Inr None" "get_system_health now c p columns (rd, d) = (Inr h, (rd', d'))"
    "now \<le> now'" "now' < now + 30"
  shows "h = measured_health p columns d" "get_system_health now' c p' columns' (rd', d2) = (Inr h, (rd', d2))"
proof -
  have "rd_available rd" using assms(2) by (auto simp: redis_get_def split: if_splits)
  then have h: "h = measured_health p columns d" and rd': "redis_setex now health_key 30 (hc_dump c h) rd = Inr rd'"
    using assms(2,3)
    by (auto simp: get_system_health_def bind_op_Inr op_defs truthy_def redis_op_def redis_setex_def split: sum.splits)
  have "redis_get now' health_key rd' = Inr (Some (hc_dump c h))"
    using rd' assms(5) by (auto simp: redis_setex_def redis_get_def split: if_splits)
  then show "h = measured_health p columns d" "get_system_health now' c p' columns' (rd', d2) = (Inr h, (rd', d2))"
    using h assms(1) by (simp_all add: get_system_health_def bind_op_read op_defs truthy_def codec_law_def)
qed

lemma system_health_needs_redis:
  "\<not> rd_available rd \<Longrightarrow> get_system_health now c p columns (rd, d) = (Inl ConnectionError, (rd, d))"
  by (simp add: get_system_health_def bind_op_read redis_get_def)

text \<open>What a workspace sees of the audit log are its own entries; the entries of the console, which name no workspace, are not
  among them.\<close>

lemma tenant_audit_rows_own:
  assumes "list_tenant_audit_logs columns ctx t f page k d = (Inr rows, d')"
  shows "\<forall>row \<in> set rows. al_tenant (fst row) = Some t" "d' = d" "authorised {role_value ADMINISTRATOR} ctx t d"
  using assms admin_gate.gated_authorised [OF assms [unfolded list_tenant_audit_logs_def]]
  by (auto simp: list_tenant_audit_logs_def gated_def current_user_def bind_op_Inr op_defs dest!: in_set_takeD in_set_dropD)

lemma set_audit_rows: "row \<in> set (audit_rows columns d) \<Longrightarrow> fst row \<in> set (audit_logs d)"
  by (auto simp: audit_rows_def in_set_enumerate_eq)

lemma suspension_hidden_from_workspace:
  assumes "suspend_tenant t actor d = (Inr (), d')" "list_tenant_audit_logs columns ctx t f page k d' = (Inr rows, d2)"
  shows "\<forall>row \<in> set rows. fst row \<in> set (audit_logs d)"
proof
  fix row assume row: "row \<in> set rows"
  then have "al_tenant (fst row) = Some t" using tenant_audit_rows_own(1) [OF assms(2)] by blast
  moreover have "fst row \<in> set (audit_logs d')"
    using assms(2) row
    by (auto simp: list_tenant_audit_logs_def gated_def current_user_def bind_op_Inr op_defs dest!: in_set_takeD in_set_dropD set_audit_rows)
  moreover have "audit_logs d' = audit_logs d @ [\<lparr> al_tenant = None, al_user = Some actor, al_event = ''platform.tenant.suspended'',
      al_success = True, al_error_code = None \<rparr>]"
    using assms(1) by (auto simp: suspend_tenant_Inr log_event_def)
  ultimately show "fst row \<in> set (audit_logs d)" by auto
qed

text \<open>The export holds the header and at most \<open>CSV_CAP\<close> rows, all that match when there are fewer, and the warning otherwise.\<close>

lemma audit_csv_shape:
  "length (audit_log_csv csv_row stamp columns t f d)
     = 1 + length (export_rows columns t f d) + (if length (export_rows columns t f d) = CSV_CAP then 1 else 0)"
  "length (export_rows columns t f d) \<le> CSV_CAP"
  by (auto simp: audit_log_csv_def export_rows_def Let_def)

end
