(* ===== verification/Notifications.thy ===== *)
theory Notifications
  imports Database
begin

text \<open>
  In-app notifications and their preferences: \<^verbatim>\<open>app/modules/notifications/service.py\<close> and
  \<^verbatim>\<open>app/modules/settings/service.py\<close>. A notification is created only when the preference of its
  kind is on; a user without a row of preferences has every kind on, while the preferences shown
  to such a user are the defaults.
\<close>

section \<open>Preferences\<close>

datatype pref_field = RUN_COMPLETED | RUN_FAILED | WEEKLY_SUMMARY | MEMBER_JOINED | PRODUCT_UPDATES

fun pref_value :: "pref_field \<Rightarrow> notification_prefs \<Rightarrow> bool" where
  "pref_value RUN_COMPLETED = np_run_completed"
| "pref_value RUN_FAILED = np_run_failed"
| "pref_value WEEKLY_SUMMARY = np_weekly_summary"
| "pref_value MEMBER_JOINED = np_member_joined"
| "pref_value PRODUCT_UPDATES = np_product_updates"

record prefs_out =
  pfo_id :: "py_str option"
  pfo_flags :: "pref_field \<Rightarrow> bool"

definition DEFAULT_NOTIFICATION_PREFERENCES :: prefs_out where
  "DEFAULT_NOTIFICATION_PREFERENCES = \<lparr> pfo_id = None, pfo_flags = (\<lambda>f. f \<in> {RUN_COMPLETED, RUN_FAILED, MEMBER_JOINED}) \<rparr>"

definition prefs_to_out :: "notification_prefs \<Rightarrow> prefs_out" where
  "prefs_to_out row = \<lparr> pfo_id = Some (np_id row), pfo_flags = (\<lambda>f. pref_value f row) \<rparr>"

definition prefs_of :: "py_str \<Rightarrow> db \<Rightarrow> notification_prefs list" where
  "prefs_of user_id d = filter (\<lambda>p. np_user p = user_id) (prefs_tbl d)"

definition get_notification_prefs :: "py_str \<Rightarrow> (db, prefs_out) op" where
  "get_notification_prefs user_id =
     bind_op (read_op (\<lambda>d. scalar_one_or_none (prefs_of user_id d))) (\<lambda>row.
     return_op (case row of None \<Rightarrow> DEFAULT_NOTIFICATION_PREFERENCES | Some r \<Rightarrow> prefs_to_out r))"

definition default_prefs :: "py_str \<Rightarrow> py_str \<Rightarrow> notification_prefs" where
  "default_prefs new_id user_id =
     \<lparr> np_id = new_id, np_user = user_id, np_run_completed = True, np_run_failed = True, np_weekly_summary = False,
       np_member_joined = True, np_product_updates = False \<rparr>"

definition given :: "bool option \<Rightarrow> bool \<Rightarrow> bool" where
  "given requested old = (case requested of None \<Rightarrow> old | Some b \<Rightarrow> b)"

definition patch_prefs :: "(pref_field \<Rightarrow> bool option) \<Rightarrow> notification_prefs \<Rightarrow> notification_prefs" where
  "patch_prefs req row = row \<lparr>
     np_run_completed := given (req RUN_COMPLETED) (np_run_completed row), np_run_failed := given (req RUN_FAILED) (np_run_failed row),
     np_weekly_summary := given (req WEEKLY_SUMMARY) (np_weekly_summary row), np_member_joined := given (req MEMBER_JOINED) (np_member_joined row),
     np_product_updates := given (req PRODUCT_UPDATES) (np_product_updates row) \<rparr>"

definition upsert_notification_prefs :: "py_str \<Rightarrow> py_str \<Rightarrow> (pref_field \<Rightarrow> bool option) \<Rightarrow> (db, prefs_out) op" where
  "upsert_notification_prefs new_id user_id req =
     bind_op (read_op (\<lambda>d. scalar_one_or_none (prefs_of user_id d))) (\<lambda>row.
     case row of
       None \<Rightarrow>
         bind_op (modify_op (\<lambda>d. d \<lparr> prefs_tbl := prefs_tbl d @ [patch_prefs req (default_prefs new_id user_id)] \<rparr>)) (\<lambda>_.
         return_op (prefs_to_out (patch_prefs req (default_prefs new_id user_id))))
     | Some r \<Rightarrow>
         bind_op (modify_op (\<lambda>d. d \<lparr> prefs_tbl := update_rows (\<lambda>p. np_user p = user_id) (patch_prefs req) (prefs_tbl d) \<rparr>)) (\<lambda>_.
         return_op (prefs_to_out (patch_prefs req r))))"

section \<open>Notifications\<close>

definition pref_enabled :: "py_str \<Rightarrow> pref_field \<Rightarrow> (db, bool) op" where
  "pref_enabled user_id field =
     bind_op (read_op (\<lambda>d. scalar_one_or_none (prefs_of user_id d))) (\<lambda>row.
     return_op (case row of None \<Rightarrow> True | Some r \<Rightarrow> pref_value field r))"

definition create_notification_if_enabled ::
    "py_str \<Rightarrow> py_str \<Rightarrow> py_str \<Rightarrow> py_str \<Rightarrow> pref_field \<Rightarrow> py_str \<Rightarrow> py_str \<Rightarrow> (db, user_notification option) op" where
  "create_notification_if_enabled new_id user_id tenant_id kind field title body =
     bind_op (pref_enabled user_id field) (\<lambda>enabled.
     if \<not> enabled then return_op None
     else
       let n = \<lparr> un_id = new_id, un_user = user_id, un_tenant = tenant_id, un_kind = kind, un_title = title, un_body = body,
                 un_is_read = False, un_read_at = None \<rparr> in
       bind_op (modify_op (\<lambda>d. d \<lparr> notifications_tbl := notifications_tbl d @ [n] \<rparr>)) (\<lambda>_. return_op (Some n)))"

definition quoted :: "py_str \<Rightarrow> py_str" where
  "quoted s = [CHR 0x22] @ s @ [CHR 0x22]"

definition notify_run_completed :: "py_str \<Rightarrow> py_str \<Rightarrow> py_str \<Rightarrow> py_str \<Rightarrow> py_str \<Rightarrow> (db, unit) op" where
  "notify_run_completed new_id user_id tenant_id run_name run_id =
     bind_op (create_notification_if_enabled new_id user_id tenant_id ''run_completed'' RUN_COMPLETED ''Run completed''
       (quoted run_name @ '' finished successfully. View results for run '' @ take 8 run_id @ ''.'')) (\<lambda>_. return_op ())"

definition notify_run_failed :: "py_str \<Rightarrow> py_str \<Rightarrow> py_str \<Rightarrow> py_str \<Rightarrow> py_str \<Rightarrow> (db, unit) op" where
  "notify_run_failed new_id user_id tenant_id run_name run_id =
     bind_op (create_notification_if_enabled new_id user_id tenant_id ''run_failed'' RUN_FAILED ''Run failed''
       (quoted run_name @ '' did not complete. Check the run detail for run '' @ take 8 run_id @ ''.'')) (\<lambda>_. return_op ())"

fun notify_each :: "(nat \<Rightarrow> py_str) \<Rightarrow> nat \<Rightarrow> py_str \<Rightarrow> py_str \<Rightarrow> py_str list \<Rightarrow> (db, unit) op" where
  "notify_each ids k tenant_id body [] = return_op ()"
| "notify_each ids k tenant_id body (u # us) =
     bind_op (create_notification_if_enabled (ids k) u tenant_id ''member_joined'' MEMBER_JOINED ''New member joined'' body) (\<lambda>_.
     notify_each ids (Suc k) tenant_id body us)"

definition notify_member_joined_admins :: "(nat \<Rightarrow> py_str) \<Rightarrow> py_str \<Rightarrow> py_str \<Rightarrow> py_str \<Rightarrow> (db, unit) op" where
  "notify_member_joined_admins ids tenant_id member_name member_email =
     bind_op (read_op (\<lambda>d. Inr (map m_user (filter (\<lambda>m. m_tenant m = tenant_id \<and> m_status m = member_status_value MEMBER_ACTIVE
         \<and> m_role m = role_value ADMINISTRATOR) (members d))))) (\<lambda>admins.
     notify_each ids 0 tenant_id (member_name @ '' ('' @ member_email @ '') joined the workspace.'') admins)"

text \<open>The newest first; the table keeps the order of creation.\<close>

definition list_notifications :: "py_str \<Rightarrow> nat \<Rightarrow> db \<Rightarrow> user_notification list" where
  "list_notifications user_id limit d = take limit (rev (filter (\<lambda>n. un_user n = user_id) (notifications_tbl d)))"

definition mark_read :: "timestamp \<Rightarrow> py_str \<Rightarrow> py_str \<Rightarrow> (db, unit) op" where
  "mark_read now user_id notification_id =
     modify_op (\<lambda>d. d \<lparr> notifications_tbl := update_rows (\<lambda>n. un_id n = notification_id \<and> un_user n = user_id)
       (\<lambda>n. n \<lparr> un_is_read := True, un_read_at := Some now \<rparr>) (notifications_tbl d) \<rparr>)"

definition mark_all_read :: "timestamp \<Rightarrow> py_str \<Rightarrow> (db, unit) op" where
  "mark_all_read now user_id =
     modify_op (\<lambda>d. d \<lparr> notifications_tbl := update_rows (\<lambda>n. un_user n = user_id \<and> \<not> un_is_read n)
       (\<lambda>n. n \<lparr> un_is_read := True, un_read_at := Some now \<rparr>) (notifications_tbl d) \<rparr>)"

end
