(* ===== verification/Invites.thy ===== *)
theory Invites
  imports Auth Notifications
begin

text \<open>
  Invitations to a workspace: \<^verbatim>\<open>app/modules/invites/service.py\<close> and \<^verbatim>\<open>app/modules/invites/router.py\<close>.

  An invitation is found by the hash of the secret mailed to the invited person. Identifiers and secrets
  are draws of the request's \<open>env\<close>; the creation time of an invitation, which is only displayed, is not kept, and the table
  is in order of creation.
\<close>

section \<open>Queries\<close>

fun invitation_status_value :: "invitation_status \<Rightarrow> py_str" where
  "invitation_status_value INVITE_PENDING = ''pending''"
| "invitation_status_value INVITE_ACCEPTED = ''accepted''"
| "invitation_status_value INVITE_EXPIRED = ''expired''"
| "invitation_status_value INVITE_CANCELLED = ''cancelled''"

record invite_list_item =
  il_id :: py_str
  il_email :: py_str
  il_role :: py_str
  il_status :: py_str
  il_expires_at :: timestamp
  il_invited_by :: py_str

definition list_tenant_invites :: "py_str \<Rightarrow> py_str \<Rightarrow> db \<Rightarrow> invite_list_item list" where
  "list_tenant_invites tenant_id status d =
     concat (map (\<lambda>v. map (\<lambda>u. \<lparr> il_id = iv_id v, il_email = iv_email v, il_role = iv_role v, il_status = invitation_status_value (iv_status v),
         il_expires_at = iv_expires_at v, il_invited_by = u_name u \<rparr>) (filter (\<lambda>u. u_id u = iv_invited_by v) (users d)))
       (rev (filter (\<lambda>v. iv_tenant v = tenant_id \<and> invitation_status_value (iv_status v) = status) (invitations d))))"

record invite_data =
  id_email :: py_str
  id_tenant_name :: py_str
  id_inviter_name :: py_str
  id_role :: py_str
  id_expires_at :: timestamp

definition invalid_invite :: exn where
  "invalid_invite = ECLException ''INVALID_INVITE_TOKEN'' 400"

definition invite_query :: "env \<Rightarrow> py_str \<Rightarrow> invitation \<Rightarrow> bool" where
  "invite_query e raw v \<longleftrightarrow> iv_hash v = ev_hash_token e raw"

definition validate_invite :: "env \<Rightarrow> py_str \<Rightarrow> db \<Rightarrow> invite_data result" where
  "validate_invite e raw_token d =
     (case concat (map (\<lambda>v. concat (map (\<lambda>t. map (\<lambda>u. (v, t, u)) (filter (\<lambda>u. u_id u = iv_invited_by v) (users d)))
         (filter (\<lambda>t. t_id t = iv_tenant v) (tenants d)))) (filter (invite_query e raw_token) (invitations d))) of
        [] \<Rightarrow> Inl invalid_invite
      | (v, t, u) # _ \<Rightarrow>
          if iv_status v \<noteq> INVITE_PENDING \<or> iv_expires_at v < ev_now e then Inl invalid_invite
          else Inr \<lparr> id_email = iv_email v, id_tenant_name = t_name t, id_inviter_name = u_name u, id_role = iv_role v,
                     id_expires_at = iv_expires_at v \<rparr>)"

section \<open>Accepting\<close>

record accept_request =
  aq_token :: py_str
  aq_name :: py_str
  aq_password :: py_str

definition active_member :: "py_str \<Rightarrow> py_str \<Rightarrow> membership \<Rightarrow> bool" where
  "active_member tenant_id user_id m \<longleftrightarrow> m_user m = user_id \<and> m_tenant m = tenant_id \<and> m_status m = member_status_value MEMBER_ACTIVE"

definition already_member :: exn where
  "already_member = ECLException ''ALREADY_MEMBER'' 409"

text \<open>The account of the invited address, checked against the password given, or a new one.\<close>

definition invited_user :: "env \<Rightarrow> invitation \<Rightarrow> accept_request \<Rightarrow> (db, user) op" where
  "invited_user e iv req =
     bind_op (get_active_user_by_email (iv_email iv)) (\<lambda>found.
     case found of
       Some u \<Rightarrow> bind_op (guard_op (ev_verify e (aq_password req) (u_hashed_password u)) InvalidCredentialsError) (\<lambda>_. return_op u)
     | None \<Rightarrow>
         let u = new_user e (ev_ulid e 0) (iv_email iv) (aq_name req) (aq_password req) True in
         bind_op (modify_op (\<lambda>d. d \<lparr> users := users d @ [u] \<rparr>)) (\<lambda>_. return_op u))"

text \<open>The flush of a new membership: the table has a unique constraint on user and workspace.\<close>

definition insert_membership :: "membership \<Rightarrow> (db, unit) op" where
  "insert_membership m =
     bind_op (read_op Inr) (\<lambda>d.
     bind_op (guard_op (\<not> list_ex (\<lambda>x. m_user x = m_user m \<and> m_tenant x = m_tenant m) (members d)) (IntegrityError ''memberships_unique'')) (\<lambda>_.
     modify_op (\<lambda>d. d \<lparr> members := members d @ [m] \<rparr>)))"

definition accept_row :: "env \<Rightarrow> invitation \<Rightarrow> invitation" where
  "accept_row e v = v \<lparr> iv_status := INVITE_ACCEPTED, iv_accepted_at := Some (ev_now e) \<rparr>"

definition accept_invite :: "env \<Rightarrow> accept_request \<Rightarrow> py_str \<Rightarrow> (db, auth_response) op" where
  "accept_invite e req ip =
     bind_op (read_op (\<lambda>d. one_or_raise invalid_invite (filter (invite_query e (aq_token req)) (invitations d)))) (\<lambda>iv.
     bind_op (guard_op (iv_status iv = INVITE_PENDING) invalid_invite) (\<lambda>_.
     bind_op (guard_op (\<not> iv_expires_at iv < ev_now e) invalid_invite) (\<lambda>_.
     bind_op (check_password e (aq_password req) (Some (aq_name req)) None) (\<lambda>_.
     bind_op (invited_user e iv req) (\<lambda>u.
     bind_op (read_op (\<lambda>d. scalar_one_or_none (filter (active_member (iv_tenant iv) (u_id u)) (members d)))) (\<lambda>existing.
     bind_op (guard_op (existing = None) already_member) (\<lambda>_.
     let m = new_membership e (ev_ulid e 1) (u_id u) (iv_tenant iv) (iv_role iv) in
     bind_op (insert_membership m) (\<lambda>_.
     bind_op (modify_op (\<lambda>d. d \<lparr> invitations := update_rows (invite_query e (aq_token req)) (accept_row e) (invitations d) \<rparr>)) (\<lambda>_.
     bind_op (read_op (\<lambda>d. scalar_one (filter (\<lambda>t. t_id t = iv_tenant iv) (tenants d)))) (\<lambda>t.
     bind_op (create_session_tokens e 2 0 u m t True ip ''Invite accepted'') (\<lambda>auth.
     bind_op (modify_op (log_event ''invite.accepted'' (Some (u_id u)) None True None)) (\<lambda>_.
     bind_op (notify_member_joined_admins (\<lambda>i. ev_ulid e (7 + i)) (iv_tenant iv) (u_name u) (u_email u)) (\<lambda>_.
     bind_op (modify_op (queue_email_in_outbox (ev_ulid e 6) ''send_welcome_to_tenant_email''
       [(''user_id'', u_id u), (''tenant_id'', iv_tenant iv)])) (\<lambda>_.
     return_op auth))))))))))))))"

section \<open>Sending\<close>

record invite_item =
  ii_email :: py_str
  ii_role :: py_str

definition email_not_verified :: exn where
  "email_not_verified = ECLException ''EMAIL_NOT_VERIFIED'' 403"

definition pending_for :: "py_str \<Rightarrow> py_str \<Rightarrow> invitation \<Rightarrow> bool" where
  "pending_for tenant_id email v \<longleftrightarrow> iv_email v = email \<and> iv_tenant v = tenant_id \<and> iv_status v = INVITE_PENDING"

definition invite_free :: "py_str \<Rightarrow> py_str \<Rightarrow> (db, unit) op" where
  "invite_free tenant_id email =
     bind_op (read_op (\<lambda>d. scalar_one_or_none (filter (pending_for tenant_id email) (invitations d)))) (\<lambda>pending.
     bind_op (guard_op (pending = None) (ECLException ''INVITE_ALREADY_PENDING'' 409)) (\<lambda>_.
     bind_op (get_active_user_by_email email) (\<lambda>found.
     case found of
       None \<Rightarrow> return_op ()
     | Some u \<Rightarrow>
         bind_op (read_op (\<lambda>d. scalar_one_or_none (filter (active_member tenant_id (u_id u)) (members d)))) (\<lambda>mem.
         guard_op (mem = None) already_member))))"

definition new_invitation :: "env \<Rightarrow> py_str \<Rightarrow> py_str \<Rightarrow> py_str \<Rightarrow> py_str \<Rightarrow> py_str \<Rightarrow> py_str \<Rightarrow> invitation" where
  "new_invitation e new_id tenant_id inviter_id email role raw =
     \<lparr> iv_id = new_id, iv_email = email, iv_tenant = tenant_id, iv_invited_by = inviter_id, iv_role = role, iv_hash = ev_hash_token e raw,
       iv_status = INVITE_PENDING, iv_expires_at = ev_now e + 7 * 86400, iv_accepted_at = None \<rparr>"

definition queue_invite_email :: "py_str \<Rightarrow> py_str \<Rightarrow> py_str \<Rightarrow> db \<Rightarrow> db" where
  "queue_invite_email new_id invitation_id raw =
     queue_email_in_outbox new_id ''send_invite_email'' [(''invitation_id'', invitation_id), (''raw_token'', raw)]"

definition send_invite :: "env \<Rightarrow> py_str \<Rightarrow> invite_item \<Rightarrow> user \<Rightarrow> (db, invitation) op" where
  "send_invite e tenant_id req inviter =
     bind_op (guard_op (u_is_email_verified inviter) email_not_verified) (\<lambda>_.
     bind_op (invite_free tenant_id (ii_email req)) (\<lambda>_.
     bind_op (guard_op (ii_role req \<in> set role_values) (ECLException ''VALIDATION_ERROR'' 422)) (\<lambda>_.
     let iv = new_invitation e (ev_ulid e 0) tenant_id (u_id inviter) (ii_email req) (ii_role req) (ev_raw e 0) in
     bind_op (modify_op (\<lambda>d. d \<lparr> invitations := invitations d @ [iv] \<rparr>)) (\<lambda>_.
     bind_op (modify_op (log_event ''invite.sent'' (Some (u_id inviter)) None True None)) (\<lambda>_.
     bind_op (modify_op (queue_invite_email (ev_ulid e 1) (iv_id iv) (ev_raw e 0))) (\<lambda>_.
     return_op iv))))))"

fun each_free :: "py_str \<Rightarrow> invite_item list \<Rightarrow> (db, unit) op" where
  "each_free tenant_id [] = return_op ()"
| "each_free tenant_id (i # items) = bind_op (invite_free tenant_id (ii_email i)) (\<lambda>_. each_free tenant_id items)"

definition batch_rows :: "env \<Rightarrow> py_str \<Rightarrow> py_str \<Rightarrow> invite_item list \<Rightarrow> (nat \<times> invitation) list" where
  "batch_rows e tenant_id inviter_id items =
     map (\<lambda>(k, i). (k, new_invitation e (ev_ulid e k) tenant_id inviter_id (ii_email i) (ii_role i) (ev_raw e k))) (zip [0..<length items] items)"

definition batch_send_invites :: "env \<Rightarrow> py_str \<Rightarrow> invite_item list \<Rightarrow> user \<Rightarrow> (db, (py_str \<times> py_str \<times> py_str) list) op" where
  "batch_send_invites e tenant_id items inviter =
     bind_op (guard_op (u_is_email_verified inviter) email_not_verified) (\<lambda>_.
     bind_op (guard_op (distinct (map ii_email items)) (ECLException ''DUPLICATE_EMAILS'' 400)) (\<lambda>_.
     bind_op (guard_op (\<forall>i \<in> set items. ii_role i \<in> set role_values) (ECLException ''VALIDATION_ERROR'' 422)) (\<lambda>_.
     bind_op (each_free tenant_id items) (\<lambda>_.
     let created = batch_rows e tenant_id (u_id inviter) items in
     bind_op (modify_op (\<lambda>d. d \<lparr> invitations := invitations d @ map snd created \<rparr>)) (\<lambda>_.
     bind_op (modify_op (\<lambda>d. fold (\<lambda>(k, iv). queue_invite_email (ev_ulid e (length items + k)) (iv_id iv) (ev_raw e k)) created d)) (\<lambda>_.
     bind_op (modify_op (log_event ''invite.batch_sent'' (Some (u_id inviter)) None True None)) (\<lambda>_.
     return_op (map (\<lambda>(k, iv). (iv_id iv, iv_email iv, iv_role iv)) created))))))))"

section \<open>Endpoints\<close>

text \<open>The validator of an address.\<close>

definition normalize_email :: "invite_item \<Rightarrow> invite_item" where
  "normalize_email i = i \<lparr> ii_email := py_strip (py_lower (ii_email i)) \<rparr>"

definition send_invite_endpoint where
  "send_invite_endpoint e ctx tenant_id item =
     gated require_tenant_admin ctx tenant_id (\<lambda>user _. send_invite e tenant_id (normalize_email item) user)"

definition batch_invite_endpoint where
  "batch_invite_endpoint e ctx tenant_id items =
     bind_op (guard_op (1 \<le> length items \<and> length items \<le> 20) (ValueError ''validation'')) (\<lambda>_.
     gated require_tenant_admin ctx tenant_id (\<lambda>user _. batch_send_invites e tenant_id (map normalize_email items) user))"

definition invite_by_id :: "py_str \<Rightarrow> (db, invitation) op" where
  "invite_by_id invite_id = read_op (\<lambda>d. one_or_raise not_found (filter (\<lambda>v. iv_id v = invite_id) (invitations d)))"

definition write_invite :: "py_str \<Rightarrow> (invitation \<Rightarrow> invitation) \<Rightarrow> (db, unit) op" where
  "write_invite invite_id f = modify_op (\<lambda>d. d \<lparr> invitations := update_rows (\<lambda>v. iv_id v = invite_id) f (invitations d) \<rparr>)"

definition cancel_invite :: "auth_ctx \<Rightarrow> py_str \<Rightarrow> (db, unit) op" where
  "cancel_invite ctx invite_id =
     bind_op (current_user ctx) (\<lambda>u.
     bind_op (invite_by_id invite_id) (\<lambda>iv.
     bind_op (read_op (require_tenant_admin (iv_tenant iv) u)) (\<lambda>_.
     write_invite invite_id (\<lambda>v. v \<lparr> iv_status := INVITE_CANCELLED \<rparr>))))"

definition resend_row :: "env \<Rightarrow> invitation \<Rightarrow> invitation" where
  "resend_row e v = v \<lparr> iv_hash := ev_hash_token e (ev_raw e 0), iv_expires_at := ev_now e + 7 * 86400 \<rparr>"

definition resend_invite :: "env \<Rightarrow> auth_ctx \<Rightarrow> py_str \<Rightarrow> (db, unit) op" where
  "resend_invite e ctx invite_id =
     bind_op (current_user ctx) (\<lambda>u.
     bind_op (invite_by_id invite_id) (\<lambda>iv.
     bind_op (read_op (require_tenant_admin (iv_tenant iv) u)) (\<lambda>_.
     write_invite invite_id (resend_row e))))"

definition list_tenant_invites_endpoint where
  "list_tenant_invites_endpoint ctx tenant_id status =
     gated require_tenant_admin ctx tenant_id (\<lambda>_ _. read_op (\<lambda>d. Inr (list_tenant_invites tenant_id status d)))"

section \<open>Lemmas\<close>

definition only_notifies :: "db \<Rightarrow> db \<Rightarrow> bool" where
  "only_notifies d0 d \<longleftrightarrow> invitations d = invitations d0 \<and> members d = members d0 \<and> outbox d = outbox d0 \<and> tenants d = tenants d0 \<and> users d = users d0"

lemma notify_each_same: "keeps (only_notifies d0) (notify_each ids k t body us)"
  by (induction us arbitrary: k)
    (auto intro!: keeps_rules keeps_modify simp: create_notification_if_enabled_def pref_enabled_def Let_def only_notifies_def)

lemma notify_admins_same: "keeps (only_notifies d0) (notify_member_joined_admins ids t n m)"
  unfolding notify_member_joined_admins_def by (intro keeps_rules notify_each_same)

lemma session_tokens_same: "keeps (only_notifies d0) (create_session_tokens e k j u m t remember ip msg)"
  unfolding create_session_tokens_def create_access_token_def Let_def
  by (intro keeps_rules keeps_modify) (simp_all add: only_notifies_def)

lemma insert_membership_Inr:
  "insert_membership m d = (Inr x, d') \<longleftrightarrow>
     d' = d \<lparr> members := members d @ [m] \<rparr> \<and> (\<forall>y \<in> set (members d). \<not> (m_user y = m_user m \<and> m_tenant y = m_tenant m))"
  by (auto simp: insert_membership_def bind_op_Inr op_defs guard_op_def list_ex_iff)

lemma invited_user_Inr:
  assumes "invited_user e v req d = (Inr u, d')"
  shows "invitations d' = invitations d" "members d' = members d" "outbox d' = outbox d"
    "filter (email_query (iv_email v)) (users d) = [u] \<and> ev_verify e (aq_password req) (u_hashed_password u) \<and> d' = d
     \<or> filter (email_query (iv_email v)) (users d) = [] \<and> u = new_user e (ev_ulid e 0) (iv_email v) (aq_name req) (aq_password req) True"
  using assms
  by (auto simp: invited_user_def bind_op_Inr op_defs guard_op_def get_active_user_by_email_Inr Let_def split: option.splits if_splits)

lemma accept_invite_Inr:
  assumes "accept_invite e req ip d = (Inr r, d')"
  obtains v u t d1 d2 where
    "filter (invite_query e (aq_token req)) (invitations d) = [v]" "iv_status v = INVITE_PENDING" "\<not> iv_expires_at v < ev_now e"
    "invited_user e v req d = (Inr u, d1)" "\<forall>y \<in> set (members d). \<not> (m_user y = u_id u \<and> m_tenant y = iv_tenant v)"
    "members d' = members d @ [new_membership e (ev_ulid e 1) (u_id u) (iv_tenant v) (iv_role v)]"
    "invitations d' = update_rows (invite_query e (aq_token req)) (accept_row e) (invitations d)"
    "fst (create_session_tokens e 2 0 u (new_membership e (ev_ulid e 1) (u_id u) (iv_tenant v) (iv_role v)) t True ip ''Invite accepted'' d2) = Inr r"
proof -
  let ?m = "\<lambda>u v. new_membership e (ev_ulid e 1) (u_id u) (iv_tenant v) (iv_role v)"
  from assms obtain v u t d1 d2 d3 where
    v: "filter (invite_query e (aq_token req)) (invitations d) = [v]" "iv_status v = INVITE_PENDING" "\<not> iv_expires_at v < ev_now e"
    and u: "invited_user e v req d = (Inr u, d1)"
    and m: "insert_membership (?m u v) d1 = (Inr (), d2)"
    and s: "create_session_tokens e 2 0 u (?m u v) t True ip ''Invite accepted''
      (d2 \<lparr> invitations := update_rows (invite_query e (aq_token req)) (accept_row e) (invitations d2) \<rparr>) = (Inr r, d3)"
    and n: "\<exists>d4. notify_member_joined_admins (\<lambda>i. ev_ulid e (7 + i)) (iv_tenant v) (u_name u) (u_email u)
        (log_event ''invite.accepted'' (Some (u_id u)) None True None d3) = (Inr (), d4)
      \<and> d' = queue_email_in_outbox (ev_ulid e 6) ''send_welcome_to_tenant_email'' [(''user_id'', u_id u), (''tenant_id'', iv_tenant v)] d4"
    unfolding accept_invite_def check_password_def Let_def
    by (auto simp: bind_op_Inr op_defs guard_op_def split: list.splits if_splits)
  let ?d2 = "d2 \<lparr> invitations := update_rows (invite_query e (aq_token req)) (accept_row e) (invitations d2) \<rparr>"
  have d3: "only_notifies ?d2 d3" by (rule keeps_Inr [OF session_tokens_same s]) (simp add: only_notifies_def)
  from n obtain d4 where d4: "notify_member_joined_admins (\<lambda>i. ev_ulid e (7 + i)) (iv_tenant v) (u_name u) (u_email u)
        (log_event ''invite.accepted'' (Some (u_id u)) None True None d3) = (Inr (), d4)"
      and d': "d' = queue_email_in_outbox (ev_ulid e 6) ''send_welcome_to_tenant_email'' [(''user_id'', u_id u), (''tenant_id'', iv_tenant v)] d4"
    by blast
  have "only_notifies ?d2 d4"
    by (rule keeps_Inr [OF notify_admins_same d4]) (use d3 in \<open>simp add: only_notifies_def log_event_def\<close>)
  moreover have "d2 = d1 \<lparr> members := members d1 @ [?m u v] \<rparr>" "\<forall>y \<in> set (members d1). \<not> (m_user y = u_id u \<and> m_tenant y = iv_tenant v)"
    using m by (auto simp: insert_membership_Inr new_membership_def)
  ultimately have "members d' = members d @ [?m u v]" "invitations d' = update_rows (invite_query e (aq_token req)) (accept_row e) (invitations d)"
    "\<forall>y \<in> set (members d). \<not> (m_user y = u_id u \<and> m_tenant y = iv_tenant v)"
    using invited_user_Inr(1,2) [OF u] d' by (simp_all add: only_notifies_def queue_email_in_outbox_def)
  then show thesis using v u s by (intro that [of v u d1 t ?d2]) simp_all
qed

section \<open>One use per secret\<close>

text \<open>No pending invitation answers to the secret with hash \<open>h\<close>.\<close>

definition spent :: "py_str \<Rightarrow> db \<Rightarrow> bool" where
  "spent h d \<longleftrightarrow> length (filter (\<lambda>v. iv_hash v = h) (invitations d)) \<le> 1 \<and> (\<forall>v \<in> set (invitations d). iv_hash v = h \<longrightarrow> iv_status v \<noteq> INVITE_PENDING)"

lemma spent_invitations: "invitations d' = invitations d \<Longrightarrow> spent h d' = spent h d"
  by (simp add: spent_def)

lemma spent_append: "spent h d \<Longrightarrow> \<forall>v \<in> set vs. iv_hash v \<noteq> h \<Longrightarrow> spent h (d \<lparr> invitations := invitations d @ vs \<rparr>)"
  by (auto simp: spent_def filter_empty_conv)

lemma spent_update:
  assumes "spent h d" "\<And>v. P v \<Longrightarrow> iv_hash (f v) \<noteq> h \<or> (iv_hash (f v) = iv_hash v \<and> (iv_status (f v) = iv_status v \<or> iv_status (f v) \<noteq> INVITE_PENDING))"
  shows "spent h (d \<lparr> invitations := update_rows P f (invitations d) \<rparr>)"
proof -
  have "length (filter (\<lambda>v. iv_hash v = h) (update_rows P f vs)) \<le> length (filter (\<lambda>v. iv_hash v = h) vs)" for vs
  proof (induction vs)
    case (Cons v vs)
    have *: "P v \<and> iv_hash (f v) = h \<longrightarrow> iv_hash v = h" using assms(2) [of v] by metis
    show ?case
    proof (cases "P v \<and> iv_hash (f v) = h")
      case True
      with * show ?thesis using Cons by simp
    next
      case False
      then show ?thesis using Cons by (cases "P v") simp_all
    qed
  qed simp
  then have "length (filter (\<lambda>v. iv_hash v = h) (update_rows P f (invitations d))) \<le> 1"
    using assms(1) by (auto simp: spent_def intro: order_trans)
  moreover have "iv_status (if P v then f v else v) \<noteq> INVITE_PENDING"
    if "v \<in> set (invitations d)" "iv_hash (if P v then f v else v) = h" for v
    using assms(1) assms(2) [of v] that unfolding spent_def by (metis (full_types))
  ultimately show ?thesis unfolding spent_def by (fastforce simp: set_update_rows)
qed

text \<open>
  The requests on invitations and the expiry job, their answers ignored; \<open>h\<close> is not the hash of a secret they draw.
\<close>

definition unit_op :: "('s, 'a) op \<Rightarrow> ('s, unit) op" where
  "unit_op m = bind_op m (\<lambda>_. return_op ())"

inductive invite_request :: "py_str \<Rightarrow> (db, unit) op \<Rightarrow> bool" for h where
  accept: "invite_request h (unit_op (accept_invite e req ip))"
| send: "ev_hash_token e (ev_raw e 0) \<noteq> h \<Longrightarrow> invite_request h (unit_op (send_invite_endpoint e ctx tenant_id item))"
| batch: "\<forall>k < length items. ev_hash_token e (ev_raw e k) \<noteq> h \<Longrightarrow> invite_request h (unit_op (batch_invite_endpoint e ctx tenant_id items))"
| cancel: "invite_request h (cancel_invite ctx invite_id)"
| resend: "ev_hash_token e (ev_raw e 0) \<noteq> h \<Longrightarrow> invite_request h (resend_invite e ctx invite_id)"

inductive_cases invite_requestE: "invite_request h m"

lemma keeps_unit: "keeps I m \<Longrightarrow> keeps I (unit_op m)"
  unfolding unit_op_def by (intro keeps_rules)

lemma only_notifies_spent: "keeps (only_notifies d) m \<Longrightarrow> (\<And>d0. keeps (only_notifies d0) m) \<Longrightarrow> keeps (spent h) m"
  by (auto simp: keeps_def only_notifies_def spent_def)

lemma accept_keeps_spent: "keeps (spent h) (accept_invite e req ip)"
proof -
  have n: "keeps (spent h) (notify_member_joined_admins ids t n x)" for ids t n x
    using notify_admins_same by (rule only_notifies_spent) (rule notify_admins_same)
  have s: "keeps (spent h) (create_session_tokens e 2 0 u m t True ip msg)" for u m t msg
    using session_tokens_same by (rule only_notifies_spent) (rule session_tokens_same)
  have "keeps (spent h) (check_password e p n x)" for p n x
    by (cases "validate_password_full (ev_pwned e) p n x") (auto simp: check_password_def keeps_return keeps_raise)
  moreover have "keeps (spent h) (invited_user e v req)" for v
    unfolding invited_user_def get_active_user_by_email_def Let_def by (intro keeps_rules keeps_modify) (simp add: spent_def)
  moreover have "keeps (spent h) (insert_membership m)" for m
    unfolding insert_membership_def by (intro keeps_rules keeps_modify) (simp add: spent_def)
  moreover have "spent h (d \<lparr> invitations := update_rows P (accept_row e) (invitations d) \<rparr>)" if "spent h d" for d P
    using that by (rule spent_update) (simp add: accept_row_def)
  ultimately show ?thesis unfolding accept_invite_def Let_def
    by (intro keeps_rules keeps_modify n s) (simp_all add: spent_def log_event_def queue_email_in_outbox_def)
qed

lemma free_keeps: "keeps I (invite_free t email)"
  unfolding invite_free_def get_active_user_by_email_def by (intro keeps_rules)

lemma each_free_keeps: "keeps I (each_free t items)"
  by (induction items) (auto intro: keeps_rules free_keeps)

lemma invitations_fold_queue: "invitations (fold (\<lambda>(k, v). queue_invite_email (f k) (iv_id v) (g k)) rows d) = invitations d"
  by (induction rows arbitrary: d) (auto simp: queue_invite_email_def queue_email_in_outbox_def)

lemma send_keeps_spent: "ev_hash_token e (ev_raw e 0) \<noteq> h \<Longrightarrow> keeps (spent h) (send_invite e t item u)"
  unfolding send_invite_def Let_def
  by (intro keeps_rules keeps_modify free_keeps spent_append)
    (simp_all add: new_invitation_def spent_def log_event_def queue_invite_email_def queue_email_in_outbox_def)

lemma batch_keeps_spent:
  assumes "\<forall>k < length items. ev_hash_token e (ev_raw e k) \<noteq> h"
  shows "keeps (spent h) (batch_send_invites e t items u)"
proof -
  have "iv_hash v \<noteq> h" if v: "v \<in> set (map snd (batch_rows e t (u_id u) items))" for v
  proof -
    from v obtain k where "k < length items" "iv_hash v = ev_hash_token e (ev_raw e k)"
      by (auto simp: batch_rows_def new_invitation_def in_set_zip)
    then show ?thesis using assms by simp
  qed
  then show ?thesis unfolding batch_send_invites_def Let_def
    by (intro keeps_rules keeps_modify each_free_keeps spent_append)
      (simp_all add: spent_def log_event_def invitations_fold_queue)
qed

lemma invite_request_keeps_spent: "invite_request h m \<Longrightarrow> keeps (spent h) m"
proof (elim invite_requestE, goal_cases)
  case (1 e req ip) then show ?case by (simp add: keeps_unit accept_keeps_spent)
next
  case (2 e ctx t item) then show ?case
    by (auto simp: send_invite_endpoint_def intro!: keeps_unit keeps_gated send_keeps_spent)
next
  case (3 items e ctx t) then show ?case
    by (auto simp: batch_invite_endpoint_def intro!: keeps_unit keeps_bind keeps_guard keeps_gated batch_keeps_spent)
next
  case (4 ctx i)
  have "spent h (d \<lparr> invitations := update_rows P (\<lambda>v. v \<lparr> iv_status := INVITE_CANCELLED \<rparr>) (invitations d) \<rparr>)" if "spent h d" for d P
    using that by (rule spent_update) simp
  then show ?case unfolding 4 cancel_invite_def current_user_def invite_by_id_def write_invite_def
    by (intro keeps_rules keeps_modify) auto
next
  case (5 e ctx i)
  have "spent h (d \<lparr> invitations := update_rows P (resend_row e) (invitations d) \<rparr>)" if "spent h d" for d P
    using that by (rule spent_update) (use 5(2) in \<open>simp add: resend_row_def\<close>)
  then show ?case unfolding 5 resend_invite_def current_user_def invite_by_id_def write_invite_def
    by (intro keeps_rules keeps_modify) auto
qed

lemma spent_refused:
  assumes "spent (ev_hash_token e (aq_token req)) d"
  shows "accept_invite e req ip d = (Inl invalid_invite, d)"
proof -
  let ?vs = "filter (invite_query e (aq_token req)) (invitations d)"
  have "length ?vs \<le> 1" "\<forall>v \<in> set ?vs. iv_status v \<noteq> INVITE_PENDING" using assms by (simp_all add: spent_def invite_query_def [abs_def])
  then consider "?vs = []" | v where "?vs = [v]" "iv_status v \<noteq> INVITE_PENDING" by (cases ?vs) auto
  then show ?thesis by cases (simp_all add: accept_invite_def op_simps op_defs)
qed

section \<open>Properties\<close>

text \<open>
  C30. An invitation is used once. An acceptance that succeeds found the one pending, unexpired invitation with the hash of the
  secret presented, and adds exactly one active membership, in the workspace and with the role of the
  invitation, for a user who had none there; after any further requests on invitations, the
  same secret is refused, whatever else is presented with it.
\<close>

theorem invitation_used_once:
  assumes accepted: "accept_invite e req ip d = (Inr r, d')"
    and later: "\<forall>m \<in> set ms. invite_request (ev_hash_token e (aq_token req)) m"
    and again: "ev_hash_token e' (aq_token req') = ev_hash_token e (aq_token req)"
  shows "(\<exists>v (u :: user). filter (invite_query e (aq_token req)) (invitations d) = [v] \<and> iv_status v = INVITE_PENDING \<and> ev_now e \<le> iv_expires_at v
      \<and> (\<forall>m \<in> set (members d). m_user m = u_id u \<longrightarrow> m_tenant m \<noteq> iv_tenant v)
      \<and> members d' = members d @ [new_membership e (ev_ulid e 1) (u_id u) (iv_tenant v) (iv_role v)])
    \<and> fst (accept_invite e' req' ip' (run_requests ms d')) = Inl invalid_invite"
proof -
  let ?h = "ev_hash_token e (aq_token req)"
  from accepted obtain v u t d1 d2 where v: "filter (invite_query e (aq_token req)) (invitations d) = [v]" "iv_status v = INVITE_PENDING"
    "\<not> iv_expires_at v < ev_now e" "invited_user e v req d = (Inr u, d1)" "\<forall>y \<in> set (members d). \<not> (m_user y = u_id u \<and> m_tenant y = iv_tenant v)"
    "members d' = members d @ [new_membership e (ev_ulid e 1) (u_id u) (iv_tenant v) (iv_role v)]"
    "invitations d' = update_rows (invite_query e (aq_token req)) (accept_row e) (invitations d)"
    "fst (create_session_tokens e 2 0 u (new_membership e (ev_ulid e 1) (u_id u) (iv_tenant v) (iv_role v)) t True ip ''Invite accepted'' d2) = Inr r"
    by (rule accept_invite_Inr)
  have q: "invite_query e (aq_token req) = (\<lambda>v. iv_hash v = ?h)" by (simp add: invite_query_def [abs_def])
  have "filter (\<lambda>v. iv_hash v = ?h) (invitations d') = update_rows (\<lambda>v. iv_hash v = ?h) (accept_row e) [v]"
    unfolding v(7) q using v(1) [unfolded q] by (subst filter_update_rows_same) (simp_all add: accept_row_def)
  then have "filter (\<lambda>v. iv_hash v = ?h) (invitations d') = [accept_row e v] \<or> filter (\<lambda>v. iv_hash v = ?h) (invitations d') = [v] \<and> iv_hash v \<noteq> ?h"
    by auto
  moreover have "iv_hash v = ?h" using v(1) q by (metis filter_eq_ConsD)
  ultimately have one: "filter (\<lambda>v. iv_hash v = ?h) (invitations d') = [accept_row e v]" by blast
  have "\<forall>w \<in> set (invitations d'). iv_hash w = ?h \<longrightarrow> iv_status w \<noteq> INVITE_PENDING"
  proof (intro ballI impI)
    fix w assume "w \<in> set (invitations d')" "iv_hash w = ?h"
    then have "w \<in> set (filter (\<lambda>v. iv_hash v = ?h) (invitations d'))" by simp
    then show "iv_status w \<noteq> INVITE_PENDING" unfolding one by (simp add: accept_row_def)
  qed
  then have "spent ?h d'" unfolding spent_def one by simp
  then have "spent ?h (run_requests ms d')"
    by (rule run_requests_keeps [rotated]) (rule invite_request_keeps_spent, use later in blast)
  then have "fst (accept_invite e' req' ip' (run_requests ms d')) = Inl invalid_invite"
    using again by (subst spent_refused) simp_all
  moreover have "ev_now e \<le> iv_expires_at v" "\<forall>m \<in> set (members d). m_user m = u_id u \<longrightarrow> m_tenant m \<noteq> iv_tenant v"
    using v(3,5) by (auto simp: not_less)
  ultimately show ?thesis using v(1,2,6) by blast
qed

text \<open>
  Sending an invitation again makes it unusable. The request gives the invitation a new secret but queues no email with it,
  so the only secret ever mailed for it, the old one, is refused from then on.
\<close>

lemma resend_kills_invitation:
  assumes resent: "resend_invite e ctx invite_id d = (Inr (), d')"
    and row: "v \<in> set (invitations d)" "iv_id v = invite_id"
    and unique: "distinct (map iv_hash (invitations d))"
    and mailed: "ev_hash_token e' (aq_token req) = iv_hash v" "ev_hash_token e (ev_raw e 0) \<noteq> iv_hash v"
  shows "outbox d' = outbox d \<and> accept_invite e' req ip d' = (Inl invalid_invite, d')"
proof -
  have d': "d' = d \<lparr> invitations := update_rows (\<lambda>v. iv_id v = invite_id) (resend_row e) (invitations d) \<rparr>"
    using resent by (auto simp: resend_invite_def write_invite_def bind_op_Inr op_defs current_user_def invite_by_id_def)
  have "w = v" if "w \<in> set (invitations d)" "iv_hash w = iv_hash v" for w
    using unique row(1) that by (auto simp: distinct_map dest: inj_onD)
  then have "filter (\<lambda>w. iv_hash w = iv_hash v) (invitations d') = []"
    using row(2) mailed(2) by (auto simp: d' filter_empty_conv set_update_rows resend_row_def split: if_splits)
  then have "spent (iv_hash v) d'" by (auto simp: spent_def filter_empty_conv)
  then show ?thesis using mailed(1) by (simp add: spent_refused d')
qed

section \<open>Witnesses\<close>

definition sample_invitation :: invitation where
  "sample_invitation = new_invitation sample_env ''V'' ''T'' ''A'' ''b@x'' ''analyst'' ''mailed''"

definition sample_acceptance :: accept_request where
  "sample_acceptance = \<lparr> aq_token = ''mailed'', aq_name = ''Bob'', aq_password = ''swordfish9'' \<rparr>"

definition sample_invite_db :: db where
  "sample_invite_db = one_admin \<lparr> users := [sample_admin], tenants := [sample_tenant], invitations := [sample_invitation] \<rparr>"

lemma sample_accepted: "(case accept_invite sample_env sample_acceptance ''ip'' sample_invite_db of (Inr r, d) \<Rightarrow> length (members d) = 2 | _ \<Rightarrow> False)"
  by code_simp

theorem invitation_used_once_witness:
  "\<exists>r d. accept_invite sample_env sample_acceptance ''ip'' sample_invite_db = (Inr r, d) \<and> length (members d) = 2
    \<and> fst (accept_invite sample_env sample_acceptance ''ip'' (run_requests [cancel_invite sample_ctx ''V''] d)) = Inl invalid_invite"
proof -
  obtain r d where a: "accept_invite sample_env sample_acceptance ''ip'' sample_invite_db = (Inr r, d)" "length (members d) = 2"
    using sample_accepted by (auto split: prod.splits sum.splits)
  have "invite_request h (cancel_invite sample_ctx ''V'')" for h by (rule invite_request.cancel)
  then have "fst (accept_invite sample_env sample_acceptance ''ip'' (run_requests [cancel_invite sample_ctx ''V''] d)) = Inl invalid_invite"
    using invitation_used_once [OF a(1), of "[cancel_invite sample_ctx ''V'']" sample_env sample_acceptance] by simp
  then show ?thesis using a by blast
qed

lemma resend_kills_invitation_witness:
  "\<exists>d. resend_invite sample_env sample_ctx ''V'' sample_invite_db = (Inr (), d)
    \<and> accept_invite sample_env sample_acceptance ''ip'' d = (Inl invalid_invite, d)"
proof -
  have "(case resend_invite sample_env sample_ctx ''V'' sample_invite_db of (Inr u, d) \<Rightarrow> True | _ \<Rightarrow> False)" by code_simp
  then obtain d where d: "resend_invite sample_env sample_ctx ''V'' sample_invite_db = (Inr (), d)"
    by (auto split: prod.splits sum.splits)
  have "accept_invite sample_env sample_acceptance ''ip'' d = (Inl invalid_invite, d)"
    using resend_kills_invitation [OF d, of sample_invitation sample_env sample_acceptance]
    by (simp add: sample_invite_db_def sample_invitation_def new_invitation_def sample_acceptance_def sample_env_def show_nat.simps)
  with d show ?thesis by blast
qed

end
