(* ===== verification/Onboarding.thy ===== *)
theory Onboarding
  imports Invites
begin

text \<open>
  Onboarding of a workspace: \<^verbatim>\<open>app/modules/onboarding/service.py\<close> and \<^verbatim>\<open>app/modules/onboarding/router.py\<close>.

  The first completion replaces the catalogues of the workspace and invites its members; the saved progress is an
  opaque document. Identifiers and secrets are draws of the request's \<open>env\<close>.
\<close>

section \<open>Requests\<close>

record onboarding_profile =
  op_institution_name :: py_str
  op_currency :: py_str
  op_timezone :: py_str
  op_cadence :: py_str

record onboarding_segment =
  os_name :: py_str
  os_code :: "py_str option"

record onboarding_collateral =
  ol_name :: py_str
  ol_haircut :: num
  ol_ttr :: int

record complete_request =
  cq_profile :: onboarding_profile
  cq_segments :: "onboarding_segment list"
  cq_collateral :: "onboarding_collateral list"
  cq_invites :: "invite_item list"

text \<open>What the validators of the request make of it, or nothing when they reject it.\<close>

definition valid_profile :: "onboarding_profile \<Rightarrow> onboarding_profile option" where
  "valid_profile p =
     (if py_lower (op_cadence p) \<in> {''monthly'', ''quarterly''} \<and> 2 \<le> length (op_institution_name p) \<and> length (op_institution_name p) \<le> 200
         \<and> 1 \<le> length (op_currency p) \<and> length (op_currency p) \<le> 8 \<and> 1 \<le> length (op_timezone p) \<and> length (op_timezone p) \<le> 64
      then Some (p \<lparr> op_cadence := py_lower (op_cadence p), op_currency := py_upper (py_strip (op_currency p)) \<rparr>) else None)"

definition valid_segment_in :: "onboarding_segment \<Rightarrow> bool" where
  "valid_segment_in s \<longleftrightarrow> 1 \<le> length (os_name s) \<and> length (os_name s) \<le> 100 \<and> (case os_code s of None \<Rightarrow> True | Some c \<Rightarrow> length c \<le> 50)"

definition valid_collateral_in :: "onboarding_collateral \<Rightarrow> bool" where
  "valid_collateral_in c \<longleftrightarrow> 1 \<le> length (ol_name c) \<and> length (ol_name c) \<le> 100 \<and> 0 \<le> ol_haircut c \<and> ol_haircut c \<le> 100 \<and> 0 \<le> ol_ttr c"

definition valid_completion :: "complete_request \<Rightarrow> complete_request option" where
  "valid_completion req =
     (if 1 \<le> length (cq_segments req) \<and> length (cq_segments req) \<le> 50 \<and> list_all valid_segment_in (cq_segments req)
         \<and> 1 \<le> length (cq_collateral req) \<and> length (cq_collateral req) \<le> 50 \<and> list_all valid_collateral_in (cq_collateral req)
         \<and> length (cq_invites req) \<le> 20
      then map_option (\<lambda>p. req \<lparr> cq_profile := p, cq_invites := map normalize_email (cq_invites req) \<rparr>) (valid_profile (cq_profile req))
      else None)"

section \<open>Completion\<close>

definition ROLE_MAP :: "(py_str \<times> py_str) list" where
  "ROLE_MAP = [(''Administrator'', ''administrator''), (''Analyst'', ''analyst''), (''Reviewer'', ''reviewer'')]"

definition normal_role :: "py_str \<Rightarrow> py_str" where
  "normal_role role = (case map_of ROLE_MAP role of None \<Rightarrow> py_lower role | Some r \<Rightarrow> r)"

definition validate_invite_roles :: "invite_item list \<Rightarrow> (db, unit) op" where
  "validate_invite_roles items =
     guard_op (\<forall>i \<in> set items. normal_role (ii_role i) \<in> set role_values) (ECLException ''VALIDATION_ERROR'' 422)"

definition onboarded_segment :: "py_str \<Rightarrow> py_str \<Rightarrow> py_str \<Rightarrow> onboarding_segment \<Rightarrow> segment" where
  "onboarded_segment new_id tenant_id user_id s =
     \<lparr> sm_id = new_id, sm_tenant = tenant_id, sm_name = py_strip (os_name s),
       sm_code = (if truthy (os_code s) then Some (py_upper (py_strip (the (os_code s)))) else None),
       sm_is_active = True, sm_created_by = user_id, sm_deleted_at = None \<rparr>"

definition onboarded_collateral :: "py_str \<Rightarrow> py_str \<Rightarrow> py_str \<Rightarrow> onboarding_collateral \<Rightarrow> collateral_type" where
  "onboarded_collateral new_id tenant_id user_id c =
     \<lparr> ct_id = new_id, ct_tenant = tenant_id, ct_name = py_strip (ol_name c), ct_haircut = ol_haircut c, ct_ttr = ol_ttr c,
       ct_created_by = user_id, ct_deleted_at = None \<rparr>"

definition numbered :: "nat \<Rightarrow> 'a list \<Rightarrow> (nat \<times> 'a) list" where
  "numbered k xs = zip [k..<k + length xs] xs"

text \<open>Soft deletion of the live rows, and the insertion of rows into a table with a unique index on live names.\<close>

definition replace_segments :: "timestamp \<Rightarrow> py_str \<Rightarrow> segment list \<Rightarrow> (db, unit) op" where
  "replace_segments now tenant_id new =
     bind_op (modify_op (\<lambda>d. d \<lparr> segments_tbl := update_rows (\<lambda>s. sm_tenant s = tenant_id \<and> sm_deleted_at s = None)
       (\<lambda>s. s \<lparr> sm_deleted_at := Some now \<rparr>) (segments_tbl d) \<rparr>)) (\<lambda>_.
     bind_op (guard_op (distinct (map sm_name new)) (IntegrityError ''segments_tenant_name_unique_idx'')) (\<lambda>_.
     modify_op (\<lambda>d. d \<lparr> segments_tbl := segments_tbl d @ new \<rparr>)))"

definition retire_collateral :: "timestamp \<Rightarrow> py_str \<Rightarrow> (db, unit) op" where
  "retire_collateral now tenant_id =
     modify_op (\<lambda>d. d \<lparr> collateral_tbl := update_rows (\<lambda>c. ct_tenant c = tenant_id \<and> ct_deleted_at c = None)
       (\<lambda>c. c \<lparr> ct_deleted_at := Some now \<rparr>) (collateral_tbl d) \<rparr>)"

definition insert_collateral :: "collateral_type list \<Rightarrow> (db, unit) op" where
  "insert_collateral new =
     bind_op (guard_op (distinct (map ct_name new)) (IntegrityError ''collateral_types_tenant_name_unique_idx'')) (\<lambda>_.
     modify_op (\<lambda>d. d \<lparr> collateral_tbl := collateral_tbl d @ new \<rparr>))"

definition onboarding_invites :: "env \<Rightarrow> nat \<Rightarrow> py_str \<Rightarrow> py_str \<Rightarrow> invite_item list \<Rightarrow> (nat \<times> invitation) list" where
  "onboarding_invites e k tenant_id user_id items =
     map (\<lambda>(i, item). (i, new_invitation e (ev_ulid e (k + i)) tenant_id user_id (ii_email item) (normal_role (ii_role item)) (ev_raw e i))) (numbered 0 items)"

definition profiled_tenant :: "onboarding_profile \<Rightarrow> tenant \<Rightarrow> tenant" where
  "profiled_tenant p t = t \<lparr> t_name := py_strip (op_institution_name p), t_currency := op_currency p, t_timezone := op_timezone p, t_cadence := op_cadence p \<rparr>"

definition write_tenant :: "py_str \<Rightarrow> (tenant \<Rightarrow> tenant) \<Rightarrow> (db, unit) op" where
  "write_tenant tenant_id f = modify_op (\<lambda>d. d \<lparr> tenants := update_rows (live_tenant tenant_id) f (tenants d) \<rparr>)"

definition send_onboarding_invites :: "env \<Rightarrow> nat \<Rightarrow> py_str \<Rightarrow> user \<Rightarrow> invite_item list \<Rightarrow> (db, unit) op" where
  "send_onboarding_invites e k tenant_id u items =
     (let created = onboarding_invites e k tenant_id (u_id u) items in
      bind_op (modify_op (\<lambda>d. d \<lparr> invitations := invitations d @ map snd created \<rparr>)) (\<lambda>_.
      bind_op (modify_op (fold (\<lambda>(i, v). queue_invite_email (ev_ulid e (k + length items + i)) (iv_id v) (ev_raw e i)) created)) (\<lambda>_.
      modify_op (log_event ''invite.batch_sent'' (Some (u_id u)) None True None))))"

definition complete_onboarding :: "env \<Rightarrow> py_str \<Rightarrow> user \<Rightarrow> complete_request \<Rightarrow> (db, unit) op" where
  "complete_onboarding e tenant_id u req =
     bind_op (read_op (\<lambda>d. one_or_raise not_found (filter (live_tenant tenant_id) (tenants d)))) (\<lambda>t.
     if t_onboarded_at t \<noteq> None then return_op ()
     else
       let now = ev_now e; ns = length (cq_segments req); nc = length (cq_collateral req);
           segs = map (\<lambda>(i, s). onboarded_segment (ev_ulid e i) tenant_id (u_id u) s) (numbered 0 (cq_segments req));
           cols = map (\<lambda>(i, c). onboarded_collateral (ev_ulid e i) tenant_id (u_id u) c) (numbered ns (cq_collateral req)) in
       bind_op (write_tenant tenant_id (profiled_tenant (cq_profile req))) (\<lambda>_.
       bind_op (replace_segments now tenant_id segs) (\<lambda>_.
       bind_op (retire_collateral now tenant_id) (\<lambda>_.
       bind_op (validate_invite_roles (cq_invites req)) (\<lambda>_.
       bind_op (insert_collateral cols) (\<lambda>_.
       bind_op (when_op (cq_invites req \<noteq> []) (send_onboarding_invites e (ns + nc) tenant_id u (cq_invites req))) (\<lambda>_.
       bind_op (write_tenant tenant_id (\<lambda>t. t \<lparr> t_onboarded_at := Some now, t_progress := None \<rparr>)) (\<lambda>_.
       bind_op (modify_op (queue_email_in_outbox (ev_ulid e (ns + nc + 2 * length (cq_invites req))) ''send_welcome_email''
         [(''user_id'', u_id u), (''tenant_id'', tenant_id)])) (\<lambda>_.
       modify_op (log_event ''onboarding.completed'' (Some (u_id u)) None True None))))))))))"

definition save_progress :: "py_str \<Rightarrow> py_str \<Rightarrow> py_str \<Rightarrow> (db, unit) op" where
  "save_progress tenant_id user_id progress =
     bind_op (read_op (\<lambda>d. one_or_raise not_found (filter (live_tenant tenant_id) (tenants d)))) (\<lambda>_.
     bind_op (write_tenant tenant_id (\<lambda>t. t \<lparr> t_progress := Some progress \<rparr>)) (\<lambda>_.
     modify_op (log_event ''onboarding.progress_saved'' (Some user_id) None True None)))"

record onboarding_status =
  on_is_complete :: bool
  on_completed_at :: "timestamp option"
  on_progress :: "py_str option"
  on_segments :: "(py_str \<times> py_str \<times> py_str option) list"
  on_collateral :: "(py_str \<times> py_str \<times> num \<times> int) list"

definition get_status :: "py_str \<Rightarrow> (db, onboarding_status) op" where
  "get_status tenant_id =
     bind_op (read_op (\<lambda>d. one_or_raise not_found (filter (live_tenant tenant_id) (tenants d)))) (\<lambda>t.
     read_op (\<lambda>d. Inr \<lparr> on_is_complete = (t_onboarded_at t \<noteq> None), on_completed_at = t_onboarded_at t, on_progress = t_progress t,
       on_segments = map (\<lambda>s. (sm_id s, sm_name s, sm_code s))
         (sort_key sm_name (filter (\<lambda>s. sm_tenant s = tenant_id \<and> sm_deleted_at s = None) (segments_tbl d))),
       on_collateral = map (\<lambda>c. (ct_id c, ct_name c, ct_haircut c, ct_ttr c))
         (sort_key ct_name (filter (\<lambda>c. ct_tenant c = tenant_id \<and> ct_deleted_at c = None) (collateral_tbl d))) \<rparr>))"

section \<open>Endpoints\<close>

definition complete_onboarding_endpoint where
  "complete_onboarding_endpoint e ctx tenant_id body =
     (case valid_completion body of
        None \<Rightarrow> raise_op (ValueError ''validation'')
      | Some req \<Rightarrow> gated require_tenant_admin ctx tenant_id (\<lambda>user _. complete_onboarding e tenant_id user req))"

definition save_progress_endpoint where
  "save_progress_endpoint ctx tenant_id progress =
     gated require_tenant_admin ctx tenant_id (\<lambda>user _. save_progress tenant_id (u_id user) progress)"

definition get_onboarding_status_endpoint where
  "get_onboarding_status_endpoint ctx tenant_id = gated require_tenant_member ctx tenant_id (\<lambda>_ _. get_status tenant_id)"

section \<open>The catalogues afterwards\<close>



lemma length_numbered [simp]: "length (numbered k xs) = length xs" "map snd (numbered k xs) = xs"
  by (simp_all add: numbered_def)

lemma map_numbered: "map (\<lambda>x. f (snd x)) (numbered k xs) = map f xs"
  unfolding map_map [symmetric, of f snd, unfolded comp_def] length_numbered(2) ..




definition new_segments :: "env \<Rightarrow> py_str \<Rightarrow> user \<Rightarrow> complete_request \<Rightarrow> segment list" where
  "new_segments e tenant_id u req = map (\<lambda>(i, s). onboarded_segment (ev_ulid e i) tenant_id (u_id u) s) (numbered 0 (cq_segments req))"

definition new_collaterals :: "env \<Rightarrow> py_str \<Rightarrow> user \<Rightarrow> complete_request \<Rightarrow> collateral_type list" where
  "new_collaterals e tenant_id u req =
     map (\<lambda>(i, c). onboarded_collateral (ev_ulid e i) tenant_id (u_id u) c) (numbered (length (cq_segments req)) (cq_collateral req))"

lemma invites_fold_same:
  "segments_tbl (fold (\<lambda>(i, v). queue_invite_email (f i) (iv_id v) (g i)) rows d) = segments_tbl d"
  "collateral_tbl (fold (\<lambda>(i, v). queue_invite_email (f i) (iv_id v) (g i)) rows d) = collateral_tbl d"
  "tenants (fold (\<lambda>(i, v). queue_invite_email (f i) (iv_id v) (g i)) rows d) = tenants d"
  by (induction rows arbitrary: d) (auto simp: queue_invite_email_def queue_email_in_outbox_def)

definition maybe_invites :: "env \<Rightarrow> py_str \<Rightarrow> user \<Rightarrow> complete_request \<Rightarrow> (db, unit) op" where
  "maybe_invites e tenant_id u req =
     when_op (cq_invites req \<noteq> []) (send_onboarding_invites e (length (cq_segments req) + length (cq_collateral req)) tenant_id u (cq_invites req))"

lemma send_onboarding_invites_Inr:
  assumes "send_onboarding_invites e k t u items d = (Inr (), d')"
  shows "segments_tbl d' = segments_tbl d" "collateral_tbl d' = collateral_tbl d" "tenants d' = tenants d"
    "invitations d' = invitations d @ map snd (onboarding_invites e k t (u_id u) items)"
  using assms
  by (auto simp: send_onboarding_invites_def Let_def op_simps op_defs log_event_def invites_fold_same invitations_fold_queue)

lemma maybe_invites_Inr:
  assumes "maybe_invites e tenant_id u req d = (Inr (), d')"
  shows "segments_tbl d' = segments_tbl d" "collateral_tbl d' = collateral_tbl d" "tenants d' = tenants d"
    "invitations d' = invitations d @ map snd (onboarding_invites e (length (cq_segments req) + length (cq_collateral req)) tenant_id (u_id u) (cq_invites req))"
proof -
  have none: "onboarding_invites e k t u [] = []" for k t u by (simp add: onboarding_invites_def numbered_def)
  show "segments_tbl d' = segments_tbl d" "collateral_tbl d' = collateral_tbl d" "tenants d' = tenants d"
    "invitations d' = invitations d @ map snd (onboarding_invites e (length (cq_segments req) + length (cq_collateral req)) tenant_id (u_id u) (cq_invites req))"
    using assms by (auto simp: maybe_invites_def when_op_def return_op_def none dest: send_onboarding_invites_Inr split: if_splits)
qed

text \<open>The four tables a first completion writes.\<close>

lemma complete_onboarding_Inr:
  assumes "complete_onboarding e tenant_id u req d = (Inr (), d')" "filter (live_tenant tenant_id) (tenants d) = [t]" "t_onboarded_at t = None"
  shows "segments_tbl d' = update_rows (\<lambda>s. sm_tenant s = tenant_id \<and> sm_deleted_at s = None) (\<lambda>s. s \<lparr> sm_deleted_at := Some (ev_now e) \<rparr>) (segments_tbl d)
      @ new_segments e tenant_id u req"
    "collateral_tbl d' = update_rows (\<lambda>c. ct_tenant c = tenant_id \<and> ct_deleted_at c = None) (\<lambda>c. c \<lparr> ct_deleted_at := Some (ev_now e) \<rparr>) (collateral_tbl d)
      @ new_collaterals e tenant_id u req"
    "distinct (map sm_name (new_segments e tenant_id u req))" "distinct (map ct_name (new_collaterals e tenant_id u req))"
    "tenants d' = update_rows (live_tenant tenant_id) (\<lambda>t. t \<lparr> t_onboarded_at := Some (ev_now e), t_progress := None \<rparr>)
      (update_rows (live_tenant tenant_id) (profiled_tenant (cq_profile req)) (tenants d))"
    "invitations d' = invitations d @ map snd (onboarding_invites e (length (cq_segments req) + length (cq_collateral req)) tenant_id (u_id u) (cq_invites req))"
proof -
  let ?d1 = "d \<lparr> tenants := update_rows (live_tenant tenant_id) (profiled_tenant (cq_profile req)) (tenants d),
    segments_tbl := update_rows (\<lambda>s. sm_tenant s = tenant_id \<and> sm_deleted_at s = None) (\<lambda>s. s \<lparr> sm_deleted_at := Some (ev_now e) \<rparr>) (segments_tbl d)
      @ new_segments e tenant_id u req,
    collateral_tbl := update_rows (\<lambda>c. ct_tenant c = tenant_id \<and> ct_deleted_at c = None) (\<lambda>c. c \<lparr> ct_deleted_at := Some (ev_now e) \<rparr>) (collateral_tbl d)
      @ new_collaterals e tenant_id u req \<rparr>"
  from assms obtain d2 where names: "distinct (map sm_name (new_segments e tenant_id u req))" "distinct (map ct_name (new_collaterals e tenant_id u req))"
    and invites: "maybe_invites e tenant_id u req ?d1 = (Inr (), d2)"
    and fin: "d' = log_event ''onboarding.completed'' (Some (u_id u)) None True None
      (queue_email_in_outbox (ev_ulid e (length (cq_segments req) + length (cq_collateral req) + 2 * length (cq_invites req))) ''send_welcome_email''
        [(''user_id'', u_id u), (''tenant_id'', tenant_id)] (d2 \<lparr> tenants := update_rows (live_tenant tenant_id)
          (\<lambda>t. t \<lparr> t_onboarded_at := Some (ev_now e), t_progress := None \<rparr>) (tenants d2) \<rparr>))"
    unfolding complete_onboarding_def Let_def maybe_invites_def [symmetric] new_segments_def [symmetric] new_collaterals_def [symmetric]
    by (auto simp: bind_op_Inr op_defs write_tenant_def replace_segments_def retire_collateral_def insert_collateral_def
        validate_invite_roles_def guard_op_def split: if_splits)
  have fin: "segments_tbl d' = segments_tbl d2" "collateral_tbl d' = collateral_tbl d2" "invitations d' = invitations d2"
      "tenants d' = update_rows (live_tenant tenant_id) (\<lambda>t. t \<lparr> t_onboarded_at := Some (ev_now e), t_progress := None \<rparr>) (tenants d2)"
    unfolding fin by (simp_all add: log_event_def queue_email_in_outbox_def)
  note invites = maybe_invites_Inr [OF invites]
  show "segments_tbl d' = update_rows (\<lambda>s. sm_tenant s = tenant_id \<and> sm_deleted_at s = None) (\<lambda>s. s \<lparr> sm_deleted_at := Some (ev_now e) \<rparr>) (segments_tbl d)
      @ new_segments e tenant_id u req"
    "collateral_tbl d' = update_rows (\<lambda>c. ct_tenant c = tenant_id \<and> ct_deleted_at c = None) (\<lambda>c. c \<lparr> ct_deleted_at := Some (ev_now e) \<rparr>) (collateral_tbl d)
      @ new_collaterals e tenant_id u req"
    "distinct (map sm_name (new_segments e tenant_id u req))" "distinct (map ct_name (new_collaterals e tenant_id u req))"
    "tenants d' = update_rows (live_tenant tenant_id) (\<lambda>t. t \<lparr> t_onboarded_at := Some (ev_now e), t_progress := None \<rparr>)
      (update_rows (live_tenant tenant_id) (profiled_tenant (cq_profile req)) (tenants d))"
    "invitations d' = invitations d @ map snd (onboarding_invites e (length (cq_segments req) + length (cq_collateral req)) tenant_id (u_id u) (cq_invites req))"
    using names by (simp_all add: fin invites)
qed



lemma length_filter_cong_map: "map P xs = map Q ys \<Longrightarrow> length (filter P xs) = length (filter Q ys)"
proof (induction xs arbitrary: ys)
  case (Cons x xs)
  then show ?case by (cases ys) auto
qed simp

section \<open>Properties\<close>







text \<open>
  An address listed twice in the onboarding request gets two pending invitations, and from then on every
  further invitation to it fails with an internal error.
\<close>

lemma double_invitation_blocks_address:
  assumes ok: "complete_onboarding e tenant_id u req d = (Inr (), d')"
    and row: "filter (live_tenant tenant_id) (tenants d) = [t]" "t_onboarded_at t = None"
    and twice: "1 < length (filter (\<lambda>i. ii_email i = a) (cq_invites req))" and verified: "u_is_email_verified inviter"
  shows "send_invite e' tenant_id \<lparr> ii_email = a, ii_role = role \<rparr> inviter d' = (Inl MultipleResultsFound, d')"
proof -
  let ?k = "length (cq_segments req) + length (cq_collateral req)"
  have "map (\<lambda>v. pending_for tenant_id a v) (map snd (onboarding_invites e ?k tenant_id (u_id u) (cq_invites req)))
      = map (\<lambda>i. ii_email i = a) (cq_invites req)"
    by (simp add: onboarding_invites_def pending_for_def new_invitation_def case_prod_unfold comp_def map_numbered [of "\<lambda>i. ii_email i = a"])
  then have "length (filter (pending_for tenant_id a) (map snd (onboarding_invites e ?k tenant_id (u_id u) (cq_invites req))))
      = length (filter (\<lambda>i. ii_email i = a) (cq_invites req))"
    by (rule length_filter_cong_map)
  then have "1 < length (filter (pending_for tenant_id a) (invitations d'))"
    using twice by (simp add: complete_onboarding_Inr(6) [OF ok row])
  then have "scalar_one_or_none (filter (pending_for tenant_id a) (invitations d')) = Inl MultipleResultsFound"
    by (simp add: scalar_one_or_none_cases)
  then show ?thesis using verified
    by (simp add: send_invite_def invite_free_def bind_op_assoc op_simps op_defs bind_op_def)
qed

section \<open>Witnesses\<close>




end
