(* ===== verification/Routes.thy ===== *)
theory Routes
  imports Sessions Notifications
begin

text \<open>
  The routers of accounts and of notifications: \<^verbatim>\<open>app/modules/auth/router.py\<close> and \<^verbatim>\<open>app/modules/settings/router.py\<close>, with the
  validators of the request bodies in \<^verbatim>\<open>app/modules/auth/schemas.py\<close>. The counting of requests by slowapi is left out.

  FastAPI validates what an endpoint returns against the response model, which is the declared return type. This is
  the parameter \<open>validate\<close> of the login endpoint, with the law \<open>response_law\<close>: an \<^verbatim>\<open>AuthResponse\<close> passes, and the challenge
  of a second factor, which lacks the fields an \<^verbatim>\<open>AuthResponse\<close> requires, raises.
\<close>

section \<open>Requests\<close>

record http_request =
  hr_trust_proxy :: bool
  hr_proxy_count :: nat
  hr_forwarded_for :: "py_str option"
  hr_bearer :: "py_str option"
  hr_refresh_cookie :: "py_str option"

definition with_client_ip :: "http_request \<Rightarrow> (py_str \<Rightarrow> ('s, 'a) op) \<Rightarrow> ('s, 'a) op" where
  "with_client_ip h f = bind_op (read_op (\<lambda>_. get_client_ip (hr_trust_proxy h) (hr_proxy_count h) (hr_forwarded_for h))) f"

definition bearer_token :: "http_request \<Rightarrow> py_str" where
  "bearer_token h = (case hr_bearer h of None \<Rightarrow> '''' | Some t \<Rightarrow> t)"

text \<open>The validators of the bodies.\<close>

definition normalized :: "py_str \<Rightarrow> py_str" where
  "normalized email = py_strip (py_lower email)"

definition valid_registration :: "register_request \<Rightarrow> bool" where
  "valid_registration body \<longleftrightarrow> 2 \<le> length (rr_company_name body) \<and> 2 \<le> length (rr_name body) \<and> 8 \<le> length (rr_password body)"

definition normalized_registration :: "register_request \<Rightarrow> register_request" where
  "normalized_registration body = body \<lparr> rr_email := normalized (rr_email body) \<rparr>"

definition valid_login :: "login_request \<Rightarrow> bool" where
  "valid_login body \<longleftrightarrow> 1 \<le> length (lr_password body)"

definition normalized_login :: "login_request \<Rightarrow> login_request" where
  "normalized_login body = body \<lparr> lr_email := normalized (lr_email body) \<rparr>"

definition valid_reset_password :: "py_str \<Rightarrow> bool" where
  "valid_reset_password password \<longleftrightarrow> 8 \<le> length password"

definition valid_mfa_code :: "py_str \<Rightarrow> bool" where
  "valid_mfa_code code \<longleftrightarrow> 6 \<le> length code \<and> length code \<le> 8"

definition unprocessable :: exn where
  "unprocessable = ECLException ''VALIDATION_ERROR'' 422"

section \<open>Accounts\<close>

type_synonym login_validator = "login_response \<Rightarrow> auth_response result"

definition register_endpoint :: "env \<Rightarrow> http_request \<Rightarrow> register_request \<Rightarrow> (db, auth_response) op" where
  "register_endpoint e h body =
     bind_op (guard_op (valid_registration body) unprocessable) (\<lambda>_.
     with_client_ip h (register_user e (normalized_registration body)))"

definition login_endpoint :: "login_validator \<Rightarrow> env \<Rightarrow> http_request \<Rightarrow> login_request \<Rightarrow> (db, auth_response) op" where
  "login_endpoint validate e h body =
     bind_op (guard_op (valid_login body) unprocessable) (\<lambda>_.
     with_client_ip h (\<lambda>ip.
     bind_op (login_user e (normalized_login body) ip) (\<lambda>response.
     read_op (\<lambda>_. validate response))))"

definition refresh_endpoint :: "env \<Rightarrow> http_request \<Rightarrow> (db, auth_response) op" where
  "refresh_endpoint e h =
     bind_op (guard_op (truthy (hr_refresh_cookie h)) (ECLException ''REFRESH_EXPIRED'' 401)) (\<lambda>_.
     refresh_tokens e (the (hr_refresh_cookie h)))"

definition logout_endpoint :: "env \<Rightarrow> http_request \<Rightarrow> unit sys_op" where
  "logout_endpoint e h = logout_user e (bearer_token h) (hr_refresh_cookie h)"

definition logout_all_endpoint :: "env \<Rightarrow> auth_ctx \<Rightarrow> http_request \<Rightarrow> unit sys_op" where
  "logout_all_endpoint e ctx h = for_user_sys ctx (\<lambda>u. logout_all_user e (u_id u) (bearer_token h))"

definition forgot_password_endpoint :: "env \<Rightarrow> http_request \<Rightarrow> py_str \<Rightarrow> (db, unit) op" where
  "forgot_password_endpoint e h email = with_client_ip h (forgot_password e (normalized email))"

definition reset_password_endpoint :: "env \<Rightarrow> http_request \<Rightarrow> py_str \<Rightarrow> py_str \<Rightarrow> (db, unit) op" where
  "reset_password_endpoint e h token password =
     bind_op (guard_op (valid_reset_password password) unprocessable) (\<lambda>_. with_client_ip h (reset_password e token password))"

definition verify_email_endpoint :: "env \<Rightarrow> py_str \<Rightarrow> (db, unit) op" where
  "verify_email_endpoint e token = verify_email e token"

definition resend_verification_endpoint :: "env \<Rightarrow> py_str \<Rightarrow> (db, unit) op" where
  "resend_verification_endpoint e email = resend_verification_email e (normalized email)"

definition verify_mfa_endpoint :: "env \<Rightarrow> http_request \<Rightarrow> py_str \<Rightarrow> py_str \<Rightarrow> auth_response sys_op" where
  "verify_mfa_endpoint e h challenge_token code =
     bind_op (guard_op (valid_mfa_code code) unprocessable) (\<lambda>_. with_client_ip h (verify_mfa e challenge_token code))"

definition switch_tenant_endpoint :: "env \<Rightarrow> auth_ctx \<Rightarrow> py_str \<Rightarrow> (db, switch_tenant_data) op" where
  "switch_tenant_endpoint e ctx tenant_id = for_user ctx (\<lambda>u. switch_tenant e u tenant_id)"

record validate_token_data =
  vt_user_id :: py_str
  vt_role :: py_str
  vt_tenant_id :: py_str
  vt_exp :: timestamp

text \<open>The claims read are those of an access token, which also holds the email; a challenge token has none of them.\<close>

definition token_data :: "claims \<Rightarrow> validate_token_data result" where
  "token_data payload =
     (case (cl_role payload, cl_tenant payload) of
        (None, _) \<Rightarrow> Inl (KeyError ''email'')
      | (_, None) \<Rightarrow> Inl (KeyError ''tenant_id'')
      | (Some role, Some t) \<Rightarrow> Inr \<lparr> vt_user_id = cl_sub payload, vt_role = role, vt_tenant_id = t, vt_exp = cl_exp payload \<rparr>)"

definition validate_token_endpoint :: "auth_ctx \<Rightarrow> http_request \<Rightarrow> (db, validate_token_data) op" where
  "validate_token_endpoint ctx h =
     bind_op (guard_op (hr_bearer h \<noteq> None) (ECLException ''TOKEN_INVALID'' 401)) (\<lambda>_.
     bind_op (read_op (\<lambda>_. ax_decode ctx (the (hr_bearer h)))) (\<lambda>payload.
     bind_op (read_op (\<lambda>d. if truthy (cl_jti payload) then is_token_blacklisted (ax_redis ctx) (the (cl_jti payload)) (ax_now ctx) d else Inr False)) (\<lambda>revoked.
     bind_op (guard_op (\<not> revoked) (ECLException ''TOKEN_BLACKLISTED'' 401)) (\<lambda>_.
     read_op (\<lambda>_. token_data payload)))))"

section \<open>Preferences and notifications\<close>

definition get_notification_preferences where
  "get_notification_preferences ctx = for_user ctx (\<lambda>u. get_notification_prefs (u_id u))"

definition update_notification_preferences where
  "update_notification_preferences new_id ctx body = for_user ctx (\<lambda>u. upsert_notification_prefs new_id (u_id u) body)"

definition list_notifications_endpoint where
  "list_notifications_endpoint ctx = for_user ctx (\<lambda>u. read_op (\<lambda>d. Inr (list_notifications (u_id u) 20 d)))"

definition mark_notification_read_endpoint where
  "mark_notification_read_endpoint ctx notification_id = for_user ctx (\<lambda>u. mark_read (ax_now ctx) (u_id u) notification_id)"

definition mark_all_notifications_read_endpoint where
  "mark_all_notifications_read_endpoint ctx = for_user ctx (\<lambda>u. mark_all_read (ax_now ctx) (u_id u))"

section \<open>Logins with a second factor\<close>

definition response_law :: "login_validator \<Rightarrow> bool" where
  "response_law v \<longleftrightarrow> (\<forall>r. v (LoggedIn r) = Inr r) \<and> (\<forall>c. \<exists>x. v (MFAChallenge c) = Inl x)"

lemma for_user_Inr:
  "for_user ctx f d = (Inr x, d') \<longleftrightarrow>
     (\<exists>u. get_current_user (ax_decode ctx) (ax_redis ctx) (ax_now ctx) (ax_creds ctx) d = Inr u \<and> f u d = (Inr x, d'))"
  by (auto simp: for_user_def current_user_def bind_op_Inr op_defs)

text \<open>Reading notifications shows the caller the own ones only, and marking changes only those.\<close>

lemma notifications_are_own:
  assumes "list_notifications_endpoint ctx d = (Inr ns, d')"
  shows "\<exists>u. get_current_user (ax_decode ctx) (ax_redis ctx) (ax_now ctx) (ax_creds ctx) d = Inr u \<and> (\<forall>n \<in> set ns. un_user n = u_id u) \<and> d' = d"
  using assms by (auto simp: list_notifications_endpoint_def for_user_Inr op_defs list_notifications_def dest!: in_set_takeD)

lemma login_second_factor:
  assumes "filter (email_query (lr_email req)) (users d) = [w]" "u_totp_enabled w" "login_user e req ip d = (Inr r, d')"
  shows "\<exists>c. r = MFAChallenge c"
proof -
  have "get_active_user_by_email (lr_email req) d = (Inr (Some w), d)"
    using assms(1) by (simp add: get_active_user_by_email_def read_op_def)
  then show ?thesis
    using assms(2,3) by (auto simp: login_user_def bind_op_def [of "get_active_user_by_email (lr_email req)"] bind_op_Inr op_defs split: if_splits)
qed

lemma login_endpoint_second_factor:
  assumes "response_law v" "filter (email_query (normalized (lr_email req))) (users d) = [w]" "u_totp_enabled w"
  shows "\<exists>x. with_db (login_endpoint v e h req) d = (Inl x, d)"
proof -
  have "login_endpoint v e h req d \<noteq> (Inr r, d')" for r d'
  proof
    assume "login_endpoint v e h req d = (Inr r, d')"
    then obtain ip resp d1 where "login_user e (normalized_login req) ip d = (Inr resp, d1)" "v resp = Inr r"
      by (auto simp: login_endpoint_def with_client_ip_def bind_op_Inr op_defs guard_op_def split: if_splits)
    moreover have "lr_email (normalized_login req) = normalized (lr_email req)" by (simp add: normalized_login_def)
    ultimately obtain c where "v (MFAChallenge c) = Inr r" using login_second_factor [OF _ assms(3)] assms(2) by metis
    moreover obtain x where "v (MFAChallenge c) = Inl x" using assms(1) unfolding response_law_def by blast
    ultimately show False by simp
  qed
  then show ?thesis
    by (cases "login_endpoint v e h req d"; cases "fst (login_endpoint v e h req d)") (auto simp: with_db_def)
qed

lemma enroll_confirm_users:
  assumes "enroll_totp_confirm e u code (rd, d) = (Inr codes, (rd', d'))"
  shows "\<exists>s b. users d' = update_rows (\<lambda>v. u_id v = u_id u) (\<lambda>v. v \<lparr> u_totp_secret := s, u_totp_enabled := True, u_backup_codes := b \<rparr>) (users d)"
proof -
  let ?k = "pending_key (u_id u)"
  obtain raw where raw: "redis_get (ev_now e) ?k rd = Inr raw" "truthy raw" "ev_totp e (the raw) code"
    using assms by (cases "redis_get (ev_now e) ?k rd") (auto simp: enroll_totp_confirm_def bind_op_read guard_op_def raise_op_def split: if_splits)
  moreover have "ev_totp_key e" using assms by (auto simp: enroll_totp_confirm_def bind_op_Inr op_defs guard_op_def split: if_splits)
  ultimately show ?thesis
    using assms
    by (cases "redis_delete ?k rd")
      (auto simp: enroll_totp_confirm_def op_simps op_defs case_prod_beta bind_op_def lift_db_def write_user_def redis_op_def log_event_def
        intro!: exI [of _ "Some (ev_encrypt e (the raw))"] exI [of _ "Some (snd (generate_backup_codes e))"])
qed

lemma mfa_challenge_ok:
  assumes "filter (email_query (lr_email req)) (users d) = [w]" "u_totp_enabled w" "ev_verify e (lr_password req) (u_hashed_password w)"
    "u_locked_until w = None" "u_is_active w" "get_membership (u_id w) None d = Some row" "ev_jwt_keys e"
  shows "\<exists>c d'. login_user e req ip d = (Inr (MFAChallenge c), d')"
proof -
  have "get_membership i None (d \<lparr> users := us \<rparr>) = get_membership i None d" for i us
    by (simp add: get_membership_def membership_rows_def)
  then show ?thesis
    using assms
    by (simp add: login_user_def get_active_user_by_email_def check_lockout_def write_user_def membership_or_raise_def create_mfa_challenge_token_def
        op_simps return_op_def split: prod.split)
qed

text \<open>
  C37. A second factor locks its owner out. Once the enrolment of a second factor is confirmed, every login over the endpoint
  with the address of the account fails and changes nothing, whatever the password: with the right one the service answers with
  a challenge, but the endpoint declares another response, which a challenge does not satisfy. No challenge ever reaches
  the client, so the second step of the login cannot be taken.
\<close>

theorem second_factor_locks_out:
  assumes "response_law v" "enroll_totp_confirm e u code (rd, d) = (Inr codes, (rd', d'))"
    "filter (email_query (normalized (lr_email req))) (users d) = [w]" "u_id w = u_id u"
  shows "(\<exists>x. with_db (login_endpoint v e' h req) d' = (Inl x, d'))
    \<and> (ev_verify e' (lr_password req) (u_hashed_password w) \<and> u_locked_until w = None \<and> u_is_active w
       \<and> get_membership (u_id w) None d' = Some row \<and> ev_jwt_keys e' \<longrightarrow>
         (\<exists>c d2. login_user e' (normalized_login req) ip d' = (Inr (MFAChallenge c), d2)))"
proof -
  obtain s b where us: "users d' = update_rows (\<lambda>v. u_id v = u_id u) (\<lambda>v. v \<lparr> u_totp_secret := s, u_totp_enabled := True, u_backup_codes := b \<rparr>) (users d)"
    using enroll_confirm_users [OF assms(2)] by blast
  let ?w = "w \<lparr> u_totp_secret := s, u_totp_enabled := True, u_backup_codes := b \<rparr>"
  have row: "filter (email_query (normalized (lr_email req))) (users d') = [?w]"
    using assms(3,4) unfolding us by (subst filter_update_rows_same) (auto simp: email_query_def)
  have "\<exists>x. with_db (login_endpoint v e' h req) d' = (Inl x, d')"
    by (rule login_endpoint_second_factor [OF assms(1) row]) simp
  moreover have "\<exists>c d2. login_user e' (normalized_login req) ip d' = (Inr (MFAChallenge c), d2)"
    if "ev_verify e' (lr_password req) (u_hashed_password w)" "u_locked_until w = None" "u_is_active w"
      "get_membership (u_id w) None d' = Some row" "ev_jwt_keys e'"
    using row that by (intro mfa_challenge_ok [of _ _ ?w _ row]) (simp_all add: normalized_login_def)
  ultimately show ?thesis by blast
qed

definition declared_response :: login_validator where
  "declared_response r = (case r of LoggedIn resp \<Rightarrow> Inr resp | MFAChallenge _ \<Rightarrow> Inl (ValueError ''ResponseValidationError''))"

definition pending_enrolment :: redis where
  "pending_enrolment = \<lparr> rd_available = True, rd_keys = [(pending_key ''A'', ''raw0'', 400)] \<rparr>"

definition sample_login :: login_request where
  "sample_login = \<lparr> lr_email = ''A@x'', lr_password = ''old'', lr_remember = False \<rparr>"

definition direct_request :: http_request where
  "direct_request = \<lparr> hr_trust_proxy = False, hr_proxy_count = 1, hr_forwarded_for = None, hr_bearer = None, hr_refresh_cookie = None \<rparr>"

text \<open>Before the enrolment the login goes through, after it does not.\<close>

theorem second_factor_locks_out_witness:
  "\<exists>codes rd' d' x. enroll_totp_confirm totp_env sample_account ''raw0'' (pending_enrolment, sample_account_db \<lparr> tenants := [sample_tenant] \<rparr>) = (Inr codes, (rd', d'))
    \<and> with_db (login_endpoint declared_response sample_env direct_request sample_login) d' = (Inl x, d')
    \<and> (\<exists>r. fst (login_endpoint declared_response sample_env direct_request sample_login (sample_account_db \<lparr> tenants := [sample_tenant] \<rparr>)) = Inr r)"
proof -
  let ?d = "sample_account_db \<lparr> tenants := [sample_tenant] \<rparr>"
  have law: "response_law declared_response" by (simp add: response_law_def declared_response_def)
  have "(case enroll_totp_confirm totp_env sample_account ''raw0'' (pending_enrolment, ?d) of (Inr u, d) \<Rightarrow> True | _ \<Rightarrow> False)" by code_simp
  then obtain codes rd' d' where c: "enroll_totp_confirm totp_env sample_account ''raw0'' (pending_enrolment, ?d) = (Inr codes, (rd', d'))"
    by (auto split: prod.splits sum.splits)
  have row: "filter (email_query (normalized (lr_email sample_login))) (users ?d) = [sample_account]" by code_simp
  have "(case login_endpoint declared_response sample_env direct_request sample_login ?d of (Inr r, d) \<Rightarrow> True | _ \<Rightarrow> False)" by code_simp
  then have "\<exists>r. fst (login_endpoint declared_response sample_env direct_request sample_login ?d) = Inr r"
    by (auto split: prod.splits sum.splits)
  then show ?thesis
    using second_factor_locks_out [OF law c row, of sample_env direct_request] c by blast
qed

end
