(* ===== verification/Aggregates.thy ===== *)
theory Aggregates
  imports ResultStore
begin

text \<open>
  The aggregates of a run, \<^verbatim>\<open>build_ecl_aggregates\<close> of \<^verbatim>\<open>app/engine/excel_writer.py\<close>, and the
  frames its workbooks hold. The lemmas show that the loan, segment and stage tables are three
  partitions of the same total, and relate this total to the one the compute task reads back from
  the result table. Every row has a customer; rows without one, which pandas drops when it groups, are not modelled.
\<close>

section \<open>Definitions\<close>

record loan_ecl =
  le_loan :: py_str
  le_customer :: py_str
  le_segment :: py_str
  le_stage :: py_str
  le_total :: num
  le_outstanding :: num

record segment_ecl =
  sg_segment :: py_str
  sg_total :: num
  sg_outstanding :: "num option"
  sg_coverage :: num

record stage_ecl =
  st_stage :: py_str
  st_total :: num
  st_share :: num

record ecl_aggregates =
  ag_by_loan :: "loan_ecl list"
  ag_by_segment :: "segment_ecl list"
  ag_by_stage :: "stage_ecl list"
  ag_total_ecl :: num
  ag_total_outstanding :: num
  ag_coverage :: num

text \<open>Grouping drops the rows whose staging cell is missing.\<close>

definition staged :: "ead_out list \<Rightarrow> ead_out list" where
  "staged df = filter (\<lambda>e. eo_staging e \<noteq> None) df"

definition loan_ecl_key :: "ead_out \<Rightarrow> py_str \<times> py_str \<times> py_str \<times> py_str" where
  "loan_ecl_key e = (eo_loan e, eo_customer e, eo_segment e, stage_str (eo_staging e))"

definition outstanding_by_loan :: "ead_row list \<Rightarrow> (py_str \<times> num) list" where
  "outstanding_by_loan ead_input = map (\<lambda>r. (er_loan r, er_outstanding r)) (drop_duplicates er_loan ead_input)"

definition loan_ecl_rows :: "ead_out list \<Rightarrow> ead_row list \<Rightarrow> loan_ecl list" where
  "loan_ecl_rows ead_df ead_input =
     map (\<lambda>((loan, customer, segment, stage), grp).
         \<lparr> le_loan = loan, le_customer = customer, le_segment = segment, le_stage = stage,
           le_total = (\<Sum>e\<leftarrow>grp. eo_discounted e),
           le_outstanding = (case map_of (outstanding_by_loan ead_input) loan of Some v \<Rightarrow> v | None \<Rightarrow> 0) \<rparr>)
       (groups loan_ecl_key (staged ead_df))"

definition ecl_by :: "(loan_ecl \<Rightarrow> py_str) \<Rightarrow> loan_ecl list \<Rightarrow> (py_str \<times> num) list" where
  "ecl_by key loans = map (\<lambda>(v, grp). (v, \<Sum>l\<leftarrow>grp. le_total l)) (groups key loans)"

definition segment_outstanding :: "ead_row list \<Rightarrow> (py_str \<times> num) list" where
  "segment_outstanding ead_input =
     map (\<lambda>(segment, grp). (segment, \<Sum>r\<leftarrow>grp. er_outstanding r)) (groups er_segment ead_input)"

definition ecl_by_segment :: "loan_ecl list \<Rightarrow> ead_row list \<Rightarrow> segment_ecl list" where
  "ecl_by_segment loans ead_input =
     map (\<lambda>((segment, total), match).
         let outstanding = map_option snd match
         in \<lparr> sg_segment = segment, sg_total = total, sg_outstanding = outstanding,
              sg_coverage = (case outstanding of Some v \<Rightarrow> (if 0 < v then total / v else 0) | None \<Rightarrow> 0) \<rparr>)
       (left_merge fst fst (ecl_by le_segment loans) (segment_outstanding ead_input))"

definition ecl_by_stage :: "loan_ecl list \<Rightarrow> num \<Rightarrow> stage_ecl list" where
  "ecl_by_stage loans total_ecl =
     map (\<lambda>(stage, total). \<lparr> st_stage = stage, st_total = total,
         st_share = (if 0 < total_ecl then total / total_ecl else 0) \<rparr>)
       (ecl_by le_stage loans)"

definition build_ecl_aggregates :: "ead_out list \<Rightarrow> ead_row list \<Rightarrow> ecl_aggregates" where
  "build_ecl_aggregates ead_df ead_input =
     (if ead_df = [] then
        \<lparr> ag_by_loan = [], ag_by_segment = [], ag_by_stage = [],
          ag_total_ecl = 0, ag_total_outstanding = 0, ag_coverage = 0 \<rparr>
      else
        let loans = loan_ecl_rows ead_df ead_input;
            total_ecl = (\<Sum>l\<leftarrow>loans. le_total l);
            total_outstanding = (\<Sum>p\<leftarrow>outstanding_by_loan ead_input. snd p)
        in \<lparr> ag_by_loan = loans, ag_by_segment = ecl_by_segment loans ead_input,
             ag_by_stage = ecl_by_stage loans total_ecl,
             ag_total_ecl = total_ecl, ag_total_outstanding = total_outstanding,
             ag_coverage = (if 0 < total_outstanding then total_ecl / total_outstanding else 0) \<rparr>)"

text \<open>The rows of the transition-matrix sheets.\<close>

record matrix_row =
  mx_segment :: py_str
  mx_month :: "date option"
  mx_from :: py_str
  mx_values :: "num list"

definition stage_rows :: "py_str \<Rightarrow> date option \<Rightarrow> (py_str \<times> num list) list \<Rightarrow> matrix_row list" where
  "stage_rows segment month matrix =
     map (\<lambda>from_stage. \<lparr> mx_segment = segment, mx_month = month, mx_from = from_stage,
            mx_values = the (map_of matrix from_stage) \<rparr>) STAGES"

definition matrix_rows :: "(py_str \<times> (py_str \<times> num list) list) list \<Rightarrow> matrix_row list" where
  "matrix_rows matrices =
     concat (map (\<lambda>segment. stage_rows segment None (the (map_of matrices segment)))
       (sort (map fst matrices)))"

definition monthly_matrix_rows :: "(py_str \<times> (date \<times> (py_str \<times> num list) list) list) list \<Rightarrow> matrix_row list" where
  "monthly_matrix_rows monthly =
     concat (map (\<lambda>segment. concat (map (\<lambda>month.
         stage_rows segment (Some month) (the (map_of (the (map_of monthly segment)) month)))
         (sort (map fst (the (map_of monthly segment))))))
       (sort (map fst monthly)))"

text \<open>How the LGD columns are split over two sheets.\<close>

definition split_lgd_columns :: "py_str list \<Rightarrow> py_str list \<times> py_str list" where
  "split_lgd_columns columns =
     (let discounted = filter (prefix ''Discounted '') columns
      in (filter (\<lambda>c. c \<notin> set discounted) columns,
          filter (\<lambda>c. c \<in> set columns) ([''Loan ID'', ''Customer ID''] @ discounted @ [LGD_SUM_COL])))"

section \<open>Lemmas\<close>

lemma sum_ecl_by: "(\<Sum>p\<leftarrow>ecl_by key loans. snd p) = (\<Sum>l\<leftarrow>loans. le_total l)"
  using sum_groups [of le_total key loans] by (simp add: ecl_by_def comp_def case_prod_unfold)

lemma sum_loan_ecl: "(\<Sum>l\<leftarrow>loan_ecl_rows df inp. le_total l) = (\<Sum>e\<leftarrow>staged df. eo_discounted e)"
  using sum_groups [of eo_discounted loan_ecl_key "staged df"]
  by (simp add: loan_ecl_rows_def comp_def case_prod_unfold)

lemma distinct_segment_outstanding: "distinct (map fst (segment_outstanding inp))"
  by (simp add: segment_outstanding_def comp_def case_prod_beta groups_def)

lemma sum_segment_rows: "(\<Sum>g\<leftarrow>ecl_by_segment loans inp. sg_total g) = (\<Sum>l\<leftarrow>loans. le_total l)"
  using sum_ecl_by [of le_segment loans]
  by (simp add: ecl_by_segment_def left_merge_unique [OF distinct_segment_outstanding] comp_def case_prod_beta Let_def)

lemma sum_stage_rows: "(\<Sum>g\<leftarrow>ecl_by_stage loans t. st_total g) = (\<Sum>l\<leftarrow>loans. le_total l)"
  using sum_ecl_by [of le_stage loans] by (simp add: ecl_by_stage_def comp_def case_prod_beta)

lemma sum_stage_shares:
  assumes "t = (\<Sum>l\<leftarrow>loans. le_total l)"
  shows "(\<Sum>g\<leftarrow>ecl_by_stage loans t. st_share g) = (if 0 < t then 1 else 0)"
proof -
  have "(\<Sum>g\<leftarrow>ecl_by_stage loans t. st_share g) = (\<Sum>p\<leftarrow>ecl_by le_stage loans. snd p * (if 0 < t then 1 / t else 0))"
    by (rule arg_cong [where f = sum_list]) (simp add: ecl_by_stage_def comp_def case_prod_unfold)
  also have "\<dots> = t * (if 0 < t then 1 / t else 0)" by (simp only: sum_list_mult_const sum_ecl_by assms)
  finally show ?thesis by simp
qed

section \<open>Properties\<close>

text \<open>
  C12. The loan, segment and stage tables are partitions of one total: each of them adds up to the
  total loss, which is the sum over the rows that have a stage, and the portfolio shares of the
  stages add up to one when the total is positive and are zero otherwise.
\<close>

theorem aggregates_partition_total:
  defines "ag \<equiv> build_ecl_aggregates"
  shows "ag_total_ecl (ag df inp) = (\<Sum>e\<leftarrow>staged df. eo_discounted e)
    \<and> (\<Sum>l\<leftarrow>ag_by_loan (ag df inp). le_total l) = ag_total_ecl (ag df inp)
    \<and> (\<Sum>g\<leftarrow>ag_by_segment (ag df inp). sg_total g) = ag_total_ecl (ag df inp)
    \<and> (\<Sum>g\<leftarrow>ag_by_stage (ag df inp). st_total g) = ag_total_ecl (ag df inp)
    \<and> (\<Sum>g\<leftarrow>ag_by_stage (ag df inp). st_share g) = (if 0 < ag_total_ecl (ag df inp) then 1 else 0)"
proof (cases "df = []")
  case True
  then show ?thesis by (simp add: ag_def build_ecl_aggregates_def staged_def)
next
  case False
  then show ?thesis unfolding ag_def
    by (simp add: build_ecl_aggregates_def Let_def sum_segment_rows sum_stage_rows sum_stage_shares [OF refl]
        del: sum_list_eq_0_iff) (simp add: sum_loan_ecl)
qed

text \<open>
  The total the compute task reads back from a freshly written result table is the total of the
  aggregates, when the stored precision loses nothing and every row has a stage.
\<close>

lemma database_total_is_aggregate_total:
  assumes "\<forall>row \<in> set table. edr_run row \<noteq> run" "\<forall>e \<in> set df. rnd 6 (eo_discounted e) = eo_discounted e"
    and "\<forall>e \<in> set df. eo_staging e \<noteq> None"
  shows "fst (compute_run_totals (save_ead_results rnd ids table run tenant df) run)
    = ag_total_ecl (build_ecl_aggregates df inp)"
proof -
  have "filter (\<lambda>row. edr_run row = run) table = []" using assms(1) by (auto simp: filter_empty_conv)
  moreover have "(\<Sum>e\<leftarrow>df. rnd 6 (eo_discounted e)) = (\<Sum>e\<leftarrow>df. eo_discounted e)"
    using assms(2) by (intro arg_cong [where f = sum_list]) simp
  moreover have "staged df = df" using assms(3) by (simp add: staged_def filter_id_conv)
  ultimately show ?thesis
    by (simp add: compute_run_totals_def save_ead_results_def bulk_insert_ead_results_def executemany_eq
        ead_rows_run sum_discounted_records build_ecl_aggregates_def sum_loan_ecl Let_def)
qed

section \<open>Witnesses\<close>

lemma database_total_is_aggregate_total_witness:
  "fst (compute_run_totals (save_ead_results round_id show_nat [] ''R1'' ''T'' [sample_ead_out]) ''R1'')
    = ag_total_ecl (build_ecl_aggregates [sample_ead_out] sample_ead)"
  by (rule database_total_is_aggregate_total)
    (simp_all add: round_id_def sample_ead_out_def loss_row_def Let_def sample_loan_def snap_def)

text \<open>
  The total outstanding does not agree in the same way: on a single monthly loan of 1200 the
  aggregates report 1200 outstanding, while the total read back from the result table is the
  balance after the first instalment.
\<close>

lemma database_outstanding_differs:
  "(case compute_ead shift_months pmt_ref [sample_loan ''L2'' ''Stage 2''] sample_pd_table sample_lgd_frame of
      Inl _ \<Rightarrow> False
    | Inr (out, _) \<Rightarrow>
        fst (snd (compute_run_totals (save_ead_results round_id show_nat [] ''R1'' ''T'' out) ''R1''))
          = annuity_balance 1200 (12 / 100) 3 1
        \<and> ag_total_outstanding (build_ecl_aggregates out [sample_loan ''L2'' ''Stage 2'']) = 1200)"
  by code_simp

end
