(* ===== verification/Compute.thy ===== *)
theory Compute
  imports Aggregates RunLifecycle Notifications
begin

text \<open>
  The compute pipeline \<^verbatim>\<open>app/tasks/compute_tasks.py\<close>: the tasks \<^verbatim>\<open>pd_task\<close> and \<^verbatim>\<open>lgd_task\<close>, which run in
  parallel, and \<^verbatim>\<open>ead_ecl_task\<close>, the callback of their chord, which the task queue starts when both
  have returned.

  A task is a program counter with its local variables (\<open>pd_pc\<close>, \<open>lgd_pc\<close>, \<open>ead_pc\<close>); a move takes
  the task from one commit to the next, so the moves of different tasks may interleave in any
  order (\<open>compute_step\<close>). The reads between two commits happen in one move. A local variable \<open>run\<close> holds
  the row as it was loaded: the session does not expire it on commit.

  Parameters: the object storage and the Excel reader of \<open>run_env\<close>; the reading of typed rows from a
  frame by the engines (pandas), the month offset, the matrix power, the payment function, the
  rounding of numeric columns, the rendering of a workbook (openpyxl), the text of an exception.
  A move also takes the clock and a fresh identifier.

  A task is delivered once: time limits, lost workers, redelivery and failing statements are not modelled. The results are
  loaded in the order in which they were inserted, as the queries of the source assume; the warnings of a run are stored as a
  list.
\<close>

section \<open>The environment\<close>

record run_meta =
  rm_run_id :: py_str
  rm_tenant_id :: py_str
  rm_timestamp :: timestamp
  rm_engine_version :: py_str
  rm_input_hashes :: py_str

datatype workbook_content =
    PdCalcs run_meta "pd_out list" "(py_str \<times> num) list" pd_intermediates
  | LgdBook run_meta "lgd_out list"
  | RundownBook run_meta "ead_out list"
  | SummaryBook run_meta ecl_aggregates

record 's compute_env =
  ce_run :: "'s run_env"
  ce_pd_rows :: "frame \<Rightarrow> pd_row list result"
  ce_lgd_rows :: "frame \<Rightarrow> lgd_row list result"
  ce_ead_rows :: "frame \<Rightarrow> ead_row list result"
  ce_offset :: "date \<Rightarrow> int \<Rightarrow> date"
  ce_matrix_power :: "mat3 \<Rightarrow> nat \<Rightarrow> mat3"
  ce_pmt :: pmt_fun
  ce_round :: "nat \<Rightarrow> num \<Rightarrow> num"
  ce_pd_ids :: "nat \<Rightarrow> py_str"
  ce_lgd_ids :: "nat \<Rightarrow> py_str"
  ce_ead_ids :: "nat \<Rightarrow> py_str"
  ce_artifact_ids :: "nat \<Rightarrow> py_str"
  ce_render :: "workbook_content \<Rightarrow> bytes result"
  ce_exn_text :: "exn \<Rightarrow> py_str"

section \<open>Progress\<close>

fun stage_value :: "stage_key \<Rightarrow> py_str" where
  "stage_value StPD = ''pd''"
| "stage_value StLGD = ''lgd''"
| "stage_value StEAD = ''ead''"
| "stage_value StECL = ''ecl''"

definition initial_engine_progress :: "stage_key \<Rightarrow> stage_progress" where
  "initial_engine_progress stage = pending_stage"

definition load_run :: "py_str \<Rightarrow> db \<Rightarrow> run result" where
  "load_run run_id d =
     one_or_raise (ValueError (''Run '' @ run_id @ '' not found'')) (filter (\<lambda>r. r_id r = run_id \<and> r_deleted_at r = None) (runs_tbl d))"

text \<open>
  One \<^verbatim>\<open>UPDATE\<close> of the row: \<^verbatim>\<open>jsonb_set\<close> merges the stage into the progress document, and \<open>values\<close> sets the
  other columns. The statement does not pass through the mapper, so \<^verbatim>\<open>updated_at\<close> stays.
\<close>

definition set_stage :: "stage_key \<Rightarrow> stage_progress \<Rightarrow> run \<Rightarrow> run" where
  "set_stage stage stage_data r =
     r \<lparr> r_progress := Some ((case r_progress r of None \<Rightarrow> Map.empty | Some p \<Rightarrow> p)(stage \<mapsto> stage_data)) \<rparr>"

definition atomic_stage_update :: "py_str \<Rightarrow> stage_key \<Rightarrow> stage_progress \<Rightarrow> (run \<Rightarrow> run) \<Rightarrow> db \<Rightarrow> db" where
  "atomic_stage_update run_id stage stage_data run_values d =
     d \<lparr> runs_tbl := update_rows (\<lambda>r. r_id r = run_id) (\<lambda>r. run_values (set_stage stage stage_data r)) (runs_tbl d) \<rparr>"

definition get_engine_progress :: "py_str \<Rightarrow> db \<Rightarrow> (stage_key \<Rightarrow> stage_progress) result" where
  "get_engine_progress run_id d =
     (case scalar_one_or_none (filter (\<lambda>r. r_id r = run_id) (runs_tbl d)) of
        Inl e \<Rightarrow> Inl e
      | Inr None \<Rightarrow> Inr initial_engine_progress
      | Inr (Some r) \<Rightarrow>
          (case r_progress r of
             None \<Rightarrow> Inr initial_engine_progress
           | Some p \<Rightarrow> Inr (\<lambda>stage. case p stage of None \<Rightarrow> initial_engine_progress stage | Some x \<Rightarrow> x)))"

definition is_stage_complete :: "py_str \<Rightarrow> stage_key \<Rightarrow> db \<Rightarrow> bool result" where
  "is_stage_complete run_id stage d =
     (case get_engine_progress run_id d of Inl e \<Rightarrow> Inl e | Inr p \<Rightarrow> Inr (sp_status (p stage) = STAGE_COMPLETE))"

definition running_stage :: "timestamp \<Rightarrow> stage_progress" where
  "running_stage started = \<lparr> sp_status = STAGE_RUNNING, sp_started_at = Some started, sp_finished_at = None, sp_elapsed_ms = None \<rparr>"

definition complete_stage :: "timestamp \<Rightarrow> timestamp \<Rightarrow> stage_progress" where
  "complete_stage started finished =
     \<lparr> sp_status = STAGE_COMPLETE, sp_started_at = Some started, sp_finished_at = Some finished, sp_elapsed_ms = Some ((finished - started) * 1000) \<rparr>"

definition error_stage :: "timestamp \<Rightarrow> stage_progress" where
  "error_stage finished = \<lparr> sp_status = STAGE_ERROR, sp_started_at = None, sp_finished_at = Some finished, sp_elapsed_ms = None \<rparr>"

definition mark_stage_running :: "timestamp \<Rightarrow> py_str \<Rightarrow> stage_key \<Rightarrow> run_status \<Rightarrow> db \<Rightarrow> db" where
  "mark_stage_running now run_id stage status d =
     atomic_stage_update run_id stage (running_stage now) (\<lambda>r. r \<lparr> r_status := status \<rparr>) d"

definition mark_stage_complete :: "timestamp \<Rightarrow> py_str \<Rightarrow> stage_key \<Rightarrow> timestamp \<Rightarrow> db \<Rightarrow> db" where
  "mark_stage_complete now run_id stage started d =
     atomic_stage_update run_id stage (complete_stage started now) (\<lambda>r. r) d"

definition failed_values :: "'s compute_env \<Rightarrow> timestamp \<Rightarrow> py_str \<Rightarrow> stage_key \<Rightarrow> exn \<Rightarrow> run \<Rightarrow> run" where
  "failed_values e now ref stage exc r =
     r \<lparr> r_status := FAILED, r_failure_stage := Some (stage_value stage), r_failure_message := Some (take 2000 (ce_exn_text e exc)),
         r_failure_ref := Some ref, r_finished_at := Some now \<rparr>"

text \<open>What a session writes after its last commit is rolled back when it closes.\<close>

definition uncommitted :: "(db, 'a) op \<Rightarrow> db \<Rightarrow> 'a result" where
  "uncommitted m d = fst (m d)"

definition announce_failure :: "py_str \<Rightarrow> py_str \<Rightarrow> (db, unit) op" where
  "announce_failure ref run_id =
     bind_op (read_op (\<lambda>d. scalar_one_or_none (filter (\<lambda>r. r_id r = run_id) (runs_tbl d)))) (\<lambda>found_run.
     case found_run of
       None \<Rightarrow> return_op ()
     | Some r \<Rightarrow>
         when_op (r_created_by r \<noteq> '''')
           (bind_op (notify_run_failed ref (r_created_by r) (r_tenant r) (r_name r) (r_id r)) (\<lambda>_.
            modify_op (log_event ''run.failed'' (Some (r_created_by r)) (Some (r_tenant r)) True None))))"

definition mark_run_failed :: "'s compute_env \<Rightarrow> timestamp \<Rightarrow> py_str \<Rightarrow> py_str \<Rightarrow> stage_key \<Rightarrow> exn \<Rightarrow> db \<Rightarrow> unit result \<times> db" where
  "mark_run_failed e now ref run_id stage exc d =
     (let d1 = atomic_stage_update run_id stage (error_stage now) (failed_values e now ref stage exc) d
      in (uncommitted (announce_failure ref run_id) d1, d1))"

text \<open>The wrapper of a task marks the run once more, and ignores an exception of the marking.\<close>

definition mark_run_failed_standalone :: "'s compute_env \<Rightarrow> timestamp \<Rightarrow> py_str \<Rightarrow> py_str \<Rightarrow> stage_key \<Rightarrow> exn \<Rightarrow> db \<Rightarrow> db" where
  "mark_run_failed_standalone e now ref run_id stage exc d = snd (mark_run_failed e now ref run_id stage exc d)"

section \<open>Inputs of the stages\<close>

definition stage_uploads :: "py_str \<Rightarrow> upload_kind \<Rightarrow> db \<Rightarrow> upload list" where
  "stage_uploads run_id kind d = filter (\<lambda>u. up_run u = run_id \<and> up_kind u = kind) (uploads_tbl d)"

definition download_uploads :: "'s compute_env \<Rightarrow> upload list \<Rightarrow> 's \<times> db \<Rightarrow> bytes list result" where
  "download_uploads e ups s = collect (\<lambda>u. fst (download_bytes (ce_run e) (up_path u) s)) ups"

definition combine_excel_bytes :: "'s compute_env \<Rightarrow> bytes list \<Rightarrow> frame result" where
  "combine_excel_bytes e files =
     (case collect (re_read_excel (ce_run e)) files of Inl x \<Rightarrow> Inl x | Inr books \<Rightarrow> Inr (combine_sheets (concat books)))"

definition result_bind :: "'a result \<Rightarrow> ('a \<Rightarrow> 'b result) \<Rightarrow> 'b result" where
  "result_bind m f = (case m of Inl x \<Rightarrow> Inl x | Inr a \<Rightarrow> f a)"

definition input_hashes :: "py_str \<Rightarrow> db \<Rightarrow> py_str" where
  "input_hashes run_id d =
     py_join '','' (map up_sha256 (concat (map (\<lambda>k. stage_uploads run_id k d) [UPLOAD_EAD, UPLOAD_LGD, UPLOAD_PD])))"

section \<open>The PD stage\<close>

definition pd_files :: "run \<Rightarrow> bytes list \<Rightarrow> bytes list" where
  "pd_files r files = (if \<not> r_combine_pd r \<and> 1 < length files then take 1 files else files)"

definition pd_result_of :: "'s compute_env \<Rightarrow> run \<Rightarrow> py_str \<Rightarrow> 's \<times> db \<Rightarrow> (pd_out list \<times> (py_str \<times> num) list \<times> pd_intermediates) result" where
  "pd_result_of e r run_id s =
     result_bind (download_uploads e (stage_uploads run_id UPLOAD_PD (snd s)) s) (\<lambda>files.
     result_bind (combine_excel_bytes e (pd_files r files)) (\<lambda>df.
     result_bind (ce_pd_rows e df) (\<lambda>rows.
     Inr (compute_pd (ce_offset e) (ce_matrix_power e) rows))))"

definition pd_work :: "'s compute_env \<Rightarrow> run \<Rightarrow> py_str \<Rightarrow> 's \<times> db \<Rightarrow> pd_out list result" where
  "pd_work e r run_id s =
     (if stage_uploads run_id UPLOAD_PD (snd s) = [] then Inl (ValueError ''No PD uploads found for run'')
      else result_bind (pd_result_of e r run_id s) (\<lambda>(df, _). Inr df))"

datatype pd_pc = PdLoad | PdMark run | PdWork run timestamp | PdSave run timestamp "pd_out list" | PdComplete run timestamp
  | PdFail run exn | PdOuter exn | PdReturned | PdRaised exn

definition pd_move :: "'s compute_env \<Rightarrow> timestamp \<Rightarrow> py_str \<Rightarrow> py_str \<Rightarrow> pd_pc \<Rightarrow> 's \<times> db \<Rightarrow> pd_pc \<times> db" where
  "pd_move e now ref run_id pc s =
     (let d = snd s in
      case pc of
        PdLoad \<Rightarrow>
          (case load_run run_id d of
             Inl x \<Rightarrow> (PdOuter x, d)
           | Inr r \<Rightarrow> (case is_stage_complete (r_id r) StPD d of
               Inl x \<Rightarrow> (PdOuter x, d) | Inr True \<Rightarrow> (PdReturned, d) | Inr False \<Rightarrow> (PdMark r, d)))
      | PdMark r \<Rightarrow> (PdWork r now, mark_stage_running now (r_id r) StPD PD_RUNNING d)
      | PdWork r started \<Rightarrow> (case pd_work e r run_id s of Inl x \<Rightarrow> (PdFail r x, d) | Inr df \<Rightarrow> (PdSave r started df, d))
      | PdSave r started df \<Rightarrow>
          (PdComplete r started, d \<lparr> pd_results_tbl := save_pd_results (ce_round e) (ce_pd_ids e) (pd_results_tbl d) (r_id r) (r_tenant r) df \<rparr>)
      | PdComplete r started \<Rightarrow> (PdReturned, mark_stage_complete now (r_id r) StPD started d)
      | PdFail r x \<Rightarrow> (case mark_run_failed e now ref (r_id r) StPD x d of (Inl y, d') \<Rightarrow> (PdOuter y, d') | (Inr _, d') \<Rightarrow> (PdOuter x, d'))
      | PdOuter x \<Rightarrow> (PdRaised x, mark_run_failed_standalone e now ref run_id StPD x d)
      | PdReturned \<Rightarrow> (PdReturned, d)
      | PdRaised x \<Rightarrow> (PdRaised x, d))"

section \<open>The LGD stage\<close>

definition lgd_result_of :: "'s compute_env \<Rightarrow> run \<Rightarrow> py_str \<Rightarrow> 's \<times> db \<Rightarrow> lgd_out list result" where
  "lgd_result_of e r run_id s =
     result_bind (download_uploads e (stage_uploads run_id UPLOAD_LGD (snd s)) s) (\<lambda>files.
     result_bind (combine_excel_bytes e files) (\<lambda>df.
     result_bind (ce_lgd_rows e df) (\<lambda>rows.
     Inr (compute_lgd rows (load_collateral_config (collateral_tbl (snd s)) (r_tenant r))))))"

definition lgd_work :: "'s compute_env \<Rightarrow> run \<Rightarrow> py_str \<Rightarrow> 's \<times> db \<Rightarrow> lgd_out list result" where
  "lgd_work e r run_id s =
     (if stage_uploads run_id UPLOAD_LGD (snd s) = [] then Inl (ValueError ''No LGD uploads found for run'')
      else lgd_result_of e r run_id s)"

datatype lgd_pc = LgdLoad | LgdMark run | LgdWork run timestamp | LgdSave run timestamp "lgd_out list" | LgdComplete run timestamp
  | LgdFail run exn | LgdOuter exn | LgdReturned | LgdRaised exn

definition lgd_move :: "'s compute_env \<Rightarrow> timestamp \<Rightarrow> py_str \<Rightarrow> py_str \<Rightarrow> lgd_pc \<Rightarrow> 's \<times> db \<Rightarrow> lgd_pc \<times> db" where
  "lgd_move e now ref run_id pc s =
     (let d = snd s in
      case pc of
        LgdLoad \<Rightarrow>
          (case load_run run_id d of
             Inl x \<Rightarrow> (LgdOuter x, d)
           | Inr r \<Rightarrow> (case is_stage_complete (r_id r) StLGD d of
               Inl x \<Rightarrow> (LgdOuter x, d) | Inr True \<Rightarrow> (LgdReturned, d) | Inr False \<Rightarrow> (LgdMark r, d)))
      | LgdMark r \<Rightarrow> (LgdWork r now, mark_stage_running now (r_id r) StLGD LGD_RUNNING d)
      | LgdWork r started \<Rightarrow> (case lgd_work e r run_id s of Inl x \<Rightarrow> (LgdFail r x, d) | Inr df \<Rightarrow> (LgdSave r started df, d))
      | LgdSave r started df \<Rightarrow>
          (LgdComplete r started, d \<lparr> lgd_results_tbl := save_lgd_results (ce_round e) (ce_lgd_ids e) (lgd_results_tbl d) (r_id r) (r_tenant r) df \<rparr>)
      | LgdComplete r started \<Rightarrow> (LgdReturned, mark_stage_complete now (r_id r) StLGD started d)
      | LgdFail r x \<Rightarrow> (case mark_run_failed e now ref (r_id r) StLGD x d of (Inl y, d') \<Rightarrow> (LgdOuter y, d') | (Inr _, d') \<Rightarrow> (LgdOuter x, d'))
      | LgdOuter x \<Rightarrow> (LgdRaised x, mark_run_failed_standalone e now ref run_id StLGD x d)
      | LgdReturned \<Rightarrow> (LgdReturned, d)
      | LgdRaised x \<Rightarrow> (LgdRaised x, d))"

section \<open>The EAD and ECL stages\<close>

definition ead_work :: "'s compute_env \<Rightarrow> py_str \<Rightarrow> 's \<times> db \<Rightarrow> (ead_row list \<times> ead_out list \<times> py_str list) result" where
  "ead_work e run_id s =
     (let ups = stage_uploads run_id UPLOAD_EAD (snd s) in
      if ups = [] then Inl (ValueError ''No EAD uploads found for run'')
      else
        result_bind (download_uploads e ups s) (\<lambda>files.
        result_bind (combine_excel_bytes e files) (\<lambda>df.
        result_bind (ce_ead_rows e df) (\<lambda>ead_input.
        result_bind (compute_ead (ce_offset e) (ce_pmt e) ead_input (load_pd_dataframe (pd_results_tbl (snd s)) run_id)
            (load_lgd_dataframe (lgd_results_tbl (snd s)) run_id)) (\<lambda>(ead_df, run_warnings).
        Inr (ead_input, ead_df, run_warnings))))))"

definition PD_CALCS_FILE :: py_str where "PD_CALCS_FILE = ''PD Calcs.xlsx''"
definition LGD_FILE :: py_str where "LGD_FILE = ''LGD.xlsx''"
definition RUNDOWN_FILE :: py_str where "RUNDOWN_FILE = ''Contractual Rundown.xlsx''"
definition ECL_SUMMARY_FILE :: py_str where "ECL_SUMMARY_FILE = ''ECL Summary.xlsx''"

text \<open>The file name of each workbook with the kind of its artifact.\<close>

definition artifact_kinds :: "(py_str \<times> py_str) list" where
  "artifact_kinds = [(PD_CALCS_FILE, ''PD_CALCS''), (LGD_FILE, ''LGD''), (RUNDOWN_FILE, ''RUNDOWN''), (ECL_SUMMARY_FILE, ''ECL_SUMMARY'')]"

definition generate_all_workbooks ::
    "'s compute_env \<Rightarrow> run_meta \<Rightarrow> pd_out list \<times> (py_str \<times> num) list \<times> pd_intermediates \<Rightarrow> lgd_out list \<Rightarrow> ead_out list
     \<Rightarrow> ecl_aggregates \<Rightarrow> (py_str \<times> bytes) list result" where
  "generate_all_workbooks e meta pd_data lgd_df ead_df aggregates =
     (case pd_data of (pd_df, cure_rates, intermediates) \<Rightarrow>
      collect (\<lambda>(filename, content). result_bind (ce_render e content) (\<lambda>b. Inr (filename, b)))
        [(PD_CALCS_FILE, PdCalcs meta pd_df cure_rates intermediates), (LGD_FILE, LgdBook meta lgd_df),
         (RUNDOWN_FILE, RundownBook meta ead_df), (ECL_SUMMARY_FILE, SummaryBook meta aggregates)])"

text \<open>The totals of the run and its workbooks; the totals are those read back from the result table.\<close>

definition ecl_work ::
    "'s compute_env \<Rightarrow> timestamp \<Rightarrow> run \<Rightarrow> py_str \<Rightarrow> ead_row list \<Rightarrow> ead_out list \<Rightarrow> 's \<times> db \<Rightarrow> ((num \<times> num \<times> num) \<times> (py_str \<times> bytes) list) result" where
  "ecl_work e now r run_id ead_input ead_df s =
     (let aggregates = build_ecl_aggregates ead_df ead_input;
          totals = compute_run_totals (ead_results_tbl (snd s)) run_id;
          (total_ecl, total_outstanding, coverage_ratio) = totals;
          meta = \<lparr> rm_run_id = r_id r, rm_tenant_id = r_tenant r, rm_timestamp = now,
                   rm_engine_version = (if r_engine_version r = '''' then ENGINE_VERSION else r_engine_version r),
                   rm_input_hashes = input_hashes run_id (snd s) \<rparr> in
      result_bind (pd_result_of e r run_id s) (\<lambda>pd_data.
      result_bind (lgd_result_of e r run_id s) (\<lambda>lgd_full_df.
      result_bind (generate_all_workbooks e meta pd_data lgd_full_df ead_df
          (aggregates \<lparr> ag_total_ecl := total_ecl, ag_total_outstanding := total_outstanding, ag_coverage := coverage_ratio \<rparr>)) (\<lambda>workbooks.
      Inr (totals, workbooks)))))"

text \<open>
  The workbooks go to the storage one by one. An artifact is pending in the session until the next
  commit, which is the one at the end or, after an exception, the one that marks the run as failed.
\<close>

definition new_artifact :: "'s compute_env \<Rightarrow> run \<Rightarrow> nat \<Rightarrow> py_str \<Rightarrow> bytes \<Rightarrow> output_artifact" where
  "new_artifact e r k filename content =
     \<lparr> oa_id = ce_artifact_ids e k, oa_run = r_id r, oa_tenant = r_tenant r, oa_kind = the (map_of artifact_kinds filename),
       oa_path = build_storage_path (r_tenant r) (r_id r) ''outputs'' filename, oa_sha256 = re_sha256 (ce_run e) content, oa_size = length content \<rparr>"

fun upload_workbooks :: "'s compute_env \<Rightarrow> run \<Rightarrow> nat \<Rightarrow> (py_str \<times> bytes) list \<Rightarrow> 's \<times> db \<Rightarrow> output_artifact list \<times> unit result \<times> 's" where
  "upload_workbooks e r k [] s = ([], Inr (), fst s)"
| "upload_workbooks e r k ((filename, content) # books) s =
     (case upload_stream (ce_run e) (build_storage_path (r_tenant r) (r_id r) ''outputs'' filename) content s of
        (Inl x, s') \<Rightarrow> ([], Inl x, fst s')
      | (Inr _, s') \<Rightarrow>
          (case upload_workbooks e r (Suc k) books s' of
             (pending, res, st) \<Rightarrow> (new_artifact e r k filename content # pending, res, st)))"

definition add_artifacts :: "output_artifact list \<Rightarrow> db \<Rightarrow> db" where
  "add_artifacts pending d = d \<lparr> artifacts_tbl := artifacts_tbl d @ pending \<rparr>"

definition complete_values :: "timestamp \<Rightarrow> num \<times> num \<times> num \<Rightarrow> py_str list \<Rightarrow> run \<Rightarrow> run" where
  "complete_values now totals run_warnings r =
     (case totals of (total_ecl, total_outstanding, coverage_ratio) \<Rightarrow>
        r \<lparr> r_status := COMPLETE, r_total_ecl := Some total_ecl, r_total_outstanding := Some total_outstanding,
            r_coverage := Some coverage_ratio, r_warnings := (if run_warnings = [] then None else Some run_warnings),
            r_finished_at := Some now \<rparr>)"

definition announce_completion :: "py_str \<Rightarrow> run \<Rightarrow> (db, unit) op" where
  "announce_completion ref r =
     when_op (r_created_by r \<noteq> '''')
       (bind_op (notify_run_completed ref (r_created_by r) (r_tenant r) (r_name r) (r_id r)) (\<lambda>_.
        modify_op (log_event ''run.completed'' (Some (r_created_by r)) (Some (r_tenant r)) True None)))"

record ead_local =
  el_run :: run
  el_started :: timestamp
  el_input :: "ead_row list"
  el_df :: "ead_out list"
  el_warnings :: "py_str list"

datatype ead_pc = EadLoad | EadMark run | EadWork run timestamp | EadSave ead_local | EclMark ead_local | EclWork ead_local timestamp
  | EclUpload ead_local timestamp "num \<times> num \<times> num" "(py_str \<times> bytes) list" | EadComplete ead_local timestamp "num \<times> num \<times> num"
  | EclComplete ead_local timestamp "num \<times> num \<times> num" | EclNotify run
  | EadFail run stage_key exn "output_artifact list" | EadOuter exn | EadReturned | EadSkipped | EadRaised exn

definition ead_move :: "'s compute_env \<Rightarrow> timestamp \<Rightarrow> py_str \<Rightarrow> py_str \<Rightarrow> ead_pc \<Rightarrow> 's \<times> db \<Rightarrow> ead_pc \<times> 's \<times> db" where
  "ead_move e now ref run_id pc s =
     (let d = snd s; st = fst s in
      case pc of
        EadLoad \<Rightarrow>
          (case load_run run_id d of
             Inl x \<Rightarrow> (EadOuter x, st, d)
           | Inr r \<Rightarrow> if r_status r = FAILED then (EadSkipped, st, d) else (EadMark r, st, d))
      | EadMark r \<Rightarrow> (EadWork r now, st, mark_stage_running now (r_id r) StEAD EAD_RUNNING d)
      | EadWork r started \<Rightarrow>
          (case ead_work e run_id s of
             Inl x \<Rightarrow> (EadFail r StEAD x [], st, d)
           | Inr (inp, df, ws) \<Rightarrow> (EadSave \<lparr> el_run = r, el_started = started, el_input = inp, el_df = df, el_warnings = ws \<rparr>, st, d))
      | EadSave l \<Rightarrow>
          (EclMark l, st, d \<lparr> ead_results_tbl := save_ead_results (ce_round e) (ce_ead_ids e) (ead_results_tbl d)
             (r_id (el_run l)) (r_tenant (el_run l)) (el_df l) \<rparr>)
      | EclMark l \<Rightarrow> (EclWork l now, st, atomic_stage_update (r_id (el_run l)) StECL (running_stage now) (\<lambda>r. r) d)
      | EclWork l ecl_started \<Rightarrow>
          (case ecl_work e now (el_run l) run_id (el_input l) (el_df l) s of
             Inl x \<Rightarrow> (EadFail (el_run l) StECL x [], st, d)
           | Inr (totals, books) \<Rightarrow> (EclUpload l ecl_started totals books, st, d))
      | EclUpload l ecl_started totals books \<Rightarrow>
          (case upload_workbooks e (el_run l) 0 books s of
             (pending, Inl x, st') \<Rightarrow> (EadFail (el_run l) StECL x pending, st', d)
           | (pending, Inr _, st') \<Rightarrow> (EadComplete l ecl_started totals, st', add_artifacts pending d))
      | EadComplete l ecl_started totals \<Rightarrow> (EclComplete l ecl_started totals, st, mark_stage_complete now (r_id (el_run l)) StEAD (el_started l) d)
      | EclComplete l ecl_started totals \<Rightarrow>
          (EclNotify (el_run l), st,
           atomic_stage_update (r_id (el_run l)) StECL (complete_stage ecl_started now) (complete_values now totals (el_warnings l)) d)
      | EclNotify r \<Rightarrow> (case uncommitted (announce_completion ref r) d of Inl x \<Rightarrow> (EadFail r StECL x [], st, d) | Inr _ \<Rightarrow> (EadReturned, st, d))
      | EadFail r stage x pending \<Rightarrow>
          (case mark_run_failed e now ref (r_id r) stage x (add_artifacts pending d) of
             (Inl y, d') \<Rightarrow> (EadOuter y, st, d') | (Inr _, d') \<Rightarrow> (EadOuter x, st, d'))
      | EadOuter x \<Rightarrow> (EadRaised x, st, mark_run_failed_standalone e now ref run_id StEAD x d)
      | EadReturned \<Rightarrow> (EadReturned, st, d)
      | EadSkipped \<Rightarrow> (EadSkipped, st, d)
      | EadRaised x \<Rightarrow> (EadRaised x, st, d))"

section \<open>The pipeline\<close>

text \<open>
  \<^verbatim>\<open>enqueue_compute_pipeline\<close>, and the chord of the endpoint of execution: a group of the PD and the LGD
  task, then the EAD task when both returned.
\<close>

record 's pipeline =
  pl_pd :: pd_pc
  pl_lgd :: lgd_pc
  pl_ead :: ead_pc
  pl_store :: 's
  pl_db :: db

definition enqueue_compute_pipeline :: "'s \<Rightarrow> db \<Rightarrow> 's pipeline" where
  "enqueue_compute_pipeline st d = \<lparr> pl_pd = PdLoad, pl_lgd = LgdLoad, pl_ead = EadLoad, pl_store = st, pl_db = d \<rparr>"

datatype task = PdTask | LgdTask | EadTask

fun pd_done :: "pd_pc \<Rightarrow> bool" where
  "pd_done PdReturned = True" | "pd_done (PdRaised x) = True" | "pd_done _ = False"

fun lgd_done :: "lgd_pc \<Rightarrow> bool" where
  "lgd_done LgdReturned = True" | "lgd_done (LgdRaised x) = True" | "lgd_done _ = False"

fun ead_done :: "ead_pc \<Rightarrow> bool" where
  "ead_done EadReturned = True" | "ead_done EadSkipped = True" | "ead_done (EadRaised x) = True" | "ead_done _ = False"

fun enabled :: "task \<Rightarrow> 's pipeline \<Rightarrow> bool" where
  "enabled PdTask p \<longleftrightarrow> \<not> pd_done (pl_pd p)"
| "enabled LgdTask p \<longleftrightarrow> \<not> lgd_done (pl_lgd p)"
| "enabled EadTask p \<longleftrightarrow> pl_pd p = PdReturned \<and> pl_lgd p = LgdReturned \<and> \<not> ead_done (pl_ead p)"

fun move :: "'s compute_env \<Rightarrow> py_str \<Rightarrow> task \<Rightarrow> timestamp \<Rightarrow> py_str \<Rightarrow> 's pipeline \<Rightarrow> 's pipeline" where
  "move e run_id PdTask now ref p =
     (case pd_move e now ref run_id (pl_pd p) (pl_store p, pl_db p) of (pc, d) \<Rightarrow> p \<lparr> pl_pd := pc, pl_db := d \<rparr>)"
| "move e run_id LgdTask now ref p =
     (case lgd_move e now ref run_id (pl_lgd p) (pl_store p, pl_db p) of (pc, d) \<Rightarrow> p \<lparr> pl_lgd := pc, pl_db := d \<rparr>)"
| "move e run_id EadTask now ref p =
     (case ead_move e now ref run_id (pl_ead p) (pl_store p, pl_db p) of (pc, st, d) \<Rightarrow> p \<lparr> pl_ead := pc, pl_store := st, pl_db := d \<rparr>)"

inductive compute_step :: "'s compute_env \<Rightarrow> py_str \<Rightarrow> 's pipeline \<Rightarrow> 's pipeline \<Rightarrow> bool" for e run_id where
  task_moves: "enabled t p \<Longrightarrow> compute_step e run_id p (move e run_id t now ref p)"

inductive_cases compute_stepE: "compute_step e run_id p q"

text \<open>A schedule: which task moves next, when, and with which fresh identifier.\<close>

fun run_schedule :: "'s compute_env \<Rightarrow> py_str \<Rightarrow> (task \<times> timestamp \<times> py_str) list \<Rightarrow> 's pipeline \<Rightarrow> 's pipeline" where
  "run_schedule e run_id [] p = p"
| "run_schedule e run_id ((t, now, ref) # sched) p = run_schedule e run_id sched (if enabled t p then move e run_id t now ref p else p)"

section \<open>Termination\<close>

fun pd_rank :: "pd_pc \<Rightarrow> nat" where
  "pd_rank PdLoad = 5" | "pd_rank (PdMark r) = 4" | "pd_rank (PdWork r s) = 3" | "pd_rank (PdSave r s df) = 2" | "pd_rank (PdComplete r s) = 1"
| "pd_rank (PdFail r x) = 2" | "pd_rank (PdOuter x) = 1" | "pd_rank PdReturned = 0" | "pd_rank (PdRaised x) = 0"

fun lgd_rank :: "lgd_pc \<Rightarrow> nat" where
  "lgd_rank LgdLoad = 5" | "lgd_rank (LgdMark r) = 4" | "lgd_rank (LgdWork r s) = 3" | "lgd_rank (LgdSave r s df) = 2" | "lgd_rank (LgdComplete r s) = 1"
| "lgd_rank (LgdFail r x) = 2" | "lgd_rank (LgdOuter x) = 1" | "lgd_rank LgdReturned = 0" | "lgd_rank (LgdRaised x) = 0"

fun ead_rank :: "ead_pc \<Rightarrow> nat" where
  "ead_rank EadLoad = 12" | "ead_rank (EadMark r) = 11" | "ead_rank (EadWork r s) = 10" | "ead_rank (EadSave l) = 9" | "ead_rank (EclMark l) = 8"
| "ead_rank (EclWork l s) = 7" | "ead_rank (EclUpload l s t b) = 6" | "ead_rank (EadComplete l s t) = 5" | "ead_rank (EclComplete l s t) = 4"
| "ead_rank (EclNotify r) = 3" | "ead_rank (EadFail r k x ps) = 2" | "ead_rank (EadOuter x) = 1" | "ead_rank EadReturned = 0"
| "ead_rank EadSkipped = 0" | "ead_rank (EadRaised x) = 0"

definition pipeline_rank :: "'s pipeline \<Rightarrow> nat" where
  "pipeline_rank p = pd_rank (pl_pd p) + lgd_rank (pl_lgd p) + ead_rank (pl_ead p)"

lemma pd_move_rank: "\<not> pd_done pc \<Longrightarrow> pd_rank (fst (pd_move e now ref i pc s)) < pd_rank pc"
  by (cases pc) (auto simp: pd_move_def Let_def split: sum.splits bool.splits prod.splits)

lemma lgd_move_rank: "\<not> lgd_done pc \<Longrightarrow> lgd_rank (fst (lgd_move e now ref i pc s)) < lgd_rank pc"
  by (cases pc) (auto simp: lgd_move_def Let_def split: sum.splits bool.splits prod.splits)

lemma ead_move_rank: "\<not> ead_done pc \<Longrightarrow> ead_rank (fst (ead_move e now ref i pc s)) < ead_rank pc"
  by (cases pc) (auto simp: ead_move_def Let_def split: sum.splits prod.splits)

lemma move_rank: "enabled t p \<Longrightarrow> pipeline_rank (move e i t now ref p) < pipeline_rank p"
  using pd_move_rank [of "pl_pd p" e now ref i "(pl_store p, pl_db p)"] lgd_move_rank [of "pl_lgd p" e now ref i "(pl_store p, pl_db p)"]
    ead_move_rank [of "pl_ead p" e now ref i "(pl_store p, pl_db p)"]
  by (cases t) (auto simp: pipeline_rank_def split: prod.splits)

lemma compute_step_rank: "compute_step e i p q \<Longrightarrow> pipeline_rank q < pipeline_rank p"
  by (erule compute_stepE) (simp add: move_rank)

lemma compute_steps_rank: "(compute_step e i ^^ n) p q \<Longrightarrow> n + pipeline_rank q \<le> pipeline_rank p"
proof (induction n arbitrary: q)
  case (Suc n)
  then obtain m where "(compute_step e i ^^ n) p m" "compute_step e i m q" by auto
  then show ?case using Suc.IH [of m] compute_step_rank [of e i m q] by linarith
qed simp

definition finished :: "'s pipeline \<Rightarrow> bool" where
  "finished p \<longleftrightarrow> pd_done (pl_pd p) \<and> lgd_done (pl_lgd p) \<and> (pl_pd p = PdReturned \<and> pl_lgd p = LgdReturned \<longrightarrow> ead_done (pl_ead p))"

lemma finished_iff: "finished p \<longleftrightarrow> (\<forall>t. \<not> enabled t p)"
  by (auto simp: finished_def intro: task.exhaust) (metis enabled.simps task.exhaust)+

lemma finished_stuck: "finished p \<longleftrightarrow> (\<nexists>q. compute_step e i p q)"
  unfolding finished_iff by (auto intro: compute_step.intros elim: compute_stepE)

lemma compute_reaches_end: "\<exists>q. (compute_step e i)\<^sup>*\<^sup>* p q \<and> finished q"
proof (induction "pipeline_rank p" arbitrary: p rule: less_induct)
  case less
  show ?case
  proof (cases "finished p")
    case False
    then obtain q where q: "compute_step e i p q" using finished_stuck by blast
    then obtain z where "(compute_step e i)\<^sup>*\<^sup>* q z" "finished z" using less compute_step_rank by blast
    then show ?thesis using q by (meson converse_rtranclp_into_rtranclp)
  qed blast
qed

text \<open>
  The moves of the pipeline end, so that every execution reaches an end about which the properties below speak.
  Whatever the tasks compute, whatever fails, and in whatever order the three tasks move, an execution (each task delivered
  once) has at most 22 moves, it stops only when the PD and the LGD task have returned or
  raised and, if both returned, the EAD task has returned, was skipped or raised, and from every state
  of an execution such an end can be reached.
\<close>

lemma pipeline_terminates:
  assumes "(compute_step e i ^^ n) (enqueue_compute_pipeline st d) p"
  shows "n \<le> 22 \<and> ((\<nexists>q. compute_step e i p q) \<longleftrightarrow> finished p) \<and> (\<exists>q. (compute_step e i)\<^sup>*\<^sup>* p q \<and> finished q)"
proof -
  have "n + pipeline_rank p \<le> 22"
    using compute_steps_rank [OF assms] by (simp add: pipeline_rank_def enqueue_compute_pipeline_def)
  then show ?thesis using finished_stuck [of p e i] compute_reaches_end [of e i p] by auto
qed

section \<open>The row of the run\<close>

definition run_row :: "py_str \<Rightarrow> run \<Rightarrow> db \<Rightarrow> bool" where
  "run_row i r d \<longleftrightarrow> filter (\<lambda>r. r_id r = i) (runs_tbl d) = [r]"

definition stage_of :: "run \<Rightarrow> stage_key \<Rightarrow> stage_status" where
  "stage_of r stage = (case r_progress r of None \<Rightarrow> STAGE_PENDING | Some p \<Rightarrow> (case p stage of None \<Rightarrow> STAGE_PENDING | Some x \<Rightarrow> sp_status x))"

text \<open>The columns of a run that its computation does not write.\<close>

definition same_run :: "run \<Rightarrow> run \<Rightarrow> bool" where
  "same_run r q \<longleftrightarrow> r_id r = r_id q \<and> r_tenant r = r_tenant q \<and> r_created_by r = r_created_by q \<and> r_name r = r_name q
     \<and> r_combine_pd r = r_combine_pd q \<and> r_deleted_at r = r_deleted_at q \<and> r_updated_at r = r_updated_at q"

lemma same_run_simps [simp]: "same_run r r" "same_run (set_stage k x r) q = same_run r q"
  "same_run (r \<lparr> r_status := s \<rparr>) q = same_run r q" "same_run (failed_values e now ref k z r) q = same_run r q"
  "same_run (complete_values now t ws r) q = same_run r q"
  by (auto simp: same_run_def set_stage_def failed_values_def complete_values_def split: prod.splits)

lemma stage_of_simps [simp]:
  "stage_of (set_stage k x r) j = (if j = k then sp_status x else stage_of r j)"
  "stage_of (r \<lparr> r_status := s \<rparr>) j = stage_of r j" "stage_of (failed_values e now ref k z r) j = stage_of r j"
  "stage_of (complete_values now t ws r) j = stage_of r j"
  by (auto simp: stage_of_def set_stage_def failed_values_def complete_values_def split: option.splits prod.splits)

lemma r_status_simps [simp]: "r_status (set_stage k x r) = r_status r" "r_status (failed_values e now ref k z r) = FAILED"
  "r_status (complete_values now t ws r) = COMPLETE"
  by (auto simp: set_stage_def failed_values_def complete_values_def split: prod.splits)

lemma r_id_simps [simp]: "r_id (set_stage k x r) = r_id r" "r_id (failed_values e now ref k z r) = r_id r" "r_id (complete_values now t ws r) = r_id r"
  by (auto simp: set_stage_def failed_values_def complete_values_def split: prod.splits)

lemma complete_values_simps [simp]:
  "r_total_ecl (complete_values now (a, b, c) ws r) = Some a" "r_total_outstanding (complete_values now (a, b, c) ws r) = Some b"
  "r_coverage (complete_values now (a, b, c) ws r) = Some c" "r_warnings (complete_values now (a, b, c) ws r) = (if ws = [] then None else Some ws)"
  by (simp_all add: complete_values_def)

lemma failed_values_simps [simp]: "r_failure_stage (failed_values e now ref k x r) = Some (stage_value k)"
  by (simp add: failed_values_def)

lemma stage_status_simps [simp]:
  "sp_status (complete_stage s t) = STAGE_COMPLETE" "sp_status (running_stage s) = STAGE_RUNNING" "sp_status (error_stage s) = STAGE_ERROR"
  by (simp_all add: complete_stage_def running_stage_def error_stage_def)

lemma run_row_update:
  assumes "run_row i r d" "\<And>r. r_id (f r) = r_id r"
  shows "run_row i (f (set_stage k x r)) (atomic_stage_update i k x f d)"
proof -
  have "r_id r = i" using filter_one_member [OF assms(1) [unfolded run_row_def]] by simp
  then show ?thesis
    using assms by (simp add: run_row_def atomic_stage_update_def filter_update_rows_same set_stage_def)
qed

lemma run_row_id: "run_row i r d \<Longrightarrow> r_id r = i"
  using filter_one_member [of "\<lambda>r. r_id r = i"] unfolding run_row_def by blast

lemma run_row_other [simp]: "run_row i r (d \<lparr> pd_results_tbl := a \<rparr>) = run_row i r d" "run_row i r (d \<lparr> lgd_results_tbl := b \<rparr>) = run_row i r d"
  "run_row i r (d \<lparr> ead_results_tbl := c \<rparr>) = run_row i r d" "run_row i r (add_artifacts ps d) = run_row i r d"
  by (simp_all add: run_row_def add_artifacts_def)

lemma load_run_row:
  assumes "run_row i r d" "r_deleted_at r = None"
  shows "load_run i d = Inr r"
proof -
  have "filter (\<lambda>r. r_deleted_at r = None) (filter (\<lambda>r. r_id r = i) (runs_tbl d)) = [r]"
    using assms by (simp add: run_row_def del: filter_filter)
  then show ?thesis by (simp add: load_run_def conj_commute)
qed

lemma is_stage_complete_row: "run_row i r d \<Longrightarrow> is_stage_complete i k d = Inr (stage_of r k = STAGE_COMPLETE)"
  by (simp add: run_row_def is_stage_complete_def get_engine_progress_def stage_of_def initial_engine_progress_def pending_stage_def split: option.splits)

lemmas stage_writes = mark_stage_running_def mark_stage_complete_def mark_run_failed_standalone_def mark_run_failed_def

lemma atomic_stage_update_tables [simp]:
  "uploads_tbl (atomic_stage_update i k x f d) = uploads_tbl d" "collateral_tbl (atomic_stage_update i k x f d) = collateral_tbl d"
  "pd_results_tbl (atomic_stage_update i k x f d) = pd_results_tbl d" "lgd_results_tbl (atomic_stage_update i k x f d) = lgd_results_tbl d"
  "ead_results_tbl (atomic_stage_update i k x f d) = ead_results_tbl d" "prefs_tbl (atomic_stage_update i k x f d) = prefs_tbl d"
  by (simp_all add: atomic_stage_update_def)

lemma add_artifacts_tables [simp]:
  "uploads_tbl (add_artifacts ps d) = uploads_tbl d" "collateral_tbl (add_artifacts ps d) = collateral_tbl d"
  "pd_results_tbl (add_artifacts ps d) = pd_results_tbl d" "lgd_results_tbl (add_artifacts ps d) = lgd_results_tbl d"
  "ead_results_tbl (add_artifacts ps d) = ead_results_tbl d" "prefs_tbl (add_artifacts ps d) = prefs_tbl d"
  by (simp_all add: add_artifacts_def)

text \<open>The work of a stage depends on the uploads, the storage, and the columns the computation does not write.\<close>

lemma download_uploads_cong: "st = st' \<Longrightarrow> download_uploads e ups (st, d) = download_uploads e ups (st', d')"
  by (simp add: download_uploads_def download_bytes_def read_op_def)

lemma pd_work_cong:
  assumes "uploads_tbl d = uploads_tbl d'" "same_run r q"
  shows "pd_work e r i (st, d) = pd_work e q i (st, d')"
  using assms unfolding pd_work_def pd_result_of_def stage_uploads_def pd_files_def same_run_def
  by (simp add: download_uploads_cong [of st st e _ d d'])

lemma lgd_work_cong:
  assumes "uploads_tbl d = uploads_tbl d'" "collateral_tbl d = collateral_tbl d'" "same_run r q"
  shows "lgd_work e r i (st, d) = lgd_work e q i (st, d')"
  using assms unfolding lgd_work_def lgd_result_of_def stage_uploads_def same_run_def
  by (simp add: download_uploads_cong [of st st e _ d d'])

lemma ead_work_cong:
  assumes "uploads_tbl d = uploads_tbl d'" "pd_results_tbl d = pd_results_tbl d'" "lgd_results_tbl d = lgd_results_tbl d'"
  shows "ead_work e i (st, d) = ead_work e i (st, d')"
  using assms unfolding ead_work_def stage_uploads_def Let_def
  by (simp add: download_uploads_cong [of st st e _ d d'])

section \<open>The invariant of an execution\<close>

text \<open>
  \<open>r0\<close>, \<open>st\<close> and \<open>d0\<close> are the row of the run, the storage and the database when the run is handed to
  the task queue; \<open>r\<close> and \<open>d\<close> are the current row and database.
\<close>

definition pd_saved :: "'s compute_env \<Rightarrow> run \<Rightarrow> 's \<Rightarrow> db \<Rightarrow> db \<Rightarrow> bool" where
  "pd_saved e r0 st d0 d \<longleftrightarrow> (\<exists>df. pd_work e r0 (r_id r0) (st, d0) = Inr df
     \<and> pd_results_tbl d = save_pd_results (ce_round e) (ce_pd_ids e) (pd_results_tbl d0) (r_id r0) (r_tenant r0) df)"

definition lgd_saved :: "'s compute_env \<Rightarrow> run \<Rightarrow> 's \<Rightarrow> db \<Rightarrow> db \<Rightarrow> bool" where
  "lgd_saved e r0 st d0 d \<longleftrightarrow> (\<exists>df. lgd_work e r0 (r_id r0) (st, d0) = Inr df
     \<and> lgd_results_tbl d = save_lgd_results (ce_round e) (ce_lgd_ids e) (lgd_results_tbl d0) (r_id r0) (r_tenant r0) df)"

definition pd_inv :: "'s compute_env \<Rightarrow> run \<Rightarrow> 's \<Rightarrow> db \<Rightarrow> pd_pc \<Rightarrow> run \<Rightarrow> db \<Rightarrow> bool" where
  "pd_inv e r0 st d0 pc r d \<longleftrightarrow>
     (case pc of
        PdLoad \<Rightarrow> pd_results_tbl d = pd_results_tbl d0 \<and> stage_of r StPD \<noteq> STAGE_COMPLETE
      | PdMark q \<Rightarrow> pd_results_tbl d = pd_results_tbl d0 \<and> same_run q r0
      | PdWork q _ \<Rightarrow> pd_results_tbl d = pd_results_tbl d0 \<and> same_run q r0
      | PdSave q _ df \<Rightarrow> pd_results_tbl d = pd_results_tbl d0 \<and> same_run q r0 \<and> pd_work e r0 (r_id r0) (st, d0) = Inr df
      | PdComplete q _ \<Rightarrow> same_run q r0 \<and> pd_saved e r0 st d0 d
      | PdReturned \<Rightarrow> pd_saved e r0 st d0 d \<and> stage_of r StPD = STAGE_COMPLETE
      | PdFail q _ \<Rightarrow> same_run q r0 \<and> isl (pd_work e r0 (r_id r0) (st, d0))
      | PdOuter _ \<Rightarrow> isl (pd_work e r0 (r_id r0) (st, d0))
      | PdRaised _ \<Rightarrow> isl (pd_work e r0 (r_id r0) (st, d0)) \<and> r_status r \<noteq> QUEUED)"

definition lgd_inv :: "'s compute_env \<Rightarrow> run \<Rightarrow> 's \<Rightarrow> db \<Rightarrow> lgd_pc \<Rightarrow> run \<Rightarrow> db \<Rightarrow> bool" where
  "lgd_inv e r0 st d0 pc r d \<longleftrightarrow>
     (case pc of
        LgdLoad \<Rightarrow> lgd_results_tbl d = lgd_results_tbl d0 \<and> stage_of r StLGD \<noteq> STAGE_COMPLETE
      | LgdMark q \<Rightarrow> lgd_results_tbl d = lgd_results_tbl d0 \<and> same_run q r0
      | LgdWork q _ \<Rightarrow> lgd_results_tbl d = lgd_results_tbl d0 \<and> same_run q r0
      | LgdSave q _ df \<Rightarrow> lgd_results_tbl d = lgd_results_tbl d0 \<and> same_run q r0 \<and> lgd_work e r0 (r_id r0) (st, d0) = Inr df
      | LgdComplete q _ \<Rightarrow> same_run q r0 \<and> lgd_saved e r0 st d0 d
      | LgdReturned \<Rightarrow> lgd_saved e r0 st d0 d \<and> stage_of r StLGD = STAGE_COMPLETE
      | LgdFail q _ \<Rightarrow> same_run q r0 \<and> isl (lgd_work e r0 (r_id r0) (st, d0))
      | LgdOuter _ \<Rightarrow> isl (lgd_work e r0 (r_id r0) (st, d0))
      | LgdRaised _ \<Rightarrow> isl (lgd_work e r0 (r_id r0) (st, d0)) \<and> r_status r \<noteq> QUEUED)"

text \<open>The reference: the stages one after the other, with the totals and the warnings of the run.\<close>

definition sequential_result :: "'s compute_env \<Rightarrow> run \<Rightarrow> 's \<Rightarrow> db \<Rightarrow> (ead_out list \<times> py_str list \<times> num \<times> num \<times> num) result" where
  "sequential_result e r st d =
     result_bind (pd_work e r (r_id r) (st, d)) (\<lambda>pd_df.
     result_bind (lgd_work e r (r_id r) (st, d)) (\<lambda>lgd_df.
     result_bind (ead_work e (r_id r) (st, d \<lparr>
         pd_results_tbl := save_pd_results (ce_round e) (ce_pd_ids e) (pd_results_tbl d) (r_id r) (r_tenant r) pd_df,
         lgd_results_tbl := save_lgd_results (ce_round e) (ce_lgd_ids e) (lgd_results_tbl d) (r_id r) (r_tenant r) lgd_df \<rparr>)) (\<lambda>(_, ead_df, ws).
     Inr (ead_df, ws,
       compute_run_totals (save_ead_results (ce_round e) (ce_ead_ids e) (ead_results_tbl d) (r_id r) (r_tenant r) ead_df) (r_id r)))))"

fun pd_failed :: "pd_pc \<Rightarrow> bool" where
  "pd_failed (PdOuter x) = True" | "pd_failed (PdRaised x) = True" | "pd_failed _ = False"

fun lgd_failed :: "lgd_pc \<Rightarrow> bool" where
  "lgd_failed (LgdOuter x) = True" | "lgd_failed (LgdRaised x) = True" | "lgd_failed _ = False"

text \<open>What the row of a run may become by a move of the stage \<open>k\<close> that marks the status \<open>s\<close>.\<close>

definition stage_writes_row :: "stage_key \<Rightarrow> run_status \<Rightarrow> bool \<Rightarrow> run \<Rightarrow> run \<Rightarrow> bool" where
  "stage_writes_row k s failing r r' \<longleftrightarrow>
     (\<forall>j. j \<noteq> k \<longrightarrow> stage_of r' j = stage_of r j) \<and> (r_status r' = r_status r \<or> r_status r' = s \<or> r_status r' = FAILED \<and> failing)"

lemma stage_writes_row_refl [simp]: "stage_writes_row k s b r r"
  by (simp add: stage_writes_row_def)

definition same_tables :: "db \<Rightarrow> db \<Rightarrow> bool" where
  "same_tables d d' \<longleftrightarrow> uploads_tbl d' = uploads_tbl d \<and> collateral_tbl d' = collateral_tbl d \<and> prefs_tbl d' = prefs_tbl d"

lemma same_run_keys: "same_run q r \<Longrightarrow> r_id q = r_id r \<and> r_tenant q = r_tenant r"
  by (simp add: same_run_def)

lemma pd_keeps:
  assumes "run_row (r_id r0) r d" "same_run r r0" "r_deleted_at r0 = None" "uploads_tbl d = uploads_tbl d0"
    "pd_inv e r0 st d0 pc r d" "pd_move e now ref (r_id r0) pc (st, d) = (pc', d')"
  shows "\<exists>r'. run_row (r_id r0) r' d' \<and> same_run r' r0 \<and> pd_inv e r0 st d0 pc' r' d' \<and> stage_writes_row StPD PD_RUNNING (pd_failed pc') r r'
     \<and> same_tables d d' \<and> lgd_results_tbl d' = lgd_results_tbl d \<and> ead_results_tbl d' = ead_results_tbl d \<and> (pd_failed pc \<longrightarrow> pd_failed pc')"
proof -
  have del: "r_deleted_at r = None" "r_id r = r_id r0" using assms(2,3) by (auto simp: same_run_def)
  note row = run_row_update [OF assms(1)]
  note reads = load_run_row [OF assms(1) del(1)] is_stage_complete_row [OF assms(1)]
  have work: "pd_work e q (r_id r0) (st, d) = pd_work e r0 (r_id r0) (st, d0)" if "same_run q r0" for q
    using pd_work_cong [OF assms(4) that] .
  note defs = pd_move_def pd_inv_def same_tables_def stage_writes stage_writes_row_def
  show ?thesis
  proof (cases pc)
    case PdLoad
    then show ?thesis using reads del assms by (auto simp: defs split: bool.splits intro!: exI [of _ r])
  next
    case (PdMark q)
    then show ?thesis
      using assms row [of "\<lambda>r. r \<lparr> r_status := PD_RUNNING \<rparr>" StPD "running_stage now"]
      by (intro exI [of _ "set_stage StPD (running_stage now) r \<lparr> r_status := PD_RUNNING \<rparr>"]) (auto simp: defs dest: same_run_keys)
  next
    case (PdWork q t)
    then show ?thesis using work assms by (auto simp: defs split: sum.splits intro!: exI [of _ r])
  next
    case (PdSave q t df)
    then show ?thesis using assms same_run_keys [of q r0] by (intro exI [of _ r]) (auto simp: defs pd_saved_def)
  next
    case (PdComplete q t)
    then show ?thesis
      using assms row [of "\<lambda>r. r" StPD "complete_stage t now"]
      by (intro exI [of _ "set_stage StPD (complete_stage t now) r"]) (auto simp: defs pd_saved_def dest: same_run_keys)
  next
    case (PdFail q x)
    then show ?thesis
      using assms row [of "failed_values e now ref StPD x" StPD "error_stage now"]
      by (intro exI [of _ "failed_values e now ref StPD x (set_stage StPD (error_stage now) r)"])
        (auto simp: defs Let_def split: sum.splits dest: same_run_keys)
  next
    case (PdOuter x)
    then show ?thesis
      using assms row [of "failed_values e now ref StPD x" StPD "error_stage now"]
      by (intro exI [of _ "failed_values e now ref StPD x (set_stage StPD (error_stage now) r)"]) (auto simp: defs Let_def)
  qed (use assms in \<open>auto simp: defs intro!: exI [of _ r]\<close>)
qed

lemma lgd_keeps:
  assumes "run_row (r_id r0) r d" "same_run r r0" "r_deleted_at r0 = None" "uploads_tbl d = uploads_tbl d0" "collateral_tbl d = collateral_tbl d0"
    "lgd_inv e r0 st d0 pc r d" "lgd_move e now ref (r_id r0) pc (st, d) = (pc', d')"
  shows "\<exists>r'. run_row (r_id r0) r' d' \<and> same_run r' r0 \<and> lgd_inv e r0 st d0 pc' r' d' \<and> stage_writes_row StLGD LGD_RUNNING (lgd_failed pc') r r'
     \<and> same_tables d d' \<and> pd_results_tbl d' = pd_results_tbl d \<and> ead_results_tbl d' = ead_results_tbl d \<and> (lgd_failed pc \<longrightarrow> lgd_failed pc')"
proof -
  have del: "r_deleted_at r = None" "r_id r = r_id r0" using assms(2,3) by (auto simp: same_run_def)
  note row = run_row_update [OF assms(1)]
  note reads = load_run_row [OF assms(1) del(1)] is_stage_complete_row [OF assms(1)]
  have work: "lgd_work e q (r_id r0) (st, d) = lgd_work e r0 (r_id r0) (st, d0)" if "same_run q r0" for q
    using lgd_work_cong [OF assms(4,5) that] .
  note defs = lgd_move_def lgd_inv_def same_tables_def stage_writes stage_writes_row_def
  show ?thesis
  proof (cases pc)
    case LgdLoad
    then show ?thesis using reads del assms by (auto simp: defs split: bool.splits intro!: exI [of _ r])
  next
    case (LgdMark q)
    then show ?thesis
      using assms row [of "\<lambda>r. r \<lparr> r_status := LGD_RUNNING \<rparr>" StLGD "running_stage now"]
      by (intro exI [of _ "set_stage StLGD (running_stage now) r \<lparr> r_status := LGD_RUNNING \<rparr>"]) (auto simp: defs dest: same_run_keys)
  next
    case (LgdWork q t)
    then show ?thesis using work assms by (auto simp: defs split: sum.splits intro!: exI [of _ r])
  next
    case (LgdSave q t df)
    then show ?thesis using assms same_run_keys [of q r0] by (intro exI [of _ r]) (auto simp: defs lgd_saved_def)
  next
    case (LgdComplete q t)
    then show ?thesis
      using assms row [of "\<lambda>r. r" StLGD "complete_stage t now"]
      by (intro exI [of _ "set_stage StLGD (complete_stage t now) r"]) (auto simp: defs lgd_saved_def dest: same_run_keys)
  next
    case (LgdFail q x)
    then show ?thesis
      using assms row [of "failed_values e now ref StLGD x" StLGD "error_stage now"]
      by (intro exI [of _ "failed_values e now ref StLGD x (set_stage StLGD (error_stage now) r)"])
        (auto simp: defs Let_def split: sum.splits dest: same_run_keys)
  next
    case (LgdOuter x)
    then show ?thesis
      using assms row [of "failed_values e now ref StLGD x" StLGD "error_stage now"]
      by (intro exI [of _ "failed_values e now ref StLGD x (set_stage StLGD (error_stage now) r)"]) (auto simp: defs Let_def)
  qed (use assms in \<open>auto simp: defs intro!: exI [of _ r]\<close>)
qed

definition saved_losses :: "'s compute_env \<Rightarrow> run \<Rightarrow> db \<Rightarrow> ead_out list \<Rightarrow> ead_result list" where
  "saved_losses e r0 d0 df = save_ead_results (ce_round e) (ce_ead_ids e) (ead_results_tbl d0) (r_id r0) (r_tenant r0) df"

definition computed :: "'s compute_env \<Rightarrow> run \<Rightarrow> 's \<Rightarrow> db \<Rightarrow> ead_local \<Rightarrow> num \<times> num \<times> num \<Rightarrow> bool" where
  "computed e r0 st d0 l tot \<longleftrightarrow> same_run (el_run l) r0 \<and> sequential_result e r0 st d0 = Inr (el_df l, el_warnings l, tot)"

definition published :: "'s compute_env \<Rightarrow> run \<Rightarrow> 's \<Rightarrow> db \<Rightarrow> run \<Rightarrow> db \<Rightarrow> bool" where
  "published e r0 st d0 r d \<longleftrightarrow> r_status r = COMPLETE \<and> stage_of r StEAD = STAGE_COMPLETE \<and> stage_of r StECL = STAGE_COMPLETE
     \<and> (\<exists>df ws ecl outstanding coverage. sequential_result e r0 st d0 = Inr (df, ws, ecl, outstanding, coverage)
         \<and> r_total_ecl r = Some ecl \<and> r_total_outstanding r = Some outstanding \<and> r_coverage r = Some coverage
         \<and> r_warnings r = (if ws = [] then None else Some ws) \<and> ead_results_tbl d = saved_losses e r0 d0 df)"

text \<open>
  Nothing goes wrong: the engines accept the uploads, every workbook can be rendered and stored, and the
  creator of the run has at most one row of preferences.
\<close>

definition healthy :: "'s compute_env \<Rightarrow> run \<Rightarrow> 's \<Rightarrow> db \<Rightarrow> bool" where
  "healthy e r0 st d0 \<longleftrightarrow> \<not> isl (sequential_result e r0 st d0) \<and> (\<forall>c. \<not> isl (ce_render e c))
     \<and> (\<forall>k b s. fst (os_put (re_store (ce_run e)) k b s)) \<and> length (prefs_of (r_created_by r0) d0) \<le> 1"

definition ead_inv :: "'s compute_env \<Rightarrow> run \<Rightarrow> 's \<Rightarrow> db \<Rightarrow> ead_pc \<Rightarrow> run \<Rightarrow> 's \<Rightarrow> db \<Rightarrow> bool" where
  "ead_inv e r0 st d0 pc r st' d \<longleftrightarrow>
     (case pc of
        EadLoad \<Rightarrow> ead_results_tbl d = ead_results_tbl d0 \<and> st' = st \<and> r_status r \<in> {QUEUED, PD_RUNNING, LGD_RUNNING, FAILED}
      | EadMark q \<Rightarrow> ead_results_tbl d = ead_results_tbl d0 \<and> st' = st \<and> same_run q r0 \<and> r_status r \<in> {QUEUED, PD_RUNNING, LGD_RUNNING}
      | EadWork q _ \<Rightarrow> ead_results_tbl d = ead_results_tbl d0 \<and> st' = st \<and> same_run q r0 \<and> r_status r = EAD_RUNNING
      | EadSave l \<Rightarrow> ead_results_tbl d = ead_results_tbl d0 \<and> st' = st \<and> r_status r = EAD_RUNNING \<and> (\<exists>tot. computed e r0 st d0 l tot)
      | EclMark l \<Rightarrow> ead_results_tbl d = saved_losses e r0 d0 (el_df l) \<and> st' = st \<and> r_status r = EAD_RUNNING \<and> (\<exists>tot. computed e r0 st d0 l tot)
      | EclWork l _ \<Rightarrow> ead_results_tbl d = saved_losses e r0 d0 (el_df l) \<and> st' = st \<and> r_status r = EAD_RUNNING \<and> (\<exists>tot. computed e r0 st d0 l tot)
      | EclUpload l _ tot _ \<Rightarrow> ead_results_tbl d = saved_losses e r0 d0 (el_df l) \<and> r_status r = EAD_RUNNING \<and> computed e r0 st d0 l tot
      | EadComplete l _ tot \<Rightarrow> ead_results_tbl d = saved_losses e r0 d0 (el_df l) \<and> r_status r = EAD_RUNNING \<and> computed e r0 st d0 l tot
      | EclComplete l _ tot \<Rightarrow> ead_results_tbl d = saved_losses e r0 d0 (el_df l) \<and> r_status r = EAD_RUNNING \<and> computed e r0 st d0 l tot
          \<and> stage_of r StEAD = STAGE_COMPLETE
      | EclNotify q \<Rightarrow> same_run q r0 \<and> published e r0 st d0 r d
      | EadReturned \<Rightarrow> published e r0 st d0 r d
      | EadFail q k _ _ \<Rightarrow> \<not> healthy e r0 st d0 \<and> same_run q r0 \<and> k \<in> {StEAD, StECL} \<and> r_status r \<in> {EAD_RUNNING, COMPLETE}
      | EadOuter _ \<Rightarrow> \<not> healthy e r0 st d0 \<and> r_status r = FAILED
      | EadRaised _ \<Rightarrow> \<not> healthy e r0 st d0 \<and> r_status r = FAILED \<and> r_failure_stage r = Some ''ead''
      | EadSkipped \<Rightarrow> False)"

lemma ead_work_saved:
  assumes "pd_saved e r0 st d0 d" "lgd_saved e r0 st d0 d" "uploads_tbl d = uploads_tbl d0" "ead_work e (r_id r0) (st, d) = Inr (inp, df, ws)"
  shows "sequential_result e r0 st d0 = Inr (df, ws, compute_run_totals (saved_losses e r0 d0 df) (r_id r0))"
proof -
  obtain pf lf where pf: "pd_work e r0 (r_id r0) (st, d0) = Inr pf" "lgd_work e r0 (r_id r0) (st, d0) = Inr lf"
    and tbl: "pd_results_tbl d = save_pd_results (ce_round e) (ce_pd_ids e) (pd_results_tbl d0) (r_id r0) (r_tenant r0) pf"
      "lgd_results_tbl d = save_lgd_results (ce_round e) (ce_lgd_ids e) (lgd_results_tbl d0) (r_id r0) (r_tenant r0) lf"
    using assms(1,2) by (auto simp: pd_saved_def lgd_saved_def)
  let ?d = "d0 \<lparr> pd_results_tbl := save_pd_results (ce_round e) (ce_pd_ids e) (pd_results_tbl d0) (r_id r0) (r_tenant r0) pf,
     lgd_results_tbl := save_lgd_results (ce_round e) (ce_lgd_ids e) (lgd_results_tbl d0) (r_id r0) (r_tenant r0) lf \<rparr>"
  have "ead_work e (r_id r0) (st, ?d) = Inr (inp, df, ws)"
    using ead_work_cong [of ?d d e "r_id r0" st] tbl assms(3,4) by simp
  then show ?thesis using pf by (simp add: sequential_result_def result_bind_def saved_losses_def)
qed

lemma ecl_work_totals:
  assumes "ecl_work e now r i inp df s = Inr (tot, books)"
  shows "tot = compute_run_totals (ead_results_tbl (snd s)) i"
  using assms by (auto simp: ecl_work_def Let_def result_bind_def split: prod.splits sum.splits)

lemma sequential_totals:
  assumes "sequential_result e r0 st d0 = Inr (df, ws, tot)"
  shows "tot = compute_run_totals (saved_losses e r0 d0 df) (r_id r0)"
  using assms by (auto simp: sequential_result_def result_bind_def saved_losses_def split: sum.splits prod.splits)

lemma ead_work_unhealthy:
  assumes "pd_saved e r0 st d0 d" "lgd_saved e r0 st d0 d" "uploads_tbl d = uploads_tbl d0" "ead_work e (r_id r0) (st, d) = Inl x"
  shows "\<not> healthy e r0 st d0"
proof -
  obtain pf lf where pf: "pd_work e r0 (r_id r0) (st, d0) = Inr pf" "lgd_work e r0 (r_id r0) (st, d0) = Inr lf"
    and tbl: "pd_results_tbl d = save_pd_results (ce_round e) (ce_pd_ids e) (pd_results_tbl d0) (r_id r0) (r_tenant r0) pf"
      "lgd_results_tbl d = save_lgd_results (ce_round e) (ce_lgd_ids e) (lgd_results_tbl d0) (r_id r0) (r_tenant r0) lf"
    using assms(1,2) by (auto simp: pd_saved_def lgd_saved_def)
  let ?d = "d0 \<lparr> pd_results_tbl := save_pd_results (ce_round e) (ce_pd_ids e) (pd_results_tbl d0) (r_id r0) (r_tenant r0) pf,
     lgd_results_tbl := save_lgd_results (ce_round e) (ce_lgd_ids e) (lgd_results_tbl d0) (r_id r0) (r_tenant r0) lf \<rparr>"
  have "ead_work e (r_id r0) (st, ?d) = Inl x"
    using ead_work_cong [of ?d d e "r_id r0" st] tbl assms(3,4) by simp
  then show ?thesis using pf by (simp add: healthy_def sequential_result_def result_bind_def)
qed

lemma collect_renders:
  assumes "\<And>c. \<not> isl (f c)"
  shows "\<not> isl (collect (\<lambda>(n, c). result_bind (f c) (\<lambda>b. Inr (n, b))) xs)"
proof (induction xs)
  case (Cons x xs)
  moreover obtain n c where "x = (n, c)" by fastforce
  ultimately show ?case using assms [of c] by (cases "f c") (auto simp: result_bind_def split: sum.splits)
qed simp

lemma ecl_work_unhealthy:
  assumes "pd_saved e r0 st d0 d" "lgd_saved e r0 st d0 d" "uploads_tbl d = uploads_tbl d0" "collateral_tbl d = collateral_tbl d0" "same_run q r0"
    "ecl_work e now q (r_id r0) inp df (st, d) = Inl x"
  shows "\<not> healthy e r0 st d0"
proof
  assume h: "healthy e r0 st d0"
  have "\<not> isl (pd_work e q (r_id r0) (st, d))" "\<not> isl (lgd_work e q (r_id r0) (st, d))"
    using assms(1,2) pd_work_cong [OF assms(3,5), of e "r_id r0" st] lgd_work_cong [OF assms(3-5), of e "r_id r0" st]
    by (auto simp: pd_saved_def lgd_saved_def)
  then obtain pd_data lgd_df where "pd_result_of e q (r_id r0) (st, d) = Inr pd_data" "lgd_result_of e q (r_id r0) (st, d) = Inr lgd_df"
    by (cases "lgd_result_of e q (r_id r0) (st, d)") (auto simp: pd_work_def lgd_work_def result_bind_def split: if_splits sum.splits)
  moreover have "generate_all_workbooks e m z l es ag \<noteq> Inl y" for m z l es ag y
  proof -
    have "\<not> isl (generate_all_workbooks e m z l es ag)"
      unfolding generate_all_workbooks_def using h by (cases z) (auto intro!: collect_renders simp: healthy_def simp del: collect.simps)
    then show ?thesis by auto
  qed
  ultimately show False
    using assms(6) by (auto simp: ecl_work_def Let_def result_bind_def split: prod.splits sum.splits)
qed

lemma upload_workbooks_unhealthy:
  assumes "upload_workbooks e r k books s = (pending, Inl x, st')" shows "\<not> healthy e r0 st d0"
  using assms
proof (induction books arbitrary: k s pending)
  case (Cons book books)
  obtain n c where "book = (n, c)" by fastforce
  then show ?case
    using Cons by (auto simp: upload_stream_def healthy_def split: prod.splits sum.splits if_splits) (metis fst_conv)+
qed simp

lemma announce_completion_unhealthy:
  assumes "uncommitted (announce_completion ref q) d = Inl x" "same_run q r0" "prefs_tbl d = prefs_tbl d0"
  shows "\<not> healthy e r0 st d0"
proof -
  have "prefs_of (r_created_by q) d = prefs_of (r_created_by r0) d0"
    using assms(2,3) by (simp add: prefs_of_def same_run_def)
  then show ?thesis
    using assms(1) by (auto simp: healthy_def uncommitted_def announce_completion_def notify_run_completed_def create_notification_if_enabled_def
        pref_enabled_def when_op_def bind_op_def op_defs Let_def scalar_one_or_none_cases split: if_splits sum.splits prod.splits)
qed

lemma ead_keeps:
  assumes "run_row (r_id r0) r d" "same_run r r0" "r_deleted_at r0 = None" "uploads_tbl d = uploads_tbl d0"
    "pd_saved e r0 st d0 d" "lgd_saved e r0 st d0 d" "pc = EadLoad \<Longrightarrow> r_status r \<noteq> FAILED" "same_tables d0 d"
    "ead_inv e r0 st d0 pc r st' d" "ead_move e now ref (r_id r0) pc (st', d) = (pc', st'', d')"
  shows "\<exists>r'. run_row (r_id r0) r' d' \<and> same_run r' r0 \<and> ead_inv e r0 st d0 pc' r' st'' d'
     \<and> stage_of r' StPD = stage_of r StPD \<and> stage_of r' StLGD = stage_of r StLGD
     \<and> same_tables d d' \<and> pd_results_tbl d' = pd_results_tbl d \<and> lgd_results_tbl d' = lgd_results_tbl d \<and> pc' \<noteq> EadLoad"
proof -
  have del: "r_deleted_at r = None" "r_id r = r_id r0" using assms(2,3) by (auto simp: same_run_def)
  note row = run_row_update [OF assms(1)]
  note reads = load_run_row [OF assms(1) del(1)] is_stage_complete_row [OF assms(1)]
  note defs = ead_move_def ead_inv_def same_tables_def stage_writes
  show ?thesis
  proof (cases pc)
    case EadLoad
    then show ?thesis using reads del assms by (intro exI [of _ r]) (auto simp: defs)
  next
    case (EadMark q)
    then show ?thesis
      using assms same_run_keys [of q r0] row [of "\<lambda>r. r \<lparr> r_status := EAD_RUNNING \<rparr>" StEAD "running_stage now"]
      by (intro exI [of _ "set_stage StEAD (running_stage now) r \<lparr> r_status := EAD_RUNNING \<rparr>"]) (auto simp: defs)
  next
    case (EadWork q t)
    have "\<exists>tot. computed e r0 st d0 \<lparr> el_run = q, el_started = t, el_input = inp, el_df = df, el_warnings = ws \<rparr> tot"
      if "ead_work e (r_id r0) (st, d) = Inr (inp, df, ws)" "same_run q r0" for inp df ws
      unfolding computed_def using ead_work_saved [OF assms(5,6,4) that(1)] that(2) by (intro exI) simp
    then show ?thesis
      using assms EadWork ead_work_unhealthy [OF assms(5,6,4)] by (intro exI [of _ r]) (auto simp: defs simp del: split_paired_Ex split: sum.splits prod.splits)
  next
    case (EadSave l)
    then show ?thesis
      using assms same_run_keys [of "el_run l" r0] by (intro exI [of _ r]) (auto simp: defs saved_losses_def computed_def)
  next
    case (EclMark l)
    then show ?thesis
      using assms same_run_keys [of "el_run l" r0] row [of "\<lambda>r. r" StECL "running_stage now"]
      by (intro exI [of _ "set_stage StECL (running_stage now) r"]) (auto simp: defs computed_def)
  next
    case (EclWork l t)
    then show ?thesis
      using assms sequential_totals [of e r0 st d0 "el_df l" "el_warnings l"] ecl_work_unhealthy [OF assms(5,6,4), of "el_run l"]
      by (intro exI [of _ r]) (auto simp: defs computed_def dest!: ecl_work_totals split: sum.splits prod.splits)
  next
    case (EclUpload l t tot books)
    then show ?thesis
      using assms upload_workbooks_unhealthy [of e "el_run l" 0 books "(st', d)" _ _ _ r0 st d0]
      by (intro exI [of _ r]) (auto simp: defs computed_def split: sum.splits prod.splits)
  next
    case (EadComplete l t tot)
    then show ?thesis
      using assms same_run_keys [of "el_run l" r0] row [of "\<lambda>r. r" StEAD "complete_stage (el_started l) now"]
      by (intro exI [of _ "set_stage StEAD (complete_stage (el_started l) now) r"]) (auto simp: defs computed_def)
  next
    case (EclComplete l t tot)
    then show ?thesis
      using assms same_run_keys [of "el_run l" r0] row [of "complete_values now tot (el_warnings l)" StECL "complete_stage t now"]
      by (intro exI [of _ "complete_values now tot (el_warnings l) (set_stage StECL (complete_stage t now) r)"])
        (cases tot, auto simp: defs computed_def published_def)
  next
    case (EclNotify q)
    then show ?thesis
      using assms announce_completion_unhealthy [of ref q d _ r0 d0 e st] by (intro exI [of _ r]) (auto simp: defs published_def split: sum.splits)
  next
    case (EadFail q k x ps)
    then show ?thesis
      using assms same_run_keys [of q r0] run_row_update [of "r_id r0" r "add_artifacts ps d" "failed_values e now ref k x" k "error_stage now"]
      by (intro exI [of _ "failed_values e now ref k x (set_stage k (error_stage now) r)"])
        (auto simp: defs Let_def split: sum.splits)
  next
    case (EadOuter x)
    then show ?thesis
      using assms row [of "failed_values e now ref StEAD x" StEAD "error_stage now"]
      by (intro exI [of _ "failed_values e now ref StEAD x (set_stage StEAD (error_stage now) r)"]) (auto simp: defs Let_def)
  qed (use assms in \<open>auto simp: defs intro!: exI [of _ r]\<close>)
qed

definition pipe_inv :: "'s compute_env \<Rightarrow> run \<Rightarrow> 's \<Rightarrow> db \<Rightarrow> 's pipeline \<Rightarrow> run \<Rightarrow> bool" where
  "pipe_inv e r0 st d0 p r \<longleftrightarrow> run_row (r_id r0) r (pl_db p) \<and> same_run r r0 \<and> same_tables d0 (pl_db p)
     \<and> pd_inv e r0 st d0 (pl_pd p) r (pl_db p) \<and> lgd_inv e r0 st d0 (pl_lgd p) r (pl_db p) \<and> ead_inv e r0 st d0 (pl_ead p) r (pl_store p) (pl_db p)
     \<and> (pl_ead p = EadLoad \<and> r_status r = FAILED \<longrightarrow> pd_failed (pl_pd p) \<or> lgd_failed (pl_lgd p))
     \<and> (pl_ead p \<noteq> EadLoad \<longrightarrow> pl_pd p = PdReturned \<and> pl_lgd p = LgdReturned)"

lemma pd_inv_frame:
  assumes "pd_inv e r0 st d0 pc r d" "pd_results_tbl d' = pd_results_tbl d" "stage_of r' StPD = stage_of r StPD" "r_status r \<noteq> QUEUED \<longrightarrow> r_status r' \<noteq> QUEUED"
  shows "pd_inv e r0 st d0 pc r' d'"
  using assms by (auto simp: pd_inv_def pd_saved_def split: pd_pc.splits)

lemma lgd_inv_frame:
  assumes "lgd_inv e r0 st d0 pc r d" "lgd_results_tbl d' = lgd_results_tbl d" "stage_of r' StLGD = stage_of r StLGD" "r_status r \<noteq> QUEUED \<longrightarrow> r_status r' \<noteq> QUEUED"
  shows "lgd_inv e r0 st d0 pc r' d'"
  using assms by (auto simp: lgd_inv_def lgd_saved_def split: lgd_pc.splits)

lemma ead_inv_before:
  "ead_inv e r0 st d0 EadLoad r st' d \<longleftrightarrow> ead_results_tbl d = ead_results_tbl d0 \<and> st' = st \<and> r_status r \<in> {QUEUED, PD_RUNNING, LGD_RUNNING, FAILED}"
  by (simp add: ead_inv_def)

lemma move_keeps_inv:
  assumes inv: "pipe_inv e r0 st d0 p r" and live: "r_deleted_at r0 = None" and en: "enabled t p"
  shows "\<exists>r'. pipe_inv e r0 st d0 (move e (r_id r0) t now ref p) r'"
proof (cases t)
  case PdTask
  then have b: "pl_ead p = EadLoad" "pl_store p = st" using en inv by (auto simp: pipe_inv_def ead_inv_before)
  obtain pc' d' where m: "pd_move e now ref (r_id r0) (pl_pd p) (st, pl_db p) = (pc', d')" by fastforce
  obtain r' where r': "run_row (r_id r0) r' d'" "same_run r' r0" "pd_inv e r0 st d0 pc' r' d'" "stage_writes_row StPD PD_RUNNING (pd_failed pc') r r'"
    "same_tables (pl_db p) d'" "lgd_results_tbl d' = lgd_results_tbl (pl_db p)" "ead_results_tbl d' = ead_results_tbl (pl_db p)" "pd_failed (pl_pd p) \<longrightarrow> pd_failed pc'"
    using pd_keeps [OF _ _ live _ _ m, of r d0] inv by (auto simp: pipe_inv_def same_tables_def)
  moreover have "lgd_inv e r0 st d0 (pl_lgd p) r' d'"
    using inv r' by (auto simp: pipe_inv_def stage_writes_row_def intro: lgd_inv_frame)
  ultimately show ?thesis
    using inv b m PdTask by (intro exI [of _ r']) (auto simp: pipe_inv_def ead_inv_before same_tables_def stage_writes_row_def)
next
  case LgdTask
  then have b: "pl_ead p = EadLoad" "pl_store p = st" using en inv by (auto simp: pipe_inv_def ead_inv_before)
  obtain pc' d' where m: "lgd_move e now ref (r_id r0) (pl_lgd p) (st, pl_db p) = (pc', d')" by fastforce
  obtain r' where r': "run_row (r_id r0) r' d'" "same_run r' r0" "lgd_inv e r0 st d0 pc' r' d'" "stage_writes_row StLGD LGD_RUNNING (lgd_failed pc') r r'"
    "same_tables (pl_db p) d'" "pd_results_tbl d' = pd_results_tbl (pl_db p)" "ead_results_tbl d' = ead_results_tbl (pl_db p)" "lgd_failed (pl_lgd p) \<longrightarrow> lgd_failed pc'"
    using lgd_keeps [OF _ _ live _ _ _ m, of r d0] inv by (auto simp: pipe_inv_def same_tables_def)
  moreover have "pd_inv e r0 st d0 (pl_pd p) r' d'"
    using inv r' by (auto simp: pipe_inv_def stage_writes_row_def intro: pd_inv_frame)
  ultimately show ?thesis
    using inv b m LgdTask by (intro exI [of _ r']) (auto simp: pipe_inv_def ead_inv_before same_tables_def stage_writes_row_def)
next
  case EadTask
  then have b: "pl_pd p = PdReturned" "pl_lgd p = LgdReturned" using en by auto
  obtain pc' st' d' where m: "ead_move e now ref (r_id r0) (pl_ead p) (pl_store p, pl_db p) = (pc', st', d')" by (metis prod.exhaust)
  have saved: "pd_saved e r0 st d0 (pl_db p)" "lgd_saved e r0 st d0 (pl_db p)" and up: "uploads_tbl (pl_db p) = uploads_tbl d0"
    and nf: "pl_ead p = EadLoad \<Longrightarrow> r_status r \<noteq> FAILED"
    using inv b by (auto simp: pipe_inv_def pd_inv_def lgd_inv_def same_tables_def)
  obtain r' where r': "run_row (r_id r0) r' d'" "same_run r' r0" "ead_inv e r0 st d0 pc' r' st' d'"
    "stage_of r' StPD = stage_of r StPD" "stage_of r' StLGD = stage_of r StLGD"
    "same_tables (pl_db p) d'" "pd_results_tbl d' = pd_results_tbl (pl_db p)" "lgd_results_tbl d' = lgd_results_tbl (pl_db p)" "pc' \<noteq> EadLoad"
    using ead_keeps [OF _ _ live up saved nf _ _ m] inv by (auto simp: pipe_inv_def)
  then show ?thesis
    using inv b m EadTask saved by (intro exI [of _ r']) (auto simp: pipe_inv_def pd_inv_def lgd_inv_def pd_saved_def lgd_saved_def same_tables_def)
qed

lemma reachable_inv:
  assumes "(compute_step e (r_id r0))\<^sup>*\<^sup>* (enqueue_compute_pipeline st d0) p" "run_row (r_id r0) r0 d0" "r_deleted_at r0 = None"
    "r_status r0 = QUEUED" "r_progress r0 = Some default_engine_progress"
  shows "\<exists>r. pipe_inv e r0 st d0 p r"
  using assms(1)
proof (induction rule: rtranclp_induct)
  case base
  have "stage_of r0 k \<noteq> STAGE_COMPLETE" for k
    using assms(5) by (simp add: stage_of_def default_engine_progress_def pending_stage_def)
  then show ?case
    using assms by (intro exI [of _ r0])
      (auto simp: pipe_inv_def enqueue_compute_pipeline_def pd_inv_def lgd_inv_def ead_inv_before same_tables_def)
next
  case (step p q)
  then show ?case using move_keeps_inv [OF _ assms(3)] by (auto elim!: compute_stepE)
qed

lemma returned_run_published:
  assumes "(compute_step e i)\<^sup>*\<^sup>* (enqueue_compute_pipeline st d) p" "run_row i r0 d" "r_deleted_at r0 = None"
    "r_status r0 = QUEUED" "r_progress r0 = Some default_engine_progress" "pl_ead p = EadReturned"
  obtains r where "run_row i r (pl_db p)" "same_run r r0" "published e r0 st d r (pl_db p)"
proof -
  have i: "i = r_id r0" using run_row_id [OF assms(2)] by simp
  obtain r where "pipe_inv e r0 st d p r" using reachable_inv assms(1-5) i by metis
  then show thesis using assms(6) i by (intro that [of r]) (auto simp: pipe_inv_def ead_inv_def)
qed

text \<open>
  C24. What the pipeline leaves behind, whatever the order in which its tasks moved. A run that was
  queued by the endpoint of execution and whose tasks have stopped is in one of three situations.
  Either the EAD task returned: then the run is complete, all four stages are complete, and its total
  loss, outstanding amount, coverage, warnings and result rows are those of running the
  stages one after the other on the uploads. Or the EAD task raised: then the run is failed with the stage ead.
  Or the EAD task never started because the PD or the LGD computation raised an exception: then the run is
  failed or is left in a running status.
\<close>

theorem pipeline_outcome:
  assumes "(compute_step e i)\<^sup>*\<^sup>* (enqueue_compute_pipeline st d) p" "finished p"
    "run_row i r0 d" "r_deleted_at r0 = None" "r_status r0 = QUEUED" "r_progress r0 = Some default_engine_progress"
  shows "\<exists>r. run_row i r (pl_db p) \<and> same_run r r0 \<and>
     (pl_ead p = EadReturned \<and> r_status r = COMPLETE \<and> (\<forall>k. stage_of r k = STAGE_COMPLETE)
        \<and> (\<exists>df ws ecl outstanding coverage. sequential_result e r0 st d = Inr (df, ws, ecl, outstanding, coverage)
            \<and> r_total_ecl r = Some ecl \<and> r_total_outstanding r = Some outstanding \<and> r_coverage r = Some coverage
            \<and> r_warnings r = (if ws = [] then None else Some ws)
            \<and> ead_results_tbl (pl_db p) = save_ead_results (ce_round e) (ce_ead_ids e) (ead_results_tbl d) i (r_tenant r0) df)
      \<or> (\<exists>x. pl_ead p = EadRaised x) \<and> r_status r = FAILED \<and> r_failure_stage r = Some ''ead''
      \<or> pl_ead p = EadLoad \<and> (isl (pd_work e r0 i (st, d)) \<or> isl (lgd_work e r0 i (st, d))) \<and> r_status r \<in> {FAILED, PD_RUNNING, LGD_RUNNING})"
proof -
  have i: "i = r_id r0" using run_row_id [OF assms(3)] by simp
  obtain r where inv: "pipe_inv e r0 st d p r" using reachable_inv assms i by metis
  show ?thesis
  proof (cases "pl_ead p = EadLoad")
    case True
    then have "isl (pd_work e r0 i (st, d)) \<or> isl (lgd_work e r0 i (st, d))" "r_status r \<in> {FAILED, PD_RUNNING, LGD_RUNNING}"
      using inv assms(2) i by (auto simp: finished_def pipe_inv_def ead_inv_before pd_inv_def lgd_inv_def elim!: pd_done.elims lgd_done.elims)
    then show ?thesis using True inv i by (auto simp: pipe_inv_def)
  next
    case False
    then have ret: "pl_pd p = PdReturned" "pl_lgd p = LgdReturned" "ead_done (pl_ead p)" using inv assms(2) by (auto simp: finished_def pipe_inv_def)
    then have "stage_of r StPD = STAGE_COMPLETE" "stage_of r StLGD = STAGE_COMPLETE"
      using inv by (auto simp: pipe_inv_def pd_inv_def lgd_inv_def)
    then have all: "\<forall>k. stage_of r k = STAGE_COMPLETE" if "stage_of r StEAD = STAGE_COMPLETE" "stage_of r StECL = STAGE_COMPLETE"
      using that stage_key.exhaust by metis
    have row: "run_row i r (pl_db p)" "same_run r r0" and ead: "ead_inv e r0 st d (pl_ead p) r (pl_store p) (pl_db p)"
      using inv i by (auto simp: pipe_inv_def)
    consider "pl_ead p = EadReturned" | "pl_ead p = EadSkipped" | x where "pl_ead p = EadRaised x"
      using ret(3) by (auto elim: ead_done.elims)
    then show ?thesis
    proof cases
      case 1
      then have "published e r0 st d r (pl_db p)" using ead by (simp add: ead_inv_def)
      then show ?thesis using 1 all row unfolding published_def saved_losses_def i by blast
    qed (use ead row in \<open>auto simp: ead_inv_def\<close>)
  qed
qed

lemma sequential_stages:
  assumes "\<not> isl (sequential_result e r st d)"
  shows "\<not> isl (pd_work e r (r_id r) (st, d))" "\<not> isl (lgd_work e r (r_id r) (st, d))"
  using assms by (auto simp: sequential_result_def result_bind_def split: sum.splits)

lemma healthy_returned:
  assumes "(compute_step e i)\<^sup>*\<^sup>* (enqueue_compute_pipeline st d) p" "finished p" "healthy e r0 st d"
    "run_row i r0 d" "r_deleted_at r0 = None" "r_status r0 = QUEUED" "r_progress r0 = Some default_engine_progress"
  shows "pl_ead p = EadReturned"
proof -
  have i: "i = r_id r0" using run_row_id [OF assms(4)] by simp
  obtain r where inv: "pipe_inv e r0 st d p r" using reachable_inv assms i by metis
  have ok: "\<not> isl (pd_work e r0 i (st, d))" "\<not> isl (lgd_work e r0 i (st, d))"
    using sequential_stages [of e r0 st d] assms(3) i by (simp_all add: healthy_def)
  have "pl_pd p = PdReturned" "pl_lgd p = LgdReturned"
    using inv ok assms(2) i by (auto simp: finished_def pipe_inv_def pd_inv_def lgd_inv_def elim!: pd_done.elims lgd_done.elims)
  then show ?thesis
    using inv assms(2,3) by (auto simp: pipe_inv_def pd_inv_def lgd_inv_def finished_def ead_inv_def elim!: ead_done.elims)
qed

text \<open>
  C25. A run whose computation meets no error completes: when the engines accept the uploads,
  the workbooks can be rendered and stored and the creator has at most one row of preferences, every
  execution of the pipeline that has stopped, in whatever order its tasks moved, has left the
  run complete with every stage complete.
\<close>

theorem healthy_run_completes:
  assumes "(compute_step e i)\<^sup>*\<^sup>* (enqueue_compute_pipeline st d) p" "finished p" "healthy e r0 st d"
    "run_row i r0 d" "r_deleted_at r0 = None" "r_status r0 = QUEUED" "r_progress r0 = Some default_engine_progress"
  shows "pl_ead p = EadReturned \<and> (\<exists>r. run_row i r (pl_db p) \<and> r_status r = COMPLETE \<and> (\<forall>k. stage_of r k = STAGE_COMPLETE))"
proof -
  have i: "i = r_id r0" using run_row_id [OF assms(4)] by simp
  obtain r where inv: "pipe_inv e r0 st d p r" using reachable_inv assms i by metis
  have ead: "pl_ead p = EadReturned" by (rule healthy_returned [OF assms])
  then have "stage_of r StPD = STAGE_COMPLETE" "stage_of r StLGD = STAGE_COMPLETE" "published e r0 st d r (pl_db p)"
    using inv by (auto simp: pipe_inv_def pd_inv_def lgd_inv_def ead_inv_def)
  then have "r_status r = COMPLETE \<and> (\<forall>k. stage_of r k = STAGE_COMPLETE)"
    using stage_key.exhaust by (metis published_def)
  then show ?thesis using inv i ead by (auto simp: pipe_inv_def)
qed

section \<open>A failure that is overwritten\<close>

lemma pd_moves_simps:
  "pd_move e now ref i (PdMark q) s = (PdWork q now, mark_stage_running now (r_id q) StPD PD_RUNNING (snd s))"
  "pd_move e now ref i (PdOuter x) s = (PdRaised x, mark_run_failed_standalone e now ref i StPD x (snd s))"
  by (simp_all add: pd_move_def Let_def)

lemma pd_fails:
  assumes "run_row i r (pl_db p)" "r_deleted_at r = None" "stage_of r StPD \<noteq> STAGE_COMPLETE" "pd_work e r i (pl_store p, pl_db p) = Inl x" "pl_pd p = PdLoad"
  shows "\<exists>y r' d'. run_schedule e i (replicate 5 (PdTask, now, ref)) p = p \<lparr> pl_pd := PdRaised y, pl_db := d' \<rparr> \<and> run_row i r' d' \<and> same_run r' r
     \<and> stage_of r' StPD = STAGE_ERROR \<and> stage_of r' StLGD = stage_of r StLGD \<and> r_status r' = FAILED \<and> same_tables (pl_db p) d'"
proof -
  let ?s = "pl_store p" and ?d = "pl_db p"
  let ?d1 = "mark_stage_running now i StPD PD_RUNNING ?d" and ?r1 = "set_stage StPD (running_stage now) r \<lparr> r_status := PD_RUNNING \<rparr>"
  have id: "r_id r = i" using run_row_id [OF assms(1)] .
  have r1: "run_row i ?r1 ?d1" unfolding mark_stage_running_def by (rule run_row_update [OF assms(1)]) simp
  have m1: "pd_move e now ref i PdLoad (?s, ?d) = (PdMark r, ?d)"
    using assms id by (simp add: pd_move_def Let_def load_run_row is_stage_complete_row)
  have m3: "pd_move e now ref i (PdWork r now) (?s, ?d1) = (PdFail r x, ?d1)"
    using assms(4) pd_work_cong [of ?d1 ?d r r e i ?s] by (simp add: pd_move_def Let_def mark_stage_running_def)
  let ?d2 = "atomic_stage_update i StPD (error_stage now) (failed_values e now ref StPD x) ?d1"
  obtain y where m4: "pd_move e now ref i (PdFail r x) (?s, ?d1) = (PdOuter y, ?d2)"
    using id by (cases "uncommitted (announce_failure ref i) ?d2") (auto simp: pd_move_def mark_run_failed_def Let_def)
  let ?d3 = "atomic_stage_update i StPD (error_stage now) (failed_values e now ref StPD y) ?d2"
  have m5: "pd_move e now ref i (PdOuter y) (?s, ?d2) = (PdRaised y, ?d3)"
    by (simp add: pd_move_def mark_run_failed_standalone_def mark_run_failed_def Let_def)
  let ?r3 = "failed_values e now ref StPD y (set_stage StPD (error_stage now) (failed_values e now ref StPD x (set_stage StPD (error_stage now) ?r1)))"
  have r3: "run_row i ?r3 ?d3"
    by (intro run_row_update r1) simp_all
  have "run_schedule e i (replicate 5 (PdTask, now, ref)) p = p \<lparr> pl_pd := PdRaised y, pl_db := ?d3 \<rparr>"
    using m1 m3 m4 m5 id assms(5) by (simp add: numeral_eq_Suc pd_moves_simps mark_stage_running_def)
  then show ?thesis
    using r3 by (intro exI [of _ y] exI [of _ ?r3] exI [of _ ?d3] conjI) (simp_all only: same_tables_def mark_stage_running_def atomic_stage_update_tables, simp_all)
qed

lemma lgd_succeeds:
  assumes "run_row i r (pl_db p)" "r_deleted_at r = None" "stage_of r StLGD \<noteq> STAGE_COMPLETE" "lgd_work e r i (pl_store p, pl_db p) = Inr df" "pl_lgd p = LgdLoad"
  shows "\<exists>r' d'. run_schedule e i (replicate 5 (LgdTask, now, ref)) p = p \<lparr> pl_lgd := LgdReturned, pl_db := d' \<rparr> \<and> run_row i r' d' \<and> same_run r' r
     \<and> stage_of r' StPD = stage_of r StPD \<and> stage_of r' StLGD = STAGE_COMPLETE \<and> r_status r' = LGD_RUNNING"
proof -
  let ?s = "pl_store p" and ?d = "pl_db p"
  let ?d1 = "atomic_stage_update i StLGD (running_stage now) (\<lambda>r. r \<lparr> r_status := LGD_RUNNING \<rparr>) ?d" and ?r1 = "set_stage StLGD (running_stage now) r \<lparr> r_status := LGD_RUNNING \<rparr>"
  have id: "r_id r = i" using run_row_id [OF assms(1)] .
  have m1: "lgd_move e now ref i LgdLoad (?s, ?d) = (LgdMark r, ?d)"
    using assms id by (simp add: lgd_move_def Let_def load_run_row is_stage_complete_row)
  have m2: "lgd_move e now ref i (LgdMark r) (?s, ?d) = (LgdWork r now, ?d1)" using id by (simp add: lgd_move_def Let_def mark_stage_running_def)
  have m3: "lgd_move e now ref i (LgdWork r now) (?s, ?d1) = (LgdSave r now df, ?d1)"
    using assms(4) lgd_work_cong [of ?d1 ?d r r e i ?s] by (simp add: lgd_move_def Let_def)
  let ?d2 = "?d1 \<lparr> lgd_results_tbl := save_lgd_results (ce_round e) (ce_lgd_ids e) (lgd_results_tbl ?d1) i (r_tenant r) df \<rparr>"
  have m4: "lgd_move e now ref i (LgdSave r now df) (?s, ?d1) = (LgdComplete r now, ?d2)" using id by (simp add: lgd_move_def Let_def)
  let ?d3 = "atomic_stage_update i StLGD (complete_stage now now) (\<lambda>r. r) ?d2" and ?r3 = "set_stage StLGD (complete_stage now now) ?r1"
  have m5: "lgd_move e now ref i (LgdComplete r now) (?s, ?d2) = (LgdReturned, ?d3)" using id by (simp add: lgd_move_def Let_def mark_stage_complete_def)
  have "run_row i ?r1 ?d1" by (rule run_row_update [OF assms(1)]) simp
  then have "run_row i ?r1 ?d2" by simp
  then have r3: "run_row i ?r3 ?d3" by (rule run_row_update) simp
  have "run_schedule e i (replicate 5 (LgdTask, now, ref)) p = p \<lparr> pl_lgd := LgdReturned, pl_db := ?d3 \<rparr>"
    using m1 m2 m3 m4 m5 assms(5) by (simp add: numeral_eq_Suc)
  then show ?thesis using r3 by (intro exI [of _ ?r3] exI [of _ ?d3] conjI) (assumption, assumption, simp_all)
qed

lemma run_schedule_append: "run_schedule e i (xs @ ys) p = run_schedule e i ys (run_schedule e i xs p)"
  by (induction xs arbitrary: p) auto

lemma run_schedule_reachable: "(compute_step e i)\<^sup>*\<^sup>* p (run_schedule e i sched p)"
  by (induction sched arbitrary: p) (auto, meson compute_step.intros converse_rtranclp_into_rtranclp)

text \<open>
  C26. A failure can be hidden by the other stage. When the PD task runs to its end and raises before the LGD
  task starts, as on a worker that runs one task at a time, and the LGD computation succeeds, the
  pipeline has stopped, the PD stage is marked with an error, and yet the run is left in the status
  lgd_running: the mark of the LGD stage overwrites the status failed, and no task will change it.
\<close>

theorem failure_hidden_by_other_stage:
  assumes "run_row i r0 d" "r_deleted_at r0 = None" "r_progress r0 = Some default_engine_progress"
    "pd_work e r0 i (st, d) = Inl x" "lgd_work e r0 i (st, d) = Inr df"
    "p = run_schedule e i (replicate 5 (PdTask, now, ref) @ replicate 5 (LgdTask, now', ref')) (enqueue_compute_pipeline st d)"
  shows "finished p \<and> (\<exists>r. run_row i r (pl_db p) \<and> r_status r = LGD_RUNNING \<and> stage_of r StPD = STAGE_ERROR)"
proof -
  let ?p0 = "enqueue_compute_pipeline st d"
  have pending: "stage_of r0 k \<noteq> STAGE_COMPLETE" for k using assms(3) by (simp add: stage_of_def default_engine_progress_def pending_stage_def)
  have p0: "pl_db ?p0 = d" "pl_store ?p0 = st" "pl_pd ?p0 = PdLoad" "pl_lgd ?p0 = LgdLoad" by (simp_all add: enqueue_compute_pipeline_def)
  obtain y r1 d1 where one: "run_schedule e i (replicate 5 (PdTask, now, ref)) ?p0 = ?p0 \<lparr> pl_pd := PdRaised y, pl_db := d1 \<rparr>"
    "run_row i r1 d1" "same_run r1 r0" "stage_of r1 StPD = STAGE_ERROR" "stage_of r1 StLGD = stage_of r0 StLGD" "same_tables d d1"
    using pd_fails [of i r0 ?p0 e x now ref] assms p0 pending by auto
  let ?p1 = "?p0 \<lparr> pl_pd := PdRaised y, pl_db := d1 \<rparr>"
  have "lgd_work e r1 i (st, d1) = Inr df" using lgd_work_cong [of d1 d r1 r0 e i st] one assms(5) by (auto simp: same_tables_def)
  then obtain r2 d2 where "run_schedule e i (replicate 5 (LgdTask, now', ref')) ?p1 = ?p1 \<lparr> pl_lgd := LgdReturned, pl_db := d2 \<rparr>"
    "run_row i r2 d2" "stage_of r2 StPD = STAGE_ERROR" "r_status r2 = LGD_RUNNING"
    using lgd_succeeds [of i r1 ?p1 e df now' ref'] one assms(2) p0 pending [of StLGD] by (auto simp: same_run_def)
  then show ?thesis using assms(6) one(1) p0 by (auto simp: run_schedule_append finished_def)
qed

section \<open>A concrete pipeline\<close>

text \<open>The sample workspace of theory \<open>RunRequests\<close>, with engines that read no rows from a frame.\<close>

definition sample_compute_env :: "(py_str \<rightharpoonup> bytes) compute_env" where
  "sample_compute_env = \<lparr> ce_run = sample_run_env, ce_pd_rows = (\<lambda>_. Inr []), ce_lgd_rows = (\<lambda>_. Inr []), ce_ead_rows = (\<lambda>_. Inr []),
     ce_offset = (\<lambda>d _. d), ce_matrix_power = mat_pow, ce_pmt = pmt_ref, ce_round = round_id, ce_pd_ids = (\<lambda>n. show_nat n), ce_lgd_ids = (\<lambda>n. show_nat n),
     ce_ead_ids = (\<lambda>n. show_nat n), ce_artifact_ids = (\<lambda>n. show_nat n), ce_render = (\<lambda>_. Inr ''book''), ce_exn_text = (\<lambda>_. ''error'') \<rparr>"

definition sample_queued :: run where
  "sample_queued = queued_run sample_draft"

definition sample_queued_db :: db where
  "sample_queued_db = sample_run_db \<lparr> runs_tbl := [sample_queued] \<rparr>"

lemma sample_queued_row:
  "run_row ''R'' sample_queued sample_queued_db" "r_deleted_at sample_queued = None" "r_status sample_queued = QUEUED"
  "r_progress sample_queued = Some default_engine_progress" "r_id sample_queued = ''R''" "r_tenant sample_queued = ''T''" "r_combine_pd sample_queued"
  by (simp_all add: run_row_def sample_queued_db_def sample_queued_def queued_run_def sample_draft_def new_run_def)

lemma sample_pd_work: "pd_work sample_compute_env sample_queued ''R'' (sample_objects, sample_queued_db) = Inr []"
  using sample_queued_row(7)
  by (simp add: pd_work_def pd_result_of_def stage_uploads_def sample_queued_db_def sample_run_db_def sample_upload_def download_uploads_def download_bytes_def
      read_op_def sample_compute_env_def sample_run_env_def map_store_def normalize_key_def sample_objects_def result_bind_def combine_excel_bytes_def pd_files_def compute_pd_def pd_working_def
      pd_dedupe_sort_def next_month_staging_def next_lookup_def pd_output_def pd_prob_rows_def pd_segments_def Let_def)

lemmas sample_work = stage_uploads_def sample_queued_db_def sample_run_db_def sample_upload_def download_uploads_def download_bytes_def read_op_def
  sample_compute_env_def sample_run_env_def map_store_def normalize_key_def sample_objects_def result_bind_def combine_excel_bytes_def Let_def

lemma sample_lgd_work: "lgd_work sample_compute_env sample_queued ''R'' (sample_objects, sample_queued_db) = Inr []"
  by (simp add: lgd_work_def lgd_result_of_def compute_lgd_def sample_work)

lemma sample_ead_work:
  "ead_work sample_compute_env ''R'' (sample_objects, sample_queued_db \<lparr> pd_results_tbl := a, lgd_results_tbl := b \<rparr>) = Inr ([], [], [])"
  by (simp add: ead_work_def compute_ead_def merge_lgd_def ec06_warnings_def merged_frame_def expand_snapshots_def expand_stage1_def expand_stage2_def expand_single_def
      clip_maturity_def at_stage_def other_stage_def sample_work)

lemma sample_healthy: "healthy sample_compute_env sample_queued sample_objects sample_queued_db"
proof -
  have "sequential_result sample_compute_env sample_queued sample_objects sample_queued_db = Inr ([], [], compute_run_totals
      (save_ead_results (ce_round sample_compute_env) (ce_ead_ids sample_compute_env) (ead_results_tbl sample_queued_db) ''R'' ''T'' []) ''R'')"
    using sample_queued_row(5,6) by (simp add: sequential_result_def sample_pd_work sample_lgd_work sample_ead_work result_bind_def)
  then show ?thesis
    by (simp add: healthy_def sample_compute_env_def sample_run_env_def map_store_def prefs_of_def sample_queued_db_def sample_run_db_def one_admin_def empty_db_def)
qed

definition sample_pipeline :: "(py_str \<rightharpoonup> bytes) pipeline" where
  "sample_pipeline = enqueue_compute_pipeline sample_objects sample_queued_db"

theorem pipeline_outcome_witness:
  "\<exists>p r. (compute_step sample_compute_env ''R'')\<^sup>*\<^sup>* sample_pipeline p \<and> finished p \<and> run_row ''R'' r (pl_db p) \<and> r_status r \<in> {COMPLETE, FAILED, PD_RUNNING, LGD_RUNNING}"
proof -
  obtain p where p: "(compute_step sample_compute_env ''R'')\<^sup>*\<^sup>* (enqueue_compute_pipeline sample_objects sample_queued_db) p" "finished p"
    using compute_reaches_end by blast
  obtain r where "run_row ''R'' r (pl_db p)" "r_status r \<in> {COMPLETE, FAILED, PD_RUNNING, LGD_RUNNING}"
    using pipeline_outcome [OF p sample_queued_row(1-4)] by (elim exE conjE disjE) auto
  then show ?thesis unfolding sample_pipeline_def using p by blast
qed

theorem healthy_run_completes_witness:
  "\<exists>p r. (compute_step sample_compute_env ''R'')\<^sup>*\<^sup>* sample_pipeline p \<and> finished p \<and> run_row ''R'' r (pl_db p) \<and> r_status r = COMPLETE"
proof -
  obtain p where "(compute_step sample_compute_env ''R'')\<^sup>*\<^sup>* (enqueue_compute_pipeline sample_objects sample_queued_db) p" "finished p"
    using compute_reaches_end by blast
  then show ?thesis unfolding sample_pipeline_def using healthy_run_completes [OF _ _ sample_healthy sample_queued_row(1-4)] by blast
qed

text \<open>The PD engine rejects the frame, as it does when a column is missing.\<close>

definition sample_broken_env :: "(py_str \<rightharpoonup> bytes) compute_env" where
  "sample_broken_env = sample_compute_env \<lparr> ce_pd_rows := (\<lambda>_. Inl (KeyError ''SEGMENT'')) \<rparr>"

theorem failure_hidden_by_other_stage_witness:
  "\<exists>p r. (compute_step sample_broken_env ''R'')\<^sup>*\<^sup>* sample_pipeline p \<and> finished p \<and> run_row ''R'' r (pl_db p) \<and> r_status r = LGD_RUNNING \<and> stage_of r StPD = STAGE_ERROR"
proof -
  have "pd_work sample_broken_env sample_queued ''R'' (sample_objects, sample_queued_db) = Inl (KeyError ''SEGMENT'')"
    using sample_queued_row(7) by (simp add: pd_work_def pd_result_of_def pd_files_def sample_broken_env_def sample_work)
  moreover have "lgd_work sample_broken_env sample_queued ''R'' (sample_objects, sample_queued_db) = Inr []"
    by (simp add: lgd_work_def lgd_result_of_def compute_lgd_def sample_broken_env_def sample_work)
  ultimately show ?thesis
    unfolding sample_pipeline_def using failure_hidden_by_other_stage [OF sample_queued_row(1,2,4) _ _ refl, of sample_broken_env sample_objects]
      run_schedule_reachable by blast
qed

end
