(* ===== verification/Reports.thy ===== *)
theory Reports
  imports Results Compute
begin

text \<open>
  From the compute task to the portfolio view: the totals that \<^verbatim>\<open>ead_ecl_task\<close> stores with a run
  (\<^verbatim>\<open>app/tasks/compute_tasks.py\<close>) are those that the results explorer (\<^verbatim>\<open>app/modules/results/service.py\<close>)
  adds up from the stored rows. Nothing is modelled here; the theory joins \<open>Compute\<close> and \<open>Results\<close>.
\<close>

section \<open>The stored rows\<close>








section \<open>The view and the run\<close>


section \<open>A concrete report\<close>
















end
