(* ===== verification/Cleanup.thy ===== *)
theory Cleanup
  imports Auth Compute
begin

text \<open>
  The periodic jobs of \<^verbatim>\<open>app/tasks/cleanup_tasks.py\<close>: the expiry of invitations and reset tokens, the purge of
  refresh tokens, sessions and blacklist entries, the recovery of stuck runs, and the dispatch of
  the email outbox. A job is one transaction and returns the number of rows it changed.

  The task queue that takes an email is a parameter of a poll: it accepts a task or raises.
  Polls do not overlap; a row that another poller holds locked is not modelled.
\<close>

section \<open>Expiry and purging\<close>

definition count_rows :: "('r \<Rightarrow> bool) \<Rightarrow> 'r list \<Rightarrow> nat" where
  "count_rows P rows = length (filter P rows)"

definition expire_invitations :: "timestamp \<Rightarrow> (db, nat) op" where
  "expire_invitations now =
     (let expired = (\<lambda>v. iv_status v = INVITE_PENDING \<and> iv_expires_at v < now) in
      bind_op (read_op (\<lambda>d. Inr (count_rows expired (invitations d)))) (\<lambda>n.
      bind_op (modify_op (\<lambda>d. d \<lparr> invitations := update_rows expired (\<lambda>v. v \<lparr> iv_status := INVITE_EXPIRED \<rparr>) (invitations d) \<rparr>)) (\<lambda>_.
      return_op n)))"

definition expire_password_reset_tokens :: "timestamp \<Rightarrow> (db, nat) op" where
  "expire_password_reset_tokens now =
     (let expired = (\<lambda>t. mt_expires_at t < now \<and> mt_used_at t = None) in
      bind_op (read_op (\<lambda>d. Inr (count_rows expired (reset_tokens d)))) (\<lambda>n.
      bind_op (modify_op (\<lambda>d. d \<lparr> reset_tokens := filter (\<lambda>t. \<not> expired t) (reset_tokens d) \<rparr>)) (\<lambda>_.
      return_op n)))"

definition DAY :: int where
  "DAY = 86400"

definition purge_revoked_refresh_tokens :: "timestamp \<Rightarrow> (db, nat) op" where
  "purge_revoked_refresh_tokens now =
     (let old = (\<lambda>t. rt_revoked t \<and> rt_expires_at t < now - 30 * DAY) in
      bind_op (read_op (\<lambda>d. Inr (count_rows old (refresh_tokens_tbl d)))) (\<lambda>n.
      bind_op (modify_op (\<lambda>d. d \<lparr> refresh_tokens_tbl := filter (\<lambda>t. \<not> old t) (refresh_tokens_tbl d) \<rparr>)) (\<lambda>_.
      return_op n)))"

definition purge_old_sessions :: "timestamp \<Rightarrow> (db, nat) op" where
  "purge_old_sessions now =
     (let old = (\<lambda>s. ss_last_active_at s < now - 90 * DAY) in
      bind_op (read_op (\<lambda>d. Inr (count_rows old (sessions_tbl d)))) (\<lambda>n.
      bind_op (modify_op (\<lambda>d. d \<lparr> sessions_tbl := filter (\<lambda>s. \<not> old s) (sessions_tbl d) \<rparr>)) (\<lambda>_.
      return_op n)))"

definition purge_expired_token_blacklist :: "timestamp \<Rightarrow> (db, nat) op" where
  "purge_expired_token_blacklist now =
     (let old = (\<lambda>b. bl_expires_at b < now) in
      bind_op (read_op (\<lambda>d. Inr (count_rows old (token_blacklist d)))) (\<lambda>n.
      bind_op (modify_op (\<lambda>d. d \<lparr> token_blacklist := filter (\<lambda>b. \<not> old b) (token_blacklist d) \<rparr>)) (\<lambda>_.
      return_op n)))"

section \<open>Stuck runs\<close>

definition stuck_queued :: "timestamp \<Rightarrow> run \<Rightarrow> bool" where
  "stuck_queued now r \<longleftrightarrow> r_status r = QUEUED \<and> r_updated_at r < now - 600 \<and> r_deleted_at r = None"

definition stuck_running :: "timestamp \<Rightarrow> run \<Rightarrow> bool" where
  "stuck_running now r \<longleftrightarrow> r_status r \<in> {PD_RUNNING, LGD_RUNNING, EAD_RUNNING} \<and> r_updated_at r < now - 2700 \<and> r_deleted_at r = None"

definition stuck_queued_msg :: py_str where
  "stuck_queued_msg = ''Compute job was not picked up by a worker within the timeout window. Ensure the Celery worker is running and try again.''"

definition stuck_running_msg :: py_str where
  "stuck_running_msg = ''Compute stage exceeded the maximum allowed runtime and was forcibly stopped. Please re-run.''"

text \<open>The update passes through the mapper, which also sets \<^verbatim>\<open>updated_at\<close>.\<close>

definition give_up :: "timestamp \<Rightarrow> py_str \<Rightarrow> py_str \<Rightarrow> run \<Rightarrow> run" where
  "give_up now stage message r =
     r \<lparr> r_status := FAILED, r_failure_stage := Some stage, r_failure_message := Some message, r_finished_at := Some now, r_updated_at := now \<rparr>"

definition recover_stuck_runs :: "timestamp \<Rightarrow> (db, nat \<times> nat) op" where
  "recover_stuck_runs now =
     bind_op (read_op (\<lambda>d. Inr (count_rows (stuck_queued now) (runs_tbl d)))) (\<lambda>queued_count.
     bind_op (modify_op (\<lambda>d. d \<lparr> runs_tbl := update_rows (stuck_queued now) (give_up now ''queued'' stuck_queued_msg) (runs_tbl d) \<rparr>)) (\<lambda>_.
     bind_op (read_op (\<lambda>d. Inr (count_rows (stuck_running now) (runs_tbl d)))) (\<lambda>running_count.
     bind_op (modify_op (\<lambda>d. d \<lparr> runs_tbl := update_rows (stuck_running now) (give_up now ''timeout'' stuck_running_msg) (runs_tbl d) \<rparr>)) (\<lambda>_.
     return_op (queued_count, running_count)))))"

section \<open>The email outbox\<close>

text \<open>The tasks the outbox may name, with the keys of the payload that must be there and those that may.\<close>

definition DISPATCH :: "(py_str \<times> py_str list \<times> py_str list) list" where
  "DISPATCH =
     [(''send_verification_email'', [''user_id'', ''raw_token''], []),
      (''send_reset_password_email'', [''user_id'', ''raw_token''], [''ip_address'']),
      (''send_password_changed_email'', [''user_id''], [''ip_address'']),
      (''send_invite_email'', [''invitation_id'', ''raw_token''], []),
      (''send_welcome_email'', [''user_id'', ''tenant_id''], []),
      (''send_welcome_to_tenant_email'', [''user_id'', ''tenant_id''], [])]"

definition payload_key :: "(py_str \<times> py_str) list \<Rightarrow> py_str \<Rightarrow> py_str option result" where
  "payload_key payload k = (case map_of payload k of None \<Rightarrow> Inl (KeyError k) | Some v \<Rightarrow> Inr (Some v))"

definition dispatch_args :: "py_str list \<times> py_str list \<Rightarrow> (py_str \<times> py_str) list \<Rightarrow> py_str option list result" where
  "dispatch_args keys payload =
     (case collect (payload_key payload) (fst keys) of Inl x \<Rightarrow> Inl x | Inr args \<Rightarrow> Inr (args @ map (map_of payload) (snd keys)))"

record outbox_env =
  ob_now :: timestamp
  ob_send :: "py_str \<Rightarrow> py_str option list \<Rightarrow> unit result"
  ob_text :: "exn \<Rightarrow> py_str"
  ob_repr :: "py_str \<Rightarrow> py_str"

definition MAX_ATTEMPTS :: nat where
  "MAX_ATTEMPTS = 5"

definition POLL_LIMIT :: nat where
  "POLL_LIMIT = 100"

datatype dispatch_outcome = Dispatched | DeadLettered | Retried

text \<open>One row of a poll.\<close>

definition dispatch_row :: "outbox_env \<Rightarrow> email_outbox \<Rightarrow> dispatch_outcome \<times> email_outbox" where
  "dispatch_row e row =
     (let row1 = row \<lparr> eb_attempts := Suc (eb_attempts row) \<rparr> in
      case map_of DISPATCH (eb_task row) of
        None \<Rightarrow> (DeadLettered, row1 \<lparr> eb_status := ''dead_letter'', eb_last_error := Some (''unknown task_name: '' @ ob_repr e (eb_task row)) \<rparr>)
      | Some keys \<Rightarrow>
          (case result_bind (dispatch_args keys (eb_payload row)) (ob_send e (eb_task row)) of
             Inr _ \<Rightarrow> (Dispatched, row1 \<lparr> eb_status := ''dispatched'', eb_dispatched_at := Some (ob_now e) \<rparr>)
           | Inl x \<Rightarrow>
               (let row2 = row1 \<lparr> eb_last_error := Some (take 500 (ob_text e x)) \<rparr> in
                if MAX_ATTEMPTS \<le> eb_attempts row2 then (DeadLettered, row2 \<lparr> eb_status := ''dead_letter'' \<rparr>) else (Retried, row2))))"

definition pending :: "email_outbox \<Rightarrow> bool" where
  "pending row \<longleftrightarrow> eb_status row = ''pending''"

text \<open>The oldest pending rows, at most \<open>k\<close>, each with its outcome; the table is in order of creation.\<close>

fun poll_rows :: "outbox_env \<Rightarrow> nat \<Rightarrow> email_outbox list \<Rightarrow> dispatch_outcome list \<times> email_outbox list" where
  "poll_rows e k [] = ([], [])"
| "poll_rows e k (row # rows) =
     (if pending row \<and> 0 < k then
        (case (dispatch_row e row, poll_rows e (k - 1) rows) of ((o1, row'), (os, rows')) \<Rightarrow> (o1 # os, row' # rows'))
      else (case poll_rows e k rows of (os, rows') \<Rightarrow> (os, row # rows')))"

record poll_out =
  pq_found :: nat
  pq_dispatched :: nat
  pq_dead_lettered :: nat
  pq_skipped :: nat

definition process_email_outbox :: "outbox_env \<Rightarrow> (db, poll_out) op" where
  "process_email_outbox e d =
     (case poll_rows e POLL_LIMIT (outbox d) of (os, rows) \<Rightarrow>
        (Inr \<lparr> pq_found = length os, pq_dispatched = count_rows (\<lambda>x. x = Dispatched) os,
               pq_dead_lettered = count_rows (\<lambda>x. x = DeadLettered) os, pq_skipped = count_rows (\<lambda>x. x = Retried) os \<rparr>,
         d \<lparr> outbox := rows \<rparr>))"

section \<open>Every email is settled\<close>

lemma dispatch_row_pending:
  assumes "pending row" "pending (snd (dispatch_row e row))"
  shows "eb_attempts (snd (dispatch_row e row)) = Suc (eb_attempts row)" "Suc (eb_attempts row) < 5"
  using assms by (auto simp: dispatch_row_def pending_def MAX_ATTEMPTS_def Let_def split: option.splits sum.splits if_splits)

definition poll :: "outbox_env \<Rightarrow> email_outbox list \<Rightarrow> email_outbox list" where
  "poll e rows = snd (poll_rows e POLL_LIMIT rows)"

definition pending_before :: "email_outbox list \<Rightarrow> nat \<Rightarrow> nat" where
  "pending_before rows i = length (filter pending (take i rows))"

lemma length_poll_rows [simp]: "length (snd (poll_rows e k rows)) = length rows"
  by (induction e k rows rule: poll_rows.induct) (auto split: prod.splits)

lemma nth_poll_rows:
  "i < length rows \<Longrightarrow> snd (poll_rows e k rows) ! i
     = (if pending (rows ! i) \<and> pending_before rows i < k then snd (dispatch_row e (rows ! i)) else rows ! i)"
proof (induction e k rows arbitrary: i rule: poll_rows.induct)
  case (2 e k row rows)
  then show ?case by (cases i) (auto simp: pending_before_def split: prod.splits)
qed simp

lemma poll_no_new: "list_all2 (\<lambda>x y. pending y \<longrightarrow> pending x) rows (poll e rows)"
  by (auto simp: list_all2_conv_all_nth poll_def nth_poll_rows)

lemma pending_count_mono:
  assumes "list_all2 (\<lambda>x y. pending y \<longrightarrow> pending x) xs ys" shows "length (filter pending ys) \<le> length (filter pending xs)"
  using assms by (induction rule: list_all2_induct) auto

lemma pending_before_poll: "pending_before (poll e rows) i \<le> pending_before rows i"
  unfolding pending_before_def by (intro pending_count_mono list_all2_takeI poll_no_new)

definition polls :: "outbox_env list \<Rightarrow> email_outbox list \<Rightarrow> email_outbox list" where
  "polls es rows = fold poll es rows"

lemma length_polls [simp]: "length (polls es rows) = length rows"
  unfolding polls_def by (induction es arbitrary: rows) (auto simp: poll_def)

lemma polls_no_new: "list_all2 (\<lambda>x y. pending y \<longrightarrow> pending x) rows (polls es rows)"
proof (induction es arbitrary: rows)
  case (Cons e es)
  then show ?case
    using list_all2_trans [OF _ poll_no_new [of rows e] Cons [of "poll e rows"], of "\<lambda>x y. pending y \<longrightarrow> pending x"] by (auto simp: polls_def)
qed (simp add: polls_def list_all2_refl)

lemma polls_snoc: "polls (es @ [e]) rows = poll e (polls es rows)"
  by (simp add: polls_def)

lemma polls_append: "polls (es @ fs) rows = polls fs (polls es rows)"
  by (simp add: polls_def)

text \<open>A row among the oldest is tried by every poll until it is settled.\<close>

lemma oldest_row_tried:
  assumes "i < length rows" "pending_before rows i < POLL_LIMIT" "pending (polls es rows ! i)"
  shows "length es \<le> eb_attempts (polls es rows ! i) \<and> (es \<noteq> [] \<longrightarrow> eb_attempts (polls es rows ! i) < 5) \<and> pending_before (polls es rows) i < POLL_LIMIT"
  using assms
proof (induction es rule: rev_induct)
  case (snoc e es)
  let ?old = "polls es rows"
  note new = polls_snoc [of es e rows]
  then have p: "pending (?old ! i)" using snoc.prems by (auto simp: poll_def nth_poll_rows split: if_splits)
  then have ih: "length es \<le> eb_attempts (?old ! i)" "pending_before ?old i < POLL_LIMIT" using snoc by auto
  then have "poll e ?old ! i = snd (dispatch_row e (?old ! i))" using p snoc.prems by (simp add: poll_def nth_poll_rows)
  then show ?case
    using dispatch_row_pending [OF p, of e] snoc.prems(3) ih pending_before_poll [of e ?old i] new by auto
qed (simp add: polls_def)

lemma oldest_rows_settled:
  assumes "list_all2 (\<lambda>x y. pending y \<longrightarrow> pending x) xs ys" "\<And>i. i < length xs \<Longrightarrow> pending_before xs i < k \<Longrightarrow> \<not> pending (ys ! i)"
  shows "length (filter pending ys) \<le> length (filter pending xs) - k"
  using assms
proof (induction arbitrary: k rule: list_all2_induct)
  case (Cons x xs y ys)
  have rest: "length (filter pending ys) \<le> length (filter pending xs) - j"
    if "\<And>i. i < length xs \<Longrightarrow> pending_before xs i < j \<Longrightarrow> \<not> pending (ys ! i)" for j
    using Cons.IH that by blast
  have step: "\<not> pending (ys ! i)" if "i < length xs" "pending_before (x # xs) (Suc i) < k" for i
    using Cons.prems [of "Suc i"] that by simp
  show ?case
  proof (cases "pending x \<and> 0 < k")
    case True
    then have "\<not> pending y" using Cons.prems [of 0] by (simp add: pending_before_def)
    then show ?thesis using True rest [of "k - 1"] step by (simp add: pending_before_def)
  next
    case False
    then show ?thesis using rest [of k] step Cons.hyps by (auto simp: pending_before_def)
  qed
qed simp

lemma five_polls: "length es = 5 \<Longrightarrow> length (filter pending (polls es rows)) \<le> length (filter pending rows) - POLL_LIMIT"
  using oldest_row_tried [of _ rows es] by (intro oldest_rows_settled polls_no_new) fastforce

lemma polls_drain: "length (filter pending (polls es rows)) \<le> length (filter pending rows) - POLL_LIMIT * (length es div 5)"
proof (induction "length es" arbitrary: es rows rule: less_induct)
  case less
  show ?case
  proof (cases "length es < 5")
    case True
    then show ?thesis using pending_count_mono [OF polls_no_new] by simp
  next
    case False
    let ?a = "take 5 es" and ?b = "drop 5 es"
    have "length (filter pending (polls ?b (polls ?a rows))) \<le> length (filter pending (polls ?a rows)) - POLL_LIMIT * (length ?b div 5)"
      using False by (intro less) simp
    also have "\<dots> \<le> length (filter pending rows) - POLL_LIMIT - POLL_LIMIT * (length ?b div 5)"
      using five_polls [of ?a rows] False by (intro diff_le_mono) simp
    also have "\<dots> = length (filter pending rows) - POLL_LIMIT * (length es div 5)"
      using False by (simp add: le_div_geq)
    finally show ?thesis using polls_append [of ?a ?b rows] by simp
  qed
qed

lemma outbox_polls: "outbox (run_requests (map process_email_outbox es) d) = polls es (outbox d)"
  by (induction es arbitrary: d) (auto simp: polls_def poll_def process_email_outbox_def with_db_def split: prod.splits)

text \<open>
  What the task queue answers to a row: no answer when the task is not one the outbox knows, and the exception of a
  missing payload key before the queue is called.
\<close>

definition queue_call :: "outbox_env \<Rightarrow> email_outbox \<Rightarrow> unit result option" where
  "queue_call e row =
     (case map_of DISPATCH (eb_task row) of
        None \<Rightarrow> None
      | Some keys \<Rightarrow>
          (case dispatch_args keys (eb_payload row) of
             Inl x \<Rightarrow> Some (Inl x)
           | Inr args \<Rightarrow> Some (ob_send e (eb_task row) args)))"

definition refused :: "outbox_env \<Rightarrow> email_outbox \<Rightarrow> bool" where
  "refused e row = (case queue_call e row of Some (Inl x) \<Rightarrow> True | _ \<Rightarrow> False)"

text \<open>
  A row settled by the poll \<open>e\<close> after the polls \<open>bs\<close> were refused: it is sent if the queue takes it, dead at once if its
  task is unknown, and dead with the last error text at the fifth refusal.
\<close>

definition settled_by :: "email_outbox \<Rightarrow> outbox_env list \<Rightarrow> outbox_env \<Rightarrow> email_outbox \<Rightarrow> bool" where
  "settled_by r bs e r' \<longleftrightarrow>
     list_all (\<lambda>f. refused f r) bs \<and> (bs \<noteq> [] \<longrightarrow> eb_attempts r + length bs < 5) \<and>
     (case queue_call e r of
        None \<Rightarrow> bs = [] \<and> r' = r \<lparr> eb_status := ''dead_letter'', eb_attempts := Suc (eb_attempts r),
                                    eb_last_error := Some (''unknown task_name: '' @ ob_repr e (eb_task r)) \<rparr>
      | Some (Inr _) \<Rightarrow> r' = r \<lparr> eb_status := ''dispatched'', eb_attempts := eb_attempts r + Suc (length bs),
                                 eb_dispatched_at := Some (ob_now e), eb_last_error := eb_last_error r' \<rparr>
      | Some (Inl x) \<Rightarrow> 5 \<le> eb_attempts r + Suc (length bs) \<and>
                        r' = r \<lparr> eb_status := ''dead_letter'', eb_attempts := eb_attempts r + Suc (length bs),
                                 eb_last_error := Some (take 500 (ob_text e x)) \<rparr>)"

text \<open>A row still waiting after the polls \<open>bs\<close>, each of which was refused.\<close>

definition waiting_after :: "email_outbox \<Rightarrow> outbox_env list \<Rightarrow> email_outbox \<Rightarrow> bool" where
  "waiting_after r bs r' \<longleftrightarrow>
     list_all (\<lambda>f. refused f r) bs \<and> (bs \<noteq> [] \<longrightarrow> eb_attempts r + length bs < 5) \<and>
     r' = r \<lparr> eb_attempts := eb_attempts r + length bs, eb_last_error := eb_last_error r' \<rparr>"

lemma queue_call_None: "queue_call e r = None \<longleftrightarrow> map_of DISPATCH (eb_task r) = None"
  by (simp add: queue_call_def split: option.splits sum.splits)

lemma dispatch_row_call:
  "snd (dispatch_row e row) =
     (case queue_call e row of
        None \<Rightarrow> row \<lparr> eb_attempts := Suc (eb_attempts row), eb_status := ''dead_letter'',
                      eb_last_error := Some (''unknown task_name: '' @ ob_repr e (eb_task row)) \<rparr>
      | Some (Inr _) \<Rightarrow> row \<lparr> eb_attempts := Suc (eb_attempts row), eb_status := ''dispatched'', eb_dispatched_at := Some (ob_now e) \<rparr>
      | Some (Inl x) \<Rightarrow>
          (let row2 = row \<lparr> eb_attempts := Suc (eb_attempts row), eb_last_error := Some (take 500 (ob_text e x)) \<rparr>
           in if 5 \<le> Suc (eb_attempts row) then row2 \<lparr> eb_status := ''dead_letter'' \<rparr> else row2))"
  by (simp add: dispatch_row_def queue_call_def result_bind_def MAX_ATTEMPTS_def Let_def split: option.splits sum.splits)

lemma dispatch_row_fate:
  assumes "pending r" "waiting_after r bs w"
  shows "waiting_after r (bs @ [e]) (snd (dispatch_row e w)) \<or> settled_by r bs e (snd (dispatch_row e w))"
proof -
  obtain err where w: "w = r \<lparr> eb_attempts := eb_attempts r + length bs, eb_last_error := err \<rparr>"
    using assms(2) by (auto simp: waiting_after_def)
  then have q: "queue_call e w = queue_call e r" by (simp add: queue_call_def cong: option.case_cong sum.case_cong)
  have bs: "list_all (\<lambda>f. refused f r) bs" "bs \<noteq> [] \<longrightarrow> eb_attempts r + length bs < 5"
    using assms(2) by (auto simp: waiting_after_def)
  show ?thesis
  proof (cases "queue_call e r")
    case None
    then have "queue_call f r = None" for f by (simp add: queue_call_None)
    then have "\<not> refused f r" for f by (simp add: refused_def)
    then have "bs = []" using bs(1) by (cases bs) auto
    moreover have "snd (dispatch_row e w) = w \<lparr> eb_attempts := Suc (eb_attempts w), eb_status := ''dead_letter'',
        eb_last_error := Some (''unknown task_name: '' @ ob_repr e (eb_task w)) \<rparr>"
      by (simp add: dispatch_row_call q None)
    ultimately show ?thesis using None by (simp add: settled_by_def w)
  next
    case (Some res)
    have "snd (dispatch_row e w) = (case res of
        Inr _ \<Rightarrow> w \<lparr> eb_attempts := Suc (eb_attempts w), eb_status := ''dispatched'', eb_dispatched_at := Some (ob_now e) \<rparr>
      | Inl x \<Rightarrow> (let row2 = w \<lparr> eb_attempts := Suc (eb_attempts w), eb_last_error := Some (take 500 (ob_text e x)) \<rparr>
                 in if 5 \<le> Suc (eb_attempts w) then row2 \<lparr> eb_status := ''dead_letter'' \<rparr> else row2))"
      by (simp add: dispatch_row_call q Some)
    then show ?thesis using bs Some
      by (cases res) (simp_all add: settled_by_def w waiting_after_def refused_def Let_def)
  qed
qed

lemma settled_not_pending:
  assumes "settled_by r bs e r'" shows "\<not> pending r'"
proof (cases "queue_call e r")
  case None
  with assms show ?thesis by (simp add: settled_by_def pending_def)
next
  case (Some res)
  show ?thesis
  proof (cases res)
    case (Inr u)
    with assms Some obtain n x where "r' = r \<lparr> eb_status := ''dispatched'', eb_attempts := n, eb_dispatched_at := Some (ob_now e), eb_last_error := x \<rparr>"
      by (auto simp: settled_by_def)
    then show ?thesis by (simp add: pending_def)
  qed (use assms Some in \<open>simp add: settled_by_def pending_def\<close>)
qed

lemma waiting_pending: "waiting_after r bs w \<Longrightarrow> pending r \<Longrightarrow> pending w"
proof -
  assume "waiting_after r bs w" "pending r"
  then obtain n x where "w = r \<lparr> eb_attempts := n, eb_last_error := x \<rparr>" by (auto simp: waiting_after_def)
  with \<open>pending r\<close> show "pending w" by (simp add: pending_def)
qed

text \<open>The fate of the row at \<open>i\<close>: untouched until it is among the oldest, then tried by every poll until one settles it.\<close>

definition row_fate :: "email_outbox list \<Rightarrow> nat \<Rightarrow> outbox_env list \<Rightarrow> bool" where
  "row_fate rows i es \<longleftrightarrow>
     (\<exists>as bs. es = as @ bs \<and> waiting_after (rows ! i) bs (polls es rows ! i) \<and> (bs \<noteq> [] \<longrightarrow> pending_before (polls es rows) i < POLL_LIMIT))
   \<or> (\<exists>as bs e cs. es = as @ bs @ e # cs \<and> settled_by (rows ! i) bs e (polls es rows ! i))"

lemma row_fates:
  assumes "i < length rows" "pending (rows ! i)" shows "row_fate rows i es"
proof (induction es rule: rev_induct)
  case Nil
  have "waiting_after (rows ! i) [] (rows ! i)" by (simp add: waiting_after_def)
  then show ?case by (simp add: row_fate_def polls_def)
next
  case (snoc e es)
  let ?w = "polls es rows ! i"
  note new = polls_snoc [of es e rows]
  then have next_row: "polls (es @ [e]) rows ! i
      = (if pending ?w \<and> pending_before (polls es rows) i < POLL_LIMIT then snd (dispatch_row e ?w) else ?w)"
    using assms(1) by (simp add: poll_def nth_poll_rows)
  have before: "pending_before (polls (es @ [e]) rows) i \<le> pending_before (polls es rows) i"
    unfolding new by (rule pending_before_poll)
  from snoc.IH [unfolded row_fate_def] show ?case
  proof (elim disjE exE conjE)
    fix as bs
    assume w: "es = as @ bs" "waiting_after (rows ! i) bs ?w" "bs \<noteq> [] \<longrightarrow> pending_before (polls es rows) i < POLL_LIMIT"
    have p: "pending ?w" using waiting_pending [OF w(2) assms(2)] .
    show ?thesis
    proof (cases "pending_before (polls es rows) i < POLL_LIMIT")
      case True
      then have row: "polls (es @ [e]) rows ! i = snd (dispatch_row e ?w)" using next_row p by simp
      from dispatch_row_fate [OF assms(2) w(2), of e] show ?thesis
      proof
        assume "waiting_after (rows ! i) (bs @ [e]) (snd (dispatch_row e ?w))"
        with True before row show ?thesis unfolding row_fate_def w(1)
          by (intro disjI1 exI [of _ as] exI [of _ "bs @ [e]"]) simp
      next
        assume "settled_by (rows ! i) bs e (snd (dispatch_row e ?w))"
        with row show ?thesis unfolding row_fate_def w(1)
          by (intro disjI2 exI [of _ as] exI [of _ bs] exI [of _ e] exI [of _ "[]"]) simp
      qed
    next
      case False
      with w p next_row show ?thesis unfolding row_fate_def
        by (intro disjI1 exI [of _ "es @ [e]"] exI [of _ "[]"]) simp
    qed
  next
    fix as bs f cs
    assume w: "es = as @ bs @ f # cs" "settled_by (rows ! i) bs f ?w"
    with next_row settled_not_pending [OF w(2)] show ?thesis unfolding row_fate_def
      by (intro disjI2 exI [of _ as] exI [of _ bs] exI [of _ f] exI [of _ "cs @ [e]"]) simp
  qed
qed

lemma polls_take: "polls es (take k rows) = take k (polls es rows)"
proof (induction es arbitrary: rows)
  case (Cons e es)
  have "poll e (take k rows) = take k (poll e rows)"
    by (rule nth_equalityI) (auto simp: poll_def nth_poll_rows pending_before_def)
  with Cons show ?case by (simp add: polls_def)
qed (simp add: polls_def)

lemma polls_settle:
  assumes "i < length rows" "pending_before rows i < POLL_LIMIT * (length es div 5)"
  shows "\<not> pending (polls es rows ! i)"
proof
  assume p: "pending (polls es rows ! i)"
  have "length (filter pending (take (Suc i) rows)) \<le> Suc (pending_before rows i)"
    using assms(1) by (simp add: take_Suc_conv_app_nth pending_before_def)
  then have "length (filter pending (polls es (take (Suc i) rows))) = 0"
    using polls_drain [of es "take (Suc i) rows"] assms(2) by simp
  then have "filter pending (take (Suc i) (polls es rows)) = []" by (simp add: polls_take)
  moreover have "polls es rows ! i \<in> set (take (Suc i) (polls es rows))"
    using assms(1) by (auto simp: in_set_conv_nth intro: exI [of _ i])
  ultimately show False using p by (auto simp: filter_empty_conv)
qed

lemma settled_rows_kept:
  assumes "i < length rows" "\<not> pending (rows ! i)" shows "polls es rows ! i = rows ! i"
proof (induction es rule: rev_induct)
  case (snoc e es)
  then show ?case using assms by (simp add: polls_snoc poll_def nth_poll_rows)
qed (simp add: polls_def)

lemma outbox_only: "run_requests (map process_email_outbox es) d = d \<lparr> outbox := polls es (outbox d) \<rparr>"
  by (induction es arbitrary: d) (auto simp: polls_def poll_def process_email_outbox_def with_db_def split: prod.splits)

text \<open>
  C27. The outbox drains, and every email meets a definite fate. Take any sequence of polls and an email that was
  pending with fewer than one hundred older pending ones for every five polls (no new emails being queued in between).
  Then one of the polls settles it. It was tried by consecutive polls, the task queue refused all but the last,
  and the last settles it: the email is sent only if the queue took the task of the row with the arguments of its
  payload, at the time of that poll; it is dead only if its task is unknown or the queue refused it a fifth time, with
  the text of that refusal. Nothing else of the row changes, and neither do the settled rows and the other tables. At most
  as many emails stay pending as there were, less one hundred for every five polls.
\<close>

theorem outbox_drains:
  assumes "d' = run_requests (map process_email_outbox es) d"
  shows "d' = d \<lparr> outbox := outbox d' \<rparr> \<and> length (outbox d') = length (outbox d)
   \<and> (\<forall>i < length (outbox d). \<not> pending (outbox d ! i) \<longrightarrow> outbox d' ! i = outbox d ! i)
   \<and> (\<forall>i < length (outbox d). pending (outbox d ! i) \<and> pending_before (outbox d) i < 100 * (length es div 5) \<longrightarrow>
        (\<exists>as bs e cs. es = as @ bs @ e # cs \<and> settled_by (outbox d ! i) bs e (outbox d' ! i)))
   \<and> length (filter pending (outbox d')) \<le> length (filter pending (outbox d)) - 100 * (length es div 5)"
proof (intro conjI allI impI)
  have d': "d' = d \<lparr> outbox := polls es (outbox d) \<rparr>" using assms by (simp add: outbox_only)
  show "d' = d \<lparr> outbox := outbox d' \<rparr>" "length (outbox d') = length (outbox d)" by (simp_all add: d')
  show "outbox d' ! i = outbox d ! i" if "i < length (outbox d)" "\<not> pending (outbox d ! i)" for i
    using settled_rows_kept [OF that] by (simp add: d')
  show "length (filter pending (outbox d')) \<le> length (filter pending (outbox d)) - 100 * (length es div 5)"
    using polls_drain [of es "outbox d"] by (simp add: d' POLL_LIMIT_def)
  fix i assume i: "i < length (outbox d)" and p: "pending (outbox d ! i) \<and> pending_before (outbox d) i < 100 * (length es div 5)"
  then have "\<not> pending (polls es (outbox d) ! i)" by (intro polls_settle) (simp_all add: POLL_LIMIT_def)
  then show "\<exists>as bs e cs. es = as @ bs @ e # cs \<and> settled_by (outbox d ! i) bs e (outbox d' ! i)"
    using row_fates [OF i, of es] p waiting_pending by (auto simp: row_fate_def d')
qed

text \<open>Two queued emails, one of an unknown task, and a queue that is down for two polls.\<close>

definition sample_outbox :: "email_outbox list" where
  "sample_outbox =
     [\<lparr> eb_id = ''B1'', eb_task = ''send_welcome_email'', eb_payload = [(''user_id'', ''U1''), (''tenant_id'', ''T1'')],
        eb_status = ''pending'', eb_attempts = 0, eb_dispatched_at = None, eb_last_error = None \<rparr>,
      \<lparr> eb_id = ''B2'', eb_task = ''send_fax'', eb_payload = [],
        eb_status = ''pending'', eb_attempts = 0, eb_dispatched_at = None, eb_last_error = None \<rparr>]"

definition sample_poll :: "int \<Rightarrow> outbox_env" where
  "sample_poll now =
     \<lparr> ob_now = now, ob_send = (\<lambda>_ _. if now < 90 then Inl ConnectionError else Inr ()),
       ob_text = (\<lambda>_. ''connection refused''), ob_repr = id \<rparr>"

theorem outbox_drains_witness:
  "\<exists>as bs e cs. map sample_poll [30, 60, 90, 120, 150] = as @ bs @ e # cs
     \<and> settled_by (sample_outbox ! 0) bs e
         (outbox (run_requests (map process_email_outbox (map sample_poll [30, 60, 90, 120, 150])) (empty_db \<lparr> outbox := sample_outbox \<rparr>)) ! 0)"
proof -
  have "pending (sample_outbox ! 0)" "pending_before sample_outbox 0 = 0" "0 < length sample_outbox"
    by (simp_all add: sample_outbox_def pending_def pending_before_def)
  then show ?thesis
    using outbox_drains [OF refl, of "map sample_poll [30, 60, 90, 120, 150]" "empty_db \<lparr> outbox := sample_outbox \<rparr>"] by simp
qed

text \<open>There the welcome email is sent by the third poll, and the unknown task is dead at the first.\<close>

lemma sample_outbox_settled:
  "map (\<lambda>r. (eb_status r, eb_attempts r, eb_dispatched_at r)) (polls (map sample_poll [30, 60, 90, 120, 150]) sample_outbox)
   = [(''dispatched'', 3, Some 90), (''dead_letter'', 1, None)]"
  by code_simp

section \<open>Every run settles\<close>

definition recovered :: "timestamp \<Rightarrow> run \<Rightarrow> run" where
  "recovered now r =
     (if stuck_queued now r then give_up now ''queued'' stuck_queued_msg r
      else if stuck_running now r then give_up now ''timeout'' stuck_running_msg r else r)"

lemma recover_stuck_runs_rows: "runs_tbl (snd (with_db (recover_stuck_runs now) d)) = map (recovered now) (runs_tbl d)"
  by (auto simp: recover_stuck_runs_def with_db_def bind_op_def op_defs update_rows_def recovered_def give_up_def stuck_running_def)

lemma recovered_id [simp]: "r_id (recovered now r) = r_id r"
  by (simp add: recovered_def give_up_def)

lemma run_row_recovered:
  "run_row i r d \<Longrightarrow> run_row i (recovered now r) (snd (with_db (recover_stuck_runs now) d))"
  by (simp add: run_row_def recover_stuck_runs_rows filter_map o_def)

lemma reachable_status:
  assumes "pipe_inv e r0 st d p r"
  shows "r_status r \<in> {QUEUED, PD_RUNNING, LGD_RUNNING, EAD_RUNNING, COMPLETE, FAILED}"
  using assms by (auto simp: pipe_inv_def ead_inv_def published_def split: ead_pc.splits)

text \<open>
  C28. No run is stuck for ever. Take a run that the endpoint of execution queued, at any moment of
  any execution of its pipeline (its tasks may have been killed there, or a failure may have been hidden): once
  45 minutes have passed since it was queued, the recovery job leaves it complete if it was complete, and failed otherwise.
\<close>

theorem stuck_runs_settle:
  assumes "(compute_step e i)\<^sup>*\<^sup>* (enqueue_compute_pipeline st d) p"
    "run_row i r0 d" "r_deleted_at r0 = None" "r_status r0 = QUEUED" "r_progress r0 = Some default_engine_progress"
    "r_updated_at r0 < now - 2700"
  shows "\<exists>r r'. run_row i r (pl_db p) \<and> run_row i r' (snd (with_db (recover_stuck_runs now) (pl_db p)))
     \<and> r_status r' = (if r_status r = COMPLETE then COMPLETE else FAILED)"
proof -
  have i: "i = r_id r0" using run_row_id [OF assms(2)] by simp
  obtain r where inv: "pipe_inv e r0 st d p r" using reachable_inv assms(1-5) i by metis
  then have row: "run_row i r (pl_db p)" and r: "r_updated_at r < now - 2700" "r_deleted_at r = None"
    using i assms(3,6) by (auto simp: pipe_inv_def same_run_def)
  have "r_status (recovered now r) = (if r_status r = COMPLETE then COMPLETE else FAILED)"
    using reachable_status [OF inv] r by (auto simp: recovered_def stuck_queued_def stuck_running_def give_up_def)
  then show ?thesis using row run_row_recovered [OF row, of now] by blast
qed

theorem stuck_runs_settle_witness:
  "\<exists>r. run_row ''R'' r (snd (with_db (recover_stuck_runs 10000) (pl_db sample_pipeline))) \<and> r_status r \<in> {COMPLETE, FAILED}"
proof -
  have "r_updated_at sample_queued < 10000 - 2700"
    by (simp add: sample_queued_def queued_run_def sample_draft_def new_run_def sample_run_env_def)
  then show ?thesis
    using stuck_runs_settle [OF _ sample_queued_row(1-4), of sample_compute_env sample_objects sample_pipeline 10000]
    by (auto simp: sample_pipeline_def split: if_splits)
qed

end
