(* ===== verification/Mail.thy ===== *)
theory Mail
  imports Cleanup
begin

text \<open>
  The email tasks: \<^verbatim>\<open>app/tasks/email_tasks.py\<close> with \<^verbatim>\<open>app/core/email_task_utils.py\<close> and \<^verbatim>\<open>app/core/email.py\<close>.

  A task is tried until it is done, fails or has used up its retries. What differs from attempt to attempt is a
  parameter by the number of the attempt: the rows its fresh session reads and what the mail server does with the
  message. Rendering of a template (jinja2) and delivery (fastapi-mail) are parameters. Of an exception the model keeps
  the class and the class of its cause, which is all the code looks at. \<open>task_retry\<close> is the documented
  behaviour of \<^verbatim>\<open>Task.retry\<close>: a new attempt below the limit, the given exception at it.
\<close>

section \<open>Messages\<close>

record mail =
  ml_to :: py_str
  ml_subject :: py_str
  ml_template :: py_str
  ml_context :: "(py_str \<times> py_str option) list"

definition link :: "py_str \<Rightarrow> py_str \<Rightarrow> py_str option \<Rightarrow> py_str option" where
  "link frontend_url path token = map_option (\<lambda>t. frontend_url @ path @ ''?token='' @ t) token"

text \<open>\<^verbatim>\<open>str.capitalize\<close>.\<close>

definition py_capitalize :: "py_str \<Rightarrow> py_str" where
  "py_capitalize s = (case s of [] \<Rightarrow> [] | c # cs \<Rightarrow> py_upper [c] @ py_lower cs)"

text \<open>The message a task would send from the rows it reads: none when a row is not there (yet).\<close>

definition verification_mail :: "py_str \<Rightarrow> py_str option \<Rightarrow> py_str option \<Rightarrow> db \<Rightarrow> mail option result" where
  "verification_mail url user_id raw_token d =
     (case scalar_one_or_none (filter (\<lambda>u. Some (u_id u) = user_id) (users d)) of
        Inl x \<Rightarrow> Inl x
      | Inr None \<Rightarrow> Inr None
      | Inr (Some u) \<Rightarrow> Inr (Some \<lparr> ml_to = u_email u, ml_subject = ''Verify your ECL Platform email address'', ml_template = ''verify_email.html'',
          ml_context = [(''user_name'', Some (u_name u)), (''verify_url'', link url ''/verify-email'' raw_token)] \<rparr>))"

definition reset_mail :: "py_str \<Rightarrow> py_str option \<Rightarrow> py_str option \<Rightarrow> py_str option \<Rightarrow> db \<Rightarrow> mail option result" where
  "reset_mail url user_id raw_token ip_address d =
     (case scalar_one_or_none (filter (\<lambda>u. Some (u_id u) = user_id) (users d)) of
        Inl x \<Rightarrow> Inl x
      | Inr None \<Rightarrow> Inr None
      | Inr (Some u) \<Rightarrow> Inr (Some \<lparr> ml_to = u_email u, ml_subject = ''Reset your ECL Platform password'', ml_template = ''reset_password.html'',
          ml_context = [(''user_name'', Some (u_name u)), (''reset_url'', link url ''/reset-password'' raw_token), (''ip_address'', ip_address)] \<rparr>))"

definition password_changed_mail :: "py_str \<Rightarrow> py_str option \<Rightarrow> py_str option \<Rightarrow> db \<Rightarrow> mail option result" where
  "password_changed_mail url user_id ip_address d =
     (case scalar_one_or_none (filter (\<lambda>u. Some (u_id u) = user_id) (users d)) of
        Inl x \<Rightarrow> Inl x
      | Inr None \<Rightarrow> Inr None
      | Inr (Some u) \<Rightarrow> Inr (Some \<lparr> ml_to = u_email u, ml_subject = ''Your ECL Platform password was changed'', ml_template = ''password_changed.html'',
          ml_context = [(''user_name'', Some (u_name u)), (''ip_address'', ip_address), (''sessions_url'', Some (url @ ''/account/security''))] \<rparr>))"

definition welcome_mail :: "py_str \<Rightarrow> py_str option \<Rightarrow> py_str option \<Rightarrow> db \<Rightarrow> mail option result" where
  "welcome_mail url user_id tenant_id d =
     (case scalar_one_or_none (filter (\<lambda>u. Some (u_id u) = user_id) (users d)) of
        Inl x \<Rightarrow> Inl x
      | Inr user \<Rightarrow>
          (case scalar_one_or_none (filter (\<lambda>t. Some (t_id t) = tenant_id) (tenants d)) of
             Inl x \<Rightarrow> Inl x
           | Inr tenant \<Rightarrow>
               Inr (case (user, tenant) of
                 (Some u, Some t) \<Rightarrow> Some \<lparr> ml_to = u_email u, ml_subject = ''Welcome to ECL Platform'', ml_template = ''welcome.html'',
                   ml_context = [(''user_name'', Some (u_name u)), (''tenant_name'', Some (t_name t)), (''dashboard_url'', Some (url @ ''/dashboard''))] \<rparr>
               | _ \<Rightarrow> None)))"

text \<open>The first row of the join of the invitation with its workspace and its sender.\<close>

definition invite_rows :: "py_str option \<Rightarrow> db \<Rightarrow> (invitation \<times> tenant \<times> user) list" where
  "invite_rows invitation_id d =
     [(v, t, u). v \<leftarrow> invitations d, Some (iv_id v) = invitation_id, t \<leftarrow> tenants d, t_id t = iv_tenant v,
                 u \<leftarrow> users d, u_id u = iv_invited_by v]"

definition invite_mail :: "py_str \<Rightarrow> py_str option \<Rightarrow> py_str option \<Rightarrow> db \<Rightarrow> mail option result" where
  "invite_mail url invitation_id raw_token d =
     Inr (case invite_rows invitation_id d of
            [] \<Rightarrow> None
          | (v, t, inviter) # _ \<Rightarrow> Some \<lparr> ml_to = iv_email v, ml_subject = ''You've been invited to join '' @ t_name t @ '' on ECL Platform'',
              ml_template = ''invite.html'', ml_context = [(''inviter_name'', Some (u_name inviter)), (''tenant_name'', Some (t_name t)),
                (''role'', Some (py_capitalize (iv_role v))), (''accept_url'', link url ''/invite'' raw_token)] \<rparr>)"

section \<open>Delivery\<close>

datatype mail_class = TemplateErr | SMTPAuthenticationErr | SMTPNotSupportedErr | SMTPServerDisconnectedErr | OtherSMTPErr
  | TimeoutErr | ConnectionErr | OtherOSErr | OtherErr

record mail_exn =
  mx_class :: mail_class
  mx_cause :: "mail_class option"

record smtp_settings =
  mp_host :: py_str
  mp_port :: int
  mp_username :: py_str
  mp_tls :: bool
  mp_suppress :: bool

record connection_config =
  cf_port :: int
  cf_server :: py_str
  cf_starttls :: bool
  cf_ssl_tls :: bool
  cf_use_credentials :: bool
  cf_validate_certs :: bool
  cf_suppress_send :: bool

definition connection_of :: "smtp_settings \<Rightarrow> connection_config" where
  "connection_of s =
     \<lparr> cf_port = mp_port s, cf_server = mp_host s, cf_starttls = (mp_port s = 587 \<and> mp_tls s), cf_ssl_tls = (mp_port s = 465),
       cf_use_credentials = (mp_username s \<noteq> ''''), cf_validate_certs = True, cf_suppress_send = mp_suppress s \<rparr>"

record mailer =
  mr_settings :: smtp_settings
  mr_frontend_url :: py_str
  mr_render :: "py_str \<Rightarrow> (py_str \<times> py_str option) list \<Rightarrow> mail_exn + py_str"
  mr_deliver :: "nat \<Rightarrow> connection_config \<Rightarrow> py_str \<Rightarrow> py_str \<Rightarrow> py_str \<Rightarrow> mail_exn option"
  mr_db :: "nat \<Rightarrow> db"

text \<open>The \<open>k\<close>-th attempt to send: the exception it raises, if any.\<close>

definition send_email :: "mailer \<Rightarrow> nat \<Rightarrow> mail \<Rightarrow> mail_exn option" where
  "send_email m k ml =
     (case mr_render m (ml_template ml) (ml_context ml) of
        Inl x \<Rightarrow> Some x
      | Inr html \<Rightarrow> mr_deliver m k (connection_of (mr_settings m)) (ml_to ml) (ml_subject ml) html)"

section \<open>Retries\<close>

text \<open>Every exception of \<^verbatim>\<open>smtplib\<close> is an \<^verbatim>\<open>OSError\<close>, as are timeouts and connection errors.\<close>

definition transient_class :: "mail_class \<Rightarrow> bool" where
  "transient_class c \<longleftrightarrow> c \<notin> {TemplateErr, OtherErr}"

definition is_transient_email_error :: "mail_exn \<Rightarrow> bool" where
  "is_transient_email_error x \<longleftrightarrow> transient_class (mx_class x) \<or> (case mx_cause x of None \<Rightarrow> False | Some c \<Rightarrow> transient_class c)"

definition auth_class :: "mail_class \<Rightarrow> bool" where
  "auth_class c \<longleftrightarrow> c \<in> {SMTPAuthenticationErr, SMTPNotSupportedErr}"

definition is_auth_email_error :: "mail_exn \<Rightarrow> bool" where
  "is_auth_email_error x \<longleftrightarrow> auth_class (mx_class x) \<or> (case mx_cause x of None \<Rightarrow> False | Some c \<Rightarrow> auth_class c)"

datatype attempt_end = Sent mail | GaveUp | RetryIn int | Raised mail_exn

definition MAX_RETRIES :: nat where
  "MAX_RETRIES = 3"

definition task_retry :: "nat \<Rightarrow> int \<Rightarrow> mail_exn \<Rightarrow> attempt_end" where
  "task_retry retries countdown x = (if retries < MAX_RETRIES then RetryIn countdown else Raised x)"

definition handle_email_task_exception :: "nat \<Rightarrow> mail_exn \<Rightarrow> attempt_end" where
  "handle_email_task_exception retries x =
     (if mx_class x = TemplateErr then GaveUp
      else if is_auth_email_error x then Raised x
      else if is_transient_email_error x then task_retry retries 30 x
      else Raised x)"

definition runtime_error :: mail_exn where
  "runtime_error = \<lparr> mx_class = OtherErr, mx_cause = None \<rparr>"

definition retry_not_committed :: "nat \<Rightarrow> attempt_end" where
  "retry_not_committed retries = (if MAX_RETRIES \<le> retries then GaveUp else task_retry retries 2 runtime_error)"

section \<open>Tasks\<close>

datatype email_task =
    SendVerification "py_str option" "py_str option"
  | SendResetPassword "py_str option" "py_str option" "py_str option"
  | SendInvite "py_str option" "py_str option"
  | SendWelcome "py_str option" "py_str option"
  | SendPasswordChanged "py_str option" "py_str option"

text \<open>One execution of the body of a task; an exception of the query is none of the classes of mail errors.\<close>

definition attempt_mail :: "mailer \<Rightarrow> (py_str \<Rightarrow> db \<Rightarrow> mail option result) \<Rightarrow> nat \<Rightarrow> attempt_end" where
  "attempt_mail m query k =
     (case query (mr_frontend_url m) (mr_db m k) of
        Inl _ \<Rightarrow> handle_email_task_exception k runtime_error
      | Inr None \<Rightarrow> retry_not_committed k
      | Inr (Some ml) \<Rightarrow> (case send_email m k ml of Some x \<Rightarrow> handle_email_task_exception k x | None \<Rightarrow> Sent ml))"

definition send_verification_email where
  "send_verification_email m user_id raw_token k = attempt_mail m (\<lambda>url. verification_mail url user_id raw_token) k"

definition send_reset_password_email where
  "send_reset_password_email m user_id raw_token ip_address k = attempt_mail m (\<lambda>url. reset_mail url user_id raw_token ip_address) k"

definition send_invite_email where
  "send_invite_email m invitation_id raw_token k = attempt_mail m (\<lambda>url. invite_mail url invitation_id raw_token) k"

definition send_welcome_email where
  "send_welcome_email m user_id tenant_id k = attempt_mail m (\<lambda>url. welcome_mail url user_id tenant_id) k"

definition send_password_changed_email where
  "send_password_changed_email m user_id ip_address k = attempt_mail m (\<lambda>url. password_changed_mail url user_id ip_address) k"

fun email_attempt :: "mailer \<Rightarrow> email_task \<Rightarrow> nat \<Rightarrow> attempt_end" where
  "email_attempt m (SendVerification u t) k = send_verification_email m u t k"
| "email_attempt m (SendResetPassword u t ip) k = send_reset_password_email m u t ip k"
| "email_attempt m (SendInvite i t) k = send_invite_email m i t k"
| "email_attempt m (SendWelcome u t) k = send_welcome_email m u t k"
| "email_attempt m (SendPasswordChanged u ip) k = send_password_changed_email m u ip k"

text \<open>The query of a task.\<close>

fun task_mail :: "py_str \<Rightarrow> email_task \<Rightarrow> db \<Rightarrow> mail option result" where
  "task_mail url (SendVerification u t) = verification_mail url u t"
| "task_mail url (SendResetPassword u t ip) = reset_mail url u t ip"
| "task_mail url (SendInvite i t) = invite_mail url i t"
| "task_mail url (SendWelcome u t) = welcome_mail url u t"
| "task_mail url (SendPasswordChanged u ip) = password_changed_mail url u ip"

lemma email_attempt_mail: "email_attempt m task k = attempt_mail m (\<lambda>url. task_mail url task) k"
  by (cases task) (simp_all add: send_verification_email_def send_reset_password_email_def send_invite_email_def
      send_welcome_email_def send_password_changed_email_def)

lemma retry_bound:
  assumes "email_attempt m task k = RetryIn c" shows "k < MAX_RETRIES"
  using assms
  by (auto simp: email_attempt_mail attempt_mail_def handle_email_task_exception_def retry_not_committed_def task_retry_def
      split: sum.splits option.splits if_splits)

text \<open>The attempts of a task from the \<open>k\<close>-th on, each ended by what it did.\<close>

function run_task :: "mailer \<Rightarrow> email_task \<Rightarrow> nat \<Rightarrow> attempt_end list" where
  "run_task m task k =
     (case email_attempt m task k of
        RetryIn c \<Rightarrow> RetryIn c # run_task m task (Suc k)
      | result \<Rightarrow> [result])"
  by pat_completeness auto

termination run_task
  by (relation "measure (\<lambda>(m, task, k). MAX_RETRIES - k)") (auto dest: retry_bound)

declare run_task.simps [simp del] email_attempt.simps [simp del]

section \<open>From the outbox to a task\<close>

text \<open>
  A call of the queue by the name of a task and its arguments. The task that welcomes a user to a further workspace
  only puts the welcome into the queue, and drops it when the queue raises.
\<close>

datatype called_task = RunTask email_task | ForwardWelcome "py_str option" "py_str option"

definition task_of_call :: "py_str \<Rightarrow> py_str option list \<Rightarrow> called_task option" where
  "task_of_call name args =
     (case args of
        [a, b] \<Rightarrow>
          if name = ''send_verification_email'' then Some (RunTask (SendVerification a b))
          else if name = ''send_invite_email'' then Some (RunTask (SendInvite a b))
          else if name = ''send_welcome_email'' then Some (RunTask (SendWelcome a b))
          else if name = ''send_welcome_to_tenant_email'' then Some (ForwardWelcome a b)
          else if name = ''send_password_changed_email'' then Some (RunTask (SendPasswordChanged a b))
          else None
      | [a, b, c] \<Rightarrow> if name = ''send_reset_password_email'' then Some (RunTask (SendResetPassword a b c)) else None
      | _ \<Rightarrow> None)"

definition forward_welcome :: "(py_str \<Rightarrow> py_str option list \<Rightarrow> unit result) \<Rightarrow> py_str option \<Rightarrow> py_str option \<Rightarrow> email_task option" where
  "forward_welcome queue user_id tenant_id =
     (case queue ''send_welcome_email'' [user_id, tenant_id] of Inl _ \<Rightarrow> None | Inr _ \<Rightarrow> Some (SendWelcome user_id tenant_id))"

lemma length_collect: "collect f xs = Inr ys \<Longrightarrow> length ys = length xs"
  by (induction xs arbitrary: ys) (auto split: sum.splits)

text \<open>Every row the outbox dispatches is a call of a task with the arguments it takes.\<close>

lemma dispatched_rows_are_calls:
  assumes "fst (dispatch_row ob row) = Dispatched"
  shows "\<exists>keys args called. map_of DISPATCH (eb_task row) = Some keys \<and> dispatch_args keys (eb_payload row) = Inr args
    \<and> ob_send ob (eb_task row) args = Inr () \<and> task_of_call (eb_task row) args = Some called"
proof -
  obtain keys args where k: "map_of DISPATCH (eb_task row) = Some keys" "dispatch_args keys (eb_payload row) = Inr args"
      "ob_send ob (eb_task row) args = Inr ()"
    using assms
    by (auto simp: dispatch_row_def Let_def result_bind_def split: option.splits sum.splits if_splits)
  have "length args = length (fst keys) + length (snd keys)"
    using k(2) by (auto simp: dispatch_args_def dest: length_collect split: sum.splits)
  moreover from k(1) have "(eb_task row, keys) \<in> set DISPATCH" by (rule map_of_SomeD)
  ultimately have "task_of_call (eb_task row) args \<noteq> None"
    by (auto simp: DISPATCH_def task_of_call_def length_Suc_conv numeral_2_eq_2 numeral_3_eq_3)
  then show ?thesis using k by blast
qed

section \<open>Attempts\<close>

lemma run_task_step:
  "run_task m task k = (case email_attempt m task k of RetryIn c \<Rightarrow> RetryIn c # run_task m task (Suc k) | result \<Rightarrow> [result])"
  by (rule run_task.simps)

text \<open>
  A task makes at most four attempts; all but the last end in a retry, the last does not, and so at most one message
  is sent.
\<close>

lemma run_task_shape:
  assumes "k \<le> MAX_RETRIES"
  shows "1 \<le> length (run_task m task k) \<and> length (run_task m task k) \<le> 4 - k
    \<and> (\<forall>x \<in> set (butlast (run_task m task k)). \<exists>c. x = RetryIn c) \<and> (\<forall>c. last (run_task m task k) \<noteq> RetryIn c)"
  using assms
proof (induction m task k rule: run_task.induct)
  case (1 m task k)
  show ?case
  proof (cases "email_attempt m task k")
    case (RetryIn c)
    then have "Suc k \<le> MAX_RETRIES" using retry_bound [OF RetryIn] by simp
    from "1.IH" [OF RetryIn this] RetryIn this show ?thesis
      by (cases "run_task m task (Suc k)") (auto simp: run_task_step [of m task k] MAX_RETRIES_def)
  qed (use 1 in \<open>auto simp: run_task_step [of m task k] MAX_RETRIES_def\<close>)
qed

text \<open>The message goes out at the first attempt that finds the rows, if all attempts before it were retried.\<close>

lemma run_task_sends:
  assumes "j \<le> MAX_RETRIES" "k \<le> j" "\<And>i. k \<le> i \<Longrightarrow> i < j \<Longrightarrow> \<exists>c. email_attempt m task i = RetryIn c" "email_attempt m task j = Sent ml"
  shows "last (run_task m task k) = Sent ml"
  using assms(2,3)
proof (induction "j - k" arbitrary: k)
  case 0
  then have "k = j" by simp
  then show ?case using assms(4) by (simp add: run_task_step [of m task j])
next
  case (Suc n)
  then obtain c where "email_attempt m task k = RetryIn c" by fastforce
  moreover have "last (run_task m task (Suc k)) = Sent ml" using Suc by (intro Suc.hyps(1)) auto
  moreover have "run_task m task (Suc k) \<noteq> []" by (simp add: run_task_step [of m task "Suc k"] split: attempt_end.split)
  ultimately show ?case by (simp add: run_task_step [of m task k])
qed

lemma not_committed_retried:
  "task_mail (mr_frontend_url m) task (mr_db m k) = Inr None \<Longrightarrow> k < MAX_RETRIES \<Longrightarrow> email_attempt m task k = RetryIn 2"
  by (simp add: email_attempt_mail attempt_mail_def retry_not_committed_def task_retry_def)

section \<open>A registration and its mail\<close>

definition verification_row :: "env \<Rightarrow> email_outbox" where
  "verification_row e =
     \<lparr> eb_id = ev_ulid e 9, eb_task = ''send_verification_email'', eb_payload = [(''user_id'', ev_ulid e 1), (''raw_token'', ev_raw e 0)],
       eb_status = ''pending'', eb_attempts = 0, eb_dispatched_at = None, eb_last_error = None \<rparr>"

lemma session_tokens_frame:
  assumes "create_session_tokens e k j u m t remember ip msg d = (Inr resp, d')"
  shows "users d' = users d \<and> verify_tokens d' = verify_tokens d \<and> outbox d' = outbox d"
  using assms by (auto simp: create_session_tokens_def create_access_token_def bind_op_Inr op_defs guard_op_def Let_def split: if_splits)

lemma register_rows:
  assumes "register_user e req ip d = (Inr r, d')"
  shows "users d' = users d @ [new_user e (ev_ulid e 1) (rr_email req) (rr_name req) (rr_password req) False]"
    "verify_tokens d' = verify_tokens d @ [new_mail_token e (ev_ulid e 4) (ev_ulid e 1) (ev_raw e 0) 24]"
    "outbox d' = outbox d @ [verification_row e]"
  using assms
  by (auto simp: register_user_def bind_op_Inr get_active_user_by_email_Inr check_password_def guard_op_def
      op_defs Let_def log_event_def queue_email_in_outbox_def verification_row_def new_user_def
      split: option.splits if_splits list.splits dest!: session_tokens_frame)


lemma verify_email_ok:
  assumes "filter (mail_query e raw) (verify_tokens d) = [t]" "mt_used_at t = None" "\<not> mt_expires_at t < ev_now e"
    "filter (\<lambda>u. u_id u = mt_user t) (users d) = [u]"
  shows "\<exists>d'. verify_email e raw d = (Inr (), d') \<and> filter (\<lambda>u. u_id u = mt_user t) (users d') = [u \<lparr> u_is_email_verified := True \<rparr>]"
proof -
  have "u_id u = mt_user t" using filter_one_member [OF assms(4)] by simp
  moreover have "filter (\<lambda>u. u_id u = mt_user t) (update_rows (\<lambda>v. u_id v = mt_user t) (\<lambda>u. u \<lparr> u_is_email_verified := True \<rparr>) (users d))
      = update_rows (\<lambda>v. u_id v = mt_user t) (\<lambda>u. u \<lparr> u_is_email_verified := True \<rparr>) [u]"
    using assms(4) by (subst filter_update_rows_same) auto
  ultimately show ?thesis
    using assms
    by (simp add: verify_email_def usable_token_def bind_op_read bind_op_modify write_user_def modify_op_def scalar_one_def log_event_def)
qed

text \<open>The poll takes the newest row of the outbox when fewer than a hundred rows wait before it.\<close>

lemma poll_takes_last:
  assumes "length (filter pending xs) < POLL_LIMIT" "pending row"
  shows "\<exists>out. with_db (process_email_outbox ob) (d \<lparr> outbox := xs @ [row] \<rparr>) = (Inr out, d \<lparr> outbox := poll ob (xs @ [row]) \<rparr>)"
    and "last (poll ob (xs @ [row])) = snd (dispatch_row ob row)"
proof -
  show "\<exists>out. with_db (process_email_outbox ob) (d \<lparr> outbox := xs @ [row] \<rparr>) = (Inr out, d \<lparr> outbox := poll ob (xs @ [row]) \<rparr>)"
    by (simp add: process_email_outbox_def with_db_def poll_def split: prod.split)
  have "poll ob (xs @ [row]) ! length xs = snd (dispatch_row ob row)"
    using assms by (simp add: poll_def nth_poll_rows pending_before_def)
  moreover have "length (poll ob (xs @ [row])) = Suc (length xs)" by (simp add: poll_def)
  ultimately show "last (poll ob (xs @ [row])) = snd (dispatch_row ob row)"
    by (subst last_conv_nth) (auto simp flip: length_0_conv)
qed

definition verification_task :: "env \<Rightarrow> email_task" where
  "verification_task e = SendVerification (Some (ev_ulid e 1)) (Some (ev_raw e 0))"

lemma verification_row_call:
  "map_of DISPATCH (eb_task (verification_row e)) = Some ([''user_id'', ''raw_token''], [])"
  "dispatch_args ([''user_id'', ''raw_token''], []) (eb_payload (verification_row e)) = Inr [Some (ev_ulid e 1), Some (ev_raw e 0)]"
  "task_of_call (eb_task (verification_row e)) [Some (ev_ulid e 1), Some (ev_raw e 0)] = Some (RunTask (verification_task e))"
  "pending (verification_row e)"
  by (simp_all add: verification_row_def DISPATCH_def dispatch_args_def payload_key_def task_of_call_def verification_task_def pending_def)

lemma verification_row_dispatched:
  assumes "ob_send ob (eb_task (verification_row e)) [Some (ev_ulid e 1), Some (ev_raw e 0)] = Inr ()"
  shows "eb_status (snd (dispatch_row ob (verification_row e))) = ''dispatched''"
  using assms by (simp add: dispatch_row_def verification_row_call result_bind_def)

text \<open>The message of the task, sent by the first attempt that sees the account.\<close>

lemma verification_sent:
  assumes "j \<le> 3" "\<And>i. i < j \<Longrightarrow> filter (\<lambda>u. u_id u = ev_ulid e 1) (users (mr_db m i)) = []"
    and "filter (\<lambda>u. u_id u = ev_ulid e 1) (users (mr_db m j)) = [u]" "\<And>ml. send_email m j ml = None"
  shows "\<exists>ml. last (run_task m (verification_task e) 0) = Sent ml \<and> ml_to ml = u_email u
    \<and> map_of (ml_context ml) ''verify_url'' = Some (Some (mr_frontend_url m @ ''/verify-email?token='' @ ev_raw e 0))"
proof -
  define ml where "ml = \<lparr> ml_to = u_email u, ml_subject = ''Verify your ECL Platform email address'', ml_template = ''verify_email.html'',
    ml_context = [(''user_name'', Some (u_name u)), (''verify_url'', link (mr_frontend_url m) ''/verify-email'' (Some (ev_raw e 0)))] \<rparr>"
  have early: "\<exists>c. email_attempt m (verification_task e) i = RetryIn c" if "i < j" for i
    using assms(1,2) that
    by (intro exI [of _ 2] not_committed_retried) (auto simp: verification_task_def verification_mail_def MAX_RETRIES_def)
  have "verification_mail (mr_frontend_url m) (Some (ev_ulid e 1)) (Some (ev_raw e 0)) (mr_db m j) = Inr (Some ml)"
    using assms(3) by (simp add: verification_mail_def ml_def)
  then have "email_attempt m (verification_task e) j = Sent ml"
    using assms(4) by (simp add: email_attempt_mail attempt_mail_def verification_task_def)
  then have "last (run_task m (verification_task e) 0) = Sent ml"
    using assms(1) early by (intro run_task_sends) (auto simp: MAX_RETRIES_def)
  then show ?thesis by (intro exI [of _ ml]) (simp add: ml_def link_def)
qed

lemma registration_verifies:
  assumes "register_user e req ip d = (Inr r, d')" "users d1 = users d'" "verify_tokens d1 = verify_tokens d'"
    and "\<forall>u \<in> set (users d). u_id u \<noteq> ev_ulid e 1" "\<forall>t \<in> set (verify_tokens d). mt_hash t \<noteq> ev_hash_token e (ev_raw e 0)"
    and "ev_now e \<le> now" "now \<le> ev_now e + 24 * 3600"
  shows "\<exists>d''. verify_email (e \<lparr> ev_now := now \<rparr>) (ev_raw e 0) d1 = (Inr (), d'')
    \<and> map (\<lambda>u. (u_email u, u_is_email_verified u)) (filter (\<lambda>u. u_id u = ev_ulid e 1) (users d'')) = [(py_lower (rr_email req), True)]"
proof -
  let ?u = "new_user e (ev_ulid e 1) (rr_email req) (rr_name req) (rr_password req) False"
  let ?t = "new_mail_token e (ev_ulid e 4) (ev_ulid e 1) (ev_raw e 0) 24"
  note rows = register_rows [OF assms(1)]
  have "filter (\<lambda>u. u_id u = ev_ulid e 1) (users d) = []" using assms(4) by (auto simp: filter_empty_conv)
  then have one: "filter (\<lambda>u. u_id u = ev_ulid e 1) (users d1) = [?u]" by (simp add: assms(2) rows new_user_def)
  have "filter (mail_query (e \<lparr> ev_now := now \<rparr>) (ev_raw e 0)) (verify_tokens d1) = [?t]"
    using assms(5) by (auto simp: assms(3) rows mail_query_def filter_empty_conv new_mail_token_def)
  then obtain d'' where "verify_email (e \<lparr> ev_now := now \<rparr>) (ev_raw e 0) d1 = (Inr (), d'')"
      "filter (\<lambda>u. u_id u = mt_user ?t) (users d'') = [?u \<lparr> u_is_email_verified := True \<rparr>]"
    using verify_email_ok [of "e \<lparr> ev_now := now \<rparr>" "ev_raw e 0" d1 ?t ?u] one assms(6,7) by (auto simp: new_mail_token_def)
  then show ?thesis by (intro exI [of _ d'']) (simp add: new_mail_token_def new_user_def)
qed

text \<open>
  C36. A registration and its mail, from the request to the verified address. A successful registration with
  a fresh user identifier and a fresh secret leaves a pending row at the end of the outbox. If fewer than a hundred rows waited
  before it, the next poll whose queue takes calls of the mail tasks marks it dispatched; the task it calls and the arguments
  are those the row and its payload name. If the transaction is not yet visible to the first
  attempts of that task, but is to one of the first four, and the message can then be rendered and delivered, the last
  thing the task does is to send one message, to the registered address in lower case, with a link that ends in a secret. Within
  a day after the registration the secret of the link verifies the address of the new account.
\<close>

theorem registration_mail_verifies:
  assumes reg: "register_user e req ip d = (Inr r, d')"
    and fresh: "\<forall>u \<in> set (users d). u_id u \<noteq> ev_ulid e 1" "\<forall>t \<in> set (verify_tokens d). mt_hash t \<noteq> ev_hash_token e (ev_raw e 0)"
    and room: "length (filter pending (outbox d)) < 100"
    and queue: "\<And>name args called. task_of_call name args = Some called \<Longrightarrow> ob_send ob name args = Inr ()"
    and visible: "j \<le> 3" "\<And>i. i < j \<Longrightarrow> users (mr_db m i) = users d" "users (mr_db m j) = users d'"
    and delivered: "\<And>ml. send_email m j ml = None"
    and later: "ev_now e \<le> now" "now \<le> ev_now e + 24 * 3600"
  shows "\<exists>row out d1 keys args task ml secret d''.
     outbox d' = outbox d @ [row] \<and> eb_status row = ''pending''
     \<and> with_db (process_email_outbox ob) d' = (Inr out, d1) \<and> eb_status (last (outbox d1)) = ''dispatched''
     \<and> map_of DISPATCH (eb_task row) = Some keys \<and> dispatch_args keys (eb_payload row) = Inr args
     \<and> task_of_call (eb_task row) args = Some (RunTask task)
     \<and> last (run_task m task 0) = Sent ml \<and> ml_to ml = py_lower (rr_email req)
     \<and> map_of (ml_context ml) ''verify_url'' = Some (Some (mr_frontend_url m @ ''/verify-email?token='' @ secret))
     \<and> verify_email (e \<lparr> ev_now := now \<rparr>) secret d1 = (Inr (), d'')
     \<and> map (\<lambda>u. (u_email u, u_is_email_verified u)) (filter (\<lambda>u. u_id u = ev_ulid e 1) (users d'')) = [(py_lower (rr_email req), True)]"
proof -
  let ?row = "verification_row e" and ?u = "new_user e (ev_ulid e 1) (rr_email req) (rr_name req) (rr_password req) False"
  note rows = register_rows [OF reg]
  have nobody: "filter (\<lambda>u. u_id u = ev_ulid e 1) (users d) = []" using fresh(1) by (auto simp: filter_empty_conv)
  then have one: "filter (\<lambda>u. u_id u = ev_ulid e 1) (users d') = [?u]" by (simp add: rows new_user_def)
  obtain ml where sent: "last (run_task m (verification_task e) 0) = Sent ml" "ml_to ml = u_email ?u"
      "map_of (ml_context ml) ''verify_url'' = Some (Some (mr_frontend_url m @ ''/verify-email?token='' @ ev_raw e 0))"
    using verification_sent [OF visible(1), of e m ?u] visible nobody one delivered by auto
  have room': "length (filter pending (outbox d)) < POLL_LIMIT" using room by (simp add: POLL_LIMIT_def)
  define d1 where "d1 = d' \<lparr> outbox := poll ob (outbox d @ [?row]) \<rparr>"
  have d': "d' = d' \<lparr> outbox := outbox d @ [?row] \<rparr>" using rows(3) by simp
  obtain out where poll: "with_db (process_email_outbox ob) d' = (Inr out, d1)"
    using poll_takes_last(1) [OF room' verification_row_call(4), where ob = ob and d = d'] d' d1_def by metis
  have marked: "eb_status (last (outbox d1)) = ''dispatched''"
    using poll_takes_last(2) [OF room' verification_row_call(4)] verification_row_dispatched [OF queue [OF verification_row_call(3)]]
    by (simp add: d1_def)
  obtain d'' where "verify_email (e \<lparr> ev_now := now \<rparr>) (ev_raw e 0) d1 = (Inr (), d'')"
      "map (\<lambda>u. (u_email u, u_is_email_verified u)) (filter (\<lambda>u. u_id u = ev_ulid e 1) (users d'')) = [(py_lower (rr_email req), True)]"
    using registration_verifies [OF reg, of d1 now] fresh later by (auto simp: d1_def)
  then show ?thesis
    using rows(3) poll marked verification_row_call(1-3) [of e] sent verification_row_call(4) [of e, unfolded pending_def]
    by (intro exI conjI) (assumption | simp add: new_user_def)+
qed

definition sample_registration :: register_request where
  "sample_registration = \<lparr> rr_company_name = ''Bank'', rr_email = ''B@x'', rr_name = ''Bob'', rr_password = ''s3cretpass'' \<rparr>"

definition accepting_outbox :: outbox_env where
  "accepting_outbox = \<lparr> ob_now = 130, ob_send = (\<lambda>_ _. Inr ()), ob_text = (\<lambda>_. ''''), ob_repr = (\<lambda>s. s) \<rparr>"

text \<open>A mail server that works, and a database that shows the registration from the second attempt on.\<close>

definition sample_mailer :: "db \<Rightarrow> mailer" where
  "sample_mailer d =
     \<lparr> mr_settings = \<lparr> mp_host = ''mail'', mp_port = 587, mp_username = ''u'', mp_tls = True, mp_suppress = False \<rparr>,
       mr_frontend_url = ''https://x'', mr_render = (\<lambda>_ _. Inr ''page''), mr_deliver = (\<lambda>_ _ _ _ _. None),
       mr_db = (\<lambda>k. if k = 0 then empty_db else d) \<rparr>"

lemma sample_registration_ok: "\<exists>r d'. register_user sample_env sample_registration ''ip'' empty_db = (Inr r, d')"
proof -
  have "validate_password_full (\<lambda>_. False) ''s3cretpass'' (Some ''Bob'') (Some ''Bank'') = []" by code_simp
  then show ?thesis
    by (simp add: register_user_def sample_registration_def sample_env_def check_password_def get_active_user_by_email_def op_simps
        empty_db_def Let_def create_session_tokens_def create_access_token_def bind_op_assoc)
      (simp add: return_op_def)
qed

theorem registration_mail_verifies_witness:
  "\<exists>r d' out d1 task ml secret d''. register_user sample_env sample_registration ''ip'' empty_db = (Inr r, d')
     \<and> with_db (process_email_outbox accepting_outbox) d' = (Inr out, d1) \<and> eb_status (last (outbox d1)) = ''dispatched''
     \<and> last (run_task (sample_mailer d') task 0) = Sent ml \<and> ml_to ml = ''b@x''
     \<and> map_of (ml_context ml) ''verify_url'' = Some (Some (''https://x/verify-email?token='' @ secret))
     \<and> verify_email (sample_env \<lparr> ev_now := 500 \<rparr>) secret d1 = (Inr (), d'')"
proof -
  obtain r d' where reg: "register_user sample_env sample_registration ''ip'' empty_db = (Inr r, d')"
    using sample_registration_ok by blast
  have to: "py_lower (rr_email sample_registration) = ''b@x''" by code_simp
  have url: "mr_frontend_url (sample_mailer d') @ ''/verify-email?token='' @ s = ''https://x/verify-email?token='' @ s" for s
    by (simp add: sample_mailer_def)
  have "ev_now sample_env \<le> 500" "500 \<le> ev_now sample_env + 24 * 3600" by (simp_all add: sample_env_def)
  then obtain out d1 task ml secret d'' where
      "with_db (process_email_outbox accepting_outbox) d' = (Inr out, d1)" "eb_status (last (outbox d1)) = ''dispatched''"
      "last (run_task (sample_mailer d') task 0) = Sent ml" "ml_to ml = py_lower (rr_email sample_registration)"
      "map_of (ml_context ml) ''verify_url'' = Some (Some (mr_frontend_url (sample_mailer d') @ ''/verify-email?token='' @ secret))"
      "verify_email (sample_env \<lparr> ev_now := 500 \<rparr>) secret d1 = (Inr (), d'')"
    using registration_mail_verifies [OF reg, where ob = accepting_outbox and j = 1 and m = "sample_mailer d'" and now = 500]
    by (force simp: empty_db_def accepting_outbox_def sample_mailer_def send_email_def)
  then show ?thesis using reg unfolding to url by metis
qed

end
