(* ===== verification/Application.thy ===== *)
theory Application
  imports Mail
begin

text \<open>
  The assembly of the service: the settings (\<^verbatim>\<open>app/config.py\<close>), the exceptions and their responses
  (\<^verbatim>\<open>app/core/exceptions.py\<close>), the layers around the endpoints (\<^verbatim>\<open>app/core/middleware.py\<close>, \<^verbatim>\<open>app/main.py\<close>) and the
  routes (\<^verbatim>\<open>app/routers.py\<close>). What surrounds the service is in theory \<open>Deployment\<close>.

  The layers of Starlette and of starlette-csrf are the parameter \<open>framework\<close>; \<open>framework_law\<close> states what their
  documentation promises: which layer turns which exception into a response, and which requests pass. The declared
  dependencies are installed: the branch that does without starlette-csrf and the layer of metrics are not modelled.
\<close>

section \<open>Settings\<close>

text \<open>
  The settings the model reads. The others (pool sizes, ports, costs of the password hash, formats of the log)
  only reach the libraries they configure.
\<close>

record settings =
  cg_app_env :: py_str
  cg_debug :: bool
  cg_redis_url :: py_str
  cg_redis_celery_url :: py_str
  cg_jwt_private_key :: py_str
  cg_jwt_public_key :: py_str
  cg_jwt_key_id :: py_str
  cg_jwt_algorithm :: py_str
  cg_jwt_access_minutes :: int
  cg_cors_origins :: py_str
  cg_smtp_host :: py_str
  cg_smtp_from_email :: py_str
  cg_demo_notification_email :: py_str
  cg_frontend_url :: py_str
  cg_rate_limit_enabled :: bool
  cg_refresh_cookie_name :: py_str
  cg_csrf_secret :: py_str
  cg_ip_hash_salt :: py_str
  cg_storage_endpoint_url :: py_str
  cg_storage_access_key :: py_str
  cg_storage_secret_key :: py_str
  cg_compute_soft_time_limit :: int
  cg_compute_hard_time_limit :: int

definition dev_csrf_secret :: py_str where
  "dev_csrf_secret = ''changeme-csrf-secret-32-chars-min''"

definition dev_ip_hash_salt :: py_str where
  "dev_ip_hash_salt = ''ecl-ip-hash-salt''"

definition dev_storage_key :: py_str where
  "dev_storage_key = ''minioadmin''"

text \<open>The defaults of the fields above; \<^verbatim>\<open>secret_key\<close> and \<^verbatim>\<open>database_url\<close> have none.\<close>

definition default_settings :: settings where
  "default_settings = \<lparr> cg_app_env = ''development'', cg_debug = False, cg_redis_url = ''redis://localhost:6379/0'',
     cg_redis_celery_url = ''redis://localhost:6379/1'', cg_jwt_private_key = '''', cg_jwt_public_key = '''',
     cg_jwt_key_id = ''ecl-auth-2026-01'', cg_jwt_algorithm = ''RS256'', cg_jwt_access_minutes = 15,
     cg_cors_origins = ''http://localhost:3000'', cg_smtp_host = ''localhost'', cg_smtp_from_email = ''noreply@eclplatform.com'',
     cg_demo_notification_email = '''', cg_frontend_url = ''http://localhost:3000'', cg_rate_limit_enabled = True,
     cg_refresh_cookie_name = ''ecl_refresh'', cg_csrf_secret = dev_csrf_secret, cg_ip_hash_salt = dev_ip_hash_salt,
     cg_storage_endpoint_url = ''http://localhost:9000'', cg_storage_access_key = dev_storage_key,
     cg_storage_secret_key = dev_storage_key, cg_compute_soft_time_limit = 1800, cg_compute_hard_time_limit = 2400 \<rparr>"

definition is_production :: "settings \<Rightarrow> bool" where
  "is_production s \<longleftrightarrow> cg_app_env s = ''production''"

text \<open>The setting is given as one string or as a list of origins.\<close>

definition parse_cors :: "py_str + py_str list \<Rightarrow> py_str" where
  "parse_cors v = (case v of Inl s \<Rightarrow> s | Inr origins \<Rightarrow> py_join '','' origins)"

definition cors_origins_list :: "settings \<Rightarrow> py_str list" where
  "cors_origins_list s = map py_strip (filter (\<lambda>o'. py_strip o' \<noteq> '''') (split_on (CHR '','') (cg_cors_origins s)))"

definition insecure_defaults :: "settings \<Rightarrow> (py_str \<times> py_str \<times> py_str) list" where
  "insecure_defaults s =
     [(''csrf_secret'', cg_csrf_secret s, dev_csrf_secret), (''ip_hash_salt'', cg_ip_hash_salt s, dev_ip_hash_salt),
      (''storage_access_key'', cg_storage_access_key s, dev_storage_key), (''storage_secret_key'', cg_storage_secret_key s, dev_storage_key)]"

definition localhost_fields :: "settings \<Rightarrow> (py_str \<times> py_str) list" where
  "localhost_fields s =
     [(''redis_url'', cg_redis_url s), (''redis_celery_url'', cg_redis_celery_url s), (''cors_origins'', cg_cors_origins s),
      (''frontend_url'', cg_frontend_url s), (''smtp_host'', cg_smtp_host s), (''storage_endpoint_url'', cg_storage_endpoint_url s)]"

definition points_at_localhost :: "py_str \<Rightarrow> bool" where
  "points_at_localhost v \<longleftrightarrow> sublist ''localhost'' v \<or> sublist ''127.0.0.1'' v"

text \<open>The lines of the message of the exception, without their prose.\<close>

datatype config_issue = InsecureDefault py_str | PointsAtLocalhost py_str py_str

definition validate_production_config :: "settings \<Rightarrow> config_issue list + settings" where
  "validate_production_config s =
     (if cg_app_env s \<noteq> ''production'' then Inr s
      else let errors =
          map (\<lambda>(f, _, _). InsecureDefault f) (filter (\<lambda>(_, v, dev). v = dev) (insecure_defaults s))
          @ map (\<lambda>(f, v). PointsAtLocalhost f v) (filter (\<lambda>(_, v). points_at_localhost v) (localhost_fields s))
        in if errors = [] then Inr s else Inl errors)"

section \<open>Exceptions and their responses\<close>

record ecl_exception =
  ee_code :: py_str
  ee_detail :: py_str
  ee_status :: int
  ee_field :: "py_str option"
  ee_retry_after :: "int option"

definition ecl :: "py_str \<Rightarrow> py_str \<Rightarrow> int \<Rightarrow> ecl_exception" where
  "ecl code detail status = \<lparr> ee_code = code, ee_detail = detail, ee_status = status, ee_field = None, ee_retry_after = None \<rparr>"

definition invalid_credentials :: ecl_exception where
  "invalid_credentials = ecl ''INVALID_CREDENTIALS'' ''Invalid email or password.'' 401"

definition account_disabled :: ecl_exception where
  "account_disabled = ecl ''ACCOUNT_DISABLED'' ''Your account has been disabled. Contact support.'' 403"

definition account_locked :: "int \<Rightarrow> ecl_exception" where
  "account_locked retry_after = ecl ''ACCOUNT_LOCKED'' ''Account locked due to too many failed login attempts.'' 423
     \<lparr> ee_retry_after := Some retry_after \<rparr>"

definition email_taken :: ecl_exception where
  "email_taken = ecl ''EMAIL_TAKEN'' ''This email is already registered.'' 409 \<lparr> ee_field := Some ''email'' \<rparr>"

definition slug_taken :: ecl_exception where
  "slug_taken = ecl ''SLUG_TAKEN'' ''A workspace with this name already exists.'' 409 \<lparr> ee_field := Some ''company_name'' \<rparr>"

definition invalid_confirmation :: "py_str \<Rightarrow> ecl_exception" where
  "invalid_confirmation expected = ecl ''INVALID_CONFIRMATION'' (''Confirmation text must be exactly \"'' @ expected @ ''\".'') 400"

definition already_suspended :: ecl_exception where
  "already_suspended = ecl ''ALREADY_SUSPENDED'' ''This tenant is already suspended.'' 409"

definition not_suspended :: ecl_exception where
  "not_suspended = ecl ''NOT_SUSPENDED'' ''This tenant is not currently suspended.'' 409"

definition last_admin :: ecl_exception where
  "last_admin = ecl ''LAST_ADMIN'' (''This tenant must have at least one active administrator. ''
     @ ''Assign another administrator before making this change.'') 409"

definition file_too_large_error :: "int \<Rightarrow> ecl_exception" where
  "file_too_large_error max_mb = ecl ''FILE_TOO_LARGE'' (''The uploaded file exceeds the '' @ show_int max_mb @ ''MB maximum allowed size.'') 413"

definition unsupported_media_type_error :: "py_str list \<Rightarrow> ecl_exception" where
  "unsupported_media_type_error allowed = ecl ''UNSUPPORTED_MEDIA_TYPE''
     (''File type not accepted. Allowed types: '' @ py_join '', '' allowed @ ''.'') 415"

definition rate_limited :: "int \<Rightarrow> ecl_exception" where
  "rate_limited retry_after = ecl ''RATE_LIMITED'' ''Too many requests. Please wait before trying again.'' 429
     \<lparr> ee_retry_after := Some retry_after \<rparr>"

text \<open>What the other theories keep of an exception.\<close>

definition exn_of :: "ecl_exception \<Rightarrow> exn" where
  "exn_of e = ECLException (ee_code e) (ee_status e)"

datatype json_value = JNull | JStr py_str | JInt int

datatype payload = JSONObject "(py_str \<times> json_value) list" | Content py_str

record response =
  rp_status :: int
  rp_headers :: "(py_str \<times> py_str) list"
  rp_body :: payload

definition json_opt :: "py_str option \<Rightarrow> json_value" where
  "json_opt x = (case x of None \<Rightarrow> JNull | Some s \<Rightarrow> JStr s)"

definition error_body :: "ecl_exception \<Rightarrow> (py_str \<times> json_value) list" where
  "error_body e = [(''code'', JStr (ee_code e)), (''detail'', JStr (ee_detail e)), (''field'', json_opt (ee_field e))]
     @ (case ee_retry_after e of None \<Rightarrow> [] | Some n \<Rightarrow> [(''retry_after'', JInt n)])"

definition ecl_exception_handler :: "ecl_exception \<Rightarrow> response" where
  "ecl_exception_handler e = \<lparr> rp_status = ee_status e,
     rp_headers = (case ee_retry_after e of None \<Rightarrow> [] | Some n \<Rightarrow> [(''Retry-After'', show_int n)]), rp_body = JSONObject (error_body e) \<rparr>"

text \<open>An error of the validation of a request: where it is, and its message.\<close>

record validation_error =
  vx_loc :: "py_str list"
  vx_msg :: "py_str option"

definition validation_exception_handler :: "validation_error list \<Rightarrow> response" where
  "validation_exception_handler errors =
     (let first = (case errors of x # _ \<Rightarrow> x | [] \<Rightarrow> \<lparr> vx_loc = [], vx_msg = None \<rparr>);
          field = (if vx_loc first = [] then None else Some (last (vx_loc first)))
      in \<lparr> rp_status = 422, rp_headers = [], rp_body = JSONObject [(''code'', JStr ''VALIDATION_ERROR''),
           (''detail'', JStr (case vx_msg first of Some m \<Rightarrow> m | None \<Rightarrow> ''Validation failed.'')), (''field'', json_opt field)] \<rparr>)"

definition generic_response :: response where
  "generic_response = \<lparr> rp_status = 500, rp_headers = [], rp_body = JSONObject [(''code'', JStr ''INTERNAL_ERROR''),
     (''detail'', JStr ''An unexpected error occurred.''), (''field'', JNull)] \<rparr>"

text \<open>What an endpoint raises; \<open>RaisedHTTP\<close> is the framework's own exception (an unknown path, a missing bearer token).\<close>

datatype raised =
    RaisedECL ecl_exception
  | RaisedValidation "validation_error list"
  | RaisedRateLimit
  | RaisedHTTP int py_str
  | RaisedOther py_str

definition generic_exception_handler :: "raised \<Rightarrow> response" where
  "generic_exception_handler _ = generic_response"

section \<open>Requests and layers\<close>

record http_call =
  hc_method :: py_str
  hc_path :: py_str
  hc_headers :: "(py_str \<times> py_str) list"
  hc_cookies :: "(py_str \<times> py_str) list"

type_synonym app = "http_call \<Rightarrow> raised + response"

text \<open>Names of headers are compared without case.\<close>

definition header_value :: "py_str \<Rightarrow> (py_str \<times> py_str) list \<Rightarrow> py_str option" where
  "header_value name hs = map_of (map (\<lambda>(k, v). (py_lower k, v)) hs) (py_lower name)"

definition set_header :: "py_str \<Rightarrow> py_str \<Rightarrow> (py_str \<times> py_str) list \<Rightarrow> (py_str \<times> py_str) list" where
  "set_header name v hs = filter (\<lambda>(k, _). py_lower k \<noteq> py_lower name) hs @ [(name, v)]"

definition with_headers :: "(py_str \<times> py_str) list \<Rightarrow> response \<Rightarrow> response" where
  "with_headers new r = r \<lparr> rp_headers := fold (\<lambda>(k, v). set_header k v) new (rp_headers r) \<rparr>"

text \<open>The identifier of a request is the caller's, or a fresh one; the elapsed time is measured around the endpoint.\<close>

definition request_id :: "py_str \<Rightarrow> http_call \<Rightarrow> py_str" where
  "request_id fresh c = (case header_value ''X-Request-ID'' (hc_headers c) of
     Some v \<Rightarrow> if v = '''' then fresh else v | None \<Rightarrow> fresh)"

definition request_id_middleware :: "py_str \<Rightarrow> py_str \<Rightarrow> app \<Rightarrow> app" where
  "request_id_middleware fresh elapsed app c =
     (case app c of
        Inl x \<Rightarrow> Inl x
      | Inr r \<Rightarrow> Inr (with_headers [(''X-Request-ID'', request_id fresh c), (''X-Response-Time'', elapsed @ ''ms'')] r))"

definition security_headers :: "settings \<Rightarrow> http_call \<Rightarrow> (py_str \<times> py_str) list" where
  "security_headers s c =
     [(''X-Content-Type-Options'', ''nosniff''), (''X-Frame-Options'', ''DENY''),
      (''Referrer-Policy'', ''strict-origin-when-cross-origin''),
      (''Permissions-Policy'', ''camera=(), microphone=(), geolocation=()''), (''X-XSS-Protection'', ''1; mode=block'')]
     @ (if is_production s then [(''Strict-Transport-Security'', ''max-age=31536000; includeSubDomains'')] else [])
     @ (if prefix ''/api/v1/auth'' (hc_path c) then [(''Cache-Control'', ''no-store'')] else [])"

definition security_headers_middleware :: "settings \<Rightarrow> app \<Rightarrow> app" where
  "security_headers_middleware s app c =
     (case app c of Inl x \<Rightarrow> Inl x | Inr r \<Rightarrow> Inr (with_headers (security_headers s c) r))"

section \<open>Routes\<close>

text \<open>Method and path of every route, in the order the routers are registered; braces mark a parameter of the path.\<close>

definition mount :: "py_str \<Rightarrow> (py_str \<times> py_str) list \<Rightarrow> (py_str \<times> py_str) list" where
  "mount pre routes = map (\<lambda>(m, p). (m, ''/api/v1'' @ pre @ p)) routes"

definition demo_routes :: "(py_str \<times> py_str) list" where
  "demo_routes = mount ''/demo'' [(''POST'', '''')]"

definition auth_routes :: "(py_str \<times> py_str) list" where
  "auth_routes = mount ''/auth'' [(''POST'', ''/register''), (''POST'', ''/login''), (''POST'', ''/refresh''), (''POST'', ''/logout''),
     (''POST'', ''/logout-all''), (''POST'', ''/forgot-password''), (''POST'', ''/reset-password''), (''GET'', ''/verify-email/{token}''),
     (''POST'', ''/resend-verification''), (''POST'', ''/mfa/verify''), (''POST'', ''/switch-tenant''), (''POST'', ''/validate-token'')]"

definition invites_routes :: "(py_str \<times> py_str) list" where
  "invites_routes = mount ''/invites'' [(''GET'', ''/validate/{token}''), (''POST'', ''/accept''), (''POST'', ''''), (''POST'', ''/batch''),
     (''DELETE'', ''/{invite_id}''), (''POST'', ''/{invite_id}/resend'')]"

definition sessions_routes :: "(py_str \<times> py_str) list" where
  "sessions_routes = mount '''' [(''GET'', ''/me''), (''PATCH'', ''/me''), (''PATCH'', ''/me/password''), (''POST'', ''/me/avatar''),
     (''DELETE'', ''/me/avatar''), (''GET'', ''/me/sessions''), (''DELETE'', ''/me/sessions/{session_id}''), (''DELETE'', ''/me/sessions''),
     (''POST'', ''/me/mfa/totp/enroll''), (''POST'', ''/me/mfa/totp/confirm''), (''DELETE'', ''/me/mfa/totp'')]"

definition settings_routes :: "(py_str \<times> py_str) list" where
  "settings_routes = mount ''/me'' [(''GET'', ''/notification-preferences''), (''PATCH'', ''/notification-preferences''),
     (''GET'', ''/notifications''), (''PATCH'', ''/notifications/{notification_id}/read''), (''POST'', ''/notifications/read-all'')]"

definition tenants_routes :: "(py_str \<times> py_str) list" where
  "tenants_routes = mount ''/tenants'' [(''GET'', ''/{tenant_id}''), (''PATCH'', ''/{tenant_id}''), (''GET'', ''/{tenant_id}/members''),
     (''PATCH'', ''/{tenant_id}/members/{user_id}''), (''DELETE'', ''/{tenant_id}/members/{user_id}''), (''GET'', ''/{tenant_id}/invites''),
     (''DELETE'', ''/{tenant_id}''), (''GET'', ''/{tenant_id}/audit-logs'')]"

definition segments_routes :: "(py_str \<times> py_str) list" where
  "segments_routes = mount ''/tenants'' [(''GET'', ''/{tenant_id}/segments''), (''POST'', ''/{tenant_id}/segments''),
     (''POST'', ''/{tenant_id}/segments/batch''), (''PATCH'', ''/{tenant_id}/segments/{segment_id}''),
     (''DELETE'', ''/{tenant_id}/segments/{segment_id}'')]"

definition runs_routes :: "(py_str \<times> py_str) list" where
  "runs_routes = mount ''/tenants'' [(''POST'', ''/{tenant_id}/runs''), (''PATCH'', ''/{tenant_id}/runs/{run_id}''),
     (''POST'', ''/{tenant_id}/runs/{run_id}/uploads''), (''DELETE'', ''/{tenant_id}/runs/{run_id}/uploads/{upload_id}''),
     (''POST'', ''/{tenant_id}/runs/{run_id}/validate''), (''POST'', ''/{tenant_id}/runs/{run_id}/execute''),
     (''GET'', ''/{tenant_id}/runs/{run_id}''), (''GET'', ''/{tenant_id}/runs''), (''POST'', ''/{tenant_id}/runs/{run_id}/rerun''),
     (''DELETE'', ''/{tenant_id}/runs/{run_id}''), (''GET'', ''/{tenant_id}/runs/{run_id}/downloads/bundle''),
     (''GET'', ''/{tenant_id}/runs/{run_id}/downloads/{kind}/file''), (''GET'', ''/{tenant_id}/runs/{run_id}/downloads/{kind}''),
     (''GET'', ''/{tenant_id}/templates/{kind}'')]"

definition results_routes :: "(py_str \<times> py_str) list" where
  "results_routes = mount ''/tenants'' [(''GET'', ''/{tenant_id}/dashboard''), (''GET'', ''/{tenant_id}/results''),
     (''GET'', ''/{tenant_id}/results/segments/{segment_name}''), (''GET'', ''/{tenant_id}/results/loans/{loan_id}'')]"

definition collateral_routes :: "(py_str \<times> py_str) list" where
  "collateral_routes = mount ''/tenants'' [(''GET'', ''/{tenant_id}/collateral-types''), (''POST'', ''/{tenant_id}/collateral-types''),
     (''POST'', ''/{tenant_id}/collateral-types/batch''), (''PATCH'', ''/{tenant_id}/collateral-types/{collateral_id}''),
     (''DELETE'', ''/{tenant_id}/collateral-types/{collateral_id}'')]"

definition onboarding_routes :: "(py_str \<times> py_str) list" where
  "onboarding_routes = mount ''/onboarding'' [(''POST'', ''/{tenant_id}/complete''), (''POST'', ''/{tenant_id}/save-progress''),
     (''GET'', ''/{tenant_id}/status'')]"

definition platform_routes :: "(py_str \<times> py_str) list" where
  "platform_routes = mount ''/platform'' [(''GET'', ''/overview''), (''GET'', ''/tenants''), (''POST'', ''/tenants''),
     (''GET'', ''/tenants/{tenant_id}''), (''PATCH'', ''/tenants/{tenant_id}''), (''POST'', ''/tenants/{tenant_id}/suspend''),
     (''POST'', ''/tenants/{tenant_id}/reactivate''), (''POST'', ''/tenants/{tenant_id}/extend-trial''),
     (''POST'', ''/tenants/{tenant_id}/impersonate''), (''DELETE'', ''/tenants/{tenant_id}/impersonate''), (''GET'', ''/users''),
     (''PATCH'', ''/users/{user_id}''), (''GET'', ''/health''), (''GET'', ''/engine-versions''), (''POST'', ''/engine-versions/{version}/promote'')]"

definition audit_routes :: "(py_str \<times> py_str) list" where
  "audit_routes = mount ''/platform'' [(''GET'', ''/audit-logs'')]"

definition api_routes :: "(py_str \<times> py_str) list" where
  "api_routes = demo_routes @ auth_routes @ invites_routes @ sessions_routes @ settings_routes @ tenants_routes @ segments_routes
     @ runs_routes @ results_routes @ collateral_routes @ onboarding_routes @ platform_routes @ audit_routes"

section \<open>Cross-site request forgery\<close>

text \<open>The patterns \<^verbatim>\<open>^...$\<close> (which also accept a final line break) and \<^verbatim>\<open>^...\<close>.\<close>

datatype url_pattern = Exactly py_str | StartsWith py_str

fun url_matches :: "url_pattern \<Rightarrow> py_str \<Rightarrow> bool" where
  "url_matches (Exactly u) path \<longleftrightarrow> path = u \<or> path = u @ [CHR 0x0A]"
| "url_matches (StartsWith u) path \<longleftrightarrow> prefix u path"

definition exempt_urls :: "url_pattern list" where
  "exempt_urls = [Exactly ''/'', Exactly ''/health'', Exactly ''/ready'', StartsWith ''/.well-known/'', StartsWith ''/api/v1/auth/'',
     StartsWith ''/api/v1/tenants/'', StartsWith ''/api/v1/results/'', StartsWith ''/api/v1/platform/'', StartsWith ''/api/v1/segments/'',
     StartsWith ''/api/v1/collateral/'', StartsWith ''/api/v1/audit/'', StartsWith ''/api/v1/sessions/'', StartsWith ''/api/v1/settings/'',
     StartsWith ''/api/v1/invites/'', StartsWith ''/api/v1/onboarding/'', StartsWith ''/api/v1/demo'', StartsWith ''/docs'',
     StartsWith ''/openapi'', StartsWith ''/metrics'']"

record csrf_config =
  cs_secret :: py_str
  cs_sensitive_cookies :: "py_str list"
  cs_cookie_secure :: bool
  cs_header_name :: py_str
  cs_exempt_urls :: "url_pattern list"

definition csrf_config_of :: "settings \<Rightarrow> csrf_config" where
  "csrf_config_of s = \<lparr> cs_secret = cg_csrf_secret s, cs_sensitive_cookies = [cg_refresh_cookie_name s],
     cs_cookie_secure = is_production s, cs_header_name = ''x-csrf-token'', cs_exempt_urls = exempt_urls \<rparr>"

text \<open>The requests the documentation of starlette-csrf says are checked.\<close>

definition safe_methods :: "py_str list" where
  "safe_methods = [''GET'', ''HEAD'', ''OPTIONS'', ''TRACE'']"

definition csrf_exempt :: "csrf_config \<Rightarrow> py_str \<Rightarrow> bool" where
  "csrf_exempt cfg path \<longleftrightarrow> list_ex (\<lambda>u. url_matches u path) (cs_exempt_urls cfg)"

definition csrf_guarded :: "csrf_config \<Rightarrow> http_call \<Rightarrow> bool" where
  "csrf_guarded cfg c \<longleftrightarrow> hc_method c \<notin> set safe_methods \<and> \<not> csrf_exempt cfg (hc_path c)
     \<and> list_ex (\<lambda>k. k \<in> set (cs_sensitive_cookies cfg)) (map fst (hc_cookies c))"

section \<open>The application\<close>

text \<open>
  What the framework supplies: the layer inside of the application's own ones, which turns an exception with a
  registered handler into its response; the outermost one, which answers any other exception; the layer for other
  origins; and the layer against forged requests. The last two answer some requests themselves.
\<close>

record framework =
  fw_exceptions :: "(raised \<Rightarrow> response option) \<Rightarrow> app \<Rightarrow> app"
  fw_server_errors :: "(raised \<Rightarrow> response) option \<Rightarrow> app \<Rightarrow> app"
  fw_cors :: "py_str list \<Rightarrow> app \<Rightarrow> app"
  fw_csrf :: "csrf_config \<Rightarrow> app \<Rightarrow> app"
  fw_rate_limit :: response
  fw_http :: "int \<Rightarrow> py_str \<Rightarrow> response"

definition registered_handler :: "framework \<Rightarrow> raised \<Rightarrow> response option" where
  "registered_handler fw x =
     (case x of
        RaisedECL e \<Rightarrow> Some (ecl_exception_handler e)
      | RaisedValidation errors \<Rightarrow> Some (validation_exception_handler errors)
      | RaisedRateLimit \<Rightarrow> Some (fw_rate_limit fw)
      | RaisedHTTP status detail \<Rightarrow> Some (fw_http fw status detail)
      | RaisedOther _ \<Rightarrow> None)"

definition server_error_handler :: "settings \<Rightarrow> (raised \<Rightarrow> response) option" where
  "server_error_handler s = (if cg_debug s then None else Some generic_exception_handler)"

text \<open>A layer added later stands further out.\<close>

definition create_app :: "framework \<Rightarrow> settings \<Rightarrow> py_str \<Rightarrow> py_str \<Rightarrow> app \<Rightarrow> app" where
  "create_app fw s fresh elapsed endpoints =
     fw_server_errors fw (server_error_handler s)
       (fw_csrf fw (csrf_config_of s)
         (fw_cors fw (cors_origins_list s)
           (security_headers_middleware s
             (request_id_middleware fresh elapsed (fw_exceptions fw (registered_handler fw) endpoints)))))"

text \<open>A request another origin's browser sends ahead, which the layer for other origins answers.\<close>

definition preflight :: "http_call \<Rightarrow> bool" where
  "preflight c \<longleftrightarrow> hc_method c = ''OPTIONS'' \<and> header_value ''Origin'' (hc_headers c) \<noteq> None
     \<and> header_value ''Access-Control-Request-Method'' (hc_headers c) \<noteq> None"

definition foreign_header :: "py_str \<Rightarrow> bool" where
  "foreign_header name \<longleftrightarrow> py_lower name \<in> {''vary'', ''set-cookie''} \<or> prefix ''access-control-'' (py_lower name)"

text \<open>A layer that lets the request through changes only the headers it is there for.\<close>

definition lets_through :: "app \<Rightarrow> app \<Rightarrow> http_call \<Rightarrow> bool" where
  "lets_through outer inner c \<longleftrightarrow>
     (case inner c of
        Inl x \<Rightarrow> outer c = Inl x
      | Inr r \<Rightarrow> (\<exists>hs. outer c = Inr (r \<lparr> rp_headers := hs \<rparr>)
                    \<and> (\<forall>name. \<not> foreign_header name \<longrightarrow> header_value name hs = header_value name (rp_headers r))))"

definition framework_law :: "framework \<Rightarrow> bool" where
  "framework_law fw \<longleftrightarrow>
     (\<forall>h inner c. fw_exceptions fw h inner c =
        (case inner c of Inr r \<Rightarrow> Inr r | Inl x \<Rightarrow> (case h x of Some r \<Rightarrow> Inr r | None \<Rightarrow> Inl x)))
     \<and> (\<forall>h inner c. fw_server_errors fw (Some h) inner c = (case inner c of Inr r \<Rightarrow> Inr r | Inl x \<Rightarrow> Inr (h x)))
     \<and> (\<forall>origins inner c. \<not> preflight c \<longrightarrow> lets_through (fw_cors fw origins inner) inner c)
     \<and> (\<forall>cfg inner c. \<not> csrf_guarded cfg c \<longrightarrow> lets_through (fw_csrf fw cfg inner) inner c)
     \<and> (\<forall>cfg inner c. csrf_guarded cfg c \<and> header_value (cs_header_name cfg) (hc_headers c) = None \<longrightarrow>
          (\<exists>r. fw_csrf fw cfg inner c = Inr r \<and> rp_status r = 403))"

lemma exceptions_layer:
  "framework_law fw \<Longrightarrow> fw_exceptions fw h inner c =
     (case inner c of Inr r \<Rightarrow> Inr r | Inl x \<Rightarrow> (case h x of Some r \<Rightarrow> Inr r | None \<Rightarrow> Inl x))"
  by (simp add: framework_law_def)

lemma server_errors_layer:
  "framework_law fw \<Longrightarrow> fw_server_errors fw (Some h) inner c = (case inner c of Inr r \<Rightarrow> Inr r | Inl x \<Rightarrow> Inr (h x))"
  by (simp add: framework_law_def)

lemma create_app_answers:
  assumes "framework_law fw" "\<not> cg_debug s"
  shows "create_app fw s fresh elapsed endpoints c =
     (case fw_csrf fw (csrf_config_of s) (fw_cors fw (cors_origins_list s) (security_headers_middleware s
        (request_id_middleware fresh elapsed (fw_exceptions fw (registered_handler fw) endpoints)))) c of
      Inr r \<Rightarrow> Inr r | Inl _ \<Rightarrow> Inr generic_response)"
  using assms(2) unfolding create_app_def server_error_handler_def
  by (simp add: server_errors_layer [OF assms(1)] generic_exception_handler_def split: sum.split)

section \<open>Headers of responses\<close>

lemma header_value_set_header:
  "header_value name (set_header k v hs) = (if py_lower name = py_lower k then Some v else header_value name hs)"
proof -
  have "map_of (map (\<lambda>(k, v). (py_lower k, v)) (filter (\<lambda>(k', _). py_lower k' \<noteq> py_lower k) hs)) (py_lower name)
      = (if py_lower name = py_lower k then None else map_of (map (\<lambda>(k, v). (py_lower k, v)) hs) (py_lower name))"
    by (induction hs) auto
  then show ?thesis by (auto simp: header_value_def set_header_def map_add_def split: option.splits)
qed

lemma header_value_with_headers:
  "header_value name (rp_headers (with_headers new r)) =
     (case header_value name (rev new) of Some v \<Rightarrow> Some v | None \<Rightarrow> header_value name (rp_headers r))"
proof -
  have "header_value name (fold (\<lambda>(k, v). set_header k v) new hs) =
      (case header_value name (rev new) of Some v \<Rightarrow> Some v | None \<Rightarrow> header_value name hs)" for hs
  proof (induction new arbitrary: hs)
    case Nil
    then show ?case by (simp add: header_value_def)
  next
    case (Cons kv new)
    obtain k v where kv: "kv = (k, v)" by (cases kv)
    have "header_value name (rev (kv # new)) =
        (case header_value name (rev new) of Some w \<Rightarrow> Some w | None \<Rightarrow> if py_lower name = py_lower k then Some v else None)"
      by (auto simp: kv header_value_def map_add_def split: option.splits)
    then show ?case by (simp add: kv Cons.IH header_value_set_header split: option.splits)
  qed
  then show ?thesis by (simp add: with_headers_def)
qed

text \<open>The headers the two layers of the application set, by name, on a response to \<open>c\<close> that had the headers \<open>hs\<close>.\<close>

definition promised_headers :: "settings \<Rightarrow> py_str \<Rightarrow> http_call \<Rightarrow> (py_str \<times> py_str) list \<Rightarrow> (py_str \<times> py_str option) list" where
  "promised_headers s fresh c hs =
     [(''X-Request-ID'', Some (case header_value ''X-Request-ID'' (hc_headers c) of Some (x # xs) \<Rightarrow> x # xs | _ \<Rightarrow> fresh)),
      (''X-Content-Type-Options'', Some ''nosniff''),
      (''X-Frame-Options'', Some ''DENY''),
      (''Referrer-Policy'', Some ''strict-origin-when-cross-origin''),
      (''Permissions-Policy'', Some ''camera=(), microphone=(), geolocation=()''),
      (''X-XSS-Protection'', Some ''1; mode=block''),
      (''Strict-Transport-Security'', if cg_app_env s = ''production'' then Some ''max-age=31536000; includeSubDomains''
                                     else header_value ''Strict-Transport-Security'' hs),
      (''Cache-Control'', if prefix ''/api/v1/auth'' (hc_path c) then Some ''no-store'' else header_value ''Cache-Control'' hs)]"

lemma layers_keep_promise:
  "list_all (\<lambda>(k, v). header_value k (rp_headers (with_headers (security_headers s c)
       (with_headers [(''X-Request-ID'', request_id fresh c), (''X-Response-Time'', t)] a))) = v)
     (promised_headers s fresh c (rp_headers a))"
  unfolding header_value_with_headers promised_headers_def
  by (simp add: security_headers_def is_production_def header_value_def py_lower_def lower_char_def request_id_def
      split: option.split list.split)

lemma promised_header_own:
  "list_all (\<lambda>(k, _). \<not> foreign_header k) (promised_headers s fresh c hs)"
  by (simp add: promised_headers_def foreign_header_def py_lower_def lower_char_def)

text \<open>What the endpoint, or the handler of what it raises, answers.\<close>

definition answered :: "framework \<Rightarrow> app \<Rightarrow> http_call \<Rightarrow> response option" where
  "answered fw endpoints c =
     (case endpoints c of Inr r \<Rightarrow> Some r | Inl x \<Rightarrow> registered_handler fw x)"

definition marked :: "settings \<Rightarrow> py_str \<Rightarrow> http_call \<Rightarrow> response \<Rightarrow> (py_str \<times> py_str) list \<Rightarrow> bool" where
  "marked s fresh c a hs \<longleftrightarrow> list_all (\<lambda>(k, v). header_value k hs = v) (promised_headers s fresh c (rp_headers a))"

definition own_layers :: "framework \<Rightarrow> settings \<Rightarrow> py_str \<Rightarrow> py_str \<Rightarrow> app \<Rightarrow> app" where
  "own_layers fw s fresh elapsed endpoints =
     security_headers_middleware s (request_id_middleware fresh elapsed (fw_exceptions fw (registered_handler fw) endpoints))"

lemma own_layers_answered:
  assumes "framework_law fw" "answered fw endpoints c = Some a"
  obtains r where "own_layers fw s fresh elapsed endpoints c = Inr r" "rp_status r = rp_status a" "rp_body r = rp_body a"
    "marked s fresh c a (rp_headers r)"
proof -
  have "fw_exceptions fw (registered_handler fw) endpoints c = Inr a"
    using assms(2) by (auto simp: exceptions_layer [OF assms(1)] answered_def split: sum.splits option.splits)
  then show thesis
    by (intro that [of "with_headers (security_headers s c)
        (with_headers [(''X-Request-ID'', request_id fresh c), (''X-Response-Time'', elapsed @ ''ms'')] a)"])
      (simp_all add: own_layers_def security_headers_middleware_def request_id_middleware_def marked_def layers_keep_promise,
        simp_all add: with_headers_def)
qed

lemma own_layers_unanswered:
  assumes "framework_law fw" "answered fw endpoints c = None"
  obtains x where "own_layers fw s fresh elapsed endpoints c = Inl x"
proof -
  obtain x where "fw_exceptions fw (registered_handler fw) endpoints c = Inl x"
    using assms(2) by (auto simp: exceptions_layer [OF assms(1)] answered_def split: sum.splits option.splits)
  then show thesis by (intro that) (simp add: own_layers_def security_headers_middleware_def request_id_middleware_def)
qed

lemma lets_through_Inl: "lets_through outer inner c \<Longrightarrow> inner c = Inl x \<Longrightarrow> outer c = Inl x"
  by (simp add: lets_through_def)

lemma lets_through_marked:
  assumes "lets_through outer inner c" "inner c = Inr r" "marked s fresh c a (rp_headers r)"
  obtains r' where "outer c = Inr r'" "rp_status r' = rp_status r" "rp_body r' = rp_body r" "marked s fresh c a (rp_headers r')"
proof -
  from assms obtain hs where "outer c = Inr (r \<lparr> rp_headers := hs \<rparr>)"
    and "\<forall>name. \<not> foreign_header name \<longrightarrow> header_value name hs = header_value name (rp_headers r)"
    by (auto simp: lets_through_def)
  then show thesis using assms(3) promised_header_own [of s fresh c "rp_headers a"]
    by (intro that [of "r \<lparr> rp_headers := hs \<rparr>"]) (fastforce simp: marked_def list_all_iff)+
qed

text \<open>
  C38. Outside of debug mode, and for a request that is not a preflight and is not subject to the check against forgery,
  a response carries the identifier of the request and the security headers exactly when the endpoint answered or
  raised an exception with a registered handler. Then the answer of the endpoint (or of the handler) arrives with its
  status and body, with the identifier the caller sent (else the fresh one) and the headers against sniffing, framing,
  referrers, device access and script injection, with the transport policy in production and without caching under
  \<open>/api/v1/auth\<close>. Any other exception is answered by the bare generic response with status 500, which has none of these
  headers, so that an internal error cannot be traced by its identifier.
\<close>

theorem internal_errors_unmarked:
  assumes "framework_law fw" "\<not> cg_debug s" "\<not> preflight c" "\<not> csrf_guarded (csrf_config_of s) c"
  shows "case answered fw endpoints c of
      Some a \<Rightarrow> (\<exists>r. create_app fw s fresh elapsed endpoints c = Inr r \<and> rp_status r = rp_status a \<and> rp_body r = rp_body a
        \<and> header_value ''X-Request-ID'' (rp_headers r)
            = Some (case header_value ''X-Request-ID'' (hc_headers c) of Some (x # xs) \<Rightarrow> x # xs | _ \<Rightarrow> fresh)
        \<and> header_value ''X-Content-Type-Options'' (rp_headers r) = Some ''nosniff''
        \<and> header_value ''X-Frame-Options'' (rp_headers r) = Some ''DENY''
        \<and> header_value ''Referrer-Policy'' (rp_headers r) = Some ''strict-origin-when-cross-origin''
        \<and> header_value ''Permissions-Policy'' (rp_headers r) = Some ''camera=(), microphone=(), geolocation=()''
        \<and> header_value ''X-XSS-Protection'' (rp_headers r) = Some ''1; mode=block''
        \<and> header_value ''Strict-Transport-Security'' (rp_headers r)
            = (if cg_app_env s = ''production'' then Some ''max-age=31536000; includeSubDomains''
               else header_value ''Strict-Transport-Security'' (rp_headers a))
        \<and> header_value ''Cache-Control'' (rp_headers r)
            = (if prefix ''/api/v1/auth'' (hc_path c) then Some ''no-store'' else header_value ''Cache-Control'' (rp_headers a)))
    | None \<Rightarrow> create_app fw s fresh elapsed endpoints c = Inr generic_response \<and> rp_status generic_response = 500
        \<and> list_all (\<lambda>k. header_value k (rp_headers generic_response) = None)
            [''X-Request-ID'', ''X-Content-Type-Options'', ''X-Frame-Options'', ''Referrer-Policy'', ''Permissions-Policy'',
             ''X-XSS-Protection'', ''Strict-Transport-Security'', ''Cache-Control'']"
proof -
  let ?own = "own_layers fw s fresh elapsed endpoints"
  let ?cors = "fw_cors fw (cors_origins_list s) ?own"
  let ?csrf = "fw_csrf fw (csrf_config_of s) ?cors"
  have through: "lets_through ?cors ?own c" "lets_through ?csrf ?cors c"
    using assms by (auto simp: framework_law_def)
  have app: "create_app fw s fresh elapsed endpoints c = (case ?csrf c of Inr r \<Rightarrow> Inr r | Inl _ \<Rightarrow> Inr generic_response)"
    unfolding own_layers_def by (rule create_app_answers [OF assms(1,2)])
  show ?thesis
  proof (cases "answered fw endpoints c")
    case None
    obtain x where "?own c = Inl x" by (rule own_layers_unanswered [OF assms(1) None])
    then have "?csrf c = Inl x" by (rule lets_through_Inl [OF through(2) lets_through_Inl [OF through(1)]])
    then show ?thesis by (simp add: None app generic_response_def header_value_def)
  next
    case (Some a)
    obtain r where r: "?own c = Inr r" "rp_status r = rp_status a" "rp_body r = rp_body a" "marked s fresh c a (rp_headers r)"
      by (rule own_layers_answered [OF assms(1) Some])
    obtain r1 where r1: "?cors c = Inr r1" "rp_status r1 = rp_status r" "rp_body r1 = rp_body r" "marked s fresh c a (rp_headers r1)"
      by (rule lets_through_marked [OF through(1) r(1,4)])
    obtain r2 where "?csrf c = Inr r2" "rp_status r2 = rp_status r1" "rp_body r2 = rp_body r1" "marked s fresh c a (rp_headers r2)"
      by (rule lets_through_marked [OF through(2) r1(1,4)])
    then show ?thesis using r r1 by (simp add: Some app marked_def promised_headers_def)
  qed
qed

definition plain_framework :: framework where
  "plain_framework = \<lparr>
     fw_exceptions = (\<lambda>h inner c. case inner c of Inr r \<Rightarrow> Inr r | Inl x \<Rightarrow> (case h x of Some r \<Rightarrow> Inr r | None \<Rightarrow> Inl x)),
     fw_server_errors = (\<lambda>h inner c. case inner c of Inr r \<Rightarrow> Inr r | Inl x \<Rightarrow> (case h of Some f \<Rightarrow> Inr (f x) | None \<Rightarrow> Inl x)),
     fw_cors = (\<lambda>_ inner c. inner c),
     fw_csrf = (\<lambda>cfg inner c. if csrf_guarded cfg c \<and> header_value (cs_header_name cfg) (hc_headers c) = None
                then Inr \<lparr> rp_status = 403, rp_headers = [], rp_body = Content ''CSRF token verification failed'' \<rparr> else inner c),
     fw_rate_limit = \<lparr> rp_status = 429, rp_headers = [], rp_body = Content ''Rate limit exceeded'' \<rparr>,
     fw_http = (\<lambda>status detail. \<lparr> rp_status = status, rp_headers = [], rp_body = Content detail \<rparr>) \<rparr>"

lemma lets_through_refl [simp]:
  assumes eq: "inner c = outer c" shows "lets_through outer inner c"
proof (cases "outer c")
  case (Inr r)
  then show ?thesis unfolding lets_through_def eq by (cases r) (auto intro!: exI [of _ "rp_headers r"])
qed (simp add: lets_through_def eq)

lemma plain_framework_law: "framework_law plain_framework"
  by (auto simp: framework_law_def plain_framework_def split: sum.split)

definition overview_call :: http_call where
  "overview_call = \<lparr> hc_method = ''GET'', hc_path = ''/api/v1/platform/overview'', hc_headers = [(''x-request-id'', ''r7'')], hc_cookies = [] \<rparr>"

theorem internal_errors_unmarked_witness:
  "create_app plain_framework default_settings ''u'' ''1.00'' (\<lambda>_. Inl (RaisedOther ''KeyError'')) overview_call = Inr generic_response
   \<and> (\<exists>r. create_app plain_framework default_settings ''u'' ''1.00'' (\<lambda>_. Inl (RaisedECL invalid_credentials)) overview_call = Inr r
        \<and> rp_status r = 401 \<and> header_value ''X-Request-ID'' (rp_headers r) = Some ''r7''
        \<and> header_value ''X-Frame-Options'' (rp_headers r) = Some ''DENY'')"
proof -
  have h: "\<not> cg_debug default_settings" "\<not> preflight overview_call" "\<not> csrf_guarded (csrf_config_of default_settings) overview_call"
    by (simp_all add: default_settings_def preflight_def overview_call_def csrf_guarded_def safe_methods_def)
  have "header_value ''X-Request-ID'' (hc_headers overview_call) = Some ''r7''"
    by code_simp
  then show ?thesis
    using internal_errors_unmarked [OF plain_framework_law h, where endpoints = "\<lambda>_. Inl (RaisedOther ''KeyError'')" and fresh = "''u''" and elapsed = "''1.00''"]
      internal_errors_unmarked [OF plain_framework_law h, where endpoints = "\<lambda>_. Inl (RaisedECL invalid_credentials)" and fresh = "''u''" and elapsed = "''1.00''"]
    by (auto simp: answered_def registered_handler_def ecl_exception_handler_def invalid_credentials_def ecl_def)
qed

section \<open>Which requests are checked against forgery\<close>

definition guarded_routes :: "settings \<Rightarrow> (py_str \<times> py_str) list" where
  "guarded_routes s = filter (\<lambda>(m, p). m \<notin> set safe_methods \<and> \<not> csrf_exempt (csrf_config_of s) p) api_routes"

lemma own_account_not_exempt:
  assumes "prefix ''/api/v1/me'' path"
  shows "\<not> csrf_exempt (csrf_config_of s) path"
proof -
  obtain rest where "path = ''/api/v1/me'' @ rest" using assms by (auto simp: prefix_def)
  then show ?thesis by (simp add: csrf_exempt_def csrf_config_of_def exempt_urls_def)
qed

text \<open>
  C39. The exemptions from the check against forged requests miss the routes they are written for: every changing
  request on the own account (sessions, password, second factor, notification preferences live under \<open>/api/v1/me\<close>)
  that carries the refresh cookie and no CSRF header is refused with status 403 before any endpoint runs, although
  it is authenticated by a bearer token; over the whole table of routes these and the creation of an invitation are
  the only ones checked, and the patterns for \<open>/results/\<close>, \<open>/segments/\<close>, \<open>/collateral/\<close>, \<open>/audit/\<close>, \<open>/sessions/\<close> and
  \<open>/settings/\<close> match no route at all.
\<close>

theorem csrf_guards_own_account:
  assumes "framework_law fw" "\<not> cg_debug s"
    and "hc_method c \<in> {''POST'', ''PATCH'', ''DELETE''}" "prefix ''/api/v1/me'' (hc_path c)"
    and "cg_refresh_cookie_name s \<in> fst ` set (hc_cookies c)" "header_value ''X-CSRF-Token'' (hc_headers c) = None"
  shows "(\<exists>r. create_app fw s fresh elapsed endpoints c = Inr r \<and> rp_status r = 403)
    \<and> guarded_routes s = (''POST'', ''/api/v1/invites'') # filter (\<lambda>(m, _). m \<noteq> ''GET'') (sessions_routes @ settings_routes)
    \<and> filter (\<lambda>u. \<not> list_ex (\<lambda>(_, p). url_matches u p) api_routes) exempt_urls
        = [Exactly ''/'', Exactly ''/health'', Exactly ''/ready'', StartsWith ''/.well-known/'', StartsWith ''/api/v1/results/'',
           StartsWith ''/api/v1/segments/'', StartsWith ''/api/v1/collateral/'', StartsWith ''/api/v1/audit/'',
           StartsWith ''/api/v1/sessions/'', StartsWith ''/api/v1/settings/'', StartsWith ''/docs'', StartsWith ''/openapi'',
           StartsWith ''/metrics'']"
proof (intro conjI)
  let ?cfg = "csrf_config_of s"
  have guarded: "csrf_guarded ?cfg c"
    using assms(3,5) own_account_not_exempt [OF assms(4)]
    by (auto simp: csrf_guarded_def safe_methods_def list_ex_iff csrf_config_of_def)
  have "py_lower ''x-csrf-token'' = py_lower ''X-CSRF-Token''" by code_simp
  then have "header_value (cs_header_name ?cfg) (hc_headers c) = None"
    using assms(6) by (simp add: csrf_config_of_def header_value_def)
  then have "\<exists>r. fw_csrf fw ?cfg inner c = Inr r \<and> rp_status r = 403" for inner
    using assms(1) guarded by (simp add: framework_law_def)
  from this [of "fw_cors fw (cors_origins_list s) (own_layers fw s fresh elapsed endpoints)"]
  show "\<exists>r. create_app fw s fresh elapsed endpoints c = Inr r \<and> rp_status r = 403"
    by (auto simp: create_app_answers [OF assms(1,2)] own_layers_def)
next
  show "guarded_routes s = (''POST'', ''/api/v1/invites'') # filter (\<lambda>(m, _). m \<noteq> ''GET'') (sessions_routes @ settings_routes)"
    unfolding guarded_routes_def csrf_exempt_def csrf_config_of_def by code_simp
qed code_simp

definition password_call :: http_call where
  "password_call = \<lparr> hc_method = ''PATCH'', hc_path = ''/api/v1/me/password'', hc_headers = [(''Authorization'', ''Bearer t'')],
     hc_cookies = [(''ecl_refresh'', ''raw'')] \<rparr>"

theorem csrf_guards_own_account_witness:
  "\<exists>r. create_app plain_framework default_settings ''u'' ''1.00'' (\<lambda>_. Inl (RaisedOther ''not reached'')) password_call = Inr r \<and> rp_status r = 403"
proof -
  have "\<not> cg_debug default_settings" "hc_method password_call \<in> {''POST'', ''PATCH'', ''DELETE''}"
    "prefix ''/api/v1/me'' (hc_path password_call)" "cg_refresh_cookie_name default_settings \<in> fst ` set (hc_cookies password_call)"
    by (simp_all add: default_settings_def password_call_def)
  moreover have "header_value ''X-CSRF-Token'' (hc_headers password_call) = None" by code_simp
  ultimately show ?thesis
    using csrf_guards_own_account [OF plain_framework_law, of default_settings password_call] by metis
qed

section \<open>A configuration for production\<close>

definition env_of :: "settings \<Rightarrow> env \<Rightarrow> env" where
  "env_of s e = e \<lparr> ev_jwt_keys := (cg_jwt_private_key s \<noteq> ''''), ev_access_minutes := cg_jwt_access_minutes s \<rparr>"

lemma validate_production_config_iff:
  "validate_production_config s = Inr s' \<longleftrightarrow> s' = s
     \<and> (is_production s \<longrightarrow> list_all (\<lambda>(_, v, dev). v \<noteq> dev) (insecure_defaults s)
                            \<and> list_all (\<lambda>(_, v). \<not> points_at_localhost v) (localhost_fields s))"
  by (auto simp: validate_production_config_def is_production_def Let_def filter_empty_conv list_all_iff case_prod_unfold)

lemma split_on_not_Nil [simp]: "split_on c s \<noteq> []"
  by (cases s) (auto split: list.splits)

lemma cors_origins_round_trip:
  assumes "origins \<noteq> []" "\<forall>o' \<in> set origins. CHR '','' \<notin> set o' \<and> py_strip o' = o' \<and> o' \<noteq> ''''"
  shows "cors_origins_list (s \<lparr> cg_cors_origins := parse_cors (Inr origins) \<rparr>) = origins"
proof -
  have one: "split_on (CHR '','') x = [x]" if "CHR '','' \<notin> set x" for x
    using that by (induction x) auto
  have more: "split_on (CHR '','') (x @ CHR '','' # rest) = x # split_on (CHR '','') rest" if "CHR '','' \<notin> set x" for x rest
    using that by (induction x) (auto split: list.splits)
  have "split_on (CHR '','') (py_join '','' origins) = origins"
    using assms by (induction origins rule: induct_list012) (simp_all add: one more)
  then show ?thesis using assms
    by (simp add: cors_origins_list_def parse_cors_def) (simp add: map_idI cong: filter_cong)
qed

text \<open>Operations that never return a value.\<close>

definition never_returns :: "('s, 'a) op \<Rightarrow> bool" where
  "never_returns m \<longleftrightarrow> (\<forall>s. \<exists>x s'. m s = (Inl x, s'))"

named_theorems never_rules \<open>operations that never return a value\<close>

lemma never_raise [never_rules]: "never_returns (raise_op x)"
  by (simp add: never_returns_def raise_op_def)

lemma never_bind_first: "never_returns m \<Longrightarrow> never_returns (bind_op m f)"
  by (auto simp: never_returns_def bind_op_def split: prod.splits sum.splits) (metis Inl_Inr_False prod.inject)

lemma never_bind_rest [never_rules]: "(\<And>x. never_returns (f x)) \<Longrightarrow> never_returns (bind_op m f)"
  unfolding never_returns_def bind_op_def by (auto split: prod.splits sum.splits)

lemma never_guard: "\<not> b \<Longrightarrow> never_returns (guard_op b x)"
  by (simp add: guard_op_def never_raise)

lemma never_with_db: "never_returns m \<Longrightarrow> \<exists>x. with_db m d = (Inl x, d)"
  unfolding never_returns_def with_db_def by (metis (mono_tags, lifting) case_prod_conv old.sum.simps(5))

lemma never_access_token [never_rules]:
  "\<not> ev_jwt_keys e \<Longrightarrow> never_returns (bind_op (create_access_token e k u m t) f)"
  unfolding create_access_token_def by (intro never_bind_first never_guard)

lemma never_challenge [never_rules]:
  "\<not> ev_jwt_keys e \<Longrightarrow> never_returns (bind_op (create_mfa_challenge_token e k i) f)"
  unfolding create_mfa_challenge_token_def by (intro never_bind_first never_guard)

lemma never_session_tokens [never_rules]:
  "\<not> ev_jwt_keys e \<Longrightarrow> never_returns (bind_op (create_session_tokens e k j u m t remember ip message) f)"
  unfolding create_session_tokens_def Let_def by (rule never_bind_first) (simp add: never_rules)

lemma never_login: "\<not> ev_jwt_keys e \<Longrightarrow> never_returns (login_user e req ip)"
  unfolding login_user_def by (simp add: never_rules split: option.split prod.split)

lemma never_register: "\<not> ev_jwt_keys e \<Longrightarrow> never_returns (register_user e req ip)"
  unfolding register_user_def Let_def by (simp add: never_rules)

lemma never_refresh: "\<not> ev_jwt_keys e \<Longrightarrow> never_returns (refresh_tokens e raw)"
  unfolding refresh_tokens_def by (simp add: never_rules Let_def split: option.split prod.split)

definition keyless_production :: settings where
  "keyless_production = default_settings \<lparr> cg_app_env := ''production'', cg_redis_url := ''rediss://cache.bank:6379/0'',
     cg_redis_celery_url := ''rediss://queue.bank:6379/1'', cg_cors_origins := ''https://ecl.bank'', cg_smtp_host := ''smtp.bank'',
     cg_frontend_url := ''https://ecl.bank'', cg_csrf_secret := ''a-real-secret'', cg_ip_hash_salt := ''a-real-salt'',
     cg_storage_endpoint_url := ''https://store.bank'', cg_storage_access_key := ''key'', cg_storage_secret_key := ''secret'' \<rparr>"

text \<open>
  The check of a production configuration does not cover the signing keys: there is a configuration with
  \<open>app_env\<close> set to production which the check accepts and under which, whatever the database holds, every login, every
  registration and every refresh ends in an exception and is rolled back, so the service starts and admits nobody.
\<close>

lemma keyless_production_admits_nobody:
  "\<exists>s. is_production s \<and> validate_production_config s = Inr s \<and>
     (\<forall>e d ip. (\<forall>req. \<exists>x. with_db (login_user (env_of s e) req ip) d = (Inl x, d))
             \<and> (\<forall>req. \<exists>x. with_db (register_user (env_of s e) req ip) d = (Inl x, d))
             \<and> (\<forall>raw. \<exists>x. with_db (refresh_tokens (env_of s e) raw) d = (Inl x, d)))"
proof (intro exI [of _ keyless_production] conjI allI)
  fix e :: env and d ip
  have no_keys: "\<not> ev_jwt_keys (env_of keyless_production e)"
    by (simp add: env_of_def keyless_production_def default_settings_def)
  show "\<exists>x. with_db (login_user (env_of keyless_production e) req ip) d = (Inl x, d)" for req
    by (rule never_with_db [OF never_login [OF no_keys]])
  show "\<exists>x. with_db (register_user (env_of keyless_production e) req ip) d = (Inl x, d)" for req
    by (rule never_with_db [OF never_register [OF no_keys]])
  show "\<exists>x. with_db (refresh_tokens (env_of keyless_production e) raw) d = (Inl x, d)" for raw
    by (rule never_with_db [OF never_refresh [OF no_keys]])
next
  show "is_production keyless_production" by code_simp
  have "list_all (\<lambda>(_, v, dev). v \<noteq> dev) (insecure_defaults keyless_production)"
    "list_all (\<lambda>(_, v). \<not> points_at_localhost v) (localhost_fields keyless_production)"
    by code_simp+
  then show "validate_production_config keyless_production = Inr keyless_production"
    by (simp add: validate_production_config_iff)
qed

end
