(* ===== verification/Deployment.thy ===== *)
theory Deployment
  imports Application
begin

text \<open>
  What surrounds the service: the published keys (\<^verbatim>\<open>/.well-known/jwks.json\<close> of \<^verbatim>\<open>app/main.py\<close>), the settings of the
  connections (\<^verbatim>\<open>app/database.py\<close>, \<^verbatim>\<open>app/core/redis_ssl.py\<close>, \<^verbatim>\<open>app/core/limiter.py\<close>), the hooks of a transaction
  (\<^verbatim>\<open>app/core/db_hooks.py\<close>), the configuration of the task queue (\<^verbatim>\<open>app/tasks/celery_app.py\<close>) and the request for a demo
  (\<^verbatim>\<open>app/modules/demo/router.py\<close>).

  The parser of a public key, the reader of base64 text and the answer of a probe are parameters.
\<close>

section \<open>Bytes of numbers\<close>

fun bit_length :: "nat \<Rightarrow> nat" where
  "bit_length n = (if n = 0 then 0 else Suc (bit_length (n div 2)))"

declare bit_length.simps [simp del]

text \<open>\<open>n.to_bytes(length, "big")\<close>.\<close>

definition to_bytes_big :: "nat \<Rightarrow> nat \<Rightarrow> nat list result" where
  "to_bytes_big len n =
     (if 256 ^ len \<le> n then Inl (ValueError ''int too big to convert'')
      else Inr (rev (map (\<lambda>i. n div 256 ^ i mod 256) [0..<len])))"

text \<open>URL-safe base64 with its padding.\<close>

definition b64_alphabet :: py_str where
  "b64_alphabet = ''ABCDEFGHIJKLMNOPQRSTUVWXYZabcdefghijklmnopqrstuvwxyz0123456789-_''"

definition b64_char :: "nat \<Rightarrow> char" where
  "b64_char k = b64_alphabet ! k"

fun urlsafe_b64encode :: "nat list \<Rightarrow> py_str" where
  "urlsafe_b64encode [] = []"
| "urlsafe_b64encode [a] = [b64_char (a div 4), b64_char (a mod 4 * 16), CHR ''='', CHR ''='']"
| "urlsafe_b64encode [a, b] = [b64_char (a div 4), b64_char (a mod 4 * 16 + b div 16), b64_char (b mod 16 * 4), CHR ''='']"
| "urlsafe_b64encode (a # b # c # rest) =
     [b64_char (a div 4), b64_char (a mod 4 * 16 + b div 16), b64_char (b mod 16 * 4 + c div 64), b64_char (c mod 64)]
     @ urlsafe_b64encode rest"

definition rstrip_padding :: "py_str \<Rightarrow> py_str" where
  "rstrip_padding s = rev (dropWhile (\<lambda>c. c = CHR ''='') (rev s))"

definition b64_uint :: "nat \<Rightarrow> py_str result" where
  "b64_uint n = map_sum id (\<lambda>bytes. rstrip_padding (urlsafe_b64encode bytes)) (to_bytes_big ((bit_length n + 7) div 8) n)"

section \<open>The published keys\<close>

record jwk =
  jk_kty :: py_str
  jk_use :: py_str
  jk_alg :: py_str
  jk_kid :: py_str
  jk_n :: py_str
  jk_e :: py_str

text \<open>What the endpoint relies on: reading base64 text, and the modulus and the exponent of a key in PEM format.\<close>

record key_reader =
  kr_b64decode :: "py_str \<Rightarrow> py_str result"
  kr_load_pem :: "py_str \<Rightarrow> (nat \<times> nat) result"

definition jwks :: "key_reader \<Rightarrow> settings \<Rightarrow> (jwk list \<times> (py_str \<times> py_str) list) result" where
  "jwks kr s =
     (if cg_jwt_public_key s = '''' then Inr ([], [])
      else case (if prefix ''-----BEGIN'' (cg_jwt_public_key s) then Inr (cg_jwt_public_key s) else kr_b64decode kr (cg_jwt_public_key s)) of
        Inl x \<Rightarrow> Inl x
      | Inr pem \<Rightarrow>
         (case kr_load_pem kr pem of
            Inl x \<Rightarrow> Inl x
          | Inr (modulus, exponent) \<Rightarrow>
             (case b64_uint modulus of
                Inl x \<Rightarrow> Inl x
              | Inr n \<Rightarrow>
                 (case b64_uint exponent of
                    Inl x \<Rightarrow> Inl x
                  | Inr e \<Rightarrow> Inr ([\<lparr> jk_kty = ''RSA'', jk_use = ''sig'', jk_alg = cg_jwt_algorithm s, jk_kid = cg_jwt_key_id s,
                        jk_n = n, jk_e = e \<rparr>], [(''Cache-Control'', ''max-age=3600'')])))))"

text \<open>The reader on the other side: base64 without padding, and the number of big-endian bytes.\<close>

definition b64_value :: "char \<Rightarrow> nat" where
  "b64_value c = length (takeWhile (\<lambda>d. d \<noteq> c) b64_alphabet)"

fun b64_read :: "py_str \<Rightarrow> nat list" where
  "b64_read (p # q # r # s # rest) =
     [b64_value p * 4 + b64_value q div 16, b64_value q mod 16 * 16 + b64_value r div 4, b64_value r mod 4 * 64 + b64_value s] @ b64_read rest"
| "b64_read [p, q, r] = [b64_value p * 4 + b64_value q div 16, b64_value q mod 16 * 16 + b64_value r div 4]"
| "b64_read [p, q] = [b64_value p * 4 + b64_value q div 16]"
| "b64_read _ = []"

definition number_of_bytes :: "nat list \<Rightarrow> nat" where
  "number_of_bytes = foldl (\<lambda>v b. v * 256 + b) 0"

definition read_uint :: "py_str \<Rightarrow> nat" where
  "read_uint s = number_of_bytes (b64_read s)"

lemma b64_alphabet_facts: "length b64_alphabet = 64" "distinct b64_alphabet" "CHR ''='' \<notin> set b64_alphabet"
  by code_simp+

lemma b64_table: "list_all (\<lambda>k. b64_value (b64_char k) = k \<and> b64_char k \<noteq> CHR ''='') [0..<64]"
  by code_simp

lemma b64_value_char [simp]: "k < 64 \<Longrightarrow> b64_value (b64_char k) = k"
  using b64_table by (simp add: list_all_iff)

lemma b64_char_no_padding [simp]: "k < 64 \<Longrightarrow> b64_char k \<noteq> CHR ''=''" "k < 64 \<Longrightarrow> CHR ''='' \<noteq> b64_char k"
  using b64_table by (auto simp: list_all_iff)

lemma rstrip_padding_append:
  assumes "CHR ''='' \<notin> set x"
  shows "rstrip_padding (x @ y) = x @ rstrip_padding y"
proof -
  have kept: "dropWhile (\<lambda>c. c = CHR ''='') (rev x) = rev x"
    using assms by (intro dropWhile_eq_self_iff [THEN iffD2]) (metis hd_in_set set_rev)
  have "dropWhile (\<lambda>c. c = CHR ''='') (zs @ rev x) = dropWhile (\<lambda>c. c = CHR ''='') zs @ rev x" for zs
    by (induction zs) (simp_all add: kept)
  then show ?thesis by (simp add: rstrip_padding_def)
qed

lemma rstrip_padding_Nil [simp]: "rstrip_padding [] = []"
  by (simp add: rstrip_padding_def)

lemma sextets_bound [simp]:
  fixes a b c :: nat
  shows "a < 256 \<Longrightarrow> a div 4 < 64" "a mod 4 * 16 < 64" "b < 256 \<Longrightarrow> a mod 4 * 16 + b div 16 < 64" "b mod 16 * 4 < 64"
    "c < 256 \<Longrightarrow> b mod 16 * 4 + c div 64 < 64" "c mod 64 < 64"
  by linarith+

lemma sextets_read:
  fixes a b c :: nat
  assumes "a < 256" "b < 256" "c < 256"
  shows "a div 4 * 4 + a mod 4 * 16 div 16 = a" "a div 4 * 4 + (a mod 4 * 16 + b div 16) div 16 = a"
    "(a mod 4 * 16 + b div 16) mod 16 * 16 + b mod 16 * 4 div 4 = b"
    "(a mod 4 * 16 + b div 16) mod 16 * 16 + (b mod 16 * 4 + c div 64) div 4 = b"
    "(b mod 16 * 4 + c div 64) mod 4 * 64 + c mod 64 = c"
proof -
  have "b div 16 < 16" "c div 64 < 4" using assms by linarith+
  then have "(a mod 4 * 16 + b div 16) div 16 = a mod 4" "(a mod 4 * 16 + b div 16) mod 16 = b div 16"
    "(b mod 16 * 4 + c div 64) div 4 = b mod 16" "(b mod 16 * 4 + c div 64) mod 4 = c div 64"
    by simp_all
  then show "a div 4 * 4 + a mod 4 * 16 div 16 = a" "a div 4 * 4 + (a mod 4 * 16 + b div 16) div 16 = a"
    "(a mod 4 * 16 + b div 16) mod 16 * 16 + b mod 16 * 4 div 4 = b"
    "(a mod 4 * 16 + b div 16) mod 16 * 16 + (b mod 16 * 4 + c div 64) div 4 = b"
    "(b mod 16 * 4 + c div 64) mod 4 * 64 + c mod 64 = c"
    by simp_all
qed

lemma b64_round_trip: "\<forall>b \<in> set bytes. b < 256 \<Longrightarrow> b64_read (rstrip_padding (urlsafe_b64encode bytes)) = bytes"
proof (induction bytes rule: urlsafe_b64encode.induct)
  case (2 a)
  have "rstrip_padding (urlsafe_b64encode [a]) = [b64_char (a div 4), b64_char (a mod 4 * 16)] @ rstrip_padding ''==''"
    using 2 rstrip_padding_append [of "[b64_char (a div 4), b64_char (a mod 4 * 16)]" "''==''"] by simp
  then show ?case using 2 sextets_read [of a a a] by (simp add: rstrip_padding_def)
next
  case (3 a b)
  have "rstrip_padding (urlsafe_b64encode [a, b])
      = [b64_char (a div 4), b64_char (a mod 4 * 16 + b div 16), b64_char (b mod 16 * 4)] @ rstrip_padding ''=''"
    using 3 rstrip_padding_append [of "[b64_char (a div 4), b64_char (a mod 4 * 16 + b div 16), b64_char (b mod 16 * 4)]" "''=''"] by simp
  then show ?case using 3 sextets_read [of a b a] by (simp add: rstrip_padding_def)
next
  case (4 a b c rest)
  have "rstrip_padding (urlsafe_b64encode (a # b # c # rest))
      = [b64_char (a div 4), b64_char (a mod 4 * 16 + b div 16), b64_char (b mod 16 * 4 + c div 64), b64_char (c mod 64)]
        @ rstrip_padding (urlsafe_b64encode rest)"
    unfolding urlsafe_b64encode.simps using 4 by (intro rstrip_padding_append) simp
  then show ?case using 4 sextets_read [of a b c] by simp
qed simp

lemma number_of_bytes_append: "number_of_bytes (xs @ ys) = number_of_bytes xs * 256 ^ length ys + number_of_bytes ys"
  by (induction ys rule: rev_induct) (simp_all add: number_of_bytes_def algebra_simps)

lemma to_bytes_round_trip:
  "to_bytes_big len n = Inr bytes \<Longrightarrow> number_of_bytes bytes = n \<and> (\<forall>b \<in> set bytes. b < 256)"
proof -
  have mod_eq: "number_of_bytes (rev (map (\<lambda>i. n div 256 ^ i mod 256) [0..<k])) = n mod 256 ^ k" for k
  proof (induction k)
    case 0
    then show ?case by (simp add: number_of_bytes_def)
  next
    case (Suc k)
    have "number_of_bytes (rev (map (\<lambda>i. n div 256 ^ i mod 256) [0..<Suc k])) = (n div 256 ^ k mod 256) * 256 ^ k + n mod 256 ^ k"
      using number_of_bytes_append [of "[n div 256 ^ k mod 256]"] Suc by (simp add: number_of_bytes_def)
    also have "\<dots> = n mod (256 ^ k * 256)" by (simp only: mod_mult2_eq) simp
    finally show ?case by (simp add: mult.commute)
  qed
  assume "to_bytes_big len n = Inr bytes"
  then have n: "n < 256 ^ len" and bytes: "bytes = rev (map (\<lambda>i. n div 256 ^ i mod 256) [0..<len])"
    by (auto simp: to_bytes_big_def split: if_splits)
  show ?thesis unfolding bytes mod_eq using n by auto
qed

lemma bit_length_bound: "n < 2 ^ bit_length n"
proof (induction n rule: bit_length.induct)
  case (1 n)
  then show ?case by (cases "n = 0") (simp_all add: bit_length.simps [of n])
qed

lemma bit_length_bytes: "n < 256 ^ ((bit_length n + 7) div 8)"
proof -
  have "bit_length n \<le> 8 * ((bit_length n + 7) div 8)" by simp
  then have "(2::nat) ^ bit_length n \<le> 2 ^ (8 * ((bit_length n + 7) div 8))" by (rule power_increasing) simp
  also have "\<dots> = 256 ^ ((bit_length n + 7) div 8)" by (simp add: power_mult)
  finally show ?thesis using bit_length_bound [of n] by linarith
qed

lemma b64_uint_read: "\<exists>t. b64_uint n = Inr t \<and> read_uint t = n"
proof -
  obtain bytes where "to_bytes_big ((bit_length n + 7) div 8) n = Inr bytes"
    using bit_length_bytes [of n] by (simp add: to_bytes_big_def)
  then show ?thesis using to_bytes_round_trip b64_round_trip by (auto simp: b64_uint_def read_uint_def)
qed

text \<open>
  C40. A published key is the configured one: whenever the reader of keys accepts the public key, written in PEM
  format or as base64 text of it, the document has one entry, and decoding its modulus and exponent (unpadded URL-safe base64 of
  the big-endian bytes) yields the numbers of the key, whatever their size; without a public key the document is empty.
\<close>

theorem published_key_round_trip:
  "case (if prefix ''-----BEGIN'' (cg_jwt_public_key s) then Inr (cg_jwt_public_key s) else kr_b64decode kr (cg_jwt_public_key s)) of
     Inl _ \<Rightarrow> True
   | Inr pem \<Rightarrow>
       (case kr_load_pem kr pem of
          Inl _ \<Rightarrow> True
        | Inr (modulus, exponent) \<Rightarrow>
            (case jwks kr s of
               Inr ([], _) \<Rightarrow> cg_jwt_public_key s = ''''
             | Inr ([k], _) \<Rightarrow> read_uint (jk_n k) = modulus \<and> read_uint (jk_e k) = exponent
                 \<and> jk_kid k = cg_jwt_key_id s \<and> jk_alg k = cg_jwt_algorithm s
             | _ \<Rightarrow> False))"
proof -
  have "\<exists>t. b64_uint n = Inr t \<and> read_uint t = n" for n by (rule b64_uint_read)
  then obtain enc where "b64_uint n = Inr (enc n)" "read_uint (enc n) = n" for n by metis
  then show ?thesis by (auto simp: jwks_def split: sum.split prod.split)
qed

section \<open>Connections\<close>

text \<open>An address of the database after \<^verbatim>\<open>urlparse\<close> and \<^verbatim>\<open>parse_qs\<close>: each parameter of the query with its values.\<close>

record db_url =
  du_scheme :: py_str
  du_rest :: py_str
  du_query :: "(py_str \<times> py_str list) list"

text \<open>The address, and whether the connection gets a TLS context.\<close>

definition prepare_async_url :: "db_url \<Rightarrow> db_url \<times> bool" where
  "prepare_async_url parsed =
     (if sublist ''+asyncpg'' (du_scheme parsed) then
        let ssl_val = (case map_of (du_query parsed) ''ssl'' of Some (v # _) \<Rightarrow> Some v | _ \<Rightarrow> None);
            params = filter (\<lambda>(k, _). k \<noteq> ''ssl'') (du_query parsed)
        in (parsed \<lparr> du_query := map (\<lambda>(k, v). (k, take 1 v)) params \<rparr>, ssl_val = Some ''require'' \<or> ssl_val = Some ''true'')
      else (parsed, False))"

text \<open>
  A stricter mode than \<^verbatim>\<open>require\<close> (\<^verbatim>\<open>verify-ca\<close>, \<^verbatim>\<open>verify-full\<close>) is removed from the address without a TLS context in
  its place.
\<close>

lemma strict_ssl_mode_dropped:
  assumes "prepare_async_url (parsed \<lparr> du_scheme := ''postgresql+asyncpg'', du_query := [(''ssl'', [mode])] \<rparr>) = (url, tls)"
  shows "du_query url = [] \<and> (tls \<longleftrightarrow> mode = ''require'' \<or> mode = ''true'')"
proof -
  have "sublist ''+asyncpg'' ''postgresql+asyncpg''" by code_simp
  then show ?thesis using assms by (auto simp: prepare_async_url_def)
qed

definition build_redis_connection_kwargs :: "py_str \<Rightarrow> (py_str \<times> py_str) list" where
  "build_redis_connection_kwargs scheme = (if scheme = ''rediss'' then [(''ssl_cert_reqs'', ''none'')] else [])"

definition build_celery_redis_ssl_params :: "py_str \<Rightarrow> (py_str \<times> py_str) list" where
  "build_celery_redis_ssl_params scheme = (if scheme = ''rediss'' then [(''ssl_cert_reqs'', ''CERT_NONE'')] else [])"

text \<open>Where the rate limiter counts; \<open>answers\<close> says whether Redis answers the probe at start.\<close>

definition storage_uri :: "settings \<Rightarrow> (py_str \<Rightarrow> bool) \<Rightarrow> py_str" where
  "storage_uri s answers =
     (if \<not> cg_rate_limit_enabled s then ''memory://''
      else if is_production s then cg_redis_url s
      else if answers (cg_redis_url s) then cg_redis_url s else ''memory://'')"

lemma production_limits_are_shared:
  "is_production s \<Longrightarrow> cg_rate_limit_enabled s \<Longrightarrow> storage_uri s answers = cg_redis_url s"
  by (simp add: storage_uri_def)

section \<open>Effects after a commit\<close>

text \<open>
  The callbacks wait in the session until its next commit. \<open>'w\<close> is what the callbacks act on; a callback of the
  dispatch swallows every exception.
\<close>

record 'w hook_session =
  hk_callbacks :: "('w \<Rightarrow> 'w) list"
  hk_world :: 'w

definition run_after_commit :: "('w \<Rightarrow> 'w) \<Rightarrow> 'w hook_session \<Rightarrow> 'w hook_session" where
  "run_after_commit f h = h \<lparr> hk_callbacks := hk_callbacks h @ [f] \<rparr>"

definition after_commit :: "'w hook_session \<Rightarrow> 'w hook_session" where
  "after_commit h = h \<lparr> hk_callbacks := [], hk_world := fold (\<lambda>f. f) (hk_callbacks h) (hk_world h) \<rparr>"

definition dispatch_callback :: "('w \<Rightarrow> unit result \<times> 'w) \<Rightarrow> 'w \<Rightarrow> 'w" where
  "dispatch_callback dispatch w = snd (dispatch w)"

definition dispatch_celery_task_after_commit :: "('w \<Rightarrow> unit result \<times> 'w) \<Rightarrow> 'w hook_session \<Rightarrow> 'w hook_session" where
  "dispatch_celery_task_after_commit dispatch = run_after_commit (dispatch_callback dispatch)"

lemma callbacks_fire_once:
  "hk_world (after_commit (after_commit (fold run_after_commit fs h))) = fold (\<lambda>f. f) fs (hk_world (after_commit h))"
proof -
  have "hk_callbacks (fold run_after_commit fs h) = hk_callbacks h @ fs" "hk_world (fold run_after_commit fs h) = hk_world h"
    by (induction fs arbitrary: h) (simp_all add: run_after_commit_def)
  then show ?thesis by (simp add: after_commit_def)
qed

section \<open>The task queue\<close>

datatype beat_time = At nat nat | EveryMinutes nat | EverySeconds nat

definition beat_schedule :: "(py_str \<times> py_str \<times> beat_time) list" where
  "beat_schedule =
     [(''expire-invitations'', ''expire_invitations'', At 0 0),
      (''expire-password-reset-tokens'', ''expire_password_reset_tokens'', At 0 30),
      (''purge-revoked-refresh-tokens'', ''purge_revoked_refresh_tokens'', At 1 0),
      (''purge-old-sessions'', ''purge_old_sessions'', At 2 0),
      (''purge-expired-token-blacklist'', ''purge_expired_token_blacklist'', EveryMinutes 30),
      (''process-email-outbox'', ''process_email_outbox'', EverySeconds 30),
      (''recover-stuck-runs'', ''recover_stuck_runs'', EverySeconds 300)]"

text \<open>The soft and the hard limit of a task in seconds.\<close>

definition task_limits :: "settings \<Rightarrow> py_str \<Rightarrow> int \<times> int" where
  "task_limits s task =
     (if task \<in> {''pd_task'', ''lgd_task'', ''ead_ecl_task''} then (cg_compute_soft_time_limit s, cg_compute_hard_time_limit s)
      else (300, 600))"

text \<open>What a worker runs for a scheduled task, with its result left out.\<close>

definition periodic_job :: "outbox_env \<Rightarrow> timestamp \<Rightarrow> py_str \<Rightarrow> (db, unit) op option" where
  "periodic_job oe now task =
     map_of
       [(''expire_invitations'', bind_op (expire_invitations now) (\<lambda>_. return_op ())),
        (''expire_password_reset_tokens'', bind_op (expire_password_reset_tokens now) (\<lambda>_. return_op ())),
        (''purge_revoked_refresh_tokens'', bind_op (purge_revoked_refresh_tokens now) (\<lambda>_. return_op ())),
        (''purge_old_sessions'', bind_op (purge_old_sessions now) (\<lambda>_. return_op ())),
        (''purge_expired_token_blacklist'', bind_op (purge_expired_token_blacklist now) (\<lambda>_. return_op ())),
        (''recover_stuck_runs'', bind_op (recover_stuck_runs now) (\<lambda>_. return_op ())),
        (''process_email_outbox'', bind_op (process_email_outbox oe) (\<lambda>_. return_op ()))] task"

lemma every_job_scheduled:
  "list_all (\<lambda>(_, task, _). periodic_job oe now task \<noteq> None) beat_schedule"
  by (simp add: beat_schedule_def periodic_job_def)

text \<open>
  The recovery of stuck runs takes a stage for dead after 45 minutes. With the default limits no task outlives that;
  a hard limit above 2700 seconds makes the recovery fail runs whose stage is still at work.
\<close>

lemma default_limits_below_cutoff: "snd (task_limits default_settings task) < 45 * 60"
  by (simp add: task_limits_def default_settings_def)

section \<open>Requests for a demo\<close>

record demo_request =
  dm_name :: py_str
  dm_company :: py_str
  dm_email :: py_str
  dm_role :: py_str
  dm_portfolio_size :: py_str
  dm_message :: py_str

definition demo_mail :: "settings \<Rightarrow> demo_request \<Rightarrow> mail" where
  "demo_mail s body =
     \<lparr> ml_to = (if cg_demo_notification_email s \<noteq> '''' then cg_demo_notification_email s else cg_smtp_from_email s),
       ml_subject = ''Demo request '' @ em_dash @ '' '' @ dm_name body @ '' ('' @ dm_company body @ '')'',
       ml_template = ''demo_request.html'',
       ml_context = [(''name'', Some (dm_name body)), (''company'', Some (dm_company body)), (''email'', Some (dm_email body)),
         (''role'', Some (dm_role body)), (''portfolio_size'', Some (dm_portfolio_size body)),
         (''message'', Some (if dm_message body = '''' then em_dash else dm_message body))] \<rparr>"

text \<open>The mail goes out inside of the request: an exception of the delivery is the answer of the endpoint.\<close>

definition submit_demo_request :: "mailer \<Rightarrow> settings \<Rightarrow> demo_request \<Rightarrow> mail_exn + bool" where
  "submit_demo_request m s body = (case send_email m 0 (demo_mail s body) of Some x \<Rightarrow> Inl x | None \<Rightarrow> Inr True)"

lemma demo_request_lost_on_failure:
  "send_email m 0 (demo_mail s body) = Some x \<Longrightarrow> submit_demo_request m s body = Inl x"
  by (simp add: submit_demo_request_def)

end
