(* ===== verification/Seeds.thy ===== *)
theory Seeds
  imports Auth
begin

text \<open>
  The scripts that fill and empty a database: \<^verbatim>\<open>scripts/seed_superadmin.py\<close>, \<^verbatim>\<open>scripts/seed_dev_data.py\<close>,
  \<^verbatim>\<open>scripts/seed_test_workspace.py\<close> and \<^verbatim>\<open>scripts/clean_db.py\<close>. Each is one transaction; leaving a script with
  \<^verbatim>\<open>sys.exit\<close> is an exception of it. The scripts read and then add one row at a time; the locale \<open>seeding\<close> holds that
  loop, for any table of named rows.
\<close>

section \<open>Adding missing rows\<close>

text \<open>
  For each entry of a list: the row it stands for is looked up and added when it is not there. \<open>k\<close> counts the rows
  added so far, which numbers the identifiers drawn.
\<close>

fun seed_missing :: "('d \<Rightarrow> 'r list) \<Rightarrow> ('r list \<Rightarrow> 'd \<Rightarrow> 'd) \<Rightarrow> ('s \<Rightarrow> 'r \<Rightarrow> bool) \<Rightarrow> (nat \<Rightarrow> 's \<Rightarrow> 'r) \<Rightarrow> nat \<Rightarrow> 's list \<Rightarrow> ('d, nat) op" where
  "seed_missing rows put hit new k [] = return_op k"
| "seed_missing rows put hit new k (s # ss) =
     bind_op (read_op (\<lambda>d. scalar_one_or_none (filter (hit s) (rows d)))) (\<lambda>existing.
     if existing \<noteq> None then seed_missing rows put hit new k ss
     else bind_op (modify_op (\<lambda>d. put (rows d @ [new k s]) d)) (\<lambda>_. seed_missing rows put hit new (Suc k) ss))"

locale seeding =
  fixes rows :: "'d \<Rightarrow> 'r list" and put :: "'r list \<Rightarrow> 'd \<Rightarrow> 'd" and hit :: "'s \<Rightarrow> 'r \<Rightarrow> bool" and new :: "nat \<Rightarrow> 's \<Rightarrow> 'r"
    and nm :: "'s \<Rightarrow> 'k"
  assumes rows_put: "rows (put rs d) = rs"
    and hit_new: "hit s (new k s') \<longleftrightarrow> nm s = nm s'"
begin

lemma present_untouched:
  assumes "\<forall>s \<in> set ss. \<exists>r. filter (hit s) (rows d) = [r]"
  shows "seed_missing rows put hit new k ss d = (Inr k, d)"
  using assms
proof (induction ss)
  case (Cons s ss)
  then obtain r where "filter (hit s) (rows d) = [r]" by auto
  then show ?case using Cons by (simp add: bind_op_read scalar_one_or_none_def)
qed (simp add: return_op_def)

lemma others_kept:
  assumes "seed_missing rows put hit new k ss d = (Inr n, d')" "nm s \<notin> nm ` set ss"
  shows "filter (hit s) (rows d') = filter (hit s) (rows d)"
  using assms
proof (induction ss arbitrary: k d)
  case (Cons s' ss)
  obtain existing where ex: "scalar_one_or_none (filter (hit s') (rows d)) = Inr existing"
    using Cons.prems(1) by (cases "scalar_one_or_none (filter (hit s') (rows d))") (simp_all add: bind_op_read)
  show ?case
  proof (cases existing)
    case None
    then have "filter (hit s) (rows d') = filter (hit s) (rows (put (rows d @ [new k s']) d))"
      using Cons ex by (intro Cons.IH) (auto simp: bind_op_read bind_op_modify)
    then show ?thesis using Cons.prems(2) by (auto simp: rows_put hit_new)
  next
    case (Some r)
    then show ?thesis using Cons ex by (auto simp: bind_op_read)
  qed
qed (simp add: return_op_def)

lemma each_present:
  assumes "seed_missing rows put hit new k ss d = (Inr n, d')" "distinct (map nm ss)"
  shows "\<forall>s \<in> set ss. \<exists>r. filter (hit s) (rows d') = [r]"
  using assms
proof (induction ss arbitrary: k d)
  case (Cons s ss)
  obtain existing where ex: "scalar_one_or_none (filter (hit s) (rows d)) = Inr existing"
    using Cons.prems(1) by (cases "scalar_one_or_none (filter (hit s) (rows d))") (simp_all add: bind_op_read)
  show ?case
  proof (cases existing)
    case None
    let ?d = "put (rows d @ [new k s]) d"
    have run: "seed_missing rows put hit new (Suc k) ss ?d = (Inr n, d')"
      using Cons.prems(1) ex None by (simp add: bind_op_read bind_op_modify)
    have "filter (hit s) (rows d') = filter (hit s) (rows ?d)"
      using run Cons.prems(2) by (intro others_kept) auto
    also have "\<dots> = [new k s]"
      using ex None by (auto simp: rows_put hit_new scalar_one_or_none_def split: list.splits)
    finally show ?thesis using Cons.IH [OF run] Cons.prems(2) by auto
  next
    case (Some r)
    then have run: "seed_missing rows put hit new k ss d = (Inr n, d')"
      using Cons.prems(1) ex by (simp add: bind_op_read)
    have "filter (hit s) (rows d') = filter (hit s) (rows d)"
      using run Cons.prems(2) by (intro others_kept) auto
    then show ?thesis using Cons.IH [OF run] Cons.prems(2) ex Some
      by (auto simp: scalar_one_or_none_def split: list.splits)
  qed
qed simp

end

section \<open>The platform operator\<close>

definition seed_superadmin :: "env \<Rightarrow> py_str \<Rightarrow> py_str \<Rightarrow> py_str \<Rightarrow> (db, bool) op" where
  "seed_superadmin e email password name =
     bind_op (read_op (\<lambda>d. scalar_one_or_none (filter (\<lambda>u. u_email u = py_lower email) (users d)))) (\<lambda>existing.
     if existing \<noteq> None then return_op False
     else bind_op (modify_op (\<lambda>d. d \<lparr> users := users d @
       [(new_user e (ev_ulid e 0) email name password True) \<lparr> u_name := name, u_is_platform_admin := True \<rparr>] \<rparr>)) (\<lambda>_.
     return_op True))"

section \<open>Workspaces for development\<close>

definition DEV_WORKSPACES :: "(py_str \<times> py_str \<times> py_str) list" where
  "DEV_WORKSPACES = [(''Zenith Bank'', ''jane@zenith.com'', ''Jane Smith''), (''Acme Corp'', ''bob@acme.com'', ''Bob Jones'')]"

definition dev_slug :: "py_str \<Rightarrow> py_str" where
  "dev_slug company = map (\<lambda>c. if c = CHR '' '' then CHR ''-'' else c) (py_lower company)"

definition add_dev_workspace :: "env \<Rightarrow> nat \<Rightarrow> py_str \<times> py_str \<times> py_str \<Rightarrow> db \<Rightarrow> db" where
  "add_dev_workspace e k = (\<lambda>(company, email, name) d.
     let t = (new_tenant e (ev_ulid e k) company (dev_slug company)) \<lparr> t_name := company \<rparr>;
         u = (new_user e (ev_ulid e (k + 1)) email name ''TestPass123!'' True) \<lparr> u_email := email, u_name := name \<rparr>;
         m = new_membership e (ev_ulid e (k + 2)) (u_id u) (t_id t) (role_value ADMINISTRATOR)
     in d \<lparr> tenants := tenants d @ [t], users := users d @ [u], members := members d @ [m] \<rparr>)"

definition seed_dev_data :: "env \<Rightarrow> (db, bool) op" where
  "seed_dev_data e =
     bind_op (read_op (\<lambda>d. scalar_one_or_none (take 1 (tenants d)))) (\<lambda>existing.
     if existing \<noteq> None then return_op False
     else bind_op (modify_op (\<lambda>d. fold (\<lambda>(i, w). add_dev_workspace e (3 * i) w) (enumerate 0 DEV_WORKSPACES) d)) (\<lambda>_. return_op True))"

section \<open>Segments and collateral types\<close>

definition TENANT_SLUG :: py_str where
  "TENANT_SLUG = ''zenith-bank''"

definition SEGMENTS :: "(py_str \<times> py_str) list" where
  "SEGMENTS = [(''Retail'', ''RET''), (''SME'', ''SME''), (''Corporate'', ''CORP'')]"

definition COLLATERAL_TYPES :: "(py_str \<times> num \<times> int) list" where
  "COLLATERAL_TYPES = [(''Real Estate'', 20, 18), (''Motor Vehicle'', 35, 6), (''Cash Deposit'', 0, 1), (''Corporate Guarantee'', 15, 12)]"

definition seed_segment_hit :: "py_str \<Rightarrow> py_str \<times> py_str \<Rightarrow> segment \<Rightarrow> bool" where
  "seed_segment_hit tenant_id = (\<lambda>(name, code) s. sm_tenant s = tenant_id \<and> sm_name s = name \<and> sm_deleted_at s = None)"

definition seed_segment_row :: "env \<Rightarrow> py_str \<Rightarrow> py_str \<Rightarrow> nat \<Rightarrow> py_str \<times> py_str \<Rightarrow> segment" where
  "seed_segment_row e tenant_id creator_id k = (\<lambda>(name, code).
     \<lparr> sm_id = ev_ulid e k, sm_tenant = tenant_id, sm_name = name, sm_code = Some code, sm_is_active = True,
       sm_created_by = creator_id, sm_deleted_at = None \<rparr>)"

definition seed_collateral_hit :: "py_str \<Rightarrow> py_str \<times> num \<times> int \<Rightarrow> collateral_type \<Rightarrow> bool" where
  "seed_collateral_hit tenant_id = (\<lambda>(name, haircut, ttr) c. ct_tenant c = tenant_id \<and> ct_name c = name \<and> ct_deleted_at c = None)"

definition seed_collateral_row :: "env \<Rightarrow> py_str \<Rightarrow> py_str \<Rightarrow> nat \<Rightarrow> py_str \<times> num \<times> int \<Rightarrow> collateral_type" where
  "seed_collateral_row e tenant_id creator_id k = (\<lambda>(name, haircut, ttr).
     \<lparr> ct_id = ev_ulid e k, ct_tenant = tenant_id, ct_name = name, ct_haircut = haircut, ct_ttr = ttr,
       ct_created_by = creator_id, ct_deleted_at = None \<rparr>)"

definition put_segments :: "segment list \<Rightarrow> db \<Rightarrow> db" where
  "put_segments rows d = d \<lparr> segments_tbl := rows \<rparr>"

definition put_collaterals :: "collateral_type list \<Rightarrow> db \<Rightarrow> db" where
  "put_collaterals rows d = d \<lparr> collateral_tbl := rows \<rparr>"

definition system_exit :: "py_str \<Rightarrow> exn" where
  "system_exit message = ValueError (''exit 1: '' @ message)"

text \<open>
  The administrator is the first row of a query without an order; \<open>order\<close> is the order the rows come in. The script returns
  the numbers of segments and of collateral types it added.
\<close>

definition seed_test_workspace :: "(membership list \<Rightarrow> membership list) \<Rightarrow> env \<Rightarrow> (db, nat \<times> nat) op" where
  "seed_test_workspace order e =
     bind_op (read_op (\<lambda>d. scalar_one_or_none (filter (\<lambda>t. t_slug t = TENANT_SLUG) (tenants d)))) (\<lambda>found.
     case found of
       None \<Rightarrow> raise_op (system_exit ''tenant not found'')
     | Some t \<Rightarrow>
         bind_op (read_op (\<lambda>d. scalar_one_or_none (take 1 (order
           (filter (\<lambda>m. m_tenant m = t_id t \<and> m_role m = role_value ADMINISTRATOR) (members d)))))) (\<lambda>admin.
         case admin of
           None \<Rightarrow> raise_op (system_exit ''no administrator membership'')
         | Some m \<Rightarrow>
             bind_op (seed_missing segments_tbl put_segments (seed_segment_hit (t_id t)) (seed_segment_row e (t_id t) (m_user m))
               0 SEGMENTS) (\<lambda>k.
             bind_op (seed_missing collateral_tbl put_collaterals (seed_collateral_hit (t_id t)) (seed_collateral_row e (t_id t) (m_user m))
               k COLLATERAL_TYPES) (\<lambda>n. return_op (k, n - k)))))"

section \<open>Emptying the database\<close>

definition clean_db :: "bool \<Rightarrow> py_str \<Rightarrow> db \<Rightarrow> db" where
  "clean_db yes answer d = (if \<not> yes \<and> py_lower (py_strip answer) \<noteq> ''yes'' then d else empty_db)"

section \<open>Seeding again\<close>

interpretation seg_seed: seeding segments_tbl put_segments "seed_segment_hit tenant_id" "seed_segment_row e tenant_id creator_id" fst
  for tenant_id e creator_id
  by unfold_locales (auto simp: put_segments_def seed_segment_hit_def seed_segment_row_def)

interpretation coll_seed: seeding collateral_tbl put_collaterals "seed_collateral_hit tenant_id" "seed_collateral_row e tenant_id creator_id" fst
  for tenant_id e creator_id
  by unfold_locales (auto simp: put_collaterals_def seed_collateral_hit_def seed_collateral_row_def)

lemma seed_names_distinct: "distinct (map fst SEGMENTS)" "distinct (map fst COLLATERAL_TYPES)"
  by code_simp+

lemma seed_missing_frame:
  assumes "seed_missing rows put hit new k ss d = (Inr n, d')" "\<And>rs d. F (put rs d) = F d"
  shows "F d' = F d"
  using assms(1)
proof (induction ss arbitrary: k d)
  case (Cons s ss)
  then show ?case
    by (cases "scalar_one_or_none (filter (hit s) (rows d))")
      (auto simp: bind_op_read bind_op_modify assms(2) split: if_splits dest: Cons.IH)
qed (simp add: return_op_def)

text \<open>What a workspace has after the script: one live row per entry of the two lists.\<close>

definition seeded :: "py_str \<Rightarrow> db \<Rightarrow> bool" where
  "seeded tenant_id d \<longleftrightarrow> list_all (\<lambda>x. length (filter (seed_segment_hit tenant_id x) (segments_tbl d)) = 1) SEGMENTS
     \<and> list_all (\<lambda>x. length (filter (seed_collateral_hit tenant_id x) (collateral_tbl d)) = 1) COLLATERAL_TYPES"

lemma length_one: "length xs = 1 \<longleftrightarrow> (\<exists>x. xs = [x])"
  by (cases xs) auto

lemma seed_test_workspace_runs:
  assumes "seed_test_workspace order e d = (Inr n, d')"
  obtains t where "filter (\<lambda>t. t_slug t = TENANT_SLUG) (tenants d) = [t]" "seeded (t_id t) d'"
    "tenants d' = tenants d" "members d' = members d"
proof -
  obtain t where t: "scalar_one_or_none (filter (\<lambda>t. t_slug t = TENANT_SLUG) (tenants d)) = Inr (Some t)"
    using assms by (auto simp: seed_test_workspace_def bind_op_Inr read_op_def raise_op_def split: option.splits)
  then obtain m where "scalar_one_or_none (take 1 (order
      (filter (\<lambda>m. m_tenant m = t_id t \<and> m_role m = role_value ADMINISTRATOR) (members d)))) = Inr (Some m)"
    using assms by (auto simp: seed_test_workspace_def bind_op_Inr read_op_def raise_op_def split: option.splits)
  then obtain k d1 k' where s: "seed_missing segments_tbl put_segments (seed_segment_hit (t_id t))
        (seed_segment_row e (t_id t) (m_user m)) 0 SEGMENTS d = (Inr k, d1)"
    and c: "seed_missing collateral_tbl put_collaterals (seed_collateral_hit (t_id t))
        (seed_collateral_row e (t_id t) (m_user m)) k COLLATERAL_TYPES d1 = (Inr k', d')"
    using assms t by (auto simp: seed_test_workspace_def bind_op_Inr read_op_def return_op_def)
  note one = seg_seed.each_present [OF s seed_names_distinct(1)] coll_seed.each_present [OF c seed_names_distinct(2)]
  have frame_c: "segments_tbl d' = segments_tbl d1" "tenants d' = tenants d1" "members d' = members d1"
    by (rule seed_missing_frame [OF c], simp add: put_collaterals_def)+
  have frame_s: "tenants d1 = tenants d" "members d1 = members d"
    by (rule seed_missing_frame [OF s], simp add: put_segments_def)+
  show thesis
  proof (rule that)
    show "filter (\<lambda>t. t_slug t = TENANT_SLUG) (tenants d) = [t]"
      using t by (auto simp: scalar_one_or_none_def split: list.splits)
    show "seeded (t_id t) d'" using one by (auto simp: seeded_def list_all_iff frame_c length_one simp del: One_nat_def)
  qed (simp_all add: frame_c frame_s)
qed

lemma seeded_untouched:
  assumes "seeded (t_id t) d" "filter (\<lambda>t. t_slug t = TENANT_SLUG) (tenants d) = [t]"
  shows "snd (seed_test_workspace order e d) = d"
proof -
  have "seed_missing segments_tbl put_segments (seed_segment_hit (t_id t)) (seed_segment_row e (t_id t) c) k SEGMENTS d = (Inr k, d)"
    "seed_missing collateral_tbl put_collaterals (seed_collateral_hit (t_id t)) (seed_collateral_row e (t_id t) c) k COLLATERAL_TYPES d = (Inr k, d)"
    for c k
    using assms(1) by (auto simp: seeded_def list_all_iff length_one simp del: One_nat_def
      intro!: seg_seed.present_untouched coll_seed.present_untouched)
  then show ?thesis using assms(2)
    by (simp add: seed_test_workspace_def bind_op_def read_op_def raise_op_def return_op_def scalar_one_or_none_def [of "[t]"]
        split: sum.split option.split)
qed

text \<open>
  Seeding the test workspace is idempotent: after a run that succeeded, the workspace has exactly one live segment and
  one live collateral type for each entry of the script's lists, and any further run, at any time and with any order of its
  queries, changes nothing, whether it succeeds or not.
\<close>

lemma seeding_is_idempotent:
  assumes "with_db (seed_test_workspace order e) d = (Inr n, d')"
  shows "(\<exists>t. filter (\<lambda>t. t_slug t = TENANT_SLUG) (tenants d') = [t] \<and> seeded (t_id t) d')
    \<and> snd (with_db (seed_test_workspace order' e') d') = d'"
proof -
  have "seed_test_workspace order e d = (Inr n, d')"
    using assms by (auto simp: with_db_def split: prod.splits sum.splits)
  then obtain t where t: "filter (\<lambda>t. t_slug t = TENANT_SLUG) (tenants d') = [t]" "seeded (t_id t) d'"
    by (rule seed_test_workspace_runs) auto
  have "snd (with_db (seed_test_workspace order' e') d') = d'"
    using seeded_untouched [OF t(2,1), of order' e'] by (auto simp: with_db_def split: prod.splits sum.splits)
  then show ?thesis using t by blast
qed

definition dev_db :: db where
  "dev_db = snd (with_db (seed_dev_data sample_env) empty_db)"

lemma seeding_is_idempotent_witness:
  "\<exists>d'. with_db (seed_test_workspace id sample_env) dev_db = (Inr (3, 4), d')
    \<and> snd (with_db (seed_test_workspace id jwt_env) d') = d'"
proof -
  have "fst (with_db (seed_test_workspace id sample_env) dev_db) = Inr (3, 4)"
    by code_simp
  then have "with_db (seed_test_workspace id sample_env) dev_db = (Inr (3, 4), snd (with_db (seed_test_workspace id sample_env) dev_db))"
    by (metis prod.collapse)
  then show ?thesis using seeding_is_idempotent [of id sample_env dev_db "(3, 4)"] by blast
qed

end
