(* ===== verification/Spec2Isabelle.thy ===== *)
theory Spec2Isabelle
  imports Isolation Health Onboarding Routes Reports Deployment Seeds
begin

text \<open>
  The ECL server computes the expected credit losses of loan portfolios for the workspaces of several banks. A member
  of a workspace creates a run and uploads three workbooks (PD history, LGD loans, EAD loans); the service
  validates them, three background tasks compute probabilities of default, losses given default and the losses
  themselves, and the results are stored, explored and downloaded. Around this core stand accounts, sessions,
  workspaces and their members, catalogues of segments and collateral types, invitations, onboarding, notifications,
  mail, a console for the platform operator and the layers of the web application. This library models these parts
  as executable functions, one theory per component, and proves what makes each of them correct. Where the code does not do
  what it promises, the theorems say so.

  \<^bold>\<open>How the model reads the code.\<close>

  \<^item> A Python function is a definition with its name. A table of the database is the list of its rows in
    creation order, and \<open>db\<close> (theory \<open>Database\<close>) is the record of the tables; a service function is an operation \<open>('s, 'a) op\<close>
    on it, which returns a value or the exception that was raised, with the new state. \<open>with_db\<close> is the transaction of a
    request in \<^verbatim>\<open>app/database.py\<close>: an exception undoes the changes. \<open>with_db_sys\<close> is the same for an operation that
    also acts on Redis or on the object storage, which a rollback does not reach.
  \<^item> An exception keeps its code and its HTTP status. Each \<^verbatim>\<open>raise\<close>, early return and failing library call of the source
    is a branch of the model. Only theory \<open>Application\<close> also has the detail texts and the bodies of responses.
  \<^item> Numbers (floats, decimals) are exact rationals; the rounding to the columns of the database is a parameter.
    Times are integers in UTC. Identifiers and secrets are numbered draws of the environment \<open>env\<close> of a request.
  \<^item> A query without \<^verbatim>\<open>ORDER BY\<close> returns the rows in creation order, as PostgreSQL does for tables that are only
    appended to; \<^verbatim>\<open>_load_pd_dataframe\<close> and \<^verbatim>\<open>_load_lgd_dataframe\<close> of the compute task rely on this. Where the code depends on the
    order in a way a theorem shows (\<open>order_law\<close> below, the seeding scripts), the order is a parameter. Rows created
    in one request, such as the copies of a rerun, are in the order of their insertion also where their \<^verbatim>\<open>created_at\<close> is equal.
  \<^item> A pandas frame is a list of typed rows; the conversion of a cell is the record \<open>reader\<close>. A date is converted cell by cell (pandas
    infers one format for a column) and keeps no time of day. A customer is present in every row: rows without one, which
    a \<^verbatim>\<open>groupby\<close> drops, are not in the model of the aggregates. The list of warnings of a run is stored as it is.
  \<^item> Code outside of the repository is a parameter, and what a theorem uses of it is a named law, shown to hold of a
    concrete instance by the witness of that theorem: \<open>date_offset_law\<close> (pandas), \<open>matrix_power_law\<close> (numpy),
    \<open>pmt_law\<close> (numpy-financial), \<open>numeric_law\<close> (columns of fixed scale), \<open>store_law\<close> (an object store returns what was put),
    \<open>jwt_law\<close> (a signed token decodes until it expires), \<open>fernet_law\<close> (the key is configured and decryption undoes encryption), \<open>order_law\<close> (a query
    without an order returns the same rows), \<open>str_dict_law\<close> and \<open>response_law\<close> (validation of responses), \<open>codec_law\<close>
    (JSON text), \<open>framework_law\<close> (Starlette and starlette-csrf). Hashes, the delivery of mail, templates and the breach lookup are
    parameters without laws.

  \<^bold>\<open>The engine.\<close>

  \<^item> \<open>Prelude\<close>: values, strings, tables as lists of rows, joins and groups, with the laws the other theories share.
    \<open>Calendar\<close>: dates and months.
  \<^item> \<open>PdEngine\<close> (\<^verbatim>\<open>engine/pd_engine.py\<close>): transition counts, normalised matrices, cure rates, powers and marginal
    probabilities. The results are probabilities, and the product of the complements of the marginals is the survival probability
    up to the threshold of the engine, on saturated curves too.
  \<^item> \<open>LgdEngine\<close> (\<^verbatim>\<open>engine/lgd_engine.py\<close>): the pool of collateral of a customer is shared out exactly once and discounted
    within its value.
  \<^item> \<open>EadEngine\<close> (\<^verbatim>\<open>engine/ead_engine.py\<close>): instalments, the walk of balances, the snapshots per stage, the joins with
    PD and LGD and the losses: the amortisation in closed form, the effect of missed payments, the exact schedule, the bounds of every
    loss and the exact condition of the error EC-08.
  \<^item> \<open>ResultStore\<close> (\<^verbatim>\<open>engine/bulk_insert.py\<close>, the storing parts of \<^verbatim>\<open>tasks/compute_tasks.py\<close>): what a stage stores is what the next one
    loads; the locale \<open>loss_inputs\<close> carries the bounds of the losses to stored inputs. \<open>Aggregates\<close>
    (\<^verbatim>\<open>engine/excel_writer.py\<close>): the aggregates of a run partition its total.

  \<^bold>\<open>Validation.\<close> \<open>Validators\<close> and \<open>UploadValidators\<close> (\<^verbatim>\<open>engine/validators\<close>): the locale \<open>blocking_check\<close> is the interface of a
  check that reports at most the remaining capacity of one hundred issues; its interpretations give that the PD and EAD validators
  accept exactly the frames that meet a declarative contract.

  \<^bold>\<open>Services.\<close>

  \<^item> \<open>Database\<close>, \<open>Access\<close> (\<^verbatim>\<open>dependencies.py\<close>, \<^verbatim>\<open>core/cache.py\<close>), \<open>Catalog\<close> (segments and collateral types; the locale
    \<open>named_catalog\<close> gives the uniqueness of live names by refinement of an abstract catalogue), \<open>Tenancy\<close> (workspaces and members;
    the locale \<open>role_gate\<close>), \<open>Auth\<close> (accounts, logins, refresh tokens): every workspace keeps an administrator, changes
    need the role, a family of refresh tokens has one live token.
  \<^item> \<open>Invites\<close>, \<open>Sessions\<close>, \<open>Onboarding\<close>, \<open>Notifications\<close>, \<open>Routes\<close>: invitations are used once, a change of the password keeps
    one login, the second factor enrols and checks, onboarding happens once and leaves exactly what was asked for; \<open>Routes\<close> composes the endpoints with the validation of
    their responses and shows that a second factor locks its owner out.
  \<^item> \<open>Runs\<close>, \<open>RunValidation\<close>, \<open>RunRequests\<close>, \<open>RunLifecycle\<close>, \<open>Isolation\<close> (\<^verbatim>\<open>modules/runs\<close>, \<^verbatim>\<open>core/storage.py\<close>), with the
    texts of \<open>Formats\<close>: validation decides over execution, the requests refine the step relation of the life
    cycle, requests stay in their workspace, and a rejected replacement loses the file it was to replace.
  \<^item> \<open>Compute\<close> (\<^verbatim>\<open>tasks/compute_tasks.py\<close>): the tasks from commit to commit as a step relation with every
    interleaving; a run whose stages meet no error completes with the results of the stages
    run one after the other, and the failure of one stage can be hidden by the other. \<open>Cleanup\<close>
    (\<^verbatim>\<open>tasks/cleanup_tasks.py\<close>): the periodic jobs, the fate of every email of the outbox and of every stuck run. \<open>Mail\<close>
    (\<^verbatim>\<open>tasks/email_tasks.py\<close>, \<^verbatim>\<open>core/email.py\<close>): the mail tasks with their retries, from the row of the outbox to the verified address.
  \<^item> \<open>Results\<close> (\<^verbatim>\<open>modules/results\<close>, the downloads of \<^verbatim>\<open>modules/runs/router.py\<close>): the views over stored rows. \<open>Reports\<close> joins it
    to \<open>Compute\<close>: a portfolio view shows the totals that the compute task stored with the run.
  \<^item> \<open>Platform\<close> (\<^verbatim>\<open>modules/platform\<close>): the console; suspension writes one status column and no request depends on it, so it changes no access.
    \<open>Health\<close> (\<^verbatim>\<open>main.py\<close>, \<^verbatim>\<open>modules/audit\<close>): probes, the health page and the audit listings.

  \<^bold>\<open>The application around them.\<close>

  \<^item> \<open>Application\<close> (\<^verbatim>\<open>config.py\<close>, \<^verbatim>\<open>core/exceptions.py\<close>, \<^verbatim>\<open>core/middleware.py\<close>, \<^verbatim>\<open>main.py\<close>, \<^verbatim>\<open>routers.py\<close>): settings, responses of
    exceptions, layers and routes; which responses carry the identifier of the request, and which requests are checked against
    forgery.
  \<^item> \<open>Deployment\<close>: the published keys, connections, the schedule of the task queue, the demo request. \<open>Seeds\<close>
    (\<^verbatim>\<open>scripts\<close>): the seeding scripts, with the locale \<open>seeding\<close> for their loop.

  \<^bold>\<open>Bounds.\<close> No definition runs on fuel; recursion is structural or has a termination proof. An execution of the pipeline has at most 22
  moves (a lemma of \<open>Compute\<close>), the outbox poll takes 100 rows and gives a row up after five attempts, a mail task makes four attempts, a stage
  counts as stuck after 45 minutes and a queued run after ten.

  \<^bold>\<open>Not modelled.\<close>

  \<^item> Concurrent requests on the same rows and overlapping polls of the outbox: a request is one transaction. The interleavings of the three
    compute tasks are modelled.
  \<^item> In the pipeline: time limits and lost workers that raise inside a task, the redelivery of a task (\<^verbatim>\<open>task_acks_late\<close>,
    \<^verbatim>\<open>task_reject_on_worker_lost\<close>) and statements that fail. A task that dies silently is an execution that stops early; the recovery
    job is proved to settle its run.
  \<^item> An installation without \<^verbatim>\<open>starlette-csrf\<close>, a declared dependency, for which \<^verbatim>\<open>main.py\<close> skips the check against forgery, and the
    metrics layer.
  \<^item> Rate limits (the counters are those of a library; only their store is modelled), log lines, metrics and
    error reporting, the probes at start-up, pools and event loops.
  \<^item> Cells, fonts and number formats of workbooks, HTML of mails, images of QR codes, hashes and ciphers: parameters, since they
    are work of libraries.
  \<^item> Columns that no modelled operation reads, lengths of text columns, the syntax check of addresses, and the
    migrations, which create the tables of the models.
  \<^item> The unused inline pipeline of \<^verbatim>\<open>compute_tasks.py\<close> and the scripts that write templates and random test data.
\<close>

end
